(* ===== verification/Prelude.thy ===== *)
theory Prelude
  imports Main "HOL-Library.Sublist" "HOL-Library.AList" "HOL-Library.Char_ord"
    "HOL-Library.List_Lexorder"
begin

text \<open>
  What the components share: the collections their automation uses, the error and result
  types, and the functions of Go's \<open>strings\<close> package on byte strings.

  A Go string is a sequence of bytes, so \<open>string\<close> (a list of 8-bit \<open>char\<close>s) has exactly its
  values. White space and letter case are those of ASCII: \<open>strings.TrimSpace\<close> also strips, and
  \<open>strings.ToLower\<close> also maps, code points beyond ASCII, which are left as they are here.
  A Go map is an association list read through \<open>map_of\<close> and written with \<open>AList.update\<close>.
\<close>

section \<open>Collections\<close>

named_theorems go_defs \<open>definitions of the source's small helper functions\<close>
named_theorems pipeline_simps \<open>characteristic equations of the tool pipeline\<close>
named_theorems keeps \<open>fields an operation leaves unchanged\<close>

section \<open>Errors and results\<close>

text \<open>
  Go's \<open>error\<close> values: the sentinel that \<open>errors.Is\<close> compares, and any other error by its text.
\<close>

datatype go_error = ErrApprovalNotFound | Err string

type_synonym 'a res = "go_error + 'a"

fun error_text :: "go_error \<Rightarrow> string" where
  "error_text ErrApprovalNotFound = ''approval not found''"
| "error_text (Err s) = s"

section \<open>Strings\<close>

abbreviation has_prefix :: "string \<Rightarrow> string \<Rightarrow> bool" where
  "has_prefix s p \<equiv> prefix p s"

abbreviation has_suffix :: "string \<Rightarrow> string \<Rightarrow> bool" where
  "has_suffix s x \<equiv> suffix x s"

abbreviation has_sub :: "string \<Rightarrow> string \<Rightarrow> bool" where
  "has_sub s x \<equiv> sublist x s"

definition trim_prefix :: "string \<Rightarrow> string \<Rightarrow> string" where
  "trim_prefix s p = (if has_prefix s p then drop (length p) s else s)"

definition trim_suffix :: "string \<Rightarrow> string \<Rightarrow> string" where
  "trim_suffix s x = (if has_suffix s x then take (length s - length x) s else s)"

definition is_space :: "char \<Rightarrow> bool" where
  "is_space c \<longleftrightarrow> c \<in> {CHR '' '', CHR 0x09, CHR 0x0A, CHR 0x0B, CHR 0x0C, CHR 0x0D}"

definition trim_chars :: "(char \<Rightarrow> bool) \<Rightarrow> string \<Rightarrow> string" where
  "trim_chars f s = rev (dropWhile f (rev (dropWhile f s)))"

definition trim_space :: "string \<Rightarrow> string" where
  "trim_space = trim_chars is_space"

definition lower_char :: "char \<Rightarrow> char" where
  "lower_char c = (if CHR ''A'' \<le> c \<and> c \<le> CHR ''Z'' then char_of (of_char c + 32 :: nat) else c)"

definition upper_char :: "char \<Rightarrow> char" where
  "upper_char c = (if CHR ''a'' \<le> c \<and> c \<le> CHR ''z'' then char_of (of_char c - 32 :: nat) else c)"

definition to_lower :: "string \<Rightarrow> string" where
  "to_lower = map lower_char"

definition to_upper :: "string \<Rightarrow> string" where
  "to_upper = map upper_char"

text \<open>\<open>strings.Split(s, sep)\<close> for a separator of one byte: at least one part, the last may be empty.\<close>

fun split_on :: "char \<Rightarrow> string \<Rightarrow> string list" where
  "split_on c [] = [[]]"
| "split_on c (x # xs) =
     (case split_on c xs of
        [] \<Rightarrow> [[x]]
      | y # ys \<Rightarrow> if x = c then [] # y # ys else (x # y) # ys)"

text \<open>\<open>strings.Join\<close>.\<close>

fun join :: "string \<Rightarrow> string list \<Rightarrow> string" where
  "join sep [] = []"
| "join sep [x] = x"
| "join sep (x # y # ys) = x @ sep @ join sep (y # ys)"

text \<open>\<open>strings.Fields\<close>: the maximal runs of non-space characters.\<close>

definition str_fields :: "string \<Rightarrow> string list" where
  "str_fields s = filter (\<lambda>x. x \<noteq> []) (split_on CHR '' '' (map (\<lambda>c. if is_space c then CHR '' '' else c) s))"

text \<open>\<open>strings.Index\<close>, with None for the result -1.\<close>

fun str_index :: "string \<Rightarrow> string \<Rightarrow> nat option" where
  "str_index [] x = (if x = [] then Some 0 else None)"
| "str_index (c # s) x = (if prefix x (c # s) then Some 0 else map_option Suc (str_index s x))"

section \<open>Decimal numbers\<close>

definition digit_char :: "nat \<Rightarrow> char" where
  "digit_char d = char_of (48 + d)"

fun show_nat :: "nat \<Rightarrow> string" where
  "show_nat n = (if n < 10 then [digit_char n] else show_nat (n div 10) @ [digit_char (n mod 10)])"

declare show_nat.simps [simp del]

definition show_int :: "int \<Rightarrow> string" where
  "show_int i = (if i < 0 then CHR ''-'' # show_nat (nat (- i)) else show_nat (nat i))"

section \<open>Lemmas on strings\<close>

lemma sublist_append_left: "sublist x s \<Longrightarrow> sublist x (s @ t)"
  unfolding sublist_def by (metis append.assoc)

lemma sublist_append_right: "sublist x t \<Longrightarrow> sublist x (s @ t)"
  unfolding sublist_def by (metis append.assoc)

lemma to_lower_append [simp]: "to_lower (s @ t) = to_lower s @ to_lower t"
  by (simp add: to_lower_def)

lemma length_to_lower [simp]: "length (to_lower s) = length s"
  by (simp add: to_lower_def)

lemma sublist_map: "sublist x s \<Longrightarrow> sublist (map f x) (map f s)"
  unfolding sublist_def by (metis map_append)

lemma sublist_to_lower: "sublist x s \<Longrightarrow> sublist (to_lower x) (to_lower s)"
  by (simp add: to_lower_def sublist_map)

lemma lower_char_idem [simp]: "lower_char (lower_char c) = lower_char c"
proof (cases "CHR ''A'' \<le> c \<and> c \<le> CHR ''Z''")
  case True
  let ?n = "of_char c :: nat"
  from True have n: "65 \<le> ?n" "?n \<le> 90" by (simp_all add: less_eq_char_def)
  then have "\<not> char_of (?n + 32) \<le> CHR ''Z''" by (simp add: less_eq_char_def)
  with True show ?thesis by (simp add: lower_char_def)
next
  case False
  then have "lower_char c = c"
    unfolding lower_char_def by (rule if_not_P)
  then show ?thesis by simp
qed

lemma to_lower_idem [simp]: "to_lower (to_lower s) = to_lower s"
  by (simp add: to_lower_def)

lemma split_on_not_Nil [simp]: "split_on c s \<noteq> []"
  by (induction s) (auto split: list.splits)

lemma join_split_on: "join [c] (split_on c s) = s"
proof (induction s)
  case Nil
  show ?case by simp
next
  case (Cons x xs)
  obtain y ys where y: "split_on c xs = y # ys"
    by (cases "split_on c xs") auto
  with Cons.IH show ?case
    by (cases ys) auto
qed

lemma split_on_no_sep: "p \<in> set (split_on c s) \<Longrightarrow> c \<notin> set p"
  by (induction s arbitrary: p) (auto split: list.splits if_splits)

lemma set_dropWhile_subset: "set (dropWhile f s) \<subseteq> set s"
  by (induction s) auto

lemma trim_chars_subset: "set (trim_chars f s) \<subseteq> set s"
  unfolding trim_chars_def
  by (metis set_dropWhile_subset set_rev subset_trans)

section \<open>Order-preserving removal of duplicates\<close>

text \<open>
  The source has several helpers of one shape (\<open>uniq\<close>, \<open>uniqStrings\<close>, \<open>uniqueStrings\<close>): walk the
  slice, skip the items a test drops, keep the first occurrence of each of the others.
\<close>

fun uniq_from :: "'a list \<Rightarrow> 'a list \<Rightarrow> 'a list" where
  "uniq_from seen [] = []"
| "uniq_from seen (x # xs) =
     (if x \<in> set seen then uniq_from seen xs else x # uniq_from (x # seen) xs)"

lemma set_uniq_from: "set (uniq_from seen xs) = set xs - set seen"
  by (induction xs arbitrary: seen) auto

lemma distinct_uniq_from: "distinct (uniq_from seen xs)"
  by (induction xs arbitrary: seen) (auto simp: set_uniq_from)

lemma uniq_from_distinct_id:
  "distinct xs \<Longrightarrow> set xs \<inter> set seen = {} \<Longrightarrow> uniq_from seen xs = xs"
  by (induction xs arbitrary: seen) auto

lemma subseq_uniq_from: "subseq (uniq_from seen xs) xs"
  by (induction xs arbitrary: seen) auto

end
