(* ===== verification/Messages.thy ===== *)
theory Messages
  imports Prelude
begin

text \<open>
  The Chinese texts of \<open>internal/agent\<close> as UTF-8 bytes, split where the code's format strings take an
  argument. A comment gives the meaning of each.
\<close>

text \<open>about to run the shell command\<close>

definition zh_prepare_shell :: string where
  "zh_prepare_shell =
    [CHR 0xE5, CHR 0x87, CHR 0x86, CHR 0xE5, CHR 0xA4, CHR 0x87, CHR 0xE6, CHR 0x89, CHR 0xA7,
     CHR 0xE8, CHR 0xA1, CHR 0x8C, CHR 0x20, CHR 0x73, CHR 0x68, CHR 0x65, CHR 0x6C, CHR 0x6C,
     CHR 0x20, CHR 0xE5, CHR 0x91, CHR 0xBD, CHR 0xE4, CHR 0xBB, CHR 0xA4, CHR 0x20, CHR 0x60]"

text \<open>closing back quote, then: risk level\<close>

definition zh_risk_tail :: string where
  "zh_risk_tail =
    [CHR 0x60, CHR 0xEF, CHR 0xBC, CHR 0x8C, CHR 0xE9, CHR 0xA3, CHR 0x8E, CHR 0xE9, CHR 0x99,
     CHR 0xA9, CHR 0xE7, CHR 0xAD, CHR 0x89, CHR 0xE7, CHR 0xBA, CHR 0xA7, CHR 0xE4, CHR 0xB8,
     CHR 0xBA, CHR 0x20]"

text \<open>full stop\<close>

definition zh_stop :: string where
  "zh_stop =
    [CHR 0xE3, CHR 0x80, CHR 0x82]"

text \<open>about to change the workspace file\<close>

definition zh_prepare_file :: string where
  "zh_prepare_file =
    [CHR 0xE5, CHR 0x87, CHR 0x86, CHR 0xE5, CHR 0xA4, CHR 0x87, CHR 0xE4, CHR 0xBF, CHR 0xAE,
     CHR 0xE6, CHR 0x94, CHR 0xB9, CHR 0xE5, CHR 0xB7, CHR 0xA5, CHR 0xE4, CHR 0xBD, CHR 0x9C,
     CHR 0xE5, CHR 0x8C, CHR 0xBA, CHR 0xE6, CHR 0x96, CHR 0x87, CHR 0xE4, CHR 0xBB, CHR 0xB6,
     CHR 0x20, CHR 0x60]"

text \<open>closing back quote and full stop\<close>

definition zh_tick_stop :: string where
  "zh_tick_stop =
    [CHR 0x60, CHR 0xE3, CHR 0x80, CHR 0x82]"

text \<open>about to change\<close>

definition zh_prepare_files :: string where
  "zh_prepare_files =
    [CHR 0xE5, CHR 0x87, CHR 0x86, CHR 0xE5, CHR 0xA4, CHR 0x87, CHR 0xE4, CHR 0xBF, CHR 0xAE,
     CHR 0xE6, CHR 0x94, CHR 0xB9, CHR 0x20]"

text \<open>workspace files\<close>

definition zh_files_stop :: string where
  "zh_files_stop =
    [CHR 0x20, CHR 0xE4, CHR 0xB8, CHR 0xAA, CHR 0xE5, CHR 0xB7, CHR 0xA5, CHR 0xE4, CHR 0xBD,
     CHR 0x9C, CHR 0xE5, CHR 0x8C, CHR 0xBA, CHR 0xE6, CHR 0x96, CHR 0x87, CHR 0xE4, CHR 0xBB,
     CHR 0xB6, CHR 0xE3, CHR 0x80, CHR 0x82]"

text \<open>about to run the test command\<close>

definition zh_prepare_test :: string where
  "zh_prepare_test =
    [CHR 0xE5, CHR 0x87, CHR 0x86, CHR 0xE5, CHR 0xA4, CHR 0x87, CHR 0xE8, CHR 0xBF, CHR 0x90,
     CHR 0xE8, CHR 0xA1, CHR 0x8C, CHR 0xE6, CHR 0xB5, CHR 0x8B, CHR 0xE8, CHR 0xAF, CHR 0x95,
     CHR 0xE5, CHR 0x91, CHR 0xBD, CHR 0xE4, CHR 0xBB, CHR 0xA4, CHR 0x20, CHR 0x60]"

text \<open>about to run the detected test command, risk level\<close>

definition zh_prepare_detected :: string where
  "zh_prepare_detected =
    [CHR 0xE5, CHR 0x87, CHR 0x86, CHR 0xE5, CHR 0xA4, CHR 0x87, CHR 0xE8, CHR 0xBF, CHR 0x90,
     CHR 0xE8, CHR 0xA1, CHR 0x8C, CHR 0xE6, CHR 0xA3, CHR 0x80, CHR 0xE6, CHR 0xB5, CHR 0x8B,
     CHR 0xE5, CHR 0x88, CHR 0xB0, CHR 0xE7, CHR 0x9A, CHR 0x84, CHR 0xE6, CHR 0xB5, CHR 0x8B,
     CHR 0xE8, CHR 0xAF, CHR 0x95, CHR 0xE5, CHR 0x91, CHR 0xBD, CHR 0xE4, CHR 0xBB, CHR 0xA4,
     CHR 0xEF, CHR 0xBC, CHR 0x8C, CHR 0xE9, CHR 0xA3, CHR 0x8E, CHR 0xE9, CHR 0x99, CHR 0xA9,
     CHR 0xE7, CHR 0xAD, CHR 0x89, CHR 0xE7, CHR 0xBA, CHR 0xA7, CHR 0xE4, CHR 0xB8, CHR 0xBA,
     CHR 0x20]"

text \<open>about to execute\<close>

definition zh_prepare :: string where
  "zh_prepare =
    [CHR 0xE5, CHR 0x87, CHR 0x86, CHR 0xE5, CHR 0xA4, CHR 0x87, CHR 0xE6, CHR 0x89, CHR 0xA7,
     CHR 0xE8, CHR 0xA1, CHR 0x8C, CHR 0x20, CHR 0x60]"

text \<open>affecting\<close>

definition zh_affects :: string where
  "zh_affects =
    [CHR 0x60, CHR 0xEF, CHR 0xBC, CHR 0x8C, CHR 0xE5, CHR 0xBD, CHR 0xB1, CHR 0xE5, CHR 0x93,
     CHR 0x8D, CHR 0x20]"

text \<open>paths, risk level\<close>

definition zh_paths_risk :: string where
  "zh_paths_risk =
    [CHR 0x20, CHR 0xE4, CHR 0xB8, CHR 0xAA, CHR 0xE8, CHR 0xB7, CHR 0xAF, CHR 0xE5, CHR 0xBE,
     CHR 0x84, CHR 0xEF, CHR 0xBC, CHR 0x8C, CHR 0xE9, CHR 0xA3, CHR 0x8E, CHR 0xE9, CHR 0x99,
     CHR 0xA9, CHR 0xE7, CHR 0xAD, CHR 0x89, CHR 0xE7, CHR 0xBA, CHR 0xA7, CHR 0xE4, CHR 0xB8,
     CHR 0xBA, CHR 0x20]"

text \<open>about to create a local commit, with its message\<close>

definition zh_prepare_commit_msg :: string where
  "zh_prepare_commit_msg =
    [CHR 0xE5, CHR 0x87, CHR 0x86, CHR 0xE5, CHR 0xA4, CHR 0x87, CHR 0xE5, CHR 0x88, CHR 0x9B,
     CHR 0xE5, CHR 0xBB, CHR 0xBA, CHR 0xE6, CHR 0x9C, CHR 0xAC, CHR 0xE5, CHR 0x9C, CHR 0xB0,
     CHR 0x20, CHR 0x63, CHR 0x6F, CHR 0x6D, CHR 0x6D, CHR 0x69, CHR 0x74, CHR 0xEF, CHR 0xBC,
     CHR 0x9A, CHR 0x60]"

text \<open>about to create a local commit, risk level\<close>

definition zh_prepare_commit :: string where
  "zh_prepare_commit =
    [CHR 0xE5, CHR 0x87, CHR 0x86, CHR 0xE5, CHR 0xA4, CHR 0x87, CHR 0xE5, CHR 0x88, CHR 0x9B,
     CHR 0xE5, CHR 0xBB, CHR 0xBA, CHR 0xE6, CHR 0x9C, CHR 0xAC, CHR 0xE5, CHR 0x9C, CHR 0xB0,
     CHR 0x20, CHR 0x63, CHR 0x6F, CHR 0x6D, CHR 0x6D, CHR 0x69, CHR 0x74, CHR 0xEF, CHR 0xBC,
     CHR 0x8C, CHR 0xE9, CHR 0xA3, CHR 0x8E, CHR 0xE9, CHR 0x99, CHR 0xA9, CHR 0xE7, CHR 0xAD,
     CHR 0x89, CHR 0xE7, CHR 0xBA, CHR 0xA7, CHR 0xE4, CHR 0xB8, CHR 0xBA, CHR 0x20]"

text \<open>about to change the Markdown memory\<close>

definition zh_prepare_memory :: string where
  "zh_prepare_memory =
    [CHR 0xE5, CHR 0x87, CHR 0x86, CHR 0xE5, CHR 0xA4, CHR 0x87, CHR 0xE4, CHR 0xBF, CHR 0xAE,
     CHR 0xE6, CHR 0x94, CHR 0xB9, CHR 0x20, CHR 0x4D, CHR 0x61, CHR 0x72, CHR 0x6B, CHR 0x64,
     CHR 0x6F, CHR 0x77, CHR 0x6E, CHR 0x20, CHR 0x6D, CHR 0x65, CHR 0x6D, CHR 0x6F, CHR 0x72,
     CHR 0x79, CHR 0x20, CHR 0x60]"

text \<open>about to write the memory review queue\<close>

definition zh_memory_queue :: string where
  "zh_memory_queue =
    [CHR 0xE5, CHR 0x87, CHR 0x86, CHR 0xE5, CHR 0xA4, CHR 0x87, CHR 0xE5, CHR 0x86, CHR 0x99,
     CHR 0xE5, CHR 0x85, CHR 0xA5, CHR 0x20, CHR 0x6D, CHR 0x65, CHR 0x6D, CHR 0x6F, CHR 0x72,
     CHR 0x79, CHR 0x20, CHR 0x72, CHR 0x65, CHR 0x76, CHR 0x69, CHR 0x65, CHR 0x77, CHR 0x20,
     CHR 0x71, CHR 0x75, CHR 0x65, CHR 0x75, CHR 0x65, CHR 0xEF, CHR 0xBC, CHR 0x8C, CHR 0xE9,
     CHR 0x95, CHR 0xBF, CHR 0xE6, CHR 0x9C, CHR 0x9F, CHR 0xE8, CHR 0xAE, CHR 0xB0, CHR 0xE5,
     CHR 0xBF, CHR 0x86, CHR 0xE6, CHR 0xAD, CHR 0xA3, CHR 0xE6, CHR 0x96, CHR 0x87, CHR 0xE5,
     CHR 0xB0, CHR 0x9A, CHR 0xE4, CHR 0xB8, CHR 0x8D, CHR 0xE4, CHR 0xBC, CHR 0x9A, CHR 0xE6,
     CHR 0x8F, CHR 0x90, CHR 0xE4, CHR 0xBA, CHR 0xA4, CHR 0xE3, CHR 0x80, CHR 0x82]"

text \<open>about to add a memory item\<close>

definition zh_memory_create :: string where
  "zh_memory_create =
    [CHR 0xE5, CHR 0x87, CHR 0x86, CHR 0xE5, CHR 0xA4, CHR 0x87, CHR 0xE6, CHR 0x96, CHR 0xB0,
     CHR 0xE5, CHR 0xA2, CHR 0x9E, CHR 0xE4, CHR 0xB8, CHR 0x80, CHR 0xE6, CHR 0x9D, CHR 0xA1,
     CHR 0x20, CHR 0x4D, CHR 0x61, CHR 0x72, CHR 0x6B, CHR 0x64, CHR 0x6F, CHR 0x77, CHR 0x6E,
     CHR 0x2D, CHR 0x62, CHR 0x61, CHR 0x63, CHR 0x6B, CHR 0x65, CHR 0x64, CHR 0x20, CHR 0x6D,
     CHR 0x65, CHR 0x6D, CHR 0x6F, CHR 0x72, CHR 0x79, CHR 0x20, CHR 0x69, CHR 0x74, CHR 0x65,
     CHR 0x6D, CHR 0xE3, CHR 0x80, CHR 0x82]"

text \<open>about to update the memory item\<close>

definition zh_memory_update :: string where
  "zh_memory_update =
    [CHR 0xE5, CHR 0x87, CHR 0x86, CHR 0xE5, CHR 0xA4, CHR 0x87, CHR 0xE6, CHR 0x9B, CHR 0xB4,
     CHR 0xE6, CHR 0x96, CHR 0xB0, CHR 0x20, CHR 0x6D, CHR 0x65, CHR 0x6D, CHR 0x6F, CHR 0x72,
     CHR 0x79, CHR 0x20, CHR 0x69, CHR 0x74, CHR 0x65, CHR 0x6D, CHR 0x20, CHR 0x60]"

text \<open>target memory item\<close>

definition zh_memory_target :: string where
  "zh_memory_target =
    [CHR 0x60, CHR 0xEF, CHR 0xBC, CHR 0x8C, CHR 0xE7, CHR 0x9B, CHR 0xAE, CHR 0xE6, CHR 0xA0,
     CHR 0x87, CHR 0x20, CHR 0x6D, CHR 0x65, CHR 0x6D, CHR 0x6F, CHR 0x72, CHR 0x79, CHR 0x20,
     CHR 0x69, CHR 0x74, CHR 0x65, CHR 0x6D, CHR 0x20, CHR 0x60]"

text \<open>about to run the skill\<close>

definition zh_prepare_skill :: string where
  "zh_prepare_skill =
    [CHR 0xE5, CHR 0x87, CHR 0x86, CHR 0xE5, CHR 0xA4, CHR 0x87, CHR 0xE6, CHR 0x89, CHR 0xA7,
     CHR 0xE8, CHR 0xA1, CHR 0x8C, CHR 0x20, CHR 0x73, CHR 0x6B, CHR 0x69, CHR 0x6C, CHR 0x6C,
     CHR 0x20, CHR 0x60]"

text \<open>about to call the MCP tool\<close>

definition zh_prepare_mcp :: string where
  "zh_prepare_mcp =
    [CHR 0xE5, CHR 0x87, CHR 0x86, CHR 0xE5, CHR 0xA4, CHR 0x87, CHR 0xE8, CHR 0xB0, CHR 0x83,
     CHR 0xE7, CHR 0x94, CHR 0xA8, CHR 0x20, CHR 0x4D, CHR 0x43, CHR 0x50, CHR 0x20, CHR 0xE5,
     CHR 0xB7, CHR 0xA5, CHR 0xE5, CHR 0x85, CHR 0xB7, CHR 0x20, CHR 0x60]"

text \<open>about to run the operations tool\<close>

definition zh_prepare_ops :: string where
  "zh_prepare_ops =
    [CHR 0xE5, CHR 0x87, CHR 0x86, CHR 0xE5, CHR 0xA4, CHR 0x87, CHR 0xE6, CHR 0x89, CHR 0xA7,
     CHR 0xE8, CHR 0xA1, CHR 0x8C, CHR 0xE8, CHR 0xBF, CHR 0x90, CHR 0xE7, CHR 0xBB, CHR 0xB4,
     CHR 0xE6, CHR 0x93, CHR 0x8D, CHR 0xE4, CHR 0xBD, CHR 0x9C, CHR 0x20, CHR 0x60]"

text \<open>target\<close>

definition zh_ops_target :: string where
  "zh_ops_target =
    [CHR 0x60, CHR 0xEF, CHR 0xBC, CHR 0x8C, CHR 0xE7, CHR 0x9B, CHR 0xAE, CHR 0xE6, CHR 0xA0,
     CHR 0x87, CHR 0x20, CHR 0x60]"

text \<open>the operation was rejected and not executed\<close>

definition zh_rejected :: string where
  "zh_rejected =
    [CHR 0xE6, CHR 0x93, CHR 0x8D, CHR 0xE4, CHR 0xBD, CHR 0x9C, CHR 0xE5, CHR 0xB7, CHR 0xB2,
     CHR 0xE8, CHR 0xA2, CHR 0xAB, CHR 0xE6, CHR 0x8B, CHR 0x92, CHR 0xE7, CHR 0xBB, CHR 0x9D,
     CHR 0xEF, CHR 0xBC, CHR 0x8C, CHR 0xE6, CHR 0x9C, CHR 0xAA, CHR 0xE6, CHR 0x89, CHR 0xA7,
     CHR 0xE8, CHR 0xA1, CHR 0x8C, CHR 0xE3, CHR 0x80, CHR 0x82]"

text \<open>the operation needs approval before it runs\<close>

definition zh_needs_approval :: string where
  "zh_needs_approval =
    [CHR 0xE8, CHR 0xAF, CHR 0xA5, CHR 0xE6, CHR 0x93, CHR 0x8D, CHR 0xE4, CHR 0xBD, CHR 0x9C,
     CHR 0xE9, CHR 0x9C, CHR 0x80, CHR 0xE8, CHR 0xA6, CHR 0x81, CHR 0xE5, CHR 0xAE, CHR 0xA1,
     CHR 0xE6, CHR 0x89, CHR 0xB9, CHR 0xE5, CHR 0x90, CHR 0x8E, CHR 0xE6, CHR 0x89, CHR 0x8D,
     CHR 0xE8, CHR 0x83, CHR 0xBD, CHR 0xE6, CHR 0x89, CHR 0xA7, CHR 0xE8, CHR 0xA1, CHR 0x8C,
     CHR 0xE3, CHR 0x80, CHR 0x82]"

text \<open>the tool has finished\<close>

definition zh_tool_done :: string where
  "zh_tool_done =
    [CHR 0xE5, CHR 0xB7, CHR 0xA5, CHR 0xE5, CHR 0x85, CHR 0xB7, CHR 0xE6, CHR 0x89, CHR 0xA7,
     CHR 0xE8, CHR 0xA1, CHR 0x8C, CHR 0xE5, CHR 0xAE, CHR 0x8C, CHR 0xE6, CHR 0x88, CHR 0x90,
     CHR 0xE3, CHR 0x80, CHR 0x82]"

text \<open>the tool has finished, its output follows\<close>

definition zh_tool_output :: string where
  "zh_tool_output =
    [CHR 0xE5, CHR 0xB7, CHR 0xA5, CHR 0xE5, CHR 0x85, CHR 0xB7, CHR 0xE6, CHR 0x89, CHR 0xA7,
     CHR 0xE8, CHR 0xA1, CHR 0x8C, CHR 0xE5, CHR 0xAE, CHR 0x8C, CHR 0xE6, CHR 0x88, CHR 0x90,
     CHR 0xEF, CHR 0xBC, CHR 0x8C, CHR 0xE8, CHR 0xBE, CHR 0x93, CHR 0xE5, CHR 0x87, CHR 0xBA,
     CHR 0xE5, CHR 0xA6, CHR 0x82, CHR 0xE4, CHR 0xB8, CHR 0x8B, CHR 0xEF, CHR 0xBC, CHR 0x9A,
     CHR 0x0A]"

text \<open>the tool has finished, with status\<close>

definition zh_tool_status :: string where
  "zh_tool_status =
    [CHR 0xE5, CHR 0xB7, CHR 0xA5, CHR 0xE5, CHR 0x85, CHR 0xB7, CHR 0xE6, CHR 0x89, CHR 0xA7,
     CHR 0xE8, CHR 0xA1, CHR 0x8C, CHR 0xE5, CHR 0xAE, CHR 0x8C, CHR 0xE6, CHR 0x88, CHR 0x90,
     CHR 0xEF, CHR 0xBC, CHR 0x8C, CHR 0xE7, CHR 0x8A, CHR 0xB6, CHR 0xE6, CHR 0x80, CHR 0x81,
     CHR 0xE4, CHR 0xB8, CHR 0xBA, CHR 0x20]"

text \<open>the tool has failed\<close>

definition zh_tool_failed :: string where
  "zh_tool_failed =
    [CHR 0xE5, CHR 0xB7, CHR 0xA5, CHR 0xE5, CHR 0x85, CHR 0xB7, CHR 0xE6, CHR 0x89, CHR 0xA7,
     CHR 0xE8, CHR 0xA1, CHR 0x8C, CHR 0xE5, CHR 0xA4, CHR 0xB1, CHR 0xE8, CHR 0xB4, CHR 0xA5,
     CHR 0xEF, CHR 0xBC, CHR 0x9A]"

end
