(* ===== verification/Planner_Words.thy ===== *)
theory Planner_Words
  imports Messages
begin

text \<open>
  The Chinese texts and the word lists of the planners (\<open>internal/agent/planner\<close>, \<open>internal/agent/planner.go\<close>) as
  UTF-8 bytes. A comment gives the meaning of each text.
\<close>

text \<open>the candidate tools are not enough\<close>

definition zh_cand_short :: string where
  "zh_cand_short =
    [CHR 0xE5, CHR 0x80, CHR 0x99, CHR 0xE9, CHR 0x80, CHR 0x89, CHR 0xE5, CHR 0xB7, CHR 0xA5, CHR 0xE5,
     CHR 0x85, CHR 0xB7, CHR 0xE4, CHR 0xB8, CHR 0x8D, CHR 0xE8, CHR 0xB6, CHR 0xB3, CHR 0xE4, CHR 0xBB,
     CHR 0xA5, CHR 0xE5, CHR 0xAE, CHR 0x89, CHR 0xE5, CHR 0x85, CHR 0xA8, CHR 0xE5, CHR 0xA4, CHR 0x84,
     CHR 0xE7, CHR 0x90, CHR 0x86, CHR 0xE8, CHR 0xBF, CHR 0x99, CHR 0xE4, CHR 0xB8, CHR 0xAA, CHR 0xE8,
     CHR 0xAF, CHR 0xB7, CHR 0xE6, CHR 0xB1, CHR 0x82, CHR 0xEF, CHR 0xBC, CHR 0x8C, CHR 0xE8, CHR 0xAF,
     CHR 0xB7, CHR 0xE8, CHR 0xA1, CHR 0xA5, CHR 0xE5, CHR 0x85, CHR 0x85, CHR 0xE7, CHR 0x9B, CHR 0xAE,
     CHR 0xE6, CHR 0xA0, CHR 0x87, CHR 0xE6, CHR 0x88, CHR 0x96, CHR 0xE6, CHR 0x94, CHR 0xB9, CHR 0xE7,
     CHR 0x94, CHR 0xA8, CHR 0xE6, CHR 0x98, CHR 0x8E, CHR 0xE7, CHR 0xA1, CHR 0xAE, CHR 0xE7, CHR 0x9A,
     CHR 0x84, CHR 0xE5, CHR 0xB7, CHR 0xA5, CHR 0xE5, CHR 0x85, CHR 0xB7, CHR 0xE5, CHR 0x8F, CHR 0x82,
     CHR 0xE6, CHR 0x95, CHR 0xB0, CHR 0xE3, CHR 0x80, CHR 0x82]"

text \<open>the request does not ask for a shell command\<close>

definition zh_no_shell :: string where
  "zh_no_shell =
    [CHR 0xE5, CHR 0xBD, CHR 0x93, CHR 0xE5, CHR 0x89, CHR 0x8D, CHR 0xE8, CHR 0xAF, CHR 0xB7, CHR 0xE6,
     CHR 0xB1, CHR 0x82, CHR 0xE6, CHR 0xB2, CHR 0xA1, CHR 0xE6, CHR 0x9C, CHR 0x89, CHR 0xE6, CHR 0x98,
     CHR 0x8E, CHR 0xE7, CHR 0xA1, CHR 0xAE, CHR 0xE8, CHR 0xA6, CHR 0x81, CHR 0xE6, CHR 0xB1, CHR 0x82,
     CHR 0xE6, CHR 0x89, CHR 0xA7, CHR 0xE8, CHR 0xA1, CHR 0x8C, CHR 0x20, CHR 0x73, CHR 0x68, CHR 0x65,
     CHR 0x6C, CHR 0x6C, CHR 0x20, CHR 0xE5, CHR 0x91, CHR 0xBD, CHR 0xE4, CHR 0xBB, CHR 0xA4, CHR 0xEF,
     CHR 0xBC, CHR 0x8C, CHR 0xE4, CHR 0xB8, CHR 0x8D, CHR 0xE8, CHR 0x83, CHR 0xBD, CHR 0xE6, CHR 0x8A,
     CHR 0x8A, CHR 0x20, CHR 0x73, CHR 0x68, CHR 0x65, CHR 0x6C, CHR 0x6C, CHR 0x2E, CHR 0x65, CHR 0x78,
     CHR 0x65, CHR 0x63, CHR 0x20, CHR 0xE5, CHR 0xBD, CHR 0x93, CHR 0xE4, CHR 0xBD, CHR 0x9C, CHR 0xE7,
     CHR 0xBB, CHR 0x93, CHR 0xE6, CHR 0x9E, CHR 0x84, CHR 0xE5, CHR 0x8C, CHR 0x96, CHR 0xE5, CHR 0xB7,
     CHR 0xA5, CHR 0xE5, CHR 0x85, CHR 0xB7, CHR 0xE4, CHR 0xB8, CHR 0x8D, CHR 0xE8, CHR 0xB6, CHR 0xB3,
     CHR 0xE6, CHR 0x97, CHR 0xB6, CHR 0xE7, CHR 0x9A, CHR 0x84, CHR 0x20, CHR 0x66, CHR 0x61, CHR 0x6C,
     CHR 0x6C, CHR 0x62, CHR 0x61, CHR 0x63, CHR 0x6B, CHR 0xE3, CHR 0x80, CHR 0x82]"

text \<open>please add\<close>

definition zh_please :: string where
  "zh_please =
    [CHR 0xE8, CHR 0xAF, CHR 0xB7, CHR 0xE8, CHR 0xA1, CHR 0xA5, CHR 0xE5, CHR 0x85, CHR 0x85, CHR 0x20]"

text \<open>of\<close>

definition zh_of :: string where
  "zh_of =
    [CHR 0x20, CHR 0xE7, CHR 0x9A, CHR 0x84, CHR 0x20]"

text \<open>parameter\<close>

definition zh_parameter :: string where
  "zh_parameter =
    [CHR 0x20, CHR 0xE5, CHR 0x8F, CHR 0x82, CHR 0xE6, CHR 0x95, CHR 0xB0, CHR 0xE3, CHR 0x80, CHR 0x82]"

text \<open>the tool planner may not answer\<close>

definition zh_answer_refused :: string where
  "zh_answer_refused =
    [CHR 0xE8, CHR 0xBF, CHR 0x99, CHR 0xE4, CHR 0xB8, CHR 0xAA, CHR 0xE8, CHR 0xAF, CHR 0xB7, CHR 0xE6,
     CHR 0xB1, CHR 0x82, CHR 0xE4, CHR 0xB8, CHR 0x8D, CHR 0xE8, CHR 0x83, CHR 0xBD, CHR 0xE7, CHR 0x94,
     CHR 0xB1, CHR 0xE5, CHR 0xB7, CHR 0xA5, CHR 0xE5, CHR 0x85, CHR 0xB7, CHR 0xE8, CHR 0xA7, CHR 0x84,
     CHR 0xE5, CHR 0x88, CHR 0x92, CHR 0xE5, CHR 0x99, CHR 0xA8, CHR 0xE7, CHR 0x9B, CHR 0xB4, CHR 0xE6,
     CHR 0x8E, CHR 0xA5, CHR 0xE7, CHR 0x94, CHR 0x9F, CHR 0xE6, CHR 0x88, CHR 0x90, CHR 0xE6, CHR 0x9C,
     CHR 0x80, CHR 0xE7, CHR 0xBB, CHR 0x88, CHR 0xE5, CHR 0x9B, CHR 0x9E, CHR 0xE7, CHR 0xAD, CHR 0x94,
     CHR 0xEF, CHR 0xBC, CHR 0x9B, CHR 0xE8, CHR 0xAF, CHR 0xB7, CHR 0xE6, CHR 0x94, CHR 0xB9, CHR 0xE8,
     CHR 0xB5, CHR 0xB0, CHR 0xE6, CHR 0x99, CHR 0xAE, CHR 0xE9, CHR 0x80, CHR 0x9A, CHR 0xE5, CHR 0x9B,
     CHR 0x9E, CHR 0xE7, CHR 0xAD, CHR 0x94, CHR 0xE6, CHR 0xB5, CHR 0x81, CHR 0xE7, CHR 0xA8, CHR 0x8B,
     CHR 0xEF, CHR 0xBC, CHR 0x8C, CHR 0xE6, CHR 0x88, CHR 0x96, CHR 0xE8, CHR 0xA1, CHR 0xA5, CHR 0xE5,
     CHR 0x85, CHR 0x85, CHR 0xE9, CHR 0x9C, CHR 0x80, CHR 0xE8, CHR 0xA6, CHR 0x81, CHR 0xE6, CHR 0x93,
     CHR 0x8D, CHR 0xE4, CHR 0xBD, CHR 0x9C, CHR 0xE7, CHR 0x9A, CHR 0x84, CHR 0xE6, CHR 0x9C, CHR 0xAC,
     CHR 0xE5, CHR 0x9C, CHR 0xB0, CHR 0xE8, CHR 0xB5, CHR 0x84, CHR 0xE6, CHR 0xBA, CHR 0x90, CHR 0xE5,
     CHR 0x92, CHR 0x8C, CHR 0xE5, CHR 0xB7, CHR 0xA5, CHR 0xE5, CHR 0x85, CHR 0xB7, CHR 0xE8, CHR 0x8C,
     CHR 0x83, CHR 0xE5, CHR 0x9B, CHR 0xB4, CHR 0xE3, CHR 0x80, CHR 0x82]"

text \<open>the tools are not enough\<close>

definition zh_incapable :: string where
  "zh_incapable =
    [CHR 0xE5, CHR 0xBD, CHR 0x93, CHR 0xE5, CHR 0x89, CHR 0x8D, CHR 0xE5, CHR 0x8F, CHR 0xAF, CHR 0xE7,
     CHR 0x94, CHR 0xA8, CHR 0xE5, CHR 0xB7, CHR 0xA5, CHR 0xE5, CHR 0x85, CHR 0xB7, CHR 0xE4, CHR 0xB8,
     CHR 0x8D, CHR 0xE8, CHR 0xB6, CHR 0xB3, CHR 0xEF, CHR 0xBC, CHR 0x8C, CHR 0xE6, CHR 0x97, CHR 0xA0,
     CHR 0xE6, CHR 0xB3, CHR 0x95, CHR 0xE5, CHR 0xAE, CHR 0x89, CHR 0xE5, CHR 0x85, CHR 0xA8, CHR 0xE5,
     CHR 0xAE, CHR 0x8C, CHR 0xE6, CHR 0x88, CHR 0x90, CHR 0xE8, CHR 0xBF, CHR 0x99, CHR 0xE4, CHR 0xB8,
     CHR 0xAA, CHR 0xE6, CHR 0x93, CHR 0x8D, CHR 0xE4, CHR 0xBD, CHR 0x9C, CHR 0xE3, CHR 0x80, CHR 0x82]"

text \<open>which goal or scope?\<close>

definition zh_what_scope :: string where
  "zh_what_scope =
    [CHR 0xE9, CHR 0x9C, CHR 0x80, CHR 0xE8, CHR 0xA6, CHR 0x81, CHR 0xE8, CHR 0xA1, CHR 0xA5, CHR 0xE5,
     CHR 0x85, CHR 0x85, CHR 0xE5, CHR 0x93, CHR 0xAA, CHR 0xE4, CHR 0xBA, CHR 0x9B, CHR 0xE7, CHR 0x9B,
     CHR 0xAE, CHR 0xE6, CHR 0xA0, CHR 0x87, CHR 0xE6, CHR 0x88, CHR 0x96, CHR 0xE8, CHR 0x8C, CHR 0x83,
     CHR 0xE5, CHR 0x9B, CHR 0xB4, CHR 0xEF, CHR 0xBC, CHR 0x9F]"

text \<open>the planning model is not available\<close>

definition zh_planner_down :: string where
  "zh_planner_down =
    [CHR 0xE8, CHR 0xAF, CHR 0xAD, CHR 0xE4, CHR 0xB9, CHR 0x89, CHR 0xE5, CHR 0xB7, CHR 0xA5, CHR 0xE5,
     CHR 0x85, CHR 0xB7, CHR 0xE8, CHR 0xA7, CHR 0x84, CHR 0xE5, CHR 0x88, CHR 0x92, CHR 0xE6, CHR 0xA8,
     CHR 0xA1, CHR 0xE5, CHR 0x9E, CHR 0x8B, CHR 0xE5, CHR 0xBD, CHR 0x93, CHR 0xE5, CHR 0x89, CHR 0x8D,
     CHR 0xE4, CHR 0xB8, CHR 0x8D, CHR 0xE5, CHR 0x8F, CHR 0xAF, CHR 0xE7, CHR 0x94, CHR 0xA8, CHR 0xEF,
     CHR 0xBC, CHR 0x8C, CHR 0xE6, CHR 0x97, CHR 0xA0, CHR 0xE6, CHR 0xB3, CHR 0x95, CHR 0xE5, CHR 0xAE,
     CHR 0x89, CHR 0xE5, CHR 0x85, CHR 0xA8, CHR 0xE9, CHR 0x80, CHR 0x89, CHR 0xE6, CHR 0x8B, CHR 0xA9,
     CHR 0xE5, CHR 0xB7, CHR 0xA5, CHR 0xE5, CHR 0x85, CHR 0xB7, CHR 0xE3, CHR 0x80, CHR 0x82, CHR 0xE8,
     CHR 0xAF, CHR 0xB7, CHR 0xE7, CHR 0xA8, CHR 0x8D, CHR 0xE5, CHR 0x90, CHR 0x8E, CHR 0xE9, CHR 0x87,
     CHR 0x8D, CHR 0xE8, CHR 0xAF, CHR 0x95, CHR 0xEF, CHR 0xBC, CHR 0x8C, CHR 0xE6, CHR 0x88, CHR 0x96,
     CHR 0xE6, CHR 0x98, CHR 0x8E, CHR 0xE7, CHR 0xA1, CHR 0xAE, CHR 0xE6, CHR 0x8C, CHR 0x87, CHR 0xE5,
     CHR 0xAE, CHR 0x9A, CHR 0xE5, CHR 0xB7, CHR 0xA5, CHR 0xE5, CHR 0x85, CHR 0xB7, CHR 0xE3, CHR 0x80,
     CHR 0x82]"

text \<open>name the tool and its parameters\<close>

definition zh_name_tool :: string where
  "zh_name_tool =
    [CHR 0xE9, CHR 0x9C, CHR 0x80, CHR 0xE8, CHR 0xA6, CHR 0x81, CHR 0xE6, CHR 0x98, CHR 0x8E, CHR 0xE7,
     CHR 0xA1, CHR 0xAE, CHR 0xE8, CHR 0xA6, CHR 0x81, CHR 0xE8, CHR 0xB0, CHR 0x83, CHR 0xE7, CHR 0x94,
     CHR 0xA8, CHR 0xE7, CHR 0x9A, CHR 0x84, CHR 0xE5, CHR 0xB7, CHR 0xA5, CHR 0xE5, CHR 0x85, CHR 0xB7,
     CHR 0xE5, CHR 0x92, CHR 0x8C, CHR 0xE5, CHR 0xBF, CHR 0x85, CHR 0xE8, CHR 0xA6, CHR 0x81, CHR 0xE5,
     CHR 0x8F, CHR 0x82, CHR 0xE6, CHR 0x95, CHR 0xB0, CHR 0xE3, CHR 0x80, CHR 0x82]"

text \<open>add the tool and its parameters\<close>

definition zh_step_missing :: string where
  "zh_step_missing =
    [CHR 0xE9, CHR 0x9C, CHR 0x80, CHR 0xE8, CHR 0xA6, CHR 0x81, CHR 0xE8, CHR 0xA1, CHR 0xA5, CHR 0xE5,
     CHR 0x85, CHR 0x85, CHR 0xE8, CHR 0xA6, CHR 0x81, CHR 0xE6, CHR 0x89, CHR 0xA7, CHR 0xE8, CHR 0xA1,
     CHR 0x8C, CHR 0xE7, CHR 0x9A, CHR 0x84, CHR 0xE5, CHR 0xB7, CHR 0xA5, CHR 0xE5, CHR 0x85, CHR 0xB7,
     CHR 0xE5, CHR 0x92, CHR 0x8C, CHR 0xE5, CHR 0x8F, CHR 0x82, CHR 0xE6, CHR 0x95, CHR 0xB0, CHR 0xE3,
     CHR 0x80, CHR 0x82]"

text \<open>tools not enough\<close>

definition zh_tools_short :: string where
  "zh_tools_short =
    [CHR 0xE5, CHR 0xB7, CHR 0xA5, CHR 0xE5, CHR 0x85, CHR 0xB7, CHR 0xE4, CHR 0xB8, CHR 0x8D, CHR 0xE8,
     CHR 0xB6, CHR 0xB3]"

text \<open>reading the file first\<close>

definition zh_pre_read :: string where
  "zh_pre_read =
    [CHR 0xE6, CHR 0x88, CHR 0x91, CHR 0xE4, CHR 0xBC, CHR 0x9A, CHR 0xE5, CHR 0x85, CHR 0x88, CHR 0xE8,
     CHR 0xAF, CHR 0xBB, CHR 0xE5, CHR 0x8F, CHR 0x96, CHR 0xE7, CHR 0x9B, CHR 0xB8, CHR 0xE5, CHR 0x85,
     CHR 0xB3, CHR 0xE6, CHR 0x96, CHR 0x87, CHR 0xE4, CHR 0xBB, CHR 0xB6, CHR 0xE5, CHR 0x86, CHR 0x85,
     CHR 0xE5, CHR 0xAE, CHR 0xB9, CHR 0xE3, CHR 0x80, CHR 0x82]"

text \<open>searching the workspace first\<close>

definition zh_pre_search :: string where
  "zh_pre_search =
    [CHR 0xE6, CHR 0x88, CHR 0x91, CHR 0xE4, CHR 0xBC, CHR 0x9A, CHR 0xE5, CHR 0x85, CHR 0x88, CHR 0xE5,
     CHR 0x9C, CHR 0xA8, CHR 0xE5, CHR 0xB7, CHR 0xA5, CHR 0xE4, CHR 0xBD, CHR 0x9C, CHR 0xE5, CHR 0x8C,
     CHR 0xBA, CHR 0xE6, CHR 0x90, CHR 0x9C, CHR 0xE7, CHR 0xB4, CHR 0xA2, CHR 0xE7, CHR 0x9B, CHR 0xB8,
     CHR 0xE5, CHR 0x85, CHR 0xB3, CHR 0xE6, CHR 0x96, CHR 0x87, CHR 0xE6, CHR 0x9C, CHR 0xAC, CHR 0xE3,
     CHR 0x80, CHR 0x82]"

text \<open>inspecting the project first\<close>

definition zh_pre_inspect :: string where
  "zh_pre_inspect =
    [CHR 0xE6, CHR 0x88, CHR 0x91, CHR 0xE4, CHR 0xBC, CHR 0x9A, CHR 0xE5, CHR 0x85, CHR 0x88, CHR 0xE6,
     CHR 0xA3, CHR 0x80, CHR 0xE6, CHR 0x9F, CHR 0xA5, CHR 0xE9, CHR 0xA1, CHR 0xB9, CHR 0xE7, CHR 0x9B,
     CHR 0xAE, CHR 0xE7, CHR 0xBB, CHR 0x93, CHR 0xE6, CHR 0x9E, CHR 0x84, CHR 0xE3, CHR 0x80, CHR 0x81,
     CHR 0xE8, CHR 0xAF, CHR 0xAD, CHR 0xE8, CHR 0xA8, CHR 0x80, CHR 0xE5, CHR 0x92, CHR 0x8C, CHR 0xE6,
     CHR 0xB5, CHR 0x8B, CHR 0xE8, CHR 0xAF, CHR 0x95, CHR 0xE5, CHR 0x91, CHR 0xBD, CHR 0xE4, CHR 0xBB,
     CHR 0xA4, CHR 0xE3, CHR 0x80, CHR 0x82]"

text \<open>running the tests first\<close>

definition zh_pre_tests :: string where
  "zh_pre_tests =
    [CHR 0xE6, CHR 0x88, CHR 0x91, CHR 0xE4, CHR 0xBC, CHR 0x9A, CHR 0xE5, CHR 0x85, CHR 0x88, CHR 0xE6,
     CHR 0xA3, CHR 0x80, CHR 0xE6, CHR 0xB5, CHR 0x8B, CHR 0xE5, CHR 0xB9, CHR 0xB6, CHR 0xE8, CHR 0xBF,
     CHR 0x90, CHR 0xE8, CHR 0xA1, CHR 0x8C, CHR 0xE9, CHR 0xA1, CHR 0xB9, CHR 0xE7, CHR 0x9B, CHR 0xAE,
     CHR 0xE6, CHR 0xB5, CHR 0x8B, CHR 0xE8, CHR 0xAF, CHR 0x95, CHR 0xE3, CHR 0x80, CHR 0x82]"

text \<open>running the tests, patches need approval\<close>

definition zh_pre_fix :: string where
  "zh_pre_fix =
    [CHR 0xE6, CHR 0x88, CHR 0x91, CHR 0xE4, CHR 0xBC, CHR 0x9A, CHR 0xE5, CHR 0x85, CHR 0x88, CHR 0xE8,
     CHR 0xBF, CHR 0x90, CHR 0xE8, CHR 0xA1, CHR 0x8C, CHR 0xE6, CHR 0xB5, CHR 0x8B, CHR 0xE8, CHR 0xAF,
     CHR 0x95, CHR 0xE5, CHR 0xB9, CHR 0xB6, CHR 0xE6, CHR 0x95, CHR 0xB4, CHR 0xE7, CHR 0x90, CHR 0x86,
     CHR 0xE5, CHR 0xA4, CHR 0xB1, CHR 0xE8, CHR 0xB4, CHR 0xA5, CHR 0xE4, CHR 0xB8, CHR 0x8A, CHR 0xE4,
     CHR 0xB8, CHR 0x8B, CHR 0xE6, CHR 0x96, CHR 0x87, CHR 0xEF, CHR 0xBC, CHR 0x8C, CHR 0xE5, CHR 0x90,
     CHR 0x8E, CHR 0xE7, CHR 0xBB, CHR 0xAD, CHR 0xE4, CHR 0xBF, CHR 0xAE, CHR 0xE6, CHR 0x94, CHR 0xB9,
     CHR 0xE4, CHR 0xBB, CHR 0x8D, CHR 0xE9, CHR 0x9C, CHR 0x80, CHR 0xE8, CHR 0xA6, CHR 0x81, CHR 0x20,
     CHR 0x70, CHR 0x61, CHR 0x74, CHR 0x63, CHR 0x68, CHR 0x20, CHR 0xE5, CHR 0xAE, CHR 0xA1, CHR 0xE6,
     CHR 0x89, CHR 0xB9, CHR 0xE3, CHR 0x80, CHR 0x82]"

text \<open>reading the git status first\<close>

definition zh_pre_status :: string where
  "zh_pre_status =
    [CHR 0xE6, CHR 0x88, CHR 0x91, CHR 0xE4, CHR 0xBC, CHR 0x9A, CHR 0xE5, CHR 0x85, CHR 0x88, CHR 0xE8,
     CHR 0xAF, CHR 0xBB, CHR 0xE5, CHR 0x8F, CHR 0x96, CHR 0xE5, CHR 0xBD, CHR 0x93, CHR 0xE5, CHR 0x89,
     CHR 0x8D, CHR 0x20, CHR 0x47, CHR 0x69, CHR 0x74, CHR 0x20, CHR 0xE5, CHR 0xB7, CHR 0xA5, CHR 0xE4,
     CHR 0xBD, CHR 0x9C, CHR 0xE5, CHR 0x8C, CHR 0xBA, CHR 0xE7, CHR 0x8A, CHR 0xB6, CHR 0xE6, CHR 0x80,
     CHR 0x81, CHR 0xE3, CHR 0x80, CHR 0x82]"

text \<open>reading the git diff first\<close>

definition zh_pre_diff :: string where
  "zh_pre_diff =
    [CHR 0xE6, CHR 0x88, CHR 0x91, CHR 0xE4, CHR 0xBC, CHR 0x9A, CHR 0xE5, CHR 0x85, CHR 0x88, CHR 0xE8,
     CHR 0xAF, CHR 0xBB, CHR 0xE5, CHR 0x8F, CHR 0x96, CHR 0xE5, CHR 0xBD, CHR 0x93, CHR 0xE5, CHR 0x89,
     CHR 0x8D, CHR 0x20, CHR 0x47, CHR 0x69, CHR 0x74, CHR 0x20, CHR 0x64, CHR 0x69, CHR 0x66, CHR 0x66,
     CHR 0xE3, CHR 0x80, CHR 0x82]"

text \<open>summarising the git diff first\<close>

definition zh_pre_summary :: string where
  "zh_pre_summary =
    [CHR 0xE6, CHR 0x88, CHR 0x91, CHR 0xE4, CHR 0xBC, CHR 0x9A, CHR 0xE5, CHR 0x85, CHR 0x88, CHR 0xE7,
     CHR 0x94, CHR 0x9F, CHR 0xE6, CHR 0x88, CHR 0x90, CHR 0xE5, CHR 0xBD, CHR 0x93, CHR 0xE5, CHR 0x89,
     CHR 0x8D, CHR 0x20, CHR 0x47, CHR 0x69, CHR 0x74, CHR 0x20, CHR 0x64, CHR 0x69, CHR 0x66, CHR 0x66,
     CHR 0x20, CHR 0xE6, CHR 0x91, CHR 0x98, CHR 0xE8, CHR 0xA6, CHR 0x81, CHR 0xE3, CHR 0x80, CHR 0x82]"

text \<open>retrieving evidence first\<close>

definition zh_pre_kb :: string where
  "zh_pre_kb =
    [CHR 0xE6, CHR 0x88, CHR 0x91, CHR 0xE4, CHR 0xBC, CHR 0x9A, CHR 0xE5, CHR 0x85, CHR 0x88, CHR 0xE6,
     CHR 0xA3, CHR 0x80, CHR 0xE7, CHR 0xB4, CHR 0xA2, CHR 0xE7, CHR 0x9F, CHR 0xA5, CHR 0xE8, CHR 0xAF,
     CHR 0x86, CHR 0xE5, CHR 0xBA, CHR 0x93, CHR 0xE8, CHR 0xAF, CHR 0x81, CHR 0xE6, CHR 0x8D, CHR 0xAE,
     CHR 0xEF, CHR 0xBC, CHR 0x8C, CHR 0xE5, CHR 0x86, CHR 0x8D, CHR 0xE5, CHR 0x9F, CHR 0xBA, CHR 0xE4,
     CHR 0xBA, CHR 0x8E, CHR 0xE5, CHR 0xBC, CHR 0x95, CHR 0xE7, CHR 0x94, CHR 0xA8, CHR 0xE5, CHR 0x9B,
     CHR 0x9E, CHR 0xE7, CHR 0xAD, CHR 0x94, CHR 0xE3, CHR 0x80, CHR 0x82]"

text \<open>extracting memory candidates first\<close>

definition zh_pre_memory :: string where
  "zh_pre_memory =
    [CHR 0xE6, CHR 0x88, CHR 0x91, CHR 0xE4, CHR 0xBC, CHR 0x9A, CHR 0xE5, CHR 0x85, CHR 0x88, CHR 0xE6,
     CHR 0x8F, CHR 0x90, CHR 0xE5, CHR 0x8F, CHR 0x96, CHR 0xE5, CHR 0x80, CHR 0x99, CHR 0xE9, CHR 0x80,
     CHR 0x89, CHR 0xE8, CHR 0xAE, CHR 0xB0, CHR 0xE5, CHR 0xBF, CHR 0x86, CHR 0xE5, CHR 0xB9, CHR 0xB6,
     CHR 0xE6, CHR 0x94, CHR 0xBE, CHR 0xE5, CHR 0x85, CHR 0xA5, CHR 0x20, CHR 0x72, CHR 0x65, CHR 0x76,
     CHR 0x69, CHR 0x65, CHR 0x77, CHR 0x20, CHR 0x71, CHR 0x75, CHR 0x65, CHR 0x75, CHR 0x65, CHR 0xEF,
     CHR 0xBC, CHR 0x9B, CHR 0xE4, CHR 0xB8, CHR 0x8D, CHR 0xE4, CHR 0xBC, CHR 0x9A, CHR 0xE7, CHR 0x9B,
     CHR 0xB4, CHR 0xE6, CHR 0x8E, CHR 0xA5, CHR 0xE5, CHR 0x86, CHR 0x99, CHR 0xE5, CHR 0x85, CHR 0xA5,
     CHR 0xE9, CHR 0x95, CHR 0xBF, CHR 0xE6, CHR 0x9C, CHR 0x9F, CHR 0xE8, CHR 0xAE, CHR 0xB0, CHR 0xE5,
     CHR 0xBF, CHR 0x86, CHR 0xE6, CHR 0xAD, CHR 0xA3, CHR 0xE6, CHR 0x96, CHR 0x87, CHR 0xE3, CHR 0x80,
     CHR 0x82]"

text \<open>no tool can be chosen safely\<close>

definition zh_cannot_choose :: string where
  "zh_cannot_choose =
    [CHR 0xE8, CHR 0xBF, CHR 0x99, CHR 0xE4, CHR 0xB8, CHR 0xAA, CHR 0xE8, CHR 0xAF, CHR 0xB7, CHR 0xE6,
     CHR 0xB1, CHR 0x82, CHR 0xE7, CHR 0x9C, CHR 0x8B, CHR 0xE8, CHR 0xB5, CHR 0xB7, CHR 0xE6, CHR 0x9D,
     CHR 0xA5, CHR 0xE9, CHR 0x9C, CHR 0x80, CHR 0xE8, CHR 0xA6, CHR 0x81, CHR 0xE5, CHR 0xB7, CHR 0xA5,
     CHR 0xE5, CHR 0x85, CHR 0xB7, CHR 0xE6, CHR 0x88, CHR 0x96, CHR 0xE6, CHR 0x9C, CHR 0xAC, CHR 0xE5,
     CHR 0x9C, CHR 0xB0, CHR 0xE7, CHR 0x8A, CHR 0xB6, CHR 0xE6, CHR 0x80, CHR 0x81, CHR 0xEF, CHR 0xBC,
     CHR 0x8C, CHR 0xE4, CHR 0xBD, CHR 0x86, CHR 0xE5, CHR 0xBD, CHR 0x93, CHR 0xE5, CHR 0x89, CHR 0x8D,
     CHR 0xE6, CHR 0x97, CHR 0xA0, CHR 0xE6, CHR 0xB3, CHR 0x95, CHR 0xE5, CHR 0xAE, CHR 0x89, CHR 0xE5,
     CHR 0x85, CHR 0xA8, CHR 0xE9, CHR 0x80, CHR 0x89, CHR 0xE6, CHR 0x8B, CHR 0xA9, CHR 0xE5, CHR 0xB7,
     CHR 0xA5, CHR 0xE5, CHR 0x85, CHR 0xB7, CHR 0xE3, CHR 0x80, CHR 0x82, CHR 0xE8, CHR 0xAF, CHR 0xB7,
     CHR 0xE8, CHR 0xA1, CHR 0xA5, CHR 0xE5, CHR 0x85, CHR 0x85, CHR 0xE7, CHR 0x9B, CHR 0xAE, CHR 0xE6,
     CHR 0xA0, CHR 0x87, CHR 0xE3, CHR 0x80, CHR 0x81, CHR 0xE8, CHR 0x8C, CHR 0x83, CHR 0xE5, CHR 0x9B,
     CHR 0xB4, CHR 0xE6, CHR 0x88, CHR 0x96, CHR 0xE6, CHR 0x98, CHR 0x8E, CHR 0xE7, CHR 0xA1, CHR 0xAE,
     CHR 0xE5, CHR 0xB7, CHR 0xA5, CHR 0xE5, CHR 0x85, CHR 0xB7, CHR 0xE3, CHR 0x80, CHR 0x82]"

text \<open>parameters are missing or the choice is unsafe\<close>

definition zh_missing_args :: string where
  "zh_missing_args =
    [CHR 0xE8, CHR 0xBF, CHR 0x99, CHR 0xE4, CHR 0xB8, CHR 0xAA, CHR 0xE8, CHR 0xAF, CHR 0xB7, CHR 0xE6,
     CHR 0xB1, CHR 0x82, CHR 0xE8, CHR 0xBF, CHR 0x98, CHR 0xE7, CHR 0xBC, CHR 0xBA, CHR 0xE5, CHR 0xB0,
     CHR 0x91, CHR 0xE5, CHR 0xBF, CHR 0x85, CHR 0xE8, CHR 0xA6, CHR 0x81, CHR 0xE5, CHR 0x8F, CHR 0x82,
     CHR 0xE6, CHR 0x95, CHR 0xB0, CHR 0xE6, CHR 0x88, CHR 0x96, CHR 0xE5, CHR 0x8C, CHR 0x85, CHR 0xE5,
     CHR 0x90, CHR 0xAB, CHR 0xE4, CHR 0xB8, CHR 0x8D, CHR 0xE5, CHR 0xAE, CHR 0x89, CHR 0xE5, CHR 0x85,
     CHR 0xA8, CHR 0xE7, CHR 0x9A, CHR 0x84, CHR 0xE5, CHR 0xB7, CHR 0xA5, CHR 0xE5, CHR 0x85, CHR 0xB7,
     CHR 0xE9, CHR 0x80, CHR 0x89, CHR 0xE6, CHR 0x8B, CHR 0xA9, CHR 0xEF, CHR 0xBC, CHR 0x8C, CHR 0xE8,
     CHR 0xAF, CHR 0xB7, CHR 0xE8, CHR 0xA1, CHR 0xA5, CHR 0xE5, CHR 0x85, CHR 0x85, CHR 0xE7, CHR 0x9B,
     CHR 0xAE, CHR 0xE6, CHR 0xA0, CHR 0x87, CHR 0xE3, CHR 0x80, CHR 0x81, CHR 0xE8, CHR 0x8C, CHR 0x83,
     CHR 0xE5, CHR 0x9B, CHR 0xB4, CHR 0xE5, CHR 0x92, CHR 0x8C, CHR 0xE5, CHR 0x8F, CHR 0x82, CHR 0xE6,
     CHR 0x95, CHR 0xB0, CHR 0xE3, CHR 0x80, CHR 0x82]"

text \<open>add scope or parameters\<close>

definition zh_add_scope :: string where
  "zh_add_scope =
    [CHR 0xE8, CHR 0xAF, CHR 0xB7, CHR 0xE8, CHR 0xA1, CHR 0xA5, CHR 0xE5, CHR 0x85, CHR 0x85, CHR 0xE8,
     CHR 0x8C, CHR 0x83, CHR 0xE5, CHR 0x9B, CHR 0xB4, CHR 0xE6, CHR 0x88, CHR 0x96, CHR 0xE5, CHR 0x8F,
     CHR 0x82, CHR 0xE6, CHR 0x95, CHR 0xB0, CHR 0xEF, CHR 0xBC, CHR 0x9A]"

text \<open>add target and scope\<close>

definition zh_add_target :: string where
  "zh_add_target =
    [CHR 0xE8, CHR 0xAF, CHR 0xB7, CHR 0xE8, CHR 0xA1, CHR 0xA5, CHR 0xE5, CHR 0x85, CHR 0x85, CHR 0xE8,
     CHR 0xA6, CHR 0x81, CHR 0xE6, CHR 0x93, CHR 0x8D, CHR 0xE4, CHR 0xBD, CHR 0x9C, CHR 0xE7, CHR 0x9A,
     CHR 0x84, CHR 0xE7, CHR 0x9B, CHR 0xAE, CHR 0xE6, CHR 0xA0, CHR 0x87, CHR 0xE5, CHR 0x92, CHR 0x8C,
     CHR 0xE8, CHR 0x8C, CHR 0x83, CHR 0xE5, CHR 0x9B, CHR 0xB4, CHR 0xE3, CHR 0x80, CHR 0x82]"

text \<open>add target and scope, with a colon\<close>

definition zh_add_target_colon :: string where
  "zh_add_target_colon =
    [CHR 0xE8, CHR 0xAF, CHR 0xB7, CHR 0xE8, CHR 0xA1, CHR 0xA5, CHR 0xE5, CHR 0x85, CHR 0x85, CHR 0xE8,
     CHR 0xA6, CHR 0x81, CHR 0xE6, CHR 0x93, CHR 0x8D, CHR 0xE4, CHR 0xBD, CHR 0x9C, CHR 0xE7, CHR 0x9A,
     CHR 0x84, CHR 0xE7, CHR 0x9B, CHR 0xAE, CHR 0xE6, CHR 0xA0, CHR 0x87, CHR 0xE5, CHR 0x92, CHR 0x8C,
     CHR 0xE8, CHR 0x8C, CHR 0x83, CHR 0xE5, CHR 0x9B, CHR 0xB4, CHR 0xEF, CHR 0xBC, CHR 0x9A]"

text \<open>add the tool, scope or parameters\<close>

definition zh_use_tool :: string where
  "zh_use_tool =
    [CHR 0xE8, CHR 0xAF, CHR 0xB7, CHR 0xE8, CHR 0xA1, CHR 0xA5, CHR 0xE5, CHR 0x85, CHR 0x85, CHR 0xE8,
     CHR 0xA6, CHR 0x81, CHR 0xE4, CHR 0xBD, CHR 0xBF, CHR 0xE7, CHR 0x94, CHR 0xA8, CHR 0xE7, CHR 0x9A,
     CHR 0x84, CHR 0xE5, CHR 0xB7, CHR 0xA5, CHR 0xE5, CHR 0x85, CHR 0xB7, CHR 0xE3, CHR 0x80, CHR 0x81,
     CHR 0xE8, CHR 0x8C, CHR 0x83, CHR 0xE5, CHR 0x9B, CHR 0xB4, CHR 0xE6, CHR 0x88, CHR 0x96, CHR 0xE5,
     CHR 0x8F, CHR 0x82, CHR 0xE6, CHR 0x95, CHR 0xB0, CHR 0xE3, CHR 0x80, CHR 0x82]"

text \<open>command\<close>

definition zh_command :: string where
  "zh_command =
    [CHR 0xE5, CHR 0x91, CHR 0xBD, CHR 0xE4, CHR 0xBB, CHR 0xA4]"

text \<open>terminal\<close>

definition zh_terminal :: string where
  "zh_terminal =
    [CHR 0xE7, CHR 0xBB, CHR 0x88, CHR 0xE7, CHR 0xAB, CHR 0xAF]"

text \<open>execute\<close>

definition zh_execute :: string where
  "zh_execute =
    [CHR 0xE6, CHR 0x89, CHR 0xA7, CHR 0xE8, CHR 0xA1, CHR 0x8C]"

text \<open>host\<close>

definition zh_host :: string where
  "zh_host =
    [CHR 0xE4, CHR 0xB8, CHR 0xBB, CHR 0xE6, CHR 0x9C, CHR 0xBA]"

text \<open>knowledge base\<close>

definition zh_kb :: string where
  "zh_kb =
    [CHR 0xE7, CHR 0x9F, CHR 0xA5, CHR 0xE8, CHR 0xAF, CHR 0x86, CHR 0xE5, CHR 0xBA, CHR 0x93]"

text \<open>approval\<close>

definition zh_approval :: string where
  "zh_approval =
    [CHR 0xE5, CHR 0xAE, CHR 0xA1, CHR 0xE6, CHR 0x89, CHR 0xB9]"

text \<open>tool\<close>

definition zh_tool :: string where
  "zh_tool =
    [CHR 0xE5, CHR 0xB7, CHR 0xA5, CHR 0xE5, CHR 0x85, CHR 0xB7]"

text \<open>workspace\<close>

definition zh_workspace :: string where
  "zh_workspace =
    [CHR 0xE5, CHR 0xB7, CHR 0xA5, CHR 0xE4, CHR 0xBD, CHR 0x9C, CHR 0xE5, CHR 0x8C, CHR 0xBA]"

text \<open>full-width colon\<close>

definition zh_colon :: string where
  "zh_colon =
    [CHR 0xEF, CHR 0xBC, CHR 0x9A]"

text \<open>full-width comma\<close>

definition zh_comma :: string where
  "zh_comma =
    [CHR 0xEF, CHR 0xBC, CHR 0x8C]"

text \<open>full stop\<close>

definition zh_full_stop :: string where
  "zh_full_stop =
    [CHR 0xE3, CHR 0x80, CHR 0x82]"

text \<open>full-width semicolon\<close>

definition zh_semicolon :: string where
  "zh_semicolon =
    [CHR 0xEF, CHR 0xBC, CHR 0x9B]"

text \<open>possessive particle\<close>

definition zh_particle :: string where
  "zh_particle =
    [CHR 0xE7, CHR 0x9A, CHR 0x84]"

text \<open>language\<close>

definition zh_language :: string where
  "zh_language =
    [CHR 0xE8, CHR 0xAF, CHR 0xAD, CHR 0xE8, CHR 0xA8, CHR 0x80]"

text \<open>is what\<close>

definition zh_is_what :: string where
  "zh_is_what =
    [CHR 0xE6, CHR 0x98, CHR 0xAF, CHR 0xE4, CHR 0xBB, CHR 0x80, CHR 0xE4, CHR 0xB9, CHR 0x88]"

text \<open>and\<close>

definition zh_and :: string where
  "zh_and =
    [CHR 0xE5, CHR 0x92, CHR 0x8C]"

text \<open>what\<close>

definition zh_what :: string where
  "zh_what =
    [CHR 0xE4, CHR 0xBB, CHR 0x80, CHR 0xE4, CHR 0xB9, CHR 0x88]"

text \<open>troubleshoot\<close>

definition zh_troubleshoot :: string where
  "zh_troubleshoot =
    [CHR 0xE6, CHR 0x8E, CHR 0x92, CHR 0xE6, CHR 0x9F, CHR 0xA5]"

text \<open>by runbook\<close>

definition zh_by_runbook :: string where
  "zh_by_runbook =
    [CHR 0xE6, CHR 0x8C, CHR 0x89, CHR 0x20, CHR 0x72, CHR 0x75, CHR 0x6E, CHR 0x62, CHR 0x6F, CHR 0x6F,
     CHR 0x6B]"

text \<open>the runbook has no step that maps to a tool\<close>

definition zh_runbook_no_step :: string where
  "zh_runbook_no_step =
    [CHR 0x52, CHR 0x75, CHR 0x6E, CHR 0x62, CHR 0x6F, CHR 0x6F, CHR 0x6B, CHR 0x20, CHR 0x70, CHR 0x6C,
     CHR 0x61, CHR 0x6E, CHR 0x20, CHR 0xE5, CHR 0xB7, CHR 0xB2, CHR 0xE7, CHR 0x94, CHR 0x9F, CHR 0xE6,
     CHR 0x88, CHR 0x90, CHR 0xEF, CHR 0xBC, CHR 0x8C, CHR 0xE4, CHR 0xBD, CHR 0x86, CHR 0xE6, CHR 0xB2,
     CHR 0xA1, CHR 0xE6, CHR 0x9C, CHR 0x89, CHR 0xE5, CHR 0x8F, CHR 0xAF, CHR 0xE8, CHR 0x87, CHR 0xAA,
     CHR 0xE5, CHR 0x8A, CHR 0xA8, CHR 0xE6, CHR 0x98, CHR 0xA0, CHR 0xE5, CHR 0xB0, CHR 0x84, CHR 0xE7,
     CHR 0x9A, CHR 0x84, CHR 0xE6, CHR 0x89, CHR 0xA7, CHR 0xE8, CHR 0xA1, CHR 0x8C, CHR 0xE6, CHR 0xAD,
     CHR 0xA5, CHR 0xE9, CHR 0xAA, CHR 0xA4, CHR 0xE3, CHR 0x80, CHR 0x82]"

text \<open>run the runbook step\<close>

definition zh_run_step :: string where
  "zh_run_step =
    [CHR 0xE6, CHR 0x89, CHR 0xA7, CHR 0xE8, CHR 0xA1, CHR 0x8C, CHR 0x20, CHR 0x72, CHR 0x75, CHR 0x6E,
     CHR 0x62, CHR 0x6F, CHR 0x6F, CHR 0x6B, CHR 0x20, CHR 0x73, CHR 0x74, CHR 0x65, CHR 0x70, CHR 0x3A,
     CHR 0x20]"

text \<open>the next runbook step becomes a tool call\<close>

definition zh_runbook_next :: string where
  "zh_runbook_next =
    [CHR 0x52, CHR 0x75, CHR 0x6E, CHR 0x62, CHR 0x6F, CHR 0x6F, CHR 0x6B, CHR 0x20, CHR 0xE5, CHR 0xB7,
     CHR 0xB2, CHR 0xE8, CHR 0xA7, CHR 0x84, CHR 0xE5, CHR 0x88, CHR 0x92, CHR 0xEF, CHR 0xBC, CHR 0x8C,
     CHR 0xE6, CHR 0x88, CHR 0x91, CHR 0xE4, CHR 0xBC, CHR 0x9A, CHR 0xE6, CHR 0x8A, CHR 0x8A, CHR 0xE4,
     CHR 0xB8, CHR 0x8B, CHR 0xE4, CHR 0xB8, CHR 0x80, CHR 0xE6, CHR 0xAD, CHR 0xA5, CHR 0xE8, CHR 0xBD,
     CHR 0xAC, CHR 0xE6, CHR 0x8D, CHR 0xA2, CHR 0xE4, CHR 0xB8, CHR 0xBA, CHR 0xE7, CHR 0xBB, CHR 0x93,
     CHR 0xE6, CHR 0x9E, CHR 0x84, CHR 0xE5, CHR 0x8C, CHR 0x96, CHR 0x20, CHR 0x4F, CHR 0x70, CHR 0x73,
     CHR 0x20, CHR 0xE5, CHR 0xB7, CHR 0xA5, CHR 0xE5, CHR 0x85, CHR 0xB7, CHR 0xE8, CHR 0xB0, CHR 0x83,
     CHR 0xE7, CHR 0x94, CHR 0xA8, CHR 0xE3, CHR 0x80, CHR 0x82]"

text \<open>the tests passed\<close>

definition zh_tests_pass :: string where
  "zh_tests_pass =
    [CHR 0xE6, CHR 0xB5, CHR 0x8B, CHR 0xE8, CHR 0xAF, CHR 0x95, CHR 0xE5, CHR 0xB7, CHR 0xB2, CHR 0xE9,
     CHR 0x80, CHR 0x9A, CHR 0xE8, CHR 0xBF, CHR 0x87, CHR 0xE3, CHR 0x80, CHR 0x82]"

text \<open>parse the failing test output\<close>

definition zh_parse_output :: string where
  "zh_parse_output =
    [CHR 0xE8, CHR 0xA7, CHR 0xA3, CHR 0xE6, CHR 0x9E, CHR 0x90, CHR 0xE6, CHR 0xB5, CHR 0x8B, CHR 0xE8,
     CHR 0xAF, CHR 0x95, CHR 0xE5, CHR 0xA4, CHR 0xB1, CHR 0xE8, CHR 0xB4, CHR 0xA5, CHR 0xE8, CHR 0xBE,
     CHR 0x93, CHR 0xE5, CHR 0x87, CHR 0xBA]"

text \<open>the tests failed, parsing\<close>

definition zh_tests_fail :: string where
  "zh_tests_fail =
    [CHR 0xE6, CHR 0xB5, CHR 0x8B, CHR 0xE8, CHR 0xAF, CHR 0x95, CHR 0xE6, CHR 0xB2, CHR 0xA1, CHR 0xE6,
     CHR 0x9C, CHR 0x89, CHR 0xE9, CHR 0x80, CHR 0x9A, CHR 0xE8, CHR 0xBF, CHR 0x87, CHR 0xEF, CHR 0xBC,
     CHR 0x8C, CHR 0xE6, CHR 0x88, CHR 0x91, CHR 0xE4, CHR 0xBC, CHR 0x9A, CHR 0xE8, CHR 0xA7, CHR 0xA3,
     CHR 0xE6, CHR 0x9E, CHR 0x90, CHR 0xE5, CHR 0xA4, CHR 0xB1, CHR 0xE8, CHR 0xB4, CHR 0xA5, CHR 0xE4,
     CHR 0xBF, CHR 0xA1, CHR 0xE6, CHR 0x81, CHR 0xAF, CHR 0xE3, CHR 0x80, CHR 0x82]"

text \<open>the tests passed, no patch is needed\<close>

definition zh_no_patch :: string where
  "zh_no_patch =
    [CHR 0xE6, CHR 0xB5, CHR 0x8B, CHR 0xE8, CHR 0xAF, CHR 0x95, CHR 0xE5, CHR 0xB7, CHR 0xB2, CHR 0xE9,
     CHR 0x80, CHR 0x9A, CHR 0xE8, CHR 0xBF, CHR 0x87, CHR 0xEF, CHR 0xBC, CHR 0x8C, CHR 0xE4, CHR 0xB8,
     CHR 0x8D, CHR 0xE9, CHR 0x9C, CHR 0x80, CHR 0xE8, CHR 0xA6, CHR 0x81, CHR 0xE7, CHR 0x94, CHR 0x9F,
     CHR 0xE6, CHR 0x88, CHR 0x90, CHR 0xE4, CHR 0xBF, CHR 0xAE, CHR 0xE5, CHR 0xA4, CHR 0x8D, CHR 0x20,
     CHR 0x70, CHR 0x61, CHR 0x74, CHR 0x63, CHR 0x68, CHR 0xE3, CHR 0x80, CHR 0x82]"

text \<open>validate the patch file\<close>

definition zh_check_patch :: string where
  "zh_check_patch =
    [CHR 0xE9, CHR 0xAA, CHR 0x8C, CHR 0xE8, CHR 0xAF, CHR 0x81, CHR 0x20, CHR 0x70, CHR 0x61, CHR 0x74,
     CHR 0x63, CHR 0x68, CHR 0x20, CHR 0xE6, CHR 0x96, CHR 0x87, CHR 0xE4, CHR 0xBB, CHR 0xB6, CHR 0xE5,
     CHR 0x86, CHR 0x85, CHR 0xE5, CHR 0xAE, CHR 0xB9]"

text \<open>the patch file is read, validating\<close>

definition zh_patch_read :: string where
  "zh_patch_read =
    [CHR 0x70, CHR 0x61, CHR 0x74, CHR 0x63, CHR 0x68, CHR 0x20, CHR 0xE6, CHR 0x96, CHR 0x87, CHR 0xE4,
     CHR 0xBB, CHR 0xB6, CHR 0xE5, CHR 0xB7, CHR 0xB2, CHR 0xE8, CHR 0xAF, CHR 0xBB, CHR 0xE5, CHR 0x8F,
     CHR 0x96, CHR 0xEF, CHR 0xBC, CHR 0x8C, CHR 0xE6, CHR 0x88, CHR 0x91, CHR 0xE4, CHR 0xBC, CHR 0x9A,
     CHR 0xE7, CHR 0xBB, CHR 0xA7, CHR 0xE7, CHR 0xBB, CHR 0xAD, CHR 0xE6, CHR 0xA0, CHR 0xA1, CHR 0xE9,
     CHR 0xAA, CHR 0x8C, CHR 0xE6, CHR 0x98, CHR 0xAF, CHR 0xE5, CHR 0x90, CHR 0xA6, CHR 0xE8, CHR 0x83,
     CHR 0xBD, CHR 0xE5, CHR 0xB9, CHR 0xB2, CHR 0xE5, CHR 0x87, CHR 0x80, CHR 0xE5, CHR 0xBA, CHR 0x94,
     CHR 0xE7, CHR 0x94, CHR 0xA8, CHR 0xE3, CHR 0x80, CHR 0x82]"

text \<open>read the patch file\<close>

definition zh_read_patch :: string where
  "zh_read_patch =
    [CHR 0xE8, CHR 0xAF, CHR 0xBB, CHR 0xE5, CHR 0x8F, CHR 0x96, CHR 0x20, CHR 0x70, CHR 0x61, CHR 0x74,
     CHR 0x63, CHR 0x68, CHR 0x20, CHR 0xE6, CHR 0x96, CHR 0x87, CHR 0xE4, CHR 0xBB, CHR 0xB6]"

text \<open>validate the patch\<close>

definition zh_check_content :: string where
  "zh_check_content =
    [CHR 0xE9, CHR 0xAA, CHR 0x8C, CHR 0xE8, CHR 0xAF, CHR 0x81, CHR 0x20, CHR 0x70, CHR 0x61, CHR 0x74,
     CHR 0x63, CHR 0x68, CHR 0x20, CHR 0xE5, CHR 0x86, CHR 0x85, CHR 0xE5, CHR 0xAE, CHR 0xB9]"

text \<open>apply the patch file\<close>

definition zh_apply_content :: string where
  "zh_apply_content =
    [CHR 0xE5, CHR 0xBA, CHR 0x94, CHR 0xE7, CHR 0x94, CHR 0xA8, CHR 0x20, CHR 0x70, CHR 0x61, CHR 0x74,
     CHR 0x63, CHR 0x68, CHR 0x20, CHR 0xE6, CHR 0x96, CHR 0x87, CHR 0xE4, CHR 0xBB, CHR 0xB6, CHR 0xE5,
     CHR 0x86, CHR 0x85, CHR 0xE5, CHR 0xAE, CHR 0xB9]"

text \<open>the patch file is read, asking for approval\<close>

definition zh_ask_apply :: string where
  "zh_ask_apply =
    [CHR 0x70, CHR 0x61, CHR 0x74, CHR 0x63, CHR 0x68, CHR 0x20, CHR 0xE6, CHR 0x96, CHR 0x87, CHR 0xE4,
     CHR 0xBB, CHR 0xB6, CHR 0xE5, CHR 0xB7, CHR 0xB2, CHR 0xE8, CHR 0xAF, CHR 0xBB, CHR 0xE5, CHR 0x8F,
     CHR 0x96, CHR 0xEF, CHR 0xBC, CHR 0x8C, CHR 0xE6, CHR 0x88, CHR 0x91, CHR 0xE4, CHR 0xBC, CHR 0x9A,
     CHR 0xE8, CHR 0xAF, CHR 0xB7, CHR 0xE6, CHR 0xB1, CHR 0x82, CHR 0xE5, CHR 0xAE, CHR 0xA1, CHR 0xE6,
     CHR 0x89, CHR 0xB9, CHR 0xE5, CHR 0x90, CHR 0x8E, CHR 0xE5, CHR 0xBA, CHR 0x94, CHR 0xE7, CHR 0x94,
     CHR 0xA8, CHR 0xE8, CHR 0xBF, CHR 0x99, CHR 0xE4, CHR 0xB8, CHR 0xAA, CHR 0x20, CHR 0x73, CHR 0x6E,
     CHR 0x61, CHR 0x70, CHR 0x73, CHR 0x68, CHR 0x6F, CHR 0x74, CHR 0xE3, CHR 0x80, CHR 0x82]"

text \<open>apply the patch after approval\<close>

definition zh_apply_approved :: string where
  "zh_apply_approved =
    [CHR 0xE5, CHR 0xAE, CHR 0xA1, CHR 0xE6, CHR 0x89, CHR 0xB9, CHR 0xE5, CHR 0x90, CHR 0x8E, CHR 0xE5,
     CHR 0xBA, CHR 0x94, CHR 0xE7, CHR 0x94, CHR 0xA8, CHR 0x20, CHR 0x70, CHR 0x61, CHR 0x74, CHR 0x63,
     CHR 0x68]"

text \<open>run the tests of the project\<close>

definition zh_run_tests :: string where
  "zh_run_tests =
    [CHR 0xE8, CHR 0xBF, CHR 0x90, CHR 0xE8, CHR 0xA1, CHR 0x8C, CHR 0xE9, CHR 0xA1, CHR 0xB9, CHR 0xE7,
     CHR 0x9B, CHR 0xAE, CHR 0xE6, CHR 0xB5, CHR 0x8B, CHR 0xE8, CHR 0xAF, CHR 0x95]"

text \<open>the project is inspected, running the tests\<close>

definition zh_inspected :: string where
  "zh_inspected =
    [CHR 0xE9, CHR 0xA1, CHR 0xB9, CHR 0xE7, CHR 0x9B, CHR 0xAE, CHR 0xE6, CHR 0xA3, CHR 0x80, CHR 0xE6,
     CHR 0x9F, CHR 0xA5, CHR 0xE5, CHR 0xAE, CHR 0x8C, CHR 0xE6, CHR 0x88, CHR 0x90, CHR 0xEF, CHR 0xBC,
     CHR 0x8C, CHR 0xE6, CHR 0x88, CHR 0x91, CHR 0xE4, CHR 0xBC, CHR 0x9A, CHR 0xE7, CHR 0xBB, CHR 0xA7,
     CHR 0xE7, CHR 0xBB, CHR 0xAD, CHR 0xE8, CHR 0xBF, CHR 0x90, CHR 0xE8, CHR 0xA1, CHR 0x8C, CHR 0xE6,
     CHR 0xB5, CHR 0x8B, CHR 0xE8, CHR 0xAF, CHR 0x95, CHR 0xE3, CHR 0x80, CHR 0x82]"

text \<open>run the tests again after the patch\<close>

definition zh_rerun :: string where
  "zh_rerun =
    [CHR 0x70, CHR 0x61, CHR 0x74, CHR 0x63, CHR 0x68, CHR 0x20, CHR 0xE5, CHR 0xBA, CHR 0x94, CHR 0xE7,
     CHR 0x94, CHR 0xA8, CHR 0xE5, CHR 0x90, CHR 0x8E, CHR 0xE9, CHR 0x87, CHR 0x8D, CHR 0xE6, CHR 0x96,
     CHR 0xB0, CHR 0xE8, CHR 0xBF, CHR 0x90, CHR 0xE8, CHR 0xA1, CHR 0x8C, CHR 0xE6, CHR 0xB5, CHR 0x8B,
     CHR 0xE8, CHR 0xAF, CHR 0x95]"

text \<open>the patch is applied, running the tests again\<close>

definition zh_applied :: string where
  "zh_applied =
    [CHR 0x70, CHR 0x61, CHR 0x74, CHR 0x63, CHR 0x68, CHR 0x20, CHR 0xE5, CHR 0xB7, CHR 0xB2, CHR 0xE5,
     CHR 0xBA, CHR 0x94, CHR 0xE7, CHR 0x94, CHR 0xA8, CHR 0xEF, CHR 0xBC, CHR 0x8C, CHR 0xE6, CHR 0x88,
     CHR 0x91, CHR 0xE4, CHR 0xBC, CHR 0x9A, CHR 0xE7, CHR 0xBB, CHR 0xA7, CHR 0xE7, CHR 0xBB, CHR 0xAD,
     CHR 0xE9, CHR 0x87, CHR 0x8D, CHR 0xE6, CHR 0x96, CHR 0xB0, CHR 0xE8, CHR 0xBF, CHR 0x90, CHR 0xE8,
     CHR 0xA1, CHR 0x8C, CHR 0xE6, CHR 0xB5, CHR 0x8B, CHR 0xE8, CHR 0xAF, CHR 0x95, CHR 0xE3, CHR 0x80,
     CHR 0x82]"

text \<open>the failure is parsed\<close>

definition zh_parsed :: string where
  "zh_parsed =
    [CHR 0xE6, CHR 0xB5, CHR 0x8B, CHR 0xE8, CHR 0xAF, CHR 0x95, CHR 0xE5, CHR 0xA4, CHR 0xB1, CHR 0xE8,
     CHR 0xB4, CHR 0xA5, CHR 0xE8, CHR 0xA7, CHR 0xA3, CHR 0xE6, CHR 0x9E, CHR 0x90, CHR 0xE5, CHR 0xAE,
     CHR 0x8C, CHR 0xE6, CHR 0x88, CHR 0x90, CHR 0xE3, CHR 0x80, CHR 0x82]"

text \<open>the failure is parsed, with a colon\<close>

definition zh_parsed_colon :: string where
  "zh_parsed_colon =
    [CHR 0xE6, CHR 0xB5, CHR 0x8B, CHR 0xE8, CHR 0xAF, CHR 0x95, CHR 0xE5, CHR 0xA4, CHR 0xB1, CHR 0xE8,
     CHR 0xB4, CHR 0xA5, CHR 0xE8, CHR 0xA7, CHR 0xA3, CHR 0xE6, CHR 0x9E, CHR 0x90, CHR 0xE5, CHR 0xAE,
     CHR 0x8C, CHR 0xE6, CHR 0x88, CHR 0x90, CHR 0xEF, CHR 0xBC, CHR 0x9A]"

text \<open>the fix loop stopped, a patch proposal is needed\<close>

definition zh_loop_stopped :: string where
  "zh_loop_stopped =
    [CHR 0xE6, CHR 0xB5, CHR 0x8B, CHR 0xE8, CHR 0xAF, CHR 0x95, CHR 0xE4, CHR 0xBF, CHR 0xAE, CHR 0xE5,
     CHR 0xA4, CHR 0x8D, CHR 0xE5, CHR 0xBE, CHR 0xAA, CHR 0xE7, CHR 0x8E, CHR 0xAF, CHR 0xE5, CHR 0xB7,
     CHR 0xB2, CHR 0xE5, CHR 0x81, CHR 0x9C, CHR 0xE6, CHR 0xAD, CHR 0xA2, CHR 0xEF, CHR 0xBC, CHR 0x9A,
     CHR 0xE9, CHR 0x9C, CHR 0x80, CHR 0xE8, CHR 0xA6, CHR 0x81, CHR 0xE7, CHR 0x94, CHR 0x9F, CHR 0xE6,
     CHR 0x88, CHR 0x90, CHR 0x20, CHR 0x70, CHR 0x61, CHR 0x74, CHR 0x63, CHR 0x68, CHR 0x20, CHR 0x70,
     CHR 0x72, CHR 0x6F, CHR 0x70, CHR 0x6F, CHR 0x73, CHR 0x61, CHR 0x6C, CHR 0x20, CHR 0xE5, CHR 0xB9,
     CHR 0xB6, CHR 0xE5, CHR 0x9C, CHR 0xA8, CHR 0xE5, CHR 0xAE, CHR 0xA1, CHR 0xE6, CHR 0x89, CHR 0xB9,
     CHR 0xE5, CHR 0x90, CHR 0x8E, CHR 0xE5, CHR 0xBA, CHR 0x94, CHR 0xE7, CHR 0x94, CHR 0xA8, CHR 0xE3,
     CHR 0x80, CHR 0x82]"

text \<open>the fix loop stopped, with its reason\<close>

definition zh_loop_reason :: string where
  "zh_loop_reason =
    [CHR 0xE6, CHR 0xB5, CHR 0x8B, CHR 0xE8, CHR 0xAF, CHR 0x95, CHR 0xE4, CHR 0xBF, CHR 0xAE, CHR 0xE5,
     CHR 0xA4, CHR 0x8D, CHR 0xE5, CHR 0xBE, CHR 0xAA, CHR 0xE7, CHR 0x8E, CHR 0xAF, CHR 0xE5, CHR 0xB7,
     CHR 0xB2, CHR 0xE5, CHR 0x81, CHR 0x9C, CHR 0xE6, CHR 0xAD, CHR 0xA2, CHR 0xEF, CHR 0xBC, CHR 0x9A]"

text \<open>suspected secrets are not stored\<close>

definition zh_memory_secret :: string where
  "zh_memory_secret =
    [CHR 0xE6, CHR 0x88, CHR 0x91, CHR 0xE4, CHR 0xBC, CHR 0x9A, CHR 0xE5, CHR 0x85, CHR 0x88, CHR 0xE8,
     CHR 0xBF, CHR 0x90, CHR 0xE8, CHR 0xA1, CHR 0x8C, CHR 0xE8, CHR 0xAE, CHR 0xB0, CHR 0xE5, CHR 0xBF,
     CHR 0x86, CHR 0xE5, CHR 0x80, CHR 0x99, CHR 0xE9, CHR 0x80, CHR 0x89, CHR 0xE6, CHR 0x8F, CHR 0x90,
     CHR 0xE5, CHR 0x8F, CHR 0x96, CHR 0xEF, CHR 0xBC, CHR 0x9B, CHR 0xE7, CHR 0x96, CHR 0x91, CHR 0xE4,
     CHR 0xBC, CHR 0xBC, CHR 0xE6, CHR 0x95, CHR 0x8F, CHR 0xE6, CHR 0x84, CHR 0x9F, CHR 0xE5, CHR 0x86,
     CHR 0x85, CHR 0xE5, CHR 0xAE, CHR 0xB9, CHR 0xE4, CHR 0xB8, CHR 0x8D, CHR 0xE4, CHR 0xBC, CHR 0x9A,
     CHR 0xE5, CHR 0x86, CHR 0x99, CHR 0xE5, CHR 0x85, CHR 0xA5, CHR 0x20, CHR 0x72, CHR 0x65, CHR 0x76,
     CHR 0x69, CHR 0x65, CHR 0x77, CHR 0x20, CHR 0x71, CHR 0x75, CHR 0x65, CHR 0x75, CHR 0x65, CHR 0x20,
     CHR 0xE6, CHR 0x88, CHR 0x96, CHR 0xE9, CHR 0x95, CHR 0xBF, CHR 0xE6, CHR 0x9C, CHR 0x9F, CHR 0xE8,
     CHR 0xAE, CHR 0xB0, CHR 0xE5, CHR 0xBF, CHR 0x86, CHR 0xE3, CHR 0x80, CHR 0x82]"

text \<open>check languages, configuration and test commands\<close>

definition zh_cp_config :: string where
  "zh_cp_config =
    [CHR 0xE6, CHR 0xA3, CHR 0x80, CHR 0xE6, CHR 0x9F, CHR 0xA5, CHR 0xE9, CHR 0xA1, CHR 0xB9, CHR 0xE7,
     CHR 0x9B, CHR 0xAE, CHR 0xE8, CHR 0xAF, CHR 0xAD, CHR 0xE8, CHR 0xA8, CHR 0x80, CHR 0xE3, CHR 0x80,
     CHR 0x81, CHR 0xE9, CHR 0x85, CHR 0x8D, CHR 0xE7, CHR 0xBD, CHR 0xAE, CHR 0xE5, CHR 0x92, CHR 0x8C,
     CHR 0xE6, CHR 0xB5, CHR 0x8B, CHR 0xE8, CHR 0xAF, CHR 0x95, CHR 0xE5, CHR 0x91, CHR 0xBD, CHR 0xE4,
     CHR 0xBB, CHR 0xA4]"

text \<open>search the code\<close>

definition zh_cp_search :: string where
  "zh_cp_search =
    [CHR 0xE6, CHR 0x8C, CHR 0x89, CHR 0xE9, CHR 0x9C, CHR 0x80, CHR 0xE6, CHR 0xB1, CHR 0x82, CHR 0xE6,
     CHR 0x90, CHR 0x9C, CHR 0xE7, CHR 0xB4, CHR 0xA2, CHR 0xE7, CHR 0x9B, CHR 0xB8, CHR 0xE5, CHR 0x85,
     CHR 0xB3, CHR 0xE4, CHR 0xBB, CHR 0xA3, CHR 0xE7, CHR 0xA0, CHR 0x81]"

text \<open>read the files\<close>

definition zh_cp_read :: string where
  "zh_cp_read =
    [CHR 0xE8, CHR 0xAF, CHR 0xBB, CHR 0xE5, CHR 0x8F, CHR 0x96, CHR 0xE7, CHR 0x9B, CHR 0xB8, CHR 0xE5,
     CHR 0x85, CHR 0xB3, CHR 0xE6, CHR 0x96, CHR 0x87, CHR 0xE4, CHR 0xBB, CHR 0xB6]"

text \<open>check the project structure\<close>

definition zh_cp_structure :: string where
  "zh_cp_structure =
    [CHR 0xE6, CHR 0xA3, CHR 0x80, CHR 0xE6, CHR 0x9F, CHR 0xA5, CHR 0xE9, CHR 0xA1, CHR 0xB9, CHR 0xE7,
     CHR 0x9B, CHR 0xAE, CHR 0xE7, CHR 0xBB, CHR 0x93, CHR 0xE6, CHR 0x9E, CHR 0x84]"

text \<open>run the allowlisted test command\<close>

definition zh_cp_allowed :: string where
  "zh_cp_allowed =
    [CHR 0xE8, CHR 0xBF, CHR 0x90, CHR 0xE8, CHR 0xA1, CHR 0x8C, CHR 0x20, CHR 0x61, CHR 0x6C, CHR 0x6C,
     CHR 0x6F, CHR 0x77, CHR 0x6C, CHR 0x69, CHR 0x73, CHR 0x74, CHR 0x65, CHR 0x64, CHR 0x20, CHR 0xE6,
     CHR 0xB5, CHR 0x8B, CHR 0xE8, CHR 0xAF, CHR 0x95, CHR 0xE5, CHR 0x91, CHR 0xBD, CHR 0xE4, CHR 0xBB,
     CHR 0xA4]"

text \<open>parse the failing output\<close>

definition zh_cp_parse :: string where
  "zh_cp_parse =
    [CHR 0xE8, CHR 0xA7, CHR 0xA3, CHR 0xE6, CHR 0x9E, CHR 0x90, CHR 0xE5, CHR 0xA4, CHR 0xB1, CHR 0xE8,
     CHR 0xB4, CHR 0xA5, CHR 0xE8, CHR 0xBE, CHR 0x93, CHR 0xE5, CHR 0x87, CHR 0xBA]"

text \<open>run the tests and collect the failures\<close>

definition zh_cp_fix :: string where
  "zh_cp_fix =
    [CHR 0xE8, CHR 0xBF, CHR 0x90, CHR 0xE8, CHR 0xA1, CHR 0x8C, CHR 0xE6, CHR 0xB5, CHR 0x8B, CHR 0xE8,
     CHR 0xAF, CHR 0x95, CHR 0xE5, CHR 0xB9, CHR 0xB6, CHR 0xE6, CHR 0x95, CHR 0xB4, CHR 0xE7, CHR 0x90,
     CHR 0x86, CHR 0xE5, CHR 0xA4, CHR 0xB1, CHR 0xE8, CHR 0xB4, CHR 0xA5, CHR 0xE4, CHR 0xB8, CHR 0x8A,
     CHR 0xE4, CHR 0xB8, CHR 0x8B, CHR 0xE6, CHR 0x96, CHR 0x87]"

text \<open>a patch proposal by planner or model\<close>

definition zh_cp_propose :: string where
  "zh_cp_propose =
    [CHR 0xE7, CHR 0x94, CHR 0xB1, CHR 0x20, CHR 0x70, CHR 0x6C, CHR 0x61, CHR 0x6E, CHR 0x6E, CHR 0x65,
     CHR 0x72, CHR 0x2F, CHR 0x6D, CHR 0x6F, CHR 0x64, CHR 0x65, CHR 0x6C, CHR 0x20, CHR 0xE7, CHR 0x94,
     CHR 0x9F, CHR 0xE6, CHR 0x88, CHR 0x90, CHR 0x20, CHR 0x70, CHR 0x61, CHR 0x74, CHR 0x63, CHR 0x68,
     CHR 0x20, CHR 0x70, CHR 0x72, CHR 0x6F, CHR 0x70, CHR 0x6F, CHR 0x73, CHR 0x61, CHR 0x6C]"

text \<open>apply the patch snapshot after approval\<close>

definition zh_cp_apply :: string where
  "zh_cp_apply =
    [CHR 0xE5, CHR 0xAE, CHR 0xA1, CHR 0xE6, CHR 0x89, CHR 0xB9, CHR 0xE5, CHR 0x90, CHR 0x8E, CHR 0xE5,
     CHR 0xBA, CHR 0x94, CHR 0xE7, CHR 0x94, CHR 0xA8, CHR 0xE5, CHR 0x85, CHR 0xB7, CHR 0xE4, CHR 0xBD,
     CHR 0x93, CHR 0x20, CHR 0x70, CHR 0x61, CHR 0x74, CHR 0x63, CHR 0x68, CHR 0x20, CHR 0x73, CHR 0x6E,
     CHR 0x61, CHR 0x70, CHR 0x73, CHR 0x68, CHR 0x6F, CHR 0x74]"

text \<open>parse the next failing output\<close>

definition zh_cp_next :: string where
  "zh_cp_next =
    [CHR 0xE5, CHR 0xA6, CHR 0x82, CHR 0xE6, CHR 0x9E, CHR 0x9C, CHR 0xE4, CHR 0xBB, CHR 0x8D, CHR 0xE5,
     CHR 0xA4, CHR 0xB1, CHR 0xE8, CHR 0xB4, CHR 0xA5, CHR 0xEF, CHR 0xBC, CHR 0x8C, CHR 0xE8, CHR 0xA7,
     CHR 0xA3, CHR 0xE6, CHR 0x9E, CHR 0x90, CHR 0xE4, CHR 0xB8, CHR 0x8B, CHR 0xE4, CHR 0xB8, CHR 0x80,
     CHR 0xE8, CHR 0xBD, CHR 0xAE, CHR 0xE5, CHR 0xA4, CHR 0xB1, CHR 0xE8, CHR 0xB4, CHR 0xA5, CHR 0xE8,
     CHR 0xBE, CHR 0x93, CHR 0xE5, CHR 0x87, CHR 0xBA]"

text \<open>detect the project structure\<close>

definition zh_cp_detect :: string where
  "zh_cp_detect =
    [CHR 0xE6, CHR 0xA3, CHR 0x80, CHR 0xE6, CHR 0xB5, CHR 0x8B, CHR 0xE9, CHR 0xA1, CHR 0xB9, CHR 0xE7,
     CHR 0x9B, CHR 0xAE, CHR 0xE7, CHR 0xBB, CHR 0x93, CHR 0xE6, CHR 0x9E, CHR 0x84]"

text \<open>parse the output if the tests fail\<close>

definition zh_cp_if_failed :: string where
  "zh_cp_if_failed =
    [CHR 0xE5, CHR 0xA6, CHR 0x82, CHR 0xE5, CHR 0xA4, CHR 0xB1, CHR 0xE8, CHR 0xB4, CHR 0xA5, CHR 0xE5,
     CHR 0x88, CHR 0x99, CHR 0xE8, CHR 0xA7, CHR 0xA3, CHR 0xE6, CHR 0x9E, CHR 0x90, CHR 0xE6, CHR 0xB5,
     CHR 0x8B, CHR 0xE8, CHR 0xAF, CHR 0x95, CHR 0xE8, CHR 0xBE, CHR 0x93, CHR 0xE5, CHR 0x87, CHR 0xBA]"

text \<open>remember, forget\<close>

definition remember_words :: "string list" where
  "remember_words =
    [[CHR 0xE8, CHR 0xAE, CHR 0xB0, CHR 0xE4, CHR 0xBD, CHR 0x8F],
     [CHR 0xE5, CHR 0xBF, CHR 0x98, CHR 0xE8, CHR 0xAE, CHR 0xB0]]"

text \<open>from now on, preference, like\<close>

definition preference_words :: "string list" where
  "preference_words =
    [[CHR 0xE4, CHR 0xBB, CHR 0xA5, CHR 0xE5, CHR 0x90, CHR 0x8E],
     [CHR 0xE5, CHR 0x81, CHR 0x8F, CHR 0xE5, CHR 0xA5, CHR 0xBD],
     [CHR 0xE5, CHR 0x96, CHR 0x9C, CHR 0xE6, CHR 0xAC, CHR 0xA2]]"

text \<open>answer, use, in Chinese, language\<close>

definition answer_words :: "string list" where
  "answer_words =
    [[CHR 0xE5, CHR 0x9B, CHR 0x9E, CHR 0xE7, CHR 0xAD, CHR 0x94],
     [CHR 0xE4, CHR 0xBD, CHR 0xBF, CHR 0xE7, CHR 0x94, CHR 0xA8],
     [CHR 0xE7, CHR 0x94, CHR 0xA8, CHR 0xE4, CHR 0xB8, CHR 0xAD, CHR 0xE6, CHR 0x96, CHR 0x87],
     [CHR 0xE8, CHR 0xAF, CHR 0xAD, CHR 0xE8, CHR 0xA8, CHR 0x80]]"

text \<open>knowledge base\<close>

definition kb_words :: "string list" where
  "kb_words =
    [[CHR 0xE7, CHR 0x9F, CHR 0xA5, CHR 0xE8, CHR 0xAF, CHR 0x86, CHR 0xE5, CHR 0xBA, CHR 0x93], ''kb'']"

text \<open>answer, cite, source, retrieve, according to\<close>

definition cite_words :: "string list" where
  "cite_words =
    [[CHR 0xE5, CHR 0x9B, CHR 0x9E, CHR 0xE7, CHR 0xAD, CHR 0x94],
     [CHR 0xE5, CHR 0xBC, CHR 0x95, CHR 0xE7, CHR 0x94, CHR 0xA8],
     [CHR 0xE6, CHR 0x9D, CHR 0xA5, CHR 0xE6, CHR 0xBA, CHR 0x90],
     [CHR 0xE6, CHR 0xA3, CHR 0x80, CHR 0xE7, CHR 0xB4, CHR 0xA2],
     [CHR 0xE6, CHR 0xA0, CHR 0xB9, CHR 0xE6, CHR 0x8D, CHR 0xAE]]"

text \<open>words for an operation\<close>

definition operation_verbs :: "string list" where
  "operation_verbs =
    [[CHR 0xE7, CHR 0x9C, CHR 0x8B], [CHR 0xE6, CHR 0x9F, CHR 0xA5, CHR 0xE7, CHR 0x9C, CHR 0x8B],
     [CHR 0xE8, CHR 0xAF, CHR 0xBB, CHR 0xE5, CHR 0x8F, CHR 0x96],
     [CHR 0xE6, CHR 0x89, CHR 0x93, CHR 0xE5, CHR 0xBC, CHR 0x80],
     [CHR 0xE6, CHR 0x90, CHR 0x9C, CHR 0xE7, CHR 0xB4, CHR 0xA2],
     [CHR 0xE5, CHR 0xAE, CHR 0x9A, CHR 0xE4, CHR 0xBD, CHR 0x8D],
     [CHR 0xE8, CHR 0x8E, CHR 0xB7, CHR 0xE5, CHR 0x8F, CHR 0x96],
     [CHR 0xE6, CHR 0xA3, CHR 0x80, CHR 0xE6, CHR 0x9F, CHR 0xA5],
     [CHR 0xE7, CHR 0xA1, CHR 0xAE, CHR 0xE8, CHR 0xAE, CHR 0xA4],
     [CHR 0xE5, CHR 0x88, CHR 0x97, CHR 0xE5, CHR 0x87, CHR 0xBA],
     [CHR 0xE8, CHR 0xBF, CHR 0x90, CHR 0xE8, CHR 0xA1, CHR 0x8C],
     [CHR 0xE6, CHR 0x89, CHR 0xA7, CHR 0xE8, CHR 0xA1, CHR 0x8C],
     [CHR 0xE6, CHR 0xB5, CHR 0x8B, CHR 0xE8, CHR 0xAF, CHR 0x95],
     [CHR 0xE6, CHR 0xA3, CHR 0x80, CHR 0xE6, CHR 0xB5, CHR 0x8B], [CHR 0xE8, CHR 0xB7, CHR 0x91],
     [CHR 0xE5, CHR 0xAE, CHR 0x89, CHR 0xE8, CHR 0xA3, CHR 0x85],
     [CHR 0xE9, CHR 0x87, CHR 0x8D, CHR 0xE5, CHR 0x90, CHR 0xAF],
     [CHR 0xE5, CHR 0x88, CHR 0xA0, CHR 0xE9, CHR 0x99, CHR 0xA4],
     [CHR 0xE4, CHR 0xBF, CHR 0xAE, CHR 0xE6, CHR 0x94, CHR 0xB9],
     [CHR 0xE4, CHR 0xBF, CHR 0xAE, CHR 0xE5, CHR 0xA4, CHR 0x8D],
     [CHR 0xE5, CHR 0xAE, CHR 0x9E, CHR 0xE7, CHR 0x8E, CHR 0xB0],
     [CHR 0xE5, CHR 0xBA, CHR 0x94, CHR 0xE7, CHR 0x94, CHR 0xA8], ''read'', ''open'', ''search'', ''find'',
     ''get'', ''inspect'', ''check'', ''list'', ''run'', ''execute'', ''test'', ''install'', ''restart'',
     ''delete'', ''modify'', ''fix'', ''implement'', ''apply'']"

text \<open>words for something local, first part\<close>

definition local_resources :: "string list" where
  "local_resources =
    [[CHR 0xE6, CHR 0x9C, CHR 0xAC, CHR 0xE5, CHR 0x9C, CHR 0xB0],
     [CHR 0xE6, CHR 0x9C, CHR 0xAC, CHR 0xE6, CHR 0x9C, CHR 0xBA],
     [CHR 0xE6, CHR 0x9C, CHR 0xBA, CHR 0xE5, CHR 0x99, CHR 0xA8],
     [CHR 0xE7, CHR 0xB3, CHR 0xBB, CHR 0xE7, CHR 0xBB, CHR 0x9F],
     [CHR 0xE8, CHR 0xBF, CHR 0x9B, CHR 0xE7, CHR 0xA8, CHR 0x8B], ''cpu'',
     [CHR 0xE5, CHR 0x8D, CHR 0xA0, CHR 0xE7, CHR 0x94, CHR 0xA8],
     [CHR 0xE7, CHR 0xA3, CHR 0x81, CHR 0xE7, CHR 0x9B, CHR 0x98],
     [CHR 0xE5, CHR 0x86, CHR 0x85, CHR 0xE5, CHR 0xAD, CHR 0x98],
     [CHR 0xE6, CHR 0x97, CHR 0xA5, CHR 0xE5, CHR 0xBF, CHR 0x97],
     [CHR 0xE6, CHR 0x96, CHR 0x87, CHR 0xE4, CHR 0xBB, CHR 0xB6],
     [CHR 0xE7, CHR 0x9B, CHR 0xAE, CHR 0xE5, CHR 0xBD, CHR 0x95],
     [CHR 0xE8, CHR 0xB7, CHR 0xAF, CHR 0xE5, CHR 0xBE, CHR 0x84],
     [CHR 0xE4, CHR 0xBB, CHR 0x93, CHR 0xE5, CHR 0xBA, CHR 0x93],
     [CHR 0xE9, CHR 0xA1, CHR 0xB9, CHR 0xE7, CHR 0x9B, CHR 0xAE],
     [CHR 0xE4, CHR 0xBB, CHR 0xA3, CHR 0xE7, CHR 0xA0, CHR 0x81],
     [CHR 0xE6, CHR 0x9C, CHR 0x8D, CHR 0xE5, CHR 0x8A, CHR 0xA1],
     [CHR 0xE4, CHR 0xB8, CHR 0xBB, CHR 0xE6, CHR 0x9C, CHR 0xBA],
     [CHR 0xE7, CHR 0x9F, CHR 0xA5, CHR 0xE8, CHR 0xAF, CHR 0x86, CHR 0xE5, CHR 0xBA, CHR 0x93],
     [CHR 0xE5, CHR 0xAE, CHR 0xA1, CHR 0xE6, CHR 0x89, CHR 0xB9],
     [CHR 0xE5, CHR 0xAE, CHR 0xB9, CHR 0xE5, CHR 0x99, CHR 0xA8], ''pod'', ''bug'',
     [CHR 0xE6, CHR 0xB5, CHR 0x8B, CHR 0xE8, CHR 0xAF, CHR 0x95],
     [CHR 0xE5, CHR 0xA4, CHR 0xB1, CHR 0xE8, CHR 0xB4, CHR 0xA5],
     [CHR 0xE5, CHR 0x8A, CHR 0x9F, CHR 0xE8, CHR 0x83, CHR 0xBD], ''patch'', ''diff'']"

text \<open>words for something local, last part\<close>

definition resource_names :: "string list" where
  "resource_names =
    [''local'', ''system'', ''process'', ''cpu'', ''disk'', ''memory'', ''log'', ''file'', ''directory'',
     ''path'', ''repo'', ''repository'', ''code'', ''service'', ''host'', ''knowledge base'', ''approval'',
     ''container'', ''bug'', ''test'', ''failure'', ''feature'']"

text \<open>asking for tests\<close>

definition test_words :: "string list" where
  "test_words =
    [[CHR 0xE8, CHR 0xB7, CHR 0x91, CHR 0xE6, CHR 0xB5, CHR 0x8B, CHR 0xE8, CHR 0xAF, CHR 0x95],
     [CHR 0xE8, CHR 0xBF, CHR 0x90, CHR 0xE8, CHR 0xA1, CHR 0x8C, CHR 0xE6, CHR 0xB5, CHR 0x8B, CHR 0xE8, CHR 0xAF, CHR 0x95],
     [CHR 0xE6, CHR 0xB5, CHR 0x8B, CHR 0xE8, CHR 0xAF, CHR 0x95], ''run tests'', ''go test'', ''npm test'',
     ''pytest'', ''cargo test'', ''make test'']"

text \<open>asking to validate a patch\<close>

definition validate_words :: "string list" where
  "validate_words =
    [''validate patch'', ''patch validate'',
     [CHR 0xE9, CHR 0xAA, CHR 0x8C, CHR 0xE8, CHR 0xAF, CHR 0x81, CHR 0x20, CHR 0x70, CHR 0x61, CHR 0x74, CHR 0x63, CHR 0x68],
     [CHR 0xE6, CHR 0xA0, CHR 0xA1, CHR 0xE9, CHR 0xAA, CHR 0x8C, CHR 0x20, CHR 0x70, CHR 0x61, CHR 0x74, CHR 0x63, CHR 0x68],
     ''dry-run patch'']"

text \<open>asking to apply a patch\<close>

definition apply_words :: "string list" where
  "apply_words =
    [''apply patch'', ''patch apply'',
     [CHR 0xE5, CHR 0xBA, CHR 0x94, CHR 0xE7, CHR 0x94, CHR 0xA8, CHR 0x20, CHR 0x70, CHR 0x61, CHR 0x74, CHR 0x63, CHR 0x68]]"

text \<open>opening and closing quotation marks in turn\<close>

definition quote_pairs_zh :: "string list" where
  "quote_pairs_zh =
    [[CHR 0xE2, CHR 0x80, CHR 0x9C], [CHR 0xE2, CHR 0x80, CHR 0x9D], [CHR 0xE2, CHR 0x80, CHR 0x98],
     [CHR 0xE2, CHR 0x80, CHR 0x99], [CHR 0xE3, CHR 0x80, CHR 0x8C], [CHR 0xE3, CHR 0x80, CHR 0x8D],
     [CHR 0xE3, CHR 0x80, CHR 0x8E], [CHR 0xE3, CHR 0x80, CHR 0x8F], [CHR 0xE3, CHR 0x80, CHR 0x8A],
     [CHR 0xE3, CHR 0x80, CHR 0x8B]]"

text \<open>all multi-byte runes trimmed from a token\<close>

definition name_quotes :: "string list" where
  "name_quotes =
    [[CHR 0xE2, CHR 0x80, CHR 0x9C], [CHR 0xE2, CHR 0x80, CHR 0x9D], [CHR 0xE2, CHR 0x80, CHR 0x98],
     [CHR 0xE2, CHR 0x80, CHR 0x99], [CHR 0xE3, CHR 0x80, CHR 0x8C], [CHR 0xE3, CHR 0x80, CHR 0x8D],
     [CHR 0xE3, CHR 0x80, CHR 0x8E], [CHR 0xE3, CHR 0x80, CHR 0x8F], [CHR 0xEF, CHR 0xBC, CHR 0x8C],
     [CHR 0xE3, CHR 0x80, CHR 0x82], [CHR 0xEF, CHR 0xBC, CHR 0x9B], [CHR 0xEF, CHR 0xBC, CHR 0x9A]]"

end
