(* ===== verification/Sha256.thy ===== *)
theory Sha256
  imports Prelude "HOL-Library.Word"
begin

unbundle bit_operations_syntax

text \<open>
  SHA-256 on byte strings, as \<open>crypto/sha256.Sum256\<close> computes it (FIPS 180-4), and the lower-case
  hexadecimal rendering of \<open>encoding/hex\<close>. The approval centre fixes an input snapshot by this hash.
\<close>

type_synonym u32 = "32 word"

definition rotr :: "nat \<Rightarrow> u32 \<Rightarrow> u32" where
  "rotr n x = drop_bit n x OR push_bit (32 - n) x"

definition sha_k :: "u32 list" where
  "sha_k = [
     1116352408, 1899447441, 3049323471, 3921009573, 961987163, 1508970993,
     2453635748, 2870763221, 3624381080, 310598401, 607225278, 1426881987,
     1925078388, 2162078206, 2614888103, 3248222580, 3835390401, 4022224774,
     264347078, 604807628, 770255983, 1249150122, 1555081692, 1996064986,
     2554220882, 2821834349, 2952996808, 3210313671, 3336571891, 3584528711,
     113926993, 338241895, 666307205, 773529912, 1294757372, 1396182291,
     1695183700, 1986661051, 2177026350, 2456956037, 2730485921, 2820302411,
     3259730800, 3345764771, 3516065817, 3600352804, 4094571909, 275423344,
     430227734, 506948616, 659060556, 883997877, 958139571, 1322822218,
     1537002063, 1747873779, 1955562222, 2024104815, 2227730452, 2361852424,
     2428436474, 2756734187, 3204031479, 3329325298]"

definition sha_init :: "u32 list" where
  "sha_init = [1779033703, 3144134277, 1013904242, 2773480762,
     1359893119, 2600822924, 528734635, 1541459225]"

section \<open>Padding and words\<close>

definition be_bytes :: "nat \<Rightarrow> nat \<Rightarrow> nat list" where
  "be_bytes n v = map (\<lambda>i. v div 256 ^ (n - 1 - i) mod 256) [0..<n]"

definition sha_pad :: "nat list \<Rightarrow> nat list" where
  "sha_pad bs = bs @ [128] @ replicate ((119 - length bs mod 64) mod 64) 0 @ be_bytes 8 (8 * length bs)"

fun word_of_bytes :: "nat list \<Rightarrow> u32" where
  "word_of_bytes bs = foldl (\<lambda>w b. push_bit 8 w OR of_nat b) 0 bs"

fun chunks_of :: "nat \<Rightarrow> 'a list \<Rightarrow> 'a list list" where
  "chunks_of n xs = (if n = 0 \<or> xs = [] then [] else take n xs # chunks_of n (drop n xs))"

declare chunks_of.simps [simp del]

section \<open>Message schedule and compression\<close>

definition sched_word :: "u32 list \<Rightarrow> nat \<Rightarrow> u32" where
  "sched_word w t =
     (let a = w ! (t - 15); b = w ! (t - 2);
          s0 = rotr 7 a XOR rotr 18 a XOR drop_bit 3 a;
          s1 = rotr 17 b XOR rotr 19 b XOR drop_bit 10 b
      in w ! (t - 16) + s0 + w ! (t - 7) + s1)"

definition schedule :: "u32 list \<Rightarrow> u32 list" where
  "schedule w0 = foldl (\<lambda>w t. w @ [sched_word w t]) w0 [16..<64]"

fun sha_round :: "u32 list \<Rightarrow> u32 \<times> u32 \<Rightarrow> u32 list" where
  "sha_round [a, b, c, d, e, f, g, h] (k, w) =
     (let s1 = rotr 6 e XOR rotr 11 e XOR rotr 25 e;
          ch = (e AND f) XOR ((NOT e) AND g);
          t1 = h + s1 + ch + k + w;
          s0 = rotr 2 a XOR rotr 13 a XOR rotr 22 a;
          maj = (a AND b) XOR (a AND c) XOR (b AND c)
      in [t1 + s0 + maj, a, b, c, d + t1, e, f, g])"
| "sha_round st _ = st"

definition sha_block :: "u32 list \<Rightarrow> nat list \<Rightarrow> u32 list" where
  "sha_block hs block =
     map2 (+) hs (foldl sha_round hs (zip sha_k (schedule (map word_of_bytes (chunks_of 4 block)))))"

definition sha256 :: "string \<Rightarrow> nat list" where
  "sha256 s =
     concat (map (\<lambda>w. be_bytes 4 (unat w))
       (foldl sha_block sha_init (chunks_of 64 (sha_pad (map of_char s)))))"

definition hex_digit :: "nat \<Rightarrow> char" where
  "hex_digit d = (if d < 10 then char_of (48 + d) else char_of (87 + d))"

definition hex_bytes :: "nat list \<Rightarrow> string" where
  "hex_bytes bs = concat (map (\<lambda>b. [hex_digit (b div 16), hex_digit (b mod 16)]) bs)"

section \<open>Shape of the digest\<close>

lemma length_be_bytes [simp]: "length (be_bytes n v) = n"
  by (simp add: be_bytes_def)

lemma length_sha_round [simp]: "length st = 8 \<Longrightarrow> length (sha_round st kw) = 8"
  by (cases "(st, kw)" rule: sha_round.cases) (auto simp: Let_def)

lemma length_foldl_round: "length st = 8 \<Longrightarrow> length (foldl sha_round st kws) = 8"
  by (induction kws arbitrary: st) auto

lemma length_sha_block: "length hs = 8 \<Longrightarrow> length (sha_block hs b) = 8"
  by (simp add: sha_block_def length_foldl_round)

lemma length_foldl_block: "length hs = 8 \<Longrightarrow> length (foldl sha_block hs bs) = 8"
  by (induction bs arbitrary: hs) (auto simp: length_sha_block)

lemma length_sha256: "length (sha256 s) = 32"
proof -
  have "length (foldl sha_block sha_init bs) = 8" for bs
    by (rule length_foldl_block) (simp add: sha_init_def)
  then show ?thesis
    by (simp add: sha256_def length_concat comp_def sum_list_triv)
qed

lemma length_hex_bytes [simp]: "length (hex_bytes bs) = 2 * length bs"
  by (induction bs) (auto simp: hex_bytes_def)

text \<open>The padded message is a whole number of 64-byte blocks.\<close>

lemma pad_arith: "r < 64 \<Longrightarrow> (r + 9 + (119 - r) mod 64) mod 64 = (0::nat)"
proof (cases "r \<le> 55")
  case True
  moreover assume "r < 64"
  moreover have "(119 - r) mod 64 = 55 - r"
    using True by (subst le_mod_geq) auto
  ultimately show ?thesis by simp
next
  case False
  moreover assume "r < 64"
  moreover have "(119 - r) mod 64 = 119 - r"
    using False by simp
  ultimately show ?thesis by (simp add: le_mod_geq)
qed

lemma sha_pad_blocks: "length (sha_pad bs) mod 64 = 0"
proof -
  let ?r = "length bs mod 64"
  have "length (sha_pad bs) mod 64 = (length bs + (9 + (119 - ?r) mod 64)) mod 64"
    by (simp add: sha_pad_def add.commute add.left_commute)
  also have "\<dots> = (?r + (9 + (119 - ?r) mod 64)) mod 64"
    by (rule mod_add_left_eq [symmetric])
  also have "\<dots> = 0"
    using pad_arith [of ?r] by (simp add: add.assoc)
  finally show ?thesis .
qed

end
