(* ===== verification/Core_Values.thy ===== *)
theory Core_Values
  imports Complex_Main Sha256
begin

text \<open>
  Dynamic values: what a Go \<open>any\<close> or \<open>map[string]any\<close> holds (\<open>internal/core/maps.go\<close>), their JSON
  form, and the three operations the pipeline builds on: a deep copy (\<open>CloneMap\<close>), equality
  through canonical JSON (\<open>MapsEqual\<close>) and a SHA-256 digest of it (\<open>HashMap\<close>).

  \<^item> The constructors keep the dynamic type apart where the source's type switches do: \<open>[]string\<close>
    is not \<open>[]any\<close>, and \<open>[]map[string]any\<close> is neither.
  \<^item> A struct, or a pointer to one, is the list of its JSON fields in declaration order; the omitted
    empty fields are left out where the value is built.
  \<^item> A \<open>float64\<close> is the number its shortest decimal denotes, which is what JSON prints.
  \<^item> \<open>GOpaque\<close> is a value \<open>json.Marshal\<close> refuses: a function, a channel, NaN, an infinity.
  \<^item> A nil map is None and a map that is not nil is Some.
\<close>

section \<open>Quoting\<close>

text \<open>
  \<open>fmt\<close>'s \<open>%q\<close> is written out for bytes; the bytes of a multi-byte character stay as they are, which
  is what \<open>strconv.Quote\<close> does with printable valid UTF-8.
\<close>

definition quote_char :: "char \<Rightarrow> string" where
  "quote_char c =
     (let n = of_char c :: nat; bs = CHR 0x5C in
      if c = CHR 0x22 \<or> c = bs then [bs, c]
      else if n = 7 then [bs, CHR ''a'']
      else if n = 8 then [bs, CHR ''b'']
      else if n = 12 then [bs, CHR ''f'']
      else if n = 10 then [bs, CHR ''n'']
      else if n = 13 then [bs, CHR ''r'']
      else if n = 9 then [bs, CHR ''t'']
      else if n = 11 then [bs, CHR ''v'']
      else if n < 32 \<or> n = 127 then [bs, CHR ''x'', hex_digit (n div 16), hex_digit (n mod 16)]
      else [c])"

definition quote :: "string \<Rightarrow> string" where
  "quote s = [CHR 0x22] @ concat (map quote_char s) @ [CHR 0x22]"

section \<open>Values\<close>

datatype gval =
    GNil
  | GBool bool
  | GInt int
  | GFloat rat
  | GStr string
  | GStrs "string list"
  | GList "gval list"
  | GMap "(string \<times> gval) list"
  | GMaps "(string \<times> gval) list list"
  | GStruct "(string \<times> gval) list"
  | GOpaque

type_synonym gmap = "(string \<times> gval) list"

type_synonym nmap = "gmap option"

definition nm :: "nmap \<Rightarrow> gmap" where
  "nm m = (case m of None \<Rightarrow> [] | Some kvs \<Rightarrow> kvs)"

lemma nm_simps [simp]: "nm None = []" "nm (Some kvs) = kvs"
  by (simp_all add: nm_def)

text \<open>\<open>value, _ := m[key].(string)\<close>: the empty string when the key is missing or holds another type.\<close>

definition str_at :: "gmap \<Rightarrow> string \<Rightarrow> string" where
  "str_at m k = (case map_of m k of Some (GStr s) \<Rightarrow> s | _ \<Rightarrow> [])"

text \<open>\<open>value, ok := m[key].(string)\<close>.\<close>

definition str_opt :: "gmap \<Rightarrow> string \<Rightarrow> string option" where
  "str_opt m k = (case map_of m k of Some (GStr s) \<Rightarrow> Some s | _ \<Rightarrow> None)"

definition bool_at :: "gmap \<Rightarrow> string \<Rightarrow> bool" where
  "bool_at m k = (case map_of m k of Some (GBool b) \<Rightarrow> b | _ \<Rightarrow> False)"

section \<open>Reading a tool's input\<close>

text \<open>\<open>GetString\<close> of \<open>internal/tools/helpers.go\<close>.\<close>

definition get_string :: "gmap \<Rightarrow> string \<Rightarrow> string res" where
  "get_string input key =
     (case map_of input key of
        None \<Rightarrow> Inl (Err (''missing key: '' @ key))
      | Some (GStr s) \<Rightarrow> Inr s
      | Some _ \<Rightarrow> Inl (Err (''key '' @ key @ '' is not a string'')))"

text \<open>\<open>GetInt\<close>: a float is cut off towards zero.\<close>

definition get_int :: "gmap \<Rightarrow> string \<Rightarrow> int \<Rightarrow> int" where
  "get_int input key fallback =
     (case map_of input key of
        Some (GInt i) \<Rightarrow> i
      | Some (GFloat r) \<Rightarrow> (if 0 \<le> r then \<lfloor>r\<rfloor> else \<lceil>r\<rceil>)
      | _ \<Rightarrow> fallback)"

text \<open>\<open>append([]string(nil), xs...)\<close> seen by JSON: nil, hence null, when \<open>xs\<close> is empty.\<close>

definition strs_nil :: "string list \<Rightarrow> gval" where
  "strs_nil xs = (if xs = [] then GNil else GStrs xs)"

section \<open>JSON text\<close>

definition hex4 :: "nat \<Rightarrow> string" where
  "hex4 n = [hex_digit (n div 4096 mod 16), hex_digit (n div 256 mod 16),
             hex_digit (n div 16 mod 16), hex_digit (n mod 16)]"

definition json_char :: "char \<Rightarrow> string" where
  "json_char c =
     (if c = CHR 0x22 then [CHR 0x5C, CHR 0x22]
      else if c = CHR 0x5C then [CHR 0x5C, CHR 0x5C]
      else if c = CHR 0x08 then [CHR 0x5C, CHR ''b'']
      else if c = CHR 0x0C then [CHR 0x5C, CHR ''f'']
      else if c = CHR 0x0A then [CHR 0x5C, CHR ''n'']
      else if c = CHR 0x0D then [CHR 0x5C, CHR ''r'']
      else if c = CHR 0x09 then [CHR 0x5C, CHR ''t'']
      else if (of_char c :: nat) < 32 \<or> c \<in> {CHR ''<'', CHR ''>'', CHR ''&''}
        then [CHR 0x5C, CHR ''u''] @ hex4 (of_char c)
      else [c])"

fun json_chars :: "string \<Rightarrow> string" where
  "json_chars (a # b # c # s) =
     (if a = CHR 0xE2 \<and> b = CHR 0x80 \<and> c = CHR 0xA8 then [CHR 0x5C] @ ''u2028'' @ json_chars s
      else if a = CHR 0xE2 \<and> b = CHR 0x80 \<and> c = CHR 0xA9 then [CHR 0x5C] @ ''u2029'' @ json_chars s
      else json_char a @ json_chars (b # c # s))"
| "json_chars (a # s) = json_char a @ json_chars s"
| "json_chars [] = []"

definition json_str :: "string \<Rightarrow> string" where
  "json_str s = [CHR 0x22] @ json_chars s @ [CHR 0x22]"

text \<open>The digits after the decimal point, at most 20: a \<open>float64\<close> needs 17 significant ones.\<close>

fun frac_digits :: "nat \<Rightarrow> rat \<Rightarrow> string" where
  "frac_digits 0 r = []"
| "frac_digits (Suc n) r =
     (if r = 0 then []
      else digit_char (nat \<lfloor>10 * r\<rfloor>) # frac_digits n (10 * r - of_int \<lfloor>10 * r\<rfloor>))"

definition json_num :: "rat \<Rightarrow> string" where
  "json_num r =
     (let a = \<bar>r\<bar>; i = \<lfloor>a\<rfloor>; f = a - of_int i; body = show_int i in
      (if r < 0 then ''-'' else []) @ body @ (if f = 0 then [] else ''.'' @ frac_digits 20 f))"

fun marshalable :: "gval \<Rightarrow> bool" where
  "marshalable (GList vs) = list_all marshalable vs"
| "marshalable (GMap kvs) = list_all (\<lambda>(k, v). marshalable v) kvs"
| "marshalable (GMaps ms) = list_all (list_all (\<lambda>(k, v). marshalable v)) ms"
| "marshalable (GStruct kvs) = list_all (\<lambda>(k, v). marshalable v) kvs"
| "marshalable GOpaque = False"
| "marshalable _ = True"

text \<open>\<open>encoding/json\<close> sorts the keys of a map and keeps a struct's fields in order.\<close>

definition key_sorted :: "(string \<times> 'a) list \<Rightarrow> (string \<times> 'a) list" where
  "key_sorted kvs = sort_key fst (AList.clearjunk kvs)"

definition json_obj :: "(string \<times> string) list \<Rightarrow> string" where
  "json_obj kvs = ''{'' @ join '','' (map (\<lambda>(k, v). json_str k @ '':'' @ v) kvs) @ ''}''"

definition json_arr :: "string list \<Rightarrow> string" where
  "json_arr xs = ''['' @ join '','' xs @ '']''"

fun json_enc :: "gval \<Rightarrow> string" where
  "json_enc GNil = ''null''"
| "json_enc (GBool b) = (if b then ''true'' else ''false'')"
| "json_enc (GInt i) = show_int i"
| "json_enc (GFloat r) = json_num r"
| "json_enc (GStr s) = json_str s"
| "json_enc (GStrs xs) = json_arr (map json_str xs)"
| "json_enc (GList vs) = json_arr (map json_enc vs)"
| "json_enc (GMap kvs) = json_obj (key_sorted (map (\<lambda>(k, v). (k, json_enc v)) kvs))"
| "json_enc (GMaps ms) =
     json_arr (map (\<lambda>m. json_obj (key_sorted (map (\<lambda>(k, v). (k, json_enc v)) m))) ms)"
| "json_enc (GStruct kvs) = json_obj (map (\<lambda>(k, v). (k, json_enc v)) kvs)"
| "json_enc GOpaque = []"

definition json_marshal :: "gval \<Rightarrow> string option" where
  "json_marshal v = (if marshalable v then Some (json_enc v) else None)"

definition val_of_nmap :: "nmap \<Rightarrow> gval" where
  "val_of_nmap m = (case m of None \<Rightarrow> GNil | Some kvs \<Rightarrow> GMap kvs)"

text \<open>
  What \<open>json.Unmarshal\<close> makes of a marshalled value: numbers become \<open>float64\<close>, every sequence
  \<open>[]any\<close>, every object \<open>map[string]any\<close>.
\<close>

fun json_norm :: "gval \<Rightarrow> gval" where
  "json_norm (GInt i) = GFloat (of_int i)"
| "json_norm (GStrs xs) = GList (map GStr xs)"
| "json_norm (GList vs) = GList (map json_norm vs)"
| "json_norm (GMap kvs) = GMap (key_sorted (map (\<lambda>(k, v). (k, json_norm v)) kvs))"
| "json_norm (GMaps ms) =
     GList (map (\<lambda>m. GMap (key_sorted (map (\<lambda>(k, v). (k, json_norm v)) m))) ms)"
| "json_norm (GStruct kvs) = GMap (key_sorted (map (\<lambda>(k, v). (k, json_norm v)) kvs))"
| "json_norm v = v"

section \<open>The operations of maps.go\<close>

text \<open>\<open>CloneMap\<close>; when the value cannot be marshalled the copy is shallow.\<close>

definition clone_map :: "nmap \<Rightarrow> gmap" where
  "clone_map m =
     (case m of
        None \<Rightarrow> []
      | Some kvs \<Rightarrow>
          (if marshalable (GMap kvs)
           then key_sorted (map (\<lambda>(k, v). (k, json_norm v)) kvs)
           else kvs))"

definition maps_equal :: "nmap \<Rightarrow> nmap \<Rightarrow> bool" where
  "maps_equal a b =
     (case (json_marshal (val_of_nmap a), json_marshal (val_of_nmap b)) of
        (Some x, Some y) \<Rightarrow> x = y
      | _ \<Rightarrow> False)"

definition hash_map :: "nmap \<Rightarrow> string res" where
  "hash_map m =
     (case json_marshal (val_of_nmap m) of
        None \<Rightarrow> Inl (Err ''json: unsupported type'')
      | Some raw \<Rightarrow> Inr (''sha256:'' @ hex_bytes (sha256 raw)))"


section \<open>Sorted key lists\<close>

abbreviation map_vals :: "('a \<Rightarrow> 'b) \<Rightarrow> (string \<times> 'a) list \<Rightarrow> (string \<times> 'b) list" where
  "map_vals f \<equiv> map (\<lambda>(k, v). (k, f v))"

lemma insort_map_vals:
  "insort_key fst (k, f v) (map_vals f kvs) = map_vals f (insort_key fst (k, v) kvs)"
  by (induction kvs) auto

lemma sort_map_vals: "sort_key fst (map_vals f kvs) = map_vals f (sort_key fst kvs)"
  by (induction kvs) (auto simp: insort_map_vals)

lemma filter_map_vals:
  "filter (\<lambda>p. fst p \<noteq> k) (map_vals f kvs) = map_vals f (filter (\<lambda>p. fst p \<noteq> k) kvs)"
  by (induction kvs) auto

lemma clearjunk_map_vals: "AList.clearjunk (map_vals f kvs) = map_vals f (AList.clearjunk kvs)"
proof (induction kvs rule: AList.clearjunk.induct)
  case (2 p ps)
  then show ?case
    by (cases p) (simp add: AList.delete_eq filter_map_vals[unfolded case_prod_unfold] case_prod_unfold comp_def filter_map)
qed simp

lemma key_sorted_map_vals: "key_sorted (map_vals f kvs) = map_vals f (key_sorted kvs)"
  by (simp add: key_sorted_def clearjunk_map_vals sort_map_vals)

lemma distinct_key_sorted [simp]: "distinct (map fst (key_sorted kvs))"
  unfolding key_sorted_def
  by (metis distinct_clearjunk distinct_map distinct_sort set_sort)

lemma sorted_key_sorted [simp]: "sorted (map fst (key_sorted kvs))"
  by (simp add: key_sorted_def)

lemma map_of_key_sorted [simp]: "map_of (key_sorted kvs) = map_of kvs"
proof -
  have d: "distinct (map fst (AList.clearjunk kvs))" by (rule distinct_clearjunk)
  have "map_of (key_sorted kvs) = map_of (AList.clearjunk kvs)"
    using d unfolding key_sorted_def
    by (metis distinct_key_sorted key_sorted_def map_of_inject_set set_sort)
  then show ?thesis by (simp add: map_of_clearjunk)
qed

lemma set_key_sorted_subset: "set (key_sorted kvs) \<subseteq> set kvs"
proof -
  have "set (AList.clearjunk kvs) \<subseteq> set kvs"
    by (induction kvs rule: AList.clearjunk.induct) (auto simp: AList.delete_eq)
  then show ?thesis by (simp add: key_sorted_def)
qed

lemma key_sorted_id: "sorted (map fst kvs) \<Longrightarrow> distinct (map fst kvs) \<Longrightarrow> key_sorted kvs = kvs"
  by (simp add: key_sorted_def distinct_clearjunk_id sort_key_id_if_sorted)

lemma key_sorted_idem [simp]: "key_sorted (key_sorted kvs) = key_sorted kvs"
  by (rule key_sorted_id) auto

text \<open>A key-sorted list is determined by the map it represents.\<close>

lemma keys_key_sorted: "map fst (key_sorted kvs) = sorted_list_of_set (dom (map_of kvs))"
proof -
  have "set (map fst (key_sorted kvs)) = dom (map_of kvs)"
    by (metis dom_map_of_conv_image_fst list.set_map map_of_key_sorted)
  then show ?thesis
    by (metis distinct_key_sorted sorted_key_sorted sorted_list_of_set.idem_if_sorted_distinct)
qed

lemma distinct_keys_map_of:
  "distinct (map fst kvs) \<Longrightarrow> kvs = map (\<lambda>k. (k, the (map_of kvs k))) (map fst kvs)"
  by (auto simp: comp_def map_of_is_SomeI intro!: map_idI [symmetric])

lemma key_sorted_cong: "map_of a = map_of b \<Longrightarrow> key_sorted a = key_sorted b"
  by (metis distinct_key_sorted distinct_keys_map_of keys_key_sorted map_of_key_sorted)

section \<open>Normal values and digests\<close>

text \<open>A value without a struct inside is marshalled to the same text before and after a copy.\<close>

fun struct_free :: "gval \<Rightarrow> bool" where
  "struct_free (GList vs) = list_all struct_free vs"
| "struct_free (GMap kvs) = list_all (\<lambda>(k, v). struct_free v) kvs"
| "struct_free (GMaps ms) = list_all (list_all (\<lambda>(k, v). struct_free v)) ms"
| "struct_free (GStruct kvs) = False"
| "struct_free _ = True"

text \<open>Keys first, then values: the shape every object of a normal value has.\<close>

lemma json_norm_idem [simp]: "json_norm (json_norm v) = json_norm v"
proof (induction v rule: json_norm.induct)
  case (3 vs)
  then show ?case by simp
next
  case (4 kvs)
  have "map_vals json_norm (map_vals json_norm kvs) = map_vals json_norm kvs"
    using 4 by auto
  then show ?case
    by (simp only: json_norm.simps key_sorted_map_vals [symmetric] key_sorted_idem)
next
  case (5 ms)
  have "map_vals json_norm (map_vals json_norm m) = map_vals json_norm m" if "m \<in> set ms" for m
    using 5 that by auto
  then have "key_sorted (map_vals json_norm (key_sorted (map_vals json_norm m)))
      = key_sorted (map_vals json_norm m)" if "m \<in> set ms" for m
    using that by (simp only: key_sorted_map_vals [symmetric] key_sorted_idem)
  then show ?case by simp
next
  case (6 kvs)
  have "map_vals json_norm (map_vals json_norm kvs) = map_vals json_norm kvs"
    using 6 by auto
  then show ?case
    by (simp only: json_norm.simps key_sorted_map_vals [symmetric] key_sorted_idem)
qed auto

lemma list_all_key_sorted:
  "list_all (\<lambda>(k, v). P v) kvs \<Longrightarrow> list_all (\<lambda>(k, v). P v) (key_sorted kvs)"
  using set_key_sorted_subset by (fastforce simp: list_all_iff)

lemma marshalable_json_norm [simp]: "marshalable v \<Longrightarrow> marshalable (json_norm v)"
proof (induction v rule: json_norm.induct)
  case (4 kvs)
  have "list_all (\<lambda>(k, v). marshalable v) (map_vals json_norm kvs)"
    using 4 by (auto simp: list_all_iff)
  then show ?case by (simp add: list_all_key_sorted)
next
  case (5 ms)
  have "list_all (\<lambda>(k, v). marshalable v) (map_vals json_norm m)" if "m \<in> set ms" for m
    using 5 that by (fastforce simp: list_all_iff)
  then show ?case by (auto simp: list_all_iff [of _ "map _ ms"] list_all_key_sorted)
next
  case (6 kvs)
  have "list_all (\<lambda>(k, v). marshalable v) (map_vals json_norm kvs)"
    using 6 by (auto simp: list_all_iff)
  then show ?case by (simp add: list_all_key_sorted)
qed (auto simp: list_all_iff)

lemma json_num_int: "json_num (of_int i) = show_int i"
proof -
  have abs: "\<bar>of_int i :: rat\<bar> = of_int \<bar>i\<bar>" by simp
  then show ?thesis
    by (auto simp: json_num_def Let_def show_int_def)
qed

lemma json_enc_json_norm [simp]: "struct_free v \<Longrightarrow> json_enc (json_norm v) = json_enc v"
proof (induction v rule: json_norm.induct)
  case (1 i)
  show ?case by (simp add: json_num_int)
next
  case (3 vs)
  then show ?case by (simp add: list_all_iff comp_def cong: map_cong)
next
  case (4 kvs)
  have "map_vals json_enc (map_vals json_norm kvs) = map_vals json_enc kvs"
    using 4 by (auto simp: list_all_iff)
  then show ?case
    by (simp only: json_norm.simps json_enc.simps key_sorted_map_vals [symmetric] key_sorted_idem)
next
  case (5 ms)
  have "map_vals json_enc (map_vals json_norm m) = map_vals json_enc m" if "m \<in> set ms" for m
    using 5 that by (fastforce simp: list_all_iff)
  then have "key_sorted (map_vals json_enc (key_sorted (map_vals json_norm m)))
      = key_sorted (map_vals json_enc m)" if "m \<in> set ms" for m
    using that by (simp only: key_sorted_map_vals [symmetric] key_sorted_idem)
  then show ?case by (simp add: comp_def cong: map_cong)
qed (auto simp: comp_def)


lemma struct_free_json_norm [simp]: "struct_free (json_norm v)"
proof (induction v rule: json_norm.induct)
  case (4 kvs)
  have "list_all (\<lambda>(k, v). struct_free v) (map_vals json_norm kvs)"
    using 4 by (auto simp: list_all_iff)
  then show ?case by (simp add: list_all_key_sorted)
next
  case (5 ms)
  have "list_all (\<lambda>(k, v). struct_free v) (map_vals json_norm m)" if "m \<in> set ms" for m
    using 5 that by (fastforce simp: list_all_iff)
  then show ?case by (auto simp: list_all_iff [of _ "map _ ms"] list_all_key_sorted)
next
  case (6 kvs)
  have "list_all (\<lambda>(k, v). struct_free v) (map_vals json_norm kvs)"
    using 6 by (auto simp: list_all_iff)
  then show ?case by (simp add: list_all_key_sorted)
qed (auto simp: list_all_iff)

lemma clone_map_None [simp]: "clone_map None = []"
  by (simp add: clone_map_def)

lemma clone_map_norm: "marshalable (GMap kvs) \<Longrightarrow> GMap (clone_map (Some kvs)) = json_norm (GMap kvs)"
  by (simp add: clone_map_def)

lemma clone_map_shallow: "\<not> marshalable (GMap kvs) \<Longrightarrow> clone_map (Some kvs) = kvs"
  by (simp add: clone_map_def)

lemma clone_map_idem [simp]: "clone_map (Some (clone_map m)) = clone_map m"
proof (cases m)
  case None
  then show ?thesis by (simp add: clone_map_def key_sorted_def)
next
  case (Some kvs)
  show ?thesis
  proof (cases "marshalable (GMap kvs)")
    case True
    then have "GMap (clone_map (Some (clone_map m))) = json_norm (json_norm (GMap kvs))"
      using Some by (metis clone_map_norm marshalable_json_norm)
    with True Some show ?thesis
      by (metis clone_map_norm gval.inject(7) json_norm_idem)
  next
    case False
    with Some show ?thesis by (simp add: clone_map_shallow)
  qed
qed

lemma marshal_clone_map:
  "struct_free (GMap kvs) \<Longrightarrow>
     json_marshal (GMap (clone_map (Some kvs))) = json_marshal (GMap kvs)"
proof (cases "marshalable (GMap kvs)")
  case True
  moreover assume "struct_free (GMap kvs)"
  ultimately show ?thesis
    by (simp only: json_marshal_def clone_map_norm marshalable_json_norm json_enc_json_norm)
next
  case False
  then show ?thesis by (simp only: clone_map_shallow [OF False])
qed

lemma hash_clone_map:
  "struct_free (GMap kvs) \<Longrightarrow> hash_map (Some (clone_map (Some kvs))) = hash_map (Some kvs)"
  by (simp only: hash_map_def val_of_nmap_def option.case marshal_clone_map)

lemma map_of_clone_map:
  "map_of (clone_map (Some kvs)) k =
     (if marshalable (GMap kvs) then map_option json_norm (map_of kvs k) else map_of kvs k)"
  by (simp add: clone_map_def map_of_map)

section \<open>Equality through canonical JSON\<close>

lemma maps_equal_iff:
  "maps_equal a b \<longleftrightarrow>
     marshalable (val_of_nmap a) \<and> marshalable (val_of_nmap b) \<and>
     json_enc (val_of_nmap a) = json_enc (val_of_nmap b)"
  by (simp add: maps_equal_def json_marshal_def)

lemma maps_equal_sym: "maps_equal a b \<Longrightarrow> maps_equal b a"
  by (simp add: maps_equal_iff)

lemma maps_equal_trans: "maps_equal a b \<Longrightarrow> maps_equal b c \<Longrightarrow> maps_equal a c"
  by (simp add: maps_equal_iff)

lemma maps_equal_hash: "maps_equal a b \<Longrightarrow> hash_map a = hash_map b"
  by (simp add: maps_equal_iff hash_map_def json_marshal_def)

lemma hash_map_ok_iff: "(\<exists>h. hash_map m = Inr h) \<longleftrightarrow> marshalable (val_of_nmap m)"
  by (simp add: hash_map_def json_marshal_def)

lemma maps_equal_clone_map:
  "marshalable (GMap kvs) \<Longrightarrow> struct_free (GMap kvs) \<Longrightarrow>
     maps_equal (Some (clone_map (Some kvs))) (Some kvs)"
  using marshal_clone_map [of kvs]
  by (simp add: maps_equal_def val_of_nmap_def json_marshal_def split: if_splits)

text \<open>A digest has the fixed form the approval records carry.\<close>

lemma hash_map_shape:
  "hash_map m = Inr h \<Longrightarrow> prefix ''sha256:'' h \<and> length h = 71"
  by (auto simp: hash_map_def length_sha256 split: option.splits)

text \<open>The digest sees a map, not the order its keys were written in.\<close>

lemma json_enc_map_cong:
  assumes "map_of a = map_of b"
  shows "json_enc (GMap a) = json_enc (GMap b)"
proof -
  have "map_of (map_vals json_enc a) = map_of (map_vals json_enc b)"
    using assms by (simp add: map_of_map)
  then show ?thesis
    by (simp add: key_sorted_cong [of "map_vals json_enc a"])
qed

end
