(* ===== verification/Core_Types.thy ===== *)
theory Core_Types
  imports Core_Values
begin

text \<open>
  The records of \<open>internal/core/types.go\<close> that the tool pipeline and the workflow runtime exchange.
  A nil pointer is None; a slice is a list, its nil value the empty list (where JSON tells the two
  apart, the component that marshals it says so). A time is an integer; a confidence, a \<open>float64\<close>
  that the code only copies and compares, is a rational.
\<close>

type_synonym time = int

record tool_spec =
  ts_id :: string
  ts_provider :: string
  ts_name :: string
  ts_description :: string
  ts_input_schema :: nmap
  ts_default_effects :: "string list"
  ts_metadata :: nmap

record tool_proposal =
  tp_id :: string
  tp_tool :: string
  tp_input :: nmap
  tp_purpose :: string
  tp_expected :: "string list"
  tp_created :: time

record tool_result =
  tr_call :: string
  tr_output :: nmap
  tr_error :: string
  tr_started :: time
  tr_finished :: time

record inference =
  if_effects :: "string list"
  if_risk :: string
  if_sensitive :: bool
  if_approval :: bool
  if_confidence :: rat
  if_reason :: string
  if_signals :: "string list"

record risk_trace =
  rt_tool :: string
  rt_effects :: "string list"
  rt_risk :: string
  rt_confidence :: rat
  rt_signals :: "string list"
  rt_profile :: string
  rt_decision :: string
  rt_reason :: string

record policy_decision =
  pd_allowed :: bool
  pd_requires :: bool
  pd_risk :: string
  pd_reason :: string
  pd_payload :: nmap
  pd_profile :: string
  pd_trace :: "risk_trace option"

record explanation =
  ex_summary :: string
  ex_why :: string
  ex_effects :: "string list"
  ex_risk :: string
  ex_targets :: "string list"
  ex_rollback :: nmap
  ex_notes :: "string list"

datatype approval_status = ApprovalPending | ApprovalApproved | ApprovalRejected

record approval_record =
  ap_id :: string
  ap_run :: string
  ap_conv :: string
  ap_proposal :: tool_proposal
  ap_inference :: inference
  ap_decision :: policy_decision
  ap_snapshot :: nmap
  ap_hash :: string
  ap_summary :: string
  ap_explanation :: "explanation option"
  ap_status :: approval_status
  ap_reason :: string
  ap_created :: time
  ap_resolved :: "time option"

record message =
  ms_id :: string
  ms_conv :: string
  ms_role :: string
  ms_content :: string
  ms_created :: time

record message_usage =
  mu_id :: string
  mu_message :: string
  mu_conv :: string
  mu_input :: nat
  mu_output :: nat
  mu_total :: nat
  mu_calls :: nat
  mu_created :: time

record agent_event =
  ae_id :: string
  ae_conv :: string
  ae_run :: string
  ae_type :: string
  ae_payload :: nmap
  ae_created :: time

record event =
  ev_type :: string
  ev_run :: string
  ev_step :: string
  ev_index :: nat
  ev_conv :: string
  ev_approval :: string
  ev_tool :: string
  ev_call :: string
  ev_risk :: string
  ev_content :: string
  ev_payload :: nmap
  ev_created :: time

record skill_policy =
  sp_effects :: "string list"
  sp_approval_default :: string
  sp_enabled :: bool
  sp_will_fallback :: bool
  sp_requires :: bool

record mcp_policy =
  mp_effects :: "string list"
  mp_approval :: string
  mp_requires :: bool
  mp_risk :: string
  mp_reason :: string
  mp_known :: bool
  mp_enabled :: bool
  mp_confidence :: rat

text \<open>The zero value of an event, whose unused fields the composite literals of the code leave out.\<close>

definition event0 :: event where
  "event0 = \<lparr>ev_type = [], ev_run = [], ev_step = [], ev_index = 0, ev_conv = [],
     ev_approval = [], ev_tool = [], ev_call = [], ev_risk = [], ev_content = [],
     ev_payload = None, ev_created = 0\<rparr>"

section \<open>The records as JSON values\<close>

definition risk_trace_val :: "risk_trace \<Rightarrow> gval" where
  "risk_trace_val t = GStruct
     [(''tool_id'', GStr (rt_tool t)), (''effects'', strs_nil (rt_effects t)),
      (''risk_level'', GStr (rt_risk t)), (''confidence'', GFloat (rt_confidence t)),
      (''signals'', GStrs (rt_signals t)), (''policy_profile'', GStr (rt_profile t)),
      (''decision'', GStr (rt_decision t)), (''reason'', GStr (rt_reason t))]"

definition risk_trace_ptr :: "risk_trace option \<Rightarrow> gval" where
  "risk_trace_ptr t = (case t of None \<Rightarrow> GNil | Some x \<Rightarrow> risk_trace_val x)"

definition omit_str :: "string \<Rightarrow> string \<Rightarrow> (string \<times> gval) list" where
  "omit_str k s = (if s = [] then [] else [(k, GStr s)])"

definition omit_strs :: "string \<Rightarrow> string list \<Rightarrow> (string \<times> gval) list" where
  "omit_strs k xs = (if xs = [] then [] else [(k, GStrs xs)])"

definition omit_map :: "string \<Rightarrow> nmap \<Rightarrow> (string \<times> gval) list" where
  "omit_map k m = (if nm m = [] then [] else [(k, GMap (nm m))])"

definition inference_val :: "inference \<Rightarrow> gval" where
  "inference_val i = GStruct
     ([(''effects'', strs_nil (if_effects i)), (''risk_level'', GStr (if_risk i)),
       (''sensitive'', GBool (if_sensitive i)), (''approval_required'', GBool (if_approval i)),
       (''confidence'', GFloat (if_confidence i)), (''reason_summary'', GStr (if_reason i))]
      @ omit_strs ''signals'' (if_signals i))"

definition decision_val :: "policy_decision \<Rightarrow> gval" where
  "decision_val d = GStruct
     ([(''allowed'', GBool (pd_allowed d)), (''requires_approval'', GBool (pd_requires d)),
       (''risk_level'', GStr (pd_risk d)), (''reason'', GStr (pd_reason d))]
      @ omit_map ''approval_payload'' (pd_payload d) @ omit_str ''policy_profile'' (pd_profile d)
      @ (case pd_trace d of None \<Rightarrow> [] | Some t \<Rightarrow> [(''risk_trace'', risk_trace_val t)]))"

definition explanation_val :: "explanation option \<Rightarrow> gval" where
  "explanation_val e =
     (case e of None \<Rightarrow> GNil
      | Some x \<Rightarrow> GStruct
          ([(''summary'', GStr (ex_summary x)), (''why_needed'', GStr (ex_why x)),
            (''expected_effects'', strs_nil (ex_effects x)), (''risk_level'', GStr (ex_risk x))]
           @ omit_strs ''affected_targets'' (ex_targets x)
           @ omit_map ''rollback_plan'' (ex_rollback x) @ omit_strs ''safety_notes'' (ex_notes x)))"

end
