(* ===== verification/Regex.thy ===== *)
theory Regex
  imports Prelude
begin

text \<open>
  The part of Go's \<open>regexp\<close> package that \<open>internal/security\<close> uses: leftmost-first matching with
  greedy and lazy repetition, numbered groups and ASCII word boundaries.

  \<open>rmatch r st\<close> lists every way \<open>r\<close> can match from the state \<open>st\<close>, in the order in which a
  backtracking matcher prefers them; the package reports the first. The state holds the text
  before the current position (reversed), the text after it, and the groups closed so far. An
  iteration of a star must consume, so the length of the remaining text bounds the iterations.
  Expressions and text are bytes: folding of letter case is that of ASCII.
\<close>

section \<open>Expressions\<close>

datatype regex =
    REps
  | RSet bool "(char \<times> char) list"
  | RSeq regex regex
  | RAlt regex regex
  | RStar bool regex
  | RGroup nat regex
  | RWordB
  | RLineB
  | RLineE

type_synonym groups = "(nat \<times> nat \<times> nat) list"

type_synonym rstate = "string \<times> string \<times> groups"

definition in_ranges :: "(char \<times> char) list \<Rightarrow> char \<Rightarrow> bool" where
  "in_ranges rs c \<longleftrightarrow> list_ex (\<lambda>(lo, hi). lo \<le> c \<and> c \<le> hi) rs"

definition is_word :: "char \<Rightarrow> bool" where
  "is_word = in_ranges [(CHR ''0'', CHR ''9''), (CHR ''A'', CHR ''Z''), (CHR ''_'', CHR ''_''), (CHR ''a'', CHR ''z'')]"

definition word_at :: "string \<Rightarrow> bool" where
  "word_at s = (case s of [] \<Rightarrow> False | c # _ \<Rightarrow> is_word c)"

text \<open>\<open>^\<close> and \<open>$\<close> under the flag \<open>(?m)\<close>: nothing or a line feed comes before, or after.\<close>

definition line_end :: "string \<Rightarrow> bool" where
  "line_end s = (case s of [] \<Rightarrow> True | c # _ \<Rightarrow> c = CHR 0x0A)"

section \<open>Matching\<close>

fun rstar :: "(rstate \<Rightarrow> rstate list) \<Rightarrow> bool \<Rightarrow> nat \<Rightarrow> rstate \<Rightarrow> rstate list" where
  "rstar f greedy 0 st = [st]"
| "rstar f greedy (Suc n) st =
     (let more = concat (map (rstar f greedy n)
                   (filter (\<lambda>st'. length (fst (snd st')) < length (fst (snd st))) (f st)))
      in if greedy then more @ [st] else st # more)"

primrec rmatch :: "regex \<Rightarrow> rstate \<Rightarrow> rstate list" where
  "rmatch REps st = [st]"
| "rmatch (RSet pos rs) st =
     (case st of (b, s, gs) \<Rightarrow>
        (case s of [] \<Rightarrow> []
         | c # s' \<Rightarrow> if in_ranges rs c = pos then [(c # b, s', gs)] else []))"
| "rmatch (RSeq r1 r2) st = concat (map (rmatch r2) (rmatch r1 st))"
| "rmatch (RAlt r1 r2) st = rmatch r1 st @ rmatch r2 st"
| "rmatch (RStar greedy r) st = rstar (rmatch r) greedy (length (fst (snd st))) st"
| "rmatch (RGroup n r) st =
     map (\<lambda>(b, s, gs). (b, s, (n, length (fst st), length b) # gs)) (rmatch r st)"
| "rmatch RWordB st = (case st of (b, s, gs) \<Rightarrow> if word_at b \<noteq> word_at s then [st] else [])"
| "rmatch RLineB st = (case st of (b, s, gs) \<Rightarrow> if line_end b then [st] else [])"
| "rmatch RLineE st = (case st of (b, s, gs) \<Rightarrow> if line_end s then [st] else [])"

text \<open>
  The leftmost match at or after the current position: the text skipped, the text matched and the
  state after it.
\<close>

fun re_find :: "regex \<Rightarrow> string \<Rightarrow> string \<Rightarrow> (string \<times> string \<times> rstate) option" where
  "re_find r b s =
     (case rmatch r (b, s, []) of
        (b', s', gs) # _ \<Rightarrow> Some ([], take (length s - length s') s, b', s', gs)
      | [] \<Rightarrow>
          (case s of
             [] \<Rightarrow> None
           | c # t \<Rightarrow> map_option (\<lambda>(sk, m). (c # sk, m)) (re_find r (c # b) t)))"

declare re_find.simps [simp del]

text \<open>\<open>MatchString\<close>.\<close>

definition re_test :: "regex \<Rightarrow> string \<Rightarrow> bool" where
  "re_test r s = (re_find r [] s \<noteq> None)"

text \<open>\<open>FindStringSubmatchIndex\<close>: the span of the group \<open>n\<close> of the leftmost match, if it was set.\<close>

definition re_group :: "regex \<Rightarrow> nat \<Rightarrow> string \<Rightarrow> (nat \<times> nat) option" where
  "re_group r n s =
     (case re_find r [] s of None \<Rightarrow> None | Some (_, _, _, _, gs) \<Rightarrow> map_of gs n)"

definition span :: "string \<Rightarrow> nat \<times> nat \<Rightarrow> string" where
  "span s p = take (snd p - fst p) (drop (fst p) s)"

text \<open>
  \<open>ReplaceAllStringFunc\<close>: the non-overlapping matches from left to right. Every turn consumes at
  least one character (after an empty match one is copied), so the fuel that \<open>re_replace\<close> gives,
  one more than the length of the text, is enough.
\<close>

fun replace_from :: "nat \<Rightarrow> regex \<Rightarrow> (string \<Rightarrow> string) \<Rightarrow> string \<Rightarrow> string \<Rightarrow> string" where
  "replace_from 0 r f b s = s"
| "replace_from (Suc n) r f b s =
     (case re_find r b s of
        None \<Rightarrow> s
      | Some (sk, m, b', s', _) \<Rightarrow>
          sk @ f m @
          (if m = []
           then (case s' of [] \<Rightarrow> [] | c # t \<Rightarrow> c # replace_from n r f (c # b') t)
           else replace_from n r f b' s'))"

definition re_replace :: "regex \<Rightarrow> (string \<Rightarrow> string) \<Rightarrow> string \<Rightarrow> string" where
  "re_replace r f s = replace_from (Suc (length s)) r f [] s"

text \<open>\<open>FindAllStringIndex\<close>: the spans of the same matches.\<close>

fun spans_from :: "nat \<Rightarrow> regex \<Rightarrow> string \<Rightarrow> string \<Rightarrow> (nat \<times> nat) list" where
  "spans_from 0 r b s = []"
| "spans_from (Suc n) r b s =
     (case re_find r b s of
        None \<Rightarrow> []
      | Some (sk, m, b', s', _) \<Rightarrow>
          (length b + length sk, length b + length sk + length m) #
          (if m = []
           then (case s' of [] \<Rightarrow> [] | c # t \<Rightarrow> spans_from n r (c # b') t)
           else spans_from n r b' s'))"

definition re_spans :: "regex \<Rightarrow> string \<Rightarrow> (nat \<times> nat) list" where
  "re_spans r s = spans_from (Suc (length s)) r [] s"

text \<open>\<open>FindAllStringSubmatch\<close>: the groups of each of the same matches, by number.\<close>

fun submatches_from :: "nat \<Rightarrow> regex \<Rightarrow> string \<Rightarrow> string \<Rightarrow> groups list" where
  "submatches_from 0 r b s = []"
| "submatches_from (Suc n) r b s =
     (case re_find r b s of
        None \<Rightarrow> []
      | Some (sk, m, b', s', gs) \<Rightarrow>
          gs #
          (if m = []
           then (case s' of [] \<Rightarrow> [] | c # t \<Rightarrow> submatches_from n r (c # b') t)
           else submatches_from n r b' s'))"

definition re_submatches :: "regex \<Rightarrow> string \<Rightarrow> groups list" where
  "re_submatches r s = submatches_from (Suc (length s)) r [] s"

text \<open>\<open>FindStringSubmatch\<close>, and the text of a group, empty when it was not set.\<close>

definition re_submatch :: "regex \<Rightarrow> string \<Rightarrow> groups option" where
  "re_submatch r s = (case re_find r [] s of None \<Rightarrow> None | Some (_, _, _, _, gs) \<Rightarrow> Some gs)"

definition group_text :: "string \<Rightarrow> groups \<Rightarrow> nat \<Rightarrow> string" where
  "group_text s gs n = (case map_of gs n of None \<Rightarrow> [] | Some p \<Rightarrow> span s p)"

section \<open>Building expressions\<close>

abbreviation (input) one_of :: "(char \<times> char) list \<Rightarrow> regex" where
  "one_of rs \<equiv> RSet True rs"

abbreviation (input) none_of :: "(char \<times> char) list \<Rightarrow> regex" where
  "none_of rs \<equiv> RSet False rs"

fun re_seq :: "regex list \<Rightarrow> regex" where
  "re_seq [] = REps"
| "re_seq [r] = r"
| "re_seq (r # rs) = RSeq r (re_seq rs)"

fun re_alts :: "regex list \<Rightarrow> regex" where
  "re_alts [] = REps"
| "re_alts [r] = r"
| "re_alts (r # rs) = RAlt r (re_alts rs)"

definition lit :: "string \<Rightarrow> regex" where
  "lit s = re_seq (map (\<lambda>c. RSet True [(c, c)]) s)"

text \<open>A literal under the flag \<open>(?i)\<close>.\<close>

definition lit_i :: "string \<Rightarrow> regex" where
  "lit_i s = re_seq (map (\<lambda>c. RSet True [(lower_char c, lower_char c), (upper_char c, upper_char c)]) s)"

definition re_opt :: "regex \<Rightarrow> regex" where
  "re_opt r = RAlt r REps"

definition re_many :: "regex \<Rightarrow> regex" where
  "re_many r = RStar True r"

definition re_plus :: "regex \<Rightarrow> regex" where
  "re_plus r = RSeq r (RStar True r)"

definition re_exactly :: "nat \<Rightarrow> regex \<Rightarrow> regex" where
  "re_exactly n r = re_seq (replicate n r)"

definition re_at_least :: "nat \<Rightarrow> regex \<Rightarrow> regex" where
  "re_at_least n r = RSeq (re_exactly n r) (RStar True r)"

text \<open>The class \<open>\s\<close>.\<close>

definition re_space :: "(char \<times> char) list" where
  "re_space = [(CHR 0x09, CHR 0x0A), (CHR 0x0C, CHR 0x0D), (CHR '' '', CHR '' '')]"

section \<open>The matcher walks over the text\<close>

definition walks :: "rstate \<Rightarrow> rstate \<Rightarrow> bool" where
  "walks st st' \<longleftrightarrow>
     (\<exists>m. fst (snd st) = m @ fst (snd st') \<and> fst st' = rev m @ fst st)"

lemma walks_refl [simp, intro]: "walks st st"
  by (simp add: walks_def)

lemma walks_trans: "walks a b \<Longrightarrow> walks b c \<Longrightarrow> walks a c"
  unfolding walks_def by (metis append.assoc rev_append)

lemma rstar_walks:
  assumes "\<And>st st'. st' \<in> set (f st) \<Longrightarrow> walks st st'"
  shows "st' \<in> set (rstar f greedy n st) \<Longrightarrow> walks st st'"
proof (induction n arbitrary: st)
  case (Suc n)
  have "walks st st'" if "x \<in> set (f st)" "st' \<in> set (rstar f greedy n x)" for x
    using assms [OF that(1)] Suc.IH [OF that(2)] by (rule walks_trans)
  with Suc.prems show ?case
    by (auto simp: Let_def split: if_splits)
qed simp

lemma rmatch_walks: "st' \<in> set (rmatch r st) \<Longrightarrow> walks st st'"
proof (induction r arbitrary: st st')
  case (RSet pos rs)
  then show ?case
    by (auto simp: walks_def split: prod.splits list.splits if_splits)
next
  case (RSeq r1 r2)
  then obtain x where "x \<in> set (rmatch r1 st)" "st' \<in> set (rmatch r2 x)" by auto
  with RSeq.IH show ?case by (metis walks_trans)
next
  case (RStar greedy r)
  show ?case
    using rstar_walks [of "rmatch r", OF RStar.IH] RStar.prems by simp
next
  case (RGroup n r)
  from RGroup.prems obtain b s gs gs' where "(b, s, gs) \<in> set (rmatch r st)" "st' = (b, s, gs')"
    by auto
  with RGroup.IH [of "(b, s, gs)" st] show ?case by (simp add: walks_def)
qed (auto split: prod.splits if_splits)

lemma re_find_split:
  "re_find r b s = Some (sk, m, b', s', gs) \<Longrightarrow> s = sk @ m @ s' \<and> b' = rev (sk @ m) @ b"
proof (induction s arbitrary: b sk)
  case Nil
  then obtain x xs where x: "rmatch r (b, [], []) = x # xs"
    by (subst (asm) re_find.simps) (auto split: list.splits)
  then have "walks (b, [], []) x"
    using rmatch_walks [of x r "(b, [], [])"] by simp
  with x Nil show ?case
    by (subst (asm) re_find.simps) (auto simp: walks_def)
next
  case (Cons c t)
  show ?case
  proof (cases "rmatch r (b, c # t, [])")
    case Nil
    with Cons.prems obtain sk' where "sk = c # sk'" "re_find r (c # b) t = Some (sk', m, b', s', gs)"
      by (subst (asm) re_find.simps) (auto split: list.splits)
    with Cons.IH show ?thesis by auto
  next
    case (Cons x xs)
    then have "walks (b, c # t, []) x"
      using rmatch_walks [of x r "(b, c # t, [])"] by simp
    then obtain m0 where m0: "c # t = m0 @ fst (snd x)" "fst x = rev m0 @ b"
      by (auto simp: walks_def)
    then have "length (c # t) = length m0 + length (fst (snd x))" by simp
    with m0 Cons Cons.prems show ?thesis
      by (cases x; subst (asm) re_find.simps) auto
  qed
qed

lemma replace_from_same: "replace_from n r (\<lambda>m. m) b s = s"
proof (induction n arbitrary: b s)
  case (Suc n)
  then show ?case
    by (auto split: option.splits list.splits dest!: re_find_split)
qed simp

text \<open>A replacement by the match itself is the identity: only matches are ever rewritten.\<close>

lemma re_replace_same: "re_replace r (\<lambda>m. m) s = s"
  by (simp add: re_replace_def replace_from_same)

lemma re_replace_no_match: "\<not> re_test r s \<Longrightarrow> re_replace r f s = s"
  by (cases "re_find r [] s") (auto simp: re_replace_def re_test_def)

lemma re_replace_cong: "(\<And>m. f m = g m) \<Longrightarrow> re_replace r f s = re_replace r g s"
  by (metis ext)

text \<open>Any fuel above the length of the text gives the same result.\<close>

lemma replace_from_fuel: "length s < n \<Longrightarrow> replace_from (Suc n) r f b s = replace_from n r f b s"
proof (induction n arbitrary: b s)
  case (Suc n)
  show ?case
  proof (cases "re_find r b s")
    case None
    then show ?thesis by simp
  next
    case (Some x)
    obtain sk m b' s' gs where x: "x = (sk, m, b', s', gs)" by (metis prod_cases5)
    with Some have s: "s = sk @ m @ s'" by (simp add: re_find_split)
    show ?thesis
    proof (cases "m = []")
      case True
      with Suc.prems s Suc.IH Some x show ?thesis
        by (auto simp del: replace_from.simps(2) simp: replace_from.simps(2) [of n]
              replace_from.simps(2) [of "Suc n"] split: list.splits)
    next
      case False
      then have "length s' < n" using Suc.prems s by (cases m) auto
      with Suc.IH Some x False show ?thesis
        by (simp del: replace_from.simps(2) add: replace_from.simps(2) [of n]
              replace_from.simps(2) [of "Suc n"])
    qed
  qed
qed simp

end
