(* ===== verification/Redaction.thy ===== *)
theory Redaction
  imports Core_Types Regex
begin

text \<open>
  Secret detection and redaction: \<open>internal/security/redaction.go\<close> and \<open>secret_guard.go\<close>. The
  regular expressions are the source's, written with the constructors of theory Regex.
  A \<open>map[string]string\<close> is a \<open>GMap\<close> of \<open>GStr\<close> values here: the guard converts it to one.
\<close>

section \<open>Pieces of the patterns\<close>

abbreviation dq :: char where "dq \<equiv> CHR 0x22"
abbreviation sq :: char where "sq \<equiv> CHR 0x27"

abbreviation (input) wsp :: regex where "wsp \<equiv> re_many (one_of re_space)"
abbreviation (input) assign_op :: regex where
  "assign_op \<equiv> one_of [(CHR '':'', CHR '':''), (CHR ''='', CHR ''='')]"
abbreviation (input) under_dash :: regex where
  "under_dash \<equiv> re_opt (one_of [(CHR ''_'', CHR ''_''), (CHR ''-'', CHR ''-'')])"
abbreviation (input) quote_opt :: regex where
  "quote_opt \<equiv> re_opt (one_of [(dq, dq), (sq, sq)])"
abbreviation (input) not_quote :: regex where
  "not_quote \<equiv> re_plus (none_of (re_space @ [(dq, dq), (sq, sq)]))"
abbreviation (input) not_delim :: regex where
  "not_delim \<equiv> re_plus (none_of (re_space @ [(dq, dq), (sq, sq), (CHR '','', CHR '',''), (CHR '';'', CHR '';'')]))"
abbreviation (input) not_newline :: regex where
  "not_newline \<equiv> re_plus (none_of [(CHR 0x0D, CHR 0x0D), (CHR 0x0A, CHR 0x0A)])"

definition key_block :: "string \<Rightarrow> string \<Rightarrow> regex \<Rightarrow> regex" where
  "key_block b e kind = re_seq
     [lit_i b, kind, lit_i ''-----'', RStar False (none_of []), lit_i e, kind, lit_i ''-----'']"

definition private_key_re :: regex where
  "private_key_re = key_block ''-----BEGIN '' ''-----END ''
     (RSeq (re_many (one_of [(CHR ''A'', CHR ''Z''), (CHR ''a'', CHR ''z''), (CHR '' '', CHR '' '')]))
           (lit_i ''PRIVATE KEY''))"

definition bearer_re :: regex where
  "bearer_re = RSeq (RGroup 1 (RSeq (lit_i ''bearer'') (re_plus (one_of re_space))))
     (RGroup 2 (re_at_least 12 (one_of [(CHR ''A'', CHR ''Z''), (CHR ''a'', CHR ''z''),
        (CHR ''0'', CHR ''9''), (CHR ''-'', CHR ''-''), (CHR ''.'', CHR ''.''), (CHR ''_'', CHR ''_''),
        (CHR ''~'', CHR ''~''), (CHR ''+'', CHR ''+''), (CHR ''/'', CHR ''/''), (CHR ''='', CHR ''='')])))"

definition api_key_word :: regex where
  "api_key_word = re_seq [lit_i ''api'', under_dash, lit_i ''key'']"

section \<open>The patterns of redaction.go\<close>

definition assigned :: "regex \<Rightarrow> regex" where
  "assigned w = RSeq (RGroup 1 (re_seq [w, wsp, assign_op, wsp])) (RGroup 2 not_quote)"

text \<open>Each pattern with the number of its groups.\<close>

definition redaction_patterns :: "(regex \<times> nat) list" where
  "redaction_patterns =
     [(assigned api_key_word, 2),
      (bearer_re, 2),
      (assigned (lit_i ''token''), 2),
      (assigned (lit_i ''password''), 2),
      (assigned (lit_i ''secret''), 2),
      (RSeq (RGroup 1 (re_seq [lit_i ''postgres'', re_opt (lit_i ''ql''), lit ''://'',
          re_plus (none_of ((CHR '':'', CHR '':'') # (CHR ''/'', CHR ''/'') # re_space)), lit '':'']))
         (RGroup 2 (re_plus (none_of ((CHR ''@'', CHR ''@'') # re_space)))), 2),
      (RSeq (RGroup 1 (re_seq [lit_i ''mysql'', lit ''://'',
          re_plus (none_of ((CHR '':'', CHR '':'') # (CHR ''/'', CHR ''/'') # re_space)), lit '':'']))
         (RGroup 2 (re_plus (none_of ((CHR ''@'', CHR ''@'') # re_space)))), 2),
      (private_key_re, 0),
      (RSeq (RGroup 1 (re_seq [lit_i ''cookie'', wsp, assign_op, wsp])) (RGroup 2 not_newline), 2),
      (assigned (lit_i ''session''), 2)]"

definition sensitive_key_re :: regex where
  "sensitive_key_re = re_alts
     [api_key_word, lit_i ''authorization'', lit_i ''bearer'', lit_i ''cookie'', lit_i ''credential'',
      re_seq [lit_i ''identity'', under_dash, lit_i ''file''],
      re_seq [lit_i ''key'', under_dash, lit_i ''path''],
      lit_i ''kubeconfig'', lit_i ''password'',
      re_seq [lit_i ''private'', under_dash, lit_i ''key''],
      lit_i ''secret'', lit_i ''session'', lit_i ''token'']"

section \<open>The patterns of secret\_guard.go\<close>

record secret_pattern =
  sc_type :: string
  sc_re :: regex
  sc_group :: nat
  sc_confidence :: rat
  sc_severity :: string
  sc_description :: string

definition pat :: "string \<Rightarrow> regex \<Rightarrow> nat \<Rightarrow> rat \<Rightarrow> string \<Rightarrow> string \<Rightarrow> secret_pattern" where
  "pat t r g c s d = \<lparr>sc_type = t, sc_re = r, sc_group = g, sc_confidence = c, sc_severity = s,
     sc_description = d\<rparr>"

lemma pat_simps [simp]: "sc_type (pat t r g c s d) = t" "sc_re (pat t r g c s d) = r"
  "sc_group (pat t r g c s d) = g" "sc_severity (pat t r g c s d) = s"
  by (simp_all add: pat_def)

definition word_chars :: "(char \<times> char) list" where
  "word_chars = [(CHR ''A'', CHR ''Z''), (CHR ''a'', CHR ''z''), (CHR ''0'', CHR ''9''), (CHR ''_'', CHR ''_'')]"

definition guarded :: "regex \<Rightarrow> regex" where
  "guarded w = re_seq [RGroup 1 w, RGroup 2 (re_seq [wsp, assign_op, wsp, quote_opt]),
     RGroup 3 not_delim, RGroup 4 quote_opt]"

definition token_patterns :: "secret_pattern list" where
  "token_patterns =
     [pat ''private_key'' private_key_re 0 (99/100) ''critical'' ''private key block'',
      pat ''ssh_private_key'' (key_block ''-----BEGIN '' ''-----END '' (lit_i ''OPENSSH PRIVATE KEY''))
        0 (99/100) ''critical'' ''OpenSSH private key block'',
      pat ''openai_key''
        (re_seq [RWordB, lit ''sk-'', re_at_least 16 (one_of ((CHR ''-'', CHR ''-'') # word_chars)), RWordB])
        0 (95/100) ''high'' ''OpenAI-style API key'',
      pat ''github_token''
        (re_seq [RWordB, lit ''gh'',
           one_of [(CHR ''p'', CHR ''p''), (CHR ''o'', CHR ''o''), (CHR ''u'', CHR ''u''), (CHR ''s'', CHR ''s''), (CHR ''r'', CHR ''r'')],
           lit ''_'', re_at_least 20 (one_of word_chars), RWordB])
        0 (95/100) ''high'' ''GitHub token'',
      pat ''aws_access_key''
        (re_seq [RWordB, RAlt (lit ''AKIA'') (lit ''ASIA''),
           re_exactly 16 (one_of [(CHR ''A'', CHR ''Z''), (CHR ''0'', CHR ''9'')]), RWordB])
        0 (95/100) ''high'' ''AWS access key id'']"

definition assignment_patterns :: "secret_pattern list" where
  "assignment_patterns =
     [pat ''aws_secret_key''
        (re_seq [RGroup 1 (re_seq [lit_i ''aws'', under_dash, lit_i ''secret'', under_dash, lit_i ''access'',
             under_dash, lit_i ''key'', wsp, assign_op, wsp, quote_opt]),
           RGroup 2 (re_at_least 32 (one_of [(CHR ''A'', CHR ''Z''), (CHR ''a'', CHR ''z''), (CHR ''0'', CHR ''9''),
             (CHR ''/'', CHR ''/''), (CHR ''+'', CHR ''+''), (CHR ''='', CHR ''='')])),
           RGroup 3 quote_opt])
        2 (95/100) ''high'' ''AWS secret access key assignment'',
      pat ''bearer_token'' bearer_re 2 (85/100) ''high'' ''Bearer token'',
      pat ''api_key''
        (re_seq [RGroup 1 (re_seq [api_key_word, wsp, assign_op, wsp, quote_opt]), RGroup 2 not_delim,
           RGroup 3 quote_opt])
        2 (82/100) ''high'' ''API key assignment'',
      pat ''password_assignment''
        (guarded (re_alts [lit_i ''password'', lit_i ''passwd'', lit_i ''pwd'']))
        3 (82/100) ''high'' ''password assignment'',
      pat ''secret_assignment'' (guarded (lit_i ''secret'')) 3 (82/100) ''high'' ''secret assignment'',
      pat ''token_assignment'' (guarded (lit_i ''token'')) 3 (8/10) ''high'' ''token assignment'',
      pat ''cookie''
        (RSeq (RGroup 1 (re_seq [lit_i ''cookie'', wsp, assign_op, wsp])) (RGroup 2 not_newline))
        2 (82/100) ''high'' ''cookie header or assignment'',
      pat ''session''
        (re_seq [RGroup 1 (re_seq [lit_i ''session'', re_opt (RAlt (lit_i ''id'') (lit_i ''_id'')), wsp,
             assign_op, wsp, quote_opt]), RGroup 2 not_delim, RGroup 3 quote_opt])
        2 (82/100) ''high'' ''session token assignment'',
      pat ''database_dsn_password''
        (re_seq [RGroup 1 (re_seq [re_alts [RSeq (lit_i ''postgres'') (re_opt (lit_i ''ql'')), lit_i ''mysql'',
             lit_i ''mongodb'', lit_i ''redis''], lit ''://'',
             re_plus (none_of ((CHR '':'', CHR '':'') # (CHR ''/'', CHR ''/'') # (CHR ''@'', CHR ''@'') # re_space)), lit '':'']),
           RGroup 2 (re_plus (none_of ((CHR ''@'', CHR ''@'') # re_space))), RGroup 3 (lit ''@'')])
        2 (95/100) ''high'' ''database DSN password'',
      pat ''cloud_credential''
        (re_seq [RGroup 1 (re_alts [lit_i ''google_application_credentials'', lit_i ''azure_client_secret'',
             lit_i ''client_secret'']), wsp, assign_op, wsp, quote_opt, RGroup 2 not_delim, RGroup 3 quote_opt])
        2 (85/100) ''high'' ''cloud credential assignment'']"

definition default_secret_patterns :: "secret_pattern list" where
  "default_secret_patterns = token_patterns @ assignment_patterns"

section \<open>The guard\<close>

record secret_guard =
  sg_patterns :: "secret_pattern list"
  sg_allowlist :: "regex list"

record secret_finding =
  sf_type :: string
  sf_redacted :: string
  sf_location :: string
  sf_confidence :: rat
  sf_severity :: string
  sf_description :: string

record scan_result =
  sr_has :: bool
  sr_findings :: "secret_finding list"
  sr_text :: string

definition default_guard :: secret_guard where
  "default_guard = \<lparr>sg_patterns = default_secret_patterns, sg_allowlist = []\<rparr>"

definition allowlisted :: "secret_guard \<Rightarrow> string \<Rightarrow> bool" where
  "allowlisted g m = list_ex (\<lambda>re. re_test re m) (sg_allowlist g)"

definition redact_match :: "secret_pattern \<Rightarrow> string \<Rightarrow> string" where
  "redact_match p m =
     (if sc_group p = 0 then ''[REDACTED:'' @ sc_type p @ '']''
      else case re_group (sc_re p) (sc_group p) m of
             None \<Rightarrow> ''[REDACTED:'' @ sc_type p @ '']''
           | Some (i, j) \<Rightarrow> take i m @ ''[REDACTED]'' @ drop j m)"

definition guard_redact :: "secret_guard \<Rightarrow> string \<Rightarrow> string" where
  "guard_redact g text =
     (if text = [] then text else foldl (\<lambda>t p. re_replace (sc_re p) (\<lambda>m. if allowlisted g m then m else redact_match p m) t)
       text (sg_patterns g))"

definition redact_text :: "string \<Rightarrow> string" where
  "redact_text = guard_redact default_guard"

definition is_sensitive_key :: "string \<Rightarrow> bool" where
  "is_sensitive_key key =
     (let k = to_lower (trim_space key) in
      if k \<in> {''has_secret'', ''deny_effects'', ''expected_effects'', ''effects'', ''input_tokens'',
              ''output_tokens'', ''total_tokens'', ''tool_call_count'', ''redact_secrets'',
              ''secret_patterns'', ''secret_findings'', ''forbidden_secret_patterns''}
      then False
      else re_test sensitive_key_re k)"

definition env_assignment :: "string \<Rightarrow> bool" where
  "env_assignment row =
     (let l = trim_space row in
      l \<noteq> [] \<and> \<not> has_prefix l ''#'' \<and> has_sub l ''='' \<and>
      is_sensitive_key (trim_space (takeWhile (\<lambda>c. c \<noteq> CHR ''='') l)))"

definition looks_like_env_file :: "string \<Rightarrow> bool" where
  "looks_like_env_file text = (2 \<le> length (filter env_assignment (split_on CHR 0x0A text)))"

definition pattern_findings :: "secret_guard \<Rightarrow> string \<Rightarrow> secret_pattern \<Rightarrow> secret_finding list" where
  "pattern_findings g text p =
     map (\<lambda>(i, j).
        \<lparr>sf_type = sc_type p, sf_redacted = redact_match p (span text (i, j)),
         sf_location = ''text:'' @ show_nat i @ ''-'' @ show_nat j,
         sf_confidence = sc_confidence p, sf_severity = sc_severity p,
         sf_description = sc_description p\<rparr>)
       (filter (\<lambda>ij. \<not> allowlisted g (span text ij)) (re_spans (sc_re p) text))"

definition env_finding :: secret_finding where
  "env_finding = \<lparr>sf_type = ''env_file_content'', sf_redacted = ''[REDACTED:env_file_content]'',
     sf_location = ''text'', sf_confidence = 8/10, sf_severity = ''high'',
     sf_description = ''multiple .env-style secret assignments''\<rparr>"

definition guard_scan :: "secret_guard \<Rightarrow> string \<Rightarrow> scan_result" where
  "guard_scan g text =
     (let fs = concat (map (pattern_findings g text) (sg_patterns g)) @
               (if looks_like_env_file text then [env_finding] else []);
          sorted = sort_key sf_location fs
      in \<lparr>sr_has = (sorted \<noteq> []), sr_findings = sorted, sr_text = guard_redact g text\<rparr>)"

definition scan_text :: "string \<Rightarrow> scan_result" where
  "scan_text = guard_scan default_guard"

definition must_block :: "scan_result \<Rightarrow> bool" where
  "must_block r =
     (sr_has r \<and> list_ex (\<lambda>f. to_lower (sf_severity f) \<in> {''critical'', ''high''}) (sr_findings r))"

definition secret_type_from_key :: "string \<Rightarrow> string" where
  "secret_type_from_key key =
     (let k = to_lower key in
      if has_sub k ''cookie'' then ''cookie''
      else if has_sub k ''session'' then ''session''
      else if has_sub k ''password'' \<or> has_sub k ''passwd'' then ''password_assignment''
      else if has_sub k ''token'' then ''token_assignment''
      else if has_sub k ''secret'' then ''secret_assignment''
      else if has_sub k ''api'' then ''api_key''
      else ''cloud_credential'')"


section \<open>Structured values\<close>

text \<open>\<open>RedactString\<close>: the guard first, then the patterns of redaction.go.\<close>

definition redact_pattern :: "regex \<times> nat \<Rightarrow> string \<Rightarrow> string" where
  "redact_pattern rn m =
     (if 2 \<le> snd rn
      then (case re_find (fst rn) [] m of
              None \<Rightarrow> ''[REDACTED]''
            | Some (_, _, _, _, gs) \<Rightarrow>
                (case map_of gs 1 of None \<Rightarrow> [] | Some ij \<Rightarrow> span m ij) @ ''[REDACTED]'')
      else ''[REDACTED]'')"

definition redact_string :: "string \<Rightarrow> string" where
  "redact_string v = foldl (\<lambda>t rn. re_replace (fst rn) (redact_pattern rn) t) (redact_text v) redaction_patterns"

definition contains_sensitive_string :: "string \<Rightarrow> bool" where
  "contains_sensitive_string v = (v \<noteq> [] \<and> (sr_has (scan_text v) \<or> redact_string v \<noteq> v))"

fun redact_value :: "gval \<Rightarrow> gval" where
  "redact_value (GMap kvs) =
     GMap (map (\<lambda>(k, v). (k, if is_sensitive_key (trim_space k) then GStr ''[REDACTED]'' else redact_value v)) kvs)"
| "redact_value (GList vs) = GList (map redact_value vs)"
| "redact_value (GStr s) = GStr (redact_string s)"
| "redact_value v = v"

definition redact_any :: "gval \<Rightarrow> gval" where
  "redact_any v =
     (case v of
        GNil \<Rightarrow> GNil
      | GMap _ \<Rightarrow> redact_value v
      | GList _ \<Rightarrow> redact_value v
      | GStr _ \<Rightarrow> redact_value v
      | _ \<Rightarrow> if marshalable v then redact_value (json_norm v) else v)"

text \<open>\<open>RedactMap\<close>: the result of \<open>RedactAny\<close> on a map is a map, so its fallback is never reached.\<close>

definition redact_map :: "nmap \<Rightarrow> gmap" where
  "redact_map m =
     (case m of None \<Rightarrow> []
      | Some kvs \<Rightarrow> (case redact_any (GMap kvs) of GMap out \<Rightarrow> out | _ \<Rightarrow> kvs))"

text \<open>
  \<open>redactMapWithGuard\<close> and \<open>redactAnyWithGuard\<close>: the redacted value and the findings, in the order
  of the list that stands for the map (Go's order over a map is not specified).
\<close>

definition key_finding :: "string \<Rightarrow> string \<Rightarrow> secret_finding" where
  "key_finding k loc = \<lparr>sf_type = secret_type_from_key k, sf_redacted = ''[REDACTED]'',
     sf_location = loc, sf_confidence = 9/10, sf_severity = ''high'',
     sf_description = ''sensitive field name''\<rparr>"

definition index_path :: "string \<Rightarrow> nat \<Rightarrow> string" where
  "index_path path i = path @ ''['' @ show_nat i @ '']''"

definition guard_str :: "secret_guard \<Rightarrow> string \<Rightarrow> string \<Rightarrow> gval \<times> secret_finding list" where
  "guard_str g path s =
     (let scan = guard_scan g s
      in (GStr (sr_text scan),
          map (\<lambda>f. f\<lparr>sf_location := path @ '':'' @ sf_location f\<rparr>) (sr_findings scan)))"

lemma size_enumerate_less:
  "(i, v) \<in> set (List.enumerate n vs) \<Longrightarrow> size v < Suc (size_list size vs)"
  by (induction vs arbitrary: n) (auto simp: less_Suc_eq_le intro: le_SucI trans_le_add1 trans_le_add2)

lemma size_field_less:
  "(k, v) \<in> set kvs \<Longrightarrow> size v < Suc (size_list (size_prod (\<lambda>_. 0) size) kvs)"
  by (induction kvs) auto

function guard_any :: "secret_guard \<Rightarrow> string \<Rightarrow> gval \<Rightarrow> gval \<times> secret_finding list" where
  "guard_any g path (GMap kvs) =
     (let rs = map (\<lambda>(k, v).
             if is_sensitive_key k
             then ((k, GStr ''[REDACTED]''),
                   (case v of GStr t \<Rightarrow> if trim_space t \<noteq> [] then [key_finding k (path @ ''.'' @ k)] else []
                    | _ \<Rightarrow> []))
             else (let r = guard_any g (path @ ''.'' @ k) v in ((k, fst r), snd r))) kvs
      in (GMap (map fst rs), concat (map snd rs)))"
| "guard_any g path (GList vs) =
     (let rs = map (\<lambda>(i, v). guard_any g (index_path path i) v) (List.enumerate 0 vs)
      in (GList (map fst rs), concat (map snd rs)))"
| "guard_any g path (GStrs xs) =
     (let rs = map (\<lambda>(i, s). guard_str g (index_path path i) s) (List.enumerate 0 xs)
      in (GList (map fst rs), concat (map snd rs)))"
| "guard_any g path (GStr s) = guard_str g path s"
| "guard_any g path GNil = (GNil, [])"
| "guard_any g path (GBool b) = (GBool b, [])"
| "guard_any g path (GInt i) = (GInt i, [])"
| "guard_any g path (GFloat r) = (GFloat r, [])"
| "guard_any g path (GMaps ms) = (GMaps ms, [])"
| "guard_any g path (GStruct fs) = (GStruct fs, [])"
| "guard_any g path GOpaque = (GOpaque, [])"
  by pat_completeness auto

termination
  by (relation "measure (\<lambda>(g, path, v). size v)")
     (auto dest: size_enumerate_less size_field_less)

definition scan_map :: "nmap \<Rightarrow> scan_result" where
  "scan_map m =
     (case m of
        None \<Rightarrow> \<lparr>sr_has = False, sr_findings = [], sr_text = []\<rparr>
      | Some kvs \<Rightarrow>
          (let r = guard_any default_guard ''$'' (GMap kvs)
           in \<lparr>sr_has = (snd r \<noteq> []), sr_findings = snd r,
               sr_text = (case json_marshal (fst r) of None \<Rightarrow> [] | Some t \<Rightarrow> t)\<rparr>))"


section \<open>What redaction guarantees\<close>

text \<open>
  The abstract promise: under every map key that counts as sensitive stands the fixed mark, at any
  depth that maps and \<open>[]any\<close> slices reach, and every string elsewhere came out of \<open>RedactString\<close>.
\<close>

fun masked :: "gval \<Rightarrow> bool" where
  "masked (GMap kvs) =
     list_all (\<lambda>(k, v). if is_sensitive_key (trim_space k) then v = GStr ''[REDACTED]'' else masked v) kvs"
| "masked (GList vs) = list_all masked vs"
| "masked v = True"

fun open_strings :: "gval \<Rightarrow> string set" where
  "open_strings (GMap kvs) =
     \<Union> (set (map (\<lambda>(k, v). if is_sensitive_key (trim_space k) then {} else open_strings v) kvs))"
| "open_strings (GList vs) = \<Union> (set (map open_strings vs))"
| "open_strings (GStr s) = {s}"
| "open_strings v = {}"

lemma masked_redact_value: "masked (redact_value v)"
  by (induction v rule: redact_value.induct) (auto simp: list_all_iff)

lemma open_strings_redact_value:
  "open_strings (redact_value v) = redact_string ` open_strings v"
proof (induction v rule: redact_value.induct)
  case (1 kvs)
  have "(if is_sensitive_key (trim_space k) then {} else open_strings (redact_value v))
      = redact_string ` (if is_sensitive_key (trim_space k) then {} else open_strings v)"
    if "(k, v) \<in> set kvs" for k v
    using 1 that by auto
  then show ?case
    by (force simp: image_UN split: if_splits)
next
  case (2 vs)
  then show ?case by (auto simp: image_UN)
qed auto

lemma redact_map_Some: "GMap (redact_map (Some kvs)) = redact_value (GMap kvs)"
  by (simp add: redact_map_def redact_any_def)

lemma redact_map_None [simp]: "redact_map None = []"
  by (simp add: redact_map_def)

lemma map_of_redact_map:
  "map_of (redact_map (Some kvs)) k =
     (if is_sensitive_key (trim_space k)
      then map_option (\<lambda>_. GStr ''[REDACTED]'') (map_of kvs k)
      else map_option redact_value (map_of kvs k))"
  by (induction kvs) (auto simp: redact_map_def redact_any_def)

lemma keys_redact_map [simp]: "map fst (redact_map (Some kvs)) = map fst kvs"
  by (induction kvs) (auto simp: redact_map_def redact_any_def)

text \<open>\<open>RedactMap\<close> masks the value of every sensitive key at every depth it descends to,
  passes every other string it reaches through \<open>RedactString\<close>, and keeps the keys of the map.\<close>

theorem redact_map_masks:
  "masked (GMap (redact_map (Some kvs))) \<and>
   open_strings (GMap (redact_map (Some kvs))) = redact_string ` open_strings (GMap kvs) \<and>
   map fst (redact_map (Some kvs)) = map fst kvs"
  by (simp only: redact_map_Some masked_redact_value open_strings_redact_value keys_redact_map simp_thms)

text \<open>The recursion of \<open>RedactMap\<close> stops at a \<open>[]string\<close>: such a value below a key that is not
  sensitive comes back as it is, while \<open>RedactAny\<close> on the same value masks every element.\<close>

theorem redact_map_keeps_string_slices:
  "\<not> is_sensitive_key (trim_space k) \<Longrightarrow>
     redact_map (Some [(k, GStrs xs)]) = [(k, GStrs xs)] \<and>
     redact_any (GStrs xs) = GList (map (\<lambda>s. GStr (redact_string s)) xs)"
  by (simp add: redact_map_def redact_any_def comp_def)

theorem redact_map_keeps_string_slices_witness:
  "\<not> is_sensitive_key (trim_space ''effects'') \<and>
   redact_map (Some [(''effects'', GStrs [''password=hunter2''])]) = [(''effects'', GStrs [''password=hunter2''])]"
proof -
  have k: "\<not> is_sensitive_key (trim_space ''effects'')"
    by (simp add: is_sensitive_key_def trim_space_def trim_chars_def is_space_def to_lower_def
        lower_char_def)
  show ?thesis
    using k redact_map_keeps_string_slices [OF k, of "[''password=hunter2'']"] by blast
qed

section \<open>Long-term storage\<close>

definition grave_severity :: "string \<Rightarrow> bool" where
  "grave_severity s = (s = ''critical'' \<or> s = ''high'')"

abbreviation grave :: "secret_finding \<Rightarrow> bool" where
  "grave f \<equiv> grave_severity (sf_severity f)"

lemma grave_lower: "grave f \<Longrightarrow> to_lower (sf_severity f) \<in> {''critical'', ''high''}"
proof -
  have "to_lower ''critical'' = ''critical''" "to_lower ''high'' = ''high''"
    by code_simp+
  then show "grave f \<Longrightarrow> ?thesis" by (auto simp: grave_severity_def)
qed

lemma default_severities:
  "p \<in> set default_secret_patterns \<Longrightarrow> grave_severity (sc_severity p)"
  by (auto simp: default_secret_patterns_def token_patterns_def assignment_patterns_def
      grave_severity_def)

lemma grave_scan: "f \<in> set (sr_findings (scan_text s)) \<Longrightarrow> grave f"
  using default_severities
  by (auto simp: scan_text_def guard_scan_def default_guard_def Let_def pattern_findings_def
      env_finding_def grave_severity_def [of "''high''"] split: if_splits)

lemma grave_guard_str: "f \<in> set (snd (guard_str default_guard path s)) \<Longrightarrow> grave f"
  using grave_scan [of _ s]
  by (auto simp: guard_str_def scan_text_def Let_def)

lemma grave_guard_any: "f \<in> set (snd (guard_any default_guard path v)) \<Longrightarrow> grave f"
proof (induction default_guard path v arbitrary: f rule: guard_any.induct)
  case (1 path kvs)
  then obtain k v where kv: "(k, v) \<in> set kvs" and
    "f \<in> set (if is_sensitive_key k
       then (case v of GStr t \<Rightarrow> if trim_space t \<noteq> [] then [key_finding k (path @ ''.'' @ k)] else [] | _ \<Rightarrow> [])
       else snd (guard_any default_guard (path @ ''.'' @ k) v))"
    by (auto simp: Let_def split: if_splits)
  with 1(1) [OF kv refl] show ?case
    by (auto simp: key_finding_def grave_severity_def [of "''high''"] split: if_splits gval.splits)
next
  case (2 path vs)
  then show ?case by (fastforce simp: Let_def)
next
  case (3 path xs)
  then show ?case by (fastforce simp: Let_def dest: grave_guard_str)
qed (auto dest: grave_guard_str)

lemma must_block_grave:
  "(\<And>f. f \<in> set (sr_findings r) \<Longrightarrow> grave f) \<Longrightarrow> sr_has r = (sr_findings r \<noteq> []) \<Longrightarrow> must_block r = sr_has r"
  using grave_lower by (cases "sr_findings r") (auto simp: must_block_def)

text \<open>Whatever the default guard finds, in a text or anywhere in a map, blocks long-term storage:
  \<open>MustBlockLongTermStorage\<close> holds exactly when the scan has a finding.\<close>

theorem must_block_iff_found:
  "must_block (scan_text s) = sr_has (scan_text s) \<and> must_block (scan_map m) = sr_has (scan_map m)"
proof
  show "must_block (scan_text s) = sr_has (scan_text s)"
    by (rule must_block_grave, erule grave_scan)
       (simp add: scan_text_def guard_scan_def Let_def)
next
  have "must_block (scan_map (Some kvs)) = sr_has (scan_map (Some kvs))" for kvs
    by (rule must_block_grave)
       (auto simp: scan_map_def Let_def simp del: guard_any.simps dest: grave_guard_any)
  then show "must_block (scan_map m) = sr_has (scan_map m)"
    by (cases m) (auto simp: scan_map_def must_block_def)
qed

end
