(* ===== verification/Ops_Rollback.thy ===== *)
theory Ops_Rollback
  imports Redaction
begin

text \<open>
  What an approval for an operations tool shows besides the decision: the rollback plan of
  \<open>internal/tools/ops/rollback.go\<close> and the manifest summary of \<open>internal/tools/ops/remote.go\<close>.
\<close>

section \<open>Library functions\<close>

text \<open>\<open>filepath.Base\<close> on a slash-separated path.\<close>

definition file_base :: "string \<Rightarrow> string" where
  "file_base path =
     (if path = [] then ''.''
      else
        let s = rev (dropWhile (\<lambda>c. c = CHR ''/'') (rev path));
            b = rev (takeWhile (\<lambda>c. c \<noteq> CHR ''/'') (rev s))
        in if b = [] then ''/'' else b)"

section \<open>Rollback plans\<close>

record rollback_plan =
  rp_can :: bool
  rp_previous :: string
  rp_steps :: "string list"
  rp_backups :: "string list"
  rp_note :: string

definition rollback_plan_val :: "rollback_plan \<Rightarrow> gval" where
  "rollback_plan_val r = GStruct
     ([(''can_rollback'', GBool (rp_can r))] @ omit_str ''previous_state_summary'' (rp_previous r)
      @ omit_strs ''rollback_steps'' (rp_steps r) @ omit_strs ''backup_paths'' (rp_backups r)
      @ omit_str ''risk_note'' (rp_note r))"

definition mk_plan :: "bool \<Rightarrow> string \<Rightarrow> string list \<Rightarrow> string \<Rightarrow> rollback_plan" where
  "mk_plan can previous steps note =
     \<lparr>rp_can = can, rp_previous = previous, rp_steps = steps, rp_backups = [], rp_note = note\<rparr>"

definition rollback_docker :: "string \<Rightarrow> gmap \<Rightarrow> rollback_plan option" where
  "rollback_docker tool m =
     (let c = quote (str_at m ''container'') in
      if tool = ''ops.docker.restart'' then
        Some (mk_plan False ''container runtime state before restart is not snapshotted''
          [''inspect container '' @ c @ '' status and recent logs'',
           ''restart the container again only if the new state is unhealthy'']
          ''docker restart cannot restore in-memory process state'')
      else if tool = ''ops.docker.stop'' then
        Some (mk_plan True ''container was expected to be running before stop''
          [''run ops.docker.start for container '' @ c @ '' after approval'']
          ''starting the container may not restore in-memory sessions'')
      else if tool = ''ops.docker.start'' then
        Some (mk_plan True ''container was expected to be stopped before start''
          [''run ops.docker.stop for container '' @ c @ '' after approval'']
          ''stopping after start is also a write operation and needs approval'')
      else None)"

definition rollback_k8s :: "string \<Rightarrow> gmap \<Rightarrow> rollback_plan option" where
  "rollback_k8s tool m =
     (if tool = ''ops.k8s.apply'' then
        Some (mk_plan True ''previous live manifest is not captured by the tool unless the operator exports it first''
          [''run kubectl rollout undo when supported by the resource'',
           ''or re-apply the previous manifest after approval'']
          ''rollback depends on Kubernetes resource type and rollout history'')
      else if tool = ''ops.k8s.delete'' then
        Some (mk_plan False
          (''delete target '' @ str_at m ''resource'' @ ''/'' @ str_at m ''name'' @ '' is not snapshotted by this tool'')
          [''recreate the resource from a known-good manifest after approval'']
          ''delete is destructive; resources without backup manifests may not be recoverable'')
      else if tool = ''ops.k8s.rollout_restart'' then
        Some (mk_plan True ''previous ReplicaSet may be available if rollout history exists''
          [''run kubectl rollout undo for the workload after approval'']
          ''rollback depends on workload type and rollout history'')
      else None)"

definition rollback_for_tool :: "string \<Rightarrow> nmap \<Rightarrow> rollback_plan" where
  "rollback_for_tool tool input =
     (let m = nm input in
      if tool = ''ops.local.service_restart'' \<or> tool = ''ops.ssh.service_restart'' then
        (let service = (if str_at m ''service'' = [] then str_at m ''service_name'' else str_at m ''service'')
         in mk_plan False ''previous service process state is not captured by this tool''
              [''inspect service '' @ quote service @ '' status and logs'',
               ''restart service '' @ quote service @ '' again only after confirming it is safe'']
              ''service restart is a state-changing operation; previous in-memory process state cannot be restored automatically'')
      else
        (case rollback_docker tool m of
           Some r \<Rightarrow> r
         | None \<Rightarrow>
             (case rollback_k8s tool m of
                Some r \<Rightarrow> r
              | None \<Rightarrow> mk_plan False ''previous state is not captured for this operation'' []
                          ''no automatic rollback plan is available'')))"

section \<open>Manifest summary\<close>

definition manifest_path_entry :: "gmap \<Rightarrow> gmap" where
  "manifest_path_entry m =
     (if str_at m ''path'' \<noteq> [] then [(''manifest_path'', GStr (file_base (str_at m ''path'')))]
      else if str_at m ''manifest_path'' \<noteq> []
      then [(''manifest_path'', GStr (file_base (str_at m ''manifest_path'')))]
      else [])"

definition manifest_summary :: "nmap \<Rightarrow> gmap" where
  "manifest_summary input =
     (let m = nm input in
      manifest_path_entry m
      @ (if str_at m ''namespace'' \<noteq> [] then [(''namespace'', GStr (str_at m ''namespace''))] else [])
      @ (if str_at m ''manifest'' \<noteq> []
         then let rows = split_on CHR 0x0A (redact_string (str_at m ''manifest''))
              in [(''manifest_preview'', GStr (join [CHR 0x0A] (take 20 rows))),
                  (''manifest_lines'', GInt (int (length rows)))]
         else []))"

section \<open>Properties\<close>

lemma file_base_no_slash: "CHR ''/'' \<in> set (file_base p) \<Longrightarrow> file_base p = ''/''"
  by (auto simp: file_base_def Let_def dest: set_takeWhileD split: if_splits)

lemma split_on_join_take:
  "length (split_on c (join [c] (take n (split_on c s)))) \<le> max 1 n"
proof -
  have j: "length (split_on c (join [c] xs)) \<le> max 1 (length xs)" if "\<forall>x \<in> set xs. c \<notin> set x" for xs
    using that
  proof (induction "[c]" xs rule: join.induct)
    case (2 x)
    have "split_on c x = [x]" if "c \<notin> set x" for x
      using that by (induction x) auto
    with 2 show ?case by simp
  next
    case (3 x y ys)
    have "split_on c (x @ c # s) = x # split_on c s" if "c \<notin> set x" for x s
      using that by (induction x) (auto split: list.splits)
    with 3 show ?case by simp
  qed simp
  have "\<forall>x \<in> set (take n (split_on c s)). c \<notin> set x"
    using split_on_no_sep by (fastforce dest: in_set_takeD)
  from j [OF this] show ?thesis by simp
qed

text \<open>An approval for a manifest shows at most twenty lines of it, taken from its redacted text,
  and of a path only the last component, so no directory of the operator's machine is disclosed.\<close>

theorem manifest_summary_bounded:
  "(\<forall>t. map_of (manifest_summary input) ''manifest_preview'' = Some (GStr t) \<longrightarrow>
      length (split_on CHR 0x0A t) \<le> 20 \<and>
      has_prefix (redact_string (str_at (nm input) ''manifest'')) t) \<and>
   (\<forall>b. map_of (manifest_summary input) ''manifest_path'' = Some (GStr b) \<longrightarrow>
      b = ''/'' \<or> CHR ''/'' \<notin> set b)"
proof -
  have pre: "has_prefix (join [c] xs) (join [c] (take n xs))" for c :: char and xs n
  proof (induction "[c]" xs arbitrary: n rule: join.induct)
    case (3 x y ys)
    from 3 [of "n - 1"] show ?case
      by (cases n; cases "n - 1") (auto simp: take_Suc_Cons)
  qed (auto simp: take_Cons split: nat.split)
  have "has_prefix s (join [CHR 0x0A] (take 20 (split_on CHR 0x0A s)))" for s
    using pre [where c = "CHR 0x0A" and xs = "split_on CHR 0x0A s" and n = 20] by (simp add: join_split_on)
  moreover have "length (split_on CHR 0x0A (join [CHR 0x0A] (take 20 (split_on CHR 0x0A s)))) \<le> 20" for s
    using split_on_join_take [of "CHR 0x0A" 20 s] by simp
  moreover have "\<not> (CHR ''/'' \<in> set (file_base p) \<and> file_base p \<noteq> ''/'')" for p
    using file_base_no_slash by auto
  ultimately show ?thesis
    by (auto simp: manifest_summary_def manifest_path_entry_def Let_def split: if_splits)
qed

theorem manifest_summary_bounded_witness:
  "(\<exists>t. map_of (manifest_summary (Some [(''manifest'', GStr ''kind: Pod''), (''path'', GStr ''/srv/app.yaml'')]))
        ''manifest_preview'' = Some (GStr t) \<and> length (split_on CHR 0x0A t) \<le> 20) \<and>
   CHR ''/'' \<notin> set ''app.yaml''"
proof -
  let ?m = "Some [(''manifest'', GStr ''kind: Pod''), (''path'', GStr ''/srv/app.yaml'')]"
  have b: "file_base ''/srv/app.yaml'' = ''app.yaml''"
    by (simp add: file_base_def Let_def)
  have p: "map_of (manifest_summary ?m) ''manifest_path'' = Some (GStr ''app.yaml'')"
    by (simp add: manifest_summary_def manifest_path_entry_def Let_def str_at_def b)
  have q: "\<exists>t. map_of (manifest_summary ?m) ''manifest_preview'' = Some (GStr t)"
    by (simp add: manifest_summary_def manifest_path_entry_def Let_def str_at_def b)
  note m = manifest_summary_bounded [of ?m]
  from conjunct2 [OF m] p have "''app.yaml'' = ''/'' \<or> CHR ''/'' \<notin> set ''app.yaml''" by blast
  moreover from conjunct1 [OF m] q
  have "\<exists>t. map_of (manifest_summary ?m) ''manifest_preview'' = Some (GStr t) \<and>
      length (split_on CHR 0x0A t) \<le> 20" by blast
  ultimately show ?thesis by simp
qed

end
