(* ===== verification/Sensitive_Paths.thy ===== *)
theory Sensitive_Paths
  imports Prelude
begin

text \<open>
  \<open>IsSensitivePath\<close> of \<open>internal/security/sensitive_resources.go\<close>: a path is sensitive when its
  lower-case form contains one of the built-in markers or of the configured extra ones.
\<close>

definition default_sensitive :: "string list" where
  "default_sensitive =
     [''.env'', ''.env.local'', ''.npmrc'', ''.pypirc'', ''id_rsa'', ''id_ed25519'', ''credentials'',
      ''cookie'', ''session'', ''token'', ''secret'', ''private'', ''aws'', ''gcloud'', ''kubeconfig'']"

definition is_sensitive_path :: "string \<Rightarrow> string list \<Rightarrow> bool" where
  "is_sensitive_path path extra =
     (let p = to_lower path in
      list_ex (\<lambda>x. has_sub p (to_lower x)) default_sensitive \<or>
      list_ex (\<lambda>x. has_sub p (to_lower x)) extra)"

definition contains_sensitive :: "string list \<Rightarrow> string list \<Rightarrow> bool" where
  "contains_sensitive paths extra = list_ex (\<lambda>p. is_sensitive_path p extra) paths"

section \<open>Properties\<close>

lemma is_sensitive_path_iff:
  "is_sensitive_path p extra \<longleftrightarrow>
     (\<exists>x \<in> set default_sensitive \<union> set extra. sublist (to_lower x) (to_lower p))"
  by (auto simp: is_sensitive_path_def Let_def list_ex_iff)

lemma is_sensitive_path_embed: "is_sensitive_path p extra \<Longrightarrow> is_sensitive_path (a @ p @ b) extra"
  unfolding is_sensitive_path_iff to_lower_append
  by (meson sublist_append_left sublist_append_right)

lemma is_sensitive_path_mono: "is_sensitive_path p xs \<Longrightarrow> set xs \<subseteq> set ys \<Longrightarrow> is_sensitive_path p ys"
  by (auto simp: is_sensitive_path_iff)

lemma contains_sensitive_iff:
  "contains_sensitive ps extra \<longleftrightarrow> (\<exists>p \<in> set ps. is_sensitive_path p extra)"
  by (auto simp: contains_sensitive_def list_ex_iff)

text \<open>Sensitivity is inherited by every path that embeds the sensitive one (a directory above it,
  a file below it) and by every longer list of configured markers, and ignores letter case.\<close>

theorem sensitive_path_monotone:
  assumes "is_sensitive_path p xs" and "set xs \<subseteq> set ys"
  shows "is_sensitive_path (a @ p @ b) ys \<and> is_sensitive_path (to_lower p) ys"
proof -
  have "is_sensitive_path p ys"
    using assms by (rule is_sensitive_path_mono)
  then show ?thesis
    by (simp add: is_sensitive_path_embed) (simp add: is_sensitive_path_iff)
qed

theorem sensitive_path_monotone_witness:
  "is_sensitive_path (''/home/u/'' @ ''Token.txt'' @ ''.bak'') [''x'']"
proof -
  have "is_sensitive_path ''Token.txt'' []" by code_simp
  from sensitive_path_monotone [OF this, of "[''x'']" "''/home/u/''" "''.bak''"]
  show ?thesis by simp
qed

end
