(* ===== verification/Workspace_Paths.thy ===== *)
theory Workspace_Paths
  imports Sensitive_Paths
begin

text \<open>
  How the code tools resolve a path against the workspace (\<open>internal/tools/code/workspace.go\<close>), on a system
  whose separator is the slash. A cleaned absolute path (\<open>filepath.Abs\<close>, \<open>filepath.Clean\<close>) is the list of its
  components, and the process's working directory is such a path. Resolving is lexical: symbolic links are
  not followed.
\<close>

type_synonym path = "string list"

section \<open>Lexical paths\<close>

definition is_abs :: "string \<Rightarrow> bool" where
  "is_abs p \<longleftrightarrow> has_prefix p ''/''"

definition walk_comp :: "path \<Rightarrow> string \<Rightarrow> path" where
  "walk_comp acc c =
     (if c = [] \<or> c = ''.'' then acc
      else if c = ''..'' then butlast acc
      else acc @ [c])"

text \<open>\<open>filepath.Clean(filepath.Join(base, p))\<close> for an absolute clean \<open>base\<close>.\<close>

definition clean_from :: "path \<Rightarrow> string \<Rightarrow> path" where
  "clean_from base p = foldl walk_comp base (split_on (CHR ''/'') p)"

definition abs_path :: "path \<Rightarrow> string \<Rightarrow> path" where
  "abs_path cwd p = clean_from (if is_abs p then [] else cwd) p"

definition path_text :: "path \<Rightarrow> string" where
  "path_text p = ''/'' @ join ''/'' p"

fun strip_common :: "'a list \<Rightarrow> 'a list \<Rightarrow> 'a list \<times> 'a list" where
  "strip_common (x # xs) (y # ys) = (if x = y then strip_common xs ys else (x # xs, y # ys))"
| "strip_common xs ys = (xs, ys)"

text \<open>\<open>filepath.Rel\<close> of two cleaned absolute paths.\<close>

definition rel_text :: "path \<Rightarrow> path \<Rightarrow> string" where
  "rel_text base targ =
     (let (b, t) = strip_common base targ; cs = replicate (length b) ''..'' @ t
      in if cs = [] then ''.'' else join ''/'' cs)"

section \<open>The workspace\<close>

record workspace =
  ws_root :: string
  ws_sensitive :: "string list"

definition default_root :: "string \<Rightarrow> string" where
  "default_root r = (if trim_space r = [] then ''.'' else r)"

definition resolve :: "path \<Rightarrow> workspace \<Rightarrow> string \<Rightarrow> (path \<times> string) res" where
  "resolve cwd ws p =
     (let p' = (if trim_space p = [] then ''.'' else p);
          root = abs_path cwd (default_root (ws_root ws));
          full = (if is_abs p' then clean_from [] p' else clean_from root p');
          rel = rel_text root full
      in if rel = ''..'' \<or> has_prefix rel ''../'' \<or> is_abs rel
         then Inl (Err ''path escapes workspace'')
         else Inr (full, rel))"

definition ws_rel :: "path \<Rightarrow> workspace \<Rightarrow> path \<Rightarrow> string" where
  "ws_rel cwd ws full = rel_text (abs_path cwd (default_root (ws_root ws))) full"

definition ws_is_sensitive :: "workspace \<Rightarrow> string \<Rightarrow> bool" where
  "ws_is_sensitive ws p = is_sensitive_path p (ws_sensitive ws)"

section \<open>Clean paths\<close>

definition good_comp :: "string \<Rightarrow> bool" where
  "good_comp c \<longleftrightarrow> c \<noteq> [] \<and> c \<noteq> ''.'' \<and> c \<noteq> ''..'' \<and> CHR ''/'' \<notin> set c"

definition clean_path :: "path \<Rightarrow> bool" where
  "clean_path p = list_all good_comp p"

lemma clean_path_simps [simp]:
  "clean_path []" "clean_path (c # p) \<longleftrightarrow> good_comp c \<and> clean_path p"
  "clean_path (p @ q) \<longleftrightarrow> clean_path p \<and> clean_path q"
  by (simp_all add: clean_path_def)

lemma clean_path_butlast: "clean_path p \<Longrightarrow> clean_path (butlast p)"
  by (auto simp: clean_path_def list_all_iff dest: in_set_butlastD)

lemma clean_walk_comp: "clean_path p \<Longrightarrow> CHR ''/'' \<notin> set c \<Longrightarrow> clean_path (walk_comp p c)"
  by (simp add: walk_comp_def clean_path_butlast good_comp_def)

lemma clean_foldl_walk:
  "clean_path p \<Longrightarrow> \<forall>c\<in>set cs. CHR ''/'' \<notin> set c \<Longrightarrow> clean_path (foldl walk_comp p cs)"
  by (induction cs arbitrary: p) (simp_all add: clean_walk_comp)

lemma clean_clean_from: "clean_path base \<Longrightarrow> clean_path (clean_from base p)"
  by (auto simp: clean_from_def split_on_no_sep intro: clean_foldl_walk)

lemma clean_abs_path: "clean_path cwd \<Longrightarrow> clean_path (abs_path cwd p)"
  by (simp add: abs_path_def clean_clean_from)

lemma foldl_walk_clean: "clean_path cs \<Longrightarrow> foldl walk_comp base cs = base @ cs"
  by (induction cs arbitrary: base) (auto simp: walk_comp_def good_comp_def)

lemma split_on_join:
  "cs \<noteq> [] \<Longrightarrow> \<forall>x\<in>set cs. c \<notin> set x \<Longrightarrow> split_on c (join [c] cs) = cs"
proof (induction cs)
  case (Cons x cs)
  have none: "c \<notin> set y \<Longrightarrow> split_on c y = [y]" for y by (induction y) auto
  have app: "c \<notin> set y \<Longrightarrow> split_on c (y @ c # z) = y # split_on c z" for y z
    by (induction y) (auto split: list.splits)
  from Cons show ?case by (cases cs) (simp_all add: none app)
qed simp

lemma clean_from_join: "clean_path cs \<Longrightarrow> clean_from base (join ''/'' cs) = base @ cs"
proof (cases cs)
  case Nil
  then show ?thesis by (simp add: clean_from_def walk_comp_def)
next
  case (Cons c t)
  assume cl: "clean_path cs"
  then have "\<forall>x\<in>set cs. CHR ''/'' \<notin> set x"
    by (auto simp: clean_path_def list_all_iff good_comp_def)
  with Cons have "split_on (CHR ''/'') (join ''/'' cs) = cs" by (simp add: split_on_join)
  with cl show ?thesis by (simp add: clean_from_def foldl_walk_clean)
qed

section \<open>Relative paths\<close>

lemma strip_common_append [simp]: "strip_common a (a @ b) = ([], b)"
  by (induction a) (cases b, simp_all)

lemma strip_common_Nil_iff: "fst (strip_common a b) = [] \<longleftrightarrow> prefix a b"
  by (induction a b rule: strip_common.induct) simp_all

lemma takeWhile_join:
  assumes "CHR ''/'' \<notin> set c"
  shows "takeWhile (\<lambda>x. x \<noteq> CHR ''/'') (join ''/'' (c # cs)) = c"
proof -
  have alone: "x \<notin> set c \<Longrightarrow> takeWhile (\<lambda>y. y \<noteq> x) c = c" for x :: char
    by (induction c) auto
  have "x \<notin> set c \<Longrightarrow> takeWhile (\<lambda>y. y \<noteq> x) (c @ x # z) = c" for x :: char and z
    by (induction c) auto
  with alone [OF assms] show ?thesis using assms by (cases cs) simp_all
qed

lemma rel_text_inside: "rel_text base (base @ t) = (if t = [] then ''.'' else join ''/'' t)"
  by (simp add: rel_text_def)

lemma rel_text_escapes:
  assumes "clean_path base" "clean_path targ"
  shows "rel_text base targ = ''..'' \<or> has_prefix (rel_text base targ) ''../'' \<or> is_abs (rel_text base targ)
    \<longleftrightarrow> \<not> prefix base targ"
proof (cases "prefix base targ")
  case True
  then obtain t where t: "targ = base @ t" by (auto simp: prefix_def)
  show ?thesis
  proof (cases t)
    case Nil
    with t True show ?thesis using rel_text_inside [of base "[]"] by (simp add: is_abs_def)
  next
    case (Cons c cs)
    with t assms have c: "good_comp c" by simp
    let ?r = "rel_text base targ"
    have "takeWhile (\<lambda>x. x \<noteq> CHR ''/'') ?r = c"
      using t Cons c takeWhile_join [of c cs] rel_text_inside [of base t] by (simp add: good_comp_def)
    with c True show ?thesis by (auto simp: good_comp_def is_abs_def prefix_def)
  qed
next
  case False
  obtain b t where bt: "strip_common base targ = (b, t)" by fastforce
  with False obtain x b' where b: "b = x # b'" using strip_common_Nil_iff [of base targ] by (cases b) auto
  have r: "rel_text base targ = join ''/'' (''..'' # replicate (length b') ''..'' @ t)"
    by (simp add: rel_text_def bt b)
  have "rel_text base targ = ''..'' \<or> has_prefix (rel_text base targ) ''../''"
    unfolding r by (cases "replicate (length b') ''..'' @ t") simp_all
  with False show ?thesis by blast
qed

section \<open>Resolving stays inside the workspace\<close>

definition root_path :: "path \<Rightarrow> workspace \<Rightarrow> path" where
  "root_path cwd ws = abs_path cwd (default_root (ws_root ws))"

text \<open>The path a request names, before the check.\<close>

definition target_path :: "path \<Rightarrow> workspace \<Rightarrow> string \<Rightarrow> path" where
  "target_path cwd ws p =
     (if trim_space p = [] then root_path cwd ws
      else clean_from (if is_abs p then [] else root_path cwd ws) p)"

lemma resolve_target:
  "resolve cwd ws p =
     (let full = target_path cwd ws p; rel = rel_text (root_path cwd ws) full
      in if rel = ''..'' \<or> has_prefix rel ''../'' \<or> is_abs rel
         then Inl (Err ''path escapes workspace'') else Inr (full, rel))"
  by (simp add: resolve_def target_path_def root_path_def Let_def clean_from_def walk_comp_def is_abs_def)

lemma clean_root_path: "clean_path cwd \<Longrightarrow> clean_path (root_path cwd ws)"
  by (simp add: root_path_def clean_abs_path)

lemma clean_target_path: "clean_path cwd \<Longrightarrow> clean_path (target_path cwd ws p)"
  by (simp add: target_path_def clean_root_path clean_clean_from)

lemma resolve_spec:
  assumes "clean_path cwd"
  shows "resolve cwd ws p =
    (if prefix (root_path cwd ws) (target_path cwd ws p)
     then Inr (target_path cwd ws p, rel_text (root_path cwd ws) (target_path cwd ws p))
     else Inl (Err ''path escapes workspace''))"
  using rel_text_escapes [OF clean_root_path [OF assms] clean_target_path [OF assms], of ws ws p]
  by (simp add: resolve_target Let_def)

lemma resolve_inside:
  assumes "clean_path cwd" "resolve cwd ws p = Inr (full, rel)"
  obtains t where "full = root_path cwd ws @ t" "clean_path t" "rel = (if t = [] then ''.'' else join ''/'' t)"
proof -
  have full: "full = target_path cwd ws p" and "prefix (root_path cwd ws) full" and rel: "rel = rel_text (root_path cwd ws) full"
    using assms by (auto simp: resolve_spec split: if_splits)
  then obtain t where t: "full = root_path cwd ws @ t" by (auto simp: prefix_def)
  with full clean_target_path [OF assms(1), of ws p] have "clean_path (root_path cwd ws @ t)" by metis
  then have "clean_path t" by simp
  with t rel that show ?thesis by (simp add: rel_text_inside)
qed

text \<open>C10: a path resolves exactly when it lies lexically at or below the workspace root, whatever \<open>..\<close>, \<open>.\<close>,
  empty components or absolute prefix it is written with; every other path is refused as escaping. The
  relative path returned is what follows the root, and is written with no \<open>..\<close> at all.\<close>

theorem resolve_stays_inside:
  assumes "clean_path cwd"
  shows "(case resolve cwd ws p of
      Inl e \<Rightarrow> e = Err ''path escapes workspace'' \<and> \<not> prefix (root_path cwd ws) (target_path cwd ws p)
    | Inr (full, rel) \<Rightarrow>
        full = target_path cwd ws p \<and>
        (\<exists>t. full = root_path cwd ws @ t \<and> clean_path t \<and> rel = (if t = [] then ''.'' else join ''/'' t)))"
proof (cases "prefix (root_path cwd ws) (target_path cwd ws p)")
  case True
  then obtain t where t: "target_path cwd ws p = root_path cwd ws @ t" by (auto simp: prefix_def)
  then have "clean_path t" using clean_target_path [OF assms, of ws p] by simp
  with t show ?thesis by (auto simp: resolve_spec [OF assms] rel_text_inside)
qed (simp add: resolve_spec [OF assms])

theorem resolve_stays_inside_witness:
  "resolve [''home'', ''u''] \<lparr>ws_root = ''w'', ws_sensitive = []\<rparr> ''a/../../x'' = Inl (Err ''path escapes workspace'')"
proof -
  let ?ws = "\<lparr>ws_root = ''w'', ws_sensitive = []\<rparr>"
  have "clean_path [''home'', ''u'']" by (simp add: good_comp_def)
  note inside = resolve_stays_inside [OF this, of ?ws "''a/../../x''"]
  have "\<not> prefix (root_path [''home'', ''u''] ?ws) (target_path [''home'', ''u''] ?ws ''a/../../x'')"
    by code_simp
  with inside show ?thesis by (auto split: sum.splits)
qed

text \<open>The relative path a resolution reports resolves again to the same file, for every path whose
  relative form is not made of blanks alone.\<close>

theorem resolve_again:
  assumes "clean_path cwd" "resolve cwd ws p = Inr (full, rel)" "trim_space rel \<noteq> []"
  shows "resolve cwd ws rel = Inr (full, rel)"
proof -
  from assms(1,2) obtain t where
    t: "full = root_path cwd ws @ t" "clean_path t" "rel = (if t = [] then ''.'' else join ''/'' t)"
    by (rule resolve_inside)
  have "\<not> is_abs rel"
  proof (cases t)
    case (Cons c cs)
    then have "takeWhile (\<lambda>x. x \<noteq> CHR ''/'') rel = c"
      using t takeWhile_join [of c cs] by (simp add: good_comp_def)
    with Cons t show ?thesis by (auto simp: is_abs_def prefix_def good_comp_def)
  qed (simp add: t is_abs_def)
  moreover have "clean_from (root_path cwd ws) rel = full"
    by (cases "t = []") (simp add: t(1,3) clean_from_def walk_comp_def, simp add: t clean_from_join)
  ultimately have "target_path cwd ws rel = full"
    using assms(3) by (simp add: target_path_def)
  then show ?thesis
    by (simp add: resolve_spec [OF assms(1)] t(1) rel_text_inside) (simp add: t(3))
qed

theorem resolve_again_witness:
  "resolve [''home''] \<lparr>ws_root = ''/w'', ws_sensitive = []\<rparr> ''a/b'' = Inr ([''w'', ''a'', ''b''], ''a/b'')"
proof -
  have "clean_path [''home'']" by (simp add: good_comp_def)
  moreover have "resolve [''home''] \<lparr>ws_root = ''/w'', ws_sensitive = []\<rparr> ''/w/./a//b/c/..'' = Inr ([''w'', ''a'', ''b''], ''a/b'')"
    by code_simp
  ultimately show ?thesis using resolve_again by (fastforce simp: trim_space_def trim_chars_def is_space_def)
qed

end
