(* ===== verification/Go_Outcome.thy ===== *)
theory Go_Outcome
  imports Prelude "HOL-Library.Monad_Syntax"
begin

text \<open>
  Outcomes of Go functions that can also panic, and the wrap-around of Go's 64-bit \<open>int\<close>.
\<close>

section \<open>Outcomes\<close>

datatype 'a go = Ret 'a | Fail go_error | Panic

definition go_bind :: "'a go \<Rightarrow> ('a \<Rightarrow> 'b go) \<Rightarrow> 'b go" where
  "go_bind m f = (case m of Ret a \<Rightarrow> f a | Fail e \<Rightarrow> Fail e | Panic \<Rightarrow> Panic)"

lemma go_bind_simps [simp]:
  "go_bind (Ret a) f = f a" "go_bind (Fail e) f = Fail e" "go_bind Panic f = Panic"
  by (simp_all add: go_bind_def)

lemma go_bind_Ret_iff: "go_bind m f = Ret b \<longleftrightarrow> (\<exists>a. m = Ret a \<and> f a = Ret b)"
  by (cases m) simp_all

lemma go_bind_Panic_iff: "go_bind m f = Panic \<longleftrightarrow> m = Panic \<or> (\<exists>a. m = Ret a \<and> f a = Panic)"
  by (cases m) simp_all

lemma go_bind_Fail_iff: "go_bind m f = Fail e \<longleftrightarrow> m = Fail e \<or> (\<exists>a. m = Ret a \<and> f a = Fail e)"
  by (cases m) simp_all

fun go_of_res :: "'a res \<Rightarrow> 'a go" where
  "go_of_res (Inl e) = Fail e"
| "go_of_res (Inr a) = Ret a"

section \<open>Machine integers\<close>

definition max_int :: int where
  "max_int = 9223372036854775807"

definition wrap64 :: "int \<Rightarrow> int" where
  "wrap64 x = (x + 9223372036854775808) mod 18446744073709551616 - 9223372036854775808"

lemma wrap64_id [simp]: "- max_int \<le> x \<Longrightarrow> x \<le> max_int \<Longrightarrow> wrap64 x = x"
  by (simp add: wrap64_def max_int_def)

section \<open>Decimal numbers read back\<close>

definition is_digit :: "char \<Rightarrow> bool" where
  "is_digit c \<longleftrightarrow> CHR ''0'' \<le> c \<and> c \<le> CHR ''9''"

definition digit_val :: "char \<Rightarrow> nat" where
  "digit_val c = of_char c - 48"

definition nat_of_digits :: "string \<Rightarrow> nat" where
  "nat_of_digits s = foldl (\<lambda>n c. 10 * n + digit_val c) 0 s"

text \<open>\<open>n, _ := strconv.Atoi(s)\<close> on a string of digits: beyond the range the value is the largest \<open>int\<close>.\<close>

definition atoi :: "string \<Rightarrow> int" where
  "atoi s = min (int (nat_of_digits s)) max_int"

lemma of_char_digit: "d < 10 \<Longrightarrow> of_char (digit_char d) = 48 + d"
  by (simp add: digit_char_def)

lemma digit_char_facts [simp]:
  "d < 10 \<Longrightarrow> is_digit (digit_char d)" "d < 10 \<Longrightarrow> digit_val (digit_char d) = d"
  using of_char_digit [of d] by (simp_all add: is_digit_def digit_val_def less_eq_char_def)

lemma nat_of_digits_snoc [simp]: "nat_of_digits (s @ [c]) = 10 * nat_of_digits s + digit_val c"
  by (simp add: nat_of_digits_def)

lemma show_nat_digits: "show_nat n \<noteq> [] \<and> list_all is_digit (show_nat n) \<and> nat_of_digits (show_nat n) = n"
proof (induction n rule: show_nat.induct)
  case (1 n)
  show ?case
  proof (cases "n < 10")
    case True
    then show ?thesis by (simp add: show_nat.simps [of n] nat_of_digits_def)
  next
    case False
    with 1 show ?thesis by (simp add: show_nat.simps [of n])
  qed
qed

lemma atoi_show_nat: "int n \<le> max_int \<Longrightarrow> atoi (show_nat n) = int n"
  by (simp add: atoi_def show_nat_digits)

end
