(* ===== verification/Go_Text.thy ===== *)
theory Go_Text
  imports Planner_Words Ops_Rollback Workspace_Paths Go_Outcome
begin

text \<open>
  More of Go's text functions, as the planners use them: runes of a UTF-8 string, \<open>strings.Trim\<close> with a set of
  runes, \<open>strings.ContainsAny\<close> over words, \<open>fmt.Sprint\<close> of a dynamic value, and \<open>filepath.Clean\<close> of any path.
\<close>

section \<open>Runes\<close>

definition cont_byte :: "nat \<Rightarrow> bool" where
  "cont_byte b \<longleftrightarrow> b div 64 = 2"

text \<open>\<open>for _, r := range s\<close>: an invalid byte counts as one rune U+FFFD.\<close>

fun runes_of :: "nat list \<Rightarrow> nat list" where
  "runes_of [] = []"
| "runes_of (a # s) =
     (if a < 128 then a # runes_of s
      else case s of
        b # t \<Rightarrow>
          if 194 \<le> a \<and> a < 224 \<and> cont_byte b then (a mod 32 * 64 + b mod 64) # runes_of t
          else (case t of
            c # u \<Rightarrow>
              if 224 \<le> a \<and> a < 240 \<and> cont_byte b \<and> cont_byte c \<and> (a = 224 \<longrightarrow> 160 \<le> b) \<and> (a = 237 \<longrightarrow> b < 160)
              then (a mod 16 * 4096 + b mod 64 * 64 + c mod 64) # runes_of u
              else (case u of
                d # v \<Rightarrow>
                  if 240 \<le> a \<and> a < 245 \<and> cont_byte b \<and> cont_byte c \<and> cont_byte d \<and> (a = 240 \<longrightarrow> 144 \<le> b) \<and> (a = 244 \<longrightarrow> b < 144)
                  then (a mod 8 * 262144 + b mod 64 * 4096 + c mod 64 * 64 + d mod 64) # runes_of v
                  else 65533 # runes_of s
              | [] \<Rightarrow> 65533 # runes_of s)
          | [] \<Rightarrow> 65533 # runes_of s)
      | [] \<Rightarrow> [65533])"

definition runes :: "string \<Rightarrow> nat list" where
  "runes s = runes_of (map of_char s)"

text \<open>\<open>unicode.Han\<close>.\<close>

definition han_ranges :: "(nat \<times> nat) list" where
  "han_ranges =
     [(0x2E80, 0x2E99), (0x2E9B, 0x2EF3), (0x2F00, 0x2FD5), (0x3005, 0x3005), (0x3007, 0x3007), (0x3021, 0x3029),
      (0x3038, 0x303B), (0x3400, 0x4DBF), (0x4E00, 0x9FFF), (0xF900, 0xFA6D), (0xFA70, 0xFAD9), (0x16FE2, 0x16FE3),
      (0x16FF0, 0x16FF1), (0x20000, 0x2A6DF), (0x2A700, 0x2B739), (0x2B740, 0x2B81D), (0x2B820, 0x2CEA1),
      (0x2CEB0, 0x2EBE0), (0x2F800, 0x2FA1D), (0x30000, 0x3134A), (0x31350, 0x323AF)]"

definition is_han :: "nat \<Rightarrow> bool" where
  "is_han r \<longleftrightarrow> list_ex (\<lambda>(a, b). a \<le> r \<and> r \<le> b) han_ranges"

definition is_letter :: "nat \<Rightarrow> bool" where
  "is_letter r \<longleftrightarrow> 65 \<le> r \<and> r \<le> 90 \<or> 97 \<le> r \<and> r \<le> 122"

section \<open>Trimming and searching\<close>

text \<open>\<open>strings.Trim\<close> with a cutset of runes, each given by its bytes.\<close>

function strip_front :: "string list \<Rightarrow> string \<Rightarrow> string" where
  "strip_front toks s =
     (case find (\<lambda>t. t \<noteq> [] \<and> has_prefix s t) toks of
        None \<Rightarrow> s
      | Some t \<Rightarrow> strip_front toks (drop (length t) s))"
  by pat_completeness auto

termination
  by (relation "measure (\<lambda>(toks, s). length s)") (auto simp: find_Some_iff prefix_def)

declare strip_front.simps [simp del]

definition strip_runes :: "string list \<Rightarrow> string \<Rightarrow> string" where
  "strip_runes toks s = rev (strip_front (map rev toks) (rev (strip_front toks s)))"

definition contains_any :: "string \<Rightarrow> string list \<Rightarrow> bool" where
  "contains_any s words \<longleftrightarrow> list_ex (has_sub s) words"

text \<open>\<open>strings.LastIndex\<close> of a byte, with None for -1.\<close>

fun last_index :: "char \<Rightarrow> string \<Rightarrow> nat option" where
  "last_index c [] = None"
| "last_index c (x # s) =
     (case last_index c s of Some i \<Rightarrow> Some (Suc i) | None \<Rightarrow> if x = c then Some 0 else None)"

section \<open>Printing dynamic values\<close>

text \<open>\<open>fmt.Sprint\<close>. A float is printed without an exponent, and the address a function or channel prints is left
  out; both differ from Go's text only in characters that are not blank.\<close>

fun go_print :: "gval \<Rightarrow> string" where
  "go_print GNil = ''<nil>''"
| "go_print (GBool b) = (if b then ''true'' else ''false'')"
| "go_print (GInt i) = show_int i"
| "go_print (GFloat r) = json_num r"
| "go_print (GStr s) = s"
| "go_print (GStrs xs) = ''['' @ join '' '' xs @ '']''"
| "go_print (GList vs) = ''['' @ join '' '' (map go_print vs) @ '']''"
| "go_print (GMap kvs) =
     ''map['' @ join '' '' (map (\<lambda>(k, t). k @ '':'' @ t) (key_sorted (map (\<lambda>(k, v). (k, go_print v)) kvs))) @ '']''"
| "go_print (GMaps ms) =
     ''['' @ join '' '' (map (\<lambda>m. ''map['' @ join '' '' (map (\<lambda>(k, t). k @ '':'' @ t)
        (key_sorted (map (\<lambda>(k, v). (k, go_print v)) m))) @ '']'') ms) @ '']''"
| "go_print (GStruct kvs) = ''{'' @ join '' '' (map (\<lambda>(k, v). go_print v) kvs) @ ''}''"
| "go_print GOpaque = ''0x''"

text \<open>\<open>fmt.Sprint(m[key])\<close>: a missing key prints as nil does.\<close>

definition print_at :: "gmap \<Rightarrow> string \<Rightarrow> string" where
  "print_at m k = (case map_of m k of None \<Rightarrow> ''<nil>'' | Some v \<Rightarrow> go_print v)"

section \<open>Cleaning any path\<close>

definition clean_step :: "bool \<Rightarrow> path \<Rightarrow> string \<Rightarrow> path" where
  "clean_step rooted acc c =
     (if c = [] \<or> c = ''.'' then acc
      else if c = ''..'' then
        (if acc \<noteq> [] \<and> last acc \<noteq> ''..'' then butlast acc else if rooted then acc else acc @ [c])
      else acc @ [c])"

definition go_clean :: "string \<Rightarrow> string" where
  "go_clean p =
     (let cs = foldl (clean_step (is_abs p)) [] (split_on (CHR ''/'') p)
      in if is_abs p then path_text cs else if cs = [] then ''.'' else join ''/'' cs)"

end
