(* ===== verification/Planner_Normalize.thy ===== *)
theory Planner_Normalize
  imports Go_Text Redaction
begin

text \<open>
  \<open>internal/agent/planner/normalize\<close> and \<open>intent\<close>: the slots read off a request by its structure (workspace, quoted
  texts, files, URLs, ids, numbers, an explicit tool id) and the classification they give.
\<close>

section \<open>Requests\<close>

record norm_request =
  nq_original :: string
  nq_text :: string
  nq_languages :: "string list"
  nq_workspace :: string
  nq_quoted :: "string list"
  nq_files :: "string list"
  nq_urls :: "string list"
  nq_host :: string
  nq_kb :: string
  nq_run :: string
  nq_approval :: string
  nq_tool :: string
  nq_numbers :: "string list"
  nq_domains :: "string list"
  nq_intents :: "string list"
  nq_signals :: "string list"
  nq_metadata :: gmap

section \<open>Tokens\<close>

definition token_runes :: "string list" where
  "token_runes = map (\<lambda>c. [c]) [CHR 0x60, CHR 0x27, CHR 0x22, CHR '','', CHR '';'', CHR '':''] @ name_quotes @ [zh_colon]"

definition trim_token :: "string \<Rightarrow> string" where
  "trim_token = strip_runes token_runes"

definition clean_uniq :: "string list \<Rightarrow> string list" where
  "clean_uniq xs = rev (foldl (\<lambda>out x. let t = trim_space x in if t = [] \<or> t \<in> set out then out else t # out) [] xs)"

text \<open>The first marker that gives an answer, in a field and the field after it.\<close>

definition id_of_field :: "string \<Rightarrow> string option \<Rightarrow> string \<Rightarrow> string option" where
  "id_of_field lower succ marker =
     (let m = to_lower (trim_space marker) in
      case (if lower = m then succ else None) of
        Some s \<Rightarrow> Some (trim_token s)
      | None \<Rightarrow> map_option (\<lambda>sep. drop (length (m @ sep)) lower)
          (find (\<lambda>sep. has_prefix lower (m @ sep)) ['':'', zh_colon, ''='']))"

fun first_some :: "('a \<Rightarrow> 'b option) \<Rightarrow> 'a list \<Rightarrow> 'b option" where
  "first_some f [] = None"
| "first_some f (x # xs) = (case f x of Some y \<Rightarrow> Some y | None \<Rightarrow> first_some f xs)"

fun id_in_fields :: "string list \<Rightarrow> string list \<Rightarrow> string" where
  "id_in_fields markers [] = []"
| "id_in_fields markers (f # fs) =
     (case first_some (id_of_field (to_lower (trim_token f)) (case fs of [] \<Rightarrow> None | g # _ \<Rightarrow> Some g)) markers of
        Some x \<Rightarrow> x
      | None \<Rightarrow> id_in_fields markers fs)"

definition extract_id :: "string \<Rightarrow> string list \<Rightarrow> string" where
  "extract_id s markers = id_in_fields markers (str_fields s)"

section \<open>Workspace and files\<close>

definition workspace_markers :: "string list" where
  "workspace_markers = [''workspace:'', ''workspace'' @ zh_colon, ''workspace='', zh_workspace @ '':'', zh_workspace @ zh_colon, zh_workspace @ ''='']"

text \<open>The loop over the markers: Some ends the function, None goes on to the fields. A marker with nothing after
  it ends the loop.\<close>

fun workspace_after :: "string \<Rightarrow> string list \<Rightarrow> string option" where
  "workspace_after s [] = None"
| "workspace_after s (m # ms) =
     (case str_index (to_lower s) (to_lower m) of
        None \<Rightarrow> workspace_after s ms
      | Some i \<Rightarrow>
          (case str_fields (trim_space (drop (i + length m) s)) of
             [] \<Rightarrow> None
           | f # _ \<Rightarrow> if trim_token f \<noteq> [] then Some (trim_token f) else workspace_after s ms))"

fun workspace_in_fields :: "string list \<Rightarrow> string" where
  "workspace_in_fields (f # g # fs) =
     (if to_lower (trim_token f) \<in> {''workspace'', zh_workspace} \<and> trim_token g \<noteq> [] then trim_token g
      else workspace_in_fields (g # fs))"
| "workspace_in_fields _ = []"

definition extract_workspace :: "string \<Rightarrow> string" where
  "extract_workspace s =
     (case workspace_after s workspace_markers of Some w \<Rightarrow> w | None \<Rightarrow> workspace_in_fields (str_fields s))"

function quoted_between :: "string \<Rightarrow> string \<Rightarrow> string \<Rightarrow> string list" where
  "quoted_between a b s =
     (if a = [] \<or> b = [] then []
      else case str_index s a of
        None \<Rightarrow> []
      | Some i \<Rightarrow>
          let r = drop (i + length a) s in
          (case str_index r b of
             None \<Rightarrow> []
           | Some j \<Rightarrow>
               (let t = trim_space (take j r) in if t \<noteq> [] then [t] else []) @ quoted_between a b (drop (j + length b) r)))"
  by pat_completeness auto

fun pairs_of :: "'a list \<Rightarrow> ('a \<times> 'a) list" where
  "pairs_of (a # b # xs) = (a, b) # pairs_of xs"
| "pairs_of _ = []"

definition quote_pairs :: "(string \<times> string) list" where
  "quote_pairs = map (\<lambda>c. ([c], [c])) [CHR 0x60, CHR 0x22, CHR 0x27] @ pairs_of quote_pairs_zh"

lemma str_index_less: "str_index s a = Some i \<Longrightarrow> i + length a \<le> length s"
  by (induction s a arbitrary: i rule: str_index.induct) (auto split: if_splits dest: prefix_length_le)

termination quoted_between
  by (relation "measure (\<lambda>(a, b, s). length s)") (auto dest!: str_index_less simp flip: length_greater_0_conv)

declare quoted_between.simps [simp del]

definition extract_quoted :: "string \<Rightarrow> string list" where
  "extract_quoted s = clean_uniq (concat (map (\<lambda>(a, b). quoted_between a b s) quote_pairs))"

text \<open>\<open>filepath.Ext(filepath.Base(v))\<close> is at least a dot and one more byte.\<close>

definition has_ext :: "string \<Rightarrow> bool" where
  "has_ext v =
     (let base = file_base v in
      case last_index CHR ''.'' base of None \<Rightarrow> False | Some i \<Rightarrow> i + 1 < length base)"

definition looks_like_file :: "string \<Rightarrow> bool" where
  "looks_like_file v =
     (let v = trim_space v in v \<noteq> [] \<and> (list_ex (\<lambda>c. c = CHR ''/'' \<or> c = CHR 0x5C) v \<or> has_ext v))"

definition join_workspace_path :: "string \<Rightarrow> string \<Rightarrow> string" where
  "join_workspace_path ws p =
     (let ws = trim_space ws; p = trim_space p in
      if p = [] then []
      else if is_abs p \<or> ws = [] \<or> ws = ''.'' then go_clean p
      else go_clean (ws @ ''/'' @ p))"

definition possible_files :: "string \<Rightarrow> string list \<Rightarrow> string list" where
  "possible_files ws quoted = clean_uniq (map (join_workspace_path ws) (filter looks_like_file quoted))"

section \<open>URLs, numbers and tool ids\<close>

definition url_stop :: "string \<Rightarrow> bool" where
  "url_stop s =
     (case s of
        [] \<Rightarrow> True
      | c # _ \<Rightarrow> c \<in> {CHR 0x09, CHR 0x0A, CHR 0x0C, CHR 0x0D, CHR '' '', CHR 0x22, CHR 0x27, CHR ''<'', CHR ''>'', CHR 0x60} \<or>
                has_prefix s zh_comma \<or> has_prefix s zh_full_stop)"

fun url_body :: "string \<Rightarrow> string" where
  "url_body [] = []"
| "url_body (c # s) = (if url_stop (c # s) then [] else c # url_body s)"

definition url_at :: "string \<Rightarrow> string option" where
  "url_at s =
     (case find (has_prefix s) [''https://'', ''http://''] of
        Some p \<Rightarrow> let b = url_body (drop (length p) s) in if b = [] then None else Some (p @ b)
      | None \<Rightarrow> None)"

text \<open>\<open>FindAllString\<close>: the first argument counts the bytes of the last match still to be skipped.\<close>

fun find_urls :: "nat \<Rightarrow> string \<Rightarrow> string list" where
  "find_urls k [] = []"
| "find_urls (Suc k) (c # s) = find_urls k s"
| "find_urls 0 (c # s) =
     (case url_at (c # s) of Some u \<Rightarrow> u # find_urls (length u - 1) s | None \<Rightarrow> find_urls 0 s)"

definition extract_urls :: "string \<Rightarrow> string list" where
  "extract_urls s = clean_uniq (map trim_token (find_urls 0 s))"

definition number_re :: regex where
  "number_re =
     re_seq [re_opt (RSet False [(CHR ''-'', CHR ''-''), (CHR ''+'', CHR ''+'')]),
             re_plus (RSet False [(CHR ''0'', CHR ''9'')]),
             re_opt (re_seq [lit ''.'', re_plus (RSet False [(CHR ''0'', CHR ''9'')])])]"

definition extract_numbers :: "string \<Rightarrow> string list" where
  "extract_numbers s = clean_uniq (map (span s) (re_spans number_re s))"

definition id_part :: "string \<Rightarrow> bool" where
  "id_part p =
     (case p of
        [] \<Rightarrow> False
      | c # r \<Rightarrow> CHR ''a'' \<le> c \<and> c \<le> CHR ''z'' \<and>
          list_all (\<lambda>x. CHR ''a'' \<le> x \<and> x \<le> CHR ''z'' \<or> CHR ''0'' \<le> x \<and> x \<le> CHR ''9'' \<or> x = CHR ''_'') r)"

definition is_tool_id :: "string \<Rightarrow> bool" where
  "is_tool_id v = (let ps = split_on (CHR ''.'') (trim_space v) in 2 \<le> length ps \<and> list_all id_part ps)"

definition tool_of_field :: "string \<Rightarrow> string option \<Rightarrow> string \<Rightarrow> string option" where
  "tool_of_field raw succ marker =
     (let lower = to_lower raw in
      case first_some (\<lambda>sep.
          if has_prefix lower (marker @ sep) \<and> is_tool_id (trim_space (drop (length (marker @ sep)) raw))
          then Some (trim_space (drop (length (marker @ sep)) raw)) else None) ['':'', zh_colon, ''=''] of
        Some x \<Rightarrow> Some x
      | None \<Rightarrow>
          (case succ of
             Some g \<Rightarrow> if lower = marker \<and> is_tool_id (trim_token g) then Some (trim_token g) else None
           | None \<Rightarrow> None))"

fun tool_in_fields :: "string list \<Rightarrow> string" where
  "tool_in_fields [] = []"
| "tool_in_fields (f # fs) =
     (case first_some (tool_of_field (trim_token f) (case fs of [] \<Rightarrow> None | g # _ \<Rightarrow> Some g)) [''tool_id'', ''tool'', zh_tool] of
        Some x \<Rightarrow> x
      | None \<Rightarrow> tool_in_fields fs)"

definition extract_tool_id :: "string \<Rightarrow> string" where
  "extract_tool_id s = tool_in_fields (str_fields s)"

section \<open>Normalising\<close>

definition language_hints :: "string \<Rightarrow> string list" where
  "language_hints s =
     (let rs = runes s
      in (if list_ex is_han rs then [''zh''] else []) @
         (if list_ex (\<lambda>r. \<not> is_han r \<and> is_letter r) rs then [''en''] else []))"

definition signals_for :: "norm_request \<Rightarrow> string list" where
  "signals_for q =
     clean_uniq
      ((if nq_workspace q \<noteq> [] then [''has_workspace''] else []) @
       (if nq_quoted q \<noteq> [] then [''has_quoted_text''] else []) @
       (if nq_files q \<noteq> [] then [''has_possible_file'', ''has_file_path''] else []) @
       (if nq_urls q \<noteq> [] then [''has_url''] else []) @
       (if nq_host q \<noteq> [] then [''has_host_id''] else []) @
       (if nq_kb q \<noteq> [] then [''has_kb_id''] else []) @
       (if nq_run q \<noteq> [] then [''has_run_id''] else []) @
       (if nq_approval q \<noteq> [] then [''has_approval_id''] else []) @
       (if nq_tool q \<noteq> [] then [''has_explicit_tool_id''] else []) @
       (if nq_numbers q \<noteq> [] then [''has_number''] else []))"

definition normalize :: "string \<Rightarrow> norm_request" where
  "normalize message =
     (let s = trim_space message; quoted = extract_quoted s; ws = extract_workspace s;
          files = possible_files ws quoted;
          q = \<lparr>nq_original = s, nq_text = to_lower s, nq_languages = language_hints s, nq_workspace = ws,
               nq_quoted = quoted, nq_files = files, nq_urls = extract_urls s,
               nq_host = extract_id s [''host_id'', ''host'', zh_host],
               nq_kb = extract_id s [''kb_id'', ''kbid'', ''kb'', zh_kb],
               nq_run = extract_id s [''run_id'', ''run''],
               nq_approval = extract_id s [''approval_id'', ''approval'', zh_approval],
               nq_tool = extract_tool_id s, nq_numbers = extract_numbers s,
               nq_domains = [], nq_intents = [], nq_signals = [],
               nq_metadata = (if files \<noteq> [] then [(''target'', GStr ''file'')] else []) @
                             (if ws \<noteq> [] then [(''workspace_present'', GBool True)] else [])\<rparr>
      in q\<lparr>nq_signals := signals_for q\<rparr>)"

section \<open>Classifying\<close>

record intent_class =
  ic_domain :: string
  ic_intent :: string
  ic_confidence :: rat
  ic_signals :: "string list"
  ic_need_tool :: bool
  ic_need_clarify :: bool
  ic_reason :: string

definition tool_intent :: "string \<Rightarrow> string \<Rightarrow> rat \<Rightarrow> string list \<Rightarrow> string \<Rightarrow> intent_class" where
  "tool_intent d i conf signals reason =
     \<lparr>ic_domain = d, ic_intent = i, ic_confidence = conf, ic_signals = signals, ic_need_tool = True,
      ic_need_clarify = False, ic_reason = reason\<rparr>"

definition classify_request :: "norm_request \<Rightarrow> intent_class" where
  "classify_request q =
     (let chat = \<lparr>ic_domain = ''chat'', ic_intent = ''answer'', ic_confidence = 4/10, ic_signals = nq_signals q,
                  ic_need_tool = False, ic_need_clarify = False, ic_reason = ''no structural tool slot''\<rparr>;
          t = (\<lambda>d i conf. tool_intent d i conf (nq_signals q))
      in
      if trim_space (nq_original q) = [] then chat\<lparr>ic_confidence := 9/10, ic_reason := ''empty request''\<rparr>
      else if nq_tool q \<noteq> [] then t ''chat'' ''explicit_tool'' (95/100) ''explicit tool id slot''
      else if nq_approval q \<noteq> [] then t ''approval'' ''approval'' (85/100) ''approval id slot''
      else if nq_run q \<noteq> [] then t ''run'' ''run'' (85/100) ''run id slot''
      else if nq_kb q \<noteq> [] then t ''rag'' ''knowledge'' (82/100) ''kb id slot''
      else if nq_host q \<noteq> [] then t ''ops'' ''host_scoped'' (82/100) ''host id slot''
      else if nq_files q \<noteq> [] \<or> nq_workspace q \<noteq> [] then t ''code'' ''workspace_scoped'' (78/100) ''workspace or file slot''
      else if nq_urls q \<noteq> [] then t ''chat'' ''url_scoped'' (65/100) ''url slot''
      else chat)"

end
