(* ===== verification/Policy_Config.thy ===== *)
theory Policy_Config
  imports Core_Types
begin

text \<open>
  The policy part of \<open>internal/config/config.go\<close>: the profile and configuration records, the built-in
  profiles and \<open>NormalizePolicy\<close>. A confidence threshold is a rational; a profile map is an
  association list. \<open>NormalizePolicy\<close> visits a Go map in an order the language leaves open; every
  visit touches its own key only, so the list's order is as good as any.
\<close>

record policy_profile =
  pp_name :: string
  pp_description :: string
  pp_readonly :: bool
  pp_approval_for :: "string list"
  pp_deny :: "string list"
  pp_min_conf :: rat

record network_policy =
  np_deny_private :: bool
  np_deny_metadata :: bool
  np_allowed :: "string list"
  np_denied :: "string list"
  np_methods :: "string list"
  np_max_bytes :: int

record policy_config =
  pc_min_conf :: rat
  pc_sensitive :: "string list"
  pc_active :: string
  pc_profiles :: "(string \<times> policy_profile) list"
  pc_network :: network_policy

definition default_policy_profiles :: "(string \<times> policy_profile) list" where
  "default_policy_profiles =
     [(''default'',
       \<lparr>pp_name = ''default'', pp_description = ''Default local development policy'', pp_readonly = True,
        pp_approval_for = [''sensitive_read'', ''fs.write'', ''code.modify'', ''git.write'',
          ''service.restart'', ''process.kill'', ''network.post'', ''network.put'', ''network.patch'',
          ''network.delete'', ''unknown.effect''],
        pp_deny = [], pp_min_conf = 75/100\<rparr>),
      (''strict'',
       \<lparr>pp_name = ''strict'', pp_description = ''Strict mode, all tool calls require approval'',
        pp_readonly = False, pp_approval_for = [''*''], pp_deny = [], pp_min_conf = 95/100\<rparr>),
      (''developer'',
       \<lparr>pp_name = ''developer'', pp_description = ''Developer mode for local code tasks'', pp_readonly = True,
        pp_approval_for = [''sensitive_read'', ''fs.write'', ''code.modify'', ''git.write'',
          ''package.install'', ''unknown.effect''],
        pp_deny = [], pp_min_conf = 75/100\<rparr>),
      (''ops'',
       \<lparr>pp_name = ''ops'', pp_description = ''Operations mode for local and remote diagnostics'',
        pp_readonly = True,
        pp_approval_for = [''service.restart'', ''service.stop'', ''process.kill'', ''deployment.apply'',
          ''k8s.apply'', ''k8s.delete'', ''docker.restart'', ''fs.write'', ''network.write'', ''unknown.effect''],
        pp_deny = [], pp_min_conf = 8/10\<rparr>),
      (''offline'',
       \<lparr>pp_name = ''offline'', pp_description = ''Offline mode forbids network writes and remote calls'',
        pp_readonly = True,
        pp_approval_for = [''sensitive_read'', ''fs.write'', ''code.modify'', ''git.write'', ''unknown.effect''],
        pp_deny = [''network.post'', ''network.put'', ''network.patch'', ''network.delete'', ''webhook.call'',
          ''email.send'', ''mcp.remote.call''],
        pp_min_conf = 8/10\<rparr>)]"

definition default_network :: network_policy where
  "default_network =
     \<lparr>np_deny_private = True, np_deny_metadata = True, np_allowed = [], np_denied = [''*.internal''],
      np_methods = [''POST'', ''PUT'', ''PATCH'', ''DELETE''], np_max_bytes = 10485760\<rparr>"

definition default_policy :: policy_config where
  "default_policy =
     \<lparr>pc_min_conf = 85/100,
      pc_sensitive = [''.env'', ''.env.local'', ''id_rsa'', ''id_ed25519'', ''credentials'', ''cookies'', ''session''],
      pc_active = ''default'', pc_profiles = default_policy_profiles, pc_network = default_network\<rparr>"

definition normalize_profile :: "rat \<Rightarrow> string \<Rightarrow> policy_profile \<Rightarrow> policy_profile" where
  "normalize_profile conf name p =
     p\<lparr>pp_name := (if pp_name p = [] then name else pp_name p),
       pp_min_conf := (if pp_min_conf p \<le> 0 then conf else pp_min_conf p)\<rparr>"

definition normalize_network :: "network_policy \<Rightarrow> network_policy" where
  "normalize_network n =
     (let n = (if np_max_bytes n \<le> 0 then default_network else n)
      in if np_methods n = [] then n\<lparr>np_methods := [''POST'', ''PUT'', ''PATCH'', ''DELETE'']\<rparr> else n)"

definition normalize_policy :: "policy_config \<Rightarrow> policy_config" where
  "normalize_policy c =
     (let conf = (if pc_min_conf c \<le> 0 then pc_min_conf default_policy else pc_min_conf c);
          active = (if pc_active c = [] then ''default'' else pc_active c);
          profiles = (if pc_profiles c = [] then default_policy_profiles else pc_profiles c)
      in c\<lparr>pc_min_conf := conf, pc_active := active,
           pc_profiles := map (\<lambda>(name, p). (name, normalize_profile conf name p)) profiles,
           pc_network := normalize_network (pc_network c)\<rparr>)"

section \<open>Properties\<close>

lemma normalize_profile_idem [simp]:
  "0 < conf \<Longrightarrow> normalize_profile conf n (normalize_profile conf n p) = normalize_profile conf n p"
  by (simp add: normalize_profile_def)

lemma normalize_network_idem [simp]: "normalize_network (normalize_network n) = normalize_network n"
  by (simp add: normalize_network_def default_network_def Let_def)

lemma default_policy_facts [simp]: "0 < pc_min_conf default_policy" "default_policy_profiles \<noteq> []"
  by (simp_all add: default_policy_def default_policy_profiles_def)

lemma normalize_policy_fields [simp]:
  "pc_min_conf (normalize_policy c) =
     (if pc_min_conf c \<le> 0 then pc_min_conf default_policy else pc_min_conf c)"
  "pc_active (normalize_policy c) = (if pc_active c = [] then ''default'' else pc_active c)"
  "pc_profiles (normalize_policy c) =
     map (\<lambda>(n, p). (n, normalize_profile (pc_min_conf (normalize_policy c)) n p))
       (if pc_profiles c = [] then default_policy_profiles else pc_profiles c)"
  "pc_network (normalize_policy c) = normalize_network (pc_network c)"
  "pc_sensitive (normalize_policy c) = pc_sensitive c"
  by (simp_all add: normalize_policy_def Let_def)

declare normalize_policy_fields(3) [simp del]

lemma normalize_conf_pos: "0 < pc_min_conf (normalize_policy c)"
  by simp

lemma normalize_profiles_pos:
  "(n, p) \<in> set (pc_profiles (normalize_policy c)) \<Longrightarrow> 0 < pp_min_conf p"
  using normalize_conf_pos [of c]
  by (auto simp: normalize_policy_fields(3) normalize_profile_def simp del: normalize_policy_fields(1))

lemma normalize_lookup_pos:
  "map_of (pc_profiles (normalize_policy c)) n = Some p \<Longrightarrow> 0 < pp_min_conf p"
  by (auto dest: map_of_SomeD normalize_profiles_pos)

lemma normalize_profiles_not_Nil: "pc_profiles (normalize_policy c) \<noteq> []"
  by (simp add: normalize_policy_fields(3))

lemma normalize_profiles_idem:
  "pc_profiles (normalize_policy (normalize_policy c)) = pc_profiles (normalize_policy c)"
proof -
  let ?k = "pc_min_conf (normalize_policy c)"
  have k: "pc_min_conf (normalize_policy (normalize_policy c)) = ?k"
    using normalize_conf_pos [of c] by (subst normalize_policy_fields(1)) simp
  have "pc_profiles (normalize_policy (normalize_policy c)) =
      map (\<lambda>(n, p). (n, normalize_profile ?k n p)) (pc_profiles (normalize_policy c))"
    by (subst normalize_policy_fields(3)) (simp only: k normalize_profiles_not_Nil if_False)
  also have "\<dots> = pc_profiles (normalize_policy c)"
    using normalize_profile_idem [OF normalize_conf_pos, of c]
    by (simp only: normalize_policy_fields(3) map_map comp_def case_prod_unfold fst_conv snd_conv)
  finally show ?thesis .
qed

text \<open>Normalising a policy twice changes nothing more, and every profile of a normalised policy
  has a positive confidence threshold, so the comparison that guards auto-execution is never vacuous.\<close>

theorem normalize_policy_idem:
  "normalize_policy (normalize_policy c) = normalize_policy c \<and>
   list_all (\<lambda>(n, p). 0 < pp_min_conf p) (pc_profiles (normalize_policy c)) \<and>
   pc_profiles (normalize_policy c) \<noteq> []"
proof (intro conjI)
  show "normalize_policy (normalize_policy c) = normalize_policy c"
    by (rule policy_config.equality) (simp_all add: normalize_profiles_idem)
  show "list_all (\<lambda>(n, p). 0 < pp_min_conf p) (pc_profiles (normalize_policy c))"
    by (auto simp: list_all_iff dest: normalize_profiles_pos)
  show "pc_profiles (normalize_policy c) \<noteq> []"
    by (rule normalize_profiles_not_Nil)
qed

end
