(* ===== verification/Shell_Parser.thy ===== *)
theory Shell_Parser
  imports Prelude
begin

text \<open>
  The structural analysis of a shell command, \<open>internal/tools/shell/parser.go\<close>: \<open>tokenize\<close> scans
  bytes with two quote flags, \<open>ParseStructure\<close> folds the tokens into pipe segments, redirect
  targets and possible file targets. Nothing is executed.
\<close>

section \<open>Data\<close>

record command_segment =
  seg_raw :: string
  seg_name :: string
  seg_args :: "string list"
  seg_redirects :: "string list"

record command_structure =
  cs_command :: string
  cs_segments :: "command_segment list"
  cs_pipeline :: bool
  cs_write :: bool
  cs_redirect_targets :: "string list"
  cs_file_targets :: "string list"

section \<open>Tokens\<close>

definition flush_token :: "string \<Rightarrow> string list \<Rightarrow> string list" where
  "flush_token cur ts = (if cur = [] then ts else cur # ts)"

text \<open>\<open>tok inSingle inDouble current rest\<close>: the tokens still to come.\<close>

fun tok :: "bool \<Rightarrow> bool \<Rightarrow> string \<Rightarrow> string \<Rightarrow> string list" where
  "tok s d cur [] = flush_token cur []"
| "tok s d cur (c # cs) =
     (if c = CHR 0x27 \<and> \<not> d then tok (\<not> s) d cur cs
      else if c = CHR 0x22 \<and> \<not> s then tok s (\<not> d) cur cs
      else if s \<or> d then tok s d (cur @ [c]) cs
      else if c = CHR '' '' \<or> c = CHR 0x09 \<or> c = CHR 0x0A then flush_token cur (tok s d [] cs)
      else if c = CHR ''|'' \<or> c = CHR ''<'' then flush_token cur ([c] # tok s d [] cs)
      else if c = CHR ''>'' then
        (if take 1 cs = ''>'' then flush_token cur (''>>'' # tok s d [] (drop 1 cs))
         else flush_token cur (''>'' # tok s d [] cs))
      else tok s d (cur @ [c]) cs)"

definition tokenize :: "string \<Rightarrow> string list" where
  "tokenize command = tok False False [] command"

definition is_path_like :: "string \<Rightarrow> bool" where
  "is_path_like token =
     (if token = [] \<or> has_prefix token ''-'' then False
      else has_sub token ''/'' \<or> has_sub token ''.'' \<or> has_prefix token ''~'')"

definition uniq_shell :: "string list \<Rightarrow> string list" where
  "uniq_shell items = uniq_from [] (filter (\<lambda>x. x \<noteq> []) items)"

section \<open>Structure\<close>

record parse_state =
  ps_segments :: "command_segment list"
  ps_current :: "string list"
  ps_redirects :: "string list"
  ps_targets :: "string list"
  ps_files :: "string list"
  ps_pipe :: bool
  ps_write :: bool

definition flush_segment :: "parse_state \<Rightarrow> parse_state" where
  "flush_segment st =
     (case ps_current st of
        [] \<Rightarrow> st
      | name # args \<Rightarrow>
          st\<lparr>ps_segments := ps_segments st @
               [\<lparr>seg_raw = join '' '' (name # args), seg_name = name, seg_args = args,
                 seg_redirects = ps_redirects st\<rparr>],
             ps_current := [], ps_redirects := []\<rparr>)"

definition parse_token :: "parse_state \<Rightarrow> string \<Rightarrow> string list \<Rightarrow> parse_state" where
  "parse_token st t rest =
     (if t = ''|'' then flush_segment (st\<lparr>ps_pipe := True\<rparr>)
      else if t = ''>'' \<or> t = ''>>'' then
        st\<lparr>ps_write := True, ps_redirects := ps_redirects st @ [t],
           ps_targets := ps_targets st @ take 1 rest, ps_files := ps_files st @ take 1 rest\<rparr>
      else if t = ''<'' then
        st\<lparr>ps_redirects := ps_redirects st @ [t], ps_files := ps_files st @ take 1 rest\<rparr>
      else
        st\<lparr>ps_current := ps_current st @ [t],
           ps_files := ps_files st @ (if is_path_like t then [t] else [])\<rparr>)"

fun parse_tokens :: "parse_state \<Rightarrow> string list \<Rightarrow> parse_state" where
  "parse_tokens st [] = flush_segment st"
| "parse_tokens st (t # ts) = parse_tokens (parse_token st t ts) ts"

definition parse_init :: parse_state where
  "parse_init = \<lparr>ps_segments = [], ps_current = [], ps_redirects = [], ps_targets = [],
     ps_files = [], ps_pipe = False, ps_write = False\<rparr>"

definition parse_structure :: "string \<Rightarrow> command_structure" where
  "parse_structure command =
     (let st = parse_tokens parse_init (tokenize command)
      in \<lparr>cs_command = command, cs_segments = ps_segments st, cs_pipeline = ps_pipe st,
          cs_write = ps_write st, cs_redirect_targets = uniq_shell (ps_targets st),
          cs_file_targets = uniq_shell (ps_files st)\<rparr>)"

section \<open>Tokens: shape and round trip\<close>

lemma set_flush_token: "x \<in> set (flush_token cur ts) \<longleftrightarrow> (x = cur \<and> cur \<noteq> []) \<or> x \<in> set ts"
  by (auto simp: flush_token_def)

lemma tok_nonempty: "[] \<notin> set (tok s d cur cs)"
proof (induction s d cur cs rule: tok.induct)
  case (1 s d cur)
  then show ?case by (simp add: set_flush_token)
next
  case (2 s d cur c cs)
  then show ?case by (simp add: set_flush_token split del: if_split cong: if_cong) (simp add: set_flush_token split: if_split)
qed

lemma tokenize_nonempty: "[] \<notin> set (tokenize command)"
  by (simp add: tokenize_def tok_nonempty)

text \<open>A character the scanner copies into the current token when no quote is open.\<close>

definition plain_char :: "char \<Rightarrow> bool" where
  "plain_char c \<longleftrightarrow> c \<notin> {CHR 0x27, CHR 0x22, CHR '' '', CHR 0x09, CHR 0x0A, CHR ''|'', CHR ''<'', CHR ''>''}"

definition plain_word :: "string \<Rightarrow> bool" where
  "plain_word w \<longleftrightarrow> w \<noteq> [] \<and> (\<forall>c \<in> set w. plain_char c)"

lemma tok_plain: "\<forall>c \<in> set w. plain_char c \<Longrightarrow> tok False False cur (w @ cs) = tok False False (cur @ w) cs"
  by (induction w arbitrary: cur) (auto simp: plain_char_def)

lemma tok_words:
  "\<forall>w \<in> set ws. plain_word w \<Longrightarrow> tok False False [] (join '' '' ws) = ws"
proof (induction "'' ''" ws rule: join.induct)
  case (2 x)
  then show ?case
    using tok_plain [of x "[]" "[]"] by (simp add: plain_word_def flush_token_def)
next
  case (3 x y ys)
  then have "tok False False [] (x @ '' '' @ join '' '' (y # ys)) = x # tok False False [] (join '' '' (y # ys))"
    using tok_plain [of x "[]" "'' '' @ join '' '' (y # ys)"]
    by (simp add: plain_word_def flush_token_def)
  with 3 show ?case by simp
qed (simp add: flush_token_def)

text \<open>Splitting undoes joining: words without quotes, blanks, pipes or redirects, joined by
  single spaces, are the tokens of the resulting command.\<close>

theorem tokenize_join:
  "\<forall>w \<in> set ws. plain_word w \<Longrightarrow> tokenize (join '' '' ws) = ws"
  unfolding tokenize_def by (rule tok_words)

theorem tokenize_join_witness: "tokenize ''go test ./...'' = [''go'', ''test'', ''./...'']"
  using tokenize_join [of "[''go'', ''test'', ''./...'']"]
  by (simp add: plain_word_def plain_char_def)

section \<open>Structure: what the fold collects\<close>

abbreviation write_op :: "string \<Rightarrow> bool" where
  "write_op t \<equiv> t = ''>'' \<or> t = ''>>''"

definition operator_token :: "string \<Rightarrow> bool" where
  "operator_token t \<longleftrightarrow> t \<in> {''|'', ''>'', ''>>'', ''<''}"

text \<open>The tokens that stand right after a token with the property \<open>P\<close>.\<close>

fun after :: "(string \<Rightarrow> bool) \<Rightarrow> string list \<Rightarrow> string list" where
  "after P (t # u # ts) = (if P t then [u] else []) @ after P (u # ts)"
| "after P ts = []"

lemma after_Cons: "after P (t # ts) = (if P t then take 1 ts else []) @ after P ts"
  by (cases ts) auto

lemma flush_segment_keeps [simp]:
  "ps_pipe (flush_segment st) = ps_pipe st" "ps_write (flush_segment st) = ps_write st"
  "ps_files (flush_segment st) = ps_files st" "ps_targets (flush_segment st) = ps_targets st"
  by (simp_all add: flush_segment_def split: list.splits)

lemma parse_tokens_flags:
  "ps_pipe (parse_tokens st ts) \<longleftrightarrow> ps_pipe st \<or> ''|'' \<in> set ts"
  "ps_write (parse_tokens st ts) \<longleftrightarrow> ps_write st \<or> (\<exists>t \<in> set ts. write_op t)"
  by (induction ts arbitrary: st) (auto simp: parse_token_def)

lemma parse_tokens_targets:
  "ps_targets (parse_tokens st ts) = ps_targets st @ after write_op ts"
  by (induction ts arbitrary: st) (auto simp: parse_token_def after_Cons)

lemma parse_tokens_files:
  "set (ps_files (parse_tokens st ts)) =
     set (ps_files st) \<union> set (after (\<lambda>t. write_op t \<or> t = ''<'') ts) \<union>
     {t \<in> set ts. \<not> operator_token t \<and> is_path_like t}"
  by (induction ts arbitrary: st) (auto simp: parse_token_def after_Cons operator_token_def)

lemma set_uniq_shell [simp]: "set (uniq_shell xs) = set xs - {[]}"
  by (auto simp: uniq_shell_def set_uniq_from)

lemma after_subset: "set (after P ts) \<subseteq> set ts"
  by (induction P ts rule: after.induct) auto

text \<open>The structure reports a write redirect exactly when a \<open>>\<close> or \<open>>>\<close> token occurs and a
  pipeline exactly when a \<open>|\<close> does; its redirect targets are the tokens after a write redirect and
  its file targets the tokens after any redirect together with the path-like words.\<close>

theorem parse_structure_complete:
  "cs_write (parse_structure c) = (\<exists>t \<in> set (tokenize c). write_op t) \<and>
   cs_pipeline (parse_structure c) = (''|'' \<in> set (tokenize c)) \<and>
   set (cs_redirect_targets (parse_structure c)) = set (after write_op (tokenize c)) \<and>
   set (cs_file_targets (parse_structure c)) =
     set (after (\<lambda>t. write_op t \<or> t = ''<'') (tokenize c)) \<union>
     {t \<in> set (tokenize c). \<not> operator_token t \<and> is_path_like t}"
  using after_subset [of _ "tokenize c"] tokenize_nonempty [of c]
  by (auto simp: parse_structure_def Let_def parse_tokens_flags parse_tokens_targets
      parse_tokens_files parse_init_def is_path_like_def)

text \<open>Every segment starts with its name, and the words of the segments are the words of the
  command in order.\<close>

definition seg_words :: "command_segment \<Rightarrow> string list" where
  "seg_words s = seg_name s # seg_args s"

lemma flush_segment_words:
  "concat (map seg_words (ps_segments (flush_segment st))) @ ps_current (flush_segment st) =
   concat (map seg_words (ps_segments st)) @ ps_current st"
  by (simp add: flush_segment_def seg_words_def split: list.splits)

lemma flush_segment_current [simp]: "ps_current (flush_segment st) = []"
  by (simp add: flush_segment_def split: list.splits)

lemma parse_tokens_words:
  "concat (map seg_words (ps_segments (parse_tokens st ts))) =
   concat (map seg_words (ps_segments st)) @ ps_current st @ filter (\<lambda>t. \<not> operator_token t) ts"
proof (induction ts arbitrary: st)
  case Nil
  then show ?case using flush_segment_words [of st] by simp
next
  case (Cons t ts)
  have "concat (map seg_words (ps_segments (parse_token st t ts))) @ ps_current (parse_token st t ts)
      = concat (map seg_words (ps_segments st)) @ ps_current st @ filter (\<lambda>t. \<not> operator_token t) [t]"
    using flush_segment_words [of "st\<lparr>ps_pipe := True\<rparr>"]
    by (auto simp: parse_token_def operator_token_def)
  then show ?case by (simp add: Cons.IH)
qed

lemma segments_words:
  "concat (map seg_words (cs_segments (parse_structure c))) =
   filter (\<lambda>t. \<not> operator_token t) (tokenize c)"
  using parse_tokens_words [of parse_init "tokenize c"]
  by (simp add: parse_structure_def Let_def parse_init_def)

lemma no_segments_iff:
  "cs_segments (parse_structure c) = [] \<longleftrightarrow> (\<forall>t \<in> set (tokenize c). operator_token t)"
proof -
  have "cs_segments (parse_structure c) = [] \<longleftrightarrow>
      concat (map seg_words (cs_segments (parse_structure c))) = []"
    by (auto simp: seg_words_def)
  then show ?thesis by (simp add: segments_words filter_empty_conv)
qed

end
