(* ===== verification/Effect_Inference.thy ===== *)
theory Effect_Inference
  imports Policy_Config Sensitive_Paths Shell_Parser
begin

text \<open>
  \<open>internal/agent/effect_inference.go\<close>: which effects, which risk and how much confidence a tool
  proposal carries. The skill and MCP registries are interfaces of the inferrer, so their lookups are
  fields of its record (None when the resolver is not installed); everything else is the source's
  tables and decision trees, one definition per method. A value of the static type
  \<open>map[string]string\<close> does not occur among the JSON-decoded \<open>files\<close> entries.
\<close>

record inferrer =
  ei_cfg :: policy_config
  ei_skills :: "(string \<Rightarrow> skill_policy res) option"
  ei_mcp :: "(string \<Rightarrow> string \<Rightarrow> mcp_policy res) option"

text \<open>A composite literal of the result type; \<open>Signals\<close> is never set by the inferrer.\<close>

definition mk_inf :: "string list \<Rightarrow> string \<Rightarrow> bool \<Rightarrow> bool \<Rightarrow> rat \<Rightarrow> string \<Rightarrow> inference" where
  "mk_inf effects risk sens appr conf reason =
     \<lparr>if_effects = effects, if_risk = risk, if_sensitive = sens, if_approval = appr,
      if_confidence = conf, if_reason = reason, if_signals = []\<rparr>"

lemma mk_inf_sel [simp]:
  "if_effects (mk_inf e r s a c x) = e" "if_risk (mk_inf e r s a c x) = r"
  "if_sensitive (mk_inf e r s a c x) = s" "if_approval (mk_inf e r s a c x) = a"
  "if_confidence (mk_inf e r s a c x) = c" "if_reason (mk_inf e r s a c x) = x"
  by (simp_all add: mk_inf_def)

section \<open>Tables\<close>

definition effect_requires_approval :: "string \<Rightarrow> bool" where
  "effect_requires_approval effect =
     (if effect = ''unknown.effect'' then True
      else if has_sub effect ''sensitive'' \<or> has_sub effect ''env_file'' then True
      else if has_sub effect ''write'' \<or> has_sub effect ''modify'' \<or> has_sub effect ''delete''
        \<or> has_sub effect ''install'' then True
      else if effect \<in> set [''network.post'', ''network.put'', ''network.patch'', ''network.delete''] then True
      else if has_sub effect ''restart'' \<or> has_sub effect ''stop'' \<or> has_sub effect ''kill''
        \<or> has_sub effect ''escalate'' then True
      else False)"

definition has_mutating_effect :: "string list \<Rightarrow> bool" where
  "has_mutating_effect effects = list_ex effect_requires_approval effects"

definition uniq :: "string list \<Rightarrow> string list" where
  "uniq items = uniq_from [] (filter (\<lambda>x. x \<noteq> []) items)"

definition min_confidence :: "rat \<Rightarrow> rat \<Rightarrow> rat" where
  "min_confidence current limit = (if current \<le> 0 \<or> limit < current then limit else current)"

definition input_bool :: "nmap \<Rightarrow> string \<Rightarrow> bool" where
  "input_bool input key = bool_at (nm input) key"

definition classify_git :: "string list \<Rightarrow> string list" where
  "classify_git args =
     (case args of
        [] \<Rightarrow> [''read'', ''git.read'']
      | a # _ \<Rightarrow>
          if a \<in> set [''status'', ''diff'', ''log'', ''show'', ''branch'', ''rev-parse'']
          then [''read'', ''git.read''] else [''git.write'', ''fs.write''])"

definition classify_package :: "string \<Rightarrow> string list \<Rightarrow> string list" where
  "classify_package command args =
     (case args of
        [] \<Rightarrow> [''read'', ''system.read'']
      | head # argv \<Rightarrow>
          if command = ''go'' then
            (if head = ''version'' \<or> head = ''env'' \<or> head = ''list'' then [''read'', ''system.read'']
             else if head = ''get'' \<or> (head = ''mod'' \<and> argv \<noteq> [] \<and> hd argv = ''tidy'')
             then [''package.install'', ''fs.write'']
             else [''read'', ''system.read''])
          else if command \<in> set [''npm'', ''pnpm'', ''yarn'', ''pip'', ''apt'', ''brew''] then
            (if ''install'' \<in> set args \<or> ''add'' \<in> set args \<or> ''upgrade'' \<in> set args \<or> ''remove'' \<in> set args
             then [''package.install'', ''fs.write''] else [''read'', ''system.read''])
          else [''read'', ''system.read''])"

fun network_method :: "string list \<Rightarrow> string list option" where
  "network_method (a # b # rest) =
     (let m = to_upper b in
      if a = ''-X'' \<and> m = ''POST'' then Some [''network.post'']
      else if a = ''-X'' \<and> m = ''PUT'' then Some [''network.put'']
      else if a = ''-X'' \<and> m = ''PATCH'' then Some [''network.patch'']
      else if a = ''-X'' \<and> m = ''DELETE'' then Some [''network.delete'']
      else network_method (b # rest))"
| "network_method _ = None"

definition classify_network :: "string list \<Rightarrow> string list" where
  "classify_network args =
     (case (if ''-X'' \<in> set args then network_method args else None) of
        Some effects \<Rightarrow> effects
      | None \<Rightarrow> [''read'', ''network.read''])"

definition classify_fs :: "string \<Rightarrow> string list" where
  "classify_fs command =
     (if command = ''rm'' then [''fs.delete'']
      else if command \<in> set [''mv'', ''cp'', ''tee'', ''touch'', ''mkdir''] then [''fs.write'', ''code.modify'']
      else [''fs.write''])"

section \<open>Paths a proposal names\<close>

definition diff_header_path :: "string \<Rightarrow> string list" where
  "diff_header_path line =
     (if \<not> has_prefix line ''+++ '' \<and> \<not> has_prefix line ''--- '' then []
      else
        let path = takeWhile (\<lambda>c. c \<noteq> CHR 0x09 \<and> c \<noteq> CHR '' '') (trim_space (drop 4 line)) in
        if path = ''/dev/null'' \<or> path = [] then []
        else [trim_prefix (trim_prefix path ''a/'') ''b/''])"

definition diff_path_inputs :: "string \<Rightarrow> string list" where
  "diff_path_inputs diff = concat (map diff_header_path (split_on CHR 0x0A diff))"

definition nonempty_str :: "gmap \<Rightarrow> string \<Rightarrow> string list" where
  "nonempty_str m k = (case str_opt m k of Some s \<Rightarrow> if s \<noteq> [] then [s] else [] | None \<Rightarrow> [])"

definition proposal_path_inputs :: "nmap \<Rightarrow> string list" where
  "proposal_path_inputs input =
     (let m = nm input in
      nonempty_str m ''path'' @ nonempty_str m ''workspace'' @
      (case map_of m ''files'' of
         Some (GList vs) \<Rightarrow> concat (map (\<lambda>v. case v of GMap f \<Rightarrow> nonempty_str f ''path'' | _ \<Rightarrow> []) vs)
       | Some (GMaps fs) \<Rightarrow> concat (map (\<lambda>f. nonempty_str f ''path'') fs)
       | _ \<Rightarrow> []) @
      (case str_opt m ''diff'' of
         Some d \<Rightarrow> if d \<noteq> [] then diff_path_inputs d else []
       | None \<Rightarrow> []))"

definition touches_sensitive :: "inferrer \<Rightarrow> tool_proposal \<Rightarrow> bool" where
  "touches_sensitive e p =
     list_ex (\<lambda>path. is_sensitive_path path (pc_sensitive (ei_cfg e))) (proposal_path_inputs (tp_input p))"

section \<open>Code, knowledge, memory and git tools\<close>

definition read_only_code :: "string \<Rightarrow> inference" where
  "read_only_code reason = mk_inf [''read'', ''code.read''] ''read'' False False (95/100) reason"

definition infer_code_read :: "inferrer \<Rightarrow> tool_proposal \<Rightarrow> inference" where
  "infer_code_read e p =
     (if touches_sensitive e p \<or> input_bool (tp_input p) ''include_sensitive''
      then mk_inf [''sensitive_read'', ''code.read''] ''sensitive'' True True (95/100)
             ''code read touches sensitive resources''
      else read_only_code ''read-only code workspace tool'')"

definition is_recognized_test :: "string \<Rightarrow> string list \<Rightarrow> bool" where
  "is_recognized_test command args =
     (if command = ''go'' then args \<noteq> [] \<and> args ! 0 = ''test''
      else if command \<in> set [''npm'', ''pnpm'', ''yarn''] then
        args \<noteq> [] \<and> (args ! 0 = ''test'' \<or> (length args > 1 \<and> args ! 0 = ''run'' \<and> args ! 1 = ''test''))
      else if command = ''pytest'' then True
      else if command = ''python'' \<or> command = ''python3'' then
        length args \<ge> 2 \<and> args ! 0 = ''-m'' \<and> args ! 1 = ''pytest''
      else if command = ''cargo'' then args \<noteq> [] \<and> args ! 0 = ''test''
      else if command = ''make'' then args \<noteq> [] \<and> args ! 0 = ''test''
      else False)"

definition mutation_word :: "string list \<Rightarrow> nat \<Rightarrow> bool" where
  "mutation_word all i =
     (let item = all ! i in
      if item \<in> set [''install'', ''add'', ''upgrade'', ''remove'', ''update''] then True
      else if item = ''get'' then i > 0 \<and> all ! (i - 1) = ''go''
      else if item = ''tidy'' then i > 1 \<and> all ! (i - 2) = ''go'' \<and> all ! (i - 1) = ''mod''
      else if item = ''generate'' then i > 0 \<and> all ! (i - 1) = ''go''
      else False)"

definition test_has_mutation :: "string \<Rightarrow> string list \<Rightarrow> bool" where
  "test_has_mutation command args =
     (let all = command # args in list_ex (mutation_word all) [0..<length all])"

definition infer_test_command :: "string \<Rightarrow> inference" where
  "infer_test_command command =
     (let structure = parse_structure command in
      if cs_write structure \<or> has_sub command ''&&'' \<or> has_sub command '';'' then
        mk_inf [''unknown.effect'', ''fs.write''] ''unknown'' False True (5/10)
          ''test command contains shell control or redirect syntax''
      else
        (case cs_segments structure of
           [] \<Rightarrow> mk_inf [''unknown.effect''] ''unknown'' False True (3/10) ''empty test command''
         | seg # _ \<Rightarrow>
             if test_has_mutation (seg_name seg) (seg_args seg) then
               mk_inf [''code.test'', ''package.install'', ''fs.write'', ''unknown.effect''] ''write'' False True
                 (8/10) ''test command appears to install dependencies or mutate project files''
             else if is_recognized_test (seg_name seg) (seg_args seg) then
               mk_inf [''code.test'', ''process.read'', ''fs.read''] ''read'' False False (9/10)
                 ''recognized read-only test command''
             else
               mk_inf [''unknown.effect'', ''code.test''] ''unknown'' False True (45/100)
                 ''test command is not in the code test allowlist''))"

definition infer_code_test :: "tool_proposal \<Rightarrow> inference" where
  "infer_code_test p =
     (let m = nm (tp_input p);
          command = (if str_at m ''command'' = [] then str_at m ''test_command'' else str_at m ''command'')
      in if command = [] \<and> (input_bool (tp_input p) ''use_detected'' \<or> tp_tool p = ''code.fix_test_failure_loop'')
         then mk_inf [''code.test'', ''process.read'', ''fs.read''] ''read'' False False (9/10)
                ''detected test command runs under code test allowlist''
         else if command = []
         then mk_inf [''unknown.effect''] ''unknown'' False True (3/10) ''test command is not specified''
         else infer_test_command command)"

definition infer_memory_extract :: "tool_proposal \<Rightarrow> inference" where
  "infer_memory_extract p =
     (if input_bool (tp_input p) ''queue''
      then mk_inf [''memory.review.write''] ''write'' False True (9/10)
             ''memory extraction writes candidate review records''
      else mk_inf [''memory.review''] ''read'' False False (9/10)
             ''memory candidate extraction does not commit long-term memory'')"

definition infer_propose_patch :: "inferrer \<Rightarrow> tool_proposal \<Rightarrow> inference" where
  "infer_propose_patch e p =
     (if touches_sensitive e p
      then mk_inf [''sensitive_read'', ''code.plan''] ''sensitive'' True True (95/100)
             ''patch proposal targets a sensitive path''
      else mk_inf [''read'', ''code.plan''] ''read'' False False (9/10) ''proposal-only patch tool'')"

definition infer_validate_patch :: "inferrer \<Rightarrow> tool_proposal \<Rightarrow> inference" where
  "infer_validate_patch e p =
     (if touches_sensitive e p
      then mk_inf [''sensitive_read'', ''code.plan''] ''sensitive'' True True (95/100)
             ''patch validation reads a sensitive path''
      else mk_inf [''read'', ''code.plan''] ''read'' False False (95/100) ''patch validation is read-only'')"

definition infer_apply_patch :: "inferrer \<Rightarrow> tool_proposal \<Rightarrow> inference" where
  "infer_apply_patch e p =
     (if touches_sensitive e p
      then mk_inf [''fs.write'', ''code.modify'', ''sensitive_write''] ''sensitive'' True True (99/100)
             ''patch application modifies a sensitive path''
      else mk_inf [''fs.write'', ''code.modify''] ''write'' False True (99/100)
             ''patch application modifies workspace files'')"

section \<open>Operations tools and runbooks\<close>

definition read_only_ops :: "string list \<Rightarrow> string \<Rightarrow> inference" where
  "read_only_ops effects reason =
     mk_inf (uniq (''read'' # effects)) ''read'' False False (95/100) reason"

definition infer_ops_local :: "string \<Rightarrow> inference option" where
  "infer_ops_local t =
     (if t = ''ops.local.system_info'' then Some (read_only_ops [''system.read''] ''local system information read'')
      else if t = ''ops.local.processes'' then
        Some (read_only_ops [''process.read'', ''system.metrics.read''] ''local process metrics read'')
      else if t = ''ops.local.disk_usage'' then
        Some (read_only_ops [''disk.read'', ''system.metrics.read''] ''local disk usage read'')
      else if t = ''ops.local.memory_usage'' then
        Some (read_only_ops [''memory.read'', ''system.metrics.read''] ''local memory usage read'')
      else if t = ''ops.local.network_info'' then
        Some (read_only_ops [''network.read''] ''local network information read'')
      else if t = ''ops.local.service_status'' then
        Some (read_only_ops [''service.read''] ''local service status read'')
      else if t = ''ops.local.logs_tail'' then Some (read_only_ops [''log.read''] ''local log tail read'')
      else if t = ''ops.local.service_restart'' then
        Some (mk_inf [''service.restart'', ''system.write''] ''danger'' False True (99/100)
          ''local service restart changes process state'')
      else None)"

definition infer_ops_ssh :: "string \<Rightarrow> inference option" where
  "infer_ops_ssh t =
     (if t = ''ops.ssh.system_info'' then
        Some (read_only_ops [''ssh.read'', ''system.read''] ''ssh system information read'')
      else if t = ''ops.ssh.processes'' then
        Some (read_only_ops [''ssh.read'', ''process.read'', ''system.metrics.read''] ''ssh process metrics read'')
      else if t = ''ops.ssh.disk_usage'' then
        Some (read_only_ops [''ssh.read'', ''disk.read'', ''system.metrics.read''] ''ssh disk usage read'')
      else if t = ''ops.ssh.memory_usage'' then
        Some (read_only_ops [''ssh.read'', ''memory.read'', ''system.metrics.read''] ''ssh memory usage read'')
      else if t = ''ops.ssh.logs_tail'' then
        Some (read_only_ops [''ssh.read'', ''log.read''] ''ssh log tail read'')
      else if t = ''ops.ssh.service_status'' then
        Some (read_only_ops [''ssh.read'', ''service.read''] ''ssh service status read'')
      else if t = ''ops.ssh.service_restart'' then
        Some (mk_inf [''ssh.write'', ''service.restart'', ''system.write''] ''danger'' False True (99/100)
          ''ssh service restart changes remote process state'')
      else None)"

definition infer_ops_container :: "string \<Rightarrow> inference option" where
  "infer_ops_container t =
     (if t \<in> set [''ops.docker.ps'', ''ops.docker.inspect''] then
        Some (read_only_ops [''container.read''] ''docker container metadata read'')
      else if t = ''ops.docker.logs'' then
        Some (read_only_ops [''container.read'', ''log.read''] ''docker logs read'')
      else if t = ''ops.docker.stats'' then
        Some (read_only_ops [''container.read'', ''system.metrics.read''] ''docker stats read'')
      else if t \<in> set [''ops.docker.restart'', ''ops.docker.stop'', ''ops.docker.start''] then
        Some (mk_inf [''container.write'', ''container.'' @ trim_prefix t ''ops.docker.''] ''write'' False True
          (99/100) ''docker lifecycle operation changes container state'')
      else if t \<in> set [''ops.k8s.get'', ''ops.k8s.describe'', ''ops.k8s.events''] then
        Some (read_only_ops [''k8s.read''] ''kubernetes resource read'')
      else if t = ''ops.k8s.logs'' then
        Some (read_only_ops [''k8s.read'', ''log.read''] ''kubernetes logs read'')
      else if t \<in> set [''ops.k8s.apply'', ''ops.k8s.rollout_restart''] then
        Some (mk_inf [''k8s.write'', trim_prefix t ''ops.''] ''write'' False True (99/100)
          ''kubernetes operation changes cluster state'')
      else if t = ''ops.k8s.delete'' then
        Some (mk_inf [''k8s.delete'', ''dangerous''] ''danger'' False True (99/100)
          ''kubernetes delete is destructive'')
      else None)"

definition unknown_ops :: inference where
  "unknown_ops = mk_inf [''unknown.effect''] ''unknown'' False True (3/10) ''unknown ops tool''"

definition or_else :: "'a option \<Rightarrow> 'a option \<Rightarrow> 'a option" where
  "or_else a b = (case a of None \<Rightarrow> b | Some x \<Rightarrow> Some x)"

definition infer_ops :: "inferrer \<Rightarrow> tool_proposal \<Rightarrow> inference" where
  "infer_ops e p =
     (if touches_sensitive e p
      then mk_inf [''sensitive_read'', ''log.read''] ''sensitive'' True True (95/100)
             ''ops tool touches sensitive resources''
      else
        (case or_else (infer_ops_local (tp_tool p))
                (or_else (infer_ops_ssh (tp_tool p)) (infer_ops_container (tp_tool p))) of
           Some i \<Rightarrow> i | None \<Rightarrow> unknown_ops))"

definition infer_runbook :: "tool_proposal \<Rightarrow> inference" where
  "infer_runbook p =
     (if tp_tool p \<in> set [''runbook.list'', ''runbook.read'', ''runbook.plan'']
      then mk_inf [''read'', ''runbook.read''] ''read'' False False (95/100) ''runbook planning is read-only''
      else if tp_tool p \<in> set [''runbook.execute_step'', ''runbook.execute'']
      then mk_inf [''runbook.execute'', ''workflow.route''] ''read'' False False (9/10)
             ''runbook execution routes each concrete step through ToolRouter''
      else mk_inf [''unknown.effect''] ''unknown'' False True (3/10) ''unknown runbook tool'')"

section \<open>Skills and MCP tools\<close>

definition mcp_effect_step :: "inference \<Rightarrow> string \<Rightarrow> inference" where
  "mcp_effect_step r effect =
     (if effect = ''unknown.effect'' then
        r\<lparr>if_risk := ''unknown'', if_approval := True,
          if_confidence := min_confidence (if_confidence r) (4/10),
          if_reason := ''MCP tool has unknown effects''\<rparr>
      else if has_sub effect ''sensitive'' \<or> has_sub effect ''env_file'' then
        r\<lparr>if_risk := ''sensitive'', if_sensitive := True, if_approval := True\<rparr>
      else if has_sub effect ''kill'' \<or> has_sub effect ''restart'' \<or> has_sub effect ''stop''
        \<or> has_sub effect ''escalate'' \<or> has_sub effect ''danger'' then
        r\<lparr>if_risk := ''danger'', if_approval := True\<rparr>
      else if effect_requires_approval effect then r\<lparr>if_risk := ''write'', if_approval := True\<rparr>
      else r)"

definition mcp_result :: "mcp_policy \<Rightarrow> inference" where
  "mcp_result profile =
     (let effects = (if mp_effects profile = [] then [''unknown.effect''] else mp_effects profile);
          start = mk_inf effects
            (if mp_risk profile = [] then ''read'' else mp_risk profile) False (mp_requires profile)
            (if mp_confidence profile \<le> 0 then 4/10 else mp_confidence profile)
            (if mp_reason profile = [] then ''MCP policy profile'' else mp_reason profile);
          r = foldl mcp_effect_step start effects
      in if mp_approval profile = ''require'' then r\<lparr>if_approval := True\<rparr> else r)"

definition infer_mcp :: "inferrer \<Rightarrow> tool_proposal \<Rightarrow> inference res" where
  "infer_mcp e p =
     (let server = str_at (nm (tp_input p)) ''server_id''; tool = str_at (nm (tp_input p)) ''tool_name'' in
      case (if server = [] \<or> tool = [] then None else ei_mcp e) of
        None \<Rightarrow> Inr (mk_inf [''unknown.effect''] ''unknown'' False True (3/10)
                  ''MCP server_id or tool_name is unavailable'')
      | Some lookup \<Rightarrow>
          (case lookup server tool of
             Inl err \<Rightarrow> Inl err
           | Inr profile \<Rightarrow> Inr (mcp_result profile)))"

definition skill_read_only :: string where
  "skill_read_only = ''skill manifest declares read-only effects''"

definition skill_effect_step :: "inference \<Rightarrow> string \<Rightarrow> inference" where
  "skill_effect_step r effect =
     (if effect = ''unknown.effect'' then
        r\<lparr>if_risk := ''unknown'', if_approval := True, if_confidence := 4/10,
          if_reason := ''skill manifest has unknown effects''\<rparr>
      else if effect_requires_approval effect then
        (if has_sub effect ''sensitive'' \<or> has_sub effect ''env_file'' then
           r\<lparr>if_approval := True, if_risk := ''sensitive'', if_sensitive := True,
             if_reason := ''skill manifest declares sensitive access''\<rparr>
         else if has_sub effect ''kill'' \<or> has_sub effect ''restart'' \<or> has_sub effect ''stop''
           \<or> has_sub effect ''escalate'' then
           r\<lparr>if_approval := True, if_risk := ''danger'',
             if_reason := ''skill manifest declares dangerous effects''\<rparr>
         else
           r\<lparr>if_approval := True, if_risk := ''write'',
             if_reason := ''skill manifest declares mutating effects''\<rparr>)
      else r)"

definition skill_default_step :: "skill_policy \<Rightarrow> inference \<Rightarrow> inference" where
  "skill_default_step profile r =
     (if sp_approval_default profile = ''require''
      then r\<lparr>if_approval := True,
             if_reason := (if if_reason r = skill_read_only
               then ''skill manifest requires approval by default'' else if_reason r)\<rparr>
      else r)"

definition skill_sandbox_step :: "skill_policy \<Rightarrow> inference \<Rightarrow> inference" where
  "skill_sandbox_step profile r =
     (if sp_requires profile
      then r\<lparr>if_approval := True, if_confidence := min_confidence (if_confidence r) (6/10),
             if_reason :=
               (if sp_will_fallback profile
                then ''skill sandbox falls back to best-effort enforcement and requires approval''
                else if if_reason r = skill_read_only
                then ''skill sandbox requires approval due to enforcement limits''
                else if_reason r)\<rparr>
      else if sp_will_fallback profile
      then r\<lparr>if_confidence := min_confidence (if_confidence r) (7/10),
             if_reason := (if if_reason r = skill_read_only
               then ''skill sandbox falls back to best-effort enforcement'' else if_reason r)\<rparr>
      else r)"

definition infer_skill :: "inferrer \<Rightarrow> tool_proposal \<Rightarrow> inference" where
  "infer_skill e p =
     (let skill = str_at (nm (tp_input p)) ''skill_id'' in
      case (if skill = [] then None else ei_skills e) of
        None \<Rightarrow> mk_inf [''unknown.effect''] ''unknown'' False True (3/10) ''skill manifest is unavailable''
      | Some lookup \<Rightarrow>
          (case lookup skill of
             Inl err \<Rightarrow> mk_inf [''unknown.effect''] ''unknown'' False True (3/10) ''skill is not registered''
           | Inr profile \<Rightarrow>
               (let effects = (if sp_effects profile = [] then [''unknown.effect''] else sp_effects profile)
                in skill_sandbox_step profile (skill_default_step profile
                     (foldl skill_effect_step
                        (mk_inf effects ''read'' False False (95/100) skill_read_only) effects)))))"

section \<open>Shell commands\<close>

text \<open>What \<open>inferShell\<close> accumulates: effects, risk, confidence, reason. Its \<open>approvalRequired\<close> is true
  from the start and only ever set to true again.\<close>

record shell_acc =
  sa_effects :: "string list"
  sa_risk :: string
  sa_conf :: rat
  sa_reason :: string

definition shell_paths :: "inferrer \<Rightarrow> command_structure \<Rightarrow> shell_acc" where
  "shell_paths e s =
     (let a = \<lparr>sa_effects = [], sa_risk = ''read'', sa_conf = 9/10,
               sa_reason = ''shell command requires approval''\<rparr>;
          b = (if cs_write s
               then a\<lparr>sa_effects := sa_effects a @ [''fs.write''], sa_risk := ''write'',
                      sa_reason := ''shell redirect writes to the filesystem''\<rparr> else a)
      in if contains_sensitive (cs_file_targets s) (pc_sensitive (ei_cfg e))
         then b\<lparr>sa_effects := sa_effects b @ [''sensitive_read'', ''env_file.read''], sa_risk := ''sensitive'',
                sa_reason := ''command touches sensitive resources''\<rparr>
         else b)"

text \<open>The cases that classify a command and report a write when any effect so far mutates.\<close>

definition shell_classified :: "shell_acc \<Rightarrow> string list \<Rightarrow> string \<Rightarrow> string \<Rightarrow> shell_acc" where
  "shell_classified a effects mutating reading =
     (let es = sa_effects a @ effects in
      if has_mutating_effect es
      then a\<lparr>sa_effects := es, sa_risk := ''write'', sa_reason := mutating\<rparr>
      else a\<lparr>sa_effects := es, sa_reason := reading\<rparr>)"

definition shell_command :: "shell_acc \<Rightarrow> string \<Rightarrow> string list \<Rightarrow> shell_acc" where
  "shell_command a first rest =
     (if first \<in> set [''ps'', ''pgrep'', ''top''] then
        a\<lparr>sa_effects := sa_effects a @ [''read'', ''process.read''],
          sa_reason := ''process inspection shell command requires approval''\<rparr>
      else if first \<in> set [''uname'', ''uptime'', ''free'', ''df'', ''pwd'', ''whoami''] then
        a\<lparr>sa_effects := sa_effects a @ [''read'', ''system.read''],
          sa_reason := ''system inspection shell command requires approval''\<rparr>
      else if first = ''git'' then
        shell_classified a (classify_git rest) ''git command mutates repository state''
          ''git read-only shell command requires approval''
      else if first \<in> set [''cat'', ''less'', ''head'', ''tail'', ''ls'', ''find'', ''rg'', ''grep'', ''sed''] then
        (let a = a\<lparr>sa_effects := sa_effects a @ [''read'', ''code.read''],
                   sa_reason := ''file inspection shell command requires approval''\<rparr>
         in if first = ''sed'' \<and> ''-i'' \<in> set rest
            then a\<lparr>sa_effects := sa_effects a @ [''fs.write'', ''code.modify''], sa_risk := ''write'',
                   sa_reason := ''sed -i modifies files''\<rparr>
            else a)
      else if first \<in> set [''tee'', ''touch'', ''mkdir'', ''mv'', ''cp'', ''rm''] then
        a\<lparr>sa_effects := sa_effects a @ classify_fs first, sa_risk := ''write'',
          sa_reason := ''filesystem mutation command''\<rparr>
      else if first \<in> set [''go'', ''npm'', ''pnpm'', ''yarn'', ''pip'', ''apt'', ''brew''] then
        shell_classified a (classify_package first rest) ''package or module management command''
          ''read-only tooling shell command requires approval''
      else if first \<in> set [''curl'', ''wget''] then
        shell_classified a (classify_network rest) ''network write or upload detected''
          ''network read shell command requires approval''
      else if first = ''sudo'' then
        a\<lparr>sa_effects := sa_effects a @ [''privilege.escalate''], sa_risk := ''danger'', sa_conf := 98/100,
          sa_reason := ''sudo requires explicit approval''\<rparr>
      else
        a\<lparr>sa_effects := sa_effects a @ [''unknown.effect''], sa_risk := ''unknown'', sa_conf := 4/10,
          sa_reason := ''command not covered by current manifest classifier''\<rparr>)"

definition infer_shell :: "inferrer \<Rightarrow> tool_proposal \<Rightarrow> inference" where
  "infer_shell e p =
     (let s = parse_structure (str_at (nm (tp_input p)) ''command'') in
      case cs_segments s of
        [] \<Rightarrow> mk_inf [''unknown.effect''] ''unknown'' False True (1/10) ''empty shell command''
      | seg # _ \<Rightarrow>
          (let a = shell_command (shell_paths e s) (seg_name seg) (seg_args seg);
               effects = uniq (sa_effects a @ tp_expected p)
           in mk_inf effects (sa_risk a) (''sensitive_read'' \<in> set effects) True (sa_conf a) (sa_reason a)))"

section \<open>Infer\<close>

definition unknown_tool :: inference where
  "unknown_tool = mk_inf [''unknown.effect''] ''unknown'' False True (2/10) ''tool has no known effect profile''"

definition infer_git :: "string \<Rightarrow> inference option" where
  "infer_git t =
     (if t \<in> set [''git.status'', ''git.diff'', ''git.log'', ''git.branch'', ''git.diff_summary'',
          ''git.commit_message_proposal''] then
        Some (mk_inf [''read'', ''git.read''] ''read'' False False (95/100) ''read-only git command'')
      else if t \<in> set [''git.add'', ''git.commit''] then
        Some (mk_inf [''git.write'', ''fs.write''] ''write'' False True (99/100)
          ''git command mutates repository state'')
      else if t = ''git.restore'' then
        Some (mk_inf [''git.write'', ''fs.write'', ''code.modify''] ''write'' False True (99/100)
          ''git restore modifies workspace files'')
      else if t = ''git.clean'' then
        Some (mk_inf [''fs.delete'', ''dangerous''] ''danger'' False True (99/100)
          ''git clean deletes untracked files'')
      else None)"

definition infer_memory :: "tool_proposal \<Rightarrow> inference option" where
  "infer_memory p =
     (let t = tp_tool p in
      if t \<in> set [''kb.search'', ''kb.retrieve'', ''kb.answer''] then
        Some (mk_inf [''kb.read''] ''read'' False False (95/100) ''read-only knowledge retrieval'')
      else if t = ''memory.search'' then
        Some (mk_inf [''memory.read''] ''read'' False False (95/100) ''read-only memory search'')
      else if t = ''memory.extract_candidates'' then Some (infer_memory_extract p)
      else if t \<in> set [''memory.detect_conflicts'', ''memory.merge_candidates''] then
        Some (mk_inf [''memory.read''] ''read'' False False (9/10) ''memory governance analysis is read-only'')
      else if t = ''memory.patch'' then
        Some (mk_inf [''fs.write'', ''memory.modify''] ''write'' False True (95/100)
          ''memory patch modifies markdown facts'')
      else if t \<in> set [''memory.item_create'', ''memory.item_update'', ''memory.item_archive'',
          ''memory.item_restore'', ''memory.item_delete''] then
        Some (mk_inf [''fs.write'', ''memory.modify''] ''write'' False True (98/100)
          ''memory item operation modifies Markdown memory'')
      else None)"

definition infer_code :: "inferrer \<Rightarrow> tool_proposal \<Rightarrow> inference option" where
  "infer_code e p =
     (let t = tp_tool p in
      if t = ''shell.exec'' then Some (infer_shell e p)
      else if t \<in> set [''code.read_file'', ''code.search'', ''code.search_text'', ''code.search_symbol'',
          ''code.list_files''] then Some (infer_code_read e p)
      else if t \<in> set [''code.inspect_project'', ''code.detect_language'', ''code.detect_test_command''] then
        Some (read_only_code ''read-only project inspection'')
      else if t \<in> set [''code.run_tests'', ''code.fix_test_failure_loop''] then Some (infer_code_test p)
      else if t = ''code.parse_test_failure'' then
        Some (read_only_code ''test failure parsing is read-only'')
      else if t = ''code.propose_patch'' then Some (infer_propose_patch e p)
      else if t \<in> set [''code.validate_patch'', ''code.dry_run_patch''] then Some (infer_validate_patch e p)
      else if t = ''code.explain_diff'' then Some (read_only_code ''diff explanation is read-only'')
      else if t = ''code.apply_patch'' then Some (infer_apply_patch e p)
      else None)"

definition infer :: "inferrer \<Rightarrow> tool_proposal \<Rightarrow> inference res" where
  "infer e p =
     (let t = tp_tool p in
      if has_prefix t ''ops.'' then Inr (infer_ops e p)
      else if has_prefix t ''runbook.'' then Inr (infer_runbook p)
      else
        (case or_else (infer_code e p) (or_else (infer_memory p) (infer_git t)) of
           Some i \<Rightarrow> Inr i
         | None \<Rightarrow>
             if t = ''skill.run'' then Inr (infer_skill e p)
             else if t = ''mcp.call_tool'' then infer_mcp e p
             else Inr unknown_tool))"

section \<open>Helper lemmas\<close>

text \<open>The effects the tables report without asking for approval.\<close>

definition benign_effects :: "string list" where
  "benign_effects =
     [''read'', ''code.read'', ''code.plan'', ''code.test'', ''process.read'', ''fs.read'', ''kb.read'',
      ''memory.read'', ''memory.review'', ''git.read'', ''runbook.read'', ''runbook.execute'',
      ''workflow.route'', ''system.read'', ''system.metrics.read'', ''disk.read'', ''network.read'',
      ''service.read'', ''log.read'', ''ssh.read'', ''container.read'', ''k8s.read'']"

lemma effect_requires_approval_benign:
  "\<not> effect_requires_approval ''read''"
  "\<not> effect_requires_approval ''code.read''"
  "\<not> effect_requires_approval ''code.plan''"
  "\<not> effect_requires_approval ''code.test''"
  "\<not> effect_requires_approval ''process.read''"
  "\<not> effect_requires_approval ''fs.read''"
  "\<not> effect_requires_approval ''kb.read''"
  "\<not> effect_requires_approval ''memory.read''"
  "\<not> effect_requires_approval ''memory.review''"
  "\<not> effect_requires_approval ''git.read''"
  "\<not> effect_requires_approval ''runbook.read''"
  "\<not> effect_requires_approval ''runbook.execute''"
  "\<not> effect_requires_approval ''workflow.route''"
  "\<not> effect_requires_approval ''system.read''"
  "\<not> effect_requires_approval ''system.metrics.read''"
  "\<not> effect_requires_approval ''disk.read''"
  "\<not> effect_requires_approval ''network.read''"
  "\<not> effect_requires_approval ''service.read''"
  "\<not> effect_requires_approval ''log.read''"
  "\<not> effect_requires_approval ''ssh.read''"
  "\<not> effect_requires_approval ''container.read''"
  "\<not> effect_requires_approval ''k8s.read''"
  by (simp_all add: effect_requires_approval_def sublist_Cons_right)

lemma benign_effects_ok: "list_all (\<lambda>e. \<not> effect_requires_approval e) benign_effects"
  by (simp only: benign_effects_def list.pred_inject effect_requires_approval_benign simp_thms)

lemma benign [simp]: "e \<in> set benign_effects \<Longrightarrow> \<not> effect_requires_approval e"
  using benign_effects_ok by (simp add: list_all_iff)

lemma set_uniq [simp]: "set (uniq xs) = set xs - {[]}"
  by (auto simp: uniq_def set_uniq_from)

lemma distinct_uniq: "distinct (uniq xs)"
  by (simp add: uniq_def distinct_uniq_from)

text \<open>An inference is guarded when it asks for approval or reports benign effects only.\<close>

definition guarded_inf :: "inference \<Rightarrow> bool" where
  "guarded_inf i \<longleftrightarrow> if_approval i \<or> list_all (\<lambda>e. \<not> effect_requires_approval e) (if_effects i)"

lemma guarded_approval [intro, simp]: "guarded_inf (mk_inf es r s True c x)"
  by (simp add: guarded_inf_def)

lemma guarded_benign [intro]:
  "set es \<subseteq> set benign_effects \<Longrightarrow> guarded_inf (mk_inf es r s a c x)"
  by (auto simp: guarded_inf_def list_all_iff)

lemma benign_mem [simp]:
  "''read'' \<in> set benign_effects"
  "''code.read'' \<in> set benign_effects"
  "''code.plan'' \<in> set benign_effects"
  "''code.test'' \<in> set benign_effects"
  "''process.read'' \<in> set benign_effects"
  "''fs.read'' \<in> set benign_effects"
  "''kb.read'' \<in> set benign_effects"
  "''memory.read'' \<in> set benign_effects"
  "''memory.review'' \<in> set benign_effects"
  "''git.read'' \<in> set benign_effects"
  "''runbook.read'' \<in> set benign_effects"
  "''runbook.execute'' \<in> set benign_effects"
  "''workflow.route'' \<in> set benign_effects"
  "''system.read'' \<in> set benign_effects"
  "''system.metrics.read'' \<in> set benign_effects"
  "''disk.read'' \<in> set benign_effects"
  "''network.read'' \<in> set benign_effects"
  "''service.read'' \<in> set benign_effects"
  "''log.read'' \<in> set benign_effects"
  "''ssh.read'' \<in> set benign_effects"
  "''container.read'' \<in> set benign_effects"
  "''k8s.read'' \<in> set benign_effects"
  by (simp_all add: benign_effects_def)

lemma guarded_read_only_ops [simp]:
  "set es \<subseteq> set benign_effects \<Longrightarrow> guarded_inf (read_only_ops es x)"
  unfolding read_only_ops_def by (rule guarded_benign) auto

lemma guarded_read_only_code [simp]: "guarded_inf (read_only_code x)"
  unfolding read_only_code_def by (rule guarded_benign) simp

lemma guarded_if: "guarded_inf x \<Longrightarrow> guarded_inf y \<Longrightarrow> guarded_inf (if b then x else y)"
  by simp

abbreviation guarded_opt :: "inference option \<Rightarrow> bool" where
  "guarded_opt \<equiv> pred_option guarded_inf"

lemma guarded_opt_if: "guarded_opt x \<Longrightarrow> guarded_opt y \<Longrightarrow> guarded_opt (if b then x else y)"
  by simp

lemma guarded_opt_None: "guarded_opt None"
  by simp

lemma guarded_opt_Some: "guarded_inf x \<Longrightarrow> guarded_opt (Some x)"
  by simp

lemma guarded_or_else: "guarded_opt a \<Longrightarrow> guarded_opt b \<Longrightarrow> guarded_opt (or_else a b)"
  by (cases a) (simp_all add: or_else_def)

lemmas guarded_intros = guarded_if guarded_opt_if guarded_opt_None guarded_opt_Some guarded_or_else
  guarded_read_only_ops guarded_read_only_code guarded_approval guarded_benign

lemma guarded_infer_ops_groups:
  "guarded_opt (infer_ops_local t)" "guarded_opt (infer_ops_ssh t)" "guarded_opt (infer_ops_container t)"
  unfolding infer_ops_local_def infer_ops_ssh_def infer_ops_container_def
  by (intro guarded_intros; simp)+

lemma guarded_infer_ops: "guarded_inf (infer_ops e p)"
proof -
  let ?o = "or_else (infer_ops_local (tp_tool p))
      (or_else (infer_ops_ssh (tp_tool p)) (infer_ops_container (tp_tool p)))"
  have "guarded_opt ?o"
    by (intro guarded_or_else guarded_infer_ops_groups)
  then show ?thesis
    unfolding infer_ops_def unknown_ops_def
    by (cases ?o) (simp_all only: option.pred_inject option.case guarded_if guarded_approval)
qed

lemma guarded_infer_runbook: "guarded_inf (infer_runbook p)"
  unfolding infer_runbook_def by (intro guarded_intros) simp_all

lemma guarded_infer_test_command: "guarded_inf (infer_test_command c)"
  unfolding infer_test_command_def Let_def
  by (cases "cs_segments (parse_structure c)")
     (simp_all only: list.case, (intro guarded_intros; simp)+)

lemma guarded_infer_code_test: "guarded_inf (infer_code_test p)"
  unfolding infer_code_test_def Let_def
  by (intro guarded_intros guarded_infer_test_command) simp

lemma infer_shell_approval: "if_approval (infer_shell e p)"
  by (simp add: infer_shell_def Let_def split: list.split)

lemma guarded_infer_code: "guarded_opt (infer_code e p)"
proof -
  have s: "guarded_inf (infer_shell e p)"
    by (simp add: guarded_inf_def infer_shell_approval)
  show ?thesis
    unfolding infer_code_def Let_def infer_code_read_def infer_propose_patch_def
      infer_validate_patch_def infer_apply_patch_def
    by (intro guarded_intros s guarded_infer_code_test) simp_all
qed

lemma guarded_infer_memory: "guarded_opt (infer_memory p)"
  unfolding infer_memory_def Let_def infer_memory_extract_def
  by (intro guarded_intros) simp_all

lemma guarded_infer_git: "guarded_opt (infer_git t)"
  unfolding infer_git_def by (intro guarded_intros) simp_all

section \<open>The folds over declared effects\<close>

lemma mcp_effect_step_facts:
  "if_effects (mcp_effect_step r x) = if_effects r"
  "if_approval r \<Longrightarrow> if_approval (mcp_effect_step r x)"
  "effect_requires_approval x \<Longrightarrow> if_approval (mcp_effect_step r x)"
  "0 < if_confidence r \<Longrightarrow> 0 < if_confidence (mcp_effect_step r x)"
  by (simp_all add: mcp_effect_step_def min_confidence_def)

lemma skill_effect_step_facts:
  "if_effects (skill_effect_step r x) = if_effects r"
  "if_approval r \<Longrightarrow> if_approval (skill_effect_step r x)"
  "effect_requires_approval x \<Longrightarrow> if_approval (skill_effect_step r x)"
  "0 < if_confidence r \<Longrightarrow> 0 < if_confidence (skill_effect_step r x)"
  by (simp_all add: skill_effect_step_def)

text \<open>Both folds have the same shape, so the argument is made once for any step with these laws.\<close>

locale effect_fold =
  fixes step :: "inference \<Rightarrow> string \<Rightarrow> inference"
  assumes effects: "if_effects (step r x) = if_effects r"
    and keeps_approval: "if_approval r \<Longrightarrow> if_approval (step r x)"
    and sets_approval: "effect_requires_approval x \<Longrightarrow> if_approval (step r x)"
    and keeps_positive: "0 < if_confidence r \<Longrightarrow> 0 < if_confidence (step r x)"
begin

lemma fold_effects: "if_effects (foldl step r xs) = if_effects r"
  by (induction xs arbitrary: r) (simp_all add: effects)

lemma fold_keeps: "if_approval r \<Longrightarrow> if_approval (foldl step r xs)"
  by (induction xs arbitrary: r) (simp_all add: keeps_approval)

lemma fold_positive: "0 < if_confidence r \<Longrightarrow> 0 < if_confidence (foldl step r xs)"
  by (induction xs arbitrary: r) (simp_all add: keeps_positive)

lemma fold_approval: "\<exists>x \<in> set xs. effect_requires_approval x \<Longrightarrow> if_approval (foldl step r xs)"
  by (induction xs arbitrary: r) (auto simp: fold_keeps sets_approval)

lemma fold_guarded:
  assumes "if_effects r = xs"
  shows "guarded_inf (foldl step r xs)"
proof (cases "\<exists>x \<in> set xs. effect_requires_approval x")
  case True
  then show ?thesis by (simp add: guarded_inf_def fold_approval)
next
  case False
  with assms show ?thesis by (simp add: guarded_inf_def fold_effects list_all_iff)
qed

end

interpretation mcp_fold: effect_fold mcp_effect_step
  by unfold_locales (simp_all add: mcp_effect_step_facts)

interpretation skill_fold: effect_fold skill_effect_step
  by unfold_locales (simp_all add: skill_effect_step_facts)

lemma guarded_set_approval [simp]: "guarded_inf (r\<lparr>if_approval := True\<rparr>)"
  by (simp add: guarded_inf_def)

lemma guarded_mcp_result: "guarded_inf (mcp_result p)"
  unfolding mcp_result_def Let_def
  by (intro guarded_if guarded_set_approval mcp_fold.fold_guarded) simp

lemma guarded_skill_default: "guarded_inf r \<Longrightarrow> guarded_inf (skill_default_step p r)"
  by (simp add: skill_default_step_def guarded_inf_def)

lemma guarded_skill_sandbox: "guarded_inf r \<Longrightarrow> guarded_inf (skill_sandbox_step p r)"
  by (simp add: skill_sandbox_step_def guarded_inf_def)

lemma guarded_infer_skill: "guarded_inf (infer_skill e p)"
proof -
  have "guarded_inf (foldl skill_effect_step (mk_inf es r s a c x) es)" for es r s a c x
    by (rule skill_fold.fold_guarded) simp
  then show ?thesis
    unfolding infer_skill_def Let_def
    by (auto simp del: foldl_Cons simp: guarded_skill_default guarded_skill_sandbox
        split: option.split sum.split)
qed

lemma guarded_infer_mcp: "infer_mcp e p = Inr i \<Longrightarrow> guarded_inf i"
  by (auto simp: infer_mcp_def Let_def guarded_mcp_result split: option.splits sum.splits)

section \<open>Properties\<close>

lemma infer_guarded: "infer e p = Inr i \<Longrightarrow> guarded_inf i"
proof -
  let ?o = "or_else (infer_code e p) (or_else (infer_memory p) (infer_git (tp_tool p)))"
  have o: "guarded_opt ?o"
    by (intro guarded_or_else guarded_infer_code guarded_infer_memory guarded_infer_git)
  assume "infer e p = Inr i"
  with o show ?thesis
    unfolding infer_def Let_def unknown_tool_def
    by (cases ?o) (auto split: if_splits simp: guarded_infer_ops guarded_infer_runbook
        guarded_infer_skill dest: guarded_infer_mcp)
qed

text \<open>No table, manifest or MCP overlay lets a dangerous effect through unasked: whenever the
  inferrer reports an effect that is unknown, sensitive, mutating, destructive or privileged, for any
  tool, any input and any skill or MCP registry, it asks for approval.\<close>

theorem infer_mutating_needs_approval:
  "infer e p = Inr i \<Longrightarrow> has_mutating_effect (if_effects i) \<Longrightarrow> if_approval i"
  using infer_guarded [of e p i]
  by (auto simp: guarded_inf_def has_mutating_effect_def list_all_iff list_ex_iff)

definition prop0 :: "string \<Rightarrow> gmap \<Rightarrow> tool_proposal" where
  "prop0 tool input = \<lparr>tp_id = ''tool_1'', tp_tool = tool, tp_input = Some input, tp_purpose = [],
     tp_expected = [], tp_created = 0\<rparr>"

lemma prop0_sel [simp]:
  "tp_tool (prop0 t m) = t" "tp_input (prop0 t m) = Some m" "tp_expected (prop0 t m) = []"
  by (simp_all add: prop0_def)

definition inferrer0 :: inferrer where
  "inferrer0 = \<lparr>ei_cfg = default_policy, ei_skills = None, ei_mcp = None\<rparr>"

lemma infer_code_dispatch:
  assumes "\<not> has_prefix (tp_tool p) ''ops.''" "\<not> has_prefix (tp_tool p) ''runbook.''"
    and "infer_code e p = Some i"
  shows "infer e p = Inr i"
  using assms by (simp add: infer_def or_else_def)

lemma infer_git_commit: "infer inferrer0 (prop0 ''git.commit'' []) =
    Inr (mk_inf [''git.write'', ''fs.write''] ''write'' False True (99/100) ''git command mutates repository state'')"
  by (simp add: infer_def infer_code_def infer_memory_def infer_git_def or_else_def)

theorem infer_mutating_needs_approval_witness:
  "if_approval (mk_inf [''git.write'', ''fs.write''] ''write'' False True (99/100)
     ''git command mutates repository state'')"
proof -
  have "has_mutating_effect [''git.write'', ''fs.write'']"
    by (simp add: has_mutating_effect_def effect_requires_approval_def sublist_Cons_right)
  with infer_mutating_needs_approval [OF infer_git_commit] show ?thesis by simp
qed

text \<open>The tools whose inference looks at the paths of the input.\<close>

definition path_tools :: "string list" where
  "path_tools =
     [''code.read_file'', ''code.search'', ''code.search_text'', ''code.search_symbol'', ''code.list_files'',
      ''code.propose_patch'', ''code.validate_patch'', ''code.dry_run_patch'', ''code.apply_patch'']"

lemma path_tool_code:
  "tp_tool p \<in> set path_tools \<Longrightarrow> touches_sensitive e p \<Longrightarrow>
     \<exists>i. infer_code e p = Some i \<and> if_sensitive i \<and> if_approval i"
  unfolding path_tools_def
  by (simp only: list.set insert_iff empty_iff simp_thms)
     (elim disjE; simp add: infer_code_def infer_code_read_def infer_propose_patch_def
       infer_validate_patch_def infer_apply_patch_def)

lemma path_tool_prefix:
  "t \<in> set path_tools \<Longrightarrow> \<not> has_prefix t ''ops.'' \<and> \<not> has_prefix t ''runbook.''"
  unfolding path_tools_def
  by (simp only: list.set insert_iff empty_iff simp_thms) (elim disjE; simp)

text \<open>Every file tool and every operations tool whose input names a sensitive path, as \<open>path\<close>,
  \<open>workspace\<close>, an entry of \<open>files\<close> or a header of \<open>diff\<close>, is reported as sensitive and asks for
  approval.\<close>

theorem sensitive_input_is_reported:
  assumes "tp_tool p \<in> set path_tools \<or> has_prefix (tp_tool p) ''ops.''"
    and "x \<in> set (proposal_path_inputs (tp_input p))"
    and "is_sensitive_path x (pc_sensitive (ei_cfg e))"
  shows "\<exists>i. infer e p = Inr i \<and> if_sensitive i \<and> if_approval i"
proof -
  have t: "touches_sensitive e p"
    using assms(2,3) by (auto simp: touches_sensitive_def list_ex_iff)
  show ?thesis
  proof (cases "has_prefix (tp_tool p) ''ops.''")
    case True
    with t show ?thesis by (simp add: infer_def infer_ops_def)
  next
    case False
    with assms(1) have "tp_tool p \<in> set path_tools" by simp
    then show ?thesis
      using path_tool_code [OF _ t] path_tool_prefix infer_code_dispatch by blast
  qed
qed

theorem sensitive_input_is_reported_witness:
  "\<exists>i. infer inferrer0 (prop0 ''code.read_file'' [(''path'', GStr ''app/.env'')]) = Inr i \<and>
     if_sensitive i \<and> if_approval i"
proof (rule sensitive_input_is_reported [where x = "''app/.env''"])
  show "is_sensitive_path ''app/.env'' (pc_sensitive (ei_cfg inferrer0))"
    by (simp add: is_sensitive_path_def default_sensitive_def to_lower_def lower_char_def
        sublist_Cons_right)
qed (simp_all add: path_tools_def proposal_path_inputs_def nonempty_str_def str_opt_def)

definition extends :: "shell_acc \<Rightarrow> shell_acc \<Rightarrow> bool" where
  "extends a b \<longleftrightarrow> set (sa_effects a) \<subseteq> set (sa_effects b)"

lemma extends_if: "extends a x \<Longrightarrow> extends a y \<Longrightarrow> extends a (if c then x else y)"
  by simp

lemma extends_classified: "extends a (shell_classified a es x y)"
  by (simp add: extends_def shell_classified_def Let_def)

lemma shell_command_keeps: "extends a (shell_command a f r)"
  unfolding shell_command_def Let_def
  by (intro extends_if extends_classified) (auto simp: extends_def)

lemma shell_paths_effects:
  "cs_write s \<Longrightarrow> ''fs.write'' \<in> set (sa_effects (shell_paths e s))"
  "contains_sensitive (cs_file_targets s) (pc_sensitive (ei_cfg e)) \<Longrightarrow>
     ''sensitive_read'' \<in> set (sa_effects (shell_paths e s))"
  by (simp_all add: shell_paths_def Let_def)

lemma infer_shell_effects:
  assumes "cs_segments (parse_structure (str_at (nm (tp_input p)) ''command'')) \<noteq> []"
    and "x \<in> set (sa_effects (shell_paths e (parse_structure (str_at (nm (tp_input p)) ''command''))))"
    and "x \<noteq> []"
  shows "x \<in> set (if_effects (infer_shell e p))"
  using assms shell_command_keeps [unfolded extends_def]
  by (auto simp: infer_shell_def Let_def split: list.split)

lemma infer_shell_sensitive:
  "''sensitive_read'' \<in> set (if_effects (infer_shell e p)) \<Longrightarrow> if_sensitive (infer_shell e p)"
  by (auto simp: infer_shell_def Let_def split: list.splits)

text \<open>A shell command is never run unasked, whatever it is; a write redirect is reported as
  \<open>fs.write\<close>, and a word or redirect target that is a sensitive path makes the inference sensitive,
  whichever segment of a pipeline it belongs to.\<close>

theorem shell_exec_inference:
  assumes "tp_tool p = ''shell.exec''"
    and "s = parse_structure (str_at (nm (tp_input p)) ''command'')"
  shows "\<exists>i. infer e p = Inr i \<and> if_approval i \<and>
     (cs_segments s \<noteq> [] \<longrightarrow>
        (cs_write s \<longrightarrow> ''fs.write'' \<in> set (if_effects i)) \<and>
        ((\<exists>x \<in> set (cs_file_targets s). is_sensitive_path x (pc_sensitive (ei_cfg e))) \<longrightarrow> if_sensitive i))"
proof -
  have "infer e p = Inr (infer_shell e p)"
    by (rule infer_code_dispatch) (simp_all add: assms(1) infer_code_def)
  moreover have "''fs.write'' \<in> set (if_effects (infer_shell e p))" if "cs_segments s \<noteq> []" "cs_write s"
    using that shell_paths_effects(1) unfolding assms(2) by (intro infer_shell_effects) auto
  moreover have "if_sensitive (infer_shell e p)"
    if "cs_segments s \<noteq> []" "\<exists>x \<in> set (cs_file_targets s). is_sensitive_path x (pc_sensitive (ei_cfg e))"
    using that shell_paths_effects(2) unfolding assms(2)
    by (intro infer_shell_sensitive infer_shell_effects) (auto simp: contains_sensitive_iff)
  ultimately show ?thesis
    using infer_shell_approval by blast
qed

lemma parse_cat_env:
  "tokenize ''cat .env > out'' = [''cat'', ''.env'', ''>'', ''out'']"
  by (simp add: tokenize_def flush_token_def)

theorem shell_exec_inference_witness:
  "\<exists>i. infer inferrer0 (prop0 ''shell.exec'' [(''command'', GStr ''cat .env > out'')]) = Inr i \<and>
     if_approval i \<and> ''fs.write'' \<in> set (if_effects i) \<and> if_sensitive i"
proof -
  let ?s = "parse_structure ''cat .env > out''"
  have s: "cs_segments ?s \<noteq> []" "cs_write ?s" "''.env'' \<in> set (cs_file_targets ?s)"
    by (simp_all add: parse_structure_def parse_cat_env parse_init_def parse_token_def
        flush_segment_def is_path_like_def sublist_Cons_right Let_def uniq_shell_def)
  have "is_sensitive_path ''.env'' (pc_sensitive (ei_cfg inferrer0))"
    by (simp add: is_sensitive_path_def default_sensitive_def to_lower_def lower_char_def
        sublist_Cons_right)
  with s shell_exec_inference [of "prop0 ''shell.exec'' [(''command'', GStr ''cat .env > out'')]" ?s inferrer0]
  show ?thesis by (auto simp: str_at_def)
qed

text \<open>\<open>code.run_tests\<close> and \<open>code.fix_test_failure_loop\<close> with a command run unasked only when the
  command is free of write redirects, \<open>&&\<close> and \<open>;\<close>, its first segment is a recognised test
  invocation, and no argument of it installs or changes dependencies.\<close>

theorem test_command_allowlist:
  assumes "tp_tool p \<in> {''code.run_tests'', ''code.fix_test_failure_loop''}"
    and "c = str_at (nm (tp_input p)) ''command''" and "c \<noteq> []"
    and "infer e p = Inr i" and "\<not> if_approval i"
  shows "\<not> cs_write (parse_structure c) \<and> \<not> has_sub c ''&&'' \<and> \<not> has_sub c '';'' \<and>
     (\<exists>seg rest. cs_segments (parse_structure c) = seg # rest \<and>
        is_recognized_test (seg_name seg) (seg_args seg) \<and>
        \<not> test_has_mutation (seg_name seg) (seg_args seg))"
proof -
  have "infer e p = Inr (infer_code_test p)"
    using assms(1) by (intro infer_code_dispatch) (auto simp: infer_code_def)
  also have "infer_code_test p = infer_test_command c"
    using assms(2,3) by (simp add: infer_code_test_def Let_def)
  finally have "\<not> if_approval (infer_test_command c)"
    using assms(4,5) by simp
  then show ?thesis
    unfolding infer_test_command_def Let_def
    by (cases "cs_segments (parse_structure c)") (simp_all split: if_splits)
qed

theorem test_command_allowlist_witness:
  "is_recognized_test ''go'' [''test'', ''./...''] \<and> \<not> test_has_mutation ''go'' [''test'', ''./...'']"
proof -
  let ?p = "prop0 ''code.run_tests'' [(''command'', GStr ''go test ./...'')]"
  have t: "tokenize ''go test ./...'' = [''go'', ''test'', ''./...'']"
    by (simp add: tokenize_def flush_token_def)
  have s: "cs_segments (parse_structure ''go test ./...'') =
      [\<lparr>seg_raw = ''go test ./...'', seg_name = ''go'', seg_args = [''test'', ''./...''], seg_redirects = []\<rparr>]"
    "\<not> cs_write (parse_structure ''go test ./...'')"
    by (simp_all add: parse_structure_def t parse_init_def parse_token_def flush_segment_def Let_def)
  have r: "is_recognized_test ''go'' [''test'', ''./...'']" "\<not> test_has_mutation ''go'' [''test'', ''./...'']"
    by (simp_all add: is_recognized_test_def test_has_mutation_def mutation_word_def Let_def numeral_eq_Suc)
  let ?i = "mk_inf [''code.test'', ''process.read'', ''fs.read''] ''read'' False False (9/10)
      ''recognized read-only test command''"
  have i: "infer inferrer0 ?p = Inr ?i"
    by (rule infer_code_dispatch)
       (simp_all add: infer_code_def infer_code_test_def infer_test_command_def str_at_def s r sublist_Cons_right)
  from test_command_allowlist [of ?p "''go test ./...''", OF _ _ _ i] r s
  show ?thesis by (simp add: str_at_def)
qed

end
