(* ===== verification/Policy_Engine.thy ===== *)
theory Policy_Engine
  imports Effect_Inference Ops_Rollback
begin

text \<open>
  \<open>internal/agent/policy.go\<close>: from an inference to a decision (run, ask, refuse), with the payload an
  approval shows and the trace that records why. The loop of \<open>Decide\<close> over the effects leaves early
  in two cases; it is the recursive function \<open>decide_effects\<close>.
\<close>

section \<open>Matching effects\<close>

definition effect_pattern_matches :: "string \<Rightarrow> string \<Rightarrow> bool" where
  "effect_pattern_matches pattern0 effect0 =
     (let pat = trim_space pattern0; effect = trim_space effect0 in
      if pat = [] \<or> effect = [] then False
      else if pat = ''*'' \<or> pat = effect then True
      else if has_suffix pat ''.*'' then has_prefix effect (trim_suffix pat ''*'')
      else if pat = ''network.write'' then
        effect \<in> set [''network.post'', ''network.put'', ''network.patch'', ''network.delete'',
          ''webhook.call'', ''email.send'']
      else if pat = ''docker.restart'' then effect = ''container.restart''
      else if pat = ''service.stop'' then has_sub effect ''service.stop''
      else False)"

definition profile_requires_approval :: "policy_profile \<Rightarrow> string \<Rightarrow> bool" where
  "profile_requires_approval profile effect =
     list_ex (\<lambda>p. effect_pattern_matches p effect) (pp_approval_for profile)"

definition profile_denies_effect :: "policy_profile \<Rightarrow> string \<Rightarrow> bool" where
  "profile_denies_effect profile effect =
     list_ex (\<lambda>p. effect_pattern_matches p effect) (pp_deny profile)"

definition effect_needs_approval :: "string \<Rightarrow> bool" where
  "effect_needs_approval effect =
     (if has_sub effect ''sensitive'' \<or> has_sub effect ''env_file'' then True
      else if has_sub effect ''write'' \<or> has_sub effect ''modify'' \<or> has_sub effect ''delete''
        \<or> has_sub effect ''install'' then True
      else if effect \<in> set [''network.post'', ''network.put'', ''network.patch'', ''network.delete''] then True
      else if has_sub effect ''restart'' \<or> has_sub effect ''stop'' \<or> has_sub effect ''kill''
        \<or> has_sub effect ''escalate'' then True
      else False)"

section \<open>Profiles\<close>

definition resolve_profile :: "policy_config \<Rightarrow> tool_proposal \<Rightarrow> policy_profile" where
  "resolve_profile cfg p =
     (let raw = trim_space (str_at (nm (tp_input p)) ''policy_profile'');
          name = (if raw \<noteq> [] then raw else trim_space (pc_active cfg));
          named = (\<lambda>n profile. if pp_name profile = [] then profile\<lparr>pp_name := n\<rparr> else profile)
      in case map_of (pc_profiles cfg) name of
           Some profile \<Rightarrow> named name profile
         | None \<Rightarrow>
             (case map_of (pc_profiles cfg) ''default'' of
                Some profile \<Rightarrow> named ''default'' profile
              | None \<Rightarrow> the (map_of default_policy_profiles ''default'')))"

section \<open>The trace\<close>

definition risk_or_default :: "string \<Rightarrow> string \<Rightarrow> string" where
  "risk_or_default value fallback = (if trim_space value = [] then fallback else value)"

definition effect_signal :: "string \<Rightarrow> string list" where
  "effect_signal effect =
     (if effect = ''unknown.effect'' then [''unknown_effect'']
      else if has_sub effect ''sensitive'' \<or> has_sub effect ''env_file'' then [''sensitive_effect'']
      else if has_sub effect ''write'' \<or> has_sub effect ''modify'' \<or> has_sub effect ''delete''
        \<or> has_sub effect ''install'' then [''mutating_effect'']
      else if has_prefix effect ''network.'' then [''network_effect'']
      else if has_sub effect ''restart'' \<or> has_sub effect ''stop'' \<or> has_sub effect ''kill''
        \<or> has_sub effect ''escalate'' \<or> has_sub effect ''danger'' then [''dangerous_effect'']
      else [])"

definition signals_from_effects :: "string list \<Rightarrow> bool \<Rightarrow> bool \<Rightarrow> string list" where
  "signals_from_effects effects sensitive approval =
     (if sensitive then [''sensitive_resource''] else [])
     @ (if approval then [''tool_profile_requires_approval''] else [])
     @ concat (map effect_signal effects)"

definition uniq_trimmed :: "string list \<Rightarrow> string list" where
  "uniq_trimmed items = uniq_from [] (filter (\<lambda>x. x \<noteq> []) (map trim_space items))"

definition decision_name :: "policy_decision \<Rightarrow> string" where
  "decision_name d =
     (if \<not> pd_allowed d then ''deny'' else if pd_requires d then ''approval_required'' else ''auto_execute'')"

definition build_risk_trace ::
  "tool_proposal \<Rightarrow> inference \<Rightarrow> policy_decision \<Rightarrow> policy_profile \<Rightarrow> risk_trace" where
  "build_risk_trace p i d profile =
     \<lparr>rt_tool = tp_tool p, rt_effects = if_effects i, rt_risk = pd_risk d,
      rt_confidence = if_confidence i,
      rt_signals = uniq_trimmed (if_signals i
        @ signals_from_effects (if_effects i) (if_sensitive i) (if_approval i)
        @ (if pp_name profile \<noteq> [] then [''policy_profile:'' @ pp_name profile] else [])),
      rt_profile = pp_name profile, rt_decision = decision_name d,
      rt_reason = redact_string (pd_reason d)\<rparr>"

section \<open>The approval payload\<close>

definition impact_keys :: "string list" where
  "impact_keys = [''host_id'', ''service'', ''service_name'', ''container'', ''container_id'', ''resource'',
     ''name'', ''namespace'', ''target'']"

definition ops_approval_impact :: "tool_proposal \<Rightarrow> gmap" where
  "ops_approval_impact p =
     (let m = nm (tp_input p); t = tp_tool p in
      concat (map (\<lambda>k. case map_of m k of
                         Some v \<Rightarrow> if v \<noteq> GStr [] then [(k, v)] else [] | None \<Rightarrow> []) impact_keys)
      @ (if has_prefix t ''ops.docker.'' then [(''scope'', GStr ''docker container lifecycle'')]
         else if has_prefix t ''ops.k8s.'' then [(''scope'', GStr ''kubernetes cluster resource'')]
         else if has_prefix t ''ops.ssh.'' then [(''scope'', GStr ''remote ssh host'')]
         else if has_prefix t ''ops.local.'' then [(''scope'', GStr ''local host'')]
         else []))"

definition approval_payload :: "tool_proposal \<Rightarrow> inference \<Rightarrow> policy_profile \<Rightarrow> gmap" where
  "approval_payload p i profile =
     [(''risk_level'', GStr (if_risk i)), (''effects'', GStrs (if_effects i)),
      (''policy_profile'', GStr (pp_name profile))]
     @ (if has_prefix (tp_tool p) ''ops.''
        then [(''operation'', GStr (tp_tool p)), (''impact'', GMap (ops_approval_impact p)),
              (''rollback_plan'', rollback_plan_val (rollback_for_tool (tp_tool p) (tp_input p)))]
             @ (if tp_tool p = ''ops.k8s.apply''
                then [(''manifest_summary'', GMap (manifest_summary (tp_input p)))] else [])
        else [])"

section \<open>Decide\<close>

definition initial_decision :: "policy_config \<Rightarrow> policy_profile \<Rightarrow> inference \<Rightarrow> policy_decision" where
  "initial_decision cfg profile i =
     (let threshold = (if pp_min_conf profile \<le> 0 then pc_min_conf cfg else pp_min_conf profile);
          low = if_confidence i < threshold
      in \<lparr>pd_allowed = True, pd_requires = (low \<or> if_sensitive i \<or> if_approval i),
          pd_risk = if_risk i,
          pd_reason = (if low then ''confidence below auto-execute threshold'' else if_reason i),
          pd_payload = None, pd_profile = pp_name profile, pd_trace = None\<rparr>)"

fun decide_effects ::
  "policy_profile \<Rightarrow> inference \<Rightarrow> policy_decision \<Rightarrow> string list \<Rightarrow> policy_decision" where
  "decide_effects profile i d [] = d"
| "decide_effects profile i d (effect # effects) =
     (if profile_denies_effect profile effect then
        d\<lparr>pd_allowed := False, pd_requires := False, pd_risk := risk_or_default (if_risk i) ''danger'',
          pd_reason := ''effect denied by policy profile''\<rparr>
      else if effect = ''unknown.effect'' then
        d\<lparr>pd_requires := True, pd_risk := ''unknown'', pd_reason := ''unknown effect requires approval''\<rparr>
      else if profile_requires_approval profile effect \<or> effect_needs_approval effect then
        decide_effects profile i (d\<lparr>pd_requires := True\<rparr>) effects
      else decide_effects profile i d effects)"

definition readonly_gate :: "policy_profile \<Rightarrow> policy_decision \<Rightarrow> policy_decision" where
  "readonly_gate profile d =
     (if pd_allowed d \<and> \<not> pp_readonly profile \<and> \<not> pd_requires d
      then d\<lparr>pd_requires := True, pd_reason := ''policy profile disables read-only auto execution''\<rparr>
      else d)"

definition attach_payload ::
  "tool_proposal \<Rightarrow> inference \<Rightarrow> policy_profile \<Rightarrow> policy_decision \<Rightarrow> policy_decision" where
  "attach_payload p i profile d =
     (let trace = build_risk_trace p i d profile in
      d\<lparr>pd_trace := Some trace,
        pd_payload :=
          (if pd_requires d
           then Some (AList.update ''risk_trace'' (risk_trace_val trace)
                  (redact_map (Some (approval_payload p i profile))))
           else None)\<rparr>)"

definition decide :: "policy_config \<Rightarrow> tool_proposal \<Rightarrow> inference \<Rightarrow> policy_decision" where
  "decide cfg p i =
     (let profile = resolve_profile cfg p in
      attach_payload p i profile
        (readonly_gate profile
           (decide_effects profile i (initial_decision cfg profile i) (if_effects i))))"

text \<open>\<open>NewPolicyEngine\<close> normalises the configuration it is given.\<close>

definition new_policy_engine :: "policy_config \<Rightarrow> policy_config" where
  "new_policy_engine cfg = normalize_policy cfg"


section \<open>Verdicts\<close>

definition auto :: "policy_decision \<Rightarrow> bool" where
  "auto d \<longleftrightarrow> pd_allowed d \<and> \<not> pd_requires d"

text \<open>The effects the loop looks at: up to the first \<open>unknown.effect\<close>, that one included.\<close>

fun reached :: "string list \<Rightarrow> string list" where
  "reached [] = []"
| "reached (e # es) = e # (if e = ''unknown.effect'' then [] else reached es)"

definition denied :: "policy_profile \<Rightarrow> string list \<Rightarrow> bool" where
  "denied profile effects = list_ex (profile_denies_effect profile) (reached effects)"

definition effect_asks :: "policy_profile \<Rightarrow> string \<Rightarrow> bool" where
  "effect_asks profile e =
     (e = ''unknown.effect'' \<or> profile_requires_approval profile e \<or> effect_needs_approval e)"

definition threshold :: "policy_config \<Rightarrow> policy_profile \<Rightarrow> rat" where
  "threshold cfg profile = (if pp_min_conf profile \<le> 0 then pc_min_conf cfg else pp_min_conf profile)"

lemma decide_effects_verdict:
  "pd_allowed (decide_effects pr i d es) = (pd_allowed d \<and> \<not> denied pr es)"
  "pd_requires (decide_effects pr i d es) =
     (\<not> denied pr es \<and> (pd_requires d \<or> list_ex (effect_asks pr) es))"
  by (induction es arbitrary: d) (auto simp: denied_def effect_asks_def)

lemma decide_effects_keeps [keeps]:
  "pd_profile (decide_effects pr i d es) = pd_profile d"
  by (induction es arbitrary: d) auto

lemma readonly_gate_verdict:
  "pd_allowed (readonly_gate pr d) = pd_allowed d"
  "pd_requires (readonly_gate pr d) = (pd_requires d \<or> pd_allowed d \<and> \<not> pp_readonly pr)"
  by (auto simp: readonly_gate_def)

lemma attach_payload_verdict:
  "pd_allowed (attach_payload p i pr d) = pd_allowed d"
  "pd_requires (attach_payload p i pr d) = pd_requires d"
  by (simp_all add: attach_payload_def Let_def)

lemma initial_verdict:
  "pd_allowed (initial_decision cfg pr i)"
  "pd_requires (initial_decision cfg pr i) =
     (if_confidence i < threshold cfg pr \<or> if_sensitive i \<or> if_approval i)"
  by (simp_all add: initial_decision_def threshold_def Let_def)

lemmas verdict_simps = attach_payload_verdict readonly_gate_verdict decide_effects_verdict
  initial_verdict

lemma decide_verdict [pipeline_simps]:
  "pd_allowed (decide cfg p i) = (\<not> denied (resolve_profile cfg p) (if_effects i))"
  "pd_requires (decide cfg p i) =
     (\<not> denied (resolve_profile cfg p) (if_effects i) \<and>
      (if_confidence i < threshold cfg (resolve_profile cfg p) \<or> if_sensitive i \<or> if_approval i \<or>
       list_ex (effect_asks (resolve_profile cfg p)) (if_effects i) \<or>
       \<not> pp_readonly (resolve_profile cfg p)))"
  by (auto simp: decide_def Let_def verdict_simps)

lemma effect_requires_iff:
  "effect_requires_approval e \<longleftrightarrow> e = ''unknown.effect'' \<or> effect_needs_approval e"
  by (simp add: effect_requires_approval_def effect_needs_approval_def)

section \<open>Properties\<close>

lemma decide_auto:
  "auto (decide cfg p i) \<longleftrightarrow>
     (let pr = resolve_profile cfg p in
      \<not> denied pr (if_effects i) \<and> threshold cfg pr \<le> if_confidence i \<and>
      \<not> if_sensitive i \<and> \<not> if_approval i \<and> pp_readonly pr \<and>
      list_all (\<lambda>e. e \<noteq> ''unknown.effect'' \<and> \<not> profile_requires_approval pr e \<and>
         \<not> effect_needs_approval e) (if_effects i))"
  by (auto simp: auto_def Let_def decide_verdict list_ex_iff list_all_iff effect_asks_def not_less)

text \<open>C2: a proposal is executed without asking exactly when no effect the loop reaches is denied, the
  confidence reaches the threshold, the inference is neither sensitive nor asks for approval, the profile
  lets read-only tools run, and no effect is unknown, matched by the profile's approval list, or
  mutating by name.\<close>

theorem decide_auto_iff:
  "auto (decide cfg p i) \<longleftrightarrow>
     (let pr = resolve_profile cfg p in
      \<not> denied pr (if_effects i) \<and> threshold cfg pr \<le> if_confidence i \<and>
      \<not> if_sensitive i \<and> \<not> if_approval i \<and> pp_readonly pr \<and>
      list_all (\<lambda>e. e \<noteq> ''unknown.effect'' \<and> \<not> profile_requires_approval pr e \<and>
         \<not> effect_needs_approval e) (if_effects i))"
  by (rule decide_auto)

lemma offline_profile:
  "map_of default_policy_profiles ''offline'' =
     Some \<lparr>pp_name = ''offline'', pp_description = ''Offline mode forbids network writes and remote calls'',
        pp_readonly = True,
        pp_approval_for = [''sensitive_read'', ''fs.write'', ''code.modify'', ''git.write'', ''unknown.effect''],
        pp_deny = [''network.post'', ''network.put'', ''network.patch'', ''network.delete'', ''webhook.call'',
          ''email.send'', ''mcp.remote.call''],
        pp_min_conf = 8/10\<rparr>"
  by (simp add: default_policy_profiles_def)

lemma attach_payload_trace:
  "map_option rt_decision (pd_trace (attach_payload p i pr d)) = Some (decision_name d)"
  "(pd_payload (attach_payload p i pr d) \<noteq> None) = pd_requires d"
  "decision_name (attach_payload p i pr d) = decision_name d"
  by (simp_all add: attach_payload_def build_risk_trace_def decision_name_def Let_def)

lemma decide_trace:
  "map_option rt_decision (pd_trace (decide cfg p i)) = Some (decision_name (decide cfg p i))"
  "(pd_payload (decide cfg p i) \<noteq> None) = pd_requires (decide cfg p i)"
  by (simp_all only: decide_def Let_def attach_payload_trace attach_payload_verdict)

text \<open>A decision never asks about what it refuses, it refuses exactly when the profile denies one
  of the effects up to the first unknown one, its trace names the verdict, and it carries an approval
  payload exactly when it asks.\<close>

theorem decide_deny_iff:
  "(\<not> pd_allowed (decide cfg p i)) = denied (resolve_profile cfg p) (if_effects i) \<and>
   \<not> (\<not> pd_allowed (decide cfg p i) \<and> pd_requires (decide cfg p i)) \<and>
   map_option rt_decision (pd_trace (decide cfg p i)) = Some (decision_name (decide cfg p i)) \<and>
   (pd_payload (decide cfg p i) \<noteq> None) = pd_requires (decide cfg p i)"
  using decide_trace decide_verdict by auto

text \<open>The loop of \<open>Decide\<close> stops at \<open>unknown.effect\<close>, so an effect the profile denies is not
  refused when an unknown one comes before it: whatever follows, the user is asked and may approve it.\<close>

theorem deny_skipped_after_unknown:
  assumes "if_effects i = ''unknown.effect'' # es"
    and "\<not> profile_denies_effect (resolve_profile cfg p) ''unknown.effect''"
  shows "pd_allowed (decide cfg p i) \<and> pd_requires (decide cfg p i)"
  using assms by (simp add: decide_verdict denied_def effect_asks_def)

lemma resolve_named:
  assumes "str_at (nm (tp_input p)) ''policy_profile'' = n" "trim_space n = n" "n \<noteq> []"
    and "map_of (pc_profiles cfg) n = Some pr" "pp_name pr \<noteq> []"
  shows "resolve_profile cfg p = pr"
  using assms by (simp add: resolve_profile_def Let_def)

lemma resolve_offline: "resolve_profile default_policy (prop0 t [(''policy_profile'', GStr ''offline'')]) =
    the (map_of default_policy_profiles ''offline'')"
  by (rule resolve_named [where n = "''offline''"])
     (simp_all add: str_at_def trim_space_def trim_chars_def is_space_def offline_profile default_policy_def)

theorem deny_skipped_after_unknown_witness:
  "let p = prop0 ''skill.run'' [(''policy_profile'', GStr ''offline'')];
       i = mk_inf [''unknown.effect'', ''network.post''] ''unknown'' False True (4/10) []
   in profile_denies_effect (resolve_profile default_policy p) ''network.post'' \<and>
      pd_allowed (decide default_policy p i) \<and> pd_requires (decide default_policy p i)"
proof -
  let ?p = "prop0 ''skill.run'' [(''policy_profile'', GStr ''offline'')]"
  let ?i = "mk_inf [''unknown.effect'', ''network.post''] ''unknown'' False True (4/10) []"
  have d: "profile_denies_effect (resolve_profile default_policy ?p) ''network.post''"
    "\<not> profile_denies_effect (resolve_profile default_policy ?p) ''unknown.effect''"
    by (simp_all add: resolve_offline offline_profile profile_denies_effect_def Let_def
        effect_pattern_matches_def trim_space_def trim_chars_def is_space_def suffix_def)
  have "if_effects ?i = ''unknown.effect'' # [''network.post'']" by simp
  from deny_skipped_after_unknown [OF this d(2)] d(1) show ?thesis by (simp add: Let_def)
qed

text \<open>A profile that disables read-only auto-execution, as the built-in \<open>strict\<close> one does, never
  runs anything unasked, whatever the inference.\<close>

theorem strict_never_auto:
  assumes "pc_profiles cfg = default_policy_profiles"
    and "trim_space (pc_active cfg) = ''strict''"
    and "trim_space (str_at (nm (tp_input p)) ''policy_profile'') \<in> {[], ''strict''}"
  shows "\<not> auto (decide cfg p i)"
proof -
  have "\<not> pp_readonly (resolve_profile cfg p)"
    using assms by (auto simp: resolve_profile_def default_policy_profiles_def Let_def)
  then show ?thesis by (simp add: auto_def decide_verdict)
qed

theorem strict_never_auto_witness:
  "\<not> auto (decide (default_policy\<lparr>pc_active := ''strict''\<rparr>) (prop0 ''git.status'' []) 
     (mk_inf [''read'', ''git.read''] ''read'' False False (95/100) ''read-only git command''))"
  by (rule strict_never_auto)
     (simp_all add: default_policy_def str_at_def trim_space_def trim_chars_def is_space_def)


lemma infer_git_status: "infer inferrer0 (prop0 ''git.status'' []) =
    Inr (mk_inf [''read'', ''git.read''] ''read'' False False (95/100) ''read-only git command'')"
  by (simp add: infer_def infer_code_def infer_memory_def infer_git_def or_else_def)

lemma normalize_default: "new_policy_engine default_policy = default_policy"
  by (simp add: new_policy_engine_def normalize_policy_def default_policy_def default_policy_profiles_def
      normalize_profile_def normalize_network_def default_network_def)

lemma default_profile:
  "map_of default_policy_profiles ''default'' =
     Some \<lparr>pp_name = ''default'', pp_description = ''Default local development policy'', pp_readonly = True,
        pp_approval_for = [''sensitive_read'', ''fs.write'', ''code.modify'', ''git.write'',
          ''service.restart'', ''process.kill'', ''network.post'', ''network.put'', ''network.patch'',
          ''network.delete'', ''unknown.effect''],
        pp_deny = [], pp_min_conf = 75/100\<rparr>"
  by (simp add: default_policy_profiles_def)

lemma resolve_default: "resolve_profile default_policy (prop0 t []) =
    the (map_of default_policy_profiles ''default'')"
  by (simp add: resolve_profile_def Let_def str_at_def trim_space_def trim_chars_def is_space_def
      default_policy_def default_profile)

lemma auto_git_status:
  "auto (decide default_policy (prop0 ''git.status'' [])
     (mk_inf [''read'', ''git.read''] ''read'' False False (95/100) ''read-only git command''))"
proof -
  have n: "\<not> effect_needs_approval ''read''" "\<not> effect_needs_approval ''git.read''"
    using effect_requires_approval_benign by (auto simp: effect_requires_iff)
  show ?thesis
    unfolding decide_auto
    by (simp add: resolve_default default_profile Let_def n threshold_def denied_def
        profile_denies_effect_def profile_requires_approval_def effect_pattern_matches_def
        trim_space_def trim_chars_def is_space_def suffix_def)
qed


end
