(* ===== verification/Id_Source.thy ===== *)
theory Id_Source
  imports Core_Types
begin

text \<open>
  Where identifiers and times come from: \<open>ids.New\<close> of \<open>internal/ids\<close> draws four random bytes and reads
  the clock. The two sources are functions of how often they were used, so a run is a function of them
  and nothing is assumed of the values drawn. A time is a number of nanoseconds.
\<close>

record id_source =
  sp_clock :: "nat \<Rightarrow> time"
  sp_reads :: nat
  sp_rand :: "nat \<Rightarrow> nat list"
  sp_draws :: nat

definition now :: "id_source \<Rightarrow> time \<times> id_source" where
  "now s = (sp_clock s (sp_reads s), s\<lparr>sp_reads := Suc (sp_reads s)\<rparr>)"

definition unix_milli :: "time \<Rightarrow> int" where
  "unix_milli t = t div 1000000"

definition ids_new :: "string \<Rightarrow> id_source \<Rightarrow> string \<times> id_source" where
  "ids_new pre s =
     (let buf = sp_rand s (sp_draws s);
          (t, s') = now (s\<lparr>sp_draws := Suc (sp_draws s)\<rparr>)
      in (pre @ ''_'' @ show_int (unix_milli t) @ ''_'' @ hex_bytes buf, s'))"

text \<open>\<open>ProposalToolAdapter.NewProposal\<close> of \<open>internal/einoapp/tools_adapter.go\<close>.\<close>

definition new_proposal ::
  "string \<Rightarrow> nmap \<Rightarrow> string \<Rightarrow> string list \<Rightarrow> id_source \<Rightarrow> tool_proposal \<times> id_source" where
  "new_proposal tool input purpose expected s =
     (let (pid, s1) = ids_new ''tool'' s; (t, s2) = now s1
      in (\<lparr>tp_id = pid, tp_tool = tool, tp_input = Some (clone_map input), tp_purpose = purpose,
           tp_expected = expected, tp_created = t\<rparr>, s2))"

lemma ids_new_prefix: "has_prefix (fst (ids_new p s)) (p @ ''_'')"
  by (simp add: ids_new_def now_def Let_def)

lemma ids_new_nonempty [simp]: "fst (ids_new p s) \<noteq> []"
  by (simp add: ids_new_def now_def Let_def)

lemma ids_new_Pair_nonempty: "ids_new p s = (x, s') \<Longrightarrow> x \<noteq> []"
  using ids_new_nonempty [of p s] by simp

lemma new_proposal_fields:
  "tp_tool (fst (new_proposal t m u e s)) = t"
  "tp_input (fst (new_proposal t m u e s)) = Some (clone_map m)"
  "tp_expected (fst (new_proposal t m u e s)) = e"
  "tp_purpose (fst (new_proposal t m u e s)) = u"
  by (simp_all add: new_proposal_def now_def ids_new_def Let_def)

end
