(* ===== verification/Approval.thy ===== *)
theory Approval
  imports Policy_Engine Id_Source Messages
begin

text \<open>
  \<open>internal/agent/approval.go\<close>: the approval centre, a map from ids to records guarded by a mutex, so
  each operation is one atomic step on it. A record keeps the snapshot of the tool input that was shown
  to the user and its digest. Copies returned to callers are deep (\<open>cloneApproval\<close>).
\<close>

type_synonym approvals = "(string \<times> approval_record) list"

section \<open>The input snapshot\<close>

definition approval_string_slice :: "gval option \<Rightarrow> string list" where
  "approval_string_slice raw =
     (case raw of
        Some (GStrs xs) \<Rightarrow> xs
      | Some (GList vs) \<Rightarrow> concat (map (\<lambda>v. case v of GStr s \<Rightarrow> [s] | _ \<Rightarrow> []) vs)
      | _ \<Rightarrow> [])"

definition append_pathspec :: "string list \<Rightarrow> string list \<Rightarrow> string list" where
  "append_pathspec args paths = (if paths = [] then args else args @ [''--''] @ paths)"

definition git_approval_args :: "string \<Rightarrow> gmap \<Rightarrow> string list" where
  "git_approval_args operation input =
     (let paths = approval_string_slice (map_of input ''paths'') in
      if operation = ''status'' then append_pathspec [''status'', ''--short'', ''--branch''] paths
      else if operation = ''diff'' then append_pathspec [''diff''] paths
      else if operation = ''log'' then [''log'', ''--oneline'', ''-n'', ''20'']
      else if operation = ''branch'' then [''branch'', ''--show-current'']
      else if operation = ''add'' then append_pathspec [''add''] paths
      else if operation = ''commit'' then [''commit'', ''-m'', str_at input ''message'']
      else if operation = ''restore'' then append_pathspec [''restore''] paths
      else if operation = ''clean'' then append_pathspec [''clean'', ''-fd''] paths
      else [])"

definition normalized_approval_input :: "tool_proposal \<Rightarrow> gmap" where
  "normalized_approval_input p =
     (let snapshot = clone_map (tp_input p) in
      if \<not> has_prefix (tp_tool p) ''git.'' then snapshot
      else
        let args = git_approval_args (trim_prefix (tp_tool p) ''git.'') snapshot;
            s1 = (if args \<noteq> []
                  then AList.update ''command'' (GStr (''git '' @ join '' '' args))
                         (AList.update ''args'' (GList (map GStr args)) snapshot)
                  else snapshot)
        in if map_of s1 ''workspace'' = None then AList.update ''workspace'' (GStr ''.'') s1 else s1)"

section \<open>What the user is shown\<close>

definition risk_text :: "string \<Rightarrow> inference \<Rightarrow> string" where
  "risk_text prep i = prep @ if_risk i @ zh_stop"

definition ops_approval_target :: "gmap \<Rightarrow> string" where
  "ops_approval_target m =
     (case filter (\<lambda>k. str_at m k \<noteq> [])
        [''service'', ''service_name'', ''container'', ''container_id'', ''target'', ''name'', ''resource''] of
        [] \<Rightarrow> [] | k # _ \<Rightarrow> str_at m k)"

definition tool_summary :: "tool_proposal \<Rightarrow> inference \<Rightarrow> string" where
  "tool_summary p i = risk_text (zh_prepare @ tp_tool p @ zh_risk_tail) i"

definition code_summary :: "tool_proposal \<Rightarrow> inference \<Rightarrow> string option" where
  "code_summary p i =
     (let t = tp_tool p; m = nm (tp_input p) in
      if t = ''shell.exec'' then
        map_option (\<lambda>c. risk_text (zh_prepare_shell @ c @ zh_risk_tail) i) (str_opt m ''command'')
      else if t = ''code.apply_patch'' then
        (case str_opt m ''path'' of
           Some path \<Rightarrow> Some (zh_prepare_file @ path @ zh_tick_stop)
         | None \<Rightarrow>
             (case map_of m ''files'' of
                Some (GList fs) \<Rightarrow>
                  if fs \<noteq> [] then Some (zh_prepare_files @ show_nat (length fs) @ zh_files_stop) else None
              | _ \<Rightarrow> None))
      else if t = ''code.run_tests'' then
        Some (if str_at m ''command'' \<noteq> []
              then risk_text (zh_prepare_test @ str_at m ''command'' @ zh_risk_tail) i
              else risk_text zh_prepare_detected i)
      else None)"

definition git_summary :: "tool_proposal \<Rightarrow> inference \<Rightarrow> string option" where
  "git_summary p i =
     (let t = tp_tool p; m = nm (tp_input p) in
      if t \<in> set [''git.add'', ''git.restore'', ''git.clean''] then
        (case map_of m ''paths'' of
           Some (GList ps) \<Rightarrow>
             Some (if ps \<noteq> []
                   then risk_text (zh_prepare @ t @ zh_affects @ show_nat (length ps) @ zh_paths_risk) i
                   else tool_summary p i)
         | _ \<Rightarrow> Some (tool_summary p i))
      else if t = ''git.commit'' then
        Some (if str_at m ''message'' \<noteq> []
              then zh_prepare_commit_msg @ str_at m ''message'' @ zh_tick_stop
              else risk_text zh_prepare_commit i)
      else None)"

definition memory_summary :: "tool_proposal \<Rightarrow> string option" where
  "memory_summary p =
     (let t = tp_tool p; m = nm (tp_input p) in
      if t = ''memory.patch'' then
        map_option (\<lambda>path. zh_prepare_memory @ path @ zh_tick_stop) (str_opt m ''path'')
      else if t = ''memory.extract_candidates'' then Some zh_memory_queue
      else if t = ''memory.item_create'' then Some zh_memory_create
      else if t = ''memory.item_update'' then
        map_option (\<lambda>x. zh_memory_update @ x @ zh_tick_stop) (str_opt m ''id'')
      else if t \<in> set [''memory.item_archive'', ''memory.item_restore'', ''memory.item_delete''] then
        map_option (\<lambda>x. zh_prepare @ t @ zh_memory_target @ x @ zh_tick_stop) (str_opt m ''id'')
      else None)"

definition service_summary :: "tool_proposal \<Rightarrow> inference \<Rightarrow> string option" where
  "service_summary p i =
     (let t = tp_tool p; m = nm (tp_input p) in
      if t = ''skill.run'' then
        map_option (\<lambda>s. risk_text (zh_prepare_skill @ s @ zh_risk_tail) i) (str_opt m ''skill_id'')
      else if t = ''mcp.call_tool'' then
        (if str_at m ''server_id'' \<noteq> [] \<and> str_at m ''tool_name'' \<noteq> []
         then Some (risk_text (zh_prepare_mcp @ str_at m ''server_id'' @ ''/'' @ str_at m ''tool_name''
                     @ zh_risk_tail) i)
         else None)
      else if has_prefix t ''ops.'' then
        Some (if ops_approval_target m \<noteq> []
              then risk_text (zh_prepare_ops @ t @ zh_ops_target @ ops_approval_target m @ zh_risk_tail) i
              else risk_text (zh_prepare_ops @ t @ zh_risk_tail) i)
      else None)"

definition approval_summary :: "tool_proposal \<Rightarrow> inference \<Rightarrow> string" where
  "approval_summary p i =
     (case or_else (code_summary p i) (or_else (git_summary p i)
             (or_else (memory_summary p) (service_summary p i))) of
        Some s \<Rightarrow> s
      | None \<Rightarrow> tool_summary p i)"

definition unique_strings :: "string list \<Rightarrow> string list" where
  "unique_strings items = uniq_from [] (filter (\<lambda>x. trim_space x \<noteq> []) items)"

definition target_keys :: "string list" where
  "target_keys = [''path'', ''workspace'', ''service'', ''service_name'', ''container'', ''container_id'',
     ''resource'', ''name'', ''namespace'', ''target'', ''host_id'', ''manifest_path'']"

definition affected_targets :: "tool_proposal \<Rightarrow> string list" where
  "affected_targets p =
     (let m = nm (tp_input p) in
      unique_strings
        (concat (map (\<lambda>k. if trim_space (str_at m k) \<noteq> [] then [k @ ''='' @ redact_string (str_at m k)] else [])
           target_keys)
         @ concat (map (\<lambda>x. if trim_space x \<noteq> [] then [''path='' @ redact_string x] else [])
             (approval_string_slice (map_of m ''paths'')))
         @ (case map_of m ''files'' of
              Some (GList fs) \<Rightarrow>
                concat (map (\<lambda>f. case f of
                    GMap fm \<Rightarrow> if str_at fm ''path'' \<noteq> [] then [''path='' @ redact_string (str_at fm ''path'')] else []
                  | _ \<Rightarrow> []) fs)
            | _ \<Rightarrow> [])))"

definition approval_safety_notes :: "tool_proposal \<Rightarrow> inference \<Rightarrow> policy_decision \<Rightarrow> string list" where
  "approval_safety_notes p i d =
     [''Execution will use only the approved input_snapshot and snapshot_hash.'']
     @ (if if_sensitive i
        then [''Sensitive resources are involved; logs and API responses are redacted.''] else [])
     @ (if pd_profile d \<noteq> [] then [''Policy profile: '' @ pd_profile d] else [])
     @ (if tp_tool p = ''git.clean'' \<or> has_sub (if_risk i) ''danger''
        then [''This operation may be destructive or hard to roll back.''] else [])
     @ (if tp_tool p = ''skill.run'' \<and> has_sub (to_lower (if_reason i)) ''fallback''
        then [''Sandbox fallback requires explicit approval.''] else [])"

definition any_to_map :: "gval \<Rightarrow> nmap" where
  "any_to_map v =
     (case v of
        GMap m \<Rightarrow> Some (clone_map (Some m))
      | _ \<Rightarrow> if marshalable v
             then (case json_norm v of GMap m \<Rightarrow> Some m | _ \<Rightarrow> None) else None)"

definition approval_explanation :: "tool_proposal \<Rightarrow> inference \<Rightarrow> policy_decision \<Rightarrow> explanation" where
  "approval_explanation p i d =
     (let why = redact_string (pd_reason d) in
      \<lparr>ex_summary = redact_string (approval_summary p i),
       ex_why = (if trim_space why = [] then redact_string (if_reason i) else why),
       ex_effects = if_effects i, ex_risk = if_risk i, ex_targets = affected_targets p,
       ex_rollback = (case map_of (nm (pd_payload d)) ''rollback_plan'' of
                        Some r \<Rightarrow> any_to_map (redact_any r) | None \<Rightarrow> None),
       ex_notes = approval_safety_notes p i d\<rparr>)"

section \<open>Operations\<close>

definition clone_decision_payload :: "policy_decision \<Rightarrow> policy_decision" where
  "clone_decision_payload d =
     d\<lparr>pd_payload := map_option (\<lambda>m. clone_map (Some m)) (pd_payload d)\<rparr>"

definition clone_approval :: "approval_record \<Rightarrow> approval_record" where
  "clone_approval r =
     r\<lparr>ap_proposal := (ap_proposal r)\<lparr>tp_input := Some (clone_map (tp_input (ap_proposal r)))\<rparr>,
       ap_snapshot := Some (clone_map (ap_snapshot r)),
       ap_decision := clone_decision_payload (ap_decision r),
       ap_explanation := map_option (\<lambda>e. e\<lparr>ex_rollback := Some (clone_map (ex_rollback e))\<rparr>)
         (ap_explanation r)\<rparr>"

definition pending_record ::
  "string \<Rightarrow> string \<Rightarrow> tool_proposal \<Rightarrow> inference \<Rightarrow> policy_decision \<Rightarrow> string \<Rightarrow> string \<Rightarrow> time
     \<Rightarrow> approval_record" where
  "pending_record run conv p i d aid h t =
     (let snapshot = normalized_approval_input p in
      \<lparr>ap_id = aid, ap_run = run, ap_conv = conv,
       ap_proposal = p\<lparr>tp_input := Some (clone_map (Some snapshot))\<rparr>,
       ap_inference = i, ap_decision = d, ap_snapshot = Some snapshot, ap_hash = h,
       ap_summary = redact_string (approval_summary p i),
       ap_explanation = Some (approval_explanation p i d),
       ap_status = ApprovalPending, ap_reason = [], ap_created = t, ap_resolved = None\<rparr>)"

definition approval_create ::
  "string \<Rightarrow> string \<Rightarrow> tool_proposal \<Rightarrow> inference \<Rightarrow> policy_decision \<Rightarrow> id_source \<times> approvals
     \<Rightarrow> approval_record res \<times> id_source \<times> approvals" where
  "approval_create run conv p i d c =
     (case hash_map (Some (normalized_approval_input p)) of
        Inl e \<Rightarrow> (Inl e, c)
      | Inr h \<Rightarrow>
          (let (aid, s1) = ids_new ''apr'' (fst c);
               (t, s2) = now s1;
               record = pending_record run conv p i d aid h t
           in (Inr (clone_approval record), s2, AList.update aid record (snd c))))"

definition approval_get :: "string \<Rightarrow> approvals \<Rightarrow> approval_record res" where
  "approval_get aid as =
     (case map_of as aid of
        None \<Rightarrow> Inl ErrApprovalNotFound
      | Some r \<Rightarrow> Inr (clone_approval r))"

definition approval_pending :: "approvals \<Rightarrow> approval_record list" where
  "approval_pending as =
     map clone_approval (filter (\<lambda>r. ap_status r = ApprovalPending) (map snd (AList.clearjunk as)))"

definition resolved_record :: "bool \<Rightarrow> string \<Rightarrow> time \<Rightarrow> approval_record \<Rightarrow> approval_record" where
  "resolved_record approved reason t r =
     r\<lparr>ap_resolved := Some t, ap_reason := reason,
       ap_status := (if approved then ApprovalApproved else ApprovalRejected)\<rparr>"

definition approval_resolve ::
  "string \<Rightarrow> bool \<Rightarrow> string \<Rightarrow> id_source \<times> approvals \<Rightarrow> approval_record res \<times> id_source \<times> approvals" where
  "approval_resolve aid approved reason c =
     (case map_of (snd c) aid of
        None \<Rightarrow> (Inl ErrApprovalNotFound, c)
      | Some r \<Rightarrow>
          if ap_status r \<noteq> ApprovalPending
          then (Inl (Err (''approval '' @ aid @ '' already resolved'')), c)
          else
            (let (t, s) = now (fst c); r' = resolved_record approved reason t r
             in (Inr (clone_approval r'), s, AList.update aid r' (snd c))))"

definition approval_approve ::
  "string \<Rightarrow> id_source \<times> approvals \<Rightarrow> approval_record res \<times> id_source \<times> approvals" where
  "approval_approve aid c = approval_resolve aid True [] c"

definition approval_reject ::
  "string \<Rightarrow> string \<Rightarrow> id_source \<times> approvals \<Rightarrow> approval_record res \<times> id_source \<times> approvals" where
  "approval_reject aid reason c = approval_resolve aid False reason c"

definition snapshot_matches :: "string \<Rightarrow> tool_proposal \<Rightarrow> approvals \<Rightarrow> bool res" where
  "snapshot_matches aid p as =
     (case approval_get aid as of
        Inl e \<Rightarrow> Inl e
      | Inr r \<Rightarrow>
          Inr (if tp_tool (ap_proposal r) \<noteq> tp_tool p then False
               else maps_equal (ap_snapshot r) (tp_input p)))"

definition verify_snapshot_hash :: "string \<Rightarrow> approvals \<Rightarrow> unit res" where
  "verify_snapshot_hash aid as =
     (case map_of as aid of
        None \<Rightarrow> Inl (Err ''approval not found'')
      | Some r \<Rightarrow>
          (case hash_map (ap_snapshot r) of
             Inl e \<Rightarrow> Inl e
           | Inr h \<Rightarrow>
               if h \<noteq> ap_hash r
               then Inl (Err (''approval '' @ aid @ '' input snapshot hash mismatch''))
               else Inr ()))"

definition approval_hydrate :: "approval_record \<Rightarrow> approvals \<Rightarrow> unit res \<times> approvals" where
  "approval_hydrate r as =
     (if ap_id r = [] then (Inl (Err ''approval id is required''), as)
      else (Inr (), AList.update (ap_id r) (clone_approval r) as))"


section \<open>Helper lemmas\<close>

lemma clone_approval_sel [simp]:
  "ap_id (clone_approval r) = ap_id r" "ap_run (clone_approval r) = ap_run r"
  "ap_conv (clone_approval r) = ap_conv r" "ap_hash (clone_approval r) = ap_hash r"
  "ap_status (clone_approval r) = ap_status r" "ap_inference (clone_approval r) = ap_inference r"
  "ap_snapshot (clone_approval r) = Some (clone_map (ap_snapshot r))"
  "ap_summary (clone_approval r) = ap_summary r" "ap_reason (clone_approval r) = ap_reason r"
  "tp_tool (ap_proposal (clone_approval r)) = tp_tool (ap_proposal r)"
  "tp_id (ap_proposal (clone_approval r)) = tp_id (ap_proposal r)"
  by (simp_all add: clone_approval_def)

lemma clone_approval_idem [simp]: "clone_approval (clone_approval r) = clone_approval r"
  by (simp add: clone_approval_def clone_decision_payload_def option.map_comp comp_def)

lemma approval_get_Inr:
  "approval_get x as = Inr r \<longleftrightarrow> (\<exists>q. map_of as x = Some q \<and> r = clone_approval q)"
  by (auto simp: approval_get_def split: option.splits)

lemma approval_get_update:
  "approval_get x (AList.update y r as) = (if x = y then Inr (clone_approval r) else approval_get x as)"
  by (simp add: approval_get_def update_conv')

lemma pending_record_sel [simp]:
  "ap_id (pending_record run conv p i d aid h t) = aid"
  "ap_run (pending_record run conv p i d aid h t) = run"
  "ap_conv (pending_record run conv p i d aid h t) = conv"
  "ap_status (pending_record run conv p i d aid h t) = ApprovalPending"
  "ap_hash (pending_record run conv p i d aid h t) = h"
  "ap_inference (pending_record run conv p i d aid h t) = i"
  "ap_decision (pending_record run conv p i d aid h t) = d"
  "ap_snapshot (pending_record run conv p i d aid h t) = Some (normalized_approval_input p)"
  "ap_proposal (pending_record run conv p i d aid h t) =
     p\<lparr>tp_input := Some (clone_map (Some (normalized_approval_input p)))\<rparr>"
  by (simp_all add: pending_record_def Let_def)

lemma approval_create_Inr:
  assumes "approval_create run conv p i d c = (Inr r, c')"
  obtains aid h t where "r = clone_approval (pending_record run conv p i d aid h t)"
    "snd c' = AList.update aid (pending_record run conv p i d aid h t) (snd c)"
    "aid = fst (ids_new ''apr'' (fst c))" "hash_map (Some (normalized_approval_input p)) = Inr h"
  using assms
  by (auto simp: approval_create_def Let_def case_prod_unfold split: sum.splits)

lemma approval_create_Inl:
  "approval_create run conv p i d c = (Inl e, c') \<Longrightarrow> c' = c"
  by (auto simp: approval_create_def Let_def case_prod_unfold split: sum.splits)

lemma approval_resolve_Inl: "approval_resolve x b m c = (Inl e, c') \<Longrightarrow> c' = c"
  by (auto simp: approval_resolve_def Let_def case_prod_unfold split: option.splits if_splits)

lemma resolved_record_sel [simp]:
  "ap_id (resolved_record b m t r) = ap_id r" "ap_run (resolved_record b m t r) = ap_run r"
  "ap_conv (resolved_record b m t r) = ap_conv r" "ap_hash (resolved_record b m t r) = ap_hash r"
  "ap_snapshot (resolved_record b m t r) = ap_snapshot r"
  "ap_proposal (resolved_record b m t r) = ap_proposal r"
  "ap_inference (resolved_record b m t r) = ap_inference r"
  "ap_decision (resolved_record b m t r) = ap_decision r"
  "ap_status (resolved_record b m t r) = (if b then ApprovalApproved else ApprovalRejected)"
  by (simp_all add: resolved_record_def)

lemma approval_resolve_Inr:
  assumes "approval_resolve x b m c = (Inr r, c')"
  obtains q t where "map_of (snd c) x = Some q" "ap_status q = ApprovalPending"
    "r = clone_approval (resolved_record b m t q)"
    "snd c' = AList.update x (resolved_record b m t q) (snd c)"
  using assms
  by (auto simp: approval_resolve_def Let_def case_prod_unfold split: option.splits if_splits)

section \<open>The interface the router and the runtime rely on\<close>

text \<open>
  The contract of \<open>tools.ApprovalCenter\<close>: what was created can be read back and is open, a
  resolution is visible and closes the request, a closed request cannot be resolved again, and
  resolving one request leaves the others alone.
\<close>

locale approval_service =
  fixes create :: "'q \<Rightarrow> 's \<Rightarrow> 'r res \<times> 's"
    and get :: "string \<Rightarrow> 's \<Rightarrow> 'r res"
    and resolve :: "string \<Rightarrow> bool \<Rightarrow> string \<Rightarrow> 's \<Rightarrow> 'r res \<times> 's"
    and ident :: "'r \<Rightarrow> string"
    and is_open :: "'r \<Rightarrow> bool"
  assumes create_get: "create q s = (Inr r, s') \<Longrightarrow> get (ident r) s' = Inr r \<and> is_open r"
    and resolve_get: "resolve x b m s = (Inr r, s') \<Longrightarrow> get x s' = Inr r \<and> \<not> is_open r"
    and resolve_closed: "get x s = Inr r \<Longrightarrow> \<not> is_open r \<Longrightarrow> snd (resolve x b m s) = s"
    and resolve_other: "y \<noteq> x \<Longrightarrow> get y (snd (resolve x b m s)) = get y s"
begin

abbreviation resolve_all :: "(string \<times> bool \<times> string) list \<Rightarrow> 's \<Rightarrow> 's" where
  "resolve_all rs s \<equiv> fold (\<lambda>(x, b, m) s. snd (resolve x b m s)) rs s"

lemma closed_step:
  assumes "get x s = Inr r" "\<not> is_open r"
  shows "get x (snd (resolve y b m s)) = Inr r"
proof (cases "y = x")
  case True
  with assms show ?thesis by (simp add: resolve_closed)
next
  case False
  with assms show ?thesis by (simp add: resolve_other)
qed

lemma closed_is_final:
  "get x s = Inr r \<Longrightarrow> \<not> is_open r \<Longrightarrow> get x (resolve_all rs s) = Inr r"
  by (induction rs arbitrary: s) (auto simp: closed_step)

lemma resolution_is_final:
  assumes "resolve x b m s = (Inr r, s')"
  shows "get x (resolve_all rs s') = Inr r"
  using resolve_get [OF assms] closed_is_final by blast

lemma others_untouched:
  "\<forall>q \<in> set rs. fst q \<noteq> x \<Longrightarrow> get x (resolve_all rs s) = get x s"
  by (induction rs arbitrary: s) (auto simp: resolve_other)

end

type_synonym create_args = "string \<times> string \<times> tool_proposal \<times> inference \<times> policy_decision"

interpretation center: approval_service
  "\<lambda>(run, conv, p, i, d). approval_create run conv p i d"
  "\<lambda>x c. approval_get x (snd c)" approval_resolve ap_id "\<lambda>r. ap_status r = ApprovalPending"
proof (unfold_locales, goal_cases)
  case (1 q s r s')
  then show ?case
    by (cases q) (auto elim!: approval_create_Inr simp: approval_get_update)
next
  case (2 x b m s r s')
  then show ?case
    by (elim approval_resolve_Inr) (simp add: approval_get_update)
next
  case (3 x s r b m)
  then show ?case by (auto simp: approval_get_Inr approval_resolve_def)
next
  case (4 y x b m s)
  then show ?case
    by (auto simp: approval_resolve_def approval_get_update Let_def case_prod_unfold split: option.split)
qed


section \<open>The life of a request\<close>

inductive center_step :: "id_source \<times> approvals \<Rightarrow> id_source \<times> approvals \<Rightarrow> bool" where
  step_create:
    "approval_create run conv p i d c = (r, c') \<Longrightarrow>
     map_of (snd c) (fst (ids_new ''apr'' (fst c))) = None \<Longrightarrow> center_step c c'"
| step_resolve: "approval_resolve x b m c = (r, c') \<Longrightarrow> center_step c c'"
| step_hydrate:
    "map_of (snd c) (ap_id q) = None \<Longrightarrow> ap_snapshot q = Some kvs \<Longrightarrow> struct_free (GMap kvs) \<Longrightarrow>
     hash_map (ap_snapshot q) = Inr (ap_hash q) \<Longrightarrow>
     approval_hydrate q (snd c) = (u, as) \<Longrightarrow> center_step c (fst c, as)"

inductive_cases center_stepE: "center_step c c'"

definition same_request :: "approval_record \<Rightarrow> approval_record \<Rightarrow> bool" where
  "same_request q r \<longleftrightarrow>
     ap_id r = ap_id q \<and> ap_run r = ap_run q \<and> ap_conv r = ap_conv q \<and>
     ap_proposal r = ap_proposal q \<and> ap_snapshot r = ap_snapshot q \<and> ap_hash r = ap_hash q \<and>
     ap_inference r = ap_inference q \<and> ap_decision r = ap_decision q"

definition evolves :: "approval_record \<Rightarrow> approval_record \<Rightarrow> bool" where
  "evolves q r \<longleftrightarrow> same_request q r \<and> (ap_status q \<noteq> ApprovalPending \<longrightarrow> r = q)"

lemma evolves_refl [simp]: "evolves q q"
  by (simp add: evolves_def same_request_def)

lemma evolves_trans: "evolves p q \<Longrightarrow> evolves q r \<Longrightarrow> evolves p r"
  by (auto simp: evolves_def same_request_def)

lemma evolves_resolved: "ap_status q = ApprovalPending \<Longrightarrow> evolves q (resolved_record b m t q)"
  by (simp add: evolves_def same_request_def)

lemma approval_create_evolves:
  assumes "approval_create run conv p i d c = (r, c')" "map_of (snd c) x = Some q"
    and "map_of (snd c) (fst (ids_new ''apr'' (fst c))) = None"
  shows "map_of (snd c') x = Some q"
  using assms
  by (cases r) (auto elim!: approval_create_Inr dest!: approval_create_Inl simp: update_conv')

lemma approval_resolve_evolves:
  assumes "approval_resolve y b m c = (r, c')" "map_of (snd c) x = Some q"
  shows "\<exists>q'. map_of (snd c') x = Some q' \<and> evolves q q'"
  using assms
  by (cases r)
     (auto elim!: approval_resolve_Inr dest!: approval_resolve_Inl simp: update_conv' evolves_resolved)

lemma approval_hydrate_evolves:
  assumes "approval_hydrate r as = (u, as')" "map_of as (ap_id r) = None" "map_of as x = Some q"
  shows "map_of as' x = Some q"
  using assms by (auto simp: approval_hydrate_def update_conv' split: if_splits)

lemma center_step_evolves:
  assumes "center_step c c'" "map_of (snd c) x = Some q"
  shows "\<exists>q'. map_of (snd c') x = Some q' \<and> evolves q q'"
  using assms(1)
proof (cases rule: center_step.cases)
  case (step_create run conv p i d r)
  then show ?thesis
    using approval_create_evolves [OF step_create(1) assms(2)] by (auto intro: exI [of _ q])
next
  case (step_resolve y b m r)
  then show ?thesis using approval_resolve_evolves assms(2) by blast
next
  case (step_hydrate r kvs u as)
  then show ?thesis
    using approval_hydrate_evolves assms(2) by (auto intro: exI [of _ q])
qed

definition center_ok :: "id_source \<times> approvals \<Rightarrow> bool" where
  "center_ok c \<longleftrightarrow>
     (\<forall>x q. map_of (snd c) x = Some q \<longrightarrow> ap_id q = x \<and> hash_map (ap_snapshot q) = Inr (ap_hash q))"

lemma center_ok_update:
  "center_ok (s, as) \<Longrightarrow> hash_map (ap_snapshot q) = Inr (ap_hash q) \<Longrightarrow>
     center_ok (s', AList.update (ap_id q) q as)"
  by (auto simp: center_ok_def update_conv')

lemma center_ok_irrelevant: "center_ok (s, as) \<Longrightarrow> center_ok (s', as)"
  by (simp add: center_ok_def)

lemma approval_create_ok:
  assumes "approval_create run conv p i d (s, as) = (r, s', as')" "center_ok (s, as)"
  shows "center_ok (s', as')"
proof (cases r)
  case (Inl e)
  with assms show ?thesis by (auto dest: approval_create_Inl)
next
  case (Inr a)
  with assms(1) obtain aid h t where
    "as' = AList.update aid (pending_record run conv p i d aid h t) as"
    "hash_map (Some (normalized_approval_input p)) = Inr h"
    by (auto elim: approval_create_Inr)
  with center_ok_update [OF assms(2), of "pending_record run conv p i d aid h t" s'] show ?thesis
    by simp
qed

lemma approval_resolve_ok:
  assumes "approval_resolve x b m (s, as) = (r, s', as')" "center_ok (s, as)"
  shows "center_ok (s', as')"
proof (cases r)
  case (Inl e)
  with assms show ?thesis by (auto dest: approval_resolve_Inl)
next
  case (Inr a)
  with assms(1) obtain q t where q: "map_of as x = Some q"
    "as' = AList.update x (resolved_record b m t q) as"
    by (auto elim: approval_resolve_Inr)
  moreover from q(1) assms(2) have "ap_id q = x" "hash_map (ap_snapshot q) = Inr (ap_hash q)"
    by (auto simp: center_ok_def)
  ultimately show ?thesis
    using center_ok_update [OF assms(2), of "resolved_record b m t q" s'] by simp
qed

lemma approval_hydrate_ok:
  assumes "approval_hydrate q as = (u, as')" "center_ok (s, as)"
    and "ap_snapshot q = Some kvs" "struct_free (GMap kvs)" "hash_map (ap_snapshot q) = Inr (ap_hash q)"
  shows "center_ok (s, as')"
proof (cases "ap_id q = []")
  case True
  with assms(1,2) show ?thesis by (simp add: approval_hydrate_def)
next
  case False
  have "hash_map (ap_snapshot (clone_approval q)) = Inr (ap_hash (clone_approval q))"
    using assms(3-5) by (simp add: hash_clone_map)
  from center_ok_update [OF assms(2) this, of s] False assms(1) show ?thesis
    by (auto simp: approval_hydrate_def)
qed

lemma center_step_ok: "center_step c c' \<Longrightarrow> center_ok c \<Longrightarrow> center_ok c'"
  by (induction rule: center_step.induct)
     (metis approval_create_ok approval_resolve_ok approval_hydrate_ok prod.collapse)+

lemma center_steps_ok: "center_step\<^sup>*\<^sup>* c c' \<Longrightarrow> center_ok c \<Longrightarrow> center_ok c'"
  by (induction rule: rtranclp_induct) (auto dest: center_step_ok)


section \<open>Properties\<close>


definition source0 :: id_source where
  "source0 = \<lparr>sp_clock = (\<lambda>n. int n * 1000000), sp_reads = 0, sp_rand = (\<lambda>n. [n, 0, 0, 0]), sp_draws = 0\<rparr>"

definition decision0 :: policy_decision where
  "decision0 = \<lparr>pd_allowed = True, pd_requires = True, pd_risk = ''write'', pd_reason = [], pd_payload = None,
     pd_profile = ''default'', pd_trace = None\<rparr>"

definition record0 :: "string \<Rightarrow> approval_record" where
  "record0 x = pending_record ''run_1'' [] (prop0 ''git.commit'' [])
     (mk_inf [''git.write'', ''fs.write''] ''write'' False True (99/100) []) decision0 x [] 0"


text \<open>C4: a resolution is final: whatever approvals and rejections of whatever requests follow, reading
  the request gives the record the first resolution returned.\<close>

theorem approval_resolved_once:
  "approval_resolve x b m c = (Inr r, c') \<Longrightarrow>
     approval_get x (snd (fold (\<lambda>(y, b, m) c. snd (approval_resolve y b m c)) rs c')) = Inr r \<and>
     ap_status r = (if b then ApprovalApproved else ApprovalRejected)"
  by (rule conjI, erule center.resolution_is_final)
     (erule approval_resolve_Inr, simp)

theorem approval_resolved_once_witness:
  "\<exists>r. approval_get ''a'' (snd (fold (\<lambda>(y, b, m) c. snd (approval_resolve y b m c))
       [(''a'', True, []), (''b'', False, [])]
       (snd (approval_resolve ''a'' False ''no'' (source0, [(''a'', record0 ''a'')]))))) = Inr r \<and>
     ap_status r = ApprovalRejected"
proof -
  let ?c = "(source0, [(''a'', record0 ''a'')])"
  obtain r c' where r: "approval_resolve ''a'' False ''no'' ?c = (Inr r, c')"
    by (simp add: approval_resolve_def record0_def now_def Let_def)
  from approval_resolved_once [OF r, of "[(''a'', True, []), (''b'', False, [])]"] r show ?thesis
    by auto
qed


lemma marshalable_clone_map: "marshalable (val_of_nmap m) \<Longrightarrow> marshalable (GMap (clone_map m))"
proof (cases m)
  case None
  then show ?thesis by simp
next
  case (Some kvs)
  assume "marshalable (val_of_nmap m)"
  with Some have "marshalable (GMap kvs)" by (simp add: val_of_nmap_def)
  then show ?thesis
    using clone_map_norm marshalable_json_norm unfolding Some by metis
qed

lemma marshalable_snapshot:
  "marshalable (val_of_nmap (tp_input p)) \<Longrightarrow> marshalable (GMap (normalized_approval_input p))"
proof -
  assume "marshalable (val_of_nmap (tp_input p))"
  then have m: "marshalable (GMap (clone_map (tp_input p)))"
    by (rule marshalable_clone_map)
  have up: "marshalable (GMap (AList.update k v kvs))" if "marshalable (GMap kvs)" "marshalable v" for k v kvs
    using that by (induction kvs) (auto simp: list_all_iff)
  have args: "list_all marshalable (map GStr xs)" for xs
    by (simp add: list_all_iff)
  show ?thesis
    unfolding normalized_approval_input_def Let_def
    by (auto simp del: marshalable.simps simp: m intro!: up) (simp_all add: args)
qed

lemma approval_create_total:
  assumes "marshalable (val_of_nmap (tp_input p))"
  shows "\<exists>r c'. approval_create run conv p i d c = (Inr r, c')"
proof -
  obtain h where "hash_map (Some (normalized_approval_input p)) = Inr h"
    using hash_map_ok_iff [of "Some (normalized_approval_input p)"] marshalable_snapshot [OF assms]
    by (auto simp: val_of_nmap_def)
  then show ?thesis
    by (simp add: approval_create_def Let_def case_prod_unfold)
qed


text \<open>Creating a request succeeds for every input JSON can express; the new request is pending,
  can be read back, verifies, keeps the proposed tool, and matches a proposal of its own snapshot.\<close>

theorem approval_create_spec:
  assumes "marshalable (val_of_nmap (tp_input p))"
  shows "\<exists>r c'. approval_create run conv p i d c = (Inr r, c') \<and>
     approval_get (ap_id r) (snd c') = Inr r \<and> ap_status r = ApprovalPending \<and>
     verify_snapshot_hash (ap_id r) (snd c') = Inr () \<and>
     tp_tool (ap_proposal r) = tp_tool p \<and> ap_run r = run \<and>
     ap_snapshot r = Some (clone_map (Some (normalized_approval_input p))) \<and>
     snapshot_matches (ap_id r) (ap_proposal r) (snd c') = Inr True"
proof -
  obtain r c' where c: "approval_create run conv p i d c = (Inr r, c')"
    using approval_create_total [OF assms] by blast
  then obtain aid h t where r: "r = clone_approval (pending_record run conv p i d aid h t)"
    "snd c' = AList.update aid (pending_record run conv p i d aid h t) (snd c)"
    "hash_map (Some (normalized_approval_input p)) = Inr h"
    by (elim approval_create_Inr)
  have "marshalable (GMap (clone_map (Some (normalized_approval_input p))))"
    using marshalable_snapshot [OF assms] by (intro marshalable_clone_map) (simp add: val_of_nmap_def)
  then have "maps_equal (ap_snapshot r) (tp_input (ap_proposal r))"
    by (simp add: r clone_approval_def maps_equal_iff val_of_nmap_def)
  with r c show ?thesis
    by (simp add: approval_get_update update_conv' verify_snapshot_hash_def snapshot_matches_def)
qed

theorem approval_create_spec_witness:
  "\<exists>r c'. approval_create ''run_1'' [] (prop0 ''git.commit'' [(''message'', GStr ''fix'')])
      (mk_inf [] [] False True 1 []) decision0 (source0, []) = (Inr r, c') \<and>
     snapshot_matches (ap_id r) (ap_proposal r) (snd c') = Inr True"
  using approval_create_spec [of "prop0 ''git.commit'' [(''message'', GStr ''fix'')]"]
  by (fastforce simp: val_of_nmap_def)

text \<open>In the command line an approval of a git tool shows and stores, every path the input names
  stands after \<open>--\<close>, so a path cannot be taken for an option or a revision.\<close>

theorem git_paths_after_separator:
  assumes "op \<in> set [''status'', ''diff'', ''add'', ''restore'', ''clean'']"
    and "approval_string_slice (map_of m ''paths'') = paths" and "paths \<noteq> []"
  shows "\<exists>flags. git_approval_args op m = op # flags @ [''--''] @ paths \<and>
     (\<forall>f \<in> set flags. f \<in> {''--short'', ''--branch'', ''-fd''})"
  using assms(1) unfolding set_simps insert_iff empty_iff simp_thms
  by (elim disjE) (simp_all add: git_approval_args_def append_pathspec_def assms(2,3) Let_def)

theorem git_paths_after_separator_witness:
  "\<exists>flags. git_approval_args ''clean'' [(''paths'', GList [GStr ''-x''])] = ''clean'' # flags @ [''--'', ''-x'']"
  using git_paths_after_separator [of "''clean''" "[(''paths'', GList [GStr ''-x''])]" "[''-x'']"]
  by (auto simp: approval_string_slice_def)

end
