(* ===== verification/Tool_World.thy ===== *)
theory Tool_World
  imports Approval "HOL-Library.State_Monad"
begin

text \<open>
  The state the tool pipeline works on, threaded by the state monad: the sources of ids and times, the
  approval centre, the events written to the run log, and, as a ghost, the executor calls made so far.
  The runtime extends the record. Executors are code outside the pipeline: an executor is a function of
  the number of calls made before and of its input, and returns what the interface returns, a result
  pointer and an error.
\<close>

record tool_world =
  tw_source :: id_source
  tw_approvals :: approvals
  tw_events :: "event list"
  tw_calls :: "(string \<times> gmap) list"

type_synonym executor = "nat \<Rightarrow> gmap \<Rightarrow> tool_result option \<times> string option"

section \<open>Primitive actions\<close>

definition tick :: "('z tool_world_scheme, time) state" where
  "tick = State (\<lambda>w. (fst (now (tw_source w)), w\<lparr>tw_source := snd (now (tw_source w))\<rparr>))"

definition fresh_id :: "string \<Rightarrow> ('z tool_world_scheme, string) state" where
  "fresh_id pre = State (\<lambda>w. (fst (ids_new pre (tw_source w)), w\<lparr>tw_source := snd (ids_new pre (tw_source w))\<rparr>))"

definition log_event :: "bool \<Rightarrow> event \<Rightarrow> ('z tool_world_scheme, unit) state" where
  "log_event on ev = State (\<lambda>w. ((), if on then w\<lparr>tw_events := tw_events w @ [ev]\<rparr> else w))"

definition call_executor ::
  "executor \<Rightarrow> string \<Rightarrow> gmap \<Rightarrow> ('z tool_world_scheme, tool_result option \<times> string option) state" where
  "call_executor ex tool input =
     State (\<lambda>w. (ex (length (tw_calls w)) input, w\<lparr>tw_calls := tw_calls w @ [(tool, input)]\<rparr>))"

definition center_op ::
  "(id_source \<times> approvals \<Rightarrow> 'a \<times> id_source \<times> approvals) \<Rightarrow> ('z tool_world_scheme, 'a) state" where
  "center_op f =
     State (\<lambda>w. let r = f (tw_source w, tw_approvals w)
                in (fst r, w\<lparr>tw_source := fst (snd r), tw_approvals := snd (snd r)\<rparr>))"

definition world_of :: "('w \<Rightarrow> 'a) \<Rightarrow> ('w, 'a) state" where
  "world_of f = State (\<lambda>w. (f w, w))"

definition modify :: "('w \<Rightarrow> 'w) \<Rightarrow> ('w, unit) state" where
  "modify f = State (\<lambda>w. ((), f w))"

lemma run_primitives [simp]:
  "run_state tick w = (fst (now (tw_source w)), w\<lparr>tw_source := snd (now (tw_source w))\<rparr>)"
  "run_state (fresh_id pre) w =
     (fst (ids_new pre (tw_source w)), w\<lparr>tw_source := snd (ids_new pre (tw_source w))\<rparr>)"
  "run_state (log_event on ev) w = ((), if on then w\<lparr>tw_events := tw_events w @ [ev]\<rparr> else w)"
  "run_state (call_executor ex tool input) w =
     (ex (length (tw_calls w)) input, w\<lparr>tw_calls := tw_calls w @ [(tool, input)]\<rparr>)"
  "run_state (center_op f) w =
     (fst (f (tw_source w, tw_approvals w)),
      w\<lparr>tw_source := fst (snd (f (tw_source w, tw_approvals w))),
        tw_approvals := snd (snd (f (tw_source w, tw_approvals w)))\<rparr>)"
  "run_state (world_of g) v = (g v, v)"
  "run_state (modify h) v = ((), h v)"
  by (simp_all add: tick_def fresh_id_def log_event_def call_executor_def center_op_def world_of_def
      modify_def Let_def)

section \<open>Properties kept by actions\<close>

text \<open>\<open>keeping I m\<close>: action \<open>m\<close> keeps the invariant \<open>I\<close> of the world.\<close>

definition keeping :: "('w \<Rightarrow> bool) \<Rightarrow> ('w, 'a) state \<Rightarrow> bool" where
  "keeping I m \<longleftrightarrow> (\<forall>w. I w \<longrightarrow> I (snd (run_state m w)))"

lemma keepingI: "(\<And>w. I w \<Longrightarrow> I (snd (run_state m w))) \<Longrightarrow> keeping I m"
  by (simp add: keeping_def)

lemma keepingD: "keeping I m \<Longrightarrow> I w \<Longrightarrow> I (snd (run_state m w))"
  by (simp add: keeping_def)

lemma keeping_run: "keeping I m \<Longrightarrow> run_state m w = (a, w') \<Longrightarrow> I w \<Longrightarrow> I w'"
  using keepingD [of I m w] by simp

lemma keeping_return [intro]: "keeping I (State_Monad.return a)"
  by (simp add: keeping_def)

lemma keeping_world_of [intro]: "keeping I (world_of f)"
  by (simp add: keeping_def)

lemma keeping_bind [intro]:
  "keeping I m \<Longrightarrow> (\<And>a. keeping I (f a)) \<Longrightarrow> keeping I (State_Monad.bind m f)"
  by (auto simp: keeping_def split: prod.split)

lemma keeping_if [intro]: "keeping I m \<Longrightarrow> keeping I n \<Longrightarrow> keeping I (if b then m else n)"
  by simp

lemma keeping_option [intro]:
  "keeping I m \<Longrightarrow> (\<And>x. v = Some x \<Longrightarrow> keeping I (f x)) \<Longrightarrow> keeping I (case v of None \<Rightarrow> m | Some x \<Rightarrow> f x)"
  by (cases v) simp_all

lemma keeping_sum [intro]:
  "(\<And>e. v = Inl e \<Longrightarrow> keeping I (f e)) \<Longrightarrow> (\<And>x. v = Inr x \<Longrightarrow> keeping I (g x)) \<Longrightarrow>
     keeping I (case v of Inl e \<Rightarrow> f e | Inr x \<Rightarrow> g x)"
  by (cases v) simp_all

lemma keeping_prod [intro]: "(\<And>a b. keeping I (f a b)) \<Longrightarrow> keeping I (case v of (a, b) \<Rightarrow> f a b)"
  by (cases v) simp

lemma keeping_let [intro]: "(\<And>x. x = v \<Longrightarrow> keeping I (f x)) \<Longrightarrow> keeping I (let x = v in f x)"
  by (simp add: Let_def)

lemmas keeping_intros = keeping_return keeping_world_of keeping_bind keeping_if keeping_option keeping_sum
  keeping_prod keeping_let


section \<open>Relations between the world before and after\<close>

text \<open>
  A preorder on worlds that holds across every primitive action of a handler holds across the handler.
  The library's \<open>state_io_rel R m\<close> says that \<open>m\<close> relates each world to the one it leaves.
\<close>

locale world_order =
  fixes R :: "'w \<Rightarrow> 'w \<Rightarrow> bool"
  assumes refl: "R w w"
    and trans: "R u v \<Longrightarrow> R v w \<Longrightarrow> R u w"
begin

lemma return: "state_io_rel R (State_Monad.return a)"
  by (simp add: state_io_rel_def refl)

lemma world_of: "state_io_rel R (world_of f)"
  by (simp add: state_io_rel_def refl)

lemma bind:
  "state_io_rel R m \<Longrightarrow> (\<And>a. state_io_rel R (f a)) \<Longrightarrow> state_io_rel R (State_Monad.bind m f)"
  unfolding state_io_rel_def run_state_bind
  by (metis (mono_tags, lifting) case_prod_unfold trans)

lemma cond: "state_io_rel R m \<Longrightarrow> state_io_rel R n \<Longrightarrow> state_io_rel R (if b then m else n)"
  by simp

lemma option:
  "state_io_rel R m \<Longrightarrow> (\<And>x. v = Some x \<Longrightarrow> state_io_rel R (f x)) \<Longrightarrow>
     state_io_rel R (case v of None \<Rightarrow> m | Some x \<Rightarrow> f x)"
  by (cases v) simp_all

lemma sum:
  "(\<And>e. v = Inl e \<Longrightarrow> state_io_rel R (f e)) \<Longrightarrow> (\<And>x. v = Inr x \<Longrightarrow> state_io_rel R (g x)) \<Longrightarrow>
     state_io_rel R (case v of Inl e \<Rightarrow> f e | Inr x \<Rightarrow> g x)"
  by (cases v) simp_all

lemma pair: "(\<And>a b. state_io_rel R (f a b)) \<Longrightarrow> state_io_rel R (case v of (a, b) \<Rightarrow> f a b)"
  by (cases v) simp

lemma letin: "(\<And>x. x = v \<Longrightarrow> state_io_rel R (f x)) \<Longrightarrow> state_io_rel R (let x = v in f x)"
  by (simp add: Let_def)

lemma run: "state_io_rel R m \<Longrightarrow> run_state m w = (a, w') \<Longrightarrow> R w w'"
  by (auto simp: state_io_rel_def) (metis snd_conv)

lemmas rules = return world_of bind cond option sum pair letin

end

lemma io_relI: "(\<And>w. R w (snd (run_state m w))) \<Longrightarrow> state_io_rel R m"
  by (simp add: state_io_rel_def)

lemma io_relD: "state_io_rel R m \<Longrightarrow> R w (snd (run_state m w))"
  by (simp add: state_io_rel_def)

lemma io_rel_weaken: "state_io_rel R m \<Longrightarrow> (\<And>v w. R v w \<Longrightarrow> S v w) \<Longrightarrow> state_io_rel S m"
  by (simp add: state_io_rel_def)

end
