(* ===== verification/Tool_Router.thy ===== *)
theory Tool_Router
  imports Tool_World
begin

text \<open>
  \<open>internal/tools/registry.go\<close> and \<open>router.go\<close>: the registry of executors and the one path from a
  proposal to an executor. \<open>execute\<close> returns Go's pair of a result pointer and an error.
\<close>

section \<open>Registry\<close>

record registry =
  rg_specs :: "(string \<times> tool_spec) list"
  rg_executors :: "(string \<times> executor) list"

definition new_registry :: registry where
  "new_registry = \<lparr>rg_specs = [], rg_executors = []\<rparr>"

definition register :: "tool_spec \<Rightarrow> executor \<Rightarrow> registry \<Rightarrow> registry" where
  "register spec ex r =
     r\<lparr>rg_specs := AList.update (ts_name spec) spec (rg_specs r),
       rg_executors := AList.update (ts_name spec) ex (rg_executors r)\<rparr>"

definition registry_spec :: "registry \<Rightarrow> string \<Rightarrow> tool_spec res" where
  "registry_spec r name =
     (case map_of (rg_specs r) name of
        None \<Rightarrow> Inl (Err (''tool spec not found: '' @ name)) | Some s \<Rightarrow> Inr s)"

definition registry_executor :: "registry \<Rightarrow> string \<Rightarrow> executor res" where
  "registry_executor r name =
     (case map_of (rg_executors r) name of
        None \<Rightarrow> Inl (Err (''tool executor not found: '' @ name)) | Some x \<Rightarrow> Inr x)"

definition registry_list :: "registry \<Rightarrow> tool_spec list" where
  "registry_list r = map snd (AList.clearjunk (rg_specs r))"

text \<open>\<open>NotImplementedExecutor\<close>: the guard for a disabled tool.\<close>

definition not_implemented :: "string \<Rightarrow> executor" where
  "not_implemented tool = (\<lambda>n input.
     (Some \<lparr>tr_call = tool,
            tr_output = Some [(''status'', GStr ''not_implemented''), (''input'', GMap (clone_map (Some input)))],
            tr_error = ''tool executor not implemented'', tr_started = 0, tr_finished = 0\<rparr>, None))"

section \<open>Router\<close>

record router =
  ro_registry :: registry
  ro_inferrer :: inferrer
  ro_policy :: policy_config
  ro_events :: bool

record route_result =
  rr_proposal :: tool_proposal
  rr_inference :: inference
  rr_decision :: policy_decision
  rr_approval :: "approval_record option"
  rr_result :: "tool_result option"

definition tool_event :: "string \<Rightarrow> string \<Rightarrow> string \<Rightarrow> tool_proposal \<Rightarrow> event" where
  "tool_event ty run conv p =
     event0\<lparr>ev_type := ty, ev_run := run, ev_conv := conv, ev_tool := tp_tool p, ev_call := tp_id p\<rparr>"

definition ro_emit :: "router \<Rightarrow> event \<Rightarrow> ('z tool_world_scheme, unit) state" where
  "ro_emit r ev = do { t \<leftarrow> tick; log_event (ro_events r) (ev\<lparr>ev_created := t\<rparr>) }"

definition fill_call_id :: "string \<Rightarrow> tool_result \<Rightarrow> tool_result" where
  "fill_call_id i x = (if tr_call x = [] then x\<lparr>tr_call := i\<rparr> else x)"

definition finish_payload :: "tool_result option \<Rightarrow> string option \<Rightarrow> gmap" where
  "finish_payload res err =
     (let payload = (case res of None \<Rightarrow> [] | Some x \<Rightarrow> clone_map (tr_output x))
      in case err of None \<Rightarrow> payload | Some e \<Rightarrow> AList.update ''error'' (GStr e) payload)"

definition run_executor ::
  "router \<Rightarrow> executor \<Rightarrow> tool_proposal \<Rightarrow> string \<Rightarrow> string
     \<Rightarrow> ('z tool_world_scheme, tool_result option \<times> go_error option) state" where
  "run_executor r ex p run conv =
     do {
       ro_emit r (tool_event ''tool.started'' run conv p);
       (res0, err) \<leftarrow> call_executor ex (tp_tool p) (clone_map (tp_input p));
       let res = map_option (fill_call_id (tp_id p)) res0;
       (case res of
          None \<Rightarrow> State_Monad.return ()
        | Some x \<Rightarrow> ro_emit r ((tool_event ''tool.output'' run conv p)
            \<lparr>ev_payload := Some (clone_map (tr_output x))\<rparr>));
       ro_emit r ((tool_event (if err = None then ''tool.completed'' else ''tool.failed'') run conv p)
         \<lparr>ev_payload := Some (finish_payload res err)\<rparr>);
       State_Monad.return (res, map_option Err err)
     }"

definition route_execute ::
  "router \<Rightarrow> tool_proposal \<Rightarrow> string \<Rightarrow> string
     \<Rightarrow> ('z tool_world_scheme, tool_result option \<times> go_error option) state" where
  "route_execute r p run conv =
     (case registry_executor (ro_registry r) (tp_tool p) of
        Inl e \<Rightarrow> State_Monad.return (None, Some e)
      | Inr ex \<Rightarrow> run_executor r ex p run conv)"

definition request_approval ::
  "router \<Rightarrow> string \<Rightarrow> string \<Rightarrow> route_result \<Rightarrow> ('z tool_world_scheme, route_result res) state" where
  "request_approval r run conv out =
     do {
       created \<leftarrow> center_op (approval_create run conv (rr_proposal out) (rr_inference out) (rr_decision out));
       (case created of
          Inl e \<Rightarrow> State_Monad.return (Inl e)
        | Inr a \<Rightarrow>
            do {
              ro_emit r (event0\<lparr>ev_type := ''approval.requested'', ev_run := run, ev_conv := conv,
                ev_approval := ap_id a, ev_risk := if_risk (rr_inference out),
                ev_payload := Some
                  [(''summary'', GStr (ap_summary a)), (''explanation'', explanation_val (ap_explanation a)),
                   (''input_snapshot'', val_of_nmap (ap_snapshot a)),
                   (''risk_trace'', risk_trace_ptr (pd_trace (rr_decision out)))]\<rparr>);
              State_Monad.return (Inr (out\<lparr>rr_approval := Some a\<rparr>))
            })
     }"

definition deny_result ::
  "router \<Rightarrow> string \<Rightarrow> string \<Rightarrow> route_result \<Rightarrow> ('z tool_world_scheme, route_result res) state" where
  "deny_result r run conv out =
     do {
       t \<leftarrow> tick;
       let d = rr_decision out;
       let denied = \<lparr>tr_call = tp_id (rr_proposal out),
              tr_output = Some [(''status'', GStr ''denied''), (''reason'', GStr (pd_reason d)),
                (''risk_trace'', risk_trace_ptr (pd_trace d))],
              tr_error = pd_reason d, tr_started = t, tr_finished = t\<rparr>;
       log_event (ro_events r) ((tool_event ''policy.denied'' run conv (rr_proposal out))
         \<lparr>ev_risk := pd_risk d, ev_payload := Some [(''decision'', decision_val d)], ev_created := t\<rparr>);
       State_Monad.return (Inr (out\<lparr>rr_result := Some denied\<rparr>))
     }"

definition propose ::
  "router \<Rightarrow> string \<Rightarrow> string \<Rightarrow> tool_proposal \<Rightarrow> ('z tool_world_scheme, route_result res) state" where
  "propose r run conv p =
     do {
       ro_emit r ((tool_event ''tool.proposed'' run conv p)
         \<lparr>ev_payload := Some [(''input'', GMap (clone_map (tp_input p)))]\<rparr>);
       (case infer (ro_inferrer r) p of
          Inl e \<Rightarrow> State_Monad.return (Inl e)
        | Inr i \<Rightarrow>
            do {
              ro_emit r ((tool_event ''effect.inferred'' run conv p)
                \<lparr>ev_risk := if_risk i, ev_payload := Some [(''inference'', inference_val i)]\<rparr>);
              let d = decide (ro_policy r) p i;
              ro_emit r ((tool_event ''policy.decided'' run conv p)
                \<lparr>ev_risk := if_risk i, ev_payload := Some [(''decision'', decision_val d)]\<rparr>);
              let out = \<lparr>rr_proposal = p, rr_inference = i, rr_decision = d, rr_approval = None,
                rr_result = None\<rparr>;
              if pd_requires d then request_approval r run conv out
              else if \<not> pd_allowed d then deny_result r run conv out
              else
                do {
                  (res, err) \<leftarrow> route_execute r p run conv;
                  State_Monad.return (case err of Some e \<Rightarrow> Inl e | None \<Rightarrow> Inr (out\<lparr>rr_result := res\<rparr>))
                }
            })
     }"

definition execute_approved ::
  "router \<Rightarrow> string \<Rightarrow> ('z tool_world_scheme, tool_result option \<times> go_error option) state" where
  "execute_approved r aid =
     do {
       got \<leftarrow> world_of (\<lambda>w. approval_get aid (tw_approvals w));
       (case got of
          Inl e \<Rightarrow> State_Monad.return (None, Some e)
        | Inr a \<Rightarrow>
            if ap_status a \<noteq> ApprovalApproved
            then State_Monad.return (None, Some (Err (''approval '' @ aid @ '' is not approved'')))
            else
              do {
                verified \<leftarrow> world_of (\<lambda>w. verify_snapshot_hash aid (tw_approvals w));
                (case verified of
                   Inl e \<Rightarrow> State_Monad.return (None, Some e)
                 | Inr _ \<Rightarrow>
                     route_execute r ((ap_proposal a)\<lparr>tp_input := Some (clone_map (ap_snapshot a))\<rparr>)
                       (ap_run a) (ap_conv a))
              })
     }"

definition execute_read_only ::
  "router \<Rightarrow> tool_proposal \<Rightarrow> ('z tool_world_scheme, tool_result option \<times> go_error option) state" where
  "execute_read_only r p =
     (case infer (ro_inferrer r) p of
        Inl e \<Rightarrow> State_Monad.return (None, Some e)
      | Inr i \<Rightarrow>
          if pd_requires (decide (ro_policy r) p i)
          then State_Monad.return (None, Some (Err ''proposal requires approval''))
          else route_execute r p [] [])"


section \<open>Registry lemmas\<close>

text \<open>Registering is an update of two maps with the same key, so a later registration of a name
  replaces the earlier one and no other name changes.\<close>

lemma registry_executor_register:
  "registry_executor (register spec ex r) name =
     (if name = ts_name spec then Inr ex else registry_executor r name)"
  "registry_spec (register spec ex r) name =
     (if name = ts_name spec then Inr spec else registry_spec r name)"
  by (simp_all add: registry_executor_def registry_spec_def register_def update_conv')

definition registered :: "router \<Rightarrow> string \<Rightarrow> bool" where
  "registered r t = (map_of (rg_executors (ro_registry r)) t \<noteq> None)"

lemma registry_executor_Inr:
  "registered r t \<longleftrightarrow> (\<exists>ex. registry_executor (ro_registry r) t = Inr ex)"
  by (auto simp: registered_def registry_executor_def split: option.splits)

section \<open>What the actions do to the world\<close>

lemma run_ro_emit [simp]:
  "run_state (ro_emit r ev) w =
     ((), w\<lparr>tw_source := snd (now (tw_source w)),
            tw_events := tw_events w @
              (if ro_events r then [ev\<lparr>ev_created := fst (now (tw_source w))\<rparr>] else [])\<rparr>)"
  by (simp add: ro_emit_def)

lemma run_executor_world:
  "tw_calls (snd (run_state (run_executor r ex p run conv) w)) =
     tw_calls w @ [(tp_tool p, clone_map (tp_input p))]"
  "tw_approvals (snd (run_state (run_executor r ex p run conv) w)) = tw_approvals w"
  by (simp_all add: run_executor_def Let_def split: prod.split option.split)

lemma route_execute_world:
  "tw_calls (snd (run_state (route_execute r p run conv) w)) =
     tw_calls w @ (if registered r (tp_tool p) then [(tp_tool p, clone_map (tp_input p))] else [])"
  "tw_approvals (snd (run_state (route_execute r p run conv) w)) = tw_approvals w"
  by (auto simp: route_execute_def run_executor_world registered_def registry_executor_def
      split: sum.split option.split)

definition runs_unasked :: "router \<Rightarrow> tool_proposal \<Rightarrow> bool" where
  "runs_unasked r p =
     (case infer (ro_inferrer r) p of
        Inl _ \<Rightarrow> False | Inr i \<Rightarrow> auto (decide (ro_policy r) p i))"

lemma request_approval_calls:
  "tw_calls (snd (run_state (request_approval r run conv out) w)) = tw_calls w"
  by (simp add: request_approval_def split: sum.split prod.split)

lemma deny_result_world:
  "tw_calls (snd (run_state (deny_result r run conv out) w)) = tw_calls w"
  "tw_approvals (snd (run_state (deny_result r run conv out) w)) = tw_approvals w"
  by (simp_all add: deny_result_def Let_def)

lemma snd_run_bind:
  "snd (run_state (State_Monad.bind m f) w) =
     snd (run_state (f (fst (run_state m w))) (snd (run_state m w)))"
  by (simp split: prod.split)

lemma propose_calls_eq:
  "tw_calls (snd (run_state (propose r run conv p) w)) =
     tw_calls w @ (if runs_unasked r p \<and> registered r (tp_tool p)
                   then [(tp_tool p, clone_map (tp_input p))] else [])"
proof (cases "infer (ro_inferrer r) p")
  case (Inl e)
  then show ?thesis by (simp add: propose_def runs_unasked_def)
next
  case (Inr i)
  then show ?thesis
    by (simp add: propose_def runs_unasked_def Let_def auto_def request_approval_calls
        deny_result_world snd_run_bind route_execute_world case_prod_unfold del: run_state_bind)
qed

lemma execute_approved_calls_eq:
  "tw_calls (snd (run_state (execute_approved r aid) w)) =
     tw_calls w @
       (case map_of (tw_approvals w) aid of
          None \<Rightarrow> []
        | Some q \<Rightarrow>
            if ap_status q = ApprovalApproved \<and> verify_snapshot_hash aid (tw_approvals w) = Inr ()
               \<and> registered r (tp_tool (ap_proposal q))
            then [(tp_tool (ap_proposal q), clone_map (ap_snapshot q))] else [])"
  by (auto simp: execute_approved_def approval_get_def route_execute_world split: option.split sum.split)

lemma execute_approved_approvals:
  "tw_approvals (snd (run_state (execute_approved r aid) w)) = tw_approvals w"
  by (auto simp: execute_approved_def route_execute_world split: sum.split)

section \<open>Properties\<close>

text \<open>Proposing calls at most one executor: the proposed tool on a copy of the proposed input, exactly
  when the policy runs it unasked and it is registered; a refused proposal and one that waits for
  approval call none.\<close>

theorem propose_calls:
  "tw_calls (snd (run_state (propose r run conv p) w)) =
     tw_calls w @ (if runs_unasked r p \<and> registered r (tp_tool p)
                   then [(tp_tool p, clone_map (tp_input p))] else [])"
  by (rule propose_calls_eq)

text \<open>C19: \<open>ExecuteApproved\<close> calls an executor exactly when the stored request is approved, its digest
  verifies and its tool is registered, and then once, on the stored snapshot and nothing else; it never
  changes a request.\<close>

theorem execute_approved_calls:
  "tw_calls (snd (run_state (execute_approved r aid) w)) =
     tw_calls w @
       (case map_of (tw_approvals w) aid of
          None \<Rightarrow> []
        | Some q \<Rightarrow>
            if ap_status q = ApprovalApproved \<and> verify_snapshot_hash aid (tw_approvals w) = Inr ()
               \<and> registered r (tp_tool (ap_proposal q))
            then [(tp_tool (ap_proposal q), clone_map (ap_snapshot q))] else []) \<and>
   tw_approvals (snd (run_state (execute_approved r aid) w)) = tw_approvals w"
  by (simp add: execute_approved_calls_eq execute_approved_approvals)


text \<open>\<open>ExecuteReadOnly\<close> looks at \<open>RequiresApproval\<close> only, so a proposal the policy refuses, which
  never requires approval, is executed: whenever an effect is denied and the tool is registered, its
  executor is called.\<close>

theorem read_only_runs_denied:
  assumes "infer (ro_inferrer r) p = Inr i"
    and "\<not> pd_allowed (decide (ro_policy r) p i)" and "registered r (tp_tool p)"
  shows "tw_calls (snd (run_state (execute_read_only r p) w)) =
    tw_calls w @ [(tp_tool p, clone_map (tp_input p))]"
proof -
  have "\<not> pd_requires (decide (ro_policy r) p i)"
    using assms(2) by (simp add: decide_verdict)
  with assms show ?thesis
    by (simp add: execute_read_only_def route_execute_world)
qed

definition echo :: executor where
  "echo = (\<lambda>n input. (Some \<lparr>tr_call = [], tr_output = Some input, tr_error = [], tr_started = 0,
     tr_finished = 0\<rparr>, None))"

definition router0 :: "(string \<Rightarrow> string \<Rightarrow> mcp_policy res) option \<Rightarrow> router" where
  "router0 mcp =
     \<lparr>ro_registry = \<lparr>rg_specs = [], rg_executors = [(''mcp.call_tool'', echo), (''git.status'', echo)]\<rparr>,
      ro_inferrer = \<lparr>ei_cfg = default_policy, ei_skills = None, ei_mcp = mcp\<rparr>,
      ro_policy = default_policy, ro_events = True\<rparr>"

definition world0 :: tool_world where
  "world0 = \<lparr>tw_source = source0, tw_approvals = [], tw_events = [], tw_calls = []\<rparr>"

definition remote_mcp :: mcp_policy where
  "remote_mcp = \<lparr>mp_effects = [''mcp.remote.call''], mp_approval = ''auto'', mp_requires = False, mp_risk = ''read'',
     mp_reason = ''remote'', mp_known = True, mp_enabled = True, mp_confidence = 9/10\<rparr>"

definition remote_call :: tool_proposal where
  "remote_call = prop0 ''mcp.call_tool'' [(''server_id'', GStr ''s''), (''tool_name'', GStr ''t''),
     (''policy_profile'', GStr ''offline'')]"

lemma infer_remote_call:
  "infer (ro_inferrer (router0 (Some (\<lambda>_ _. Inr remote_mcp)))) remote_call =
     Inr (mk_inf [''mcp.remote.call''] ''read'' False False (9/10) ''remote'')"
  by (simp add: router0_def remote_call_def infer_def infer_code_def infer_memory_def infer_git_def
      or_else_def infer_mcp_def mcp_result_def remote_mcp_def str_at_def mcp_effect_step_def
      effect_requires_approval_def sublist_Cons_right Let_def)

lemma remote_call_denied:
  "\<not> pd_allowed (decide default_policy remote_call (mk_inf [''mcp.remote.call''] ''read'' False False (9/10) ''remote''))"
proof -
  have "resolve_profile default_policy remote_call = the (map_of default_policy_profiles ''offline'')"
    by (rule resolve_named [where n = "''offline''"])
       (simp_all add: remote_call_def str_at_def trim_space_def trim_chars_def is_space_def offline_profile
         default_policy_def)
  then show ?thesis
    by (simp add: decide_verdict denied_def offline_profile profile_denies_effect_def
        effect_pattern_matches_def trim_space_def trim_chars_def is_space_def suffix_def Let_def)
qed

theorem read_only_runs_denied_witness:
  "length (tw_calls (snd (run_state
     (execute_read_only (router0 (Some (\<lambda>_ _. Inr remote_mcp))) remote_call) world0))) = 1"
proof -
  let ?r = "router0 (Some (\<lambda>_ _. Inr remote_mcp))"
  have "ro_policy ?r = default_policy" "registered ?r (tp_tool remote_call)"
    by (simp_all add: router0_def registered_def remote_call_def)
  with read_only_runs_denied [OF infer_remote_call, of world0] remote_call_denied show ?thesis
    by (simp add: world0_def)
qed

section \<open>The audit log\<close>

text \<open>The tools of the \<open>tool.started\<close> events and the tools of the executor calls, in order.\<close>

definition started :: "event list \<Rightarrow> string list" where
  "started es = map ev_tool (filter (\<lambda>e. ev_type e = ''tool.started'') es)"

definition audited :: "'z tool_world_scheme \<Rightarrow> bool" where
  "audited w \<longleftrightarrow> started (tw_events w) = map fst (tw_calls w)"

lemma started_append [simp]: "started (xs @ ys) = started xs @ started ys"
  by (simp add: started_def)

lemma started_Cons [simp]:
  "started (e # es) = (if ev_type e = ''tool.started'' then ev_tool e # started es else started es)"
  by (simp add: started_def)

lemma started_Nil [simp]: "started [] = []"
  by (simp add: started_def)

lemma tool_event_sel [simp]:
  "ev_type (tool_event ty run conv p) = ty" "ev_tool (tool_event ty run conv p) = tp_tool p"
  by (simp_all add: tool_event_def event0_def)

lemma audited_emit: "ev_type ev \<noteq> ''tool.started'' \<Longrightarrow> keeping audited (ro_emit r ev)"
  by (rule keepingI) (simp add: audited_def)

lemma audited_run_executor:
  "ro_events r \<Longrightarrow> keeping audited (run_executor r ex p run conv)"
  by (rule keepingI) (simp add: audited_def run_executor_def Let_def split: prod.split option.split)

lemma audited_route_execute: "ro_events r \<Longrightarrow> keeping audited (route_execute r p run conv)"
  unfolding route_execute_def by (intro keeping_intros audited_run_executor)

lemma audited_request: "keeping audited (request_approval r run conv out)"
  unfolding request_approval_def
  by (rule keepingI) (simp add: audited_def event0_def split: prod.split sum.split)

lemma audited_deny: "keeping audited (deny_result r run conv out)"
  unfolding deny_result_def by (rule keepingI) (simp add: audited_def Let_def)

lemma audited_propose: "ro_events r \<Longrightarrow> keeping audited (propose r run conv p)"
  unfolding propose_def
  by (intro keeping_intros audited_emit audited_request audited_deny audited_route_execute) simp_all

lemma audited_execute_approved: "ro_events r \<Longrightarrow> keeping audited (execute_approved r aid)"
  unfolding execute_approved_def by (intro keeping_intros audited_route_execute)

lemma audited_execute_read_only: "ro_events r \<Longrightarrow> keeping audited (execute_read_only r p)"
  unfolding execute_read_only_def by (intro keeping_intros audited_route_execute)

text \<open>The calls a client can make of the router.\<close>

datatype router_call = CallPropose string string tool_proposal | CallApproved string | CallReadOnly tool_proposal

fun router_act :: "router \<Rightarrow> router_call \<Rightarrow> tool_world \<Rightarrow> tool_world" where
  "router_act r (CallPropose run conv p) w = snd (run_state (propose r run conv p) w)"
| "router_act r (CallApproved aid) w = snd (run_state (execute_approved r aid) w)"
| "router_act r (CallReadOnly p) w = snd (run_state (execute_read_only r p) w)"

lemma audited_router_act: "ro_events r \<Longrightarrow> audited w \<Longrightarrow> audited (router_act r c w)"
  by (cases c)
     (simp_all add: keepingD audited_propose audited_execute_approved audited_execute_read_only)

text \<open>With a run log attached, no executor is called off the record: whatever sequence of proposals,
  approved executions and read-only executions runs, the \<open>tool.started\<close> events of the log name the
  executed tools one for one and in order.\<close>

theorem audit_log_complete:
  assumes "ro_events r" and "audited w"
  shows "started (tw_events (fold (router_act r) cs w)) = map fst (tw_calls (fold (router_act r) cs w))"
proof -
  have "audited (fold (router_act r) cs w)"
    using assms(2) by (induction cs arbitrary: w) (simp_all add: audited_router_act assms(1))
  then show ?thesis by (simp add: audited_def)
qed

lemma world0_audited: "audited world0"
  by (simp add: audited_def world0_def)

theorem audit_log_complete_witness:
  "started (tw_events (fold (router_act (router0 None)) [CallPropose [] [] (prop0 ''git.status'' [])] world0)) =
     [''git.status'']"
proof -
  have "runs_unasked (router0 None) (prop0 ''git.status'' [])"
    using infer_git_status auto_git_status by (simp add: runs_unasked_def router0_def inferrer0_def)
  moreover have "registered (router0 None) ''git.status''"
    by (simp add: registered_def router0_def)
  ultimately have "map fst (tw_calls (fold (router_act (router0 None))
      [CallPropose [] [] (prop0 ''git.status'' [])] world0)) = [''git.status'']"
    by (simp add: propose_calls_eq world0_def)
  moreover have "ro_events (router0 None)" by (simp add: router0_def)
  ultimately show ?thesis
    using audit_log_complete world0_audited by metis
qed


section \<open>What a router action does not touch\<close>

text \<open>Whatever extends the router's world, and the requests already approved, stay as they are.\<close>

definition same_outside :: "'z tool_world_scheme \<Rightarrow> 'z tool_world_scheme \<Rightarrow> bool" where
  "same_outside v w \<longleftrightarrow>
     tool_world.more w = tool_world.more v \<and>
     (\<forall>x q. map_of (tw_approvals w) x = Some q \<longrightarrow> ap_status q = ApprovalApproved \<longrightarrow>
        map_of (tw_approvals v) x = Some q)"

interpretation outside: world_order same_outside
  by unfold_locales (auto simp: same_outside_def)

lemma outside_emit: "state_io_rel same_outside (ro_emit r ev)"
  by (rule io_relI) (simp add: same_outside_def)

lemma outside_tick: "state_io_rel same_outside tick"
  by (rule io_relI) (simp add: same_outside_def)

lemma outside_log: "state_io_rel same_outside (log_event on ev)"
  by (rule io_relI) (simp add: same_outside_def)

lemma outside_call: "state_io_rel same_outside (call_executor ex t m)"
  by (rule io_relI) (simp add: same_outside_def)

lemma outside_create: "state_io_rel same_outside (center_op (approval_create run conv p i d))"
proof (rule io_relI)
  fix w :: "'z tool_world_scheme"
  let ?c = "(tw_source w, tw_approvals w)"
  obtain r c' where c: "approval_create run conv p i d ?c = (r, c')"
    using surj_pair by metis
  show "same_outside w (snd (run_state (center_op (approval_create run conv p i d)) w))"
  proof (cases r)
    case (Inl e)
    with c have "c' = ?c" by (auto dest: approval_create_Inl)
    with c show ?thesis by (simp add: same_outside_def)
  next
    case (Inr a)
    with c obtain aid h t where "snd c' = AList.update aid (pending_record run conv p i d aid h t) (tw_approvals w)"
      by (auto elim: approval_create_Inr)
    with c show ?thesis by (auto simp: same_outside_def update_conv' split: if_splits)
  qed
qed

lemma outside_run_executor: "state_io_rel same_outside (run_executor r ex p run conv)"
  unfolding run_executor_def by (intro outside.rules outside_emit outside_call)

lemma outside_route_execute: "state_io_rel same_outside (route_execute r p run conv)"
  unfolding route_execute_def by (intro outside.rules outside_run_executor)

lemma outside_propose: "state_io_rel same_outside (propose r run conv p)"
  unfolding propose_def request_approval_def deny_result_def
  by (intro outside.rules outside_emit outside_create outside_tick outside_log outside_route_execute)

lemma outside_execute_approved: "state_io_rel same_outside (execute_approved r aid)"
  unfolding execute_approved_def by (intro outside.rules outside_route_execute)

end
