(* ===== verification/Planner_Catalog.thy ===== *)
theory Planner_Catalog
  imports Planner_Normalize Tool_Router
begin

text \<open>
  \<open>internal/agent/planner/catalog\<close>: the tools a planner may choose from, as the tool registry states them, with
  the descriptions, slots and defaults of the tool cards. The YAML library's reading of a card file is given.
\<close>

section \<open>Cards and specs\<close>

record tool_example =
  te_user :: string
  te_input :: nmap

record tool_card =
  tc_tool :: string
  tc_domain :: string
  tc_title :: string
  tc_description :: string
  tc_description_zh :: string
  tc_when :: "string list"
  tc_when_not :: "string list"
  tc_slots :: "string list"
  tc_schema :: gmap
  tc_defaults :: gmap
  tc_effects :: "string list"
  tc_risk :: string
  tc_auto :: bool
  tc_examples :: "tool_example list"
  tc_negative :: "tool_example list"

record planning_spec =
  pt_tool :: string
  pt_domain :: string
  pt_title :: string
  pt_description :: string
  pt_description_zh :: string
  pt_when :: "string list"
  pt_when_not :: "string list"
  pt_slots :: "string list"
  pt_schema :: gmap
  pt_defaults :: gmap
  pt_effects :: "string list"
  pt_risk :: string
  pt_auto :: bool
  pt_approval :: bool
  pt_examples :: "tool_example list"
  pt_negative :: "tool_example list"
  pt_card :: "tool_card option"

text \<open>The zero value, which a lookup of an unknown tool returns.\<close>

definition spec0 :: planning_spec where
  "spec0 = \<lparr>pt_tool = [], pt_domain = [], pt_title = [], pt_description = [], pt_description_zh = [], pt_when = [],
     pt_when_not = [], pt_slots = [], pt_schema = [], pt_defaults = [], pt_effects = [], pt_risk = [], pt_auto = False,
     pt_approval = False, pt_examples = [], pt_negative = [], pt_card = None\<rparr>"

definition clean_strings :: "string list \<Rightarrow> string list" where
  "clean_strings xs = filter (\<lambda>x. x \<noteq> []) (map trim_space xs)"

definition normalize_card :: "tool_card \<Rightarrow> tool_card" where
  "normalize_card c =
     c\<lparr>tc_domain := trim_space (tc_domain c), tc_title := trim_space (tc_title c),
       tc_description := trim_space (tc_description c), tc_description_zh := trim_space (tc_description_zh c),
       tc_risk := trim_space (tc_risk c), tc_when := clean_strings (tc_when c),
       tc_when_not := clean_strings (tc_when_not c), tc_slots := clean_strings (tc_slots c),
       tc_effects := clean_strings (tc_effects c)\<rparr>"

text \<open>\<open>LoadToolCards\<close>, given what the file holds as an object and as an array.\<close>

fun unique_cards :: "string list \<Rightarrow> tool_card list \<Rightarrow> tool_card list res" where
  "unique_cards seen [] = Inr []"
| "unique_cards seen (c # cs) =
     (let t = trim_space (tc_tool c) in
      if t = [] then Inl (Err ''tool card missing tool_id'')
      else if t \<in> set seen then Inl (Err (''duplicate tool card: '' @ t))
      else case unique_cards (t # seen) cs of
             Inl e \<Rightarrow> Inl e
           | Inr out \<Rightarrow> Inr (normalize_card (c\<lparr>tc_tool := t\<rparr>) # out))"

definition load_tool_cards :: "tool_card list res \<Rightarrow> tool_card list res \<Rightarrow> tool_card list res" where
  "load_tool_cards as_object as_array =
     (case as_object of
        Inl e \<Rightarrow> Inl (Err (''parse tool cards: '' @ error_text e))
      | Inr cards \<Rightarrow>
          if cards \<noteq> [] then unique_cards [] cards
          else (case as_array of
                  Inl e \<Rightarrow> Inl (Err (''parse tool cards: '' @ error_text e))
                | Inr direct \<Rightarrow> unique_cards [] direct))"

text \<open>\<open>DefaultToolCardPath\<close>: the nearest directory, from the working directory upwards, whose card file exists. The
  path is given from its last component to its first.\<close>

fun default_card_path :: "(path \<Rightarrow> bool) \<Rightarrow> path \<Rightarrow> path option" where
  "default_card_path exists r =
     (let p = rev r @ [''config'', ''planner.tool-cards.yaml'']
      in if exists p then Some p else case r of [] \<Rightarrow> None | _ # up \<Rightarrow> default_card_path exists up)"

section \<open>What a tool may do\<close>

definition domain_for_tool :: "string \<Rightarrow> string" where
  "domain_for_tool t =
     (if has_prefix t ''code.'' then ''code''
      else if has_prefix t ''git.'' then ''git''
      else if has_prefix t ''ops.'' \<or> has_prefix t ''runbook.'' then ''ops''
      else if has_prefix t ''kb.'' then ''rag''
      else if has_prefix t ''memory.'' then ''memory''
      else if has_prefix t ''skill.'' then ''skill''
      else if has_prefix t ''mcp.'' then ''mcp''
      else if has_prefix t ''security.'' then ''security''
      else ''unknown'')"

definition gated_tools :: "string list" where
  "gated_tools =
     [''shell.exec'', ''code.apply_patch'', ''git.add'', ''git.commit'', ''git.restore'', ''git.clean'',
      ''ops.local.service_restart'', ''ops.docker.restart'', ''ops.k8s.apply'', ''ops.k8s.delete'', ''memory.patch'',
      ''memory.item_create'', ''memory.item_update'', ''memory.item_delete'', ''memory.item_restore'', ''skill.run'', ''mcp.call_tool'']"

definition auto_selectable :: "string \<Rightarrow> string list \<Rightarrow> bool" where
  "auto_selectable t effects \<longleftrightarrow>
     t \<notin> set gated_tools \<and>
     \<not> list_ex (\<lambda>e. e = ''unknown.effect'' \<or> contains_any e [''danger'', ''delete'', ''install'']) effects"

definition tool_requires_approval :: "string \<Rightarrow> string list \<Rightarrow> bool" where
  "tool_requires_approval t effects \<longleftrightarrow>
     \<not> auto_selectable t effects \<or>
     list_ex (\<lambda>e. e = ''unknown.effect'' \<or>
       contains_any e [''write'', ''modify'', ''delete'', ''install'', ''restart'', ''danger'', ''sensitive'']) effects"

section \<open>The core tools\<close>

definition core_spec :: "string \<Rightarrow> string \<Rightarrow> (string \<times> string) list \<Rightarrow> string list \<Rightarrow> tool_spec" where
  "core_spec name description schema effects =
     \<lparr>ts_id = [], ts_provider = [], ts_name = name, ts_description = description,
      ts_input_schema = Some (map (\<lambda>(k, t). (k, GStr t)) schema), ts_default_effects = effects, ts_metadata = None\<rparr>"

definition core_tool_specs :: "tool_spec list" where
  "core_tool_specs =
     [
      core_spec ''shell.exec'' ''Execute a shell command after effect inference and policy checks''
        [(''shell'', ''string''), (''command'', ''string''), (''cwd'', ''string''), (''timeout_seconds'', ''number''), (''purpose'', ''string'')]
        [''unknown.effect''],
      core_spec ''code.read_file'' ''Read a file from the workspace''
        [(''path'', ''string''), (''max_bytes'', ''number'')] [''read'', ''code.read''],
      core_spec ''code.search_text'' ''Search text in workspace files and return line matches''
        [(''path'', ''string''), (''query'', ''string''), (''limit'', ''number'')] [''read'', ''code.read''],
      core_spec ''code.inspect_project'' ''Inspect project language, config files, and likely commands''
        [(''path'', ''string'')] [''read'', ''code.read''],
      core_spec ''code.run_tests'' ''Run an allowlisted test command inside the workspace''
        [(''workspace'', ''string''), (''use_detected'', ''boolean''), (''timeout_seconds'', ''number''), (''max_output_bytes'', ''number'')]
        [''code.test'', ''process.read'', ''fs.read''],
      core_spec ''code.fix_test_failure_loop'' ''Run tests and prepare the next repair-loop action without applying code changes''
        [(''workspace'', ''string''), (''use_detected'', ''boolean''), (''max_iterations'', ''number'')]
        [''code.test'', ''process.read'', ''fs.read'', ''code.plan''],
      core_spec ''code.parse_test_failure'' ''Parse test output into structured failure information''
        [(''workspace'', ''string''), (''command'', ''string''), (''stdout'', ''string''), (''stderr'', ''string''), (''exit_code'', ''number'')]
        [''read'', ''code.plan''],
      core_spec ''code.propose_patch'' ''Preview a code patch without applying it''
        [(''path'', ''string''), (''diff'', ''string'')] [''read'', ''code.plan''],
      core_spec ''code.apply_patch'' ''Apply a patch inside the workspace''
        [(''path'', ''string''), (''diff'', ''string'')] [''fs.write'', ''code.modify''],
      core_spec ''code.validate_patch'' ''Validate a patch without modifying files''
        [(''path'', ''string''), (''diff'', ''string'')] [''read'', ''code.plan''],
      core_spec ''git.status'' ''Read git working tree status'' [(''workspace'', ''string'')] [''read'', ''git.read''],
      core_spec ''git.diff'' ''Read git diff'' [(''workspace'', ''string'')] [''read'', ''git.read''],
      core_spec ''git.diff_summary'' ''Summarize git diff''
        [(''workspace'', ''string''), (''staged'', ''boolean'')] [''read'', ''git.read''],
      core_spec ''git.commit_message_proposal'' ''Propose a git commit message''
        [(''workspace'', ''string'')] [''read'', ''git.read''],
      core_spec ''git.log'' ''Read git log''
        [(''workspace'', ''string''), (''limit'', ''number'')] [''read'', ''git.read''],
      core_spec ''git.add'' ''Stage files''
        [(''workspace'', ''string''), (''paths'', ''array'')] [''git.write'', ''fs.write''],
      core_spec ''git.commit'' ''Create a commit''
        [(''workspace'', ''string''), (''message'', ''string'')] [''git.write'', ''fs.write''],
      core_spec ''git.clean'' ''Delete untracked files'' [(''workspace'', ''string'')] [''fs.delete'', ''dangerous''],
      core_spec ''ops.local.system_info'' ''Read local system information'' [] [''read'', ''system.read''],
      core_spec ''ops.local.processes'' ''Read local process list'' [] [''process.read'', ''system.metrics.read''],
      core_spec ''ops.local.disk_usage'' ''Read local disk usage'' [] [''disk.read'', ''system.metrics.read''],
      core_spec ''ops.local.memory_usage'' ''Read local memory usage'' [] [''memory.read'', ''system.metrics.read''],
      core_spec ''ops.local.logs_tail'' ''Read local logs''
        [(''path'', ''string''), (''max_lines'', ''number'')] [''log.read''],
      core_spec ''ops.local.service_restart'' ''Restart a local service''
        [(''service'', ''string'')] [''service.restart'', ''system.write''],
      core_spec ''ops.docker.ps'' ''List docker containers'' [] [''container.read''],
      core_spec ''ops.docker.logs'' ''Read docker logs''
        [(''container'', ''string''), (''max_lines'', ''number'')] [''container.read'', ''log.read''],
      core_spec ''ops.docker.restart'' ''Restart a docker container''
        [(''container'', ''string'')] [''container.restart'', ''container.write''],
      core_spec ''ops.k8s.get'' ''Get Kubernetes resources'' [(''resource'', ''string'')] [''k8s.read''],
      core_spec ''ops.k8s.logs'' ''Read Kubernetes logs''
        [(''target'', ''string''), (''max_lines'', ''number'')] [''k8s.read'', ''log.read''],
      core_spec ''ops.k8s.apply'' ''Apply Kubernetes manifest''
        [(''manifest_path'', ''string'')] [''k8s.write'', ''network.write''],
      core_spec ''kb.answer'' ''Answer using knowledge base evidence''
        [(''kb_id'', ''string''), (''query'', ''string''), (''mode'', ''string''), (''top_k'', ''number''), (''require_citations'', ''boolean''), (''rerank'', ''boolean'')]
        [''kb.read''],
      core_spec ''kb.retrieve'' ''Retrieve knowledge base evidence''
        [(''kb_id'', ''string''), (''query'', ''string''), (''mode'', ''string''), (''top_k'', ''number''), (''rerank'', ''boolean'')]
        [''kb.read''],
      core_spec ''memory.extract_candidates'' ''Extract memory candidates into review queue''
        [(''conversation_id'', ''string''), (''text'', ''string''), (''project_key'', ''string''), (''queue'', ''boolean'')]
        [''memory.review.write''],
      core_spec ''memory.item_archive'' ''Archive a memory item''
        [(''id'', ''string'')] [''fs.write'', ''memory.modify''],
      core_spec ''memory.patch'' ''Patch markdown memory''
        [(''path'', ''string''), (''content'', ''string'')] [''fs.write'', ''memory.modify''],
      core_spec ''skill.run'' ''Run a local skill''
        [(''skill_id'', ''string''), (''input'', ''object'')] [''unknown.effect''],
      core_spec ''mcp.call_tool'' ''Call an MCP tool''
        [(''server_id'', ''string''), (''tool_name'', ''string''), (''args'', ''object'')] [''unknown.effect'']]"

section \<open>The catalog\<close>

record catalog =
  ca_tools :: "(string \<times> planning_spec) list"
  ca_warnings :: "string list"

definition named_spec :: "tool_spec \<Rightarrow> tool_spec" where
  "named_spec s =
     (let s = (if ts_name s = [] then s\<lparr>ts_name := ts_id s\<rparr> else s)
      in if ts_id s = [] then s\<lparr>ts_id := ts_name s\<rparr> else s)"

definition all_specs :: "registry option \<Rightarrow> (string \<times> tool_spec) list" where
  "all_specs reg =
     (let core = foldl (\<lambda>m s. AList.update (ts_name s) s m) [] core_tool_specs
      in case reg of
           None \<Rightarrow> core
         | Some r \<Rightarrow> foldl (\<lambda>m s. AList.update (ts_name (named_spec s)) (named_spec s) m) core (registry_list r))"

definition planning_spec_of :: "(string \<times> tool_card) list \<Rightarrow> tool_spec \<Rightarrow> planning_spec" where
  "planning_spec_of cards s =
     (let t = (if ts_name s = [] then ts_id s else ts_name s); effects = ts_default_effects s;
          base = spec0\<lparr>pt_tool := t, pt_effects := effects\<rparr>
      in case map_of cards t of
           None \<Rightarrow>
             base\<lparr>pt_domain := domain_for_tool t, pt_description := ts_description s, pt_schema := nm (ts_input_schema s),
                  pt_auto := False, pt_approval := True\<rparr>
         | Some c \<Rightarrow>
             (let auto = (tc_auto c \<and> auto_selectable t effects)
              in base\<lparr>pt_domain := (if tc_domain c \<noteq> [] then tc_domain c else domain_for_tool t),
                      pt_description := (if tc_description c \<noteq> [] then tc_description c else ts_description s),
                      pt_schema := (if tc_schema c \<noteq> [] then tc_schema c else nm (ts_input_schema s)),
                      pt_auto := auto, pt_approval := (tool_requires_approval t effects \<or> \<not> auto),
                      pt_title := tc_title c, pt_description_zh := tc_description_zh c, pt_when := tc_when c,
                      pt_when_not := tc_when_not c, pt_slots := tc_slots c, pt_defaults := tc_defaults c,
                      pt_risk := tc_risk c, pt_examples := tc_examples c, pt_negative := tc_negative c, pt_card := Some c\<rparr>))"

definition new_catalog :: "registry option \<Rightarrow> tool_card list \<Rightarrow> catalog" where
  "new_catalog reg cards =
     (let specs = all_specs reg;
          by_tool = foldl (\<lambda>m c. AList.update (tc_tool c) (normalize_card c) m) [] cards;
          out = map (planning_spec_of by_tool \<circ> snd) specs
      in \<lparr>ca_tools = foldl (\<lambda>m p. AList.update (pt_tool p) p m) [] out,
          ca_warnings =
            map (\<lambda>p. ''tool card missing for '' @ pt_tool p) (filter (\<lambda>p. pt_card p = None) out) @
            map (\<lambda>c. ''tool card references unknown tool '' @ tc_tool c)
              (filter (\<lambda>c. map_of specs (tc_tool c) = None) cards)\<rparr>)"

definition catalog_tool :: "catalog \<Rightarrow> string \<Rightarrow> planning_spec option" where
  "catalog_tool c t = map_of (ca_tools c) t"

definition catalog_all :: "catalog \<Rightarrow> planning_spec list" where
  "catalog_all c = sort_key pt_tool (map snd (ca_tools c))"

definition semantic_text :: "planning_spec \<Rightarrow> string" where
  "semantic_text p =
     join [CHR 0x0A]
       ([pt_tool p, pt_domain p, pt_title p, pt_description p, pt_description_zh p] @ pt_when p @ pt_when_not p @
        map te_user (pt_examples p))"

section \<open>What a catalog promises\<close>

definition gated_spec :: "planning_spec \<Rightarrow> bool" where
  "gated_spec p \<longleftrightarrow>
     (pt_auto p \<longrightarrow> auto_selectable (pt_tool p) (pt_effects p) \<and> pt_card p \<noteq> None) \<and>
     (pt_approval p \<longleftrightarrow> \<not> pt_auto p \<or> tool_requires_approval (pt_tool p) (pt_effects p))"

definition good_catalog :: "catalog \<Rightarrow> bool" where
  "good_catalog c \<longleftrightarrow> distinct (map fst (ca_tools c)) \<and> (\<forall>(t, p) \<in> set (ca_tools c). pt_tool p = t \<and> gated_spec p)"

lemma gated_planning_spec: "gated_spec (planning_spec_of cards s)"
  by (auto simp: gated_spec_def planning_spec_of_def spec0_def Let_def split: option.split)

lemma foldl_update_values:
  "\<forall>(k, v) \<in> set m. P k v \<Longrightarrow> \<forall>x \<in> set xs. P (f x) x \<Longrightarrow> \<forall>(k, v) \<in> set (foldl (\<lambda>m x. AList.update (f x) x m) m xs). P k v"
proof (induction xs arbitrary: m)
  case (Cons x xs)
  have "set (AList.update (f x) x m) \<subseteq> insert (f x, x) (set m)"
    by (induction m) auto
  with Cons.prems have "\<forall>(k, v) \<in> set (AList.update (f x) x m). P k v" by auto
  with Cons show ?case by simp
qed simp

lemma foldl_update_distinct:
  "distinct (map fst m) \<Longrightarrow> distinct (map fst (foldl (\<lambda>m x. AList.update (f x) (g x) m) m xs))"
  by (induction xs arbitrary: m) (simp_all add: distinct_update)

lemma good_new_catalog: "good_catalog (new_catalog reg cards)"
proof -
  define out where "out = map (planning_spec_of (foldl (\<lambda>m c. AList.update (tc_tool c) (normalize_card c) m) [] cards) \<circ> snd) (all_specs reg)"
  have "ca_tools (new_catalog reg cards) = foldl (\<lambda>m p. AList.update (pt_tool p) p m) [] out"
    by (simp add: new_catalog_def out_def Let_def)
  moreover have "\<forall>(t, p) \<in> set (foldl (\<lambda>m p. AList.update (pt_tool p) p m) [] out). pt_tool p = t \<and> gated_spec p"
    by (rule foldl_update_values) (auto simp: out_def gated_planning_spec)
  moreover have "distinct (map fst (foldl (\<lambda>m p. AList.update (pt_tool p) p m) [] out))"
    by (rule foldl_update_distinct) simp
  ultimately show ?thesis by (simp add: good_catalog_def)
qed

lemma catalog_tool_good:
  "good_catalog c \<Longrightarrow> catalog_tool c t = Some p \<Longrightarrow> pt_tool p = t \<and> gated_spec p"
  unfolding good_catalog_def catalog_tool_def by (auto dest: map_of_SomeD)

end
