(* ===== verification/Planner_Candidates.thy ===== *)
theory Planner_Candidates
  imports Planner_Catalog "HOL-Library.Product_Lexorder"
begin

text \<open>
  \<open>internal/agent/planner/candidate/selector.go\<close>: how a request is matched against the tools of a catalog. Scores
  are exact real numbers here, where the code rounds to \<open>float64\<close> after each operation; the printed scores are
  rounded to two digits from the exact number.
\<close>

section \<open>Text similarity\<close>

type_synonym token_weights = "(nat list \<times> rat) list"

definition add_weight :: "nat list \<Rightarrow> rat \<Rightarrow> token_weights \<Rightarrow> token_weights" where
  "add_weight t w m = AList.update t ((case map_of m t of None \<Rightarrow> 0 | Some v \<Rightarrow> v) + w) m"

definition ascii_token_rune :: "nat \<Rightarrow> bool" where
  "ascii_token_rune r \<longleftrightarrow> is_letter r \<or> 48 \<le> r \<and> r \<le> 57 \<or> r = 95 \<or> r = 46"

definition lower_rune :: "nat \<Rightarrow> nat" where
  "lower_rune r = (if 65 \<le> r \<and> r \<le> 90 then r + 32 else r)"

definition flush_ascii :: "nat list \<Rightarrow> token_weights \<Rightarrow> token_weights" where
  "flush_ascii a m = (if a = [] then m else add_weight a 1 m)"

definition flush_han :: "nat list \<Rightarrow> token_weights \<Rightarrow> token_weights" where
  "flush_han h m =
     (let single = foldl (\<lambda>m r. add_weight [r] (35/100) m) m h
      in foldl (\<lambda>m (a, b). add_weight [a, b] 1 m) single (zip h (tl h)))"

fun weigh :: "nat list \<Rightarrow> nat list \<Rightarrow> token_weights \<Rightarrow> nat list \<Rightarrow> token_weights" where
  "weigh a h m [] = flush_han h (flush_ascii a m)"
| "weigh a h m (r # rs) =
     (if ascii_token_rune r then weigh (a @ [lower_rune r]) [] (flush_han h m) rs
      else if is_han r then weigh [] (h @ [r]) (flush_ascii a m) rs
      else weigh [] [] (flush_han h (flush_ascii a m)) rs)"

definition token_weights_of :: "string \<Rightarrow> token_weights" where
  "token_weights_of s = weigh [] [] [] (runes s)"

definition weight_norm :: "token_weights \<Rightarrow> rat" where
  "weight_norm m = sum_list (map (\<lambda>(t, w). w * w) m)"

definition weight_dot :: "token_weights \<Rightarrow> token_weights \<Rightarrow> rat" where
  "weight_dot l r = sum_list (map (\<lambda>(t, w). case map_of r t of Some v \<Rightarrow> w * v | None \<Rightarrow> 0) l)"

definition text_similarity :: "string \<Rightarrow> string \<Rightarrow> real" where
  "text_similarity a b =
     (let l = token_weights_of a; r = token_weights_of b in
      if l = [] \<or> r = [] \<or> weight_norm l = 0 \<or> weight_norm r = 0 then 0
      else of_rat (weight_dot l r) / (sqrt (of_rat (weight_norm l)) * sqrt (of_rat (weight_norm r))))"

section \<open>Scores\<close>

record candidate =
  cd_tool :: string
  cd_score :: real
  cd_reason :: string
  cd_card :: tool_card

definition slot_present :: "norm_request \<Rightarrow> string \<Rightarrow> bool" where
  "slot_present q slot =
     (let s = trim_space slot in
      if s = ''workspace'' then nq_workspace q \<noteq> []
      else if s = ''quoted_text'' then nq_quoted q \<noteq> []
      else if s = ''possible_file'' \<or> s = ''file_path'' then nq_files q \<noteq> []
      else if s = ''url'' then nq_urls q \<noteq> []
      else if s = ''host_id'' then nq_host q \<noteq> []
      else if s = ''kb_id'' then nq_kb q \<noteq> []
      else if s = ''run_id'' then nq_run q \<noteq> []
      else if s = ''approval_id'' then nq_approval q \<noteq> []
      else if s = ''explicit_tool_id'' then nq_tool q \<noteq> []
      else if s = ''number'' then nq_numbers q \<noteq> []
      else True)"

definition has_any_input :: "planning_spec \<Rightarrow> string list \<Rightarrow> bool" where
  "has_any_input p names \<longleftrightarrow>
     list_ex (\<lambda>f. map_of (pt_schema p) f \<noteq> None) names \<or>
     (case map_of (pt_schema p) ''properties'' of
        Some (GMap props) \<Rightarrow> list_ex (\<lambda>f. map_of props f \<noteq> None) names
      | _ \<Rightarrow> False)"

definition has_numeric_input :: "planning_spec \<Rightarrow> bool" where
  "has_numeric_input p \<longleftrightarrow>
     list_ex (\<lambda>(k, v). contains_any (to_lower (go_print v)) [''number'', ''integer'']) (pt_schema p)"

text \<open>\<open>fmt.Sprintf("%.2f", x)\<close> for a number that is not negative.\<close>

definition show_fixed2 :: "real \<Rightarrow> string" where
  "show_fixed2 x =
     (let n = nat \<lfloor>x * 100 + 1/2\<rfloor>; f = n mod 100
      in show_nat (n div 100) @ ''.'' @ [digit_char (f div 10), digit_char (f mod 10)])"

type_synonym scoring = "real \<times> string list"

definition bonus :: "bool \<Rightarrow> real \<Rightarrow> string \<Rightarrow> scoring \<Rightarrow> scoring" where
  "bonus b w reason s = (if b then (fst s + w, snd s @ [reason]) else s)"

definition penalty :: "bool \<Rightarrow> real \<Rightarrow> string \<Rightarrow> scoring \<Rightarrow> scoring" where
  "penalty b w reason s = (if b then (fst s * w, snd s @ [reason]) else s)"

definition score_spec :: "norm_request \<Rightarrow> planning_spec \<Rightarrow> scoring" where
  "score_spec q p =
     (let sim = text_similarity (nq_original q) (semantic_text p) * 4;
          reasons = (if 0 < sim then [''tool-card similarity '' @ show_fixed2 sim] else [])
      in
      if nq_tool q \<noteq> [] then
        (if nq_tool q = pt_tool p then (sim + 100, reasons @ [''explicit tool id'']) else (0, []))
      else
        let s = (sim, reasons);
            s = bonus (nq_workspace q \<noteq> [] \<and> has_any_input p [''path'', ''workspace'']) (35/100) ''workspace slot'' s;
            s = bonus (nq_quoted q \<noteq> [] \<and> ''quoted_text'' \<in> set (pt_slots p)) (3/2) ''quoted text slot'' s;
            s = (if nq_files q = [] then s
                 else if ''possible_file'' \<in> set (pt_slots p) then bonus True 3 ''possible file slot'' s
                 else bonus (has_any_input p [''path'', ''manifest_path'']) (4/10) ''file path slot'' s);
            s = bonus (nq_urls q \<noteq> [] \<and> has_any_input p [''url'', ''source_uri'']) 2 ''url slot'' s;
            s = bonus (nq_host q \<noteq> [] \<and> (has_any_input p [''host_id''] \<or> has_prefix (pt_tool p) ''ops.ssh.'')) 2 ''host id slot'' s;
            s = bonus (nq_kb q \<noteq> [] \<and> (pt_domain p = ''rag'' \<or> has_any_input p [''kb_id''])) 3 ''kb id slot'' s;
            s = bonus (nq_run q \<noteq> [] \<and> (pt_domain p = ''run'' \<or> has_any_input p [''run_id''])) 3 ''run id slot'' s;
            s = bonus (nq_approval q \<noteq> [] \<and> (pt_domain p = ''approval'' \<or> has_any_input p [''approval_id''])) 3 ''approval id slot'' s;
            s = bonus (nq_numbers q \<noteq> [] \<and> has_numeric_input p) (2/10) ''number slot'' s;
            s = penalty (\<not> list_all (slot_present q) (pt_slots p)) (35/100) ''missing preferred slot'' s
        in penalty (\<not> pt_auto p) (75/100) ''approval-gated candidate'' s)"

definition spec_card :: "planning_spec \<Rightarrow> tool_card" where
  "spec_card p =
     \<lparr>tc_tool = pt_tool p, tc_domain = pt_domain p, tc_title = pt_title p, tc_description = pt_description p,
      tc_description_zh = pt_description_zh p, tc_when = pt_when p, tc_when_not = pt_when_not p, tc_slots = pt_slots p,
      tc_schema = pt_schema p, tc_defaults = pt_defaults p, tc_effects = pt_effects p, tc_risk = pt_risk p,
      tc_auto = pt_auto p, tc_examples = pt_examples p, tc_negative = pt_negative p\<rparr>"

definition card_for_spec :: "planning_spec \<Rightarrow> tool_card" where
  "card_for_spec p = (case pt_card p of Some c \<Rightarrow> c | None \<Rightarrow> spec_card p)"

section \<open>Selecting\<close>

definition scored_candidate :: "norm_request \<Rightarrow> planning_spec \<Rightarrow> candidate" where
  "scored_candidate q p =
     \<lparr>cd_tool = pt_tool p, cd_score = fst (score_spec q p), cd_reason = join ''; '' (snd (score_spec q p)), cd_card = card_for_spec p\<rparr>"

text \<open>The highest score first, equal scores by tool id.\<close>

definition select_candidates :: "norm_request \<Rightarrow> catalog \<Rightarrow> int \<Rightarrow> candidate list" where
  "select_candidates q c top_k =
     (let k = nat (if top_k \<le> 0 then 8 else top_k);
          scored = filter (\<lambda>x. 0 < cd_score x) (map (scored_candidate q) (catalog_all c))
      in take k (sort_key (\<lambda>x. (- cd_score x, cd_tool x)) scored))"

end
