(* ===== verification/Planner_Validate.thy ===== *)
theory Planner_Validate
  imports Planner_Catalog
begin

text \<open>
  \<open>internal/agent/planner/validate\<close>: what a semantic plan, whoever made it, must satisfy before it is compiled, and
  the defaults that are filled in on the way. Errors and warnings of one map appear in the order of its list.
\<close>

section \<open>Plans\<close>

record semantic_step =
  sx_tool :: string
  sx_purpose :: string
  sx_input :: nmap
  sx_depends :: "int list"

record semantic_plan =
  sm_decision :: string
  sm_goal :: string
  sm_confidence :: rat
  sm_language :: string
  sm_domain :: string
  sm_source :: string
  sm_steps :: "semantic_step list"
  sm_answer :: string
  sm_question :: string
  sm_capability :: string
  sm_reason :: string

definition plan0 :: semantic_plan where
  "plan0 = \<lparr>sm_decision = [], sm_goal = [], sm_confidence = 0, sm_language = [], sm_domain = [], sm_source = [],
     sm_steps = [], sm_answer = [], sm_question = [], sm_capability = [], sm_reason = []\<rparr>"

definition tool_decision :: "string \<Rightarrow> bool" where
  "tool_decision d \<longleftrightarrow> d = ''tool'' \<or> d = ''multi_step''"

section \<open>Options and results\<close>

record validator =
  va_catalog :: catalog
  va_sensitive :: "string list"
  va_request :: "norm_request option"
  va_candidates :: "string list"
  va_cross :: bool
  va_match :: bool
  va_source :: bool

record plan_result =
  vr_valid :: bool
  vr_errors :: "string list"
  vr_warnings :: "string list"
  vr_clarify :: string
  vr_sanitized :: "semantic_plan option"

record step_result =
  sv_errors :: "string list"
  sv_warnings :: "string list"
  sv_clarify :: string

definition clone_semantic_step :: "semantic_step \<Rightarrow> semantic_step" where
  "clone_semantic_step s = s\<lparr>sx_input := Some (clone_map (sx_input s))\<rparr>"

definition clone_semantic_plan :: "semantic_plan \<Rightarrow> semantic_plan" where
  "clone_semantic_plan p = p\<lparr>sm_steps := map clone_semantic_step (sm_steps p)\<rparr>"

section \<open>Paths\<close>

definition path_escapes :: "string \<Rightarrow> bool" where
  "path_escapes p =
     (let c = go_clean p in c = ''..'' \<or> has_prefix c ''../'' \<or> has_sub c ''/../'')"

definition touches_marked_path :: "validator \<Rightarrow> string \<Rightarrow> bool" where
  "touches_marked_path v p =
     (let l = to_lower p in
      list_ex (\<lambda>s. let s = to_lower (trim_space s)
                   in s \<noteq> [] \<and> (l = s \<or> has_sub l (''/'' @ s) \<or> has_suffix l s)) (va_sensitive v))"

definition path_keys :: "string list" where
  "path_keys = [''path'', ''workspace'', ''manifest_path'']"

definition validate_safety :: "validator \<Rightarrow> gmap \<Rightarrow> string list \<times> string list" where
  "validate_safety v input =
     (if sr_has (scan_map (Some input)) then ([''tool input contains secret-like data''], [])
      else
        let keys = filter (\<lambda>k. trim_space (str_at input k) \<noteq> []) path_keys
        in (map (\<lambda>k. k @ '' escapes workspace: '' @ str_at input k) (filter (\<lambda>k. path_escapes (str_at input k)) keys),
            map (\<lambda>k. k @ '' touches sensitive path'') (filter (\<lambda>k. touches_marked_path v (str_at input k)) keys)))"

section \<open>Shell requests\<close>

definition command_names :: "string list" where
  "command_names =
     [''cat'', ''ls'', ''pwd'', ''ps'', ''pgrep'', ''top'', ''uname'', ''uptime'', ''free'', ''df'', ''whoami'', ''grep'', ''rg'',
      ''sed'', ''head'', ''tail'', ''go'', ''npm'', ''pnpm'', ''yarn'', ''python'', ''docker'', ''kubectl'']"

definition looks_like_command :: "string \<Rightarrow> string \<Rightarrow> bool" where
  "looks_like_command original command =
     (let fs = str_fields (to_lower (trim_space original)); cs = str_fields (to_lower (trim_space command))
      in fs \<noteq> [] \<and> cs \<noteq> [] \<and> hd fs = hd cs \<and> hd fs \<in> set command_names)"

definition shell_requested :: "validator \<Rightarrow> gmap \<Rightarrow> bool" where
  "shell_requested v input =
     (case va_request v of
        None \<Rightarrow> False
      | Some q \<Rightarrow>
          (let command = trim_space (print_at input ''command'') in
           nq_tool q = ''shell.exec'' \<or>
           command \<noteq> [] \<and> has_sub (to_lower (nq_original q)) (to_lower command) \<or>
           contains_any (to_lower (trim_space (nq_original q))) [''shell'', ''bash'', zh_command, zh_terminal, ''command''] \<or>
           command \<noteq> [] \<and> looks_like_command (nq_original q) command))"

section \<open>Defaults\<close>

definition fill_missing :: "gmap \<Rightarrow> gmap \<Rightarrow> gmap" where
  "fill_missing defaults input = foldl (\<lambda>m (k, v). if map_of m k = None then AList.update k v m else m) input defaults"

definition default_inputs :: "string \<Rightarrow> gmap" where
  "default_inputs t =
     (if t = ''code.search_text'' then [(''path'', GStr ''.''), (''limit'', GInt 50)]
      else if t = ''code.read_file'' then [(''max_bytes'', GInt 200000)]
      else if t = ''code.inspect_project'' then [(''path'', GStr ''.'')]
      else if t = ''code.run_tests'' then
        [(''workspace'', GStr ''.''), (''use_detected'', GBool True), (''timeout_seconds'', GInt 300), (''max_output_bytes'', GInt 200000)]
      else if t = ''code.fix_test_failure_loop'' then
        [(''workspace'', GStr ''.''), (''use_detected'', GBool True), (''max_iterations'', GInt 3), (''stop_on_approval'', GBool True),
         (''auto_rerun_tests'', GBool True), (''failure_context_max'', GInt 3)]
      else if t \<in> {''git.status'', ''git.diff'', ''git.diff_summary'', ''git.commit_message_proposal''} then [(''workspace'', GStr ''.'')]
      else if t = ''git.log'' then [(''workspace'', GStr ''.''), (''limit'', GInt 20)]
      else if t = ''ops.local.logs_tail'' then [(''max_lines'', GInt 100)]
      else if t = ''ops.docker.logs'' \<or> t = ''ops.k8s.logs'' then [(''max_lines'', GInt 200)]
      else if t = ''kb.answer'' then [(''top_k'', GInt 5), (''rerank'', GBool True)]
      else if t = ''kb.retrieve'' then [(''top_k'', GInt 5), (''mode'', GStr ''hybrid'')]
      else [])"

section \<open>Slots, fields and types\<close>

definition nonblank_at :: "gmap \<Rightarrow> string \<Rightarrow> bool" where
  "nonblank_at input k \<longleftrightarrow> trim_space (print_at input k) \<noteq> []"

definition slot_satisfied :: "validator \<Rightarrow> string \<Rightarrow> gmap \<Rightarrow> bool" where
  "slot_satisfied v slot input =
     (let s = trim_space slot in
      if s = [] then True
      else case va_request v of
        None \<Rightarrow> True
      | Some q \<Rightarrow>
          if s = ''workspace'' then trim_space (nq_workspace q) \<noteq> [] \<or> nonblank_at input ''workspace'' \<or> nonblank_at input ''path''
          else if s = ''quoted_text'' then nq_quoted q \<noteq> [] \<or> nonblank_at input ''query''
          else if s = ''possible_file'' \<or> s = ''file_path'' then nq_files q \<noteq> [] \<or> nonblank_at input ''path''
          else if s = ''url'' then nq_urls q \<noteq> []
          else if s = ''host_id'' then trim_space (nq_host q) \<noteq> [] \<or> nonblank_at input ''host_id''
          else if s = ''kb_id'' then trim_space (nq_kb q) \<noteq> [] \<or> nonblank_at input ''kb_id''
          else if s = ''run_id'' then trim_space (nq_run q) \<noteq> [] \<or> nonblank_at input ''run_id''
          else if s = ''approval_id'' then trim_space (nq_approval q) \<noteq> [] \<or> nonblank_at input ''approval_id''
          else if s = ''explicit_tool_id'' then trim_space (nq_tool q) \<noteq> []
          else if s = ''number'' then nq_numbers q \<noteq> []
          else nonblank_at input s)"

definition schema_required :: "gmap \<Rightarrow> string list" where
  "schema_required schema =
     (case map_of schema ''required'' of
        Some (GStrs xs) \<Rightarrow> xs
      | Some (GList vs) \<Rightarrow> filter (\<lambda>x. x \<noteq> []) (map (trim_space \<circ> go_print) vs)
      | _ \<Rightarrow> [])"

definition required_fields :: "string \<Rightarrow> string list" where
  "required_fields t =
     (if t = ''shell.exec'' then [''command'']
      else if t = ''code.read_file'' then [''path'']
      else if t = ''code.search_text'' then [''path'', ''query'']
      else if t = ''code.inspect_project'' then [''path'']
      else if t = ''kb.answer'' \<or> t = ''kb.retrieve'' then [''query'']
      else if t = ''memory.extract_candidates'' then [''text'']
      else if t = ''memory.item_archive'' then [''id'']
      else if t = ''ops.local.service_restart'' then [''service'']
      else if t = ''ops.local.logs_tail'' then [''path'']
      else if t = ''ops.docker.logs'' \<or> t = ''ops.docker.restart'' then [''container'']
      else if t = ''ops.k8s.logs'' then [''target'']
      else if t = ''ops.k8s.get'' then [''resource'']
      else [])"

definition merge_required :: "string list list \<Rightarrow> string list" where
  "merge_required groups = clean_uniq (concat groups)"

definition field_present :: "gmap \<Rightarrow> string \<Rightarrow> bool" where
  "field_present input f =
     (case map_of input f of None \<Rightarrow> False | Some v \<Rightarrow> v \<noteq> GNil \<and> trim_space (go_print v) \<noteq> [])"

definition type_matches :: "gval \<Rightarrow> string \<Rightarrow> bool" where
  "type_matches v typ =
     (let t = to_lower (trim_space typ) in
      if t = ''string'' then (case v of GStr _ \<Rightarrow> True | _ \<Rightarrow> False)
      else if t = ''number'' \<or> t = ''integer'' then (case v of GInt _ \<Rightarrow> True | GFloat _ \<Rightarrow> True | _ \<Rightarrow> False)
      else if t = ''boolean'' \<or> t = ''bool'' then (case v of GBool _ \<Rightarrow> True | _ \<Rightarrow> False)
      else if t = ''array'' then (case v of GList _ \<Rightarrow> True | GStrs _ \<Rightarrow> True | _ \<Rightarrow> False)
      else if t = ''object'' then (case v of GMap _ \<Rightarrow> True | _ \<Rightarrow> False)
      else True)"

definition field_typed :: "gmap \<Rightarrow> string \<Rightarrow> gval \<Rightarrow> bool" where
  "field_typed input f typ =
     (case map_of input f of
        None \<Rightarrow> True
      | Some v \<Rightarrow> v = GNil \<or> go_print v = [] \<or> type_matches v (go_print typ))"

definition clarify_missing :: "string \<Rightarrow> string \<Rightarrow> string" where
  "clarify_missing t f = zh_please @ t @ zh_of @ f @ zh_parameter"

definition dangerous_spec :: "planning_spec \<Rightarrow> bool" where
  "dangerous_spec p \<longleftrightarrow>
     to_lower (pt_risk p) = ''dangerous'' \<or> to_lower (pt_risk p) = ''high'' \<or>
     list_ex (\<lambda>e. contains_any (to_lower e) [''danger'', ''delete'']) (pt_effects p)"

definition planner_blocked :: "string \<Rightarrow> bool" where
  "planner_blocked t \<longleftrightarrow> t = ''mcp.call_tool'' \<or> t = ''skill.run''"

section \<open>Steps\<close>

definition step_error :: "string \<Rightarrow> string \<Rightarrow> step_result" where
  "step_error e c = \<lparr>sv_errors = [e], sv_warnings = [], sv_clarify = c\<rparr>"

definition step_refused :: "validator \<Rightarrow> semantic_step \<Rightarrow> step_result option" where
  "step_refused v s =
     (let t = sx_tool s in
      if catalog_tool (va_catalog v) t = None then Some (step_error (''unknown tool: '' @ t) [])
      else if planner_blocked t then Some (step_error (''tool is not planner auto-selectable: '' @ t) [])
      else if \<not> va_cross v \<and> (va_match v \<or> va_candidates v \<noteq> []) \<and> \<not> list_ex (\<lambda>c. trim_space c = t) (va_candidates v)
      then Some (step_error (''tool was not in candidate set: '' @ t) zh_cand_short)
      else if t = ''shell.exec'' \<and> \<not> shell_requested v (nm (sx_input s))
      then Some (step_error ''shell.exec requires explicit shell intent or an exact command from the user'' zh_no_shell)
      else None)"

definition filled_input :: "planning_spec \<Rightarrow> semantic_step \<Rightarrow> gmap" where
  "filled_input p s = fill_missing (default_inputs (sx_tool s)) (fill_missing (pt_defaults p) (nm (sx_input s)))"

definition missing_slots :: "validator \<Rightarrow> planning_spec \<Rightarrow> gmap \<Rightarrow> string list" where
  "missing_slots v p input = filter (\<lambda>s. \<not> slot_satisfied v s input) (pt_slots p)"

definition missing_fields :: "planning_spec \<Rightarrow> string \<Rightarrow> gmap \<Rightarrow> string list" where
  "missing_fields p t input =
     filter (\<lambda>f. \<not> field_present input f) (merge_required [schema_required (pt_schema p), required_fields t])"

definition validate_step :: "validator \<Rightarrow> semantic_step \<Rightarrow> step_result \<times> semantic_step" where
  "validate_step v s =
     (case step_refused v s of
        Some r \<Rightarrow> (r, s)
      | None \<Rightarrow>
          let t = sx_tool s; p = (case catalog_tool (va_catalog v) t of Some p \<Rightarrow> p | None \<Rightarrow> spec0);
              input = filled_input p s; (serr, swarn) = validate_safety v input;
              slots = missing_slots v p input; required = missing_fields p t input
          in (\<lparr>sv_errors =
                 (if dangerous_spec p \<and> \<not> pt_approval p then [''dangerous tool must require approval: '' @ t] else []) @ serr @
                 map (\<lambda>x. ''missing required slot '' @ x @ '' for '' @ t) slots @
                 map (\<lambda>x. ''missing required input '' @ x @ '' for '' @ t) required @
                 map (\<lambda>(f, ty). ''invalid input type for '' @ t @ ''.'' @ f)
                   (filter (\<lambda>(f, ty). \<not> field_typed input f ty) (pt_schema p)),
               sv_warnings =
                 (if pt_auto p then [] else [''dangerous or approval-gated tool cannot execute without policy approval'']) @
                 (if pt_approval p then [''tool requires approval before execution''] else []) @ swarn,
               sv_clarify = (case rev (slots @ required) of [] \<Rightarrow> [] | x # _ \<Rightarrow> clarify_missing t x)\<rparr>,
              s\<lparr>sx_input := Some input\<rparr>))"

section \<open>Plans\<close>

definition refuse_plan :: "string \<Rightarrow> string \<Rightarrow> plan_result" where
  "refuse_plan e c = \<lparr>vr_valid = False, vr_errors = [e], vr_warnings = [], vr_clarify = c, vr_sanitized = None\<rparr>"

definition accept_plan :: "semantic_plan \<Rightarrow> plan_result" where
  "accept_plan p = \<lparr>vr_valid = True, vr_errors = [], vr_warnings = [], vr_clarify = [], vr_sanitized = Some p\<rparr>"

definition clamp_confidence :: "rat \<Rightarrow> rat" where
  "clamp_confidence c = (if c < 0 then 0 else if 1 < c then 1 else c)"

definition validate_steps :: "validator \<Rightarrow> semantic_plan \<Rightarrow> plan_result" where
  "validate_steps v p =
     (if sm_steps p = [] then refuse_plan ''tool plan has no steps'' zh_name_tool
      else
        let rs = map (validate_step v \<circ> clone_semantic_step) (sm_steps p);
            errors = concat (map (sv_errors \<circ> fst) rs); warnings = concat (map (sv_warnings \<circ> fst) rs);
            clarify = (case filter (\<lambda>c. c \<noteq> []) (map (sv_clarify \<circ> fst) rs) of [] \<Rightarrow> [] | c # _ \<Rightarrow> c)
        in \<lparr>vr_valid = (errors = []), vr_errors = errors, vr_warnings = warnings, vr_clarify = clarify,
            vr_sanitized = (if errors = [] then Some (p\<lparr>sm_steps := map snd rs\<rparr>) else None)\<rparr>)"

definition validate_plan :: "validator \<Rightarrow> semantic_plan \<Rightarrow> plan_result" where
  "validate_plan v plan =
     (let p = clone_semantic_plan plan; p = p\<lparr>sm_confidence := clamp_confidence (sm_confidence p)\<rparr>; d = sm_decision p in
      if d = ''answer'' then
        (if sm_source p = ''semantic_llm''
         then refuse_plan ''semantic tool planner must not produce final answers'' zh_answer_refused
         else accept_plan p)
      else if d = ''no_tool'' then accept_plan (p\<lparr>sm_answer := [], sm_steps := []\<rparr>)
      else if d = ''capability_limitation'' then
        accept_plan (p\<lparr>sm_answer := [], sm_steps := [],
          sm_capability := (if sm_capability p = [] then zh_incapable else sm_capability p)\<rparr>)
      else if d = ''clarify'' then
        accept_plan (p\<lparr>sm_question := (if sm_question p = [] then zh_what_scope else sm_question p)\<rparr>)
      else if tool_decision d then
        (if va_source v \<and> sm_source p \<noteq> ''semantic_llm'' \<and> sm_source p \<noteq> ''explicit_tool_request''
         then refuse_plan ''semantic_strict tool plan must come from semantic_llm or explicit_tool_request'' zh_planner_down
         else validate_steps v p)
      else refuse_plan (''invalid decision '' @ quote d) [])"

end
