(* ===== verification/Planner_Router.thy ===== *)
theory Planner_Router
  imports Planner_Candidates Planner_Validate
begin

text \<open>
  \<open>internal/agent/planner/router\<close>, \<open>chatgate.go\<close> and \<open>semantic/config.go\<close>: whether a message is chat, tool work or
  unclear. The chat model is a function of the prompts it has been sent, and \<open>json.Unmarshal\<close> of its reply into a
  Go struct is a given function of the reply's text.
\<close>

section \<open>Configuration\<close>

record router_config =
  rc_enabled :: bool
  rc_mode :: string
  rc_fallback :: string
  rc_retries :: int
  rc_json :: bool

record planner_config =
  pg_mode :: string
  pg_semantic :: bool
  pg_shadow :: bool
  pg_retries :: int
  pg_schema :: bool
  pg_router :: router_config
  pg_gate :: bool
  pg_gate_mode :: string
  pg_require_llm :: bool
  pg_fast :: bool
  pg_fallback :: bool
  pg_context :: bool
  pg_cross :: bool
  pg_shell :: bool
  pg_show_source :: bool
  pg_show_route :: bool

definition strict_mode :: "string \<Rightarrow> bool" where
  "strict_mode m \<longleftrightarrow> to_lower (trim_space m) = ''semantic_strict''"

definition normalize_router :: "string \<Rightarrow> router_config \<Rightarrow> router_config" where
  "normalize_router gate_mode r =
     r\<lparr>rc_mode := to_lower (trim_space (if rc_mode r = [] then gate_mode else rc_mode r)),
       rc_fallback := to_lower (trim_space (if rc_fallback r = [] then ''lightweight'' else rc_fallback r)),
       rc_retries := (if rc_retries r \<le> 0 then 1 else rc_retries r), rc_json := True\<rparr>"

definition normalize_config :: "planner_config \<Rightarrow> planner_config" where
  "normalize_config c =
     (let mode = to_lower (trim_space (pg_mode c)); mode = (if mode = [] then ''hybrid'' else mode);
          gate_mode = (if pg_gate_mode c = [] then ''lightweight'' else pg_gate_mode c);
          router = normalize_router gate_mode (pg_router c);
          c = c\<lparr>pg_mode := mode, pg_retries := (if pg_retries c \<le> 0 then 2 else pg_retries c), pg_gate_mode := gate_mode,
                pg_router := router\<lparr>rc_enabled := (rc_enabled router \<or> pg_gate c)\<rparr>\<rparr>
      in if strict_mode mode
         then c\<lparr>pg_router := (pg_router c)\<lparr>rc_enabled := True\<rparr>, pg_gate := True, pg_require_llm := True, pg_fast := False,
                pg_fallback := False, pg_shell := False, pg_show_source := True, pg_show_route := True\<rparr>
         else c\<lparr>pg_fast := True, pg_fallback := True\<rparr>)"

section \<open>Talking to the model\<close>

record route_input =
  ri_conv :: string
  ri_message :: string
  ri_request :: norm_request
  ri_class :: intent_class

datatype prompt =
    PlanPrompt norm_request intent_class "candidate list"
  | RepairPlan string
  | RoutePrompt route_input
  | RepairRoute route_input string

type_synonym chat_model = "prompt list \<Rightarrow> prompt \<Rightarrow> string res"

type_synonym 'a chat = "(prompt list, 'a) state"

definition generate :: "chat_model \<Rightarrow> prompt \<Rightarrow> string res chat" where
  "generate m p = State (\<lambda>sent. (m sent p, sent @ [p]))"

text \<open>The text from the first \<open>{\<close> to the last \<open>}\<close>.\<close>

definition braced :: "string \<Rightarrow> string option" where
  "braced s =
     (case (str_index s ''{'', last_index CHR ''}'' s) of
        (Some i, Some j) \<Rightarrow> if j \<le> i then None else Some (drop i (take (j + 1) s))
      | _ \<Rightarrow> None)"

section \<open>Routes\<close>

record route_decision =
  rd_route :: string
  rd_source :: string
  rd_reason :: string
  rd_confidence :: rat

type_synonym route_decoder = "string \<Rightarrow> route_decision res"

definition route0 :: route_decision where
  "route0 = \<lparr>rd_route = [], rd_source = [], rd_reason = [], rd_confidence = 0\<rparr>"

definition known_route :: "string \<Rightarrow> bool" where
  "known_route r \<longleftrightarrow> r = ''direct_answer'' \<or> r = ''tool_needed'' \<or> r = ''clarify''"

definition parse_route :: "route_decoder \<Rightarrow> string \<Rightarrow> bool \<Rightarrow> route_decision res" where
  "parse_route dec reply require_json =
     (let v = trim_space reply;
          check = (\<lambda>d. if known_route (rd_route d) then Inr (d\<lparr>rd_confidence := clamp_confidence (rd_confidence d)\<rparr>)
                       else Inl (Err (''invalid route '' @ quote (rd_route d))))
      in
      if v = [] then Inl (Err ''empty route response'')
      else case dec v of
        Inr d \<Rightarrow> check d
      | Inl e \<Rightarrow>
          if require_json then Inl e
          else (case braced v of
                  None \<Rightarrow> Inl e
                | Some b \<Rightarrow> (case dec b of Inl e' \<Rightarrow> Inl e' | Inr d \<Rightarrow> check d)))"

definition structural_scope :: "norm_request \<Rightarrow> bool" where
  "structural_scope q \<longleftrightarrow>
     nq_tool q \<noteq> [] \<or> nq_workspace q \<noteq> [] \<or> nq_files q \<noteq> [] \<or> nq_urls q \<noteq> [] \<or> nq_host q \<noteq> [] \<or> nq_kb q \<noteq> [] \<or>
     nq_run q \<noteq> [] \<or> nq_approval q \<noteq> []"

definition memory_or_kb_request :: "string \<Rightarrow> bool" where
  "memory_or_kb_request l \<longleftrightarrow>
     contains_any l remember_words \<or> contains_any l preference_words \<and> contains_any l answer_words \<or>
     contains_any l kb_words \<and> contains_any l cite_words"

definition id_words :: "string list" where
  "id_words = [''workspace'', ''tool_id'', ''approval_id'', ''run_id'', ''host_id'', ''kb_id'']"

definition system_names :: "string list" where
  "system_names = [''docker'', ''k8s'', ''kubectl'', ''git'', ''mcp'', ''url'']"

definition looks_like_operation :: "string \<Rightarrow> bool" where
  "looks_like_operation text =
     (let l = to_lower (trim_space text) in
      l \<noteq> [] \<and>
      (memory_or_kb_request l \<or> contains_any l id_words \<or>
       contains_any l operation_verbs \<and> contains_any l (local_resources @ system_names @ resource_names)))"

definition language_question_token :: "string \<Rightarrow> bool" where
  "language_question_token v \<longleftrightarrow> v \<in> {zh_particle, zh_language, zh_is_what, zh_and} \<or> has_sub v zh_what"

definition command_fields :: "string list \<Rightarrow> bool" where
  "command_fields fs =
     (case fs of
        [] \<Rightarrow> False
      | c # rest \<Rightarrow>
          if c \<in> {''cat'', ''ls'', ''pwd'', ''ps'', ''grep'', ''rg'', ''sed'', ''head'', ''tail'', ''docker'', ''kubectl''} then True
          else if c = ''go'' then
            rest \<noteq> [] \<and> contains_any (hd rest) [''test'', ''run'', ''build'', ''env'', ''mod'', ''get'', ''install'', ''list'', ''version'', ''fmt'', ''vet'']
          else if c \<in> {''npm'', ''pnpm'', ''yarn''} then rest \<noteq> [] \<and> \<not> language_question_token (hd rest)
          else if c = ''python'' then rest \<noteq> [] \<and> (has_prefix (hd rest) ''-'' \<or> has_suffix (hd rest) ''.py'')
          else False)"

definition looks_like_shell :: "string \<Rightarrow> bool" where
  "looks_like_shell text =
     (let l = to_lower (trim_space text) in
      contains_any l [''shell'', ''bash'', zh_terminal] \<or> has_sub l zh_execute \<and> has_sub l zh_command \<or>
      command_fields (str_fields l))"

definition lightweight_route :: "route_input \<Rightarrow> route_decision" where
  "lightweight_route i =
     (let text = trim_space (ri_message i); cls = ri_class i;
          d = (\<lambda>r conf reason. \<lparr>rd_route = r, rd_source = ''conversation_router_lightweight'', rd_reason = reason, rd_confidence = conf\<rparr>)
      in
      if text = [] then d ''clarify'' (95/100) ''empty user message''
      else if ic_need_clarify cls then d ''clarify'' (ic_confidence cls) (ic_reason cls)
      else if ic_need_tool cls \<or> structural_scope (ri_request i) \<or> looks_like_operation text \<or> looks_like_shell text
      then d ''tool_needed'' (max (ic_confidence cls) (72/100)) ''request references local state, structured scope, or tool execution''
      else d ''direct_answer'' (max (ic_confidence cls) (65/100))
             ''no local state, file, tool, shell, repository, or external connector access required'')"

section \<open>Routers\<close>

datatype conv_router = Lightweight | LlmRouter "chat_model option" int bool "conv_router option"

definition fallback_reason :: "string \<Rightarrow> go_error \<Rightarrow> string" where
  "fallback_reason reason cause =
     (if reason = [] then error_text cause else reason @ ''; fallback_after='' @ error_text cause)"

definition as_fallback :: "go_error \<Rightarrow> route_decision res \<Rightarrow> route_decision res" where
  "as_fallback cause r =
     (case r of
        Inl e \<Rightarrow> Inl e
      | Inr d \<Rightarrow> Inr (d\<lparr>rd_source := ''conversation_router_fallback'', rd_reason := fallback_reason (rd_reason d) cause\<rparr>))"

text \<open>The attempts of \<open>LLMConversationRouter.Route\<close>: the decision, or the cause of falling back.\<close>

fun route_attempts ::
  "route_decoder \<Rightarrow> chat_model \<Rightarrow> bool \<Rightarrow> route_input \<Rightarrow> nat \<Rightarrow> prompt \<Rightarrow> route_decision res chat" where
  "route_attempts dec m require_json i 0 p =
     State_Monad.return (Inl (Err ''conversation router returned invalid JSON route''))"
| "route_attempts dec m require_json i (Suc n) p =
     do {
       r \<leftarrow> generate m p;
       (case r of
          Inl e \<Rightarrow> State_Monad.return (Inl e)
        | Inr content \<Rightarrow>
            (case parse_route dec (trim_space content) require_json of
               Inr d \<Rightarrow> State_Monad.return (Inr (d\<lparr>rd_source := ''conversation_router_llm''\<rparr>))
             | Inl _ \<Rightarrow> route_attempts dec m require_json i n (RepairRoute i (trim_space content))))
     }"

primrec route_with :: "route_decoder \<Rightarrow> route_input \<Rightarrow> conv_router \<Rightarrow> route_decision res chat" where
  "route_with dec i Lightweight = State_Monad.return (Inr (lightweight_route i))"
| "route_with dec i (LlmRouter model retries require_json fallback) =
     (let fall = (\<lambda>cause.
            case map_option (route_with dec i) fallback of
              None \<Rightarrow> State_Monad.return (Inl cause)
            | Some m \<Rightarrow> do { r \<leftarrow> m; State_Monad.return (as_fallback cause r) })
      in case model of
           None \<Rightarrow> fall (Err ''conversation router model unavailable'')
         | Some m \<Rightarrow>
             do {
               r \<leftarrow> route_attempts dec m require_json i (nat (max 0 retries) + 1) (RoutePrompt i);
               (case r of Inr d \<Rightarrow> State_Monad.return (Inr d) | Inl cause \<Rightarrow> fall cause)
             })"

definition router_for_mode :: "string \<Rightarrow> chat_model option \<Rightarrow> conv_router option \<Rightarrow> planner_config \<Rightarrow> conv_router" where
  "router_for_mode mode m fallback c =
     (let md = to_lower (trim_space mode) in
      if md = ''llm'' \<or> md = ''hybrid'' then LlmRouter m (rc_retries (pg_router c)) (rc_json (pg_router c)) fallback
      else Lightweight)"

definition new_router :: "planner_config \<Rightarrow> chat_model option \<Rightarrow> conv_router option" where
  "new_router c m =
     (if \<not> rc_enabled (pg_router c) \<and> \<not> pg_gate c then None
      else Some (router_for_mode (rc_mode (pg_router c)) m (Some (router_for_mode (rc_fallback (pg_router c)) None None c)) c))"

section \<open>The chat gate\<close>

text \<open>\<open>chatgate.go\<close>: an older gate with its own word lists, which nothing calls.\<close>

definition gate_action :: "string \<Rightarrow> bool" where
  "gate_action text =
     (let l = to_lower text in
      memory_or_kb_request l \<or>
      contains_any l operation_verbs \<and> contains_any l (local_resources @ id_words @ system_names @ resource_names))"

definition gate_shell :: "string \<Rightarrow> bool" where
  "gate_shell text =
     (let l = to_lower (trim_space text) in
      contains_any l [''shell'', ''bash'', zh_command, zh_terminal] \<or> command_fields (str_fields l))"

definition gate_scope :: "norm_request \<Rightarrow> bool" where
  "gate_scope q \<longleftrightarrow>
     nq_workspace q \<noteq> [] \<or> nq_files q \<noteq> [] \<or> nq_host q \<noteq> [] \<or> nq_kb q \<noteq> [] \<or> nq_run q \<noteq> [] \<or> nq_approval q \<noteq> [] \<or> nq_urls q \<noteq> []"

definition chat_gate :: "intent_class \<Rightarrow> norm_request \<Rightarrow> string" where
  "chat_gate cls q =
     (let text = trim_space (nq_original q) in
      if text = [] then ''clarify''
      else if ic_need_tool cls \<or> nq_tool q \<noteq> [] then ''maybe_tool''
      else if gate_scope q \<or> gate_action text \<or> gate_shell text then ''maybe_tool''
      else ''direct_answer'')"

end
