(* ===== verification/Planner_Engine.thy ===== *)
theory Planner_Engine
  imports Planner_Router
begin

text \<open>
  \<open>internal/agent/planner/semantic\<close>, \<open>compile\<close>, \<open>fastpath\<close> and \<open>hybrid.go\<close>: from a user message to a compiled plan.
  A plan may come from the model, from the best candidate or from an explicitly named tool; it is validated and
  compiled to an answer or to one tool proposal.
\<close>

section \<open>The model's plan\<close>

type_synonym plan_decoder = "string \<Rightarrow> semantic_plan res"

definition parse_plan :: "plan_decoder \<Rightarrow> string \<Rightarrow> semantic_plan res" where
  "parse_plan dec reply =
     (let v = trim_space reply in
      if v = [] then Inl (Err ''semantic plan response is empty'')
      else case dec v of
        Inr p \<Rightarrow> Inr p
      | Inl _ \<Rightarrow>
          (case braced v of
             None \<Rightarrow> Inl (Err ''semantic plan response is not JSON'')
           | Some b \<Rightarrow> dec b))"

record llm_planner =
  lp_model :: "chat_model option"
  lp_config :: planner_config

definition new_llm_planner :: "chat_model option \<Rightarrow> planner_config \<Rightarrow> llm_planner" where
  "new_llm_planner m c = \<lparr>lp_model = m, lp_config = normalize_config c\<rparr>"

datatype plan_failure = Unavailable | PlanFailed go_error

fun plan_attempts :: "plan_decoder \<Rightarrow> chat_model \<Rightarrow> nat \<Rightarrow> prompt \<Rightarrow> (plan_failure + semantic_plan) chat" where
  "plan_attempts dec m 0 p = State_Monad.return (Inl Unavailable)"
| "plan_attempts dec m (Suc n) p =
     do {
       r \<leftarrow> generate m p;
       (case r of
          Inl e \<Rightarrow> State_Monad.return (Inl (PlanFailed e))
        | Inr content \<Rightarrow>
            (case parse_plan dec (trim_space content) of
               Inr plan \<Rightarrow> State_Monad.return (Inr plan)
             | Inl _ \<Rightarrow> plan_attempts dec m n (RepairPlan (trim_space content))))
     }"

definition llm_plan ::
  "plan_decoder \<Rightarrow> llm_planner \<Rightarrow> norm_request \<Rightarrow> intent_class \<Rightarrow> candidate list \<Rightarrow> (plan_failure + semantic_plan) chat" where
  "llm_plan dec lp q cls cands =
     (case lp_model lp of
        None \<Rightarrow> State_Monad.return (Inl Unavailable)
      | Some m \<Rightarrow>
          if \<not> pg_semantic (lp_config lp) then State_Monad.return (Inl Unavailable)
          else plan_attempts dec m (nat (pg_retries (lp_config lp) + 1)) (PlanPrompt q cls cands))"

section \<open>A plan from the best candidate\<close>

definition first_quoted :: "norm_request \<Rightarrow> string" where
  "first_quoted q = (case filter (\<lambda>x. x \<noteq> []) (map trim_space (nq_quoted q)) of [] \<Rightarrow> [] | x # _ \<Rightarrow> x)"

definition workspace_or_dot :: "string \<Rightarrow> string" where
  "workspace_or_dot w = (if trim_space w = [] then ''.'' else trim_space w)"

definition memory_id_runes :: "string list" where
  "memory_id_runes = map (\<lambda>c. [c]) [CHR 0x60, CHR 0x27, CHR 0x22, CHR '','', CHR '';''] @ [zh_comma, zh_full_stop, zh_semicolon]"

definition memory_id :: "string \<Rightarrow> string" where
  "memory_id message =
     (case filter (\<lambda>t. has_prefix t ''mem_'' \<or> has_prefix t ''memory_'') (map (strip_runes memory_id_runes) (rev (str_fields message))) of
        [] \<Rightarrow> [] | t # _ \<Rightarrow> t)"

fun best_example :: "string \<Rightarrow> real \<Rightarrow> nmap \<Rightarrow> tool_example list \<Rightarrow> real \<times> nmap" where
  "best_example text score input [] = (score, input)"
| "best_example text score input (e # es) =
     (if score < text_similarity text (te_user e) then best_example text (text_similarity text (te_user e)) (te_input e) es
      else best_example text score input es)"

definition nearest_example_input :: "norm_request \<Rightarrow> candidate \<Rightarrow> gmap" where
  "nearest_example_input q c =
     (let (score, input) = best_example (nq_original q) 0 None (tc_examples (cd_card c))
      in if score < 35/100 then [] else clone_map input)"

definition set_quoted :: "norm_request \<Rightarrow> string \<Rightarrow> gmap \<Rightarrow> gmap" where
  "set_quoted q k m = (if first_quoted q \<noteq> [] then AList.update k (GStr (first_quoted q)) m else m)"

definition input_from_candidate :: "norm_request \<Rightarrow> string \<Rightarrow> candidate \<Rightarrow> gmap" where
  "input_from_candidate q conv c =
     (let t = cd_tool c; m = fill_missing (tc_defaults (cd_card c)) (nearest_example_input q c);
          ws = GStr (workspace_or_dot (nq_workspace q))
      in
      if t = ''shell.exec'' then (if map_of m ''cwd'' = None then AList.update ''cwd'' ws m else m)
      else if t = ''code.read_file'' then (if nq_files q \<noteq> [] then AList.update ''path'' (GStr (hd (nq_files q))) m else m)
      else if t = ''code.search_text'' then
        set_quoted q ''query'' (if nq_workspace q \<noteq> [] then AList.update ''path'' (GStr (nq_workspace q)) m else m)
      else if t = ''code.inspect_project'' then AList.update ''path'' ws m
      else if t \<in> {''code.run_tests'', ''code.fix_test_failure_loop'', ''git.status'', ''git.diff'', ''git.diff_summary'',
                    ''git.commit_message_proposal'', ''git.log''} then AList.update ''workspace'' ws m
      else if t = ''kb.answer'' \<or> t = ''kb.retrieve'' then
        (let m = AList.update ''query'' (GStr (nq_original q)) m
         in if nq_kb q \<noteq> [] then AList.update ''kb_id'' (GStr (nq_kb q)) m else m)
      else if t = ''memory.extract_candidates'' then
        (let queue = (\<not> sr_has (scan_text (nq_original q)))
         in AList.update ''queue'' (GBool queue)
              (AList.update ''text'' (GStr (if queue then nq_original q else ''[REDACTED sensitive memory request]''))
                (AList.update ''conversation_id'' (GStr conv) m)))
      else if t = ''memory.item_archive'' then
        (if first_quoted q \<noteq> [] then AList.update ''id'' (GStr (first_quoted q)) m
         else if memory_id (nq_original q) \<noteq> [] then AList.update ''id'' (GStr (memory_id (nq_original q))) m else m)
      else if t = ''ops.local.logs_tail'' then
        (if nq_files q \<noteq> [] then AList.update ''path'' (GStr (hd (nq_files q))) m else set_quoted q ''path'' m)
      else if t = ''ops.docker.logs'' \<or> t = ''ops.docker.restart'' then set_quoted q ''container'' m
      else if t = ''ops.local.service_restart'' then set_quoted q ''service'' m
      else if t = ''ops.k8s.logs'' then set_quoted q ''target'' m
      else if t = ''ops.k8s.get'' then (if map_of m ''resource'' = None then AList.update ''resource'' (GStr ''pods'') m else m)
      else m)"

definition candidate_confidence :: "real \<Rightarrow> rat" where
  "candidate_confidence s = (if 6 \<le> s then 95/100 else if 3 \<le> s then 88/100 else if 1 \<le> s then 75/100 else 6/10)"

definition plan_from_candidates :: "norm_request \<Rightarrow> string \<Rightarrow> candidate list \<Rightarrow> semantic_plan" where
  "plan_from_candidates q conv cands =
     (case cands of
        [] \<Rightarrow> plan0\<lparr>sm_decision := ''clarify'', sm_goal := nq_original q, sm_confidence := 35/100, sm_question := zh_use_tool,
                   sm_reason := ''no tool card candidates''\<rparr>
      | c # _ \<Rightarrow> plan0\<lparr>sm_decision := ''tool'', sm_goal := nq_original q, sm_confidence := candidate_confidence (cd_score c),
                   sm_domain := tc_domain (cd_card c), sm_reason := ''selected from tool card candidates: '' @ cd_reason c,
                   sm_steps := [\<lparr>sx_tool = cd_tool c, sx_purpose = tc_title (cd_card c),
                                 sx_input = Some (input_from_candidate q conv c), sx_depends = []\<rparr>]\<rparr>)"

section \<open>Compiling\<close>

record compiled =
  co_decision :: string
  co_mode :: string
  co_route :: string
  co_route_source :: string
  co_message :: string
  co_preamble :: string
  co_reason :: string
  co_source :: string
  co_candidates :: nat
  co_proposal :: "tool_proposal option"
  co_plan :: semantic_plan
  co_step :: "semantic_step option"

definition answer_compiled :: "semantic_plan \<Rightarrow> string \<Rightarrow> string \<Rightarrow> string \<Rightarrow> compiled" where
  "answer_compiled p mode message reason =
     \<lparr>co_decision = ''answer'', co_mode = mode, co_route = [], co_route_source = [], co_message = message, co_preamble = [],
      co_reason = reason, co_source = sm_source p, co_candidates = 0, co_proposal = None, co_plan = p, co_step = None\<rparr>"

definition capability_message :: "semantic_plan \<Rightarrow> string" where
  "capability_message p =
     (let detail = trim_space (sm_capability p) in
      if detail \<noteq> [] then
        (if has_sub detail zh_tools_short \<or> contains_any (to_lower detail) [''insufficient'', ''capability'']
         then detail else zh_incapable @ '' '' @ detail)
      else if sm_reason p \<noteq> [] then zh_incapable @ '' '' @ sm_reason p
      else zh_incapable)"

definition preamble_for :: "string \<Rightarrow> string" where
  "preamble_for t =
     (if t = ''code.read_file'' then zh_pre_read
      else if t = ''code.search_text'' then zh_pre_search
      else if t = ''code.inspect_project'' then zh_pre_inspect
      else if t = ''code.run_tests'' then zh_pre_tests
      else if t = ''code.fix_test_failure_loop'' then zh_pre_fix
      else if t = ''git.status'' then zh_pre_status
      else if t = ''git.diff'' then zh_pre_diff
      else if t = ''git.diff_summary'' then zh_pre_summary
      else if t = ''kb.answer'' then zh_pre_kb
      else if t = ''memory.extract_candidates'' then zh_pre_memory
      else [])"

definition compile_plan :: "catalog \<Rightarrow> id_source \<Rightarrow> semantic_plan \<Rightarrow> compiled" where
  "compile_plan cat src p =
     (let d = sm_decision p in
      if d = ''answer'' then answer_compiled p [] (sm_answer p) (sm_reason p)
      else if d = ''no_tool'' then answer_compiled p ''runner'' [] (sm_reason p)
      else if d = ''clarify'' then answer_compiled p ''planner_clarify'' (sm_question p) (sm_reason p)
      else if d = ''capability_limitation'' then answer_compiled p ''capability_limitation'' (capability_message p) (sm_reason p)
      else if tool_decision d then
        (case sm_steps p of
           [] \<Rightarrow> answer_compiled p ''planner_clarify'' zh_step_missing ''semantic plan has no steps''
         | s # _ \<Rightarrow>
             (let spec = (case catalog_tool cat (sx_tool s) of Some x \<Rightarrow> x | None \<Rightarrow> spec0);
                  purpose = (if sx_purpose s = [] then pt_description spec else sx_purpose s)
              in (answer_compiled p [] [] (sm_reason p))
                 \<lparr>co_decision := ''tool'', co_preamble := preamble_for (sx_tool s),
                  co_proposal := Some (fst (new_proposal (sx_tool s) (sx_input s) purpose (pt_effects spec) src)),
                  co_step := Some s\<rparr>))
      else answer_compiled p [] [] ''unsupported semantic decision'')"

section \<open>The hybrid planner\<close>

text \<open>Modes are the strings of the configuration: \<open>heuristic\<close>, \<open>semantic\<close>, \<open>hybrid\<close>, \<open>semantic_strict\<close>.\<close>

record hybrid =
  hp_semantic :: llm_planner
  hp_catalog :: catalog
  hp_sensitive :: "string list"
  hp_router :: "conv_router option"
  hp_mode :: string
  hp_config :: planner_config
  hp_plans :: plan_decoder
  hp_routes :: route_decoder

definition effective_config :: "hybrid \<Rightarrow> planner_config" where
  "effective_config h =
     (let c = hp_config h; c = (if hp_mode h \<noteq> [] then c\<lparr>pg_mode := hp_mode h\<rparr> else c)
      in normalize_config (if pg_mode c = [] then c\<lparr>pg_mode := ''hybrid''\<rparr> else c))"

definition reason_with_source :: "string \<Rightarrow> string \<Rightarrow> string" where
  "reason_with_source source reason =
     (if trim_space reason = [] then ''planner_source='' @ source
      else if has_sub reason ''planner_source='' then reason
      else ''planner_source='' @ source @ ''; '' @ reason)"

definition with_source :: "semantic_plan \<Rightarrow> string \<Rightarrow> semantic_plan" where
  "with_source p source = p\<lparr>sm_source := source, sm_reason := reason_with_source source (sm_reason p)\<rparr>"

definition normalize_route :: "route_decision \<Rightarrow> route_decision" where
  "normalize_route d =
     (let d = (if known_route (rd_route d) then d else d\<lparr>rd_route := ''clarify''\<rparr>)
      in if rd_source d = [] then d\<lparr>rd_source := ''conversation_router_lightweight''\<rparr> else d)"

definition explicit_candidates :: "string \<Rightarrow> candidate list \<Rightarrow> candidate list" where
  "explicit_candidates t cands = (case filter (\<lambda>c. cd_tool c = t) cands of [] \<Rightarrow> [] | c # _ \<Rightarrow> [c])"

definition full_candidates :: "catalog \<Rightarrow> candidate list" where
  "full_candidates cat =
     map (\<lambda>p. \<lparr>cd_tool = pt_tool p, cd_score = 0, cd_reason = ''full catalog context'', cd_card = spec_card p\<rparr>) (catalog_all cat)"

definition hybrid_candidates :: "hybrid \<Rightarrow> planner_config \<Rightarrow> norm_request \<Rightarrow> candidate list" where
  "hybrid_candidates h cfg q =
     (if pg_context cfg \<or> \<not> strict_mode (pg_mode cfg) then select_candidates q (hp_catalog h) 8 else full_candidates (hp_catalog h))"

definition plan_validator :: "hybrid \<Rightarrow> planner_config \<Rightarrow> norm_request \<Rightarrow> candidate list \<Rightarrow> validator" where
  "plan_validator h cfg q cands =
     \<lparr>va_catalog = hp_catalog h, va_sensitive = hp_sensitive h, va_request = Some q, va_candidates = map cd_tool cands,
      va_cross = pg_cross cfg, va_match = (\<not> pg_cross cfg \<and> (strict_mode (pg_mode cfg) \<or> cands \<noteq> [])),
      va_source = (pg_require_llm cfg \<or> strict_mode (pg_mode cfg))\<rparr>"

definition compile_valid :: "hybrid \<Rightarrow> planner_config \<Rightarrow> norm_request \<Rightarrow> candidate list \<Rightarrow> id_source \<Rightarrow> semantic_plan \<Rightarrow> compiled" where
  "compile_valid h cfg q cands src plan =
     (let r = validate_plan (plan_validator h cfg q cands) plan in
      case (if vr_valid r then vr_sanitized r else None) of
        None \<Rightarrow>
          (compile_plan (hp_catalog h) src
             (plan0\<lparr>sm_decision := ''clarify'', sm_goal := sm_goal plan, sm_confidence := sm_confidence plan, sm_domain := sm_domain plan,
                    sm_source := sm_source plan, sm_question := (if vr_clarify r = [] then zh_missing_args else vr_clarify r),
                    sm_reason := reason_with_source (sm_source plan) (join ''; '' (vr_errors r))\<rparr>))
          \<lparr>co_candidates := length cands\<rparr>
      | Some p \<Rightarrow>
          (let c = (compile_plan (hp_catalog h) src p)\<lparr>co_candidates := length cands\<rparr>
           in if co_source c = [] then c\<lparr>co_source := sm_source plan\<rparr> else c))"

definition compile_routed ::
  "hybrid \<Rightarrow> planner_config \<Rightarrow> norm_request \<Rightarrow> candidate list \<Rightarrow> id_source \<Rightarrow> route_decision \<Rightarrow> semantic_plan \<Rightarrow> compiled" where
  "compile_routed h cfg q cands src route plan =
     (compile_valid h cfg q cands src plan)\<lparr>co_route := rd_route route, co_route_source := rd_source route\<rparr>"

definition route_conversation :: "hybrid \<Rightarrow> planner_config \<Rightarrow> route_input \<Rightarrow> route_decision res chat" where
  "route_conversation h cfg i =
     (case (case hp_router h of Some r \<Rightarrow> Some r | None \<Rightarrow> new_router cfg (lp_model (hp_semantic h))) of
        None \<Rightarrow> State_Monad.return (Inr (lightweight_route i))
      | Some r \<Rightarrow> route_with (hp_routes h) i r)"

text \<open>\<open>DeterministicFastPath.Plan\<close> never plans.\<close>

definition fast_plan :: "norm_request \<Rightarrow> intent_class \<Rightarrow> semantic_plan option" where
  "fast_plan q cls = None"

definition clarify_class :: "intent_class \<Rightarrow> string" where
  "clarify_class cls = (if ic_reason cls \<noteq> [] then zh_add_scope @ ic_reason cls else zh_add_target)"

definition clarify_route :: "route_decision \<Rightarrow> string" where
  "clarify_route d = (if trim_space (rd_reason d) = [] then zh_add_target else zh_add_target_colon @ rd_reason d)"

definition first_language :: "string list \<Rightarrow> string" where
  "first_language hints = (case hints of [] \<Rightarrow> [] | x # _ \<Rightarrow> x)"

definition own_plan :: "norm_request \<Rightarrow> intent_class \<Rightarrow> string \<Rightarrow> rat \<Rightarrow> string \<Rightarrow> string \<Rightarrow> semantic_plan" where
  "own_plan q cls d conf source reason =
     plan0\<lparr>sm_decision := d, sm_goal := nq_original q, sm_confidence := conf, sm_domain := ic_domain cls, sm_source := source,
           sm_reason := reason\<rparr>"

text \<open>The end of \<open>Plan\<close>, once candidates are known and neither the classifier nor the user has decided.\<close>

definition plan_tool ::
  "hybrid \<Rightarrow> planner_config \<Rightarrow> string \<Rightarrow> norm_request \<Rightarrow> intent_class \<Rightarrow> candidate list \<Rightarrow> (go_error + semantic_plan) chat" where
  "plan_tool h cfg conv q cls cands =
     (let mode = pg_mode cfg;
          fast = (if pg_fast cfg \<and> \<not> pg_require_llm cfg \<and> mode \<noteq> ''semantic'' \<and> mode \<noteq> ''semantic_strict''
                  then fast_plan q cls else None);
          fallback = with_source (plan_from_candidates q conv cands) ''candidate_fallback'';
          may_fall_back = (pg_fallback cfg \<and> \<not> pg_require_llm cfg \<and> mode \<noteq> ''semantic_strict'')
      in case fast of
           Some p \<Rightarrow> State_Monad.return (Inr (with_source p ''fastpath''))
         | None \<Rightarrow>
             if mode \<noteq> ''heuristic'' then
               do {
                 r \<leftarrow> llm_plan (hp_plans h) (hp_semantic h) q cls cands;
                 State_Monad.return (case r of
                     Inr p \<Rightarrow> Inr (with_source p ''semantic_llm'')
                   | Inl (PlanFailed e) \<Rightarrow> Inl e
                   | Inl Unavailable \<Rightarrow>
                       Inr (if may_fall_back then fallback
                            else (own_plan q cls ''clarify'' (ic_confidence cls) ''tool_planner_unavailable''
                                   ''planner_source=tool_planner_unavailable; semantic planner unavailable and candidate fallback disabled'')
                                 \<lparr>sm_question := zh_planner_down\<rparr>))
               }
             else
               State_Monad.return (Inr
                 (if may_fall_back \<and> cands \<noteq> [] then fallback
                  else (own_plan q cls ''clarify'' (ic_confidence cls) ''clarify''
                         ''planner_source=conversation_router; route=tool_needed; no safe tool plan selected'')
                       \<lparr>sm_language := first_language (nq_languages q), sm_question := zh_cannot_choose\<rparr>)))"

definition routed_plan :: "norm_request \<Rightarrow> intent_class \<Rightarrow> route_decision \<Rightarrow> semantic_plan option" where
  "routed_plan q cls d =
     (if rd_route d = ''direct_answer'' then
        Some ((own_plan q cls ''no_tool'' (rd_confidence d) ''conversation_router''
                 ''planner_source=conversation_router; route=direct_answer; no tool needed; answer by runner'')
              \<lparr>sm_language := first_language (nq_languages q)\<rparr>)
      else if rd_route d = ''clarify'' then
        Some ((own_plan q cls ''clarify'' (rd_confidence d) ''clarify''
                 (''planner_source=conversation_router; route=clarify; '' @ rd_reason d))
              \<lparr>sm_question := clarify_route d\<rparr>)
      else None)"

text \<open>What follows the route's decision.\<close>

definition after_route ::
  "hybrid \<Rightarrow> planner_config \<Rightarrow> id_source \<Rightarrow> string \<Rightarrow> norm_request \<Rightarrow> intent_class \<Rightarrow> route_decision \<Rightarrow> compiled res chat" where
  "after_route h cfg src conv q cls d =
     (case routed_plan q cls d of
        Some p \<Rightarrow> State_Monad.return (Inr (compile_routed h cfg q [] src d p))
      | None \<Rightarrow>
          (let cands = hybrid_candidates h cfg q; finish = compile_routed h cfg q cands src d in
           if ic_need_clarify cls then
             State_Monad.return (Inr (finish
               ((own_plan q cls ''clarify'' (ic_confidence cls) ''clarify''
                   (''planner_source=conversation_router; route=tool_needed; classifier requires clarify; '' @ ic_reason cls))
                \<lparr>sm_question := clarify_class cls\<rparr>)))
           else if nq_tool q \<noteq> [] then
             State_Monad.return (Inr (finish
               (with_source (plan_from_candidates q conv (explicit_candidates (nq_tool q) cands)) ''explicit_tool_request'')))
           else
             do {
               p \<leftarrow> plan_tool h cfg conv q cls cands;
               State_Monad.return (case p of Inl e \<Rightarrow> Inl e | Inr p \<Rightarrow> Inr (finish p))
             }))"

definition hybrid_plan :: "hybrid \<Rightarrow> id_source \<Rightarrow> string \<Rightarrow> string \<Rightarrow> compiled res chat" where
  "hybrid_plan h src conv message =
     (let cfg = effective_config h; q = normalize message; cls = classify_request q in
      do {
        r \<leftarrow> route_conversation h cfg \<lparr>ri_conv = conv, ri_message = message, ri_request = q, ri_class = cls\<rparr>;
        (case r of
           Inl e \<Rightarrow> State_Monad.return (Inl e)
         | Inr d \<Rightarrow> after_route h cfg src conv q cls (normalize_route d))
      })"

end
