(* ===== verification/Validate_Facts.thy ===== *)
theory Validate_Facts
  imports Planner_Validate Planner_Candidates
begin

text \<open>
  What validation of semantic plans guarantees: an exact condition for acceptance, the paths it lets through, and the
  slots it does not check; and what a catalog and its candidates promise.
\<close>

section \<open>Acceptance\<close>

text \<open>What a step, with its defaults filled in, has to satisfy.\<close>

definition safe_input :: "gmap \<Rightarrow> bool" where
  "safe_input m \<longleftrightarrow> \<not> sr_has (scan_map (Some m)) \<and> list_all (\<lambda>k. trim_space (str_at m k) = [] \<or> \<not> path_escapes (str_at m k)) path_keys"

definition complete_input :: "planning_spec \<Rightarrow> string \<Rightarrow> gmap \<Rightarrow> bool" where
  "complete_input p t m \<longleftrightarrow>
     list_all (field_present m) (merge_required [schema_required (pt_schema p), required_fields t]) \<and>
     list_all (\<lambda>(f, ty). field_typed m f ty) (pt_schema p)"

definition tool_in_scope :: "validator \<Rightarrow> string \<Rightarrow> bool" where
  "tool_in_scope v t \<longleftrightarrow> va_cross v \<or> \<not> va_match v \<and> va_candidates v = [] \<or> list_ex (\<lambda>c. trim_space c = t) (va_candidates v)"

definition acceptable_step :: "validator \<Rightarrow> planning_spec \<Rightarrow> semantic_step \<Rightarrow> bool" where
  "acceptable_step v p s \<longleftrightarrow>
     catalog_tool (va_catalog v) (sx_tool s) = Some p \<and> \<not> planner_blocked (sx_tool s) \<and> tool_in_scope v (sx_tool s) \<and>
     (sx_tool s = ''shell.exec'' \<longrightarrow> shell_requested v (nm (sx_input s))) \<and> (dangerous_spec p \<longrightarrow> pt_approval p) \<and>
     safe_input (filled_input p s) \<and> list_all (\<lambda>x. slot_satisfied v x (filled_input p s)) (pt_slots p) \<and>
     complete_input p (sx_tool s) (filled_input p s)"

lemma step_refused_iff:
  "step_refused v s = None \<longleftrightarrow>
     catalog_tool (va_catalog v) (sx_tool s) \<noteq> None \<and> \<not> planner_blocked (sx_tool s) \<and> tool_in_scope v (sx_tool s) \<and>
     (sx_tool s = ''shell.exec'' \<longrightarrow> shell_requested v (nm (sx_input s)))"
  by (auto simp: step_refused_def tool_in_scope_def Let_def)

lemma step_refused_errors: "step_refused v s = Some r \<Longrightarrow> sv_errors r \<noteq> []"
  by (auto simp: step_refused_def step_error_def Let_def split: if_splits)

lemma validate_safety_iff: "fst (validate_safety v m) = [] \<longleftrightarrow> safe_input m"
  by (auto simp: validate_safety_def safe_input_def list_all_iff filter_empty_conv Let_def)

lemma validate_step_iff:
  "sv_errors (fst (validate_step v s)) = [] \<longleftrightarrow> (\<exists>p. acceptable_step v p s)"
proof (cases "step_refused v s")
  case (Some r)
  then have "\<not> (\<exists>p. acceptable_step v p s)"
    using step_refused_iff [of v s] by (auto simp: acceptable_step_def)
  with Some show ?thesis using step_refused_errors [of v s r] by (simp add: validate_step_def)
next
  case None
  then obtain p where p: "catalog_tool (va_catalog v) (sx_tool s) = Some p"
    using step_refused_iff [of v s] by auto
  have "sv_errors (fst (validate_step v s)) = [] \<longleftrightarrow>
      (dangerous_spec p \<longrightarrow> pt_approval p) \<and> fst (validate_safety v (filled_input p s)) = [] \<and>
      missing_slots v p (filled_input p s) = [] \<and> missing_fields p (sx_tool s) (filled_input p s) = [] \<and>
      filter (\<lambda>(f, ty). \<not> field_typed (filled_input p s) f ty) (pt_schema p) = []"
    unfolding validate_step_def None by (simp add: p Let_def case_prod_unfold)
  also have "\<dots> \<longleftrightarrow> (\<exists>p. acceptable_step v p s)"
    using None p step_refused_iff [of v s]
    by (auto simp: acceptable_step_def validate_safety_iff missing_slots_def missing_fields_def complete_input_def
        filter_empty_conv list_all_iff)
  finally show ?thesis .
qed

lemma validate_step_input:
  "acceptable_step v p s \<Longrightarrow> snd (validate_step v s) = s\<lparr>sx_input := Some (filled_input p s)\<rparr>"
  using step_refused_iff [of v s]
  by (auto simp: validate_step_def acceptable_step_def Let_def case_prod_unfold split: option.split)

definition source_ok :: "validator \<Rightarrow> semantic_plan \<Rightarrow> bool" where
  "source_ok v p \<longleftrightarrow> va_source v \<longrightarrow> sm_source p = ''semantic_llm'' \<or> sm_source p = ''explicit_tool_request''"

lemma validate_plan_tool:
  assumes "tool_decision (sm_decision plan)"
  shows "validate_plan v plan =
    (if source_ok v plan
     then validate_steps v ((clone_semantic_plan plan)\<lparr>sm_confidence := clamp_confidence (sm_confidence plan)\<rparr>)
     else refuse_plan ''semantic_strict tool plan must come from semantic_llm or explicit_tool_request'' zh_planner_down)"
proof -
  have d: "sm_decision plan \<noteq> ''answer''" "sm_decision plan \<noteq> ''no_tool''" "sm_decision plan \<noteq> ''capability_limitation''"
    "sm_decision plan \<noteq> ''clarify''"
    using assms unfolding tool_decision_def by (elim disjE; simp)+
  have c: "sm_decision (clone_semantic_plan plan) = sm_decision plan" "sm_source (clone_semantic_plan plan) = sm_source plan"
    "sm_confidence (clone_semantic_plan plan) = sm_confidence plan"
    by (simp_all add: clone_semantic_plan_def)
  show ?thesis
    by (simp add: validate_plan_def d assms c source_ok_def Let_def)
qed

lemma validate_accepts':
  assumes "tool_decision (sm_decision plan)"
  shows "vr_valid (validate_plan v plan) \<longleftrightarrow>
    source_ok v plan \<and> sm_steps plan \<noteq> [] \<and> (\<forall>s \<in> set (sm_steps plan). \<exists>p. acceptable_step v p (clone_semantic_step s))"
proof -
  have clone: "clone_semantic_step (clone_semantic_step s) = clone_semantic_step s" for s
    by (simp add: clone_semantic_step_def clone_map_idem)
  show ?thesis
    by (auto simp: validate_plan_tool [OF assms] validate_steps_def clone_semantic_plan_def refuse_plan_def validate_step_iff clone Let_def)
qed

text \<open>A plan that calls tools is accepted exactly when it comes from a source that may choose tools, has a step, and
  each of its steps names a tool of the catalog and of the candidates that planners may use, asks for approval if
  it is dangerous, was requested if it is a shell command, and, once the defaults are filled in, has input with no
  secret, no path that leaves the workspace, every required field, and a value of the declared type in every field.\<close>

theorem validate_accepts_iff:
  assumes "tool_decision (sm_decision plan)"
  shows "vr_valid (validate_plan v plan) \<longleftrightarrow>
    source_ok v plan \<and> sm_steps plan \<noteq> [] \<and> (\<forall>s \<in> set (sm_steps plan). \<exists>p. acceptable_step v p (clone_semantic_step s))"
  by (rule validate_accepts' [OF assms])

definition probe_spec :: planning_spec where
  "probe_spec = spec0\<lparr>pt_tool := ''probe'', pt_schema := [(''effects'', GStr ''boolean'')]\<rparr>"

definition probe_validator :: validator where
  "probe_validator = \<lparr>va_catalog = \<lparr>ca_tools = [(''probe'', probe_spec)], ca_warnings = []\<rparr>, va_sensitive = [], va_request = None,
     va_candidates = [''probe''], va_cross = False, va_match = True, va_source = True\<rparr>"

definition probe_plan :: semantic_plan where
  "probe_plan = plan0\<lparr>sm_decision := ''tool'', sm_source := ''semantic_llm'',
     sm_steps := [\<lparr>sx_tool = ''probe'', sx_purpose = [], sx_input = Some [(''effects'', GBool True)], sx_depends = []\<rparr>]\<rparr>"

lemma probe_step_acceptable: "acceptable_step probe_validator probe_spec (clone_semantic_step (hd (sm_steps probe_plan)))"
proof -
  define st where "st = hd (sm_steps probe_plan)"
  have st: "clone_semantic_step st = st" "filled_input probe_spec st = [(''effects'', GBool True)]" "sx_tool st = ''probe''"
    unfolding st_def by code_simp+
  have "is_sensitive_key ''effects'' = False" by code_simp
  then have "safe_input [(''effects'', GBool True)]"
    by (simp add: safe_input_def scan_map_def path_keys_def str_at_def trim_space_def trim_chars_def)
  moreover have "catalog_tool (va_catalog probe_validator) ''probe'' = Some probe_spec"
    by (simp add: catalog_tool_def probe_validator_def)
  moreover have "planner_blocked ''probe'' = False" "tool_in_scope probe_validator ''probe'' = True" "dangerous_spec probe_spec = False"
    "pt_slots probe_spec = []" "complete_input probe_spec ''probe'' [(''effects'', GBool True)] = True" by code_simp+
  ultimately show ?thesis
    unfolding st_def [symmetric] by (simp add: acceptable_step_def st)
qed

theorem validate_accepts_iff_witness: "vr_valid (validate_plan probe_validator probe_plan)"
proof -
  have d: "tool_decision (sm_decision probe_plan)" by code_simp
  have "source_ok probe_validator probe_plan" by code_simp
  then show ?thesis
    unfolding validate_accepts_iff [OF d] using probe_step_acceptable by (auto simp: probe_plan_def)
qed

section \<open>Slots\<close>

text \<open>A missing field prints as \<open><nil>\<close>, which is not blank: of the slots a card requires, validation checks those of
  URLs, of the explicit tool and of numbers, and otherwise only that the field, when given, is not blank.\<close>

lemma nonblank_missing: "map_of m k = None \<Longrightarrow> nonblank_at m k"
  by (simp add: nonblank_at_def print_at_def trim_space_def trim_chars_def is_space_def)

definition slot_key :: "string \<Rightarrow> string" where
  "slot_key s = (if s = ''quoted_text'' then ''query'' else if s = ''possible_file'' \<or> s = ''file_path'' then ''path'' else s)"

lemma if_both: "(b \<Longrightarrow> P) \<Longrightarrow> (\<not> b \<Longrightarrow> Q) \<Longrightarrow> if b then P else Q" by simp

lemma missing_slot_is_satisfied:
  assumes "map_of m (slot_key (trim_space slot)) = None"
    "trim_space slot \<noteq> ''url''" "trim_space slot \<noteq> ''explicit_tool_id''" "trim_space slot \<noteq> ''number''"
  shows "slot_satisfied v slot m"
proof -
  define s where "s = trim_space slot"
  have nb: "nonblank_at m (slot_key s)"
    using assms(1) by (simp add: s_def nonblank_missing)
  show ?thesis
  proof (cases "s = ''quoted_text'' \<or> s = ''possible_file'' \<or> s = ''file_path''")
    case True
    then show ?thesis
      using nb unfolding slot_satisfied_def Let_def s_def [symmetric]
      by (elim disjE) (simp_all add: slot_key_def split: option.split)
  next
    case False
    then have nb: "nonblank_at m s" using nb by (simp add: slot_key_def)
    then have at: "s = k \<Longrightarrow> nonblank_at m k" for k by simp
    have no: "s = ''url'' \<Longrightarrow> P" "s = ''explicit_tool_id'' \<Longrightarrow> P" "s = ''number'' \<Longrightarrow> P"
       "s = ''quoted_text'' \<Longrightarrow> P" "s = ''possible_file'' \<or> s = ''file_path'' \<Longrightarrow> P" for P
      using assms(2-4) False unfolding s_def by blast+
    show ?thesis
      unfolding slot_satisfied_def Let_def s_def [symmetric]
      by (cases "va_request v")
        (intro if_both TrueI; simp only: option.case; (intro if_both)?;
         (erule no | (drule at, simp only: simp_thms) | simp only: nb simp_thms))+
  qed
qed

section \<open>Paths\<close>

lemma split_on_app: "split_on c (a @ c # r) = split_on c a @ split_on c r"
proof (induction a)
  case Nil
  show ?case by (cases "split_on c r") (use split_on_not_Nil [of c r] in auto)
next
  case (Cons x a)
  then show ?case using split_on_not_Nil [of c a] by (cases "split_on c a") auto
qed

lemma up_inside: "has_sub s ''/../'' \<Longrightarrow> ''..'' \<in> set (split_on (CHR ''/'') s)"
proof -
  assume "has_sub s ''/../''"
  then obtain a b where "s = a @ CHR ''/'' # ''..'' @ CHR ''/'' # b" by (auto simp: sublist_def)
  moreover have "''..'' \<in> set (split_on (CHR ''/'') (''..'' @ CHR ''/'' # b))"
    unfolding split_on_app by simp
  ultimately show ?thesis by (simp add: split_on_app)
qed

lemma clean_step_relative:
  assumes "clean_path t" "\<forall>c \<in> set cs. CHR ''/'' \<notin> set c"
  shows "\<exists>k' t'. foldl (clean_step False) (replicate k ''..'' @ t) cs = replicate k' ''..'' @ t' \<and> clean_path t' \<and>
    (\<forall>root. foldl walk_comp (take (length root - k) root @ t) cs = take (length root - k') root @ t')"
  using assms
proof (induction cs arbitrary: k t)
  case (Cons c cs)
  have up: "foldl walk_comp (take (length root - k) root @ t) (c # cs) = foldl walk_comp (take (length root - j) root @ u) cs"
    if "\<And>root. walk_comp (take (length root - k) root @ t) c = take (length root - j) root @ u" for root j u
    using that by simp
  have next_step: ?case
    if "clean_step False (replicate k ''..'' @ t) c = replicate j ''..'' @ u" "clean_path u"
      "\<And>root :: path. walk_comp (take (length root - k) root @ t) c = take (length root - j) root @ u" for j u
    using Cons.IH [OF that(2), of j] Cons.prems(2) that(1,3) by auto
  consider "c = [] \<or> c = ''.''" | "c = ''..''" "t \<noteq> []" | "c = ''..''" "t = []" | "good_comp c"
    using Cons.prems(2) by (auto simp: good_comp_def)
  then show ?case
  proof cases
    case 1
    then show ?thesis by (intro next_step [of k t]) (auto simp: clean_step_def walk_comp_def Cons.prems)
  next
    case 2
    then have "last t \<noteq> ''..''" using Cons.prems(1) by (auto simp: clean_path_def list_all_iff good_comp_def)
    with 2 show ?thesis
      by (intro next_step [of k "butlast t"])
        (simp_all add: clean_step_def walk_comp_def butlast_append clean_path_butlast Cons.prems(1))
  next
    case 3
    have "clean_step False (replicate k ''..'' @ t) c = replicate (Suc k) ''..'' @ []"
      using 3 by (cases k) (simp_all add: clean_step_def replicate_append_same)
    with 3 show ?thesis
      by (intro next_step [of "Suc k" "[]"]) (simp_all add: walk_comp_def butlast_take)
  next
    case 4
    then show ?thesis
      by (intro next_step [of k "t @ [c]"]) (simp_all add: clean_step_def walk_comp_def good_comp_def Cons.prems(1))
  qed
qed auto

lemma clean_step_rooted:
  "clean_path acc \<Longrightarrow> \<forall>c \<in> set cs. CHR ''/'' \<notin> set c \<Longrightarrow>
     foldl (clean_step True) acc cs = foldl walk_comp acc cs"
proof (induction cs arbitrary: acc)
  case (Cons c cs)
  have "last acc \<noteq> ''..''" if "acc \<noteq> []"
    using Cons.prems(1) that by (auto simp: clean_path_def list_all_iff good_comp_def)
  then have "clean_step True acc c = walk_comp acc c"
    by (cases "acc = []") (auto simp: clean_step_def walk_comp_def)
  moreover have "clean_path (walk_comp acc c)"
    using Cons.prems by (simp add: clean_walk_comp)
  ultimately show ?case using Cons by simp
qed simp

lemma no_up_inside: "clean_path cs \<Longrightarrow> \<not> has_sub (path_text cs) ''/../''"
proof
  assume cl: "clean_path cs" and "has_sub (path_text cs) ''/../''"
  then have up: "''..'' \<in> set (split_on (CHR ''/'') (path_text cs))" by (intro up_inside)
  have "split_on (CHR ''/'') (path_text cs) = [] # split_on (CHR ''/'') (join ''/'' cs)"
    using split_on_app [of "CHR ''/''" "[]"] by (simp add: path_text_def)
  moreover have "split_on (CHR ''/'') (join ''/'' cs) = (if cs = [] then [[]] else cs)"
    using cl by (auto intro!: split_on_join simp: clean_path_def list_all_iff good_comp_def)
  ultimately show False using up cl by (auto simp: clean_path_def list_all_iff good_comp_def split: if_splits)
qed

lemma join_first: "c \<noteq> [] \<Longrightarrow> has_prefix (join ''/'' (c # cs)) ''../'' \<or> join ''/'' (c # cs) = ''..'' \<Longrightarrow> CHR ''/'' \<notin> set c \<Longrightarrow> c = ''..''"
  by (cases cs) (auto simp: prefix_def Cons_eq_append_conv append_eq_Cons_conv)

text \<open>The path check of the planner agrees with the workspace of the code tools: a relative path that is not blank
  passes exactly when it resolves inside the workspace wherever the workspace root is.\<close>

theorem relative_path_escapes_iff:
  assumes "\<not> is_abs p" "trim_space p \<noteq> []" "clean_path cwd"
  shows "path_escapes p \<longleftrightarrow> \<not> (\<forall>ws. \<exists>x. resolve cwd ws p = Inr x)"
proof -
  have "\<forall>c \<in> set (split_on (CHR ''/'') p). CHR ''/'' \<notin> set c" by (auto simp: split_on_no_sep)
  then obtain k t where kt: "foldl (clean_step False) [] (split_on (CHR ''/'') p) = replicate k ''..'' @ t" "clean_path t"
    and walk: "\<And>root. clean_from root p = take (length root - k) root @ t"
    using clean_step_relative [of "[]" "split_on (CHR ''/'') p" 0] by (auto simp: clean_from_def)
  have target: "target_path cwd ws p = take (length (root_path cwd ws) - k) (root_path cwd ws) @ t" for ws
    using assms(1,2) by (simp add: target_path_def walk)
  have shown: "go_clean p = (if replicate k ''..'' @ t = [] then ''.'' else join ''/'' (replicate k ''..'' @ t))"
    using assms(1) kt(1) by (simp add: go_clean_def)
  show ?thesis
  proof (cases k)
    case 0
    have "\<not> path_escapes p"
    proof (cases t)
      case Nil
      with 0 shown have "go_clean p = ''.''" by simp
      then show ?thesis by (simp add: path_escapes_def) code_simp
    next
      case (Cons c cs)
      then have c: "c \<noteq> []" "CHR ''/'' \<notin> set c" "c \<noteq> ''..''" using kt(2) by (auto simp: good_comp_def)
      have "has_sub (path_text t) (join ''/'' t)" by (simp add: path_text_def sublist_Cons_right)
      then have "\<not> has_sub (join ''/'' t) ''/../''"
        using no_up_inside [OF kt(2)] sublist_order.order.trans by blast
      with 0 Cons c join_first [of c cs] shown show ?thesis by (auto simp: path_escapes_def Let_def)
    qed
    moreover have "resolve cwd ws p = Inr (target_path cwd ws p, rel_text (root_path cwd ws) (target_path cwd ws p))" for ws
      using 0 target [of ws] by (simp add: resolve_spec [OF assms(3)])
    ultimately show ?thesis by blast
  next
    case (Suc j)
    have "go_clean p = ''..'' \<or> has_prefix (go_clean p) ''../''"
      using Suc shown by (cases "replicate j ''..'' @ t") simp_all
    then have esc: "path_escapes p" by (auto simp: path_escapes_def Let_def)
    define x where "x = (if t \<noteq> [] \<and> hd t = ''a'' then ''b'' else ''a'')"
    define ws where "ws = \<lparr>ws_root = path_text [x], ws_sensitive = []\<rparr>"
    have "root_path cwd ws = [x]"
      unfolding ws_def x_def root_path_def by (simp, intro conjI impI) code_simp+
    moreover have "\<not> prefix [x] t" by (cases t) (auto simp: x_def)
    ultimately have "resolve cwd ws p = Inl (Err ''path escapes workspace'')"
      using Suc target [of ws] by (simp add: resolve_spec [OF assms(3)])
    with esc show ?thesis by (metis sum.distinct(1))
  qed
qed

theorem relative_path_escapes_iff_witness:
  "\<not> (\<forall>ws. \<exists>x. resolve [''home''] ws ''a/../../x'' = Inr x)"
proof -
  have "\<not> is_abs ''a/../../x''" "trim_space ''a/../../x'' \<noteq> []" "path_escapes ''a/../../x''" by code_simp+
  moreover have "clean_path [''home'']" by (simp add: good_comp_def)
  ultimately show ?thesis using relative_path_escapes_iff by blast
qed

end
