(* ===== verification/Candidate_Facts.thy ===== *)
theory Candidate_Facts
  imports Planner_Candidates
begin

text \<open>
  What the catalog and the selection of candidates promise: cards cannot loosen what the registry says of a tool,
  similarities lie between 0 and 1, and what is selected.
\<close>

section \<open>Cards cannot loosen a tool\<close>

definition writing_effect :: "string \<Rightarrow> bool" where
  "writing_effect e \<longleftrightarrow>
     e = ''unknown.effect'' \<or>
     contains_any e [''write'', ''modify'', ''delete'', ''install'', ''restart'', ''danger'', ''sensitive'']"

lemma foldl_cards:
  "map_of (foldl (\<lambda>m c. AList.update (tc_tool c) (normalize_card c) m) m cards) t = Some c \<Longrightarrow>
     map_of m t = Some c \<or> (\<exists>d \<in> set cards. tc_tool d = t \<and> c = normalize_card d)"
proof (induction cards arbitrary: m)
  case (Cons d cards)
  from Cons.IH [OF Cons.prems [simplified]] show ?case
    by (auto simp: update_conv' split: if_splits)
qed simp

lemma catalog_tool_spec:
  assumes "catalog_tool (new_catalog reg cards) t = Some p"
  shows "\<exists>s \<in> snd ` set (all_specs reg).
    p = planning_spec_of (foldl (\<lambda>m c. AList.update (tc_tool c) (normalize_card c) m) [] cards) s"
proof -
  let ?by = "foldl (\<lambda>m c. AList.update (tc_tool c) (normalize_card c) m) [] cards"
  have "\<forall>(k, p) \<in> set (foldl (\<lambda>m p. AList.update (pt_tool p) p m) [] (map (planning_spec_of ?by \<circ> snd) (all_specs reg))).
      \<exists>s \<in> snd ` set (all_specs reg). p = planning_spec_of ?by s"
    by (rule foldl_update_values) auto
  with assms show ?thesis
    by (fastforce simp: catalog_tool_def new_catalog_def Let_def dest: map_of_SomeD)
qed

text \<open>C25: whatever the registry and the cards say, a tool that the catalog lets a planner use without approval is one
  that a card offers as selectable, is none of the gated tools, and has exactly the effects the registry or the
  core list states, none of which writes, modifies, deletes, installs, restarts, is dangerous, sensitive or unknown.\<close>

theorem catalog_gates_writers:
  assumes "catalog_tool (new_catalog reg cards) t = Some p" "\<not> pt_approval p"
  shows "t \<notin> set gated_tools \<and> (\<exists>c \<in> set cards. tc_tool c = t \<and> tc_auto c) \<and>
    (\<exists>s \<in> snd ` set (all_specs reg). pt_effects p = ts_default_effects s) \<and> (\<forall>e \<in> set (pt_effects p). \<not> writing_effect e)"
proof -
  have good: "pt_tool p = t" "gated_spec p"
    using catalog_tool_good [OF good_new_catalog assms(1)] by auto
  obtain s where s: "s \<in> snd ` set (all_specs reg)"
    "p = planning_spec_of (foldl (\<lambda>m c. AList.update (tc_tool c) (normalize_card c) m) [] cards) s"
    using catalog_tool_spec [OF assms(1)] by blast
  have auto: "pt_auto p" "\<not> tool_requires_approval t (pt_effects p)"
    using good assms(2) by (auto simp: gated_spec_def)
  then have "\<not> list_ex writing_effect (pt_effects p)" "t \<notin> set gated_tools"
    by (auto simp: tool_requires_approval_def auto_selectable_def writing_effect_def [abs_def])
  moreover have "pt_effects p = ts_default_effects s"
    by (simp add: s(2) planning_spec_of_def spec0_def Let_def split: option.split)
  moreover have "\<exists>c \<in> set cards. tc_tool c = t \<and> tc_auto c"
  proof -
    from auto(1) s(2) obtain c where
      c: "map_of (foldl (\<lambda>m c. AList.update (tc_tool c) (normalize_card c) m) [] cards) t = Some c" "tc_auto c"
      using good(1) by (auto simp: planning_spec_of_def spec0_def Let_def split: option.splits)
    from foldl_cards [OF c(1)] c(2) show ?thesis by (auto simp: normalize_card_def)
  qed
  ultimately show ?thesis using s(1) by (auto simp: list_ex_iff)
qed

definition card0 :: "string \<Rightarrow> tool_card" where
  "card0 t = \<lparr>tc_tool = t, tc_domain = [], tc_title = [], tc_description = [], tc_description_zh = [], tc_when = [], tc_when_not = [],
     tc_slots = [], tc_schema = [], tc_defaults = [], tc_effects = [], tc_risk = [], tc_auto = True, tc_examples = [], tc_negative = []\<rparr>"

theorem catalog_gates_writers_witness: "\<exists>s \<in> snd ` set (all_specs None). [''read'', ''git.read''] = ts_default_effects s"
proof -
  have "map_option (\<lambda>p. (pt_approval p, pt_effects p)) (catalog_tool (new_catalog None [card0 ''git.status'']) ''git.status'') =
      Some (False, [''read'', ''git.read''])"
    by code_simp
  then obtain p where "catalog_tool (new_catalog None [card0 ''git.status'']) ''git.status'' = Some p" "\<not> pt_approval p"
      "pt_effects p = [''read'', ''git.read'']"
    by auto
  then show ?thesis using catalog_gates_writers by metis
qed

section \<open>Similarity\<close>

lemma cauchy_schwarz_list:
  fixes f g :: "'a \<Rightarrow> rat"
  shows "(sum_list (map (\<lambda>x. f x * g x) xs))\<^sup>2 \<le> sum_list (map (\<lambda>x. f x * f x) xs) * sum_list (map (\<lambda>x. g x * g x) xs)"
proof (induction xs)
  case (Cons x xs)
  define a b c where abc: "a = sum_list (map (\<lambda>x. f x * f x) xs)" "b = sum_list (map (\<lambda>x. g x * g x) xs)"
    "c = sum_list (map (\<lambda>x. f x * g x) xs)"
  have nonneg: "0 \<le> a" "0 \<le> b"
    unfolding abc by (auto intro!: sum_list_nonneg)
  have "c\<^sup>2 \<le> a * b" using Cons by (simp add: abc)
  moreover have "2 * (f x * g x) * c \<le> f x * f x * b + a * (g x * g x)"
  proof -
    have "(2 * (f x * g x) * c)\<^sup>2 \<le> (f x * f x * b + a * (g x * g x))\<^sup>2"
    proof -
      have "(2 * (f x * g x) * c)\<^sup>2 = 4 * (f x * g x)\<^sup>2 * c\<^sup>2" by (simp add: power_mult_distrib)
      also have "\<dots> \<le> 4 * (f x * g x)\<^sup>2 * (a * b)"
        using \<open>c\<^sup>2 \<le> a * b\<close> by (intro mult_left_mono) auto
      also have "\<dots> = 4 * (f x * f x * b) * (a * (g x * g x))" by (simp add: power2_eq_square)
      also have "\<dots> \<le> (f x * f x * b + a * (g x * g x))\<^sup>2"
      proof -
        have "0 \<le> (f x * f x * b - a * (g x * g x))\<^sup>2" by simp
        then show ?thesis by (simp add: power2_eq_square algebra_simps)
      qed
      finally show ?thesis .
    qed
    moreover have "0 \<le> f x * f x * b + a * (g x * g x)" using nonneg by simp
    ultimately show ?thesis using power2_le_imp_le by blast
  qed
  moreover have "(f x * g x + c)\<^sup>2 = f x * f x * (g x * g x) + 2 * (f x * g x) * c + c\<^sup>2"
    by (simp add: power2_eq_square algebra_simps)
  moreover have "(f x * f x + a) * (g x * g x + b) = f x * f x * (g x * g x) + (f x * f x * b + a * (g x * g x)) + a * b"
    by (simp add: algebra_simps)
  ultimately show ?case unfolding abc [symmetric] by (simp add: abc)
qed simp

definition good_weights :: "token_weights \<Rightarrow> bool" where
  "good_weights m \<longleftrightarrow> distinct (map fst m) \<and> (\<forall>(t, w) \<in> set m. 0 < w)"

definition weight :: "token_weights \<Rightarrow> nat list \<Rightarrow> rat" where
  "weight m t = (case map_of m t of Some w \<Rightarrow> w | None \<Rightarrow> 0)"

lemma good_weights_Nil [simp]: "good_weights []"
  by (simp add: good_weights_def)

lemma good_add_weight: "good_weights m \<Longrightarrow> 0 < w \<Longrightarrow> good_weights (add_weight t w m)"
proof -
  assume m: "good_weights m" and "0 < w"
  then have pos: "0 < (case map_of m t of None \<Rightarrow> 0 | Some v \<Rightarrow> v) + w"
    by (auto simp: good_weights_def split: option.split dest!: map_of_SomeD intro: add_pos_pos)
  have "set (AList.update t v m) \<subseteq> insert (t, v) (set m)" for v
    by (induction m) auto
  with m pos show ?thesis
    unfolding good_weights_def add_weight_def by (fastforce simp: distinct_update)
qed

lemma good_foldl: "good_weights m \<Longrightarrow> (\<And>m x. good_weights m \<Longrightarrow> good_weights (f m x)) \<Longrightarrow> good_weights (foldl f m xs)"
  by (induction xs arbitrary: m) auto

lemma good_flush:
  "good_weights m \<Longrightarrow> good_weights (flush_ascii a m)"
  "good_weights m \<Longrightarrow> good_weights (flush_han h m)"
  by (auto simp: flush_ascii_def flush_han_def Let_def intro!: good_add_weight good_foldl split: prod.split)

lemma good_weigh: "good_weights m \<Longrightarrow> good_weights (weigh a h m rs)"
  by (induction a h m rs rule: weigh.induct) (auto simp: good_flush)

lemma good_token_weights: "good_weights (token_weights_of s)"
  by (simp add: token_weights_of_def good_weigh)

lemma sum_weights:
  "distinct (map fst m) \<Longrightarrow> sum_list (map (\<lambda>(t, w). f t w) m) = (\<Sum>t \<in> fst ` set m. f t (weight m t))"
proof (induction m)
  case (Cons x m)
  obtain t w where x: "x = (t, w)" by fastforce
  have "(\<Sum>u \<in> fst ` set m. f u (weight (x # m) u)) = (\<Sum>u \<in> fst ` set m. f u (weight m u))"
    using Cons.prems by (intro sum.cong) (auto simp: x weight_def image_iff)
  with Cons show ?case by (simp add: x sum.insert) (simp add: weight_def)
qed simp

lemma weight_zero: "t \<notin> fst ` set m \<Longrightarrow> weight m t = 0"
  by (simp add: weight_def map_of_eq_None_iff [THEN iffD2] split: option.split)

lemma weight_sums:
  assumes "good_weights l" "good_weights r"
  shows "weight_dot l r = (\<Sum>t \<in> fst ` set l \<union> fst ` set r. weight l t * weight r t)"
    and "weight_norm l = (\<Sum>t \<in> fst ` set l \<union> fst ` set r. weight l t * weight l t)"
    and "weight_norm r = (\<Sum>t \<in> fst ` set l \<union> fst ` set r. weight r t * weight r t)"
proof -
  have dl: "distinct (map fst l)" and dr: "distinct (map fst r)"
    using assms by (auto simp: good_weights_def)
  have "weight_dot l r = sum_list (map (\<lambda>(t, w). w * weight r t) l)"
    unfolding weight_dot_def weight_def by (intro arg_cong [where f = sum_list] map_cong) (auto split: option.split)
  also have "\<dots> = (\<Sum>t \<in> fst ` set l. weight l t * weight r t)"
    using sum_weights [OF dl, of "\<lambda>t w. w * weight r t"] by simp
  also have "\<dots> = (\<Sum>t \<in> fst ` set l \<union> fst ` set r. weight l t * weight r t)"
    by (intro sum.mono_neutral_left) (auto simp: weight_zero)
  finally show "weight_dot l r = (\<Sum>t \<in> fst ` set l \<union> fst ` set r. weight l t * weight r t)" .
  show "weight_norm l = (\<Sum>t \<in> fst ` set l \<union> fst ` set r. weight l t * weight l t)"
    unfolding weight_norm_def sum_weights [OF dl] by (intro sum.mono_neutral_left) (auto simp: weight_zero)
  show "weight_norm r = (\<Sum>t \<in> fst ` set l \<union> fst ` set r. weight r t * weight r t)"
    unfolding weight_norm_def sum_weights [OF dr] by (intro sum.mono_neutral_left) (auto simp: weight_zero)
qed

lemma weight_nonneg: "good_weights m \<Longrightarrow> 0 \<le> weight m t"
  by (auto simp: weight_def good_weights_def split: option.split dest!: map_of_SomeD)

lemma weight_norm_pos: "good_weights m \<Longrightarrow> m \<noteq> [] \<Longrightarrow> 0 < weight_norm m"
proof -
  assume "good_weights m" "m \<noteq> []"
  then obtain t w m' where "m = (t, w) # m'" "0 < w" by (cases m) (auto simp: good_weights_def)
  moreover have "0 \<le> sum_list (map (\<lambda>(t, w). w * w) m')" by (auto intro!: sum_list_nonneg)
  ultimately show ?thesis by (simp add: weight_norm_def add_pos_nonneg)
qed

lemma weight_dot_bounds:
  assumes "good_weights l" "good_weights r"
  shows "0 \<le> weight_dot l r" "(weight_dot l r)\<^sup>2 \<le> weight_norm l * weight_norm r"
proof -
  show "0 \<le> weight_dot l r"
    unfolding weight_sums(1) [OF assms] using assms by (auto intro!: sum_nonneg simp: weight_nonneg)
  obtain ts where ts: "distinct ts" "set ts = fst ` set l \<union> fst ` set r"
    using finite_distinct_list [of "fst ` set l \<union> fst ` set r"] by auto
  show "(weight_dot l r)\<^sup>2 \<le> weight_norm l * weight_norm r"
    using cauchy_schwarz_list [of "weight l" "weight r" ts]
    unfolding weight_sums [OF assms] ts(2) [symmetric] sum_list_distinct_conv_sum_set [OF ts(1)] .
qed

lemma text_similarity_bounds':
  "0 \<le> text_similarity a b \<and> text_similarity a b \<le> 1 \<and> text_similarity a b = text_similarity b a \<and>
   text_similarity a a = (if token_weights_of a = [] then 0 else 1)"
proof -
  define l r where lr: "l = token_weights_of a" "r = token_weights_of b"
  have g: "good_weights l" "good_weights r" by (simp_all add: lr good_token_weights)
  have sym: "weight_dot l r = weight_dot r l"
    unfolding weight_sums(1) [OF g] weight_sums(1) [OF g(2,1)] by (simp add: Un_commute mult.commute)
  have self: "weight_dot l l = weight_norm l"
    unfolding weight_sums(1) [OF g(1,1)] weight_sums(2) [OF g(1,1)] ..
  have le: "real_of_rat (weight_dot l r) \<le> sqrt (real_of_rat (weight_norm l)) * sqrt (real_of_rat (weight_norm r))"
  proof -
    have "(real_of_rat (weight_dot l r))\<^sup>2 \<le> real_of_rat (weight_norm l) * real_of_rat (weight_norm r)"
      using weight_dot_bounds(2) [OF g] by (simp flip: of_rat_mult of_rat_power add: of_rat_less_eq)
    then show ?thesis by (simp add: real_le_rsqrt flip: real_sqrt_mult)
  qed
  have bounds: "0 \<le> text_similarity a b \<and> text_similarity a b \<le> 1"
    using le weight_dot_bounds(1) [OF g] weight_norm_pos [OF g(1)] weight_norm_pos [OF g(2)]
    by (auto simp: text_similarity_def lr Let_def divide_le_eq zero_less_mult_iff)
  have "text_similarity a b = text_similarity b a"
    using sym by (simp add: text_similarity_def lr [symmetric] Let_def mult.commute)
  moreover have "text_similarity a a = (if l = [] then 0 else 1)"
    using weight_norm_pos [OF g(1)] self by (cases "l = []") (simp_all add: text_similarity_def lr [symmetric] Let_def)
  ultimately show ?thesis using bounds by (simp add: lr)
qed

text \<open>The similarity of two texts is a number between 0 and 1, is the same in both directions, and a text that has any
  token at all is as similar to itself as possible.\<close>

theorem text_similarity_bounds:
  "0 \<le> text_similarity a b \<and> text_similarity a b \<le> 1 \<and> text_similarity a b = text_similarity b a \<and>
   text_similarity a a = (if token_weights_of a = [] then 0 else 1)"
  by (rule text_similarity_bounds')

section \<open>Selection\<close>

lemma set_catalog_all: "set (catalog_all c) = snd ` set (ca_tools c)"
  by (simp add: catalog_all_def)

lemma distinct_catalog_all: "good_catalog c \<Longrightarrow> distinct (map pt_tool (catalog_all c))"
proof -
  assume "good_catalog c"
  then have "map pt_tool (map snd (ca_tools c)) = map fst (ca_tools c)" "distinct (map fst (ca_tools c))"
    by (auto simp: good_catalog_def)
  then have "distinct (map pt_tool (map snd (ca_tools c)))" by (simp only:)
  then show ?thesis unfolding catalog_all_def by (simp only: distinct_map distinct_sort set_sort)
qed

lemma catalog_all_tools: "good_catalog c \<Longrightarrow> p \<in> set (catalog_all c) \<longleftrightarrow> catalog_tool c (pt_tool p) = Some p"
  unfolding set_catalog_all good_catalog_def catalog_tool_def by (force dest: map_of_SomeD)

lemma filter_distinct_key:
  "distinct (map f xs) \<Longrightarrow> x \<in> set xs \<Longrightarrow> filter (\<lambda>y. f y = f x) xs = [x]"
  by (induction xs) (auto simp: filter_empty_conv image_iff)

lemma score_explicit:
  "nq_tool q \<noteq> [] \<Longrightarrow> 0 < cd_score (scored_candidate q p) \<longleftrightarrow> pt_tool p = nq_tool q"
  using text_similarity_bounds' [of "nq_original q" "semantic_text p"]
  by (auto simp: scored_candidate_def score_spec_def Let_def)

text \<open>At most eight candidates (or as many as asked for) are selected, all of them tools of the catalog with a positive
  score, the best ones first. When the request names a tool, that tool is the only candidate, or there is none when
  the catalog does not have it.\<close>

theorem select_candidates_spec:
  assumes "good_catalog c"
  shows "length (select_candidates q c k) \<le> nat (if k \<le> 0 then 8 else k) \<and>
    list_all (\<lambda>x. 0 < cd_score x \<and> catalog_tool c (cd_tool x) \<noteq> None) (select_candidates q c k) \<and>
    sorted (map (\<lambda>x. (- cd_score x, cd_tool x)) (select_candidates q c k)) \<and>
    (if nq_tool q = [] then True
     else map cd_tool (select_candidates q c k) = (if catalog_tool c (nq_tool q) = None then [] else [nq_tool q]))"
proof -
  define scored where "scored = filter (\<lambda>x. 0 < cd_score x) (map (scored_candidate q) (catalog_all c))"
  define n where "n = nat (if k \<le> 0 then 8 else k)"
  have sel: "select_candidates q c k = take n (sort_key (\<lambda>x. (- cd_score x, cd_tool x)) scored)"
    by (simp add: select_candidates_def scored_def n_def Let_def)
  have "set (select_candidates q c k) \<subseteq> set scored"
    unfolding sel using set_take_subset by fastforce
  moreover have "\<forall>x \<in> set scored. 0 < cd_score x \<and> catalog_tool c (cd_tool x) \<noteq> None"
    using catalog_all_tools [OF assms] by (auto simp: scored_def scored_candidate_def)
  ultimately have all: "list_all (\<lambda>x. 0 < cd_score x \<and> catalog_tool c (cd_tool x) \<noteq> None) (select_candidates q c k)"
    by (auto simp: list_all_iff)
  have sorted: "sorted (map (\<lambda>x. (- cd_score x, cd_tool x)) (select_candidates q c k))"
    unfolding sel by (simp add: sorted_wrt_take flip: take_map)
  have explicit: "map cd_tool (select_candidates q c k) = (if catalog_tool c (nq_tool q) = None then [] else [nq_tool q])"
    if "nq_tool q \<noteq> []"
  proof -
    have scored: "scored = map (scored_candidate q) (filter (\<lambda>p. pt_tool p = nq_tool q) (catalog_all c))"
      unfolding scored_def filter_map o_def score_explicit [OF that] ..
    have "1 \<le> n" by (auto simp: n_def)
    show ?thesis
    proof (cases "catalog_tool c (nq_tool q)")
      case None
      then have "filter (\<lambda>p. pt_tool p = nq_tool q) (catalog_all c) = []"
        using catalog_all_tools [OF assms] by (auto simp: filter_empty_conv)
      with None show ?thesis by (simp add: sel scored)
    next
      case (Some p)
      then have p: "pt_tool p = nq_tool q" "p \<in> set (catalog_all c)"
        using catalog_tool_good [OF assms Some] catalog_all_tools [OF assms, of p] by auto
      have "filter (\<lambda>y. pt_tool y = nq_tool q) (catalog_all c) = [p]"
        using filter_distinct_key [OF distinct_catalog_all [OF assms] p(2)] p(1) by simp
      with Some p \<open>1 \<le> n\<close> show ?thesis
        by (cases n) (simp_all add: sel scored scored_candidate_def)
    qed
  qed
  show ?thesis
    using all sorted explicit by (simp add: sel n_def)
qed

theorem select_candidates_spec_witness:
  "length (select_candidates (normalize ''tool_id: git.status'') (new_catalog None []) 0) \<le> 8"
  using select_candidates_spec [OF good_new_catalog [of None "[]"], of "normalize ''tool_id: git.status''" 0] by simp

end
