(* ===== verification/Planner_Safety.thy ===== *)
theory Planner_Safety
  imports Planner_Engine Validate_Facts Candidate_Facts
begin

text \<open>
  What the hybrid planner guarantees whatever the chat model replies and however its replies are decoded: which tool
  it can propose with which input, who chose it, and how often the model is asked.
\<close>

section \<open>From an accepted plan to a proposal\<close>

definition proposes :: "validator \<Rightarrow> tool_proposal \<Rightarrow> bool" where
  "proposes v pr \<longleftrightarrow>
     (\<exists>p s. acceptable_step v p s \<and> tp_tool pr = sx_tool s \<and> tp_input pr = Some (clone_map (Some (filled_input p s))) \<and>
       tp_expected pr = pt_effects p)"

lemma sanitized_steps:
  assumes "tool_decision (sm_decision plan)" "vr_sanitized (validate_plan v plan) = Some p"
  shows "vr_valid (validate_plan v plan) \<and> sm_decision p = sm_decision plan \<and> sm_source p = sm_source plan \<and>
    sm_steps p = map (\<lambda>s. snd (validate_step v (clone_semantic_step s))) (sm_steps plan)"
proof -
  have clone: "clone_semantic_step (clone_semantic_step s) = clone_semantic_step s" for s
    by (simp add: clone_semantic_step_def clone_map_idem)
  show ?thesis
    using assms(2)
    by (auto simp: validate_plan_tool [OF assms(1)] validate_steps_def refuse_plan_def clone_semantic_plan_def clone Let_def
        split: if_splits)
qed

lemma sanitized_no_tool:
  "\<not> tool_decision (sm_decision plan) \<Longrightarrow> vr_sanitized (validate_plan v plan) = Some p \<Longrightarrow> \<not> tool_decision (sm_decision p)"
  by (auto simp: validate_plan_def refuse_plan_def accept_plan_def clone_semantic_plan_def Let_def split: if_splits)

lemma compile_proposal:
  "co_proposal (compile_plan cat src p) = Some pr \<Longrightarrow>
     tool_decision (sm_decision p) \<and> (\<exists>s ss. sm_steps p = s # ss \<and> tp_tool pr = sx_tool s \<and>
       tp_input pr = Some (clone_map (sx_input s)) \<and>
       tp_expected pr = pt_effects (case catalog_tool cat (sx_tool s) of Some x \<Rightarrow> x | None \<Rightarrow> spec0))"
  by (auto simp: compile_plan_def answer_compiled_def new_proposal_fields Let_def split: if_splits list.splits)

lemma compile_source: "co_source (compile_plan cat src p) = sm_source p"
  by (simp add: compile_plan_def answer_compiled_def Let_def split: list.split)

lemma compile_valid_proposal:
  assumes "co_proposal (compile_valid h cfg q cands src plan) = Some pr"
  shows "tool_decision (sm_decision plan)" "proposes (plan_validator h cfg q cands) pr"
    "source_ok (plan_validator h cfg q cands) plan" "co_source (compile_valid h cfg q cands src plan) = sm_source plan"
    "\<exists>s ss. sm_steps plan = s # ss \<and> tp_tool pr = sx_tool s"
proof -
  let ?v = "plan_validator h cfg q cands"
  define r where "r = validate_plan ?v plan"
  have refused: "co_proposal (compile_plan (hp_catalog h) src (x\<lparr>sm_decision := ''clarify'', sm_goal := g, sm_confidence := f, sm_domain := d,
      sm_source := u, sm_question := z, sm_reason := y\<rparr>)) = None" for x g f d u z y
    by (simp add: compile_plan_def answer_compiled_def Let_def)
  from assms obtain p where p: "vr_valid r" "vr_sanitized r = Some p" "co_proposal (compile_plan (hp_catalog h) src p) = Some pr"
    by (auto simp: compile_valid_def r_def [symmetric] refused Let_def split: if_splits option.splits)
  note c = compile_proposal [OF p(3)]
  show tool: "tool_decision (sm_decision plan)"
    using sanitized_no_tool p(2) c unfolding r_def by blast
  note s = sanitized_steps [OF tool p(2) [unfolded r_def]]
  have valid: "source_ok ?v plan" "\<forall>s \<in> set (sm_steps plan). \<exists>p. acceptable_step ?v p (clone_semantic_step s)"
    using validate_accepts' [OF tool, of ?v] s by auto
  then show "source_ok ?v plan" by simp
  from c s obtain st sts where st: "sm_steps plan = st # sts" "tp_tool pr = sx_tool (snd (validate_step ?v (clone_semantic_step st)))"
      "tp_input pr = Some (clone_map (sx_input (snd (validate_step ?v (clone_semantic_step st)))))"
      "tp_expected pr = pt_effects (case catalog_tool (hp_catalog h) (tp_tool pr) of Some x \<Rightarrow> x | None \<Rightarrow> spec0)"
    by auto
  obtain ps where ps: "acceptable_step ?v ps (clone_semantic_step st)" using valid(2) st(1) by auto
  note filled = validate_step_input [OF ps]
  have tool_eq: "tp_tool pr = sx_tool st" using st(2) filled by (simp add: clone_semantic_step_def)
  then show "\<exists>s ss. sm_steps plan = s # ss \<and> tp_tool pr = sx_tool s" using st(1) by blast
  have same: "sx_tool (clone_semantic_step st) = sx_tool st" by (simp add: clone_semantic_step_def)
  have "catalog_tool (hp_catalog h) (tp_tool pr) = Some ps"
    using ps tool_eq same by (simp add: acceptable_step_def plan_validator_def)
  then have "tp_expected pr = pt_effects ps" using st(4) by simp
  moreover have "tp_input pr = Some (clone_map (Some (filled_input ps (clone_semantic_step st))))"
    using st(3) filled by simp
  ultimately show "proposes ?v pr"
    unfolding proposes_def using ps tool_eq same by metis
  show "co_source (compile_valid h cfg q cands src plan) = sm_source plan"
    using p s by (simp add: compile_valid_def r_def [symmetric] compile_source Let_def)
qed

section \<open>Every way to a plan\<close>

definition request_of :: "string \<Rightarrow> norm_request" where
  "request_of message = normalize message"

text \<open>The plans that can reach the compiler once the route is \<open>tool_needed\<close>.\<close>

definition plan_origin :: "hybrid \<Rightarrow> string \<Rightarrow> norm_request \<Rightarrow> candidate list \<Rightarrow> semantic_plan \<Rightarrow> bool" where
  "plan_origin h conv q cands p \<longleftrightarrow>
     \<not> tool_decision (sm_decision p) \<or>
     nq_tool q \<noteq> [] \<and> p = with_source (plan_from_candidates q conv (explicit_candidates (nq_tool q) cands)) ''explicit_tool_request'' \<or>
     nq_tool q = [] \<and> (sm_source p = ''semantic_llm'' \<or>
       sm_source p = ''candidate_fallback'' \<and> p = with_source (plan_from_candidates q conv cands) ''candidate_fallback'')"

lemma own_plan_no_tool:
  "\<not> tool_decision d \<Longrightarrow> \<not> tool_decision (sm_decision (own_plan q cls d conf source reason))"
  by (simp add: own_plan_def)

lemma decisions: "\<not> tool_decision ''clarify''" "\<not> tool_decision ''no_tool''"
  by code_simp+

lemma plan_tool_origin:
  assumes "fst (run_state (plan_tool h cfg conv q cls cands) sent) = Inr p" "nq_tool q = []"
  shows "plan_origin h conv q cands p"
proof -
  have no: "sm_decision x = ''clarify'' \<Longrightarrow> plan_origin h conv q cs x" for x cs
    using decisions(1) by (simp add: plan_origin_def)
  have llm: "plan_origin h conv q cands (with_source x ''semantic_llm'')" for x
    using assms(2) by (simp add: plan_origin_def with_source_def)
  have fb: "plan_origin h conv q cands (with_source (plan_from_candidates q conv cands) ''candidate_fallback'')"
    using assms(2) by (simp add: plan_origin_def with_source_def)
  have own: "sm_decision (own_plan q cls d c s r) = d" for d c s r by (simp add: own_plan_def)
  have fast: "(if b then fast_plan q cls else None) = None" for b by (simp add: fast_plan_def)
  show ?thesis
    using assms(1)
    by (auto simp: plan_tool_def fast Let_def case_prod_unfold own fb llm intro: no split: if_splits sum.splits plan_failure.splits)
qed

lemma after_route_origin:
  assumes "fst (run_state (after_route h cfg src conv q cls d) sent) = Inr c"
  shows "\<exists>cands p. c = compile_routed h cfg q cands src d p \<and>
    (cands = hybrid_candidates h cfg q \<and> plan_origin h conv q cands p \<or> \<not> tool_decision (sm_decision p))"
proof (cases "routed_plan q cls d")
  case (Some p)
  then have "c = compile_routed h cfg q [] src d p"
    using assms by (simp add: after_route_def)
  moreover have "\<not> tool_decision (sm_decision p)"
    using Some by (auto simp: routed_plan_def own_plan_def decisions split: if_splits)
  ultimately show ?thesis by blast
next
  case None
  let ?cands = "hybrid_candidates h cfg q"
  consider "ic_need_clarify cls" | "\<not> ic_need_clarify cls" "nq_tool q \<noteq> []" | "\<not> ic_need_clarify cls" "nq_tool q = []"
    by blast
  then obtain p where "c = compile_routed h cfg q ?cands src d p" "plan_origin h conv q ?cands p"
  proof cases
    case 1
    then show ?thesis
      using assms None that by (auto simp: after_route_def Let_def plan_origin_def own_plan_def decisions)
  next
    case 2
    then show ?thesis
      using assms None that by (auto simp: after_route_def Let_def plan_origin_def)
  next
    case 3
    obtain r sent' where run: "run_state (plan_tool h cfg conv q cls ?cands) sent = (r, sent')" by fastforce
    with assms None 3 obtain p where p: "r = Inr p" "c = compile_routed h cfg q ?cands src d p"
      by (auto simp: after_route_def Let_def split: sum.splits)
    moreover have "plan_origin h conv q ?cands p"
      using run p(1) 3 by (intro plan_tool_origin [of h cfg conv q cls ?cands sent]) simp_all
    ultimately show ?thesis using that by blast
  qed
  then show ?thesis by blast
qed

lemma hybrid_plan_origin:
  assumes "fst (run_state (hybrid_plan h src conv message) sent) = Inr c"
  shows "\<exists>d cands p. c = compile_routed h (effective_config h) (normalize message) cands src d p \<and>
    (cands = hybrid_candidates h (effective_config h) (normalize message) \<and> plan_origin h conv (normalize message) cands p \<or>
     \<not> tool_decision (sm_decision p))"
proof -
  obtain r sent' where route: "run_state (route_conversation h (effective_config h) \<lparr>ri_conv = conv, ri_message = message,
      ri_request = normalize message, ri_class = classify_request (normalize message)\<rparr>) sent = (r, sent')" by fastforce
  with assms obtain d where
    "fst (run_state (after_route h (effective_config h) src conv (normalize message) (classify_request (normalize message))
       (normalize_route d)) sent') = Inr c"
    by (cases r) (auto simp: hybrid_plan_def Let_def)
  from after_route_origin [OF this] show ?thesis by blast
qed

text \<open>C24: whatever the model replies and however replies are decoded, a tool that the planner proposes is a tool of the catalog
  that planners may use and that is among the candidates unless cross-candidate choices are allowed; a dangerous
  tool asks for approval; the input has no secret, no escaping path, every required field and values of the
  declared types; and the expected effects are those of the catalog.\<close>

theorem planned_tool_was_validated:
  assumes "fst (run_state (hybrid_plan h src conv message) sent) = Inr c" "co_proposal c = Some pr"
  shows "\<exists>p m. catalog_tool (hp_catalog h) (tp_tool pr) = Some p \<and> \<not> planner_blocked (tp_tool pr) \<and>
    (pg_cross (effective_config h) \<or>
       list_ex (\<lambda>x. trim_space (cd_tool x) = tp_tool pr) (hybrid_candidates h (effective_config h) (normalize message)) \<or>
       hybrid_candidates h (effective_config h) (normalize message) = [] \<and> \<not> strict_mode (pg_mode (effective_config h))) \<and>
    (if dangerous_spec p then pt_approval p else True) \<and> safe_input m \<and> complete_input p (tp_tool pr) m \<and>
    tp_input pr = Some (clone_map (Some m)) \<and> tp_expected pr = pt_effects p"
proof -
  let ?cfg = "effective_config h" and ?q = "normalize message"
  from hybrid_plan_origin [OF assms(1)] obtain d cands p where c: "c = compile_routed h ?cfg ?q cands src d p"
    "cands = hybrid_candidates h ?cfg ?q \<or> \<not> tool_decision (sm_decision p)" by blast
  have pr: "co_proposal (compile_valid h ?cfg ?q cands src p) = Some pr"
    using assms(2) c(1) by (simp add: compile_routed_def)
  note v = compile_valid_proposal [OF pr]
  with c(2) have cands: "cands = hybrid_candidates h ?cfg ?q" by blast
  from v(2) obtain sp st where "acceptable_step (plan_validator h ?cfg ?q cands) sp st" "tp_tool pr = sx_tool st"
      "tp_input pr = Some (clone_map (Some (filled_input sp st)))" "tp_expected pr = pt_effects sp"
    unfolding proposes_def by blast
  then show ?thesis
    by (intro exI [of _ sp] exI [of _ "filled_input sp st"])
      (auto simp: acceptable_step_def plan_validator_def tool_in_scope_def cands o_def list_ex_iff)
qed

lemma planned_tool_in_catalog:
  assumes "fst (run_state (hybrid_plan h src conv message) sent) = Inr c" "co_proposal c = Some pr"
  shows "catalog_tool (hp_catalog h) (tp_tool pr) \<noteq> None"
proof -
  from hybrid_plan_origin [OF assms(1)] obtain cfg q cands d p where "c = compile_routed h cfg q cands src d p" by blast
  with assms(2) have "co_proposal (compile_valid h cfg q cands src p) = Some pr" by (simp add: compile_routed_def)
  from compile_valid_proposal(2) [OF this] show ?thesis
    by (auto simp: proposes_def acceptable_step_def plan_validator_def)
qed

lemma explicit_plan_tool:
  "sm_steps (with_source (plan_from_candidates q conv (explicit_candidates t cands)) u) = s # ss \<Longrightarrow> sx_tool s = t"
proof (cases "filter (\<lambda>c. cd_tool c = t) cands")
  case (Cons c cs)
  then have "c \<in> set (filter (\<lambda>c. cd_tool c = t) cands)" by simp
  then have "cd_tool c = t" by simp
  moreover assume "sm_steps (with_source (plan_from_candidates q conv (explicit_candidates t cands)) u) = s # ss"
  ultimately show ?thesis by (auto simp: explicit_candidates_def plan_from_candidates_def with_source_def Cons)
qed (simp add: explicit_candidates_def plan_from_candidates_def with_source_def plan0_def)

lemma compile_valid_accepts:
  assumes "tool_decision (sm_decision plan)" "source_ok (plan_validator h cfg q cands) plan" "sm_steps plan = s # ss"
    "\<And>s. s \<in> set (sm_steps plan) \<Longrightarrow> \<exists>p. acceptable_step (plan_validator h cfg q cands) p (clone_semantic_step s)"
  shows "\<exists>pr. co_proposal (compile_valid h cfg q cands src plan) = Some pr \<and> tp_tool pr = sx_tool s"
proof -
  let ?v = "plan_validator h cfg q cands"
  have "vr_valid (validate_plan ?v plan)"
    unfolding validate_accepts' [OF assms(1)] using assms(2-4) by simp
  moreover have "vr_sanitized (validate_plan ?v plan) \<noteq> None" if "vr_valid (validate_plan ?v plan)"
    using that assms(1)
    by (auto simp: validate_plan_def validate_steps_def refuse_plan_def tool_decision_def accept_plan_def clone_semantic_plan_def Let_def
        split: if_splits)
  ultimately obtain p where p: "vr_valid (validate_plan ?v plan)" "vr_sanitized (validate_plan ?v plan) = Some p" by blast
  note sp = sanitized_steps [OF assms(1) p(2)]
  obtain ps where "acceptable_step ?v ps (clone_semantic_step s)" using assms(3,4) by auto
  then have "sx_tool (snd (validate_step ?v (clone_semantic_step s))) = sx_tool s"
    using validate_step_input by (simp add: clone_semantic_step_def)
  moreover from sp assms(3) obtain sts where "sm_steps p = snd (validate_step ?v (clone_semantic_step s)) # sts" by auto
  moreover have "tool_decision (sm_decision p)" using sp assms(1) by simp
  ultimately have "\<exists>pr. co_proposal (compile_plan (hp_catalog h) src p) = Some pr \<and> tp_tool pr = sx_tool s"
    by (auto simp: compile_plan_def tool_decision_def new_proposal_fields Let_def)
  then show ?thesis using p by (simp add: compile_valid_def Let_def)
qed

definition config0 :: planner_config where
  "config0 = \<lparr>pg_mode = ''semantic'', pg_semantic = True, pg_shadow = False, pg_retries = 1, pg_schema = True,
     pg_router = \<lparr>rc_enabled = True, rc_mode = ''llm'', rc_fallback = ''lightweight'', rc_retries = 1, rc_json = True\<rparr>,
     pg_gate = False, pg_gate_mode = ''lightweight'', pg_require_llm = False, pg_fast = True, pg_fallback = True,
     pg_context = True, pg_cross = True, pg_shell = False, pg_show_source = False, pg_show_route = False\<rparr>"

definition model0 :: chat_model where
  "model0 sent p = Inr ''x''"

definition hybrid0 :: "string \<Rightarrow> hybrid" where
  "hybrid0 mode = \<lparr>hp_semantic = \<lparr>lp_model = Some model0, lp_config = config0\<rparr>, hp_catalog = va_catalog probe_validator,
     hp_sensitive = [], hp_router = None, hp_mode = mode, hp_config = config0, hp_plans = (\<lambda>_. Inr probe_plan),
     hp_routes = (\<lambda>_. Inr (route0\<lparr>rd_route := ''tool_needed''\<rparr>))\<rparr>"

lemma classify_never_clarifies: "\<not> ic_need_clarify (classify_request q)"
  by (simp add: classify_request_def tool_intent_def Let_def)

lemma request0: "nq_tool (normalize []) = []"
  by (simp add: normalize_def Let_def) code_simp

lemma hybrid0_plans:
  assumes "mode = [] \<or> mode = ''semantic_strict''"
  shows "\<exists>c pr. fst (run_state (hybrid_plan (hybrid0 mode) source0 [] []) []) = Inr c \<and> co_proposal c = Some pr \<and>
    tp_tool pr = ''probe''"
proof -
  let ?h = "hybrid0 mode" and ?q = "normalize []" and ?p = "with_source probe_plan ''semantic_llm''"
  let ?d = "route0\<lparr>rd_route := ''tool_needed'', rd_source := ''conversation_router_llm''\<rparr>"
  define cfg where "cfg = effective_config ?h"
  have cfg: "pg_router cfg = pg_router config0" "pg_cross cfg" "pg_mode cfg \<noteq> ''heuristic''"
    unfolding cfg_def using assms by (elim disjE; simp; code_simp)+
  have x: "trim_space ''x'' = ''x''" by code_simp
  have modes: "to_lower (trim_space ''llm'') = ''llm''" "to_lower (trim_space ''lightweight'') = ''lightweight''" by code_simp+
  have parse: "parse_route (hp_routes ?h) ''x'' True = Inr (route0\<lparr>rd_route := ''tool_needed''\<rparr>)"
    unfolding hybrid0_def by code_simp
  have route: "fst (run_state (route_conversation ?h cfg i) sent) = Inr ?d" for i sent
  proof -
    have "route_conversation ?h cfg i = route_with (hp_routes ?h) i (LlmRouter (Some model0) 1 True (Some Lightweight))"
      by (simp add: route_conversation_def hybrid0_def new_router_def router_for_mode_def cfg config0_def modes)
    then show ?thesis by (simp add: generate_def model0_def x parse eval_nat_numeral)
  qed
  have d: "normalize_route ?d = ?d" "routed_plan ?q cls ?d = None" for cls
    by (simp_all add: normalize_route_def known_route_def routed_plan_def)
  have plan: "fst (run_state (plan_tool ?h cfg [] q cls cands) sent) = Inr ?p" for q cls cands sent
    using cfg(3)
    by (simp add: plan_tool_def llm_plan_def hybrid0_def config0_def fast_plan_def generate_def model0_def x parse_plan_def
        eval_nat_numeral Let_def)
  have run: "fst (run_state (hybrid_plan ?h source0 [] []) []) =
      Inr (compile_routed ?h cfg ?q (hybrid_candidates ?h cfg ?q) source0 ?d ?p)"
    using route plan
    by (simp add: hybrid_plan_def after_route_def cfg_def [symmetric] d request0 classify_never_clarifies Let_def case_prod_unfold
        split: sum.split)
  let ?v = "plan_validator ?h cfg ?q (hybrid_candidates ?h cfg ?q)"
  have acc: "acceptable_step ?v probe_spec (clone_semantic_step (hd (sm_steps probe_plan)))"
  proof -
    have "va_catalog ?v = va_catalog probe_validator" "tool_in_scope ?v t" for t
      by (simp_all add: plan_validator_def hybrid0_def tool_in_scope_def cfg)
    moreover have "sx_tool (clone_semantic_step (hd (sm_steps probe_plan))) \<noteq> ''shell.exec''" "pt_slots probe_spec = []" by code_simp+
    ultimately show ?thesis using probe_step_acceptable unfolding acceptable_step_def by simp
  qed
  have "\<exists>pr. co_proposal (compile_valid ?h cfg ?q (hybrid_candidates ?h cfg ?q) source0 ?p) = Some pr \<and> tp_tool pr = ''probe''"
    using acc compile_valid_accepts [of ?p ?h cfg ?q "hybrid_candidates ?h cfg ?q" "hd (sm_steps probe_plan)" "[]" source0]
    by (auto simp: with_source_def probe_plan_def tool_decision_def source_ok_def)
  then show ?thesis unfolding run by (auto simp: compile_routed_def)
qed

theorem planned_tool_was_validated_witness:
  "\<exists>p m. catalog_tool (hp_catalog (hybrid0 [])) ''probe'' = Some p \<and> safe_input m \<and> complete_input p ''probe'' m"
  using hybrid0_plans [of "[]"] planned_tool_was_validated [of "hybrid0 []" source0 "[]" "[]" "[]"] by metis

section \<open>Who chose the tool\<close>

text \<open>In strict mode a tool is proposed only when the model's own plan names it or the user named it in the message.\<close>

theorem strict_mode_sources:
  assumes "hp_mode h = ''semantic_strict''" "fst (run_state (hybrid_plan h src conv message) sent) = Inr c" "co_proposal c = Some pr"
  shows "co_source c = ''semantic_llm'' \<or> co_source c = ''explicit_tool_request'' \<and> tp_tool pr = nq_tool (normalize message)"
proof -
  let ?cfg = "effective_config h" and ?q = "normalize message"
  have "pg_mode ?cfg = ''semantic_strict''"
    using assms(1) by (simp add: effective_config_def normalize_config_def Let_def) code_simp
  then have strict: "strict_mode (pg_mode ?cfg)" by simp code_simp
  from hybrid_plan_origin [OF assms(2)] obtain d cands p where c: "c = compile_routed h ?cfg ?q cands src d p"
    "cands = hybrid_candidates h ?cfg ?q \<and> plan_origin h conv ?q cands p \<or> \<not> tool_decision (sm_decision p)" by blast
  have pr: "co_proposal (compile_valid h ?cfg ?q cands src p) = Some pr"
    using assms(3) c(1) by (simp add: compile_routed_def)
  note v = compile_valid_proposal [OF pr]
  have source: "co_source c = sm_source p" using v(4) c(1) by (simp add: compile_routed_def)
  from v(1) c(2) have origin: "plan_origin h conv ?q cands p" by blast
  have ok: "sm_source p = ''semantic_llm'' \<or> sm_source p = ''explicit_tool_request''"
    using v(3) strict by (simp add: source_ok_def plan_validator_def)
  show ?thesis
  proof (cases "sm_source p = ''semantic_llm''")
    case False
    with ok origin v(1) have "p = with_source (plan_from_candidates ?q conv (explicit_candidates (nq_tool ?q) cands)) ''explicit_tool_request''"
      by (auto simp: plan_origin_def)
    with v(5) show ?thesis
      using ok False source by (auto simp: explicit_plan_tool)
  qed (simp add: source)
qed

theorem strict_mode_sources_witness:
  "\<exists>c. fst (run_state (hybrid_plan (hybrid0 ''semantic_strict'') source0 [] []) []) = Inr c \<and>
     (co_source c = ''semantic_llm'' \<or> co_source c = ''explicit_tool_request'')"
proof -
  have "hp_mode (hybrid0 ''semantic_strict'') = ''semantic_strict''" by (simp add: hybrid0_def)
  from strict_mode_sources [OF this] hybrid0_plans [of "''semantic_strict''"] show ?thesis by metis
qed

text \<open>When the message names a tool by its id, a tool that is proposed is that one.\<close>

theorem named_tool_is_proposed:
  assumes "nq_tool (normalize message) \<noteq> []" "fst (run_state (hybrid_plan h src conv message) sent) = Inr c" "co_proposal c = Some pr"
  shows "tp_tool pr = nq_tool (normalize message) \<and> co_source c = ''explicit_tool_request''"
proof -
  let ?cfg = "effective_config h" and ?q = "normalize message"
  from hybrid_plan_origin [OF assms(2)] obtain d cands p where c: "c = compile_routed h ?cfg ?q cands src d p"
    "cands = hybrid_candidates h ?cfg ?q \<and> plan_origin h conv ?q cands p \<or> \<not> tool_decision (sm_decision p)" by blast
  have pr: "co_proposal (compile_valid h ?cfg ?q cands src p) = Some pr"
    using assms(3) c(1) by (simp add: compile_routed_def)
  note v = compile_valid_proposal [OF pr]
  from v(1) c(2) assms(1)
  have p: "p = with_source (plan_from_candidates ?q conv (explicit_candidates (nq_tool ?q) cands)) ''explicit_tool_request''"
    by (auto simp: plan_origin_def)
  then have "sm_source p = ''explicit_tool_request''" by (simp add: with_source_def)
  with v(4,5) p c(1) show ?thesis by (auto simp: compile_routed_def explicit_plan_tool)
qed

section \<open>How often the model is asked\<close>

lemma route_attempts_bound:
  "length (snd (run_state (route_attempts dec m j i n p) sent)) \<le> length sent + n"
proof (induction n arbitrary: p sent)
  case (Suc n)
  show ?case
    using Suc.IH [of _ "sent @ [p]"]
    by (auto simp: generate_def split: sum.split intro: order.trans)
qed simp

lemma plan_attempts_bound:
  "length (snd (run_state (plan_attempts dec m n p) sent)) \<le> length sent + n"
proof (induction n arbitrary: p sent)
  case (Suc n)
  show ?case
    using Suc.IH [of _ "sent @ [p]"]
    by (auto simp: generate_def split: sum.split intro: order.trans)
qed simp

lemma silent_router: "snd (run_state (route_with dec i (router_for_mode md None None c)) sent) = sent"
  by (simp add: router_for_mode_def Let_def)

lemma route_with_bound:
  assumes "\<And>i sent. snd (run_state (route_with dec i r) sent) = sent"
  shows "length (snd (run_state (route_with dec i (LlmRouter m k j (Some r))) sent)) \<le> length sent + nat (max 0 k) + 1"
proof (cases m)
  case None
  then show ?thesis using assms [of i sent] by (simp add: case_prod_unfold)
next
  case (Some f)
  obtain x sent' where run: "run_state (route_attempts dec f j i (nat (max 0 k) + 1) (RoutePrompt i)) sent = (x, sent')" by fastforce
  then have "length sent' \<le> length sent + nat (max 0 k) + 1"
    using route_attempts_bound [of dec f j i "nat (max 0 k) + 1" "RoutePrompt i" sent] by simp
  then show ?thesis
    using run assms [of i sent'] by (cases x) (simp_all add: Some Let_def case_prod_unfold del: route_attempts.simps)
qed

lemma route_conversation_bound:
  "hp_router h = None \<Longrightarrow>
     length (snd (run_state (route_conversation h cfg i) sent)) \<le> length sent + nat (max 0 (rc_retries (pg_router cfg))) + 1"
  using route_with_bound [OF silent_router]
  by (auto simp: route_conversation_def new_router_def router_for_mode_def Let_def split: option.split)

lemma plan_tool_bound:
  "length (snd (run_state (plan_tool h cfg conv q cls cands) sent)) \<le> length sent + nat (pg_retries (lp_config (hp_semantic h)) + 1)"
  using plan_attempts_bound
  by (auto simp: plan_tool_def llm_plan_def Let_def case_prod_unfold fast_plan_def split: option.split)

text \<open>C26: planning one message sends the chat model at most one prompt more than the retries allowed for the route and one more
  than those allowed for the plan, however the model answers.\<close>

theorem model_calls_bounded:
  assumes "hp_router h = None"
  shows "length (snd (run_state (hybrid_plan h src conv message) sent)) \<le>
    length sent + nat (max 0 (rc_retries (pg_router (effective_config h)))) + 1 + nat (pg_retries (lp_config (hp_semantic h)) + 1)"
proof -
  let ?cfg = "effective_config h" and ?q = "normalize message"
  define i where "i = \<lparr>ri_conv = conv, ri_message = message, ri_request = ?q, ri_class = classify_request ?q\<rparr>"
  obtain r sent' where route: "run_state (route_conversation h ?cfg i) sent = (r, sent')" by fastforce
  then have first: "length sent' \<le> length sent + nat (max 0 (rc_retries (pg_router ?cfg))) + 1"
    using route_conversation_bound [OF assms, of ?cfg i sent] by simp
  have after: "length (snd (run_state (after_route h ?cfg src conv ?q cls d) sent')) \<le>
      length sent' + nat (pg_retries (lp_config (hp_semantic h)) + 1)" for cls d
    using plan_tool_bound [of h ?cfg conv ?q cls "hybrid_candidates h ?cfg ?q" sent']
    by (auto simp: after_route_def Let_def case_prod_unfold split: option.split)
  show ?thesis
  proof (cases r)
    case (Inl e)
    with first route show ?thesis by (auto simp: hybrid_plan_def i_def [symmetric] Let_def)
  next
    case (Inr d)
    with first after [of "classify_request ?q" "normalize_route d"] route show ?thesis
      by (simp add: hybrid_plan_def i_def [symmetric] Let_def)
  qed
qed

theorem model_calls_bounded_witness:
  "length (snd (run_state (hybrid_plan (hybrid0 []) source0 [] []) [])) \<le> 4"
proof -
  have "hp_router (hybrid0 []) = None" by (simp add: hybrid0_def)
  moreover have "rc_retries (pg_router (effective_config (hybrid0 []))) = 1" by code_simp
  ultimately show ?thesis using model_calls_bounded [of "hybrid0 []" source0 "[]" "[]" "[]"] by (simp add: hybrid0_def config0_def)
qed

end
