(* ===== verification/Ops_Runbook.thy ===== *)
theory Ops_Runbook
  imports Go_Text Tool_Router
begin

text \<open>
  Runbooks, \<open>internal/tools/ops/runbook.go\<close>: Markdown files that the manager parses into steps, plans step by step as
  operations tools, and runs through the tool router. What reading the directory and a file returns is given.
  The maps that the executors return are records here.
\<close>

section \<open>Records\<close>

record runbook =
  rb_id :: string
  rb_title :: string
  rb_scope :: string
  rb_host_type :: string
  rb_metadata :: "(string \<times> string) list"
  rb_body :: string
  rb_source :: string
  rb_texts :: "string list"
  rb_loaded :: time

record runbook_step =
  bs_index :: int
  bs_text :: string
  bs_tool :: string
  bs_input :: nmap
  bs_requires :: bool
  bs_reason :: string

record runbook_plan =
  bp_runbook :: string
  bp_title :: string
  bp_host :: string
  bp_dry :: bool
  bp_steps :: "runbook_step list"

text \<open>The directory of the manager: \<open>os.ReadDir\<close> fails, with or without \<open>os.IsNotExist\<close>, or lists names and
  whether they are directories; \<open>os.ReadFile\<close> of a path.\<close>

record runbook_files =
  rf_dir :: string
  rf_entries :: "(bool \<times> go_error) + (string \<times> bool) list"
  rf_read :: "string \<Rightarrow> string res"

section \<open>Parsing\<close>

text \<open>\<open>strconv.Atoi\<close> succeeds: digits after an optional sign, within the range of \<open>int\<close>.\<close>

definition atoi_ok :: "string \<Rightarrow> bool" where
  "atoi_ok s =
     (let neg = has_prefix s ''-''; ds = (if neg \<or> has_prefix s ''+'' then tl s else s)
      in ds \<noteq> [] \<and> list_all is_digit ds \<and> int (nat_of_digits ds) \<le> (if neg then max_int + 1 else max_int))"

definition first_markdown_title :: "string \<Rightarrow> string" where
  "first_markdown_title body =
     (case filter (\<lambda>l. has_prefix l ''# '') (map trim_space (split_on (CHR 0x0A) body)) of
        [] \<Rightarrow> [] | l # _ \<Rightarrow> trim_space (drop 2 l))"

text \<open>One line of the body, trimmed: the step it holds, if it holds one.\<close>

definition step_of_line :: "string \<Rightarrow> string option" where
  "step_of_line l =
     (if l = [] then None
      else case str_index l ''. '' of
        Some (Suc i) \<Rightarrow> if atoi_ok (take (Suc i) l) then Some (trim_space (drop (Suc i + 2) l)) else None
      | _ \<Rightarrow> if has_prefix l ''- '' then Some (trim_space (drop 2 l)) else None)"

definition extract_steps :: "string \<Rightarrow> string list" where
  "extract_steps body = List.map_filter (step_of_line \<circ> trim_space) (split_on (CHR 0x0A) body)"

definition is_quote :: "char \<Rightarrow> bool" where
  "is_quote c \<longleftrightarrow> c = CHR 0x22 \<or> c = CHR 0x27"

definition set_metadata :: "(string \<times> string) list \<Rightarrow> string \<Rightarrow> (string \<times> string) list" where
  "set_metadata md l =
     (case str_index l '':'' of
        None \<Rightarrow> md
      | Some i \<Rightarrow> AList.update (trim_space (take i l)) (trim_chars is_quote (trim_space (drop (Suc i) l))) md)"

text \<open>The front matter, between a first line of three dashes and the next line that starts with them, and the body.\<close>

definition front_matter :: "string \<Rightarrow> (string \<times> string) list \<times> string" where
  "front_matter content =
     (let open_mark = ''---'' @ [CHR 0x0A]; close_mark = [CHR 0x0A] @ ''---''; rest = drop (length open_mark) content in
      if \<not> has_prefix content open_mark then ([], content)
      else case str_index rest close_mark of
        None \<Rightarrow> ([], content)
      | Some k \<Rightarrow>
          (foldl set_metadata [] (split_on (CHR 0x0A) (take k rest)),
           dropWhile (\<lambda>c. c = CHR 0x0D \<or> c = CHR 0x0A) (drop (k + length close_mark) rest)))"

definition metadata_at :: "(string \<times> string) list \<Rightarrow> string \<Rightarrow> string" where
  "metadata_at md k = (case map_of md k of None \<Rightarrow> [] | Some v \<Rightarrow> v)"

definition parse_runbook :: "string \<Rightarrow> string \<Rightarrow> string \<Rightarrow> time \<Rightarrow> runbook" where
  "parse_runbook id0 path content t =
     (let (md, body) = front_matter content;
          id1 = (if metadata_at md ''id'' \<noteq> [] then metadata_at md ''id'' else id0);
          title = metadata_at md ''title'';
          title = (if title = [] then first_markdown_title body else title);
          title = (if title = [] then id1 else title)
      in \<lparr>rb_id = id1, rb_title = title, rb_scope = metadata_at md ''scope'', rb_host_type = metadata_at md ''host_type'',
          rb_metadata = md, rb_body = body, rb_source = file_base path, rb_texts = extract_steps body, rb_loaded = t\<rparr>)"

section \<open>Planning\<close>

definition plan_step :: "int \<Rightarrow> string \<Rightarrow> string \<Rightarrow> runbook_step" where
  "plan_step index txt host =
     (let n = to_lower txt; has = has_sub n; input = (if host \<noteq> [] then [(''host_id'', GStr host)] else []);
          step = \<lparr>bs_index = index, bs_text = txt, bs_tool = [], bs_input = Some input, bs_requires = False, bs_reason = []\<rparr>
      in
      if has ''cpu'' \<or> has ''process'' then step\<lparr>bs_tool := ''ops.local.processes''\<rparr>
      else if has ''memory'' then step\<lparr>bs_tool := ''ops.local.memory_usage''\<rparr>
      else if has ''disk'' then step\<lparr>bs_tool := ''ops.local.disk_usage''\<rparr>
      else if has ''network'' then step\<lparr>bs_tool := ''ops.local.network_info''\<rparr>
      else if has ''system'' then step\<lparr>bs_tool := ''ops.local.system_info''\<rparr>
      else if has ''restart'' \<and> has ''service'' then
        step\<lparr>bs_tool := ''ops.local.service_restart'', bs_input := Some (AList.update ''service'' (GStr ''unknown'') input),
             bs_requires := True\<rparr>
      else step\<lparr>bs_reason := ''no deterministic ops tool mapping for this runbook step''\<rparr>)"

fun plan_steps :: "int \<Rightarrow> string \<Rightarrow> string list \<Rightarrow> runbook_step list" where
  "plan_steps i host [] = []"
| "plan_steps i host (t # ts) = plan_step i t host # plan_steps (i + 1) host ts"

text \<open>\<open>filepath.Join(dir, name)\<close> with a name that is not empty.\<close>

definition path_join :: "string \<Rightarrow> string \<Rightarrow> string" where
  "path_join dir name = go_clean (if dir = [] then name else dir @ ''/'' @ name)"

definition read_runbook :: "runbook_files \<Rightarrow> string \<Rightarrow> ('z tool_world_scheme, runbook res) state" where
  "read_runbook m id0 =
     (let i = trim_space id0; path = path_join (rf_dir m) (i @ ''.md'') in
      if i = [] then State_Monad.return (Inl (Err ''runbook id is required''))
      else if has_sub i ''/'' \<or> has_sub i [CHR 0x5C] \<or> has_sub i ''..''
      then State_Monad.return (Inl (Err (''invalid runbook id: '' @ i)))
      else case rf_read m path of
        Inl e \<Rightarrow> State_Monad.return (Inl e)
      | Inr data \<Rightarrow> do { t \<leftarrow> tick; State_Monad.return (Inr (parse_runbook i path data t)) })"

definition plan_runbook :: "runbook_files \<Rightarrow> string \<Rightarrow> string \<Rightarrow> bool \<Rightarrow> ('z tool_world_scheme, runbook_plan res) state" where
  "plan_runbook m id0 host dry =
     do {
       r \<leftarrow> read_runbook m id0;
       State_Monad.return (case r of
         Inl e \<Rightarrow> Inl e
       | Inr b \<Rightarrow> Inr \<lparr>bp_runbook = rb_id b, bp_title = rb_title b, bp_host = host, bp_dry = dry,
                       bp_steps = plan_steps 1 host (rb_texts b)\<rparr>)
     }"

section \<open>Listing\<close>

definition entry_id :: "string \<Rightarrow> string" where
  "entry_id name = (case last_index CHR ''.'' name of None \<Rightarrow> name | Some i \<Rightarrow> take i name)"

fun read_entries :: "runbook_files \<Rightarrow> (string \<times> bool) list \<Rightarrow> ('z tool_world_scheme, runbook list) state" where
  "read_entries m [] = State_Monad.return []"
| "read_entries m ((name, is_dir) # es) =
     (if is_dir \<or> \<not> has_suffix (to_lower name) ''.md'' then read_entries m es
      else do {
        r \<leftarrow> read_runbook m (entry_id name);
        rest \<leftarrow> read_entries m es;
        State_Monad.return (case r of Inl _ \<Rightarrow> rest | Inr b \<Rightarrow> b\<lparr>rb_body := []\<rparr> # rest)
      })"

text \<open>Runbooks with the same id, which the front matter may give, stand in the order of their files.\<close>

definition list_runbooks :: "runbook_files \<Rightarrow> ('z tool_world_scheme, runbook list res) state" where
  "list_runbooks m =
     (case rf_entries m of
        Inl (missing, e) \<Rightarrow> State_Monad.return (if missing then Inr [] else Inl e)
      | Inr es \<Rightarrow> do { rs \<leftarrow> read_entries m es; State_Monad.return (Inr (sort_key rb_id rs)) })"

section \<open>Running\<close>

text \<open>What running a step returns: skipped because no tool stands for it, or routed with the router's result.\<close>

record step_run =
  sr_step :: runbook_step
  sr_route :: "route_result option"
  sr_started :: time
  sr_finished :: time

definition run_step_proposal :: "runbook_step \<Rightarrow> ('z tool_world_scheme, tool_proposal) state" where
  "run_step_proposal s =
     do {
       i \<leftarrow> fresh_id ''tool'';
       t \<leftarrow> tick;
       State_Monad.return \<lparr>tp_id = i, tp_tool = bs_tool s, tp_input = Some (clone_map (bs_input s)),
         tp_purpose = zh_run_step @ bs_text s, tp_expected = [], tp_created = t\<rparr>
     }"

definition execute_runbook_step ::
  "router option \<Rightarrow> runbook_step \<Rightarrow> string \<Rightarrow> string \<Rightarrow> ('z tool_world_scheme, step_run res) state" where
  "execute_runbook_step r s run conv =
     (if bs_tool s = [] then
        do {
          a \<leftarrow> tick; b \<leftarrow> tick;
          State_Monad.return (Inr \<lparr>sr_step = s, sr_route = None, sr_started = a, sr_finished = b\<rparr>)
        }
      else case r of
        None \<Rightarrow> State_Monad.return (Inl (Err ''tool router is not available for runbook execution''))
      | Some r \<Rightarrow>
          do {
            p \<leftarrow> run_step_proposal s;
            routed \<leftarrow> propose r run conv p;
            (case routed of
               Inl e \<Rightarrow> State_Monad.return (Inl e)
             | Inr out \<Rightarrow>
                 do {
                   a \<leftarrow> tick; b \<leftarrow> tick;
                   State_Monad.return (Inr \<lparr>sr_step = s, sr_route = Some out, sr_started = a, sr_finished = b\<rparr>)
                 })
          })"

definition asks_approval :: "step_run \<Rightarrow> bool" where
  "asks_approval x \<longleftrightarrow> (case sr_route x of None \<Rightarrow> False | Some out \<Rightarrow> rr_approval out \<noteq> None)"

text \<open>The loop of \<open>runbook.execute\<close>: the runs made so far and whether the last one asks for approval.\<close>

fun execute_steps :: "router option \<Rightarrow> runbook_step list \<Rightarrow> step_run list \<Rightarrow> ('z tool_world_scheme, (step_run list \<times> bool) res) state" where
  "execute_steps r [] acc = State_Monad.return (Inr (acc, False))"
| "execute_steps r (s # ss) acc =
     do {
       x \<leftarrow> execute_runbook_step r s [] [];
       (case x of
          Inl e \<Rightarrow> State_Monad.return (Inl e)
        | Inr y \<Rightarrow> if asks_approval y then State_Monad.return (Inr (acc @ [y], True)) else execute_steps r ss (acc @ [y]))
     }"

record runbook_report =
  br_status :: string
  br_plan :: runbook_plan
  br_results :: "step_run list"

definition runbook_id :: "gmap \<Rightarrow> string res" where
  "runbook_id input =
     (case get_string input ''id'' of Inr i \<Rightarrow> Inr i | Inl _ \<Rightarrow> get_string input ''runbook_id'')"

definition execute_runbook ::
  "runbook_files \<Rightarrow> router option \<Rightarrow> gmap \<Rightarrow> ('z tool_world_scheme, runbook_report res) state" where
  "execute_runbook m r input =
     (case runbook_id input of
        Inl e \<Rightarrow> State_Monad.return (Inl e)
      | Inr i \<Rightarrow>
          (let host = str_at input ''host_id''; dry = bool_at input ''dry_run'';
               limit = get_int input ''max_steps'' 5; limit = (if limit \<le> 0 then 5 else limit)
           in do {
             planned \<leftarrow> plan_runbook m i host dry;
             (case planned of
                Inl e \<Rightarrow> State_Monad.return (Inl e)
              | Inr plan \<Rightarrow>
                  if dry then State_Monad.return (Inr \<lparr>br_status = ''dry_run'', br_plan = plan, br_results = []\<rparr>)
                  else
                    do {
                      x \<leftarrow> execute_steps r (take (nat limit) (bp_steps plan)) [];
                      State_Monad.return (case x of
                        Inl e \<Rightarrow> Inl e
                      | Inr (results, waits) \<Rightarrow>
                          Inr \<lparr>br_status = (if waits then ''paused_for_approval'' else ''completed''), br_plan = plan,
                               br_results = results\<rparr>)
                    })
           }))"

text \<open>The step that \<open>runbook.execute_step\<close> is given, whole or in fields.\<close>

definition step_from_input :: "gmap \<Rightarrow> runbook_step res" where
  "step_from_input input =
     (case map_of input ''step'' of
        Some (GMap raw) \<Rightarrow>
          Inr \<lparr>bs_index = get_int raw ''index'' 0, bs_text = str_at raw ''text'', bs_tool = str_at raw ''tool'',
               bs_input = Some (clone_map (case map_of raw ''input'' of Some (GMap x) \<Rightarrow> Some x | _ \<Rightarrow> None)),
               bs_requires = bool_at raw ''requires_approval'', bs_reason = print_at raw ''reason''\<rparr>
      | _ \<Rightarrow>
          (case get_string input ''tool'' of
             Inl e \<Rightarrow> Inl e
           | Inr t \<Rightarrow>
               Inr \<lparr>bs_index = get_int input ''index'' 0, bs_text = str_at input ''text'', bs_tool = t,
                    bs_input = Some (clone_map (case map_of input ''input'' of Some (GMap x) \<Rightarrow> Some x | _ \<Rightarrow> None)),
                    bs_requires = False, bs_reason = []\<rparr>))"

definition execute_step_tool :: "router option \<Rightarrow> gmap \<Rightarrow> ('z tool_world_scheme, step_run res) state" where
  "execute_step_tool r input =
     (case step_from_input input of
        Inl e \<Rightarrow> State_Monad.return (Inl e)
      | Inr s \<Rightarrow> execute_runbook_step r s (str_at input ''run_id'') (str_at input ''conversation_id''))"

definition read_runbook_tool :: "runbook_files \<Rightarrow> gmap \<Rightarrow> ('z tool_world_scheme, runbook res) state" where
  "read_runbook_tool m input =
     (case runbook_id input of Inl e \<Rightarrow> State_Monad.return (Inl e) | Inr i \<Rightarrow> read_runbook m i)"

definition plan_runbook_tool :: "runbook_files \<Rightarrow> gmap \<Rightarrow> ('z tool_world_scheme, runbook_plan res) state" where
  "plan_runbook_tool m input =
     (case runbook_id input of Inl e \<Rightarrow> State_Monad.return (Inl e) | Inr i \<Rightarrow> plan_runbook m i (str_at input ''host_id'') True)"

section \<open>What a step stands for\<close>

definition runbook_tools :: "string list" where
  "runbook_tools =
     [''ops.local.processes'', ''ops.local.memory_usage'', ''ops.local.disk_usage'', ''ops.local.network_info'',
      ''ops.local.system_info'', ''ops.local.service_restart'']"

lemma plan_step_tool: "bs_tool (plan_step i t host) = [] \<or> bs_tool (plan_step i t host) \<in> set runbook_tools"
  by (simp add: plan_step_def runbook_tools_def Let_def)

lemma plan_step_fields [simp]: "bs_index (plan_step i t host) = i" "bs_text (plan_step i t host) = t"
  by (simp_all add: plan_step_def Let_def)

lemma plan_steps_tools: "s \<in> set (plan_steps i host ts) \<Longrightarrow> bs_tool s = [] \<or> bs_tool s \<in> set runbook_tools"
  by (induction ts arbitrary: i) (use plan_step_tool in auto)

lemma plan_steps_index: "map bs_index (plan_steps i host ts) = [i..i + int (length ts) - 1] \<and> map bs_text (plan_steps i host ts) = ts"
proof (induction ts arbitrary: i)
  case (Cons t ts)
  then show ?case by (simp add: upto_rec1)
qed simp

section \<open>What running a runbook calls\<close>

text \<open>The calls of the proposals that policy runs unasked, seen from the world before and after.\<close>

definition ran_unasked :: "router option \<Rightarrow> runbook_step list \<Rightarrow> 'z tool_world_scheme \<Rightarrow> 'z tool_world_scheme \<Rightarrow> bool" where
  "ran_unasked r ss w w' \<longleftrightarrow>
     (\<exists>ps. tw_calls w' = tw_calls w @ map (\<lambda>p. (tp_tool p, clone_map (tp_input p))) ps \<and> length ps \<le> length ss \<and>
       list_all (\<lambda>p. (\<exists>x. r = Some x \<and> runs_unasked x p) \<and> tp_tool p \<in> bs_tool ` set ss - {[]}) ps)"

lemma ran_unasked_none: "tw_calls w' = tw_calls w \<Longrightarrow> ran_unasked r ss w w'"
  unfolding ran_unasked_def by (rule exI [of _ "[]"]) simp

lemma ran_unasked_append:
  assumes "ran_unasked r [s] u v" "ran_unasked r ss v w"
  shows "ran_unasked r (s # ss) u w"
proof -
  let ?ok = "\<lambda>ss p. (\<exists>x. r = Some x \<and> runs_unasked x p) \<and> tp_tool p \<in> bs_tool ` set ss - {[]}"
  from assms obtain ps qs where
    "tw_calls v = tw_calls u @ map (\<lambda>p. (tp_tool p, clone_map (tp_input p))) ps" "length ps \<le> 1" "list_all (?ok [s]) ps"
    "tw_calls w = tw_calls v @ map (\<lambda>p. (tp_tool p, clone_map (tp_input p))) qs" "length qs \<le> length ss" "list_all (?ok ss) qs"
    by (auto simp: ran_unasked_def)
  then show ?thesis
    unfolding ran_unasked_def by (intro exI [of _ "ps @ qs"]) (auto simp: list_all_iff)
qed

lemma ran_unasked_more: "ran_unasked r [s] w w' \<Longrightarrow> ran_unasked r (s # ss) w w'"
  using ran_unasked_append [OF _ ran_unasked_none [of w' w']] by blast

lemma execute_step_calls:
  assumes "run_state (execute_runbook_step r s run conv) w = (x, w')"
  shows "ran_unasked r [s] w w'"
proof (cases "bs_tool s = [] \<or> r = None")
  case True
  with assms show ?thesis by (intro ran_unasked_none) (auto simp: execute_runbook_step_def split: if_splits)
next
  case False
  then obtain q where q: "r = Some q" "bs_tool s \<noteq> []" by auto
  obtain p v where p: "run_state (run_step_proposal s) w = (p, v)" by fastforce
  then have v: "tw_calls v = tw_calls w" "tp_tool p = bs_tool s" by (auto simp: run_step_proposal_def)
  obtain y u where y: "run_state (propose q run conv p) v = (y, u)" by fastforce
  have w': "tw_calls w' = tw_calls u"
    using assms q p y by (cases y) (auto simp: execute_runbook_step_def)
  have "tw_calls u = tw_calls v @ (if runs_unasked q p \<and> registered q (tp_tool p) then [(tp_tool p, clone_map (tp_input p))] else [])"
    using propose_calls_eq [of q run conv p v] y by simp
  then show ?thesis
  proof (cases "runs_unasked q p \<and> registered q (tp_tool p)")
    case True
    then show ?thesis
      using \<open>tw_calls u = _\<close> w' v q unfolding ran_unasked_def by (intro exI [of _ "[p]"]) simp
  next
    case False
    then show ?thesis using \<open>tw_calls u = _\<close> w' v by (intro ran_unasked_none) auto
  qed
qed

lemma execute_steps_calls:
  "run_state (execute_steps r ss acc) w = (x, w') \<Longrightarrow> ran_unasked r ss w w'"
proof (induction ss arbitrary: acc w)
  case (Cons s ss)
  obtain y v where y: "run_state (execute_runbook_step r s [] []) w = (y, v)" by fastforce
  note one = execute_step_calls [OF y]
  show ?case
  proof (cases "\<exists>z. y = Inr z \<and> \<not> asks_approval z")
    case True
    then obtain z where "y = Inr z" "\<not> asks_approval z" by blast
    then have "run_state (execute_steps r ss (acc @ [z])) v = (x, w')" using Cons.prems y by simp
    from ran_unasked_append [OF one Cons.IH [OF this]] show ?thesis .
  next
    case False
    then have "w' = v" using Cons.prems y by (cases y) auto
    then show ?thesis using ran_unasked_more [OF one] by simp
  qed
qed (simp add: ran_unasked_none)

lemma read_runbook_calls: "tw_calls (snd (run_state (read_runbook m i) w)) = tw_calls w"
  by (simp add: read_runbook_def Let_def split: sum.split)

lemma plan_runbook_result:
  assumes "run_state (plan_runbook m i host dry) w = (x, v)"
  shows "tw_calls v = tw_calls w" "x = Inr plan \<Longrightarrow> \<exists>ts. bp_steps plan = plan_steps 1 host ts"
proof -
  obtain y u where y: "run_state (read_runbook m i) w = (y, u)" by fastforce
  with assms have "v = u" by (simp add: plan_runbook_def)
  with y read_runbook_calls [of m i w] show "tw_calls v = tw_calls w" by simp
  show "x = Inr plan \<Longrightarrow> \<exists>ts. bp_steps plan = plan_steps 1 host ts"
    using assms y by (cases y) (auto simp: plan_runbook_def)
qed

text \<open>C29: whatever a runbook says, running it calls executors only on proposals that inference and policy run unasked,
  each for one of the six operations tools that steps stand for, at most one for a step and at most \<open>max_steps\<close>
  in all (five when the input gives no positive number); a dry run calls none.\<close>

theorem runbook_runs_unasked:
  "\<exists>ps. tw_calls (snd (run_state (execute_runbook m r input) w)) =
       tw_calls w @ map (\<lambda>p. (tp_tool p, clone_map (tp_input p))) ps \<and>
     list_all (\<lambda>p. (\<exists>x. r = Some x \<and> runs_unasked x p) \<and> tp_tool p \<in> set runbook_tools) ps \<and>
     int (length ps) \<le> (if bool_at input ''dry_run'' then 0
       else let k = get_int input ''max_steps'' 5 in if k \<le> 0 then 5 else k)"
proof -
  define k where "k = (let k = get_int input ''max_steps'' 5 in if k \<le> 0 then 5 else k)"
  have pos: "0 \<le> k" by (simp add: k_def Let_def)
  let ?w = "snd (run_state (execute_runbook m r input) w)"
  have none: ?thesis if "tw_calls ?w = tw_calls w"
    using that pos by (intro exI [of _ "[]"]) (simp add: k_def)
  show ?thesis
  proof (cases "runbook_id input")
    case (Inl e)
    then show ?thesis by (intro none) (simp add: execute_runbook_def)
  next
    case (Inr i)
    let ?dry = "bool_at input ''dry_run''"
    obtain x v where x: "run_state (plan_runbook m i (str_at input ''host_id'') ?dry) w = (x, v)" by fastforce
    note v = plan_runbook_result [OF x]
    show ?thesis
    proof (cases "(\<exists>e. x = Inl e) \<or> ?dry")
      case True
      then have "?w = v" using Inr x by (cases x) (auto simp: execute_runbook_def Let_def)
      then show ?thesis using v(1) by (intro none) simp
    next
      case False
      then obtain plan where plan: "x = Inr plan" "\<not> ?dry" by (cases x) auto
      let ?ss = "take (nat k) (bp_steps plan)"
      obtain y u where y: "run_state (execute_steps r ?ss []) v = (y, u)" by fastforce
      have "?w = u" using Inr x plan y by (simp add: execute_runbook_def k_def Let_def split: sum.split)
      moreover from execute_steps_calls [OF y] obtain ps where
        "tw_calls u = tw_calls v @ map (\<lambda>p. (tp_tool p, clone_map (tp_input p))) ps" "length ps \<le> length ?ss"
        "list_all (\<lambda>p. (\<exists>x. r = Some x \<and> runs_unasked x p) \<and> tp_tool p \<in> bs_tool ` set ?ss - {[]}) ps"
        unfolding ran_unasked_def by blast
      moreover have "bs_tool ` set ?ss - {[]} \<subseteq> set runbook_tools"
        using v(2) [OF plan(1)] plan_steps_tools by (fastforce dest: in_set_takeD)
      moreover have "int (length ?ss) \<le> k" using pos by simp
      ultimately show ?thesis
        using v(1) plan(2) by (intro exI [of _ ps]) (auto simp: list_all_iff k_def [symmetric])
    qed
  qed
qed

text \<open>C30: a run of steps stops at the first one that asks for approval: the steps are run in order from the first, the
  result says that it waits exactly when the last of them asks, and none before it does.\<close>

theorem runbook_stops_at_approval:
  assumes "fst (run_state (execute_steps r ss []) w) = Inr (rs, waits)"
  shows "prefix (map sr_step rs) ss \<and> (waits \<longleftrightarrow> rs \<noteq> [] \<and> asks_approval (last rs)) \<and>
    list_all (\<lambda>x. \<not> asks_approval x) (butlast rs) \<and> (if waits then True else map sr_step rs = ss)"
proof -
  have step: "fst (run_state (execute_runbook_step r s [] []) w) = Inr x \<Longrightarrow> sr_step x = s" for s w x
    by (auto simp: execute_runbook_step_def split: if_splits option.splits sum.splits prod.splits)
  have "list_all (\<lambda>x. \<not> asks_approval x) acc \<Longrightarrow> fst (run_state (execute_steps r ss acc) w) = Inr (rs, waits) \<Longrightarrow>
      \<exists>us. rs = acc @ us \<and> prefix (map sr_step us) ss \<and> (waits \<longleftrightarrow> us \<noteq> [] \<and> asks_approval (last us)) \<and>
        list_all (\<lambda>x. \<not> asks_approval x) (butlast rs) \<and> (if waits then True else map sr_step us = ss)" for acc
  proof (induction ss arbitrary: acc w)
    case Nil
    then show ?case by (auto simp: list_all_iff dest: in_set_butlastD)
  next
    case (Cons s ss)
    obtain y v where y: "run_state (execute_runbook_step r s [] []) w = (y, v)" by fastforce
    with Cons.prems obtain z where z: "y = Inr z" by (cases y) auto
    with y step [of s w z] have s: "sr_step z = s" by simp
    show ?case
    proof (cases "asks_approval z")
      case True
      then have "rs = acc @ [z]" "waits" using Cons.prems y z by auto
      with True s Cons.prems(1) show ?thesis by (intro exI [of _ "[z]"]) auto
    next
      case False
      then have "fst (run_state (execute_steps r ss (acc @ [z])) v) = Inr (rs, waits)" using Cons.prems y z by simp
      from Cons.IH [OF _ this] Cons.prems(1) False obtain us where
        "rs = (acc @ [z]) @ us" "prefix (map sr_step us) ss" "waits \<longleftrightarrow> us \<noteq> [] \<and> asks_approval (last us)"
        "list_all (\<lambda>x. \<not> asks_approval x) (butlast rs)" "if waits then True else map sr_step us = ss" by auto
      with s False show ?thesis by (intro exI [of _ "z # us"]) auto
    qed
  qed
  from this [of "[]"] assms show ?thesis by auto
qed

theorem runbook_stops_at_approval_witness:
  "\<exists>x. fst (run_state (execute_steps None [plan_step 1 ''look'' []] []) world0) = Inr ([x], False) \<and> \<not> asks_approval x"
proof -
  have t: "bs_tool (plan_step 1 ''look'' []) = []" by code_simp
  then obtain x where x: "fst (run_state (execute_steps None [plan_step 1 ''look'' []] []) world0) = Inr ([x], False)"
    by (simp add: execute_runbook_step_def asks_approval_def)
  from runbook_stops_at_approval [OF x] have "\<not> asks_approval x" by simp
  with x show ?thesis by blast
qed

section \<open>Lost steps\<close>

lemma str_index_bound: "str_index l x = Some i \<Longrightarrow> prefix x (drop i l)"
  by (induction l x arbitrary: i rule: str_index.induct) (auto split: if_splits)

lemma str_index_None: "str_index l x = None \<longleftrightarrow> \<not> has_sub l x"
  by (induction l x rule: str_index.induct) (auto simp: sublist_Cons_right split: if_splits)

text \<open>A list item is a step only when no full stop and blank stand in it: the text of the item is taken for a number.\<close>

theorem item_with_sentence_is_lost:
  assumes "has_prefix l ''- ''" "has_sub l ''. ''"
  shows "step_of_line l = None"
proof -
  obtain r where l: "l = ''- '' @ r" using assms(1) by (auto simp: prefix_def)
  from assms(2) obtain i where i: "str_index l ''. '' = Some i" using str_index_None by (cases "str_index l ''. ''") auto
  then have "prefix ''. '' (drop i l)" by (rule str_index_bound)
  then obtain j where j: "i = Suc (Suc j)" by (cases i; cases "i - 1") (auto simp: l)
  have "take i l = ''- '' @ take j r" by (simp add: j l)
  then have "\<not> atoi_ok (take i l)" by (simp add: atoi_ok_def is_digit_def Let_def)
  then show ?thesis using i j l by (simp add: step_of_line_def)
qed

end
