(* ===== verification/Run_State.thy ===== *)
theory Run_State
  imports Tool_Router
begin

text \<open>
  \<open>internal/agent/workflow_state.go\<close>, with the plan types of \<open>planner.go\<close> and \<open>code_plan.go\<close>: statuses,
  steps and snapshots of a run, their copies and redacted copies, and the in-memory store. A status of
  Go's string type is a constructor; \<open>PlanDecision\<close> stays a string, because a planner may return any.
\<close>

section \<open>Statuses\<close>

datatype run_status =
    Received | ContextBuilt | Planned | ToolProposed | EffectInferred | PolicyDecided
  | ApprovalRequested | PausedForApproval | RunApproved | RunRejected
  | ToolExecuting | ToolCompleted | ToolFailed | AssistantSummarize | Completed | Failed | Cancelled

fun status_name :: "run_status \<Rightarrow> string" where
  "status_name Received = ''received_user_message''"
| "status_name ContextBuilt = ''context_built''"
| "status_name Planned = ''planned''"
| "status_name ToolProposed = ''tool_proposed''"
| "status_name EffectInferred = ''effect_inferred''"
| "status_name PolicyDecided = ''policy_decided''"
| "status_name ApprovalRequested = ''approval_requested''"
| "status_name PausedForApproval = ''paused_for_approval''"
| "status_name RunApproved = ''approval_approved''"
| "status_name RunRejected = ''approval_rejected''"
| "status_name ToolExecuting = ''tool_executing''"
| "status_name ToolCompleted = ''tool_completed''"
| "status_name ToolFailed = ''tool_failed''"
| "status_name AssistantSummarize = ''assistant_summarizing''"
| "status_name Completed = ''completed''"
| "status_name Failed = ''failed''"
| "status_name Cancelled = ''cancelled''"

datatype step_type =
    BuildContext | PlanStep | ContinueStep | ProposeTool | InferEffect | DecidePolicy | RequestApproval
  | ExecuteTool | Summarize | Finalize | CancelStep

fun step_type_name :: "step_type \<Rightarrow> string" where
  "step_type_name BuildContext = ''build_context''"
| "step_type_name PlanStep = ''plan''"
| "step_type_name ContinueStep = ''continue''"
| "step_type_name ProposeTool = ''propose_tool''"
| "step_type_name InferEffect = ''infer_effect''"
| "step_type_name DecidePolicy = ''decide_policy''"
| "step_type_name RequestApproval = ''request_approval''"
| "step_type_name ExecuteTool = ''execute_tool''"
| "step_type_name Summarize = ''summarize''"
| "step_type_name Finalize = ''finalize''"
| "step_type_name CancelStep = ''cancel''"

datatype step_status = StepPending | StepCompleted | StepPaused | StepFailed | StepCancelled

section \<open>Plans\<close>

record code_plan_step =
  cs_tool :: string
  cs_purpose :: string
  cs_input :: nmap
  cs_requires :: bool

record code_plan =
  cp_kind :: string
  cp_workspace :: string
  cp_goal :: string
  cp_steps :: "code_plan_step list"
  cp_requires :: bool
  cp_max_iterations :: nat
  cp_iteration :: nat

record plan =
  pl_decision :: string
  pl_answer_mode :: string
  pl_route :: string
  pl_route_source :: string
  pl_preamble :: string
  pl_message :: string
  pl_proposal :: "tool_proposal option"
  pl_code_plan :: "code_plan option"
  pl_reason :: string
  pl_source :: string
  pl_candidates :: nat

record plan_input =
  pi_conv :: string
  pi_message :: string
  pi_index :: nat
  pi_result :: "tool_result option"
  pi_proposal :: "tool_proposal option"

text \<open>A chat message of the model library: the runtime reads and redacts its content.\<close>

record chat_message =
  cm_role :: string
  cm_content :: string

section \<open>Steps and snapshots\<close>

record run_step =
  st_id :: string
  st_run :: string
  st_index :: nat
  st_type :: step_type
  st_status :: step_status
  st_route :: string
  st_route_source :: string
  st_source :: string
  st_candidates :: nat
  st_tool :: string
  st_code_plan :: "code_plan option"
  st_proposal :: "tool_proposal option"
  st_inference :: "inference option"
  st_policy :: "policy_decision option"
  st_approval :: "approval_record option"
  st_result :: "tool_result option"
  st_summary :: string
  st_error :: string
  st_created :: time
  st_updated :: time

record run_state_rec =
  rs_id :: string
  rs_conv :: string
  rs_status :: run_status
  rs_step :: string
  rs_index :: nat
  rs_count :: nat
  rs_max :: nat
  rs_message :: string
  rs_context :: "chat_message list"
  rs_plan :: "plan option"
  rs_proposal :: "tool_proposal option"
  rs_inference :: "inference option"
  rs_policy :: "policy_decision option"
  rs_approval :: string
  rs_result :: "tool_result option"
  rs_error :: string
  rs_created :: time
  rs_updated :: time

section \<open>Copies\<close>

definition clone_proposal :: "tool_proposal \<Rightarrow> tool_proposal" where
  "clone_proposal p = p\<lparr>tp_input := Some (clone_map (tp_input p))\<rparr>"

definition clone_code_plan :: "code_plan option \<Rightarrow> code_plan option" where
  "clone_code_plan =
     map_option (\<lambda>c. c\<lparr>cp_steps := map (\<lambda>s. s\<lparr>cs_input := Some (clone_map (cs_input s))\<rparr>) (cp_steps c)\<rparr>)"

definition clone_plan :: "plan \<Rightarrow> plan" where
  "clone_plan p =
     p\<lparr>pl_proposal := map_option clone_proposal (pl_proposal p), pl_code_plan := clone_code_plan (pl_code_plan p)\<rparr>"

definition clone_decision :: "policy_decision \<Rightarrow> policy_decision" where
  "clone_decision d = d\<lparr>pd_payload := Some (clone_map (pd_payload d))\<rparr>"

definition clone_result :: "tool_result \<Rightarrow> tool_result" where
  "clone_result r = r\<lparr>tr_output := Some (clone_map (tr_output r))\<rparr>"

definition clone_run_state :: "run_state_rec \<Rightarrow> run_state_rec" where
  "clone_run_state s =
     s\<lparr>rs_plan := map_option clone_plan (rs_plan s),
       rs_proposal := map_option clone_proposal (rs_proposal s),
       rs_policy := map_option clone_decision (rs_policy s),
       rs_result := map_option clone_result (rs_result s)\<rparr>"

definition clone_run_step :: "run_step \<Rightarrow> run_step" where
  "clone_run_step s =
     s\<lparr>st_code_plan := clone_code_plan (st_code_plan s),
       st_proposal := map_option clone_proposal (st_proposal s),
       st_policy := map_option clone_decision (st_policy s),
       st_approval := map_option clone_approval (st_approval s),
       st_result := map_option clone_result (st_result s)\<rparr>"

section \<open>Redacted copies\<close>

definition redact_nmap :: "nmap \<Rightarrow> nmap" where
  "redact_nmap m = Some (redact_map m)"

definition sanitize_code_plan :: "code_plan \<Rightarrow> code_plan" where
  "sanitize_code_plan c =
     c\<lparr>cp_goal := redact_string (cp_goal c),
       cp_steps := map (\<lambda>s. s\<lparr>cs_purpose := redact_string (cs_purpose s), cs_input := redact_nmap (cs_input s)\<rparr>)
         (cp_steps c)\<rparr>"

definition sanitize_proposal :: "tool_proposal \<Rightarrow> tool_proposal" where
  "sanitize_proposal p = p\<lparr>tp_input := redact_nmap (tp_input p)\<rparr>"

definition sanitize_policy :: "policy_decision \<Rightarrow> policy_decision" where
  "sanitize_policy d =
     d\<lparr>pd_payload := redact_nmap (pd_payload d), pd_reason := redact_string (pd_reason d),
       pd_trace := map_option (\<lambda>t. t\<lparr>rt_reason := redact_string (rt_reason t)\<rparr>) (pd_trace d)\<rparr>"

definition sanitize_result :: "tool_result \<Rightarrow> tool_result" where
  "sanitize_result r = r\<lparr>tr_output := redact_nmap (tr_output r), tr_error := redact_string (tr_error r)\<rparr>"

definition sanitize_plan :: "plan \<Rightarrow> plan" where
  "sanitize_plan p =
     p\<lparr>pl_message := redact_string (pl_message p), pl_reason := redact_string (pl_reason p),
       pl_proposal := map_option sanitize_proposal (pl_proposal p),
       pl_code_plan := map_option sanitize_code_plan (pl_code_plan p)\<rparr>"

definition sanitize_run_state :: "run_state_rec \<Rightarrow> run_state_rec" where
  "sanitize_run_state s =
     (let c = clone_run_state s in
      c\<lparr>rs_message := redact_string (rs_message c), rs_error := redact_string (rs_error c),
        rs_context := map (\<lambda>m. m\<lparr>cm_content := redact_string (cm_content m)\<rparr>) (rs_context c),
        rs_plan := map_option sanitize_plan (rs_plan c),
        rs_proposal := map_option sanitize_proposal (rs_proposal c),
        rs_policy := map_option sanitize_policy (rs_policy c),
        rs_result := map_option sanitize_result (rs_result c)\<rparr>)"

definition sanitize_explanation :: "explanation \<Rightarrow> explanation" where
  "sanitize_explanation e =
     e\<lparr>ex_summary := redact_string (ex_summary e), ex_why := redact_string (ex_why e),
       ex_rollback := redact_nmap (ex_rollback e)\<rparr>"

definition sanitize_approval :: "approval_record \<Rightarrow> approval_record" where
  "sanitize_approval a =
     a\<lparr>ap_summary := redact_string (ap_summary a), ap_reason := redact_string (ap_reason a),
       ap_explanation := map_option sanitize_explanation (ap_explanation a)\<rparr>"

definition sanitize_run_step :: "run_step \<Rightarrow> run_step" where
  "sanitize_run_step s =
     (let c = clone_run_step s in
      c\<lparr>st_summary := redact_string (st_summary c), st_error := redact_string (st_error c),
        st_code_plan := map_option sanitize_code_plan (st_code_plan c),
        st_proposal := map_option sanitize_proposal (st_proposal c),
        st_policy := map_option sanitize_policy (st_policy c),
        st_result := map_option sanitize_result (st_result c),
        st_approval := map_option sanitize_approval (st_approval c)\<rparr>)"

section \<open>The in-memory store\<close>

record run_store =
  sr_states :: "(string \<times> run_state_rec) list"
  sr_steps :: "(string \<times> run_step list) list"

definition new_run_store :: run_store where
  "new_run_store = \<lparr>sr_states = [], sr_steps = []\<rparr>"

definition store_save :: "run_state_rec \<Rightarrow> run_store \<Rightarrow> run_store" where
  "store_save s m = m\<lparr>sr_states := AList.update (rs_id s) (clone_run_state s) (sr_states m)\<rparr>"

definition store_get :: "string \<Rightarrow> run_store \<Rightarrow> run_state_rec res" where
  "store_get x m =
     (case map_of (sr_states m) x of
        None \<Rightarrow> Inl (Err ''run state not found'')
      | Some s \<Rightarrow> Inr (clone_run_state s))"

definition store_list_by_status :: "run_status list \<Rightarrow> int \<Rightarrow> run_store \<Rightarrow> run_state_rec list" where
  "store_list_by_status statuses limit m =
     (let items = map clone_run_state
            (filter (\<lambda>s. statuses = [] \<or> rs_status s \<in> set statuses) (map snd (AList.clearjunk (sr_states m))));
          sorted_items = sort_key (\<lambda>s. - rs_updated s) items
      in if 0 < limit \<and> limit < int (length sorted_items) then take (nat limit) sorted_items else sorted_items)"

fun put_step :: "run_step \<Rightarrow> run_step list \<Rightarrow> run_step list" where
  "put_step s [] = [clone_run_step s]"
| "put_step s (x # xs) = (if st_id x = st_id s then clone_run_step s # xs else x # put_step s xs)"

definition steps_of :: "string \<Rightarrow> run_store \<Rightarrow> run_step list" where
  "steps_of x m = (case map_of (sr_steps m) x of None \<Rightarrow> [] | Some ss \<Rightarrow> ss)"

definition store_save_step :: "run_step \<Rightarrow> run_store \<Rightarrow> run_store" where
  "store_save_step s m =
     m\<lparr>sr_steps := AList.update (st_run s) (sort_key st_index (put_step s (steps_of (st_run s) m))) (sr_steps m)\<rparr>"

definition store_list_steps :: "string \<Rightarrow> run_store \<Rightarrow> run_step list" where
  "store_list_steps x m = sort_key st_index (map clone_run_step (steps_of x m))"

definition store_delete :: "string \<Rightarrow> run_store \<Rightarrow> run_store" where
  "store_delete x m = m\<lparr>sr_states := AList.delete x (sr_states m), sr_steps := AList.delete x (sr_steps m)\<rparr>"


section \<open>Copies lose nothing they should keep\<close>

lemma clone_proposal_idem [simp]: "clone_proposal (clone_proposal p) = clone_proposal p"
  by (simp add: clone_proposal_def)

lemma clone_code_plan_idem [simp]: "clone_code_plan (clone_code_plan c) = clone_code_plan c"
  by (simp add: clone_code_plan_def option.map_comp comp_def)

lemma clone_plan_idem [simp]: "clone_plan (clone_plan p) = clone_plan p"
  by (simp add: clone_plan_def option.map_comp comp_def)

lemma clone_decision_idem [simp]: "clone_decision (clone_decision d) = clone_decision d"
  by (simp add: clone_decision_def)

lemma clone_result_idem [simp]: "clone_result (clone_result r) = clone_result r"
  by (simp add: clone_result_def)

lemma clone_run_state_idem [simp]: "clone_run_state (clone_run_state s) = clone_run_state s"
  by (simp add: clone_run_state_def option.map_comp comp_def)

lemma clone_run_step_idem [simp]: "clone_run_step (clone_run_step s) = clone_run_step s"
  by (simp add: clone_run_step_def option.map_comp comp_def)

lemma clone_run_state_sel [simp]:
  "rs_id (clone_run_state s) = rs_id s" "rs_conv (clone_run_state s) = rs_conv s"
  "rs_status (clone_run_state s) = rs_status s" "rs_index (clone_run_state s) = rs_index s"
  "rs_count (clone_run_state s) = rs_count s" "rs_max (clone_run_state s) = rs_max s"
  "rs_approval (clone_run_state s) = rs_approval s" "rs_message (clone_run_state s) = rs_message s"
  "rs_error (clone_run_state s) = rs_error s" "rs_updated (clone_run_state s) = rs_updated s"
  by (simp_all add: clone_run_state_def)

lemma clone_run_step_sel [simp]:
  "st_id (clone_run_step s) = st_id s" "st_run (clone_run_step s) = st_run s"
  "st_index (clone_run_step s) = st_index s" "st_type (clone_run_step s) = st_type s"
  "st_status (clone_run_step s) = st_status s"
  by (simp_all add: clone_run_step_def)

section \<open>The store's interface\<close>

text \<open>
  What the runtime relies on of a \<open>RunStateStore\<close>: a snapshot is read back as it was saved, up to the
  copying that protects it from its owner; other runs and step histories are left alone.
\<close>

locale run_state_store =
  fixes save :: "'s \<Rightarrow> 'm \<Rightarrow> 'm"
    and get :: "string \<Rightarrow> 'm \<Rightarrow> 's res"
    and save_step :: "'t \<Rightarrow> 'm \<Rightarrow> 'm"
    and steps :: "string \<Rightarrow> 'm \<Rightarrow> 't list"
    and delete :: "string \<Rightarrow> 'm \<Rightarrow> 'm"
    and ident :: "'s \<Rightarrow> string"
    and owner :: "'t \<Rightarrow> string"
    and copy :: "'s \<Rightarrow> 's"
  assumes get_save: "get (ident s) (save s m) = Inr (copy s)"
    and get_save_other: "x \<noteq> ident s \<Longrightarrow> get x (save s m) = get x m"
    and get_save_step: "get x (save_step t m) = get x m"
    and steps_save: "steps x (save s m) = steps x m"
    and steps_save_step_other: "x \<noteq> owner t \<Longrightarrow> steps x (save_step t m) = steps x m"
    and get_delete: "get x (delete x m) = Inl (Err ''run state not found'')"
    and get_delete_other: "x \<noteq> y \<Longrightarrow> get x (delete y m) = get x m"
begin

lemma last_save_wins: "ident s = ident t \<Longrightarrow> get (ident s) (save s (save t m)) = Inr (copy s)"
  by (rule get_save)

lemma get_after_steps: "get x (fold save_step ts m) = get x m"
  by (induction ts arbitrary: m) (simp_all add: get_save_step)

lemma get_after_other_saves: "\<forall>s \<in> set ss. ident s \<noteq> x \<Longrightarrow> get x (fold save ss m) = get x m"
  by (induction ss arbitrary: m) (auto simp: get_save_other)

lemma saved_state_survives:
  "\<forall>t \<in> set ss. ident t \<noteq> ident s \<Longrightarrow> get (ident s) (fold save_step ts (fold save ss (save s m))) = Inr (copy s)"
  by (simp add: get_after_steps get_after_other_saves get_save)

lemma steps_after_saves: "steps x (fold save ss m) = steps x m"
  by (induction ss arbitrary: m) (simp_all add: steps_save)

end

interpretation mem: run_state_store store_save store_get store_save_step store_list_steps store_delete
  rs_id st_run clone_run_state
  by unfold_locales
     (auto simp: store_save_def store_get_def store_save_step_def store_list_steps_def store_delete_def
       steps_of_def update_conv' delete_conv')

section \<open>Properties\<close>

text \<open>A saved snapshot is read back as a copy of itself, however many snapshots of other runs and
  steps of any run are saved in between; deleting it makes it unknown and leaves the other runs.\<close>

theorem run_store_roundtrip:
  assumes "list_all (\<lambda>t. rs_id t \<noteq> rs_id s) ss"
  shows "store_get (rs_id s) (fold store_save_step ts (fold store_save ss (store_save s m))) =
      Inr (clone_run_state s) \<and>
    store_get (rs_id s) (store_delete (rs_id s) m) = Inl (Err ''run state not found'') \<and>
    (x = rs_id s \<or> store_get x (store_delete (rs_id s) m) = store_get x m)"
  using assms mem.saved_state_survives [of ss s ts m] mem.get_delete_other [of x "rs_id s" m]
  by (auto simp: list_all_iff mem.get_delete)

definition state0 :: "string \<Rightarrow> run_status \<Rightarrow> run_state_rec" where
  "state0 x st = \<lparr>rs_id = x, rs_conv = [], rs_status = st, rs_step = [], rs_index = 0, rs_count = 0, rs_max = 6,
     rs_message = [], rs_context = [], rs_plan = None, rs_proposal = None, rs_inference = None,
     rs_policy = None, rs_approval = [], rs_result = None, rs_error = [], rs_created = 0, rs_updated = 0\<rparr>"

theorem run_store_roundtrip_witness:
  "store_get ''run_1'' (store_save (state0 ''run_2'' Failed) (store_save (state0 ''run_1'' Planned) new_run_store)) =
     Inr (state0 ''run_1'' Planned)"
proof -
  have "clone_run_state (state0 ''run_1'' Planned) = state0 ''run_1'' Planned" "rs_id (state0 x y) = x" for x y
    by (simp_all add: clone_run_state_def state0_def)
  with run_store_roundtrip [of "state0 ''run_1'' Planned" "[state0 ''run_2'' Failed]" "[]" new_run_store "''run_1''"]
  show ?thesis by simp
qed

lemma put_step_ids:
  "map st_id (put_step s xs) =
     (if st_id s \<in> set (map st_id xs) then map st_id xs else map st_id xs @ [st_id s])"
  by (induction xs) auto

lemma set_put_step:
  "distinct (map st_id xs) \<Longrightarrow>
     set (put_step s xs) = insert (clone_run_step s) {x \<in> set xs. st_id x \<noteq> st_id s}"
  by (induction xs) (auto simp: image_iff)

lemma distinct_put_step: "distinct (map st_id xs) \<Longrightarrow> distinct (map st_id (put_step s xs))"
  by (simp add: put_step_ids)

lemma distinct_sort_ids: "distinct (map st_id xs) \<Longrightarrow> distinct (map st_id (sort_key st_index xs))"
  by (simp add: distinct_map)

definition step_history_ok :: "run_store \<Rightarrow> bool" where
  "step_history_ok m \<longleftrightarrow> (\<forall>x. distinct (map st_id (steps_of x m)) \<and> (\<forall>s \<in> set (steps_of x m). clone_run_step s = s))"

lemma steps_of_save_step:
  "steps_of x (store_save_step s m) =
     (if x = st_run s then sort_key st_index (put_step s (steps_of (st_run s) m)) else steps_of x m)"
  by (simp add: steps_of_def store_save_step_def update_conv')

lemma step_history_ok_save:
  "step_history_ok m \<Longrightarrow> step_history_ok (store_save_step s m)"
  by (auto simp: step_history_ok_def steps_of_save_step distinct_sort_ids distinct_put_step set_put_step)

text \<open>C20: saving a step keeps the history of its run sorted by index with one entry per step id, and
  the entry of that id is the step saved last; a step saved twice is replaced, not repeated.\<close>

theorem step_history_upsert:
  assumes "step_history_ok m"
  shows "step_history_ok (store_save_step s m) \<and>
    sorted (map st_index (store_list_steps x (store_save_step s m))) \<and>
    set (store_list_steps (st_run s) (store_save_step s m)) =
      insert (clone_run_step s) {y \<in> set (store_list_steps (st_run s) m). st_id y \<noteq> st_id s}"
proof -
  have d: "distinct (map st_id (steps_of (st_run s) m))"
    and c: "\<And>y. y \<in> set (steps_of (st_run s) m) \<Longrightarrow> clone_run_step y = y"
    using assms by (auto simp: step_history_ok_def)
  have "set (store_list_steps (st_run s) (store_save_step s m)) =
      clone_run_step ` insert (clone_run_step s) {y \<in> set (steps_of (st_run s) m). st_id y \<noteq> st_id s}"
    using set_put_step [OF d, of s] by (simp add: store_list_steps_def steps_of_save_step)
  also have "\<dots> = insert (clone_run_step s) {y \<in> set (store_list_steps (st_run s) m). st_id y \<noteq> st_id s}"
    using c by (force simp: store_list_steps_def)
  finally show ?thesis
    using assms by (simp add: step_history_ok_save store_list_steps_def)
qed

definition step0 :: "string \<Rightarrow> nat \<Rightarrow> run_step" where
  "step0 x n = \<lparr>st_id = x, st_run = ''run_1'', st_index = n, st_type = PlanStep, st_status = StepCompleted,
     st_route = [], st_route_source = [], st_source = [], st_candidates = 0, st_tool = [],
     st_code_plan = None, st_proposal = None, st_inference = None, st_policy = None, st_approval = None,
     st_result = None, st_summary = [], st_error = [], st_created = 0, st_updated = 0\<rparr>"

theorem step_history_upsert_witness:
  "sorted (map st_index (store_list_steps ''run_1'' (store_save_step (step0 ''a'' 1) new_run_store)))"
proof -
  have "step_history_ok new_run_store"
    by (simp add: step_history_ok_def new_run_store_def steps_of_def)
  from step_history_upsert [OF this] show ?thesis by blast
qed

definition masked_nmap :: "nmap \<Rightarrow> bool" where
  "masked_nmap m = masked (GMap (nm m))"

lemma masked_redact_nmap [simp]: "masked_nmap (redact_nmap m)"
proof (cases m)
  case None
  then show ?thesis by (simp add: masked_nmap_def redact_nmap_def)
next
  case (Some kvs)
  then show ?thesis
    using masked_redact_value [of "GMap kvs"] redact_map_Some [of kvs]
    by (simp add: masked_nmap_def redact_nmap_def)
qed

definition state_maps :: "run_state_rec \<Rightarrow> nmap list" where
  "state_maps s =
     (case rs_plan s of None \<Rightarrow> [] | Some p \<Rightarrow>
        (case pl_proposal p of None \<Rightarrow> [] | Some q \<Rightarrow> [tp_input q])
        @ (case pl_code_plan p of None \<Rightarrow> [] | Some c \<Rightarrow> map cs_input (cp_steps c)))
     @ (case rs_proposal s of None \<Rightarrow> [] | Some q \<Rightarrow> [tp_input q])
     @ (case rs_policy s of None \<Rightarrow> [] | Some d \<Rightarrow> [pd_payload d])
     @ (case rs_result s of None \<Rightarrow> [] | Some r \<Rightarrow> [tr_output r])"

text \<open>In the redacted copy that leaves the process, every map the snapshot holds (proposed input,
  approval payload, tool output) has its sensitive keys masked, and the user's message, the error and
  every context message went through \<open>RedactString\<close>.\<close>

theorem sanitized_state_masked:
  "list_all masked_nmap (state_maps (sanitize_run_state s)) \<and>
   rs_message (sanitize_run_state s) = redact_string (rs_message s) \<and>
   rs_error (sanitize_run_state s) = redact_string (rs_error s) \<and>
   map cm_content (rs_context (sanitize_run_state s)) = map (redact_string \<circ> cm_content) (rs_context s)"
proof (intro conjI)
  show "list_all masked_nmap (state_maps (sanitize_run_state s))"
    by (auto simp: state_maps_def sanitize_run_state_def Let_def sanitize_plan_def sanitize_proposal_def
        sanitize_policy_def sanitize_result_def sanitize_code_plan_def list_all_iff split: option.split)
qed (simp_all add: sanitize_run_state_def clone_run_state_def Let_def)

end
