(* ===== verification/Runtime.thy ===== *)
theory Runtime
  imports Run_State
begin

text \<open>
  \<open>internal/agent/runtime.go\<close>: the step loop that plans, proposes, pauses for approval, resumes and
  finishes a run. The state monad threads everything a handler can change. The planner, the chat model
  and the context builder are interfaces: functions of how often they were called and of their input.
  Every write to a store or repository may fail as the fault function of the configuration says (never,
  for the in-memory store); a failed write changes nothing. \<open>rw_cur\<close> is the \<open>*RunState\<close> a handler works on.
\<close>

section \<open>Configuration and world\<close>

record runtime =
  rn_router :: router
  rn_planner :: "nat \<Rightarrow> plan_input \<Rightarrow> plan res"
  rn_model :: "nat \<Rightarrow> chat_message list \<Rightarrow> string res"
  rn_context :: "nat \<Rightarrow> string \<Rightarrow> string \<Rightarrow> chat_message list res"
  rn_approvals :: bool
  rn_messages :: bool
  rn_conversations :: bool
  rn_usage :: bool
  rn_agent_events :: bool
  rn_events :: bool
  rn_sink :: bool
  rn_max_steps :: int
  rn_fault :: "nat \<Rightarrow> go_error option"

record run_world = tool_world +
  rw_store :: run_store
  rw_messages :: "message list"
  rw_usage :: "message_usage list"
  rw_rollups :: "(string \<times> message_usage) list"
  rw_touched :: "string list"
  rw_agent_events :: "agent_event list"
  rw_sink :: "event list"
  rw_writes :: nat
  rw_plans :: nat
  rw_models :: nat
  rw_contexts :: nat
  rw_cur :: run_state_rec

record run_response =
  re_run :: string
  re_message :: "message option"
  re_approval :: "approval_record option"
  re_result :: "tool_result option"
  re_state :: "run_state_rec option"

definition response0 :: "string \<Rightarrow> run_response" where
  "response0 run = \<lparr>re_run = run, re_message = None, re_approval = None, re_result = None, re_state = None\<rparr>"

definition max_workflow_steps :: "runtime \<Rightarrow> nat" where
  "max_workflow_steps rt = (if 0 < rn_max_steps rt then nat (rn_max_steps rt) else 6)"

section \<open>Writes and events\<close>

definition db_write :: "runtime \<Rightarrow> (run_world \<Rightarrow> run_world) \<Rightarrow> (run_world, unit res) state" where
  "db_write rt f =
     State (\<lambda>w. let w' = w\<lparr>rw_writes := Suc (rw_writes w)\<rparr>
                in case rn_fault rt (rw_writes w) of Some e \<Rightarrow> (Inl e, w') | None \<Rightarrow> (Inr (), f w'))"

definition db_read :: "runtime \<Rightarrow> (run_world \<Rightarrow> 'a res) \<Rightarrow> (run_world, 'a res) state" where
  "db_read rt f =
     State (\<lambda>w. let w' = w\<lparr>rw_writes := Suc (rw_writes w)\<rparr>
                in case rn_fault rt (rw_writes w) of Some e \<Rightarrow> (Inl e, w') | None \<Rightarrow> (f w', w'))"

definition update_cur :: "(run_state_rec \<Rightarrow> run_state_rec) \<Rightarrow> (run_world, unit) state" where
  "update_cur f = modify (\<lambda>w. w\<lparr>rw_cur := f (rw_cur w)\<rparr>)"

definition cur :: "(run_world, run_state_rec) state" where
  "cur = world_of rw_cur"

definition save_state :: "runtime \<Rightarrow> run_state_rec \<Rightarrow> (run_world, unit res) state" where
  "save_state rt s = db_write rt (\<lambda>w. w\<lparr>rw_store := store_save s (rw_store w)\<rparr>)"

text \<open>\<open>r.saveState(ctx, *state)\<close>.\<close>

definition save_current :: "runtime \<Rightarrow> (run_world, unit res) state" where
  "save_current rt = do { s \<leftarrow> cur; save_state rt s }"

definition save_step :: "runtime \<Rightarrow> run_step \<Rightarrow> (run_world, unit res) state" where
  "save_step rt s = db_write rt (\<lambda>w. w\<lparr>rw_store := store_save_step s (rw_store w)\<rparr>)"

definition emit_agent_event :: "runtime \<Rightarrow> event \<Rightarrow> (run_world, unit) state" where
  "emit_agent_event rt ev =
     (if \<not> rn_agent_events rt then State_Monad.return ()
      else
        do {
          let payload = redact_map (ev_payload ev);
          let content = redact_string (ev_content ev);
          let payload' = (if content \<noteq> [] then AList.update ''content'' (GStr content) payload else payload);
          x \<leftarrow> fresh_id ''evt'';
          _ \<leftarrow> db_write rt (\<lambda>w. w\<lparr>rw_agent_events := rw_agent_events w @
                 [\<lparr>ae_id = x, ae_conv = ev_conv ev, ae_run = ev_run ev, ae_type = ev_type ev,
                   ae_payload = Some payload', ae_created = ev_created ev\<rparr>]\<rparr>);
          State_Monad.return ()
        })"

definition emit_with_run_log :: "runtime \<Rightarrow> event \<Rightarrow> bool \<Rightarrow> (run_world, unit) state" where
  "emit_with_run_log rt ev write_log =
     do {
       t \<leftarrow> (if ev_created ev = 0 then tick else State_Monad.return (ev_created ev));
       let ev = ev\<lparr>ev_created := t\<rparr>;
       modify (\<lambda>w. if rn_sink rt then w\<lparr>rw_sink := rw_sink w @ [ev]\<rparr> else w);
       log_event (write_log \<and> rn_events rt) ev;
       emit_agent_event rt ev
     }"

text \<open>An event literal whose \<open>CreatedAt\<close> is \<open>time.Now().UTC()\<close>, emitted.\<close>

definition emit_now :: "runtime \<Rightarrow> event \<Rightarrow> bool \<Rightarrow> (run_world, unit) state" where
  "emit_now rt ev write_log =
     do { t \<leftarrow> tick; emit_with_run_log rt (ev\<lparr>ev_created := t\<rparr>) write_log }"

definition run_event :: "string \<Rightarrow> string \<Rightarrow> string \<Rightarrow> event" where
  "run_event ty run conv = event0\<lparr>ev_type := ty, ev_run := run, ev_conv := conv\<rparr>"

definition step_event :: "string \<Rightarrow> string \<Rightarrow> string \<Rightarrow> run_step \<Rightarrow> event" where
  "step_event ty run conv s = (run_event ty run conv)\<lparr>ev_step := st_id s, ev_index := st_index s\<rparr>"

section \<open>Steps and transitions\<close>

definition new_step :: "string \<Rightarrow> run_state_rec \<Rightarrow> step_type \<Rightarrow> step_status \<Rightarrow> time \<Rightarrow> run_step" where
  "new_step x s ty status t =
     \<lparr>st_id = x, st_run = rs_id s, st_index = rs_index s + 1, st_type = ty, st_status = status,
      st_route = [], st_route_source = [], st_source = [], st_candidates = 0, st_tool = [],
      st_code_plan = None, st_proposal = None, st_inference = None, st_policy = None,
      st_approval = None, st_result = None, st_summary = [], st_error = [], st_created = t, st_updated = t\<rparr>"

definition record_step ::
  "runtime \<Rightarrow> step_type \<Rightarrow> step_status \<Rightarrow> (run_step \<Rightarrow> run_step) \<Rightarrow> (run_world, run_step res) state" where
  "record_step rt ty status fill =
     do {
       t \<leftarrow> tick;
       x \<leftarrow> fresh_id ''step'';
       s \<leftarrow> cur;
       let step = fill (new_step x s ty status t);
       update_cur (\<lambda>s. s\<lparr>rs_step := step_type_name ty, rs_index := st_index step, rs_updated := t\<rparr>);
       saved \<leftarrow> save_step rt step;
       (case saved of
          Inl e \<Rightarrow> State_Monad.return (Inl e)
        | Inr _ \<Rightarrow>
            do {
              saved' \<leftarrow> save_current rt;
              State_Monad.return (case saved' of Inl e \<Rightarrow> Inl e | Inr _ \<Rightarrow> Inr step)
            })
     }"

definition put_all :: "gmap \<Rightarrow> gmap \<Rightarrow> gmap" where
  "put_all kvs m = fold (\<lambda>(k, v) m. AList.update k v m) kvs m"

definition state_payload :: "run_state_rec \<Rightarrow> run_status \<Rightarrow> run_step \<Rightarrow> gmap \<Rightarrow> gmap" where
  "state_payload s status step payload =
     put_all
       ((if rs_approval s \<noteq> [] then [(''approval_id'', GStr (rs_approval s))] else [])
        @ (case rs_proposal s of None \<Rightarrow> [] | Some p \<Rightarrow>
            [(''tool'', GStr (tp_tool p)), (''tool_call_id'', GStr (tp_id p))])
        @ [(''step_id'', GStr (st_id step)), (''step_index'', GInt (int (st_index step)))])
       (put_all payload
          [(''status'', GStr (status_name status)), (''current_step'', GStr (rs_step s)),
           (''current_step_index'', GInt (int (rs_index s))), (''step_count'', GInt (int (rs_count s))),
           (''max_steps'', GInt (int (rs_max s)))])"

definition transition :: "runtime \<Rightarrow> run_status \<Rightarrow> run_step \<Rightarrow> gmap \<Rightarrow> (run_world, unit) state" where
  "transition rt status step payload =
     do {
       update_cur (\<lambda>s. s\<lparr>rs_status := status, rs_step := step_type_name (st_type step),
         rs_index := st_index step\<rparr>);
       t \<leftarrow> tick;
       update_cur (\<lambda>s. s\<lparr>rs_updated := t\<rparr>);
       _ \<leftarrow> save_current rt;
       s \<leftarrow> cur;
       emit_now rt ((step_event ''run.state'' (rs_id s) (rs_conv s) step)
         \<lparr>ev_approval := rs_approval s, ev_payload := Some (state_payload s status step payload)\<rparr>) True
     }"

definition fail_run :: "runtime \<Rightarrow> go_error \<Rightarrow> (run_world, unit) state" where
  "fail_run rt err =
     do {
       update_cur (\<lambda>s. s\<lparr>rs_error := error_text err\<rparr>);
       recorded \<leftarrow> record_step rt Finalize StepFailed (\<lambda>s. s\<lparr>st_error := error_text err\<rparr>);
       (case recorded of
          Inl _ \<Rightarrow> State_Monad.return ()
        | Inr step \<Rightarrow> transition rt Failed step [(''error'', GStr (error_text err))]);
       s \<leftarrow> cur;
       emit_now rt
         ((case recorded of
             Inl _ \<Rightarrow> run_event ''run.failed'' (rs_id s) (rs_conv s)
           | Inr step \<Rightarrow> step_event ''run.failed'' (rs_id s) (rs_conv s) step)
          \<lparr>ev_content := error_text err\<rparr>) True
     }"

text \<open>The code's \<open>if err != nil { r.fail(...); return nil, err }\<close>.\<close>

definition or_fail ::
  "runtime \<Rightarrow> 'a res \<Rightarrow> ('a \<Rightarrow> (run_world, 'b res) state) \<Rightarrow> (run_world, 'b res) state" where
  "or_fail rt r k =
     (case r of
        Inl e \<Rightarrow> do { fail_run rt e; State_Monad.return (Inl e) }
      | Inr x \<Rightarrow> k x)"

text \<open>The code's \<open>if err != nil { return nil, err }\<close>.\<close>

definition or_return ::
  "'a res \<Rightarrow> ('a \<Rightarrow> (run_world, 'b res) state) \<Rightarrow> (run_world, 'b res) state" where
  "or_return r k = (case r of Inl e \<Rightarrow> State_Monad.return (Inl e) | Inr x \<Rightarrow> k x)"

section \<open>Assistant messages\<close>

definition estimate_tokens :: "string \<Rightarrow> nat" where
  "estimate_tokens content = (if content = [] then 0 else length content div 4 + 1)"

definition record_usage :: "runtime \<Rightarrow> message \<Rightarrow> string \<Rightarrow> nat \<Rightarrow> (run_world, unit res) state" where
  "record_usage rt m content calls =
     (if \<not> rn_usage rt then State_Monad.return (Inr ())
      else
        do {
          x \<leftarrow> fresh_id ''usage'';
          t \<leftarrow> tick;
          let n = estimate_tokens content;
          let u = \<lparr>mu_id = x, mu_message = ms_id m, mu_conv = ms_conv m, mu_input = n, mu_output = n,
                   mu_total = n * 2, mu_calls = calls, mu_created = t\<rparr>;
          saved \<leftarrow> db_write rt (\<lambda>w. w\<lparr>rw_usage := rw_usage w @ [u]\<rparr>);
          or_return saved (\<lambda>_.
            do {
              _ \<leftarrow> db_write rt (\<lambda>w. w\<lparr>rw_rollups := rw_rollups w @ [(ms_conv m, u)]\<rparr>);
              State_Monad.return (Inr ())
            })
        })"

definition create_message :: "runtime \<Rightarrow> message \<Rightarrow> (run_world, unit res) state" where
  "create_message rt m =
     (if rn_messages rt then db_write rt (\<lambda>w. w\<lparr>rw_messages := rw_messages w @ [m]\<rparr>)
      else State_Monad.return (Inr ()))"

definition persist_assistant ::
  "runtime \<Rightarrow> string \<Rightarrow> string \<Rightarrow> nat \<Rightarrow> string \<Rightarrow> (run_world, message res) state" where
  "persist_assistant rt conv content calls run =
     do {
       x \<leftarrow> fresh_id ''msg'';
       t \<leftarrow> tick;
       let m = \<lparr>ms_id = x, ms_conv = conv, ms_role = ''assistant'', ms_content = redact_string content,
                ms_created = t\<rparr>;
       saved \<leftarrow> create_message rt m;
       or_return saved (\<lambda>_.
         do {
           used \<leftarrow> record_usage rt m content calls;
           or_return used (\<lambda>_.
             do {
               emit_now rt ((run_event ''assistant.message'' run conv)\<lparr>ev_content := content\<rparr>) True;
               State_Monad.return (Inr m)
             })
         })
     }"

definition complete_with_message ::
  "runtime \<Rightarrow> run_response \<Rightarrow> string \<Rightarrow> (run_world, run_response res) state" where
  "complete_with_message rt resp content =
     do {
       summary \<leftarrow> record_step rt Summarize StepCompleted (\<lambda>s. s\<lparr>st_summary := content\<rparr>);
       or_fail rt summary (\<lambda>summary_step.
         do {
           transition rt AssistantSummarize summary_step [];
           s \<leftarrow> cur;
           persisted \<leftarrow> persist_assistant rt (rs_conv s) content 0 (rs_id s);
           or_fail rt persisted (\<lambda>m.
             do {
               final \<leftarrow> record_step rt Finalize StepCompleted (\<lambda>s. s\<lparr>st_summary := ''run completed''\<rparr>);
               or_fail rt final (\<lambda>final_step.
                 do {
                   transition rt Completed final_step [];
                   s \<leftarrow> cur;
                   emit_now rt (step_event ''run.completed'' (rs_id s) (rs_conv s) final_step) True;
                   State_Monad.return (Inr (resp\<lparr>re_message := Some m, re_state := Some (clone_run_state s)\<rparr>))
                 })
             })
         })
     }"


section \<open>One pass of the loop: planning\<close>

text \<open>What a pass hands on: a final response, or the response so far and the tool result to plan with.\<close>

datatype pass = Done run_response | Again run_response "tool_result option"

definition normalize_plan :: "plan \<Rightarrow> tool_result option \<Rightarrow> plan" where
  "normalize_plan p prev =
     (if pl_decision p \<noteq> [] then clone_plan p
      else clone_plan (p\<lparr>pl_decision :=
        (if pl_proposal p \<noteq> None then ''tool''
         else if pl_message p \<noteq> [] then ''answer''
         else if prev \<noteq> None then ''stop''
         else ''answer'')\<rparr>))"

definition planned_tool :: "plan \<Rightarrow> string" where
  "planned_tool p = (case pl_proposal p of None \<Rightarrow> [] | Some q \<Rightarrow> tp_tool q)"

definition plan_summary :: "plan \<Rightarrow> string" where
  "plan_summary p =
     (let summary = (if pl_reason p \<noteq> [] then pl_reason p else pl_decision p) in
      if pl_source p \<noteq> [] \<and> \<not> has_sub summary ''planner_source=''
      then (if summary = [] then ''planner_source='' @ pl_source p
            else ''planner_source='' @ pl_source p @ ''; '' @ summary)
      else summary)"

definition fill_plan_step :: "plan \<Rightarrow> run_step \<Rightarrow> run_step" where
  "fill_plan_step p s =
     s\<lparr>st_summary := plan_summary p, st_route := pl_route p, st_route_source := pl_route_source p,
       st_source := pl_source p, st_candidates := pl_candidates p, st_tool := planned_tool p,
       st_code_plan := clone_code_plan (pl_code_plan p),
       st_proposal := map_option clone_proposal (pl_proposal p)\<rparr>"

definition plan_payload :: "plan \<Rightarrow> gmap" where
  "plan_payload p =
     [(''decision'', GStr (pl_decision p)), (''answer_mode'', GStr (pl_answer_mode p)),
      (''route'', GStr (pl_route p)), (''route_source'', GStr (pl_route_source p)),
      (''planner_source'', GStr (pl_source p)), (''candidate_count'', GInt (int (pl_candidates p))),
      (''tool'', GStr (planned_tool p))]"

definition call_planner :: "runtime \<Rightarrow> tool_result option \<Rightarrow> (run_world, plan res) state" where
  "call_planner rt prev =
     State (\<lambda>w. let s = rw_cur w in
       (rn_planner rt (rw_plans w)
          \<lparr>pi_conv = rs_conv s, pi_message = rs_message s, pi_index = rs_count s, pi_result = prev,
           pi_proposal = rs_proposal s\<rparr>,
        w\<lparr>rw_plans := Suc (rw_plans w)\<rparr>))"

definition call_model :: "runtime \<Rightarrow> (run_world, string res) state" where
  "call_model rt =
     State (\<lambda>w. (rn_model rt (rw_models w) (rs_context (rw_cur w)), w\<lparr>rw_models := Suc (rw_models w)\<rparr>))"

definition plan_pass :: "runtime \<Rightarrow> tool_result option \<Rightarrow> (run_world, plan res) state" where
  "plan_pass rt prev =
     do {
       planned \<leftarrow> call_planner rt prev;
       or_fail rt planned (\<lambda>p0.
         do {
           let p = normalize_plan p0 prev;
           update_cur (\<lambda>s. s\<lparr>rs_plan := Some p\<rparr>);
           recorded \<leftarrow> record_step rt PlanStep StepCompleted (fill_plan_step p);
           or_fail rt recorded (\<lambda>plan_step.
             do {
               transition rt Planned plan_step (plan_payload p);
               s \<leftarrow> cur;
               (if pl_preamble p \<noteq> []
                then emit_now rt ((step_event ''assistant.delta'' (rs_id s) (rs_conv s) plan_step)
                  \<lparr>ev_content := pl_preamble p\<rparr>) True
                else State_Monad.return ());
               State_Monad.return (Inr p)
             })
         })
     }"

definition summarize_tool_result :: "tool_result option \<Rightarrow> string" where
  "summarize_tool_result r =
     (case r of
        None \<Rightarrow> zh_tool_done
      | Some x \<Rightarrow>
          (let out = nm (tr_output x) in
           if str_at out ''stdout'' \<noteq> [] then zh_tool_output @ str_at out ''stdout''
           else if str_at out ''status'' \<noteq> [] then zh_tool_status @ str_at out ''status'' @ zh_stop
           else if tr_error x \<noteq> [] then zh_tool_failed @ tr_error x
           else zh_tool_done))"

definition answer_pass :: "runtime \<Rightarrow> plan \<Rightarrow> run_response \<Rightarrow> (run_world, pass res) state" where
  "answer_pass rt p resp =
     do {
       answer \<leftarrow> (if pl_answer_mode p = ''runner'' \<or> pl_message p = [] then call_model rt
                  else State_Monad.return (Inr (pl_message p)));
       or_fail rt answer (\<lambda>content.
         do {
           r \<leftarrow> complete_with_message rt resp content;
           State_Monad.return (map_sum id Done r)
         })
     }"

definition stop_pass ::
  "runtime \<Rightarrow> plan \<Rightarrow> tool_result option \<Rightarrow> run_response \<Rightarrow> (run_world, pass res) state" where
  "stop_pass rt p prev resp =
     do {
       r \<leftarrow> complete_with_message rt resp
              (if pl_message p = [] then summarize_tool_result prev else pl_message p);
       State_Monad.return (map_sum id Done r)
     }"

definition continue_pass ::
  "runtime \<Rightarrow> plan \<Rightarrow> tool_result option \<Rightarrow> run_response \<Rightarrow> (run_world, pass res) state" where
  "continue_pass rt p prev resp =
     do {
       recorded \<leftarrow> record_step rt ContinueStep StepCompleted (\<lambda>s. s\<lparr>st_summary := pl_reason p\<rparr>);
       or_fail rt recorded (\<lambda>step.
         do {
           transition rt Planned step [(''decision'', GStr (pl_decision p))];
           State_Monad.return (Inr (Again resp prev))
         })
     }"

section \<open>One pass of the loop: a tool\<close>

definition record_inference :: "runtime \<Rightarrow> tool_proposal \<Rightarrow> route_result \<Rightarrow> (run_world, unit res) state" where
  "record_inference rt p out =
     do {
       update_cur (\<lambda>s. s\<lparr>rs_inference := Some (rr_inference out)\<rparr>);
       recorded \<leftarrow> record_step rt InferEffect StepCompleted
         (\<lambda>s. s\<lparr>st_proposal := Some p, st_inference := Some (rr_inference out),
              st_summary := if_reason (rr_inference out)\<rparr>);
       or_fail rt recorded (\<lambda>step.
         do {
           transition rt EffectInferred step
             [(''risk_level'', GStr (if_risk (rr_inference out))), (''effects'', GStrs (if_effects (rr_inference out)))];
           State_Monad.return (Inr ())
         })
     }"

definition record_policy :: "runtime \<Rightarrow> tool_proposal \<Rightarrow> route_result \<Rightarrow> (run_world, unit res) state" where
  "record_policy rt p out =
     do {
       update_cur (\<lambda>s. s\<lparr>rs_policy := Some (rr_decision out)\<rparr>);
       recorded \<leftarrow> record_step rt DecidePolicy StepCompleted
         (\<lambda>s. s\<lparr>st_proposal := Some p, st_inference := Some (rr_inference out),
              st_policy := Some (rr_decision out), st_summary := pd_reason (rr_decision out)\<rparr>);
       or_fail rt recorded (\<lambda>step.
         do {
           transition rt PolicyDecided step
             [(''requires_approval'', GBool (pd_requires (rr_decision out))),
              (''risk_level'', GStr (pd_risk (rr_decision out)))];
           State_Monad.return (Inr ())
         })
     }"

definition approval_event_payload :: "approval_record \<Rightarrow> policy_decision \<Rightarrow> gmap" where
  "approval_event_payload a d =
     [(''summary'', GStr (ap_summary a)), (''explanation'', explanation_val (ap_explanation a)),
      (''input_snapshot'', val_of_nmap (ap_snapshot a)), (''risk_trace'', risk_trace_ptr (pd_trace d))]"

definition pause_pass ::
  "runtime \<Rightarrow> tool_proposal \<Rightarrow> route_result \<Rightarrow> approval_record \<Rightarrow> run_response \<Rightarrow> (run_world, pass res) state" where
  "pause_pass rt p out a resp =
     do {
       update_cur (\<lambda>s. s\<lparr>rs_approval := ap_id a\<rparr>);
       recorded \<leftarrow> record_step rt RequestApproval StepPaused
         (\<lambda>s. s\<lparr>st_proposal := Some p, st_inference := Some (rr_inference out),
              st_policy := Some (rr_decision out), st_approval := Some (clone_approval a),
              st_summary := ap_summary a\<rparr>);
       or_fail rt recorded (\<lambda>step.
         do {
           transition rt ApprovalRequested step
             [(''approval_id'', GStr (ap_id a)), (''risk_level'', GStr (if_risk (rr_inference out)))];
           s \<leftarrow> cur;
           emit_now rt ((step_event ''approval.requested'' (rs_id s) (rs_conv s) step)
             \<lparr>ev_approval := ap_id a, ev_risk := if_risk (rr_inference out),
              ev_payload := Some (approval_event_payload a (rr_decision out))\<rparr>) False;
           transition rt PausedForApproval step [(''approval_id'', GStr (ap_id a))];
           persisted \<leftarrow> persist_assistant rt (rs_conv s) zh_needs_approval 1 (rs_id s);
           or_fail rt persisted (\<lambda>m.
             do {
               s' \<leftarrow> cur;
               emit_now rt ((step_event ''run.paused'' (rs_id s') (rs_conv s') step)
                 \<lparr>ev_approval := ap_id a\<rparr>) True;
               State_Monad.return (Inr (Done (resp\<lparr>re_approval := Some a, re_message := Some m,
                 re_state := Some (clone_run_state s')\<rparr>)))
             })
         })
     }"

definition result_failed :: "tool_result option \<Rightarrow> bool" where
  "result_failed r = (case r of None \<Rightarrow> False | Some x \<Rightarrow> tr_error x \<noteq> [])"

definition result_error :: "tool_result option \<Rightarrow> string" where
  "result_error r = (case r of None \<Rightarrow> [] | Some x \<Rightarrow> tr_error x)"

definition emit_tool_output ::
  "runtime \<Rightarrow> string \<Rightarrow> run_step \<Rightarrow> tool_result option \<Rightarrow> (run_world, unit) state" where
  "emit_tool_output rt approval step r =
     (case r of
        None \<Rightarrow> State_Monad.return ()
      | Some x \<Rightarrow>
          do {
            s \<leftarrow> cur;
            emit_now rt ((step_event ''tool.output'' (rs_id s) (rs_conv s) step)
              \<lparr>ev_approval := approval, ev_call := tr_call x, ev_payload := tr_output x\<rparr>) False
          })"

definition executed_pass ::
  "runtime \<Rightarrow> route_result \<Rightarrow> run_response \<Rightarrow> (run_world, pass res) state" where
  "executed_pass rt out resp =
     do {
       recorded \<leftarrow> record_step rt ExecuteTool (if result_failed (rr_result out) then StepFailed else StepCompleted)
         (\<lambda>s. s\<lparr>st_proposal := Some (rr_proposal out), st_inference := Some (rr_inference out),
              st_policy := Some (rr_decision out), st_result := rr_result out, st_summary := ''tool executed'',
              st_error := result_error (rr_result out)\<rparr>);
       or_fail rt recorded (\<lambda>step.
         do {
           transition rt ToolExecuting step
             [(''tool'', GStr (tp_tool (rr_proposal out))), (''tool_call_id'', GStr (tp_id (rr_proposal out)))];
           update_cur (\<lambda>s. s\<lparr>rs_result := rr_result out\<rparr>);
           (if result_failed (rr_result out)
            then
              do {
                update_cur (\<lambda>s. s\<lparr>rs_error := result_error (rr_result out)\<rparr>);
                transition rt ToolFailed step [(''error'', GStr (result_error (rr_result out)))]
              }
            else transition rt ToolCompleted step []);
           emit_tool_output rt [] step (rr_result out);
           State_Monad.return (Inr (Again (resp\<lparr>re_result := rr_result out\<rparr>) (rr_result out)))
         })
     }"

definition tool_pass ::
  "runtime \<Rightarrow> plan \<Rightarrow> tool_proposal \<Rightarrow> run_response \<Rightarrow> (run_world, pass res) state" where
  "tool_pass rt p q0 resp =
     do {
       let q = clone_proposal q0;
       update_cur (\<lambda>s. s\<lparr>rs_proposal := Some q\<rparr>);
       recorded \<leftarrow> record_step rt ProposeTool StepCompleted
         (\<lambda>s. s\<lparr>st_proposal := Some q, st_summary := tp_tool q\<rparr>);
       or_fail rt recorded (\<lambda>step.
         do {
           transition rt ToolProposed step
             [(''tool'', GStr (tp_tool q)), (''tool_call_id'', GStr (tp_id q)),
              (''planner_source'', GStr (pl_source p)), (''candidate_count'', GInt (int (pl_candidates p)))];
           s \<leftarrow> cur;
           routed \<leftarrow> propose (rn_router rt) (rs_id s) (rs_conv s) q0;
           or_fail rt routed (\<lambda>out.
             do {
               inferred \<leftarrow> record_inference rt q out;
               or_return inferred (\<lambda>_.
                 do {
                   decided \<leftarrow> record_policy rt q out;
                   or_return decided (\<lambda>_.
                     case rr_approval out of
                       Some a \<Rightarrow> pause_pass rt q out a resp
                     | None \<Rightarrow> executed_pass rt out resp)
                 })
             })
         })
     }"

definition loop_pass ::
  "runtime \<Rightarrow> run_response \<Rightarrow> tool_result option \<Rightarrow> (run_world, pass res) state" where
  "loop_pass rt resp prev =
     do {
       planned \<leftarrow> plan_pass rt prev;
       or_return planned (\<lambda>p.
         if pl_decision p = ''continue'' then continue_pass rt p prev resp
         else if pl_decision p = ''answer'' then answer_pass rt p resp
         else if pl_decision p = ''stop'' then stop_pass rt p prev resp
         else if pl_decision p \<noteq> ''tool'' then
           or_fail rt (Inl (Err (''unsupported plan decision '' @ quote (pl_decision p)))) State_Monad.return
         else
           (case pl_proposal p of
              None \<Rightarrow> or_fail rt (Inl (Err ''planner decided tool execution without a tool proposal''))
                        State_Monad.return
            | Some q \<Rightarrow> tool_pass rt p q resp))
     }"


section \<open>What a handler leaves alone\<close>

text \<open>
  \<open>quiet v w\<close>: no executor was called, no request changed, nothing was planned, the log shows no new
  tool start, the current run keeps its identity, its step budget and its proposal, and no other run's
  snapshot changed.
\<close>

definition budget :: "run_world \<Rightarrow> string \<times> string \<times> nat \<times> nat" where
  "budget w = (rs_id (rw_cur w), rs_conv (rw_cur w), rs_count (rw_cur w), rs_max (rw_cur w))"

definition others_kept :: "run_world \<Rightarrow> run_world \<Rightarrow> bool" where
  "others_kept v w \<longleftrightarrow>
     (\<forall>x. x \<noteq> rs_id (rw_cur v) \<longrightarrow> store_get x (rw_store w) = store_get x (rw_store v))"

definition quiet :: "run_world \<Rightarrow> run_world \<Rightarrow> bool" where
  "quiet v w \<longleftrightarrow>
     tw_calls w = tw_calls v \<and> tw_approvals w = tw_approvals v \<and> rw_plans w = rw_plans v \<and>
     started (tw_events w) = started (tw_events v) \<and> budget w = budget v \<and> others_kept v w \<and>
     rs_proposal (rw_cur w) = rs_proposal (rw_cur v)"

interpretation quiet: world_order quiet
  by unfold_locales (auto simp: quiet_def others_kept_def budget_def)

lemma quiet_tick: "state_io_rel quiet tick"
  by (rule io_relI) (simp add: quiet_def budget_def others_kept_def)

lemma quiet_fresh_id: "state_io_rel quiet (fresh_id pre)"
  by (rule io_relI) (simp add: quiet_def budget_def others_kept_def)

lemma quiet_log: "ev_type ev \<noteq> ''tool.started'' \<Longrightarrow> state_io_rel quiet (log_event on ev)"
  by (rule io_relI) (simp add: quiet_def budget_def others_kept_def)

lemma quiet_update_cur:
  "(\<And>s. rs_id (f s) = rs_id s \<and> rs_conv (f s) = rs_conv s \<and> rs_count (f s) = rs_count s \<and> rs_max (f s) = rs_max s \<and>
       rs_proposal (f s) = rs_proposal s)
     \<Longrightarrow> state_io_rel quiet (update_cur f)"
  by (rule io_relI) (simp add: quiet_def budget_def others_kept_def update_cur_def)

lemma quiet_sink: "state_io_rel quiet (modify (\<lambda>w. if b then w\<lparr>rw_sink := rw_sink w @ [ev]\<rparr> else w))"
  by (rule io_relI) (simp add: quiet_def budget_def others_kept_def)

text \<open>A write is quiet when what it stores is.\<close>

lemma quiet_db_write: "(\<And>w. quiet w (f w)) \<Longrightarrow> state_io_rel quiet (db_write rt f)"
  by (rule io_relI) (auto simp: db_write_def quiet_def budget_def others_kept_def Let_def split: option.split)

lemma quiet_db_read: "state_io_rel quiet (db_read rt f)"
  by (rule io_relI) (auto simp: db_read_def quiet_def budget_def others_kept_def Let_def split: option.split)

lemma quiet_cur: "state_io_rel quiet cur"
  unfolding cur_def by (rule quiet.world_of)

text \<open>Saving is quiet for a snapshot of the current run: what \<open>saveState\<close> is given is \<open>*state\<close> itself.\<close>

lemma quiet_save_step: "state_io_rel quiet (save_step rt s)"
  unfolding save_step_def
  by (rule quiet_db_write) (simp add: quiet_def budget_def others_kept_def mem.get_save_step)

lemma quiet_save_current: "state_io_rel quiet (save_current rt)"
  by (rule io_relI)
     (auto simp: save_current_def cur_def save_state_def db_write_def quiet_def budget_def others_kept_def
       mem.get_save_other Let_def split: option.split)

lemmas quiet_rules = quiet.rules quiet_tick quiet_fresh_id quiet_log quiet_sink quiet_db_read quiet_cur
  quiet_save_step quiet_save_current


section \<open>The handlers are quiet\<close>

lemma event_types [simp]:
  "ev_type (run_event ty run conv) = ty" "ev_type (step_event ty run conv s) = ty"
  "ev_type event0 = []"
  by (simp_all add: run_event_def step_event_def event0_def)

lemma quiet_emit_agent_event: "state_io_rel quiet (emit_agent_event rt ev)"
  unfolding emit_agent_event_def
  by (intro quiet_rules quiet_db_write) (simp add: quiet_def budget_def others_kept_def)

lemma quiet_emit_with_run_log:
  "ev_type ev \<noteq> ''tool.started'' \<Longrightarrow> state_io_rel quiet (emit_with_run_log rt ev b)"
  unfolding emit_with_run_log_def
  by (intro quiet_rules quiet_emit_agent_event) simp

lemma quiet_emit_now: "ev_type ev \<noteq> ''tool.started'' \<Longrightarrow> state_io_rel quiet (emit_now rt ev b)"
  unfolding emit_now_def by (intro quiet_rules quiet_emit_with_run_log) simp

lemma quiet_record_step: "state_io_rel quiet (record_step rt ty st fill)"
  unfolding record_step_def
  by (intro quiet_rules quiet_update_cur) simp

lemma quiet_transition: "state_io_rel quiet (transition rt st step payload)"
  unfolding transition_def
  by (intro quiet_rules quiet_update_cur quiet_emit_now) simp_all

lemma quiet_fail_run: "state_io_rel quiet (fail_run rt e)"
  unfolding fail_run_def
  by (intro quiet_rules quiet_update_cur quiet_record_step quiet_transition quiet_emit_now)
     (simp_all split: sum.split)

lemma quiet_or_fail: "(\<And>x. r = Inr x \<Longrightarrow> state_io_rel quiet (k x)) \<Longrightarrow> state_io_rel quiet (or_fail rt r k)"
  unfolding or_fail_def by (intro quiet_rules quiet_fail_run)

lemma quiet_or_return: "(\<And>x. r = Inr x \<Longrightarrow> state_io_rel quiet (k x)) \<Longrightarrow> state_io_rel quiet (or_return r k)"
  unfolding or_return_def by (intro quiet_rules)

lemma quiet_create_message: "state_io_rel quiet (create_message rt m)"
  unfolding create_message_def
  by (intro quiet_rules quiet_db_write) (simp add: quiet_def budget_def others_kept_def)

lemma quiet_record_usage: "state_io_rel quiet (record_usage rt m c n)"
  unfolding record_usage_def
  by (intro quiet_rules quiet_or_return quiet_db_write) (simp_all add: quiet_def budget_def others_kept_def)

lemma quiet_persist: "state_io_rel quiet (persist_assistant rt conv content n run)"
  unfolding persist_assistant_def
  by (intro quiet_rules quiet_or_return quiet_create_message quiet_record_usage quiet_emit_now) simp

lemma quiet_complete: "state_io_rel quiet (complete_with_message rt resp content)"
  unfolding complete_with_message_def
  by (intro quiet_rules quiet_or_fail quiet_record_step quiet_transition quiet_persist quiet_emit_now) simp

lemmas quiet_handlers = quiet_rules quiet_emit_now quiet_record_step quiet_transition quiet_fail_run
  quiet_or_fail quiet_or_return quiet_persist quiet_complete quiet_update_cur

lemma quiet_call_model: "state_io_rel quiet (call_model rt)"
  by (rule io_relI) (simp add: call_model_def quiet_def budget_def others_kept_def)

lemma quiet_answer_pass: "state_io_rel quiet (answer_pass rt p resp)"
  unfolding answer_pass_def by (intro quiet_handlers quiet_call_model)

lemma quiet_stop_pass: "state_io_rel quiet (stop_pass rt p prev resp)"
  unfolding stop_pass_def by (intro quiet_handlers)

lemma quiet_continue_pass: "state_io_rel quiet (continue_pass rt p prev resp)"
  unfolding continue_pass_def by (intro quiet_handlers)

lemma quiet_record_inference: "state_io_rel quiet (record_inference rt p out)"
  unfolding record_inference_def by (intro quiet_handlers) simp

lemma quiet_record_policy: "state_io_rel quiet (record_policy rt p out)"
  unfolding record_policy_def by (intro quiet_handlers) simp

lemma quiet_pause_pass: "state_io_rel quiet (pause_pass rt p out a resp)"
  unfolding pause_pass_def by (intro quiet_handlers) simp_all

lemma quiet_emit_tool_output: "state_io_rel quiet (emit_tool_output rt x step r)"
  unfolding emit_tool_output_def by (intro quiet_handlers) simp

lemma quiet_executed_pass: "state_io_rel quiet (executed_pass rt out resp)"
  unfolding executed_pass_def by (intro quiet_handlers quiet_emit_tool_output) simp_all


section \<open>What the loop may do\<close>

text \<open>
  \<open>working rt v w\<close>: like \<open>quiet\<close>, but executors may have been called, each on a proposal the policy runs
  unasked, and requests may have been created, none of them approved.
\<close>

definition unasked_call :: "tool_proposal \<Rightarrow> string \<times> gmap" where
  "unasked_call p = (tp_tool p, clone_map (tp_input p))"

definition unasked_calls :: "runtime \<Rightarrow> run_world \<Rightarrow> run_world \<Rightarrow> bool" where
  "unasked_calls rt v w \<longleftrightarrow>
     (\<exists>ps. list_all (runs_unasked (rn_router rt)) ps \<and> tw_calls w = tw_calls v @ map unasked_call ps)"

definition no_new_approved :: "run_world \<Rightarrow> run_world \<Rightarrow> bool" where
  "no_new_approved v w \<longleftrightarrow>
     (\<forall>x q. map_of (tw_approvals w) x = Some q \<longrightarrow> ap_status q = ApprovalApproved \<longrightarrow>
        map_of (tw_approvals v) x = Some q)"

definition working :: "runtime \<Rightarrow> run_world \<Rightarrow> run_world \<Rightarrow> bool" where
  "working rt v w \<longleftrightarrow>
     budget w = budget v \<and> others_kept v w \<and> unasked_calls rt v w \<and> no_new_approved v w \<and>
     (ro_events (rn_router rt) \<longrightarrow> audited v \<longrightarrow> audited w)"

lemma unasked_calls_refl: "unasked_calls rt w w"
  unfolding unasked_calls_def by (rule exI [of _ "[]"]) simp

lemma unasked_calls_trans:
  assumes "unasked_calls rt u v" "unasked_calls rt v w"
  shows "unasked_calls rt u w"
proof -
  obtain ps qs where
    "list_all (runs_unasked (rn_router rt)) ps" "tw_calls v = tw_calls u @ map unasked_call ps"
    "list_all (runs_unasked (rn_router rt)) qs" "tw_calls w = tw_calls v @ map unasked_call qs"
    using assms unfolding unasked_calls_def by blast
  then show ?thesis
    unfolding unasked_calls_def by (intro exI [of _ "ps @ qs"]) simp
qed

interpretation working: world_order "working rt"
proof
  show "working rt w w" for w
    by (simp add: working_def others_kept_def no_new_approved_def unasked_calls_refl)
  show "working rt u w" if "working rt u v" "working rt v w" for u v w
  proof -
    have "others_kept u w"
      using that by (simp add: working_def others_kept_def budget_def)
    moreover have "no_new_approved u w"
      using that unfolding working_def no_new_approved_def by blast
    moreover have "unasked_calls rt u w"
      using that unasked_calls_trans [of rt u v w] by (simp add: working_def)
    ultimately show ?thesis
      using that by (simp add: working_def)
  qed
qed

lemma quiet_working: "quiet v w \<Longrightarrow> working rt v w"
  using unasked_calls_refl [of rt v]
  by (auto simp: quiet_def working_def no_new_approved_def audited_def unasked_calls_def)

lemma working_quiet: "state_io_rel quiet m \<Longrightarrow> state_io_rel (working rt) m"
  by (erule io_rel_weaken) (rule quiet_working)

lemma more_run_world:
  fixes v w :: run_world
  assumes "tool_world.more w = tool_world.more v"
  shows "rw_cur w = rw_cur v" "rw_store w = rw_store v" "rw_plans w = rw_plans v"
proof -
  have "rw_cur w = rw_cur v \<and> rw_store w = rw_store v \<and> rw_plans w = rw_plans v"
    using assms by (cases v, cases w) simp
  then show "rw_cur w = rw_cur v" "rw_store w = rw_store v" "rw_plans w = rw_plans v" by simp_all
qed

lemma working_propose: "state_io_rel (working rt) (propose (rn_router rt) run conv p)"
proof (rule io_relI)
  fix w :: run_world
  let ?w = "snd (run_state (propose (rn_router rt) run conv p) w)"
  have o: "same_outside w ?w"
    by (rule io_relD) (rule outside_propose)
  then have "tool_world.more ?w = tool_world.more w"
    unfolding same_outside_def by (rule conjunct1)
  note m = more_run_world [OF this]
  have "unasked_calls rt w ?w"
    unfolding unasked_calls_def propose_calls_eq
    by (rule exI [of _ "if runs_unasked (rn_router rt) p \<and> registered (rn_router rt) (tp_tool p) then [p] else []"])
       (simp add: unasked_call_def)
  moreover have "no_new_approved w ?w"
    using o by (simp add: same_outside_def no_new_approved_def)
  moreover have "audited ?w" if "ro_events (rn_router rt)" "audited w"
    using keepingD [OF audited_propose that(2)] that(1) by simp
  ultimately show "working rt w ?w"
    by (simp add: working_def budget_def others_kept_def m)
qed

lemma working_or_fail:
  "(\<And>x. r = Inr x \<Longrightarrow> state_io_rel (working rt) (k x)) \<Longrightarrow> state_io_rel (working rt) (or_fail rt' r k)"
  by (cases r)
     (simp_all add: or_fail_def working.bind working.return working_quiet [OF quiet_fail_run])

lemma working_or_return:
  "(\<And>x. r = Inr x \<Longrightarrow> state_io_rel (working rt) (k x)) \<Longrightarrow> state_io_rel (working rt) (or_return r k)"
  unfolding or_return_def by (intro working.rules)

lemmas working_rules = working.rules working_propose working_or_fail working_or_return

lemma working_propose_step: "state_io_rel (working rt) (update_cur (\<lambda>s. s\<lparr>rs_proposal := q\<rparr>))"
  by (rule io_relI)
     (simp add: update_cur_def working_def budget_def others_kept_def no_new_approved_def unasked_calls_refl
       unasked_calls_def audited_def)

lemma working_tool_pass: "state_io_rel (working rt) (tool_pass rt p q resp)"
  unfolding tool_pass_def
  by (intro working_rules working_propose_step working_quiet quiet_record_step quiet_transition quiet_cur
      quiet_record_inference quiet_record_policy quiet_pause_pass quiet_executed_pass)

text \<open>Calling the planner is the one action of the loop that is not quiet without calling a tool.\<close>

lemma working_call_planner: "state_io_rel (working rt) (call_planner rt' prev)"
  by (rule io_relI)
     (simp add: call_planner_def working_def budget_def others_kept_def no_new_approved_def
       unasked_calls_def audited_def Let_def)

lemma working_plan_pass: "state_io_rel (working rt) (plan_pass rt prev)"
  unfolding plan_pass_def
  by (intro working_rules working_call_planner working_quiet quiet_record_step quiet_transition quiet_cur
      quiet_update_cur quiet_emit_now) simp_all

lemma working_loop_pass: "state_io_rel (working rt) (loop_pass rt resp prev)"
  unfolding loop_pass_def
  by (intro working_rules working_plan_pass working_tool_pass
      working_quiet [OF quiet_continue_pass] working_quiet [OF quiet_answer_pass]
      working_quiet [OF quiet_stop_pass])

section \<open>The loop\<close>

lemma loop_pass_budget:
  "run_state (loop_pass rt resp prev) w = (a, w') \<Longrightarrow>
     rs_count (rw_cur w') = rs_count (rw_cur w) \<and> rs_max (rw_cur w') = rs_max (rw_cur w)"
  using working.run [OF working_loop_pass] by (fastforce simp: working_def budget_def)

definition count_step :: "run_world \<Rightarrow> run_world" where
  "count_step w = w\<lparr>rw_cur := (rw_cur w)\<lparr>rs_count := rs_count (rw_cur w) + 1\<rparr>\<rparr>"

function continue_workflow ::
  "runtime \<Rightarrow> run_response \<Rightarrow> tool_result option \<Rightarrow> run_world \<Rightarrow> run_response res \<times> run_world" where
  "continue_workflow rt resp prev w =
     (if rs_max (rw_cur w) \<le> rs_count (rw_cur w) then
        (let e = Err (''workflow exceeded max steps ('' @ show_nat (rs_max (rw_cur w)) @ '')'')
         in (Inl e, snd (run_state (fail_run rt e) w)))
      else
        (case run_state (loop_pass rt resp prev) (count_step w) of
           (Inl e, w') \<Rightarrow> (Inl e, w')
         | (Inr (Done r), w') \<Rightarrow> (Inr r, w')
         | (Inr (Again r t), w') \<Rightarrow> continue_workflow rt r t w'))"
  by pat_completeness auto
termination
  by (relation "measure (\<lambda>(rt, resp, prev, w). rs_max (rw_cur w) - rs_count (rw_cur w))")
     (auto dest: loop_pass_budget [OF sym] simp: count_step_def)

declare continue_workflow.simps [simp del]

end
