(* ===== verification/Planner_Heuristic.thy ===== *)
theory Planner_Heuristic
  imports Planner_Safety Ops_Runbook Runtime
begin

text \<open>
  The planners the runtime calls: \<open>HeuristicPlanner\<close> of \<open>internal/agent/planner.go\<close>, which goes on after a tool
  result, and \<open>HybridPlanner\<close> of \<open>internal/agent/hybrid_planner.go\<close>, which plans a message with the hybrid planner
  and leaves what follows a tool to the former.
\<close>

section \<open>Workspaces and texts\<close>

definition marker_workspaces :: "string list" where
  "marker_workspaces = [''workspace:'', ''workspace'' @ zh_colon, zh_workspace @ '':'', zh_workspace @ zh_colon]"

text \<open>The loop over the markers: a marker with nothing after it ends the loop.\<close>

fun marked_workspace :: "string \<Rightarrow> string list \<Rightarrow> string" where
  "marked_workspace s [] = ''.''"
| "marked_workspace s (m # ms) =
     (case str_index (to_lower s) (to_lower m) of
        None \<Rightarrow> marked_workspace s ms
      | Some i \<Rightarrow>
          (case str_fields (trim_space (drop (i + length m) s)) of
             [] \<Rightarrow> ''.''
           | f # _ \<Rightarrow> if strip_runes memory_id_runes f \<noteq> [] then strip_runes memory_id_runes f else marked_workspace s ms))"

definition message_workspace :: "string \<Rightarrow> string" where
  "message_workspace s = marked_workspace s marker_workspaces"

definition workspace_from_path :: "string \<Rightarrow> string" where
  "workspace_from_path p = (if p = [] then ''.'' else message_workspace (''workspace: '' @ p))"

definition workspace_from_proposal :: "tool_proposal \<Rightarrow> string" where
  "workspace_from_proposal p =
     (let input = nm (tp_input p) in
      if str_at input ''workspace'' \<noteq> [] then str_at input ''workspace''
      else if str_at input ''path'' \<noteq> [] then workspace_from_path (str_at input ''path'')
      else ''.'')"

definition wants_run_tests :: "string \<Rightarrow> bool" where
  "wants_run_tests s = contains_any s test_words"

definition wants_patch_validate :: "string \<Rightarrow> bool" where
  "wants_patch_validate s = contains_any s validate_words"

definition wants_patch_apply :: "string \<Rightarrow> bool" where
  "wants_patch_apply s = contains_any s apply_words"

definition wants_runbook :: "string \<Rightarrow> bool" where
  "wants_runbook s = contains_any s [zh_execute, ''execute'', zh_troubleshoot, ''diagnose'', zh_by_runbook]"

text \<open>\<open>fmtString\<close>: nil and a missing key are the empty string.\<close>

definition fmt_string :: "gmap \<Rightarrow> string \<Rightarrow> string" where
  "fmt_string m k =
     (case map_of m k of None \<Rightarrow> [] | Some GNil \<Rightarrow> [] | Some v \<Rightarrow> trim_space (trim_chars (\<lambda>c. c = CHR 0x00) (go_print v)))"

definition summarize_parsed :: "tool_result \<Rightarrow> string" where
  "summarize_parsed r =
     (let s = str_at (nm (tr_output r)) ''summary'' in if s \<noteq> [] then zh_parsed_colon @ s else zh_parsed)"

definition summarize_fix_loop :: "tool_result \<Rightarrow> string" where
  "summarize_fix_loop r =
     (let out = nm (tr_output r) in
      if str_at out ''summary'' \<noteq> [] then str_at out ''summary''
      else if str_at out ''stopped_reason'' \<noteq> [] then zh_loop_reason @ str_at out ''stopped_reason''
      else zh_loop_stopped)"

section \<open>Code plans\<close>

definition code_step_requires_approval :: "string \<Rightarrow> bool" where
  "code_step_requires_approval t \<longleftrightarrow>
     t \<in> {''code.apply_patch'', ''git.add'', ''git.commit'', ''git.restore'', ''git.clean''}"

definition code_step :: "string \<Rightarrow> string \<Rightarrow> nmap \<Rightarrow> code_plan_step" where
  "code_step t purpose input = \<lparr>cs_tool = t, cs_purpose = purpose, cs_input = input, cs_requires = False\<rparr>"

definition new_code_plan :: "string \<Rightarrow> string \<Rightarrow> string \<Rightarrow> code_plan_step list \<Rightarrow> code_plan" where
  "new_code_plan kind ws goal steps =
     (let out = map (\<lambda>s. \<lparr>cs_tool = cs_tool s, cs_purpose = (if cs_purpose s = [] then cs_tool s else cs_purpose s),
                         cs_input = Some (clone_map (cs_input s)), cs_requires = code_step_requires_approval (cs_tool s)\<rparr>) steps
      in \<lparr>cp_kind = kind, cp_workspace = ws, cp_goal = trim_space goal, cp_steps = out,
          cp_requires = list_ex cs_requires out, cp_max_iterations = 0, cp_iteration = 0\<rparr>)"

definition code_inspect_plan :: "string \<Rightarrow> string \<Rightarrow> code_plan" where
  "code_inspect_plan ws goal =
     new_code_plan ''inspect'' ws goal
       [code_step ''code.inspect_project'' zh_cp_config (Some [(''path'', GStr ws)]),
        code_step ''code.search_text'' zh_cp_search None, code_step ''code.read_file'' zh_cp_read None]"

definition code_test_plan :: "string \<Rightarrow> string \<Rightarrow> code_plan" where
  "code_test_plan ws goal =
     new_code_plan ''test'' ws goal
       [code_step ''code.inspect_project'' zh_cp_structure None,
        code_step ''code.run_tests'' zh_cp_allowed (Some [(''workspace'', GStr ws), (''use_detected'', GBool True)]),
        code_step ''code.parse_test_failure'' zh_cp_parse None]"

definition code_fix_plan :: "string \<Rightarrow> string \<Rightarrow> code_plan" where
  "code_fix_plan ws goal =
     (new_code_plan ''fix'' ws goal
       [code_step ''code.fix_test_failure_loop'' zh_cp_fix
          (Some [(''workspace'', GStr ws), (''max_iterations'', GInt 3), (''stop_on_approval'', GBool True)]),
        code_step ''code.propose_patch'' zh_cp_propose None, code_step ''code.apply_patch'' zh_cp_apply None,
        code_step ''code.run_tests'' zh_rerun (Some [(''workspace'', GStr ws), (''use_detected'', GBool True)]),
        code_step ''code.parse_test_failure'' zh_cp_next None])
     \<lparr>cp_max_iterations := 3, cp_iteration := 1\<rparr>"

definition code_plan_for :: "tool_proposal \<Rightarrow> string \<Rightarrow> code_plan option" where
  "code_plan_for p goal =
     (let ws = workspace_from_proposal p; t = tp_tool p; own = code_step t (tp_purpose p) (tp_input p) in
      if t = ''code.search_text'' then Some (new_code_plan ''search'' ws goal [own])
      else if t = ''code.read_file'' then Some (new_code_plan ''inspect'' ws goal [own])
      else if t = ''code.inspect_project'' then Some (code_inspect_plan ws goal)
      else if t = ''code.run_tests'' then
        Some (new_code_plan ''test'' ws goal
          [code_step ''code.inspect_project'' zh_cp_detect (Some [(''path'', GStr ws)]), own,
           code_step ''code.parse_test_failure'' zh_cp_if_failed None])
      else if t = ''code.fix_test_failure_loop'' then Some (code_fix_plan ws goal)
      else if t \<in> {''git.status'', ''git.diff'', ''git.diff_summary'', ''git.commit_message_proposal'', ''git.log''}
      then Some (new_code_plan ''git'' ws goal [own])
      else None)"

section \<open>Runbook steps\<close>

text \<open>A plan is either the structure that \<open>runbook.plan\<close> returned or the map it becomes when the run was stored.\<close>

definition runbook_step_val :: "runbook_step \<Rightarrow> gval" where
  "runbook_step_val s =
     GStruct ([(''index'', GInt (bs_index s)), (''text'', GStr (bs_text s))] @ omit_str ''tool'' (bs_tool s) @
       omit_map ''input'' (bs_input s) @ [(''requires_approval'', GBool (bs_requires s))] @ omit_str ''reason'' (bs_reason s))"

definition runbook_plan_val :: "runbook_plan \<Rightarrow> gval" where
  "runbook_plan_val p =
     GStruct ([(''runbook_id'', GStr (bp_runbook p)), (''title'', GStr (bp_title p))] @ omit_str ''host_id'' (bp_host p) @
       [(''dry_run'', GBool (bp_dry p)), (''steps'', GList (map runbook_step_val (bp_steps p)))])"

text \<open>The tool, the input and the text of the first element of \<open>steps\<close> that names a tool.\<close>

fun first_tool_step :: "bool \<Rightarrow> gval list \<Rightarrow> (string \<times> nmap \<times> string) option" where
  "first_tool_step struct [] = None"
| "first_tool_step struct (v # vs) =
     (let entry = (case v of GStruct kvs \<Rightarrow> if struct then Some kvs else None
                            | GMap kvs \<Rightarrow> if struct then None else Some kvs | _ \<Rightarrow> None)
      in case entry of
           None \<Rightarrow> first_tool_step struct vs
         | Some kvs \<Rightarrow>
             if str_at kvs ''tool'' = [] then first_tool_step struct vs
             else
               (let input = (case map_of kvs ''input'' of Some (GMap m) \<Rightarrow> Some m | _ \<Rightarrow> None)
                in Some (str_at kvs ''tool'', if struct then input else Some (clone_map input), str_at kvs ''text'')))"

definition first_executable_step :: "tool_result \<Rightarrow> (string \<times> nmap \<times> string) option" where
  "first_executable_step r =
     (let steps = (\<lambda>kvs. case map_of kvs ''steps'' of Some (GList vs) \<Rightarrow> vs | _ \<Rightarrow> []) in
      case map_of (nm (tr_output r)) ''plan'' of
        Some (GStruct kvs) \<Rightarrow> first_tool_step True (steps kvs)
      | Some (GMap kvs) \<Rightarrow> first_tool_step False (steps kvs)
      | _ \<Rightarrow> None)"

section \<open>What follows a tool\<close>

definition no_plan :: plan where
  "no_plan = \<lparr>pl_decision = [], pl_answer_mode = [], pl_route = [], pl_route_source = [], pl_preamble = [], pl_message = [],
     pl_proposal = None, pl_code_plan = None, pl_reason = [], pl_source = [], pl_candidates = 0\<rparr>"

definition stop_plan :: "string \<Rightarrow> string \<Rightarrow> plan" where
  "stop_plan msg reason = no_plan\<lparr>pl_decision := ''stop'', pl_message := msg, pl_reason := reason\<rparr>"

definition tool_plan :: "tool_proposal \<Rightarrow> string \<Rightarrow> string \<Rightarrow> plan" where
  "tool_plan p preamble reason =
     no_plan\<lparr>pl_decision := ''tool'', pl_preamble := preamble, pl_proposal := Some p, pl_reason := reason\<rparr>"

definition proposal_of :: "string \<Rightarrow> gmap \<Rightarrow> string \<Rightarrow> string list \<Rightarrow> id_source \<Rightarrow> tool_proposal" where
  "proposal_of t input purpose effects src = fst (new_proposal t (Some input) purpose effects src)"

definition value_at :: "gmap \<Rightarrow> string \<Rightarrow> gval" where
  "value_at m k = (case map_of m k of None \<Rightarrow> GNil | Some v \<Rightarrow> v)"

definition run_tests_input :: "string \<Rightarrow> gmap" where
  "run_tests_input ws =
     [(''workspace'', GStr ws), (''use_detected'', GBool True), (''timeout_seconds'', GInt 300), (''max_output_bytes'', GInt 200000)]"

definition test_effects :: "string list" where
  "test_effects = [''code.test'', ''process.read'', ''fs.read'']"

definition after_runbook :: "id_source \<Rightarrow> string \<Rightarrow> tool_result \<Rightarrow> plan" where
  "after_runbook src msg r =
     (if \<not> wants_runbook (to_lower (trim_space msg)) then
        stop_plan (summarize_tool_result (Some r)) ''runbook plan requested without execution intent''
      else case first_executable_step r of
        None \<Rightarrow> stop_plan zh_runbook_no_step ''runbook plan has no executable step''
      | Some (t, input, txt) \<Rightarrow>
          tool_plan (fst (new_proposal t input (zh_run_step @ txt) [] src)) zh_runbook_next ''execute first runbook step through workflow'')"

definition after_tests :: "id_source \<Rightarrow> string \<Rightarrow> string \<Rightarrow> gmap \<Rightarrow> plan" where
  "after_tests src ws msg out =
     (if bool_at out ''passed'' then stop_plan zh_tests_pass ''code tests passed''
      else
        (tool_plan
          (proposal_of ''code.parse_test_failure''
            [(''workspace'', GStr ws), (''command'', GStr (fmt_string out ''command'')), (''stdout'', GStr (fmt_string out ''stdout'')),
             (''stderr'', GStr (fmt_string out ''stderr'')), (''exit_code'', value_at out ''exit_code'')]
            zh_parse_output [''code.read''] src)
          zh_tests_fail ''parse failed test output'')
        \<lparr>pl_code_plan := Some (code_test_plan ws msg)\<rparr>)"

definition after_read_file :: "id_source \<Rightarrow> string \<Rightarrow> string \<Rightarrow> gmap \<Rightarrow> plan option" where
  "after_read_file src ws msg out =
     (let n = to_lower (trim_space msg); diff = [(''diff'', value_at out ''content'')];
          plan = (\<lambda>t purpose step_purpose p. new_code_plan ''patch'' ws msg
            [code_step ''code.read_file'' zh_read_patch None, code_step t step_purpose (tp_input p)])
      in
      if wants_patch_validate n then
        (let p = proposal_of ''code.validate_patch'' diff zh_check_patch [''code.plan''] src in
         Some ((tool_plan p zh_patch_read ''validate patch after reading patch file'')
           \<lparr>pl_code_plan := Some (plan ''code.validate_patch'' zh_check_patch zh_check_content p)\<rparr>))
      else if wants_patch_apply n then
        (let p = proposal_of ''code.apply_patch'' diff zh_apply_content [''fs.write'', ''code.modify''] src in
         Some ((tool_plan p zh_ask_apply ''apply patch after reading patch file'')
           \<lparr>pl_code_plan := Some (plan ''code.apply_patch'' zh_apply_content zh_apply_approved p)\<rparr>))
      else None)"

text \<open>\<open>planAfterTool\<close>: None when the planner has nothing to add.\<close>

definition plan_after_tool :: "id_source \<Rightarrow> plan_input \<Rightarrow> plan option" where
  "plan_after_tool src i =
     (case (pi_proposal i, pi_result i) of
        (Some last_p, Some r) \<Rightarrow>
          (let msg = pi_message i; ws = message_workspace msg; t = tp_tool last_p; out = nm (tr_output r) in
           if t = ''runbook.plan'' then Some (after_runbook src msg r)
           else if t = ''code.run_tests'' then Some (after_tests src ws msg out)
           else if t = ''code.fix_test_failure_loop'' then
             Some ((if bool_at out ''final_passed'' then stop_plan zh_no_patch ''fix loop tests passed''
                    else stop_plan (summarize_fix_loop r) ''fix loop waiting for patch proposal'')
                   \<lparr>pl_code_plan := Some (code_fix_plan ws msg)\<rparr>)
           else if t = ''code.parse_test_failure'' then
             Some ((stop_plan (summarize_parsed r) ''parsed test failure'')\<lparr>pl_code_plan := Some (code_test_plan ws msg)\<rparr>)
           else if t = ''code.read_file'' then after_read_file src ws msg out
           else if t = ''code.inspect_project'' then
             (if wants_run_tests (to_lower (trim_space msg)) then
                Some ((tool_plan (proposal_of ''code.run_tests'' (run_tests_input ws) zh_run_tests test_effects src)
                         zh_inspected ''continue from project inspection to tests'')
                      \<lparr>pl_code_plan := Some (code_test_plan ws msg)\<rparr>)
              else None)
           else if t = ''code.apply_patch'' then
             (if ws \<noteq> ''.'' \<or> wants_run_tests (to_lower (trim_space msg)) then
                Some ((tool_plan (proposal_of ''code.run_tests'' (run_tests_input ws) zh_rerun test_effects src)
                         zh_applied ''rerun tests after approved patch application'')
                      \<lparr>pl_code_plan := Some (code_fix_plan ws msg)\<rparr>)
              else None)
           else None)
      | _ \<Rightarrow> None)"

section \<open>The planners of the runtime\<close>

text \<open>The agent's \<open>HybridPlanner\<close>: its catalog (empty when none was built), the cards that the catalog is then built from,
  and the decoders of the model's replies.\<close>

record agent_planner =
  ag_registry :: "registry option"
  ag_cards :: "tool_card list"
  ag_catalog :: catalog
  ag_semantic :: llm_planner
  ag_mode :: string
  ag_config :: planner_config
  ag_sensitive :: "string list"
  ag_plans :: plan_decoder
  ag_routes :: route_decoder

definition new_agent_planner ::
  "registry option \<Rightarrow> tool_card list \<Rightarrow> chat_model option \<Rightarrow> planner_config \<Rightarrow> string list \<Rightarrow> plan_decoder \<Rightarrow> route_decoder \<Rightarrow> agent_planner" where
  "new_agent_planner reg cards model cfg sensitive plans routes =
     \<lparr>ag_registry = reg, ag_cards = cards, ag_catalog = new_catalog reg cards, ag_semantic = new_llm_planner model cfg,
      ag_mode = pg_mode cfg, ag_config = normalize_config cfg, ag_sensitive = sensitive, ag_plans = plans, ag_routes = routes\<rparr>"

definition planner_engine :: "agent_planner \<Rightarrow> hybrid" where
  "planner_engine a =
     \<lparr>hp_semantic = ag_semantic a,
      hp_catalog = (if catalog_all (ag_catalog a) = [] then new_catalog (ag_registry a) (ag_cards a) else ag_catalog a),
      hp_sensitive = ag_sensitive a, hp_router = None,
      hp_mode = (let m = ag_mode a; m = (if m = [] then pg_mode (ag_config a) else m) in if m = [] then ''hybrid'' else m),
      hp_config = ag_config a, hp_plans = ag_plans a, hp_routes = ag_routes a\<rparr>"

definition preamble_for_proposal :: "tool_proposal option \<Rightarrow> string \<Rightarrow> string" where
  "preamble_for_proposal p fallback =
     (case p of
        None \<Rightarrow> fallback
      | Some x \<Rightarrow>
          if tp_tool x = ''memory.extract_candidates'' \<and> \<not> bool_at (nm (tp_input x)) ''queue'' then zh_memory_secret else fallback)"

definition to_plan :: "compiled \<Rightarrow> string \<Rightarrow> plan" where
  "to_plan c msg =
     (if co_decision c = ''tool'' then
        \<lparr>pl_decision = ''tool'', pl_answer_mode = [], pl_route = co_route c, pl_route_source = co_route_source c,
         pl_preamble = preamble_for_proposal (co_proposal c) (co_preamble c), pl_message = [],
         pl_proposal = map_option clone_proposal (co_proposal c),
         pl_code_plan = (case co_proposal c of None \<Rightarrow> None | Some p \<Rightarrow> code_plan_for p msg),
         pl_reason = co_reason c, pl_source = co_source c, pl_candidates = co_candidates c\<rparr>
      else
        \<lparr>pl_decision = ''answer'', pl_answer_mode = co_mode c, pl_route = co_route c, pl_route_source = co_route_source c,
         pl_preamble = [], pl_message = co_message c, pl_proposal = None, pl_code_plan = None, pl_reason = co_reason c,
         pl_source = co_source c, pl_candidates = co_candidates c\<rparr>)"

definition agent_plan :: "agent_planner \<Rightarrow> id_source \<Rightarrow> plan_input \<Rightarrow> plan res chat" where
  "agent_plan a src i =
     (case pi_result i of
        Some r \<Rightarrow>
          State_Monad.return (Inr (case plan_after_tool src i of
            Some p \<Rightarrow> p
          | None \<Rightarrow> stop_plan (summarize_tool_result (Some r)) ''hybrid planner stops after one tool result''))
      | None \<Rightarrow>
          do {
            c \<leftarrow> hybrid_plan (planner_engine a) src (pi_conv i) (pi_message i);
            State_Monad.return (case c of Inl e \<Rightarrow> Inl e | Inr x \<Rightarrow> Inr (to_plan x (pi_message i)))
          })"

definition router_zero :: router_config where
  "router_zero = \<lparr>rc_enabled = False, rc_mode = [], rc_fallback = [], rc_retries = 0, rc_json = False\<rparr>"

definition config_zero :: planner_config where
  "config_zero = \<lparr>pg_mode = [], pg_semantic = False, pg_shadow = False, pg_retries = 0, pg_schema = False, pg_router = router_zero,
     pg_gate = False, pg_gate_mode = [], pg_require_llm = False, pg_fast = False, pg_fallback = False, pg_context = False,
     pg_cross = False, pg_shell = False, pg_show_source = False, pg_show_route = False\<rparr>"

text \<open>\<open>HeuristicPlanner\<close> plans a message with an agent planner that has nothing but an adapter.\<close>

definition bare_planner :: "tool_card list \<Rightarrow> agent_planner" where
  "bare_planner cards =
     \<lparr>ag_registry = None, ag_cards = cards, ag_catalog = \<lparr>ca_tools = [], ca_warnings = []\<rparr>,
      ag_semantic = \<lparr>lp_model = None, lp_config = config_zero\<rparr>, ag_mode = [], ag_config = config_zero, ag_sensitive = [],
      ag_plans = (\<lambda>_. Inl (Err [])), ag_routes = (\<lambda>_. Inl (Err []))\<rparr>"

definition heuristic_plan :: "tool_card list \<Rightarrow> id_source \<Rightarrow> plan_input \<Rightarrow> plan res chat" where
  "heuristic_plan cards src i =
     (case pi_result i of
        Some r \<Rightarrow>
          State_Monad.return (Inr (case plan_after_tool src i of
            Some p \<Rightarrow> p
          | None \<Rightarrow> stop_plan (summarize_tool_result (Some r)) ''heuristic planner stops after one tool result''))
      | None \<Rightarrow> agent_plan (bare_planner cards) src i)"

section \<open>Chains of tools\<close>

definition follow_tools :: "string list" where
  "follow_tools = [''code.run_tests'', ''code.parse_test_failure'', ''code.validate_patch'', ''code.apply_patch'']"

text \<open>How many more tools can follow a tool at most.\<close>

definition tool_rank :: "string \<Rightarrow> nat" where
  "tool_rank t =
     (if t = ''runbook.plan'' then 4 else if t = ''code.read_file'' then 3
      else if t = ''code.apply_patch'' \<or> t = ''code.inspect_project'' then 2
      else if t = ''code.run_tests'' then 1 else 0)"

lemma follow_ranks:
  "tool_rank ''code.run_tests'' = 1" "tool_rank ''code.parse_test_failure'' = 0" "tool_rank ''code.validate_patch'' = 0"
  "tool_rank ''code.apply_patch'' = 2" "tool_rank ''code.read_file'' = 3" "tool_rank ''code.inspect_project'' = 2"
  "tool_rank ''runbook.plan'' = 4"
  by (simp_all add: tool_rank_def)

lemma tool_rank_le: "tool_rank t \<le> 4" "t \<noteq> ''runbook.plan'' \<Longrightarrow> tool_rank t < 4"
  by (simp_all add: tool_rank_def)

lemma no_tool_plans [simp]: "pl_proposal (stop_plan m r) = None" "pl_decision (stop_plan m r) = ''stop''"
  "pl_proposal (tool_plan p u r) = Some p" "pl_decision (tool_plan p u r) = ''tool''"
  by (simp_all add: stop_plan_def tool_plan_def no_plan_def)

lemma proposal_of_tool [simp]: "tp_tool (proposal_of t m u e s) = t"
  by (simp add: proposal_of_def new_proposal_fields)

definition next_runbook_tool :: "tool_result \<Rightarrow> string option" where
  "next_runbook_tool r = map_option fst (first_executable_step r)"

definition may_follow :: "string \<Rightarrow> tool_result \<Rightarrow> string \<Rightarrow> bool" where
  "may_follow l r t \<longleftrightarrow>
     (if l = ''runbook.plan'' then next_runbook_tool r = Some t else t \<in> set follow_tools \<and> tool_rank t < tool_rank l)"

text \<open>What the planner proposes after a tool: a step of a runbook plan, or one of four tools further down the chain.\<close>

lemma plan_after_tool_next:
  assumes "plan_after_tool src i = Some p"
  shows "pl_decision p = ''stop'' \<and> pl_proposal p = None \<or>
    pl_decision p = ''tool'' \<and>
    (\<exists>q l r. pl_proposal p = Some q \<and> pi_proposal i = Some l \<and> pi_result i = Some r \<and> may_follow (tp_tool l) r (tp_tool q))"
proof -
  from assms obtain l r where i: "pi_proposal i = Some l" "pi_result i = Some r"
    by (auto simp: plan_after_tool_def split: option.splits)
  let ?t = "tp_tool l"
  consider "?t = ''runbook.plan''" | "?t = ''code.run_tests''" | "?t = ''code.fix_test_failure_loop''" | "?t = ''code.parse_test_failure''"
    | "?t = ''code.read_file''" | "?t = ''code.inspect_project''" | "?t = ''code.apply_patch''"
    using assms i by (auto simp: plan_after_tool_def Let_def split: if_splits)
  then show ?thesis
  proof cases
    case 1
    with assms i have "p = after_runbook src (pi_message i) r" by (simp add: plan_after_tool_def Let_def)
    then show ?thesis
      using 1 i by (auto simp: after_runbook_def may_follow_def next_runbook_tool_def new_proposal_fields split: option.splits)
  next
    case 2
    with assms i have "p = after_tests src (message_workspace (pi_message i)) (pi_message i) (nm (tr_output r))"
      by (simp add: plan_after_tool_def Let_def)
    then show ?thesis using 2 i by (simp add: after_tests_def may_follow_def follow_ranks follow_tools_def)
  next
    case 3
    with assms i show ?thesis by (auto simp: plan_after_tool_def Let_def split: if_splits)
  next
    case 4
    with assms i show ?thesis by (auto simp: plan_after_tool_def Let_def)
  next
    case 5
    with assms i have "after_read_file src (message_workspace (pi_message i)) (pi_message i) (nm (tr_output r)) = Some p"
      by (simp add: plan_after_tool_def Let_def)
    then show ?thesis
      using 5 i by (auto simp: after_read_file_def may_follow_def follow_ranks follow_tools_def Let_def split: if_splits)
  next
    case 6
    with assms i show ?thesis
      by (auto simp: plan_after_tool_def may_follow_def follow_ranks follow_tools_def Let_def split: if_splits)
  next
    case 7
    with assms i show ?thesis
      by (auto simp: plan_after_tool_def may_follow_def follow_ranks follow_tools_def Let_def split: if_splits)
  qed
qed

text \<open>What a plan of the agent's planner can be.\<close>

lemma agent_plan_next:
  assumes "fst (run_state (agent_plan a src i) sent) = Inr p"
  shows "pl_decision p \<in> {''stop'', ''answer''} \<and> pl_proposal p = None \<or>
    pl_decision p = ''tool'' \<and>
    (\<exists>q. pl_proposal p = Some q \<and>
       (case pi_result i of
          None \<Rightarrow> catalog_tool (hp_catalog (planner_engine a)) (tp_tool q) \<noteq> None
        | Some r \<Rightarrow> \<exists>l. pi_proposal i = Some l \<and> may_follow (tp_tool l) r (tp_tool q))) \<or>
    pl_decision p = ''tool'' \<and> pl_proposal p = None"
proof (cases "pi_result i")
  case (Some r)
  show ?thesis
  proof (cases "plan_after_tool src i")
    case None
    with assms Some have "p = stop_plan (summarize_tool_result (Some r)) ''hybrid planner stops after one tool result''"
      by (simp add: agent_plan_def)
    then show ?thesis by simp
  next
    case (Some p')
    with assms \<open>pi_result i = Some r\<close> have "p = p'" by (simp add: agent_plan_def)
    with plan_after_tool_next [OF Some] \<open>pi_result i = Some r\<close> show ?thesis by auto
  qed
next
  case None
  obtain x sent' where x: "run_state (hybrid_plan (planner_engine a) src (pi_conv i) (pi_message i)) sent = (x, sent')" by fastforce
  with assms None obtain c where c: "x = Inr c" "p = to_plan c (pi_message i)"
    by (cases x) (auto simp: agent_plan_def)
  show ?thesis
  proof (cases "co_proposal c")
    case None
    then show ?thesis by (auto simp: c(2) to_plan_def)
  next
    case (Some q)
    with x c(1) have "catalog_tool (hp_catalog (planner_engine a)) (tp_tool q) \<noteq> None"
      by (intro planned_tool_in_catalog [of _ src "pi_conv i" "pi_message i" sent c]) simp_all
    then show ?thesis
      using Some \<open>pi_result i = None\<close> by (auto simp: c(2) to_plan_def clone_proposal_def)
  qed
qed

end
