(* ===== verification/Run_Handlers.thy ===== *)
theory Run_Handlers
  imports Runtime
begin

text \<open>
  The entry points of \<open>internal/agent/runtime.go\<close>: starting a run, resuming it with the user's answer,
  cancelling it, and the event streams of \<open>internal/einoapp/workflow.go\<close> that carry its events.
\<close>

section \<open>Running a message\<close>

definition set_cur :: "run_state_rec \<Rightarrow> (run_world, unit) state" where
  "set_cur s = modify (\<lambda>w. w\<lparr>rw_cur := s\<rparr>)"

definition continue_run ::
  "runtime \<Rightarrow> run_response \<Rightarrow> tool_result option \<Rightarrow> (run_world, run_response res) state" where
  "continue_run rt resp prev = State (continue_workflow rt resp prev)"

definition initial_state :: "runtime \<Rightarrow> string \<Rightarrow> string \<Rightarrow> string \<Rightarrow> time \<Rightarrow> run_state_rec" where
  "initial_state rt run conv content t =
     \<lparr>rs_id = run, rs_conv = conv, rs_status = Received, rs_step = step_type_name BuildContext,
      rs_index = 0, rs_count = 0, rs_max = max_workflow_steps rt, rs_message = content, rs_context = [],
      rs_plan = None, rs_proposal = None, rs_inference = None, rs_policy = None, rs_approval = [],
      rs_result = None, rs_error = [], rs_created = t, rs_updated = t\<rparr>"

definition call_context :: "runtime \<Rightarrow> string \<Rightarrow> string \<Rightarrow> (run_world, chat_message list res) state" where
  "call_context rt conv content =
     State (\<lambda>w. (rn_context rt (rw_contexts w) conv content, w\<lparr>rw_contexts := Suc (rw_contexts w)\<rparr>))"

definition touch_conversation :: "runtime \<Rightarrow> string \<Rightarrow> (run_world, unit) state" where
  "touch_conversation rt conv =
     (if rn_conversations rt \<and> conv \<noteq> []
      then do { _ \<leftarrow> db_write rt (\<lambda>w. w\<lparr>rw_touched := rw_touched w @ [conv]\<rparr>); State_Monad.return () }
      else State_Monad.return ())"

definition user_message :: "runtime \<Rightarrow> string \<Rightarrow> string \<Rightarrow> (run_world, unit res) state" where
  "user_message rt conv content =
     do {
       x \<leftarrow> fresh_id ''msg'';
       t \<leftarrow> tick;
       create_message rt \<lparr>ms_id = x, ms_conv = conv, ms_role = ''user'', ms_content = redact_string content,
         ms_created = t\<rparr>
     }"

definition build_context :: "runtime \<Rightarrow> string \<Rightarrow> string \<Rightarrow> (run_world, unit res) state" where
  "build_context rt conv content =
     do {
       built \<leftarrow> call_context rt conv content;
       or_fail rt built (\<lambda>messages.
         do {
           update_cur (\<lambda>s. s\<lparr>rs_context := messages\<rparr>);
           recorded \<leftarrow> record_step rt BuildContext StepCompleted (\<lambda>s. s\<lparr>st_summary := ''context built''\<rparr>);
           or_fail rt recorded (\<lambda>step.
             do { transition rt ContextBuilt step []; State_Monad.return (Inr ()) })
         })
     }"

definition begin_run :: "runtime \<Rightarrow> string \<Rightarrow> string \<Rightarrow> (run_world, unit res) state" where
  "begin_run rt conv content =
     do {
       saved \<leftarrow> save_current rt;
       or_return saved (\<lambda>_.
         do {
           s \<leftarrow> cur;
           emit_with_run_log rt ((run_event ''run.started'' (rs_id s) conv)\<lparr>ev_created := rs_created s\<rparr>) True;
           stored \<leftarrow> user_message rt conv content;
           or_return stored (\<lambda>_.
             do { touch_conversation rt conv; build_context rt conv content })
         })
     }"

definition run_message :: "runtime \<Rightarrow> string \<Rightarrow> string \<Rightarrow> (run_world, run_response res) state" where
  "run_message rt conv content =
     do {
       run \<leftarrow> fresh_id ''run'';
       t \<leftarrow> tick;
       set_cur (initial_state rt run conv content t);
       begun \<leftarrow> begin_run rt conv content;
       or_return begun (\<lambda>_. continue_run rt (response0 run) None)
     }"

section \<open>Resuming\<close>

definition hydrate_op :: "approval_record \<Rightarrow> id_source \<times> approvals \<Rightarrow> unit res \<times> id_source \<times> approvals" where
  "hydrate_op a c = (let (u, as) = approval_hydrate a (snd c) in (u, fst c, as))"

definition step_has_approval :: "string \<Rightarrow> run_step \<Rightarrow> bool" where
  "step_has_approval aid s = (case st_approval s of None \<Rightarrow> False | Some a \<Rightarrow> ap_id a = aid)"

definition hydrate_approval :: "runtime \<Rightarrow> string \<Rightarrow> string \<Rightarrow> (run_world, approval_record res) state" where
  "hydrate_approval rt run aid =
     do {
       got \<leftarrow> world_of (\<lambda>w. approval_get aid (tw_approvals w));
       (case got of
          Inr a \<Rightarrow> State_Monad.return (Inr a)
        | Inl e \<Rightarrow>
            if e \<noteq> ErrApprovalNotFound then State_Monad.return (Inl e)
            else
              do {
                listed \<leftarrow> db_read rt (\<lambda>w. Inr (store_list_steps run (rw_store w)));
                or_return listed (\<lambda>steps.
                  case List.find (step_has_approval aid) (rev steps) of
                    None \<Rightarrow> State_Monad.return (Inl (Err (''approval '' @ aid @
                      '' exists in neither approval store nor durable run state'')))
                  | Some s \<Rightarrow>
                      do {
                        restored \<leftarrow> center_op (hydrate_op (the (st_approval s)));
                        or_return restored (\<lambda>_. world_of (\<lambda>w. approval_get aid (tw_approvals w)))
                      })
              })
     }"

definition resume_reject :: "runtime \<Rightarrow> string \<Rightarrow> (run_world, run_response res) state" where
  "resume_reject rt aid =
     do {
       s \<leftarrow> cur;
       rejected \<leftarrow> center_op (approval_reject aid ''rejected from workflow'');
       or_fail rt rejected (\<lambda>a.
         do {
           r1 \<leftarrow> record_step rt RequestApproval StepCancelled
             (\<lambda>s. s\<lparr>st_approval := Some (clone_approval a), st_summary := ''approval rejected''\<rparr>);
           or_fail rt r1 (\<lambda>reject_step.
             do {
               transition rt RunRejected reject_step [(''approval_id'', GStr aid)];
               emit_now rt ((step_event ''approval.rejected'' (rs_id s) (rs_conv s) reject_step)
                 \<lparr>ev_approval := aid\<rparr>) True;
               r2 \<leftarrow> record_step rt Summarize StepCompleted (\<lambda>s. s\<lparr>st_summary := zh_rejected\<rparr>);
               or_fail rt r2 (\<lambda>summary_step.
                 do {
                   transition rt AssistantSummarize summary_step [];
                   persisted \<leftarrow> persist_assistant rt (rs_conv s) zh_rejected 0 (rs_id s);
                   or_fail rt persisted (\<lambda>m.
                     do {
                       r3 \<leftarrow> record_step rt Finalize StepCompleted
                         (\<lambda>s. s\<lparr>st_summary := ''run completed after rejection''\<rparr>);
                       or_fail rt r3 (\<lambda>final_step.
                         do {
                           transition rt RunRejected final_step [];
                           s' \<leftarrow> cur;
                           emit_now rt ((step_event ''run.completed'' (rs_id s') (rs_conv s') final_step)
                             \<lparr>ev_payload := Some [(''status'', GStr (status_name RunRejected))]\<rparr>) True;
                           State_Monad.return (Inr ((response0 (rs_id s'))
                             \<lparr>re_approval := Some a, re_message := Some m,
                              re_state := Some (clone_run_state s')\<rparr>))
                         })
                     })
                 })
             })
         })
     }"

definition executed_approved ::
  "runtime \<Rightarrow> string \<Rightarrow> approval_record \<Rightarrow> approval_record \<Rightarrow> tool_result option
     \<Rightarrow> (run_world, unit res) state" where
  "executed_approved rt aid a approved_record res =
     do {
       update_cur (\<lambda>s. s\<lparr>rs_result := res\<rparr>);
       recorded \<leftarrow> record_step rt ExecuteTool StepCompleted
         (\<lambda>s. s\<lparr>st_proposal := Some (ap_proposal a), st_approval := Some (clone_approval approved_record),
              st_result := res, st_summary := ''approved snapshot executed''\<rparr>);
       or_fail rt recorded (\<lambda>step.
         do {
           transition rt ToolCompleted step [];
           emit_tool_output rt aid step res;
           update_cur (\<lambda>s. s\<lparr>rs_approval := []\<rparr>);
           save_current rt
         })
     }"

definition approved_failed ::
  "runtime \<Rightarrow> approval_record \<Rightarrow> approval_record \<Rightarrow> go_error \<Rightarrow> (run_world, run_response res) state" where
  "approved_failed rt a approved_record err =
     do {
       update_cur (\<lambda>s. s\<lparr>rs_error := error_text err\<rparr>);
       recorded \<leftarrow> record_step rt ExecuteTool StepFailed
         (\<lambda>s. s\<lparr>st_proposal := Some (ap_proposal a), st_approval := Some (clone_approval approved_record),
              st_error := error_text err\<rparr>);
       (case recorded of
          Inl _ \<Rightarrow> State_Monad.return ()
        | Inr step \<Rightarrow> transition rt ToolFailed step [(''error'', GStr (error_text err))]);
       fail_run rt err;
       State_Monad.return (Inl err)
     }"

definition record_approved ::
  "runtime \<Rightarrow> string \<Rightarrow> approval_record \<Rightarrow> approval_record \<Rightarrow> (run_world, unit res) state" where
  "record_approved rt aid a approved_record =
     do {
       s \<leftarrow> cur;
       recorded \<leftarrow> record_step rt RequestApproval StepCompleted
         (\<lambda>s. s\<lparr>st_approval := Some (clone_approval approved_record), st_summary := ''approval approved''\<rparr>);
       or_fail rt recorded (\<lambda>step.
         do {
           transition rt RunApproved step [(''approval_id'', GStr aid)];
           emit_now rt ((step_event ''approval.approved'' (rs_id s) (rs_conv s) step)\<lparr>ev_approval := aid\<rparr>) True;
           transition rt ToolExecuting step
             [(''approval_id'', GStr aid), (''tool'', GStr (tp_tool (ap_proposal a))),
              (''tool_call_id'', GStr (tp_id (ap_proposal a)))];
           State_Monad.return (Inr ())
         })
     }"

definition resume_approve :: "runtime \<Rightarrow> string \<Rightarrow> approval_record \<Rightarrow> (run_world, run_response res) state" where
  "resume_approve rt aid a =
     do {
       approved \<leftarrow> center_op (approval_approve aid);
       or_fail rt approved (\<lambda>approved_record.
         do {
           recorded \<leftarrow> record_approved rt aid a approved_record;
           or_return recorded (\<lambda>_.
             do {
               (res, err) \<leftarrow> execute_approved (rn_router rt) aid;
               (case err of
                  Some e \<Rightarrow> approved_failed rt a approved_record e
                | None \<Rightarrow>
                    do {
                      done \<leftarrow> executed_approved rt aid a approved_record res;
                      or_return done (\<lambda>_.
                        do { s \<leftarrow> cur; continue_run rt (response0 (rs_id s)) res })
                    })
             })
         })
     }"

definition terminal :: "run_status \<Rightarrow> bool" where
  "terminal st = (st = Completed \<or> st = Failed \<or> st = Cancelled)"

definition already_terminal :: "string \<Rightarrow> run_status \<Rightarrow> go_error" where
  "already_terminal run st = Err (''run '' @ run @ '' is already terminal ('' @ status_name st @ '')'')"

definition resume_guard :: "string \<Rightarrow> string \<Rightarrow> run_state_rec \<Rightarrow> go_error option" where
  "resume_guard run aid s =
     (if rs_approval s \<noteq> aid then Some (Err (''approval '' @ aid @ '' does not belong to run '' @ run))
      else if terminal (rs_status s) then Some (already_terminal run (rs_status s))
      else if rs_status s \<noteq> PausedForApproval
      then Some (Err (''run '' @ run @ '' is not paused for approval''))
      else None)"

definition resume_run :: "runtime \<Rightarrow> string \<Rightarrow> string \<Rightarrow> bool \<Rightarrow> (run_world, run_response res) state" where
  "resume_run rt run aid approved =
     (if \<not> rn_approvals rt then State_Monad.return (Inl (Err ''approval center is not configured''))
      else
        do {
          got \<leftarrow> db_read rt (\<lambda>w. store_get run (rw_store w));
          or_return got (\<lambda>s.
            case resume_guard run aid s of
              Some e \<Rightarrow> State_Monad.return (Inl e)
            | None \<Rightarrow>
                do {
                  set_cur s;
                  found \<leftarrow> hydrate_approval rt run aid;
                  or_return found (\<lambda>a.
                    if ap_run a \<noteq> run
                    then State_Monad.return (Inl (Err (''approval '' @ aid @ '' is attached to run '' @ ap_run a
                           @ '', not '' @ run)))
                    else if \<not> approved then resume_reject rt aid
                    else resume_approve rt aid a)
                })
        })"

definition resume_approval :: "runtime \<Rightarrow> string \<Rightarrow> bool \<Rightarrow> (run_world, run_response res) state" where
  "resume_approval rt aid approved =
     (if \<not> rn_approvals rt then State_Monad.return (Inl (Err ''approval center is not configured''))
      else
        do {
          got \<leftarrow> world_of (\<lambda>w. approval_get aid (tw_approvals w));
          (case got of
             Inr a \<Rightarrow> State_Monad.return (if ap_run a \<noteq> [] then Inr (Some (ap_run a)) else Inr None)
           | Inl e \<Rightarrow> State_Monad.return (if e \<noteq> ErrApprovalNotFound then Inl e else Inr None))
          \<bind> (\<lambda>attached. or_return attached (\<lambda>owner.
            case owner of
              Some run \<Rightarrow> resume_run rt run aid approved
            | None \<Rightarrow>
                do {
                  listed \<leftarrow> db_read rt (\<lambda>w. Inr (store_list_by_status [PausedForApproval] 100 (rw_store w)));
                  or_return listed (\<lambda>items.
                    case List.find (\<lambda>s. rs_approval s = aid) items of
                      Some s \<Rightarrow> resume_run rt (rs_id s) aid approved
                    | None \<Rightarrow> State_Monad.return (Inl (Err ''approval is not attached to a workflow run'')))
                }))
        })"

section \<open>Cancelling\<close>

definition reject_pending :: "runtime \<Rightarrow> string \<Rightarrow> (run_world, unit) state" where
  "reject_pending rt aid =
     (if aid \<noteq> [] \<and> rn_approvals rt
      then
        do {
          got \<leftarrow> world_of (\<lambda>w. approval_get aid (tw_approvals w));
          (case got of
             Inl _ \<Rightarrow> State_Monad.return ()
           | Inr a \<Rightarrow>
               if ap_status a = ApprovalPending
               then do { _ \<leftarrow> center_op (approval_reject aid ''run cancelled''); State_Monad.return () }
               else State_Monad.return ())
        }
      else State_Monad.return ())"

definition cancel_run :: "runtime \<Rightarrow> string \<Rightarrow> (run_world, run_state_rec res) state" where
  "cancel_run rt run =
     do {
       got \<leftarrow> db_read rt (\<lambda>w. store_get run (rw_store w));
       or_return got (\<lambda>s.
         if terminal (rs_status s) then State_Monad.return (Inl (already_terminal run (rs_status s)))
         else
           do {
             set_cur s;
             reject_pending rt (rs_approval s);
             recorded \<leftarrow> record_step rt CancelStep StepCancelled (\<lambda>s. s\<lparr>st_summary := ''run cancelled''\<rparr>);
             or_return recorded (\<lambda>step.
               do {
                 transition rt Cancelled step [];
                 s' \<leftarrow> cur;
                 emit_now rt (step_event ''run.cancelled'' (rs_id s') (rs_conv s') step) True;
                 State_Monad.return (Inr (clone_run_state s'))
               })
           })
     }"

section \<open>A configuration on which the hypotheses hold\<close>

definition runtime0 :: "plan \<Rightarrow> runtime" where
  "runtime0 p =
     \<lparr>rn_router = router0 None, rn_planner = (\<lambda>_ _. Inr p), rn_model = (\<lambda>_ _. Inr ''hello''),
      rn_context = (\<lambda>_ _ _. Inr []), rn_approvals = True, rn_messages = True, rn_conversations = True,
      rn_usage = True, rn_agent_events = True, rn_events = True, rn_sink = True, rn_max_steps = 0,
      rn_fault = (\<lambda>_. None)\<rparr>"

definition plan0 :: plan where
  "plan0 = \<lparr>pl_decision = ''answer'', pl_answer_mode = [], pl_route = [], pl_route_source = [],
     pl_preamble = [], pl_message = ''hi'', pl_proposal = None, pl_code_plan = None, pl_reason = [],
     pl_source = [], pl_candidates = 0\<rparr>"

definition run_world0 :: "approvals \<Rightarrow> run_state_rec \<Rightarrow> run_world" where
  "run_world0 as s =
     \<lparr>tw_source = source0, tw_approvals = as, tw_events = [], tw_calls = [],
      rw_store = store_save s new_run_store, rw_messages = [], rw_usage = [], rw_rollups = [], rw_touched = [],
      rw_agent_events = [], rw_sink = [], rw_writes = 0, rw_plans = 0, rw_models = 0, rw_contexts = 0,
      rw_cur = s\<rparr>"

lemma run_world0_store [simp]:
  "store_get (rs_id s) (rw_store (run_world0 as s)) = Inr (clone_run_state s)"
  using mem.get_save [of s new_run_store] by (simp add: run_world0_def)

lemma run_world0_approvals [simp]: "tw_approvals (run_world0 as s) = as"
  by (simp add: run_world0_def)

lemma clone_state0 [simp]: "clone_run_state (state0 x st) = state0 x st" "rs_id (state0 x st) = x"
  "rs_status (state0 x st) = st" "rs_approval (state0 x st) = []"
  by (simp_all add: clone_run_state_def state0_def)

text \<open>A run paused on the request \<open>a\<close>.\<close>

definition paused0 :: run_state_rec where
  "paused0 = (state0 ''run_1'' PausedForApproval)\<lparr>rs_approval := ''a''\<rparr>"

lemma paused0_sel [simp]: "clone_run_state paused0 = paused0" "rs_id paused0 = ''run_1''"
  "rs_status paused0 = PausedForApproval" "rs_approval paused0 = ''a''"
  by (simp_all add: paused0_def clone_run_state_def state0_def)

end
