(* ===== verification/Run_Safety.thy ===== *)
theory Run_Safety
  imports Run_Handlers
begin

text \<open>
  What a run can do to the outside: which executor calls the handlers make, how many, and that no
  handler but an approving resume approves anything.
\<close>

section \<open>Cost of a pass\<close>

text \<open>\<open>spends i j m\<close>: at most \<open>i\<close> planner calls and \<open>j\<close> executor calls.\<close>

definition spends :: "nat \<Rightarrow> nat \<Rightarrow> (run_world, 'a) state \<Rightarrow> bool" where
  "spends i j m \<longleftrightarrow>
     (\<forall>w. rw_plans (snd (run_state m w)) \<le> rw_plans w + i \<and>
          length (tw_calls (snd (run_state m w))) \<le> length (tw_calls w) + j)"

lemma spends_quiet: "state_io_rel quiet m \<Longrightarrow> spends i j m"
  by (simp add: spends_def state_io_rel_def quiet_def)

lemma spends_bind:
  assumes "spends i j m" "\<And>a. spends i' j' (f a)"
  shows "spends (i + i') (j + j') (State_Monad.bind m f)"
  unfolding spends_def
proof
  fix w
  let ?m = "run_state m w"
  have "rw_plans (snd ?m) \<le> rw_plans w + i" "length (tw_calls (snd ?m)) \<le> length (tw_calls w) + j"
    using assms(1) by (simp_all add: spends_def)
  moreover have "rw_plans (snd (run_state (f (fst ?m)) (snd ?m))) \<le> rw_plans (snd ?m) + i'"
    "length (tw_calls (snd (run_state (f (fst ?m)) (snd ?m)))) \<le> length (tw_calls (snd ?m)) + j'"
    using assms(2) by (simp_all add: spends_def)
  ultimately show "rw_plans (snd (run_state (State_Monad.bind m f) w)) \<le> rw_plans w + (i + i') \<and>
      length (tw_calls (snd (run_state (State_Monad.bind m f) w))) \<le> length (tw_calls w) + (j + j')"
    by (simp add: case_prod_unfold)
qed

lemma spends_mono: "spends i j m \<Longrightarrow> i \<le> i' \<Longrightarrow> j \<le> j' \<Longrightarrow> spends i' j' m"
  unfolding spends_def by (meson add_le_mono le_refl le_trans)

lemma spends_quiet_bind:
  "state_io_rel quiet m \<Longrightarrow> (\<And>a. spends i j (f a)) \<Longrightarrow> spends i j (State_Monad.bind m f)"
  using spends_bind [OF spends_quiet [of m 0 0], of i j f] by simp

lemma spends_bind_quiet:
  "spends i j m \<Longrightarrow> (\<And>a. state_io_rel quiet (f a)) \<Longrightarrow> spends i j (State_Monad.bind m f)"
  using spends_bind [of i j m 0 0 f] by (simp add: spends_quiet)

lemma spends_or_fail: "(\<And>x. spends i j (k x)) \<Longrightarrow> spends i j (or_fail rt r k)"
  by (cases r)
     (simp_all add: or_fail_def spends_quiet quiet.bind quiet.return quiet_fail_run)

lemma spends_or_return: "(\<And>x. spends i j (k x)) \<Longrightarrow> spends i j (or_return r k)"
  by (cases r) (simp_all add: or_return_def spends_quiet quiet.return)

lemma spends_propose: "spends 0 1 (propose r run conv p)"
proof -
  have "rw_plans (snd (run_state (propose r run conv p) w)) = rw_plans w" for w :: run_world
  proof -
    have "same_outside w (snd (run_state (propose r run conv p) w))"
      by (rule io_relD) (rule outside_propose)
    then have "tool_world.more (snd (run_state (propose r run conv p) w)) = tool_world.more w"
      unfolding same_outside_def by (rule conjunct1)
    then show ?thesis by (rule more_run_world(3))
  qed
  then show ?thesis
    unfolding spends_def by (simp add: propose_calls_eq)
qed

lemma spends_call_planner: "spends 1 0 (call_planner rt prev)"
  by (simp add: spends_def call_planner_def Let_def)

lemma spends_plan_pass: "spends 1 0 (plan_pass rt prev)"
  unfolding plan_pass_def
  by (intro spends_bind_quiet [OF spends_call_planner] quiet_handlers) simp_all

lemma spends_propose_step:
  "(\<And>a. spends i j (f a)) \<Longrightarrow> spends i j (State_Monad.bind (update_cur (\<lambda>s. s\<lparr>rs_proposal := q\<rparr>)) f)"
  using spends_bind [of 0 0 "update_cur (\<lambda>s. s\<lparr>rs_proposal := q\<rparr>)" i j f] by (simp add: spends_def update_cur_def)

lemma spends_tool_pass: "spends 0 1 (tool_pass rt p q resp)"
  unfolding tool_pass_def Let_def
  by (intro spends_propose_step spends_quiet_bind spends_or_fail quiet_record_step quiet_transition quiet_cur
      spends_bind_quiet [OF spends_propose] quiet_or_fail quiet_or_return quiet.rules
      quiet_record_inference quiet_record_policy quiet_pause_pass quiet_executed_pass)

lemma spends_if: "spends i j m \<Longrightarrow> spends i j n \<Longrightarrow> spends i j (if b then m else n)"
  by simp

lemma spends_loop_pass: "spends 1 1 (loop_pass rt resp prev)"
proof -
  have "spends 0 1 (or_return r (\<lambda>p.
      if pl_decision p = ''continue'' then continue_pass rt p prev resp
      else if pl_decision p = ''answer'' then answer_pass rt p resp
      else if pl_decision p = ''stop'' then stop_pass rt p prev resp
      else if pl_decision p \<noteq> ''tool'' then
        or_fail rt (Inl (Err (''unsupported plan decision '' @ quote (pl_decision p)))) State_Monad.return
      else
        (case pl_proposal p of
           None \<Rightarrow> or_fail rt (Inl (Err ''planner decided tool execution without a tool proposal''))
                     State_Monad.return
         | Some q \<Rightarrow> tool_pass rt p q resp)))" for r
    by (intro spends_or_return spends_if)
       (auto intro: spends_quiet quiet_continue_pass quiet_answer_pass quiet_stop_pass quiet_or_fail quiet.return
         spends_tool_pass [unfolded One_nat_def] split: option.split)
  from spends_bind [OF spends_plan_pass this, of rt prev] show ?thesis
    unfolding loop_pass_def by simp
qed

section \<open>The loop\<close>

lemma count_step_sel [simp]:
  "tw_calls (count_step w) = tw_calls w" "tw_approvals (count_step w) = tw_approvals w"
  "tw_events (count_step w) = tw_events w" "rw_plans (count_step w) = rw_plans w"
  "rw_store (count_step w) = rw_store w" "rs_id (rw_cur (count_step w)) = rs_id (rw_cur w)"
  "rs_count (rw_cur (count_step w)) = rs_count (rw_cur w) + 1"
  "rs_max (rw_cur (count_step w)) = rs_max (rw_cur w)"
  by (simp_all add: count_step_def)

lemma continue_workflow_cost:
  assumes "continue_workflow rt resp prev w = (r, w')"
  shows "rw_plans w' \<le> rw_plans w + (rs_max (rw_cur w) - rs_count (rw_cur w)) \<and>
    length (tw_calls w') \<le> length (tw_calls w) + (rs_max (rw_cur w) - rs_count (rw_cur w))"
  using assms
proof (induction rt resp prev w rule: continue_workflow.induct)
  case (1 rt resp prev w)
  show ?case
  proof (cases "rs_max (rw_cur w) \<le> rs_count (rw_cur w)")
    case True
    have "quiet w w'"
      using 1(2) True io_relD [OF quiet_fail_run, where w = w]
      by (auto simp: continue_workflow.simps [of rt resp prev w] Let_def)
    then show ?thesis by (simp add: quiet_def)
  next
    case False
    obtain a v where p: "run_state (loop_pass rt resp prev) (count_step w) = (a, v)"
      using surj_pair by metis
    have s: "rw_plans v \<le> rw_plans w + 1" "length (tw_calls v) \<le> length (tw_calls w) + 1"
      using spends_loop_pass [of rt resp prev] p unfolding spends_def
      by (metis count_step_sel(1,4) snd_conv)+
    show ?thesis
    proof (cases a)
      case (Inl e)
      with 1(2) False p have "w' = v"
        by (simp add: continue_workflow.simps [of rt resp prev w])
      with s False show ?thesis by arith
    next
      case (Inr x)
      show ?thesis
      proof (cases x)
        case (Done y)
        with 1(2) False p Inr have "w' = v"
          by (simp add: continue_workflow.simps [of rt resp prev w])
        with s False show ?thesis by arith
      next
        case (Again y t)
        from 1(2) False p Inr Again have c: "continue_workflow rt y t v = (r, w')"
          by (simp add: continue_workflow.simps [of rt resp prev w])
        have b: "rs_count (rw_cur v) = rs_count (rw_cur w) + 1" "rs_max (rw_cur v) = rs_max (rw_cur w)"
          using loop_pass_budget [OF p] by simp_all
        from 1(1) [OF False p [symmetric] Inr Again c] s b False show ?thesis by arith
      qed
    qed
  qed
qed

text \<open>\<open>acting rt v w\<close> is \<open>working\<close> without the step budget, which the loop uses up.\<close>

definition acting :: "runtime \<Rightarrow> run_world \<Rightarrow> run_world \<Rightarrow> bool" where
  "acting rt v w \<longleftrightarrow>
     rs_id (rw_cur w) = rs_id (rw_cur v) \<and> others_kept v w \<and> unasked_calls rt v w \<and> no_new_approved v w \<and>
     (ro_events (rn_router rt) \<longrightarrow> audited v \<longrightarrow> audited w)"

lemma acting_trans: "acting rt u v \<Longrightarrow> acting rt v w \<Longrightarrow> acting rt u w"
proof -
  assume a: "acting rt u v" "acting rt v w"
  have "others_kept u w" using a by (simp add: acting_def others_kept_def)
  moreover have "no_new_approved u w" using a unfolding acting_def no_new_approved_def by blast
  moreover have "unasked_calls rt u w" using a unasked_calls_trans by (auto simp: acting_def)
  ultimately show ?thesis using a by (simp add: acting_def)
qed

lemma acting_refl: "acting rt w w"
  by (simp add: acting_def others_kept_def no_new_approved_def unasked_calls_refl)

interpretation acting: world_order "acting rt"
  by unfold_locales (rule acting_refl, rule acting_trans)

lemma working_acting: "working rt v w \<Longrightarrow> acting rt v w"
  by (simp add: working_def acting_def budget_def)

lemma acting_quiet: "state_io_rel quiet m \<Longrightarrow> state_io_rel (acting rt) m"
  by (erule io_rel_weaken) (rule working_acting, rule quiet_working)

lemma acting_count_step: "acting rt w (count_step w)"
  by (simp add: acting_def others_kept_def no_new_approved_def unasked_calls_def audited_def)

lemma continue_workflow_acting:
  "continue_workflow rt resp prev w = (r, w') \<Longrightarrow> acting rt w w'"
proof (induction rt resp prev w rule: continue_workflow.induct)
  case (1 rt resp prev w)
  show ?case
  proof (cases "rs_max (rw_cur w) \<le> rs_count (rw_cur w)")
    case True
    with 1(2) io_relD [OF acting_quiet [OF quiet_fail_run], where w = w] show ?thesis
      by (auto simp: continue_workflow.simps [of rt resp prev w] Let_def)
  next
    case False
    obtain a v where p: "run_state (loop_pass rt resp prev) (count_step w) = (a, v)"
      using surj_pair by metis
    have "acting rt w v"
      using acting_trans [OF acting_count_step working_acting [OF working.run [OF working_loop_pass p]]] .
    moreover have "acting rt v w'"
    proof (cases "\<exists>y t. a = Inr (Again y t)")
      case True
      then obtain y t where "a = Inr (Again y t)" by blast
      with 1(1) [OF False p [symmetric] this refl] 1(2) False p show ?thesis
        by (simp add: continue_workflow.simps [of rt resp prev w])
    next
      case ended: False
      with 1(2) False p have "w' = v"
        by (auto simp: continue_workflow.simps [of rt resp prev w] split: sum.splits pass.splits)
      then show ?thesis by (simp add: acting_refl)
    qed
    ultimately show ?thesis by (rule acting_trans)
  qed
qed

lemma acting_continue_run: "state_io_rel (acting rt) (continue_run rt resp prev)"
  by (rule io_relI) (simp add: continue_run_def, rule continue_workflow_acting, rule prod.collapse [symmetric])

section \<open>Starting a run\<close>

lemma quiet_touch: "state_io_rel quiet (touch_conversation rt conv)"
  unfolding touch_conversation_def
  by (intro quiet_rules quiet_db_write) (simp add: quiet_def budget_def others_kept_def)

lemma quiet_user_message: "state_io_rel quiet (user_message rt conv content)"
  unfolding user_message_def by (intro quiet_rules quiet_create_message)

lemma quiet_call_context: "state_io_rel quiet (call_context rt conv content)"
  by (rule io_relI) (simp add: call_context_def quiet_def budget_def others_kept_def)

lemma quiet_begin_run: "state_io_rel quiet (begin_run rt conv content)"
  unfolding begin_run_def build_context_def
  by (intro quiet_handlers quiet_call_context quiet_touch quiet_user_message quiet_emit_with_run_log) simp_all

text \<open>The world in which \<open>Run\<close> has built its first snapshot, and the id of the new run.\<close>

definition fresh_run :: "runtime \<Rightarrow> string \<Rightarrow> string \<Rightarrow> run_world \<Rightarrow> run_world" where
  "fresh_run rt conv content w =
     (let (run, s1) = ids_new ''run'' (tw_source w); (t, s2) = now s1
      in w\<lparr>tw_source := s2, rw_cur := initial_state rt run conv content t\<rparr>)"

definition new_run_id :: "run_world \<Rightarrow> string" where
  "new_run_id w = fst (ids_new ''run'' (tw_source w))"

lemma fresh_run_sel [simp]:
  "tw_calls (fresh_run rt conv content w) = tw_calls w"
  "tw_approvals (fresh_run rt conv content w) = tw_approvals w"
  "tw_events (fresh_run rt conv content w) = tw_events w"
  "rw_store (fresh_run rt conv content w) = rw_store w"
  "rw_plans (fresh_run rt conv content w) = rw_plans w"
  "rs_id (rw_cur (fresh_run rt conv content w)) = new_run_id w"
  "rs_count (rw_cur (fresh_run rt conv content w)) = 0"
  "rs_max (rw_cur (fresh_run rt conv content w)) = max_workflow_steps rt"
  by (simp_all add: fresh_run_def Let_def case_prod_unfold initial_state_def new_run_id_def)

definition run_body :: "runtime \<Rightarrow> string \<Rightarrow> string \<Rightarrow> string \<Rightarrow> (run_world, run_response res) state" where
  "run_body rt run conv content =
     do {
       begun \<leftarrow> begin_run rt conv content;
       or_return begun (\<lambda>_. continue_run rt (response0 run) None)
     }"

lemma run_message_body:
  "run_state (run_message rt conv content) w =
     run_state (run_body rt (new_run_id w) conv content) (fresh_run rt conv content w)"
  by (simp add: run_message_def run_body_def fresh_run_def new_run_id_def set_cur_def Let_def case_prod_unfold
      del: run_state_bind) (simp add: case_prod_unfold)

lemma acting_run_body: "state_io_rel (acting rt) (run_body rt run conv content)"
  unfolding run_body_def or_return_def
  by (intro acting.rules acting_quiet [OF quiet_begin_run] acting_continue_run)

lemma run_message_acting:
  "acting rt (fresh_run rt conv content w) (snd (run_state (run_message rt conv content) w))"
  unfolding run_message_body by (rule io_relD) (rule acting_run_body)

lemma run_body_cost:
  fixes v :: run_world
  assumes v': "v' = snd (run_state (run_body rt run conv content) v)"
  shows "rw_plans v' \<le> rw_plans v + (rs_max (rw_cur v) - rs_count (rw_cur v)) \<and>
    length (tw_calls v') \<le> length (tw_calls v) + (rs_max (rw_cur v) - rs_count (rw_cur v))"
proof -
  obtain b u where b: "run_state (begin_run rt conv content) v = (b, u)"
    using surj_pair by metis
  have q: "quiet v u" using quiet.run [OF quiet_begin_run b] .
  show ?thesis
  proof (cases b)
    case (Inl e)
    with b q show ?thesis by (simp add: v' run_body_def or_return_def quiet_def)
  next
    case (Inr x)
    obtain r z where c: "continue_workflow rt (response0 run) None u = (r, z)"
      using surj_pair by metis
    with b Inr have "v' = z" by (simp add: v' run_body_def or_return_def continue_run_def)
    with continue_workflow_cost [OF c] q show ?thesis by (simp add: quiet_def budget_def)
  qed
qed

section \<open>Properties of a run\<close>


text \<open>C17: a run started by a message only calls executors on proposals that inference and policy run
  unasked; no request is approved by it, and the snapshot of no other run changes.\<close>

theorem run_acts_unasked_only:
  "\<exists>ps. list_all (runs_unasked (rn_router rt)) ps \<and>
     tw_calls (snd (run_state (run_message rt conv content) w)) = tw_calls w @ map unasked_call ps \<and>
     no_new_approved w (snd (run_state (run_message rt conv content) w)) \<and>
     (x = new_run_id w \<or>
      store_get x (rw_store (snd (run_state (run_message rt conv content) w))) = store_get x (rw_store w))"
proof -
  let ?w = "snd (run_state (run_message rt conv content) w)"
  have a: "acting rt (fresh_run rt conv content w) ?w" by (rule run_message_acting)
  then obtain ps where "list_all (runs_unasked (rn_router rt)) ps"
    "tw_calls ?w = tw_calls w @ map unasked_call ps"
    by (auto simp: acting_def unasked_calls_def)
  moreover from a have "no_new_approved w ?w" by (simp add: acting_def no_new_approved_def)
  moreover from a have "x \<noteq> new_run_id w \<Longrightarrow> store_get x (rw_store ?w) = store_get x (rw_store w)"
    by (simp add: acting_def others_kept_def)
  ultimately show ?thesis by blast
qed

section \<open>Resuming\<close>

text \<open>The request an answer is about: the one the centre holds, else the one of the last step of the run
  that recorded it.\<close>

definition durable_request :: "string \<Rightarrow> string \<Rightarrow> run_world \<Rightarrow> approval_record option" where
  "durable_request run aid w =
     (case map_of (tw_approvals w) aid of
        Some q \<Rightarrow> Some q
      | None \<Rightarrow> map_option (\<lambda>s. clone_approval (the (st_approval s)))
                  (List.find (step_has_approval aid) (rev (store_list_steps run (rw_store w)))))"

lemma hydrate_approval_spec:
  fixes w w' :: run_world
  assumes "run_state (hydrate_approval rt run aid) w = (r, w')"
  shows "tw_calls w' = tw_calls w" "rw_store w' = rw_store w" "rw_cur w' = rw_cur w"
    and "r = Inr a \<Longrightarrow> \<exists>q. durable_request run aid w = Some q \<and> map_of (tw_approvals w') aid = Some q \<and>
      a = clone_approval q"
proof -
  have "tw_calls w' = tw_calls w \<and> rw_store w' = rw_store w \<and> rw_cur w' = rw_cur w \<and>
    (r = Inr a \<longrightarrow> (\<exists>q. durable_request run aid w = Some q \<and> map_of (tw_approvals w') aid = Some q \<and>
      a = clone_approval q))"
  proof (cases "map_of (tw_approvals w) aid")
    case (Some q)
    with assms show ?thesis
      by (auto simp: hydrate_approval_def approval_get_def durable_request_def)
  next
    case None
    note n = None
    show ?thesis
    proof (cases "rn_fault rt (rw_writes w)")
      case (Some e)
      with assms n show ?thesis
        by (auto simp: hydrate_approval_def approval_get_def db_read_def or_return_def Let_def)
    next
      case f: None
      show ?thesis
      proof (cases "List.find (step_has_approval aid) (rev (store_list_steps run (rw_store w)))")
        case None
        with assms n f show ?thesis
          by (auto simp: hydrate_approval_def approval_get_def db_read_def or_return_def Let_def)
      next
        case (Some s)
        then have "step_has_approval aid s" by (auto simp: find_Some_iff)
        then obtain q where q: "st_approval s = Some q" "ap_id q = aid"
          by (auto simp: step_has_approval_def split: option.splits)
        from assms n f Some q show ?thesis
          by (auto simp: hydrate_approval_def approval_get_def db_read_def or_return_def Let_def hydrate_op_def
              approval_hydrate_def durable_request_def update_conv' split: if_splits sum.splits)
      qed
    qed
  qed
  then show "tw_calls w' = tw_calls w" "rw_store w' = rw_store w" "rw_cur w' = rw_cur w"
    "r = Inr a \<Longrightarrow> \<exists>q. durable_request run aid w = Some q \<and> map_of (tw_approvals w') aid = Some q \<and>
      a = clone_approval q"
    by blast+
qed

definition same_calls :: "run_world \<Rightarrow> run_world \<Rightarrow> bool" where
  "same_calls v w \<longleftrightarrow> tw_calls w = tw_calls v"

interpretation same_calls: world_order same_calls
  by unfold_locales (simp_all add: same_calls_def)

lemma same_calls_quiet: "state_io_rel quiet m \<Longrightarrow> state_io_rel same_calls m"
  by (erule io_rel_weaken) (simp add: quiet_def same_calls_def)

lemma same_calls_center: "state_io_rel same_calls (center_op f)"
  by (rule io_relI) (simp add: same_calls_def)

lemma same_calls_or_fail:
  "(\<And>x. r = Inr x \<Longrightarrow> state_io_rel same_calls (k x)) \<Longrightarrow> state_io_rel same_calls (or_fail rt r k)"
  unfolding or_fail_def by (intro same_calls.rules same_calls_quiet [OF quiet_fail_run])

lemma same_calls_resume_reject: "state_io_rel same_calls (resume_reject rt aid)"
  unfolding resume_reject_def
  by (intro same_calls.rules same_calls_center same_calls_or_fail same_calls_quiet [OF quiet_record_step]
      same_calls_quiet [OF quiet_transition] same_calls_quiet [OF quiet_cur] same_calls_quiet [OF quiet_persist]
      same_calls_quiet [OF quiet_emit_now]) simp_all

lemma quiet_resume_parts:
  "state_io_rel quiet (approved_failed rt a b e)"
  "state_io_rel quiet (executed_approved rt aid a b res)"
  "state_io_rel quiet (record_approved rt aid a b)"
  unfolding approved_failed_def executed_approved_def record_approved_def
  by (intro quiet_handlers quiet_emit_tool_output; simp)+

text \<open>What remains of \<open>ResumeRun\<close> once the approved snapshot has been handed to the router.\<close>

definition after_approved ::
  "runtime \<Rightarrow> string \<Rightarrow> approval_record \<Rightarrow> approval_record \<Rightarrow> tool_result option \<times> go_error option
     \<Rightarrow> (run_world, run_response res) state" where
  "after_approved rt aid a b out =
     (case snd out of
        Some e \<Rightarrow> approved_failed rt a b e
      | None \<Rightarrow>
          do {
            done \<leftarrow> executed_approved rt aid a b (fst out);
            or_return done (\<lambda>_. do { s \<leftarrow> cur; continue_run rt (response0 (rs_id s)) (fst out) })
          })"

lemma acting_after_approved: "state_io_rel (acting rt) (after_approved rt aid a b out)"
  unfolding after_approved_def or_return_def
  by (intro acting.rules acting_quiet quiet_resume_parts quiet_cur acting_continue_run)

lemma resume_approve_after:
  "resume_approve rt aid a =
     do {
       approved \<leftarrow> center_op (approval_approve aid);
       or_fail rt approved (\<lambda>b.
         do {
           recorded \<leftarrow> record_approved rt aid a b;
           or_return recorded (\<lambda>_. do { out \<leftarrow> execute_approved (rn_router rt) aid; after_approved rt aid a b out })
         })
     }"
  by (simp add: resume_approve_def after_approved_def case_prod_unfold)

definition executes_request :: "runtime \<Rightarrow> approval_record \<Rightarrow> (string \<times> gmap) list \<Rightarrow> bool" where
  "executes_request rt q calls \<longleftrightarrow>
     ap_status q = ApprovalPending \<and> hash_map (ap_snapshot q) = Inr (ap_hash q) \<and>
     registered (rn_router rt) (tp_tool (ap_proposal q)) \<and>
     calls = [(tp_tool (ap_proposal q), clone_map (ap_snapshot q))]"

lemma resume_approve_calls:
  fixes w :: run_world
  assumes q: "map_of (tw_approvals w) aid = Some q"
  shows "\<exists>calls ps. (calls = [] \<or> executes_request rt q calls) \<and> list_all (runs_unasked (rn_router rt)) ps \<and>
    tw_calls (snd (run_state (resume_approve rt aid a) w)) = tw_calls w @ calls @ map unasked_call ps"
    (is "\<exists>calls ps. ?P calls ps")
proof -
  have none: "\<exists>calls ps. ?P calls ps" if "tw_calls (snd (run_state (resume_approve rt aid a) w)) = tw_calls w"
    by (rule exI [of _ "[]"], rule exI [of _ "[]"]) (simp add: that)
  obtain r s1 as1 where c: "approval_approve aid (tw_source w, tw_approvals w) = (r, s1, as1)"
    by (metis prod_cases3)
  let ?w1 = "w\<lparr>tw_source := s1, tw_approvals := as1\<rparr>"
  show ?thesis
  proof (cases r)
    case (Inl e)
    have "tw_calls (snd (run_state (fail_run rt e) ?w1)) = tw_calls w"
      using io_relD [OF quiet_fail_run, where w = ?w1] by (simp add: quiet_def)
    with c Inl show ?thesis
      by (intro none) (simp add: resume_approve_after or_fail_def case_prod_unfold)
  next
    case (Inr b)
    with c obtain t where as1: "as1 = AList.update aid (resolved_record True [] t q) (tw_approvals w)"
      and p: "ap_status q = ApprovalPending"
      unfolding approval_approve_def using q by (auto elim!: approval_resolve_Inr)
    obtain d w2 where d: "run_state (record_approved rt aid a b) ?w1 = (d, w2)"
      using surj_pair by metis
    have w2: "tw_calls w2 = tw_calls w" "tw_approvals w2 = as1"
      using quiet.run [OF quiet_resume_parts(3) d] by (simp_all add: quiet_def)
    show ?thesis
    proof (cases d)
      case (Inl e)
      with c Inr d w2 show ?thesis
        by (intro none) (simp add: resume_approve_after or_fail_def or_return_def)
    next
      case Inr': (Inr u)
      obtain out w3 where x: "run_state (execute_approved (rn_router rt) aid) w2 = (out, w3)"
        using surj_pair by metis
      obtain res w4 where y: "run_state (after_approved rt aid a b out) w3 = (res, w4)"
        using surj_pair by metis
      have w': "snd (run_state (resume_approve rt aid a) w) = w4"
        using c Inr d Inr' x y by (simp add: resume_approve_after or_fail_def or_return_def)
      have "map_of (tw_approvals w2) aid = Some (resolved_record True [] t q)"
        by (simp add: w2 as1 update_conv')
      then have "\<exists>calls. (calls = [] \<or> executes_request rt q calls) \<and> tw_calls w3 = tw_calls w @ calls"
        using execute_approved_calls_eq [of "rn_router rt" aid w2] p
        by (auto simp: x w2 executes_request_def verify_snapshot_hash_def split: sum.splits if_splits)
      moreover obtain ps where "list_all (runs_unasked (rn_router rt)) ps"
        "tw_calls w4 = tw_calls w3 @ map unasked_call ps"
        using acting.run [OF acting_after_approved y] by (auto simp: acting_def unasked_calls_def)
      ultimately show ?thesis unfolding w' by (metis append.assoc)
    qed
  qed
qed

text \<open>C14: an answer to a paused run calls executors as follows. A refusal calls none. An approval first
  executes the stored snapshot of that very request, at most once, and only when the run is paused on it,
  the request belongs to the run, was still pending and matches its digest; every further call is one the
  policy runs unasked.\<close>

theorem resume_executes_the_approved_snapshot:
  "\<exists>calls ps. list_all (runs_unasked (rn_router rt)) ps \<and>
     tw_calls (snd (run_state (resume_run rt run aid approved) w)) = tw_calls w @ calls @ map unasked_call ps \<and>
     (calls = [] \<and> ps = [] \<or>
      approved \<and>
      (\<exists>s q. store_get run (rw_store w) = Inr s \<and> rs_status s = PausedForApproval \<and> rs_approval s = aid \<and>
         durable_request run aid w = Some q \<and> ap_run q = run \<and> (calls = [] \<or> executes_request rt q calls)))"
    (is "\<exists>calls ps. ?P calls ps")
proof -
  let ?w' = "snd (run_state (resume_run rt run aid approved) w)"
  have none: "\<exists>calls ps. ?P calls ps" if "tw_calls ?w' = tw_calls w"
    by (rule exI [of _ "[]"], rule exI [of _ "[]"]) (simp add: that)
  let ?w1 = "w\<lparr>rw_writes := Suc (rw_writes w)\<rparr>"
  show ?thesis
  proof (cases "rn_approvals rt \<and> rn_fault rt (rw_writes w) = None \<and>
      (\<exists>s. store_get run (rw_store w) = Inr s \<and> resume_guard run aid s = None)")
    case False
    then show ?thesis
      by (intro none)
         (auto simp: resume_run_def db_read_def or_return_def Let_def split: option.split sum.split)
  next
    case True
    then obtain s where s: "store_get run (rw_store w) = Inr s" "resume_guard run aid s = None" by blast
    let ?w2 = "?w1\<lparr>rw_cur := s\<rparr>"
    obtain found w3 where f: "run_state (hydrate_approval rt run aid) ?w2 = (found, w3)"
      using surj_pair by metis
    note h = hydrate_approval_spec [OF f]
    have run: "?w' = snd (run_state (or_return found (\<lambda>a.
        if ap_run a \<noteq> run
        then State_Monad.return (Inl (Err (''approval '' @ aid @ '' is attached to run '' @ ap_run a
               @ '', not '' @ run)))
        else if \<not> approved then resume_reject rt aid
        else resume_approve rt aid a)) w3)"
      using True s f by (simp add: resume_run_def db_read_def or_return_def [of "Inr s"] set_cur_def Let_def)
    show ?thesis
    proof (cases "approved \<and> (\<exists>a. found = Inr a \<and> ap_run a = run)")
      case False
      have "tw_calls (snd (run_state (resume_reject rt aid) w3)) = tw_calls w3"
        using io_relD [OF same_calls_resume_reject, where w = w3] by (simp add: same_calls_def)
      with False show ?thesis
        by (intro none) (auto simp: run or_return_def h(1) split: sum.split)
    next
      case a: True
      then obtain a where a: "approved" "found = Inr a" "ap_run a = run" by blast
      from h(4) [OF a(2)] obtain q where q: "durable_request run aid ?w2 = Some q"
        "map_of (tw_approvals w3) aid = Some q" "a = clone_approval q" by blast
      have w': "?w' = snd (run_state (resume_approve rt aid a) w3)"
        unfolding run using a by (simp add: or_return_def)
      obtain calls ps where "calls = [] \<or> executes_request rt q calls" "list_all (runs_unasked (rn_router rt)) ps"
        "tw_calls ?w' = tw_calls w3 @ calls @ map unasked_call ps"
        using resume_approve_calls [OF q(2), where rt = rt and a = a] unfolding w' by blast
      moreover have "rs_status s = PausedForApproval" "rs_approval s = aid"
        using s(2) by (auto simp: resume_guard_def split: if_splits)
      moreover have "durable_request run aid ?w2 = durable_request run aid w"
        by (simp add: durable_request_def cong: option.case_cong)
      moreover have "tw_calls w3 = tw_calls w" by (simp add: h(1))
      moreover have "ap_run q = run" using a(3) q(3) by simp
      ultimately have "?P calls ps"
        using s(1) q(1) a(1) by metis
      then show ?thesis by blast
    qed
  qed
qed

text \<open>An answer to a run that is not paused, or paused on another request, changes nothing and is an
  error.\<close>

theorem resume_needs_pause:
  assumes "store_get run (rw_store w) = Inr s" and "\<not> (rs_status s = PausedForApproval \<and> rs_approval s = aid)"
  shows "\<exists>e n. run_state (resume_run rt run aid approved) w = (Inl e, w\<lparr>rw_writes := n\<rparr>)"
proof -
  have g: "\<exists>e. resume_guard run aid s = Some e"
    using assms(2) by (auto simp: resume_guard_def split: if_splits)
  show ?thesis
  proof (cases "rn_approvals rt")
    case True
    with g assms(1) have "\<exists>e. run_state (resume_run rt run aid approved) w =
        (Inl e, w\<lparr>rw_writes := Suc (rw_writes w)\<rparr>)"
      by (auto simp: resume_run_def db_read_def or_return_def Let_def split: option.split)
    then show ?thesis by blast
  next
    case False
    have "run_state (resume_run rt run aid approved) w =
        (Inl (Err ''approval center is not configured''), w\<lparr>rw_writes := rw_writes w\<rparr>)"
      using False by (simp add: resume_run_def)
    then show ?thesis by blast
  qed
qed

theorem resume_needs_pause_witness:
  "\<exists>e n. run_state (resume_run (runtime0 plan0) ''run_1'' ''a'' True) (run_world0 [] (state0 ''run_1'' Completed)) =
     (Inl e, (run_world0 [] (state0 ''run_1'' Completed))\<lparr>rw_writes := n\<rparr>)"
proof -
  let ?s = "state0 ''run_1'' Completed"
  have "store_get ''run_1'' (rw_store (run_world0 [] ?s)) = Inr ?s"
    using run_world0_store [of ?s] by simp
  then show ?thesis by (rule resume_needs_pause) simp
qed

end
