(* ===== verification/Run_Outcome.thy ===== *)
theory Run_Outcome
  imports Run_Safety
begin

text \<open>
  How a run ends when no write fails: triples over the handlers, and from them that every run comes to
  rest in a stored snapshot that says so (completed, failed, rejected, cancelled, or paused on a request
  that can still be answered).
\<close>

section \<open>Triples\<close>

definition triple :: "('w \<Rightarrow> bool) \<Rightarrow> ('w, 'a) state \<Rightarrow> ('a \<Rightarrow> 'w \<Rightarrow> bool) \<Rightarrow> bool" where
  "triple P m Q \<longleftrightarrow> (\<forall>w. P w \<longrightarrow> Q (fst (run_state m w)) (snd (run_state m w)))"

lemma tripleI: "(\<And>w. P w \<Longrightarrow> Q (fst (run_state m w)) (snd (run_state m w))) \<Longrightarrow> triple P m Q"
  by (simp add: triple_def)

lemma tripleD: "triple P m Q \<Longrightarrow> run_state m w = (a, w') \<Longrightarrow> P w \<Longrightarrow> Q a w'"
  unfolding triple_def by (metis fst_conv snd_conv)

lemma triple_return: "(\<And>w. P w \<Longrightarrow> Q a w) \<Longrightarrow> triple P (State_Monad.return a) Q"
  by (simp add: triple_def)

lemma triple_bind:
  "triple P m R \<Longrightarrow> (\<And>a. triple (R a) (f a) Q) \<Longrightarrow> triple P (State_Monad.bind m f) Q"
  by (auto simp: triple_def case_prod_unfold)

lemma triple_pre: "triple P m Q \<Longrightarrow> (\<And>w. P' w \<Longrightarrow> P w) \<Longrightarrow> triple P' m Q"
  by (simp add: triple_def)

lemma triple_post: "triple P m Q \<Longrightarrow> (\<And>a w. Q a w \<Longrightarrow> Q' a w) \<Longrightarrow> triple P m Q'"
  by (simp add: triple_def)

lemma triple_if: "triple P m Q \<Longrightarrow> triple P n Q \<Longrightarrow> triple P (if b then m else n) Q"
  by simp

lemma triple_let: "(\<And>x. x = v \<Longrightarrow> triple P (f x) Q) \<Longrightarrow> triple P (let x = v in f x) Q"
  by simp

lemma triple_any: "triple P m (\<lambda>_ _. True)"
  by (simp add: triple_def)

lemma triple_then: "(\<And>a. triple (\<lambda>_. True) (f a) Q) \<Longrightarrow> triple P (State_Monad.bind m f) Q"
  by (rule triple_bind [OF triple_any])

lemma triple_rel: "state_io_rel R m \<Longrightarrow> (\<And>v w. P v \<Longrightarrow> R v w \<Longrightarrow> Q w) \<Longrightarrow> triple P m (\<lambda>_. Q)"
  by (simp add: triple_def state_io_rel_def)

section \<open>What recording a step leaves alone\<close>

definition steady :: "run_world \<Rightarrow> run_world \<Rightarrow> bool" where
  "steady v w \<longleftrightarrow>
     tw_approvals w = tw_approvals v \<and> rs_id (rw_cur w) = rs_id (rw_cur v) \<and>
     rs_error (rw_cur w) = rs_error (rw_cur v) \<and> rs_approval (rw_cur w) = rs_approval (rw_cur v)"

interpretation steady: world_order steady
  by unfold_locales (simp_all add: steady_def)

definition same_run :: "run_world \<Rightarrow> run_world \<Rightarrow> bool" where
  "same_run v w \<longleftrightarrow> tw_approvals w = tw_approvals v \<and> rw_cur w = rw_cur v \<and> rw_store w = rw_store v"

interpretation same_run: world_order same_run
  by unfold_locales (simp_all add: same_run_def)

lemma same_run_steady: "same_run v w \<Longrightarrow> steady v w"
  by (simp add: same_run_def steady_def)

lemma same_run_primitives:
  "state_io_rel same_run tick" "state_io_rel same_run (fresh_id pre)" "state_io_rel same_run (log_event b ev)"
  "state_io_rel same_run cur"
  "state_io_rel same_run (modify (\<lambda>w. if c then w\<lparr>rw_sink := rw_sink w @ [ev]\<rparr> else w))"
  by (rule io_relI, simp add: same_run_def cur_def)+

lemma same_run_write: "(\<And>w. same_run w (f w)) \<Longrightarrow> state_io_rel same_run (db_write rt f)"
  by (rule io_relI) (auto simp: db_write_def same_run_def Let_def split: option.split)

lemma same_run_emit: "state_io_rel same_run (emit_now rt ev b)"
  unfolding emit_now_def emit_with_run_log_def emit_agent_event_def
  by (intro same_run.rules same_run_primitives same_run_write) (simp add: same_run_def)

lemma same_run_or_return:
  "(\<And>x. r = Inr x \<Longrightarrow> state_io_rel same_run (k x)) \<Longrightarrow> state_io_rel same_run (or_return r k)"
  unfolding or_return_def by (intro same_run.rules)

lemma same_run_persist: "state_io_rel same_run (persist_assistant rt conv content n run)"
  unfolding persist_assistant_def create_message_def record_usage_def
  by (intro same_run.rules same_run_primitives same_run_write same_run_or_return same_run_emit)
     (simp_all add: same_run_def)

lemma same_run_emit_tool_output: "state_io_rel same_run (emit_tool_output rt x step r)"
  unfolding emit_tool_output_def by (intro same_run.rules same_run_primitives same_run_emit)

lemma same_run_call_model: "state_io_rel same_run (call_model rt)"
  by (rule io_relI) (simp add: call_model_def same_run_def)

lemmas same_run_rules = same_run.rules same_run_primitives same_run_emit same_run_persist
  same_run_emit_tool_output same_run_call_model

section \<open>Fault-free writes\<close>

definition clean :: "runtime \<Rightarrow> bool" where
  "clean rt \<longleftrightarrow> rn_fault rt = (\<lambda>_. None)"

text \<open>The current snapshot is stored, with the given status.\<close>

definition stored :: "run_status \<Rightarrow> run_world \<Rightarrow> bool" where
  "stored st w \<longleftrightarrow>
     rs_status (rw_cur w) = st \<and> store_get (rs_id (rw_cur w)) (rw_store w) = Inr (clone_run_state (rw_cur w))"

definition kept :: "(run_world \<Rightarrow> bool) \<Rightarrow> bool" where
  "kept P \<longleftrightarrow> (\<forall>v w. P v \<longrightarrow> steady v w \<longrightarrow> P w)"

lemma keptD: "kept P \<Longrightarrow> P v \<Longrightarrow> steady v w \<Longrightarrow> P w"
  by (simp add: kept_def)

lemma kept_True: "kept (\<lambda>_. True)"
  by (simp add: kept_def)

lemma steady_same: "state_io_rel same_run m \<Longrightarrow> state_io_rel steady m"
  by (erule io_rel_weaken) (rule same_run_steady)

lemma steady_update_cur:
  "(\<And>s. rs_id (f s) = rs_id s \<and> rs_error (f s) = rs_error s \<and> rs_approval (f s) = rs_approval s) \<Longrightarrow>
     state_io_rel steady (update_cur f)"
  by (rule io_relI) (simp add: update_cur_def steady_def)

lemma steady_write: "(\<And>w. steady w (f w)) \<Longrightarrow> state_io_rel steady (db_write rt f)"
  by (rule io_relI) (auto simp: db_write_def steady_def Let_def split: option.split)

lemma steady_record_step: "state_io_rel steady (record_step rt ty st fill)"
  unfolding record_step_def save_step_def save_current_def save_state_def
  by (intro steady.rules steady_update_cur steady_write steady_same same_run_primitives) (simp_all add: steady_def)

lemma save_clean:
  assumes "clean rt"
  shows "triple P (save_step rt s) (\<lambda>r _. r = Inr ())" "triple P (save_current rt) (\<lambda>r _. r = Inr ())"
  using assms
  by (simp_all add: triple_def save_step_def save_current_def save_state_def db_write_def clean_def cur_def Let_def)

lemma record_step_clean:
  assumes "clean rt"
  shows "triple P (record_step rt ty st fill) (\<lambda>r _. \<exists>x. r = Inr x)"
proof -
  have last: "triple (\<lambda>_. a = Inr ())
      (case a of Inl e \<Rightarrow> State_Monad.return (Inl e)
       | Inr _ \<Rightarrow> do { s' \<leftarrow> save_current rt; State_Monad.return (case s' of Inl e \<Rightarrow> Inl e | Inr _ \<Rightarrow> Inr x) })
      (\<lambda>r _. \<exists>x. r = Inr x)" for a :: "unit res" and x :: run_step
  proof (cases a)
    case (Inr u)
    show ?thesis
      unfolding Inr sum.case
      by (rule triple_bind [OF save_clean(2) [OF assms]], rule triple_return) auto
  qed (simp add: triple_def)
  show ?thesis
    unfolding record_step_def
    by (rule triple_let triple_bind [OF save_clean(1) [OF assms] last] triple_then)+
qed

lemma triple_record:
  assumes "clean rt" "kept P"
  shows "triple P (record_step rt ty st fill) (\<lambda>r w. P w \<and> (\<exists>x. r = Inr x))"
proof -
  have "triple P (record_step rt ty st fill) (\<lambda>_. P)"
    by (rule triple_rel [OF steady_record_step]) (rule keptD [OF assms(2)])
  with record_step_clean [OF assms(1), of P] show ?thesis by (simp add: triple_def)
qed

lemma transition_clean:
  fixes w :: run_world
  assumes "clean rt" "run_state (transition rt st step payload) w = (u, w')"
  shows "steady w w' \<and> stored st w'"
proof -
  let ?c = "(rw_cur w)\<lparr>rs_status := st, rs_step := step_type_name (st_type step), rs_index := st_index step,
    rs_updated := fst (now (tw_source w))\<rparr>"
  let ?w = "w\<lparr>tw_source := snd (now (tw_source w)), rw_cur := ?c, rw_writes := Suc (rw_writes w),
    rw_store := store_save ?c (rw_store w)\<rparr>"
  obtain ev where "run_state (emit_now rt ev True) ?w = (u, w')"
    using assms by (simp add: transition_def save_current_def save_state_def db_write_def clean_def cur_def
        update_cur_def Let_def)
  from same_run.run [OF same_run_emit this] have "same_run ?w w'" .
  moreover have "steady w ?w \<and> stored st ?w"
    using mem.get_save [of ?c "rw_store w"] by (simp add: steady_def stored_def)
  ultimately show ?thesis by (simp add: same_run_def steady_def stored_def)
qed

lemma triple_transition:
  "clean rt \<Longrightarrow> kept P \<Longrightarrow> triple P (transition rt st step payload) (\<lambda>_ w. P w \<and> stored st w)"
  using transition_clean [OF _ surjective_pairing] keptD by (intro tripleI) blast

lemma triple_same:
  "state_io_rel same_run m \<Longrightarrow> kept P \<Longrightarrow> triple (\<lambda>w. P w \<and> stored st w) m (\<lambda>_ w. P w \<and> stored st w)"
proof (erule triple_rel)
  show "P w \<and> stored st w" if "kept P" "P v \<and> stored st v" "same_run v w" for v w
    using that keptD [OF that(1) _ same_run_steady] by (auto simp: stored_def same_run_def)
qed

lemma triple_keep: "state_io_rel same_run m \<Longrightarrow> kept P \<Longrightarrow> triple P m (\<lambda>_. P)"
  by (erule triple_rel) (blast dest: keptD same_run_steady)

section \<open>Failing\<close>

definition failed :: "go_error \<Rightarrow> run_world \<Rightarrow> bool" where
  "failed e w \<longleftrightarrow> rs_error (rw_cur w) = error_text e \<and> stored Failed w"

text \<open>An error result comes with a stored failure, any other result satisfies \<open>Q\<close>.\<close>

definition onerr :: "('a \<Rightarrow> run_world \<Rightarrow> bool) \<Rightarrow> 'a res \<Rightarrow> run_world \<Rightarrow> bool" where
  "onerr Q r w = (case r of Inl e \<Rightarrow> failed e w | Inr x \<Rightarrow> Q x w)"

lemma onerr_simps [simp]: "onerr Q (Inl e) w = failed e w" "onerr Q (Inr x) = Q x"
  by (simp_all add: onerr_def fun_eq_iff)

lemma triple_fail_run:
  assumes c: "clean rt"
  shows "triple P (fail_run rt e) (\<lambda>_. failed e)"
proof -
  let ?E = "\<lambda>w :: run_world. rs_error (rw_cur w) = error_text e"
  have k: "kept ?E" by (simp add: kept_def steady_def)
  have start: "triple P (update_cur (\<lambda>s. s\<lparr>rs_error := error_text e\<rparr>)) (\<lambda>_. ?E)"
    by (simp add: triple_def update_cur_def)
  have move: "triple (\<lambda>w. ?E w \<and> (\<exists>x. recorded = Inr x))
      (case recorded of Inl _ \<Rightarrow> State_Monad.return ()
       | Inr step \<Rightarrow> transition rt Failed step [(''error'', GStr (error_text e))])
      (\<lambda>_ w. ?E w \<and> stored Failed w)" for recorded :: "run_step res"
    using triple_transition [OF c k] by (cases recorded) (auto simp: triple_def)
  show ?thesis
    unfolding fail_run_def failed_def
    by (rule triple_bind [OF start] triple_bind [OF triple_record [OF c k]] triple_bind [OF move]
        triple_bind [OF triple_same [OF same_run_primitives(4) k]] triple_same [OF same_run_emit k])+
qed

lemma triple_or_fail:
  assumes "clean rt" "\<And>x. r = Inr x \<Longrightarrow> triple P (k x) (onerr Q)"
  shows "triple P (or_fail rt r k) (onerr Q)"
proof (cases r)
  case (Inl e)
  have "triple (failed e) (State_Monad.return (Inl e)) (onerr Q)"
    by (rule triple_return) simp
  with Inl triple_bind [OF triple_fail_run [OF assms(1)]] show ?thesis
    by (simp add: or_fail_def)
next
  case (Inr x)
  with assms(2) show ?thesis by (simp add: or_fail_def)
qed

lemma triple_or_return:
  "(\<And>x. triple (Q x) (k x) (onerr R)) \<Longrightarrow> triple (onerr Q r) (or_return r k) (onerr R)"
  by (cases r) (auto simp: or_return_def intro: triple_return)

text \<open>Recording a step and going on with it, the shape of every handler.\<close>

lemma triple_recorded:
  assumes "clean rt" "kept P" "\<And>x. triple P (k x) (onerr Q)"
  shows "triple P (State_Monad.bind (record_step rt ty st fill) (\<lambda>r. or_fail rt r k)) (onerr Q)"
  by (rule triple_bind [OF triple_post [OF triple_record [OF assms(1,2)]]], erule conjunct1)
     (rule triple_or_fail [OF assms(1)], rule assms(3))

lemma triple_moved:
  assumes "clean rt" "kept P" "\<And>x. triple (\<lambda>w. P w \<and> stored st w) (k x) Q"
  shows "triple P (State_Monad.bind (transition rt st step payload) k) Q"
  by (rule triple_bind [OF triple_transition [OF assms(1,2)] assms(3)])

lemma triple_moved_on:
  assumes "clean rt" "kept P" "\<And>x. triple P (k x) Q"
  shows "triple P (State_Monad.bind (transition rt st step payload) k) Q"
  by (rule triple_moved [OF assms(1,2)], rule triple_pre [OF assms(3)], simp)

lemma triple_kept_bind:
  "state_io_rel same_run m \<Longrightarrow> kept P \<Longrightarrow> (\<And>a. triple P (k a) Q) \<Longrightarrow> triple P (State_Monad.bind m k) Q"
  by (rule triple_bind [OF triple_keep])

lemma triple_same_bind:
  "state_io_rel same_run m \<Longrightarrow> kept P \<Longrightarrow> (\<And>a. triple (\<lambda>w. P w \<and> stored st w) (k a) Q) \<Longrightarrow>
     triple (\<lambda>w. P w \<and> stored st w) (State_Monad.bind m k) Q"
  by (rule triple_bind [OF triple_same])

text \<open>Reading the snapshot of the run: what follows knows that it is the current one.\<close>

lemma triple_cur: "(\<And>s. triple (\<lambda>w. P w \<and> s = rw_cur w) (k s) Q) \<Longrightarrow> triple P (State_Monad.bind cur k) Q"
  by (auto simp: triple_def cur_def)

section \<open>The handlers end in a stored state\<close>

definition completed :: "run_response \<Rightarrow> run_world \<Rightarrow> bool" where
  "completed resp w \<longleftrightarrow>
     stored Completed w \<and> re_message resp \<noteq> None \<and> re_state resp = Some (clone_run_state (rw_cur w))"

text \<open>The request is in the centre, pending, and belongs to the current run.\<close>

definition awaits :: "approval_record \<Rightarrow> run_world \<Rightarrow> bool" where
  "awaits a w \<longleftrightarrow>
     (\<exists>q. map_of (tw_approvals w) (ap_id a) = Some q \<and> ap_status q = ApprovalPending \<and>
        ap_run q = rs_id (rw_cur w))"

definition paused :: "run_response \<Rightarrow> run_world \<Rightarrow> bool" where
  "paused resp w \<longleftrightarrow>
     stored PausedForApproval w \<and> re_state resp = Some (clone_run_state (rw_cur w)) \<and>
     (\<exists>a. re_approval resp = Some a \<and> rs_approval (rw_cur w) = ap_id a \<and> awaits a w)"

definition ended :: "run_response \<Rightarrow> run_world \<Rightarrow> bool" where
  "ended resp w \<longleftrightarrow> completed resp w \<or> paused resp w"

lemma kept_awaits: "kept (awaits a)"
  by (simp add: kept_def steady_def awaits_def)

lemma kept_awaiting: "kept (\<lambda>w. awaits a w \<and> rs_approval (rw_cur w) = x)"
  by (simp add: kept_def steady_def awaits_def)

lemma triple_persisted:
  assumes "clean rt" "kept P" "\<And>m. triple P (k m) (onerr Q)"
  shows "triple P (State_Monad.bind (persist_assistant rt conv content n run) (\<lambda>r. or_fail rt r k)) (onerr Q)"
  by (rule triple_kept_bind [OF same_run_persist assms(2)], rule triple_or_fail [OF assms(1,3)])

lemma triple_kept_cur: "(\<And>s. triple P (k s) Q) \<Longrightarrow> triple P (State_Monad.bind cur k) Q"
  by (auto simp: triple_def cur_def)

text \<open>Handlers end by reading the snapshot, emitting an event about it and returning.\<close>

lemma triple_finish_exact:
  assumes "kept P"
  shows "triple (\<lambda>w. P w \<and> stored st w)
     (do { s \<leftarrow> cur; emit_now rt (ev s) b; State_Monad.return (Inr (r s)) })
     (\<lambda>res w. res = Inr (r (rw_cur w)) \<and> P w \<and> stored st w)"
proof (rule triple_cur)
  fix s
  have "triple (\<lambda>w. (P w \<and> stored st w) \<and> s = rw_cur w) (emit_now rt (ev s) b)
      (\<lambda>_ w. (P w \<and> stored st w) \<and> s = rw_cur w)"
    by (rule triple_rel [OF same_run_emit])
       (auto simp: same_run_def stored_def intro: keptD [OF assms(1)] same_run_steady [unfolded same_run_def])
  then show "triple (\<lambda>w. (P w \<and> stored st w) \<and> s = rw_cur w)
      (do { emit_now rt (ev s) b; State_Monad.return (Inr (r s)) })
      (\<lambda>res w. res = Inr (r (rw_cur w)) \<and> P w \<and> stored st w)"
    by (rule triple_bind) (rule triple_return, simp)
qed

lemma triple_finish:
  assumes "kept P" "\<And>w. P w \<Longrightarrow> stored st w \<Longrightarrow> Q (r (rw_cur w)) w"
  shows "triple (\<lambda>w. P w \<and> stored st w)
     (do { s \<leftarrow> cur; emit_now rt (ev s) b; State_Monad.return (Inr (r s)) }) (onerr Q)"
  by (rule triple_post [OF triple_finish_exact [OF assms(1)]]) (auto simp: assms(2))

lemma triple_complete:
  assumes c: "clean rt"
  shows "triple (\<lambda>_. True) (complete_with_message rt resp content) (onerr completed)"
proof -
  have finish: "triple (\<lambda>w. True \<and> stored Completed w)
      (do { s \<leftarrow> cur; emit_now rt (ev s) b;
            State_Monad.return (Inr (resp\<lparr>re_message := Some m, re_state := Some (clone_run_state s)\<rparr>)) })
      (onerr completed)" for m ev b
    by (rule triple_finish [OF kept_True]) (simp add: completed_def)
  show ?thesis
    unfolding complete_with_message_def
    by (rule triple_recorded [OF c kept_True] triple_moved [OF c kept_True finish]
        triple_moved_on [OF c kept_True] triple_kept_cur triple_persisted [OF c kept_True])+
qed

text \<open>A pass ends the run, or asks for another pass.\<close>

definition passed :: "pass \<Rightarrow> run_world \<Rightarrow> bool" where
  "passed p w = (case p of Done resp \<Rightarrow> ended resp w | Again _ _ \<Rightarrow> True)"

lemma triple_done:
  assumes "triple P m (onerr completed)"
  shows "triple P (do { r \<leftarrow> m; State_Monad.return (map_sum id Done r) }) (onerr passed)"
  by (rule triple_bind [OF assms])
     (auto simp: triple_def onerr_def passed_def ended_def split: sum.split)

lemma triple_plan_pass:
  assumes c: "clean rt"
  shows "triple P (plan_pass rt prev) (onerr (\<lambda>_ _. True))"
  unfolding plan_pass_def
  by (rule triple_then triple_or_fail [OF c] triple_let triple_return)+ simp_all

lemma triple_answer_pass:
  assumes c: "clean rt"
  shows "triple P (answer_pass rt p resp) (onerr passed)"
  unfolding answer_pass_def
  by (rule triple_then triple_or_fail [OF c] triple_done triple_complete [OF c])+

lemma triple_stop_pass:
  assumes c: "clean rt"
  shows "triple (\<lambda>_. True) (stop_pass rt p prev resp) (onerr passed)"
  unfolding stop_pass_def by (rule triple_done [OF triple_complete [OF c]])

lemma triple_continue_pass:
  assumes c: "clean rt"
  shows "triple P (continue_pass rt p prev resp) (onerr passed)"
  unfolding continue_pass_def
  by (rule triple_then triple_or_fail [OF c] triple_return)+ (simp add: passed_def)

lemma triple_executed_pass:
  assumes c: "clean rt"
  shows "triple P (executed_pass rt out resp) (onerr passed)"
  unfolding executed_pass_def
  by (rule triple_then triple_or_fail [OF c] triple_return)+ (simp add: passed_def)

lemma triple_record_inference:
  assumes c: "clean rt" and k: "kept P"
  shows "triple P (record_inference rt p out) (onerr (\<lambda>_. P))"
proof -
  have "triple P (update_cur (\<lambda>s. s\<lparr>rs_inference := Some (rr_inference out)\<rparr>)) (\<lambda>_. P)"
    by (rule triple_rel [OF steady_update_cur]) (simp, rule keptD [OF k])
  then show ?thesis
    unfolding record_inference_def
    by (rule triple_bind) (rule triple_recorded [OF c k] triple_moved_on [OF c k] triple_return, simp)+
qed

lemma triple_record_policy:
  assumes c: "clean rt" and k: "kept P"
  shows "triple P (record_policy rt p out) (onerr (\<lambda>_. P))"
proof -
  have "triple P (update_cur (\<lambda>s. s\<lparr>rs_policy := Some (rr_decision out)\<rparr>)) (\<lambda>_. P)"
    by (rule triple_rel [OF steady_update_cur]) (simp, rule keptD [OF k])
  then show ?thesis
    unfolding record_policy_def
    by (rule triple_bind) (rule triple_recorded [OF c k] triple_moved_on [OF c k] triple_return, simp)+
qed

lemma triple_pause_pass:
  assumes c: "clean rt"
  shows "triple (awaits a) (pause_pass rt p out a resp) (onerr passed)"
proof -
  note k = kept_awaiting [of a "ap_id a"]
  have start: "triple (awaits a) (update_cur (\<lambda>s. s\<lparr>rs_approval := ap_id a\<rparr>))
      (\<lambda>_ w. awaits a w \<and> rs_approval (rw_cur w) = ap_id a)"
    by (simp add: triple_def update_cur_def awaits_def)
  have finish: "triple (\<lambda>w. (awaits a w \<and> rs_approval (rw_cur w) = ap_id a) \<and> stored PausedForApproval w)
      (do { s \<leftarrow> cur; emit_now rt (ev s) b;
            State_Monad.return (Inr (Done (resp\<lparr>re_approval := Some a, re_message := Some m,
              re_state := Some (clone_run_state s)\<rparr>))) }) (onerr passed)" for m ev b
    by (rule triple_finish [OF k]) (simp add: passed_def ended_def paused_def)
  show ?thesis
    unfolding pause_pass_def
    by (rule triple_bind [OF start], rule triple_recorded [OF c k], rule triple_moved_on [OF c k],
        rule triple_kept_cur, rule triple_kept_bind [OF same_run_emit k], rule triple_moved [OF c k],
        rule triple_same_bind [OF same_run_persist k], rule triple_or_fail [OF c], rule finish)
qed

text \<open>The router's answer: a request it reports is in the centre, pending, and belongs to the run.\<close>

lemma approval_create_pending:
  assumes "fst (approval_create run conv p i d c) = Inr a"
  shows "\<exists>q. map_of (snd (snd (approval_create run conv p i d c))) (ap_id a) = Some q \<and>
    ap_status q = ApprovalPending \<and> ap_run q = run"
  using assms
  by (cases "approval_create run conv p i d c") (auto elim!: approval_create_Inr simp: update_conv')

lemma propose_awaits:
  fixes w :: run_world
  assumes "run_state (propose r (rs_id (rw_cur w)) conv p) w = (Inr out, w')" "rr_approval out = Some a"
  shows "awaits a w'"
proof (cases "infer (ro_inferrer r) p")
  case (Inl e)
  with assms show ?thesis by (simp add: propose_def)
next
  case (Inr i)
  let ?d = "decide (ro_policy r) p i"
  show ?thesis
  proof (cases "pd_requires ?d")
    case True
    with Inr assms show ?thesis
      by (auto simp: propose_def request_approval_def Let_def awaits_def update_conv' split: sum.splits
          dest!: approval_create_pending)
  next
    case False
    with Inr assms show ?thesis
      by (auto simp: propose_def deny_result_def Let_def split: if_splits prod.splits option.splits)
  qed
qed

definition routed_ok :: "route_result \<Rightarrow> run_world \<Rightarrow> bool" where
  "routed_ok out w \<longleftrightarrow> (\<forall>a. rr_approval out = Some a \<longrightarrow> awaits a w)"

lemma kept_routed_ok: "kept (routed_ok out)"
  using kept_awaits unfolding kept_def routed_ok_def by blast

lemma triple_propose:
  "triple (\<lambda>w. s = rw_cur w) (propose r (rs_id s) conv p) (\<lambda>res w. \<forall>out. res = Inr out \<longrightarrow> routed_ok out w)"
  unfolding triple_def routed_ok_def using propose_awaits by (metis prod.collapse)

lemma triple_routed:
  assumes c: "clean rt"
  shows "triple (routed_ok out)
    (do {
       inferred \<leftarrow> record_inference rt q out;
       or_return inferred (\<lambda>_.
         do {
           decided \<leftarrow> record_policy rt q out;
           or_return decided (\<lambda>_.
             case rr_approval out of Some a \<Rightarrow> pause_pass rt q out a resp | None \<Rightarrow> executed_pass rt out resp)
         })
     }) (onerr passed)"
proof -
  have "triple (routed_ok out)
      (case rr_approval out of Some a \<Rightarrow> pause_pass rt q out a resp | None \<Rightarrow> executed_pass rt out resp)
      (onerr passed)"
  proof (cases "rr_approval out")
    case (Some a)
    then have "triple (routed_ok out) (pause_pass rt q out a resp) (onerr passed)"
      by (intro triple_pre [OF triple_pause_pass [OF c]]) (simp add: routed_ok_def)
    with Some show ?thesis by simp
  qed (simp add: triple_executed_pass [OF c])
  note kept = triple_or_return [where Q = "\<lambda>_. routed_ok out", OF this]
  note policy = triple_bind [OF triple_record_policy [OF c kept_routed_ok] kept]
  show ?thesis
    by (rule triple_bind [OF triple_record_inference [OF c kept_routed_ok]],
        rule triple_or_return, rule policy)
qed

lemma triple_tool_pass:
  assumes c: "clean rt"
  shows "triple (\<lambda>_. True) (tool_pass rt p q resp) (onerr passed)"
proof -
  have route: "triple (\<lambda>w. True \<and> s = rw_cur w)
      (do { routed \<leftarrow> propose (rn_router rt) (rs_id s) (rs_conv s) q;
            or_fail rt routed (\<lambda>out.
             do {
               inferred \<leftarrow> record_inference rt q' out;
               or_return inferred (\<lambda>_.
                 do {
                   decided \<leftarrow> record_policy rt q' out;
                   or_return decided (\<lambda>_.
                     case rr_approval out of
                       Some a \<Rightarrow> pause_pass rt q' out a resp
                     | None \<Rightarrow> executed_pass rt out resp)
                 })
             }) }) (onerr passed)" for s q'
    by (rule triple_bind [OF triple_pre [OF triple_propose]], simp)
       (rule triple_or_fail [OF c], rule triple_pre [OF triple_routed [OF c]], simp)
  show ?thesis
    unfolding tool_pass_def
    by (rule triple_let, rule triple_then, rule triple_recorded [OF c kept_True],
        rule triple_moved_on [OF c kept_True], rule triple_cur, rule route)
qed

lemma triple_loop_pass:
  assumes c: "clean rt"
  shows "triple (\<lambda>_. True) (loop_pass rt resp prev) (onerr passed)"
proof -
  have bad: "triple P (or_fail rt (Inl e) State_Monad.return) (onerr passed)" for e P
    by (rule triple_or_fail [OF c]) simp
  show ?thesis
    unfolding loop_pass_def
    by (rule triple_bind [OF triple_plan_pass [OF c]], rule triple_or_return)
       (auto intro!: triple_if triple_continue_pass [OF c] triple_answer_pass [OF c] triple_stop_pass [OF c]
         triple_tool_pass [OF c] bad split: option.split)
qed

lemma continue_workflow_ends:
  assumes "clean rt" "continue_workflow rt resp prev w = (r, w')"
  shows "onerr ended r w'"
  using assms
proof (induction rt resp prev w rule: continue_workflow.induct)
  case (1 rt resp prev w)
  note c = 1(2)
  show ?case
  proof (cases "rs_max (rw_cur w) \<le> rs_count (rw_cur w)")
    case True
    have "failed e (snd (run_state (fail_run rt e) w))" for e
      using triple_fail_run [OF c, of "\<lambda>_. True" e] by (simp add: triple_def)
    with 1(3) True show ?thesis
      by (auto simp: continue_workflow.simps [of rt resp prev w] Let_def)
  next
    case False
    obtain a v where p: "run_state (loop_pass rt resp prev) (count_step w) = (a, v)"
      using surj_pair by metis
    have a: "onerr passed a v" using tripleD [OF triple_loop_pass [OF c] p] by simp
    show ?thesis
    proof (cases a)
      case (Inl e)
      with 1(3) False p a show ?thesis by (auto simp: continue_workflow.simps [of rt resp prev w])
    next
      case (Inr x)
      show ?thesis
      proof (cases x)
        case (Done y)
        with 1(3) False p a Inr show ?thesis
          by (auto simp: continue_workflow.simps [of rt resp prev w] passed_def)
      next
        case (Again y t)
        with 1(3) False p Inr have "continue_workflow rt y t v = (r, w')"
          by (simp add: continue_workflow.simps [of rt resp prev w])
        from 1(1) [OF False p [symmetric] Inr Again c this] show ?thesis .
      qed
    qed
  qed
qed

end
