(* ===== verification/Run_Lifecycle.thy ===== *)
theory Run_Lifecycle
  imports Run_Outcome
begin

text \<open>
  The life of a run as a client of \<open>internal/agent/runtime.go\<close> sees it when no write fails: what is stored
  after \<open>Run\<close>, \<open>ResumeRun\<close> and \<open>CancelRun\<close>.
\<close>

section \<open>Starting\<close>

lemma triple_ok_return:
  "triple (\<lambda>_. True) (k x) (onerr Q) \<Longrightarrow> triple (\<lambda>_. r = Inr x) (or_return r k) (onerr Q)"
  by (cases r) (auto simp: or_return_def triple_def)

lemma create_message_clean: "clean rt \<Longrightarrow> triple P (create_message rt m) (\<lambda>r _. r = Inr ())"
  by (simp add: triple_def create_message_def db_write_def clean_def Let_def)

lemma triple_begin_run:
  assumes c: "clean rt"
  shows "triple P (begin_run rt conv content) (onerr (\<lambda>_ _. True))"
proof -
  have build: "triple P (build_context rt conv content) (onerr (\<lambda>_ _. True))" for P
    unfolding build_context_def
    by (rule triple_then triple_or_fail [OF c] triple_return)+ simp
  have user: "triple P (user_message rt conv content) (\<lambda>r _. r = Inr ())" for P
    unfolding user_message_def
    by (rule triple_then | rule create_message_clean [OF c])+
  show ?thesis
    unfolding begin_run_def
    by (rule triple_bind [OF save_clean(2) [OF c]], rule triple_ok_return, rule triple_then, rule triple_then,
        rule triple_bind [OF user], rule triple_ok_return, rule triple_then, rule build)
qed

lemma triple_continue_run: "clean rt \<Longrightarrow> triple P (continue_run rt resp prev) (onerr ended)"
  unfolding triple_def continue_run_def using continue_workflow_ends [OF _ surjective_pairing] by simp

lemma triple_run_body:
  assumes c: "clean rt"
  shows "triple P (run_body rt run conv content) (onerr ended)"
  unfolding run_body_def
  by (rule triple_bind [OF triple_begin_run [OF c]], rule triple_or_return, rule triple_continue_run [OF c])


lemma clean_runtime0: "clean (runtime0 p)" "rn_approvals (runtime0 p)"
  by (simp_all add: runtime0_def clean_def)


section \<open>Resuming\<close>

definition rejected :: "run_response \<Rightarrow> run_world \<Rightarrow> bool" where
  "rejected resp w \<longleftrightarrow>
     stored RunRejected w \<and> re_message resp \<noteq> None \<and> re_state resp = Some (clone_run_state (rw_cur w))"

lemma triple_resume_reject:
  assumes c: "clean rt"
  shows "triple (\<lambda>_. True) (resume_reject rt aid) (onerr rejected)"
proof -
  have finish: "triple (\<lambda>w. True \<and> stored RunRejected w)
      (do { s \<leftarrow> cur; emit_now rt (ev s) b;
            State_Monad.return (Inr ((response0 (rs_id s))\<lparr>re_approval := Some a, re_message := Some m,
              re_state := Some (clone_run_state s)\<rparr>)) })
      (onerr rejected)" for a m ev b
    by (rule triple_finish [OF kept_True]) (simp add: rejected_def)
  show ?thesis
    unfolding resume_reject_def
    by (rule triple_kept_cur, rule triple_then, rule triple_or_fail [OF c])
       (rule triple_recorded [OF c kept_True] triple_moved [OF c kept_True finish]
         triple_moved_on [OF c kept_True] triple_kept_cur triple_persisted [OF c kept_True]
         triple_kept_bind [OF same_run_emit kept_True])+
qed

lemma triple_resume_approve:
  assumes c: "clean rt"
  shows "triple (\<lambda>_. True) (resume_approve rt aid a) (onerr ended)"
proof -
  have fin: "triple P (approved_failed rt a b e) (onerr ended)" for b e P
    unfolding approved_failed_def
    by (rule triple_then triple_bind [OF triple_fail_run [OF c]] triple_return)+ simp
  have exe: "triple P (executed_approved rt aid a b res) (onerr (\<lambda>_ _. True))" for b res P
    unfolding executed_approved_def
    by (rule triple_then triple_or_fail [OF c])+
       (rule triple_post [OF save_clean(2) [OF c]], simp)
  have rec: "triple P (record_approved rt aid a b) (onerr (\<lambda>_ _. True))" for b P
    unfolding record_approved_def
    by (rule triple_then triple_or_fail [OF c] triple_return)+ simp
  have after: "triple P (after_approved rt aid a b out) (onerr ended)" for b out P
    unfolding after_approved_def
    by (auto intro!: fin triple_bind [OF exe] triple_or_return triple_kept_cur triple_continue_run [OF c]
        split: option.split)
  show ?thesis
    unfolding resume_approve_after
    by (rule triple_then, rule triple_or_fail [OF c], rule triple_bind [OF rec], rule triple_or_return,
        rule triple_then, rule after)
qed

text \<open>No handler changes which run is the current one.\<close>

definition same_id :: "run_world \<Rightarrow> run_world \<Rightarrow> bool" where
  "same_id v w \<longleftrightarrow> rs_id (rw_cur w) = rs_id (rw_cur v)"

interpretation same_id: world_order same_id
  by unfold_locales (simp_all add: same_id_def)

lemma same_id_acting: "state_io_rel (acting rt) m \<Longrightarrow> state_io_rel same_id m"
  by (erule io_rel_weaken) (simp add: acting_def same_id_def)

lemma same_id_quiet: "state_io_rel quiet m \<Longrightarrow> state_io_rel same_id m"
  by (erule io_rel_weaken) (simp add: quiet_def budget_def same_id_def)

lemma same_id_center: "state_io_rel same_id (center_op f)"
  by (rule io_relI) (simp add: same_id_def)

lemma same_id_execute: "state_io_rel same_id (execute_approved r aid)"
proof (rule io_relI)
  fix w :: run_world
  have "same_outside w (snd (run_state (execute_approved r aid) w))"
    by (rule io_relD) (rule outside_execute_approved)
  then have "tool_world.more (snd (run_state (execute_approved r aid) w)) = tool_world.more w"
    unfolding same_outside_def by (rule conjunct1)
  from more_run_world(1) [OF this] show "same_id w (snd (run_state (execute_approved r aid) w))"
    by (simp add: same_id_def)
qed

lemma same_id_or_fail:
  "(\<And>x. r = Inr x \<Longrightarrow> state_io_rel same_id (k x)) \<Longrightarrow> state_io_rel same_id (or_fail rt r k)"
  unfolding or_fail_def by (intro same_id.rules same_id_quiet [OF quiet_fail_run])

lemma same_id_resume:
  "state_io_rel same_id (resume_reject rt aid)" "state_io_rel same_id (resume_approve rt aid a)"
proof -
  show "state_io_rel same_id (resume_reject rt aid)"
    unfolding resume_reject_def
    by (intro same_id.rules same_id_center same_id_or_fail same_id_quiet [OF quiet_record_step]
        same_id_quiet [OF quiet_transition] same_id_quiet [OF quiet_cur] same_id_quiet [OF quiet_persist]
        same_id_quiet [OF quiet_emit_now]) simp_all
  show "state_io_rel same_id (resume_approve rt aid a)"
    unfolding resume_approve_after or_return_def
    by (intro same_id.rules same_id_center same_id_or_fail same_id_execute
        same_id_acting [OF acting_after_approved] same_id_quiet [OF quiet_resume_parts(3)])
qed

lemma hydrate_clean:
  fixes w :: run_world
  assumes "clean rt" "aid \<noteq> []" "durable_request run aid w = Some q"
    "run_state (hydrate_approval rt run aid) w = (r, w')"
  shows "r = Inr (clone_approval q) \<and> rw_cur w' = rw_cur w"
proof (cases "map_of (tw_approvals w) aid")
  case (Some q')
  with assms show ?thesis
    by (auto simp: hydrate_approval_def approval_get_def durable_request_def)
next
  case None
  with assms(3) obtain s where
    s: "List.find (step_has_approval aid) (rev (store_list_steps run (rw_store w))) = Some s"
    and q: "q = clone_approval (the (st_approval s))"
    by (auto simp: durable_request_def)
  then have "step_has_approval aid s" by (auto simp: find_Some_iff)
  then obtain q' where q': "st_approval s = Some q'" "ap_id q' = aid"
    by (auto simp: step_has_approval_def split: option.splits)
  from None assms s q q' show ?thesis
    by (auto simp: hydrate_approval_def approval_get_def db_read_def or_return_def Let_def hydrate_op_def
        approval_hydrate_def update_conv' clean_def)
qed

lemma resume_run_body:
  assumes "clean rt" "rn_approvals rt" "store_get run (rw_store w) = Inr s" "resume_guard run aid s = None"
    and "aid \<noteq> []" "durable_request run aid w = Some q" "ap_run q = run"
  obtains v where "rw_cur v = s"
    "run_state (resume_run rt run aid approved) w =
       run_state (if approved then resume_approve rt aid (clone_approval q) else resume_reject rt aid) v"
proof -
  let ?w = "w\<lparr>rw_writes := Suc (rw_writes w), rw_cur := s\<rparr>"
  obtain f v where f: "run_state (hydrate_approval rt run aid) ?w = (f, v)"
    using surj_pair by metis
  have "durable_request run aid ?w = Some q"
    using assms(6) by (simp add: durable_request_def cong: option.case_cong)
  from hydrate_clean [OF assms(1,5) this f]
  have "f = Inr (clone_approval q)" "rw_cur v = s" by simp_all
  with assms f show ?thesis
    by (intro that [of v])
       (simp_all add: resume_run_def db_read_def or_return_def clean_def set_cur_def Let_def)
qed



section \<open>Cancelling\<close>

lemma triple_ok:
  "(\<And>x. triple (\<lambda>_. True) (k x) Q) \<Longrightarrow> triple (\<lambda>_. \<exists>x. r = Inr x) (or_return r k) Q"
  by (cases r) (auto simp: or_return_def triple_def)

text \<open>The request can still be answered.\<close>

definition answerable :: "string \<Rightarrow> run_world \<Rightarrow> bool" where
  "answerable aid w = (case map_of (tw_approvals w) aid of None \<Rightarrow> False | Some q \<Rightarrow> ap_status q = ApprovalPending)"

lemma reject_pending_spec:
  fixes w :: run_world
  assumes "run_state (reject_pending rt aid) w = (u, v)"
  shows "rw_cur v = rw_cur w" "rw_store v = rw_store w" "tw_calls v = tw_calls w"
    and "rn_approvals rt \<Longrightarrow> aid \<noteq> [] \<Longrightarrow> \<not> answerable aid v"
proof -
  have "rw_cur v = rw_cur w \<and> rw_store v = rw_store w \<and> tw_calls v = tw_calls w \<and>
    (rn_approvals rt \<longrightarrow> aid \<noteq> [] \<longrightarrow> \<not> answerable aid v)"
  proof (cases "aid \<noteq> [] \<and> rn_approvals rt \<and> answerable aid w")
    case True
    then obtain q where "map_of (tw_approvals w) aid = Some q" "ap_status q = ApprovalPending"
      by (auto simp: answerable_def split: option.splits)
    with True assms show ?thesis
      by (auto simp: reject_pending_def approval_get_def approval_reject_def approval_resolve_def
          answerable_def update_conv' Let_def case_prod_unfold)
  next
    case False
    with assms show ?thesis
      by (auto simp: reject_pending_def approval_get_def answerable_def split: option.splits if_splits)
  qed
  then show "rw_cur v = rw_cur w" "rw_store v = rw_store w" "tw_calls v = tw_calls w"
    "rn_approvals rt \<Longrightarrow> aid \<noteq> [] \<Longrightarrow> \<not> answerable aid v"
    by blast+
qed

text \<open>What follows the rejection of the request.\<close>

definition cancel_tail :: "runtime \<Rightarrow> (run_world, run_state_rec res) state" where
  "cancel_tail rt =
     do {
       recorded \<leftarrow> record_step rt CancelStep StepCancelled (\<lambda>s. s\<lparr>st_summary := ''run cancelled''\<rparr>);
       or_return recorded (\<lambda>step.
         do {
           transition rt Cancelled step [];
           s' \<leftarrow> cur;
           emit_now rt (step_event ''run.cancelled'' (rs_id s') (rs_conv s') step) True;
           State_Monad.return (Inr (clone_run_state s'))
         })
     }"

lemma quiet_cancel_tail: "state_io_rel quiet (cancel_tail rt)"
  unfolding cancel_tail_def by (intro quiet_handlers) simp

lemma triple_cancel_tail:
  assumes c: "clean rt"
  shows "triple P (cancel_tail rt) (\<lambda>r w. r = Inr (clone_run_state (rw_cur w)) \<and> True \<and> stored Cancelled w)"
proof -
  have move: "triple (\<lambda>_. True) (do {
           transition rt Cancelled step [];
           s' \<leftarrow> cur;
           emit_now rt (step_event ''run.cancelled'' (rs_id s') (rs_conv s') step) True;
           State_Monad.return (Inr (clone_run_state s'))
         }) (\<lambda>r w. r = Inr (clone_run_state (rw_cur w)) \<and> True \<and> stored Cancelled w)" for step
    by (rule triple_moved [OF c kept_True triple_finish_exact [OF kept_True]])
  show ?thesis
    unfolding cancel_tail_def
    by (rule triple_bind [OF record_step_clean [OF c]], rule triple_ok [OF move])
qed

lemma cancel_run_spec:
  fixes w w' :: run_world
  assumes "clean rt" "store_get run (rw_store w) = Inr s" "rs_id s = run" "\<not> terminal (rs_status s)"
    and "run_state (cancel_run rt run) w = (r, w')"
  shows "\<exists>t. r = Inr t \<and> store_get run (rw_store w') = Inr t \<and> rs_status t = Cancelled \<and>
    tw_calls w' = tw_calls w \<and> \<not> (rn_approvals rt \<and> rs_approval s \<noteq> [] \<and> answerable (rs_approval s) w')"
proof -
  let ?w = "w\<lparr>rw_writes := Suc (rw_writes w), rw_cur := s\<rparr>"
  obtain u v where v: "run_state (reject_pending rt (rs_approval s)) ?w = (u, v)"
    using surj_pair by metis
  note rp = reject_pending_spec [OF v]
  have t: "run_state (cancel_tail rt) v = (r, w')"
    using assms v
    by (simp add: cancel_run_def db_read_def or_return_def clean_def set_cur_def cancel_tail_def Let_def)
  have q: "quiet v w'" using quiet.run [OF quiet_cancel_tail t] .
  have "rs_id (rw_cur w') = run"
    using q rp(1) assms(3) by (simp add: quiet_def budget_def)
  moreover have "tw_calls w' = tw_calls w" "tw_approvals w' = tw_approvals v"
    using q rp(3) by (simp_all add: quiet_def)
  moreover have "r = Inr (clone_run_state (rw_cur w')) \<and> True \<and> stored Cancelled w'"
    by (rule tripleD [OF triple_cancel_tail [OF assms(1)] t]) (rule TrueI)
  ultimately show ?thesis
    using rp(4) by (auto simp: stored_def answerable_def)
qed

text \<open>Cancelling a run that is not terminal, when no write fails, stores it as cancelled, runs no tool and leaves
  no request of it that could still be answered; a run that is completed, failed or cancelled is left as it is.\<close>

theorem cancel_stops_the_run:
  assumes "clean rt" "store_get run (rw_store w) = Inr s" "rs_id s = run"
    and "run_state (cancel_run rt run) w = (r, w')"
  shows "if terminal (rs_status s)
     then r = Inl (already_terminal run (rs_status s)) \<and> w' = w\<lparr>rw_writes := Suc (rw_writes w)\<rparr>
     else (\<exists>t. r = Inr t \<and> store_get run (rw_store w') = Inr t \<and> rs_status t = Cancelled) \<and>
       tw_calls w' = tw_calls w \<and> \<not> (rn_approvals rt \<and> rs_approval s \<noteq> [] \<and> answerable (rs_approval s) w')"
proof (cases "terminal (rs_status s)")
  case True
  with assms show ?thesis
    by (auto simp: cancel_run_def db_read_def or_return_def clean_def Let_def)
next
  case False
  with cancel_run_spec [OF assms(1-3) _ assms(4)] show ?thesis by auto
qed

theorem cancel_stops_the_run_witness:
  "tw_calls (snd (run_state (cancel_run (runtime0 plan0) ''run_1'') (run_world0 [] paused0))) = []"
proof -
  have "store_get ''run_1'' (rw_store (run_world0 [] paused0)) = Inr paused0"
    using run_world0_store [of paused0] by simp
  from cancel_stops_the_run [OF clean_runtime0(1) this _ surjective_pairing, of plan0] show ?thesis
    by (simp add: terminal_def) (simp add: run_world0_def)
qed

text \<open>A run whose request was refused has told the user that it is over, yet it does not count as terminal:
  \<open>CancelRun\<close> accepts it and overwrites its final status.\<close>

theorem rejected_run_is_cancelled_later:
  assumes "clean rt" "store_get run (rw_store w) = Inr s" "rs_id s = run" "rs_status s = RunRejected"
    and "run_state (cancel_run rt run) w = (r, w')"
  shows "\<exists>t. r = Inr t \<and> store_get run (rw_store w') = Inr t \<and> rs_status t = Cancelled"
  using cancel_run_spec [OF assms(1-3) _ assms(5)] assms(4) by (auto simp: terminal_def)

theorem rejected_run_is_cancelled_later_witness:
  "\<exists>t. fst (run_state (cancel_run (runtime0 plan0) ''run_1'')
     (run_world0 [] (state0 ''run_1'' RunRejected))) = Inr t \<and> rs_status t = Cancelled"
proof -
  let ?s = "state0 ''run_1'' RunRejected"
  have "store_get ''run_1'' (rw_store (run_world0 [] ?s)) = Inr ?s"
    using run_world0_store [of ?s] by simp
  from rejected_run_is_cancelled_later [OF clean_runtime0(1) this _ _ surjective_pairing, of plan0] show ?thesis
    by auto
qed

end
