(* ===== verification/Run_Planning.thy ===== *)
theory Run_Planning
  imports Planner_Heuristic Run_Lifecycle
begin

text \<open>
  The runtime driven by the agent's planner: which tools a run can call, and how soon it ends, whatever the chat
  model replies, the tools return and the stores do.
\<close>

section \<open>What a pass returns\<close>

text \<open>Every result of the action satisfies \<open>Q\<close>; errors are left open.\<close>

definition yields :: "('a \<Rightarrow> bool) \<Rightarrow> ('w, 'a res) state \<Rightarrow> bool" where
  "yields Q m \<longleftrightarrow> (\<forall>w x. fst (run_state m w) = Inr x \<longrightarrow> Q x)"

lemma yieldsD: "yields Q m \<Longrightarrow> run_state m w = (Inr x, v) \<Longrightarrow> Q x"
  unfolding yields_def by (metis fst_conv)

lemma yields_bind: "(\<And>a. yields Q (f a)) \<Longrightarrow> yields Q (State_Monad.bind m f)"
  by (simp add: yields_def case_prod_unfold)

lemma yields_bind_res:
  assumes "yields R m" "\<And>e. yields Q (f (Inl e))" "\<And>x. R x \<Longrightarrow> yields Q (f (Inr x))"
  shows "yields Q (State_Monad.bind m f)"
  unfolding yields_def
proof (intro allI impI)
  fix w x
  assume x: "fst (run_state (State_Monad.bind m f) w) = Inr x"
  obtain a v where a: "run_state m w = (a, v)" by fastforce
  with x have fx: "fst (run_state (f a) v) = Inr x" by simp
  show "Q x"
  proof (cases a)
    case (Inl e)
    with assms(2) [of e] fx show ?thesis by (auto simp: yields_def)
  next
    case (Inr y)
    with a assms(1) have "R y" by (auto dest: yieldsD)
    from assms(3) [OF this] fx Inr show ?thesis by (auto simp: yields_def)
  qed
qed

lemma yields_return: "(\<And>x. r = Inr x \<Longrightarrow> Q x) \<Longrightarrow> yields Q (State_Monad.return r)"
  by (simp add: yields_def)

lemma yields_error [simp]: "yields Q (State_Monad.return (Inl e))"
  by (simp add: yields_def)

lemma yields_or_fail: "(\<And>x. r = Inr x \<Longrightarrow> yields Q (k x)) \<Longrightarrow> yields Q (or_fail rt r k)"
  by (cases r) (simp_all add: or_fail_def yields_bind yields_return)

lemma yields_or_return: "(\<And>x. r = Inr x \<Longrightarrow> yields Q (k x)) \<Longrightarrow> yields Q (or_return r k)"
  by (cases r) (simp_all add: or_return_def yields_return)

lemmas yields_rules = yields_bind yields_or_fail yields_or_return yields_return

text \<open>The result that a tool answers with: an executor's, seen from its output, or that of a refusal, which has no plan.\<close>

definition answers :: "router \<Rightarrow> string \<Rightarrow> tool_result option \<Rightarrow> bool" where
  "answers r t x \<longleftrightarrow>
     (\<exists>ex n input. registry_executor (ro_registry r) t = Inr ex \<and> snd (ex n input) = None \<and>
        map_option tr_output x = map_option tr_output (fst (ex n input))) \<or>
     (\<exists>y. x = Some y \<and> map_of (nm (tr_output y)) ''plan'' = None)"

lemma fill_call_id_output [simp]: "tr_output (fill_call_id i x) = tr_output x"
  by (simp add: fill_call_id_def)

lemma run_executor_result:
  assumes "fst (run_state (run_executor r ex p run conv) w) = (res, err)"
  shows "\<exists>n. err = map_option Err (snd (ex n (clone_map (tp_input p)))) \<and>
    res = map_option (fill_call_id (tp_id p)) (fst (ex n (clone_map (tp_input p))))"
  using assms by (auto simp: run_executor_def ro_emit_def case_prod_unfold Let_def split: option.splits)

lemma propose_yields:
  "yields (\<lambda>out. rr_approval out = None \<longrightarrow> answers r (tp_tool p) (rr_result out)) (propose r run conv p)"
proof -
  have exec: "yields (\<lambda>out. rr_approval out = None \<longrightarrow> answers r (tp_tool p) (rr_result out))
      (do {
         (res, err) \<leftarrow> route_execute r p run conv;
         State_Monad.return (case err of Some e \<Rightarrow> Inl e | None \<Rightarrow> Inr (out\<lparr>rr_result := res\<rparr>))
       })" for out
    unfolding yields_def
  proof (rule allI, rule allI, rule impI)
    fix w x
    assume x: "fst (run_state (do {
         (res, err) \<leftarrow> route_execute r p run conv;
         State_Monad.return (case err of Some e \<Rightarrow> Inl e | None \<Rightarrow> Inr (out\<lparr>rr_result := res\<rparr>))
       }) w) = Inr x"
    obtain res err v where e: "run_state (route_execute r p run conv) w = ((res, err), v)" by (metis prod.collapse)
    with x have y: "err = None" "x = out\<lparr>rr_result := res\<rparr>" by (auto split: option.splits)
    then obtain ex where ex: "registry_executor (ro_registry r) (tp_tool p) = Inr ex"
      "run_state (run_executor r ex p run conv) w = ((res, err), v)"
      using e by (auto simp: route_execute_def split: sum.splits)
    then obtain n where "err = map_option Err (snd (ex n (clone_map (tp_input p))))"
      "res = map_option (fill_call_id (tp_id p)) (fst (ex n (clone_map (tp_input p))))"
      using run_executor_result [of r ex p run conv w res err] by auto
    with y ex show "rr_approval x = None \<longrightarrow> answers r (tp_tool p) (rr_result x)"
      unfolding answers_def by (auto simp: option.map_comp comp_def cong: option.map_cong)
  qed
  have denied: "yields (\<lambda>out. rr_approval out = None \<longrightarrow> answers r (tp_tool p) (rr_result out)) (deny_result r run conv out)" for out
    unfolding deny_result_def Let_def by (intro yields_bind yields_return) (auto simp: answers_def)
  have asked: "yields (\<lambda>out. rr_approval out = None \<longrightarrow> answers r (tp_tool p) (rr_result out)) (request_approval r run conv out)" for out
    unfolding request_approval_def by (intro yields_bind) (auto split: sum.split intro!: yields_rules)
  show ?thesis
    unfolding propose_def Let_def by (intro yields_bind) (auto split: sum.split intro!: yields_rules exec denied asked)
qed

definition handed :: "router \<Rightarrow> string \<Rightarrow> pass \<Rightarrow> bool" where
  "handed r t z \<longleftrightarrow> (\<forall>y x. z = Again y x \<longrightarrow> answers r t x)"

lemma handed_Done [simp]: "handed r t (Done y)"
  by (simp add: handed_def)

lemma yields_pause_pass: "yields (handed r t) (pause_pass rt p out a resp)"
  unfolding pause_pass_def by (intro yields_rules) (auto simp: handed_def)

lemma yields_executed_pass:
  "answers r t (rr_result out) \<Longrightarrow> yields (handed r t) (executed_pass rt out resp)"
  unfolding executed_pass_def by (intro yields_rules) (auto simp: handed_def)

lemma yields_tool_pass: "yields (handed (rn_router rt) (tp_tool q)) (tool_pass rt p q resp)"
  unfolding tool_pass_def Let_def
proof (rule yields_bind, rule yields_bind, rule yields_or_fail, rule yields_bind, rule yields_bind)
  show "yields (handed (rn_router rt) (tp_tool q))
     (propose (rn_router rt) (rs_id s) (rs_conv s) q \<bind>
      (\<lambda>routed. or_fail rt routed (\<lambda>out.
         record_inference rt (clone_proposal q) out \<bind>
         (\<lambda>inferred. or_return inferred (\<lambda>_.
            record_policy rt (clone_proposal q) out \<bind>
            (\<lambda>decided. or_return decided (\<lambda>_.
               case rr_approval out of
                 None \<Rightarrow> executed_pass rt out resp
               | Some a \<Rightarrow> pause_pass rt (clone_proposal q) out a resp)))))))" for s
    by (rule yields_bind_res [OF propose_yields])
      (auto split: option.split intro!: yields_rules yields_executed_pass yields_pause_pass)
qed

lemma yields_done: "yields (\<lambda>z. \<exists>y. z = Done y) (do { r \<leftarrow> m; State_Monad.return (map_sum id Done r) })"
  by (auto simp: yields_def case_prod_unfold map_sum_def split: sum.splits)

section \<open>What a pass calls\<close>

text \<open>\<open>only t v w\<close>: from \<open>v\<close> to \<open>w\<close> no executor but that of \<open>t\<close> was called, nothing was planned, and the run keeps its proposal.\<close>

definition only :: "string \<Rightarrow> run_world \<Rightarrow> run_world \<Rightarrow> bool" where
  "only t v w \<longleftrightarrow>
     rw_plans w = rw_plans v \<and> rs_proposal (rw_cur w) = rs_proposal (rw_cur v) \<and>
     (\<exists>cs. tw_calls w = tw_calls v @ cs \<and> list_all (\<lambda>c. fst c = t) cs)"

interpretation only: world_order "only t"
proof
  show "only t w w" for w by (simp add: only_def)
  show "only t u w" if "only t u v" "only t v w" for u v w
  proof -
    from that obtain cs ds where "tw_calls v = tw_calls u @ cs" "list_all (\<lambda>c. fst c = t) cs"
      "tw_calls w = tw_calls v @ ds" "list_all (\<lambda>c. fst c = t) ds" by (auto simp: only_def)
    with that show ?thesis unfolding only_def by (intro conjI exI [of _ "cs @ ds"]) simp_all
  qed
qed

lemma only_quiet: "state_io_rel quiet m \<Longrightarrow> state_io_rel (only t) m"
  by (erule io_rel_weaken) (simp add: quiet_def only_def)

lemma only_propose: "state_io_rel (only (tp_tool p)) (propose r run conv p)"
proof (rule io_relI)
  fix w :: run_world
  let ?w = "snd (run_state (propose r run conv p) w)"
  have "same_outside w ?w" by (rule io_relD) (rule outside_propose)
  then have "tool_world.more ?w = tool_world.more w" unfolding same_outside_def by (rule conjunct1)
  note m = more_run_world [OF this]
  show "only (tp_tool p) w ?w"
    unfolding only_def propose_calls_eq
    by (intro conjI exI [of _ "if runs_unasked r p \<and> registered r (tp_tool p) then [(tp_tool p, clone_map (tp_input p))] else []"])
      (simp_all add: m)
qed

lemma only_or_fail: "(\<And>x. r = Inr x \<Longrightarrow> state_io_rel (only t) (k x)) \<Longrightarrow> state_io_rel (only t) (or_fail rt r k)"
  by (cases r) (simp_all add: or_fail_def only.bind only.return only_quiet [OF quiet_fail_run])

lemma only_or_return: "(\<And>x. r = Inr x \<Longrightarrow> state_io_rel (only t) (k x)) \<Longrightarrow> state_io_rel (only t) (or_return r k)"
  unfolding or_return_def by (intro only.rules)

lemma tool_pass_only:
  assumes "run_state (tool_pass rt p q resp) w = (a, w')"
  shows "only (tp_tool q) (w\<lparr>rw_cur := (rw_cur w)\<lparr>rs_proposal := Some (clone_proposal q)\<rparr>\<rparr>) w'"
proof -
  define rest where "rest = (\<lambda>_ :: unit. do {
       recorded \<leftarrow> record_step rt ProposeTool StepCompleted
         (\<lambda>s. s\<lparr>st_proposal := Some (clone_proposal q), st_summary := tp_tool (clone_proposal q)\<rparr>);
       or_fail rt recorded (\<lambda>step.
         do {
           transition rt ToolProposed step
             [(''tool'', GStr (tp_tool (clone_proposal q))), (''tool_call_id'', GStr (tp_id (clone_proposal q))),
              (''planner_source'', GStr (pl_source p)), (''candidate_count'', GInt (int (pl_candidates p)))];
           s \<leftarrow> cur;
           routed \<leftarrow> propose (rn_router rt) (rs_id s) (rs_conv s) q;
           or_fail rt routed (\<lambda>out.
             do {
               inferred \<leftarrow> record_inference rt (clone_proposal q) out;
               or_return inferred (\<lambda>_.
                 do {
                   decided \<leftarrow> record_policy rt (clone_proposal q) out;
                   or_return decided (\<lambda>_.
                     case rr_approval out of
                       Some a \<Rightarrow> pause_pass rt (clone_proposal q) out a resp
                     | None \<Rightarrow> executed_pass rt out resp)
                 })
             })
         })
     })"
  have "state_io_rel (only (tp_tool q)) (rest ())"
    unfolding rest_def
    by (intro only.rules only_or_fail only_or_return only_propose only_quiet quiet_record_step quiet_transition quiet_cur
        quiet_record_inference quiet_record_policy quiet_pause_pass quiet_executed_pass)
  moreover have "run_state (rest ()) (w\<lparr>rw_cur := (rw_cur w)\<lparr>rs_proposal := Some (clone_proposal q)\<rparr>\<rparr>) = (a, w')"
    using assms by (simp add: tool_pass_def Let_def rest_def update_cur_def del: run_state_bind) simp
  ultimately show ?thesis by (rule only.run)
qed

text \<open>What the planner answers in a pass.\<close>

definition planner_answer :: "runtime \<Rightarrow> tool_result option \<Rightarrow> run_world \<Rightarrow> plan res" where
  "planner_answer rt prev w =
     rn_planner rt (rw_plans w)
       \<lparr>pi_conv = rs_conv (rw_cur w), pi_message = rs_message (rw_cur w), pi_index = rs_count (rw_cur w), pi_result = prev,
        pi_proposal = rs_proposal (rw_cur w)\<rparr>"

lemma plan_pass_result:
  assumes "run_state (plan_pass rt prev) w = (r, v)"
  shows "quiet (w\<lparr>rw_plans := Suc (rw_plans w)\<rparr>) v"
    "r = Inr p \<Longrightarrow> \<exists>p0. planner_answer rt prev w = Inr p0 \<and> p = normalize_plan p0 prev"
proof -
  define rest where "rest = (\<lambda>planned. or_fail rt planned (\<lambda>p0.
         do {
           let p = normalize_plan p0 prev;
           update_cur (\<lambda>s. s\<lparr>rs_plan := Some p\<rparr>);
           recorded \<leftarrow> record_step rt PlanStep StepCompleted (fill_plan_step p);
           or_fail rt recorded (\<lambda>plan_step.
             do {
               transition rt Planned plan_step (plan_payload p);
               s \<leftarrow> cur;
               (if pl_preamble p \<noteq> []
                then emit_now rt ((step_event ''assistant.delta'' (rs_id s) (rs_conv s) plan_step)
                  \<lparr>ev_content := pl_preamble p\<rparr>) True
                else State_Monad.return ());
               State_Monad.return (Inr p)
             })
         }))"
  have run: "run_state (rest (planner_answer rt prev w)) (w\<lparr>rw_plans := Suc (rw_plans w)\<rparr>) = (r, v)"
    using assms by (simp add: plan_pass_def rest_def call_planner_def planner_answer_def Let_def del: run_state_bind) simp
  have "state_io_rel quiet (rest x)" for x
    unfolding rest_def Let_def by (intro quiet_handlers) simp_all
  from quiet.run [OF this run] show "quiet (w\<lparr>rw_plans := Suc (rw_plans w)\<rparr>) v" .
  have "yields (\<lambda>p. \<exists>p0. x = Inr p0 \<and> p = normalize_plan p0 prev) (rest x)" for x
    unfolding rest_def Let_def by (intro yields_rules) auto
  then show "r = Inr p \<Longrightarrow> \<exists>p0. planner_answer rt prev w = Inr p0 \<and> p = normalize_plan p0 prev"
    using run yieldsD by fastforce
qed

lemma yields_answer_pass: "yields (\<lambda>z. \<exists>y. z = Done y) (answer_pass rt p resp)"
  unfolding answer_pass_def by (rule yields_bind, rule yields_or_fail, rule yields_done)

lemma yields_stop_pass: "yields (\<lambda>z. \<exists>y. z = Done y) (stop_pass rt p prev resp)"
  unfolding stop_pass_def by (rule yields_done)

lemma loop_pass_driven:
  assumes run: "run_state (loop_pass rt resp prev) w = (a, w')"
    and plans: "\<forall>p. planner_answer rt prev w = Inr p \<longrightarrow> pl_decision p = ''stop'' \<or> pl_decision p = ''answer'' \<or> pl_decision p = ''tool''"
  shows "rw_plans w' = Suc (rw_plans w) \<and>
    (tw_calls w' = tw_calls w \<and> (\<forall>y x. a \<noteq> Inr (Again y x)) \<or>
     (\<exists>p q cs. planner_answer rt prev w = Inr p \<and> pl_decision p = ''tool'' \<and> pl_proposal p = Some q \<and>
        tw_calls w' = tw_calls w @ cs \<and> list_all (\<lambda>c. fst c = tp_tool q) cs \<and>
        (\<forall>y x. a = Inr (Again y x) \<longrightarrow> answers (rn_router rt) (tp_tool q) x \<and>
           (\<exists>q'. rs_proposal (rw_cur w') = Some q' \<and> tp_tool q' = tp_tool q))))"
proof -
  obtain r v where p: "run_state (plan_pass rt prev) w = (r, v)" by fastforce
  note planned = plan_pass_result [OF p]
  have v: "rw_plans v = Suc (rw_plans w)" "tw_calls v = tw_calls w" using planned(1) by (simp_all add: quiet_def)
  have ended: ?thesis if "quiet v w'" "\<forall>y x. a \<noteq> Inr (Again y x)"
    using that v by (simp add: quiet_def)
  show ?thesis
  proof (cases r)
    case (Inl e)
    then have "a = Inl e" "w' = v" using run p by (simp_all add: loop_pass_def or_return_def)
    then show ?thesis using v by simp
  next
    case (Inr p1)
    from planned(2) [OF this] obtain p0 where p0: "planner_answer rt prev w = Inr p0" "p1 = normalize_plan p0 prev" by blast
    from plans p0(1) have p1: "pl_decision p1 = pl_decision p0" "pl_proposal p1 = map_option clone_proposal (pl_proposal p0)"
      by (auto simp: p0(2) normalize_plan_def clone_plan_def)
    from plans p0(1) consider "pl_decision p0 = ''stop''" | "pl_decision p0 = ''answer''" | "pl_decision p0 = ''tool''" by blast
    then show ?thesis
    proof cases
      case 1
      then have m: "run_state (stop_pass rt p1 prev resp) v = (a, w')" using run p Inr p1 by (simp add: loop_pass_def or_return_def)
      show ?thesis
        using ended [OF quiet.run [OF quiet_stop_pass m]] yieldsD [OF yields_stop_pass, of rt p1 prev resp v] m by fastforce
    next
      case 2
      then have m: "run_state (answer_pass rt p1 resp) v = (a, w')" using run p Inr p1 by (simp add: loop_pass_def or_return_def)
      show ?thesis
        using ended [OF quiet.run [OF quiet_answer_pass m]] yieldsD [OF yields_answer_pass, of rt p1 resp v] m by fastforce
    next
      case 3
      show ?thesis
      proof (cases "pl_proposal p0")
        case None
        then have "run_state (or_fail rt (Inl (Err ''planner decided tool execution without a tool proposal'') :: pass res res)
            State_Monad.return) v = (a, w')"
          using run p Inr p1 3 by (simp add: loop_pass_def or_return_def)
        then have "\<exists>e. a = Inl e" "quiet v w'"
          using quiet.run [OF quiet_fail_run] by (auto simp: or_fail_def split: prod.splits)
        then show ?thesis using ended by blast
      next
        case (Some q0)
        then have m: "run_state (tool_pass rt p1 (clone_proposal q0) resp) v = (a, w')"
          using run p Inr p1 3 by (simp add: loop_pass_def or_return_def)
        have t: "tp_tool (clone_proposal q0) = tp_tool q0" by (simp add: clone_proposal_def)
        from tool_pass_only [OF m] obtain cs where cs: "rw_plans w' = rw_plans v" "tw_calls w' = tw_calls v @ cs"
          "list_all (\<lambda>c. fst c = tp_tool q0) cs" "rs_proposal (rw_cur w') = Some (clone_proposal (clone_proposal q0))"
          by (auto simp: only_def t)
        have "answers (rn_router rt) (tp_tool q0) x" if "a = Inr (Again y x)" for y x
          using yieldsD [OF yields_tool_pass m [unfolded that]] by (simp add: handed_def t)
        with cs v p0(1) 3 Some show ?thesis by (auto simp: t)
      qed
    qed
  qed
qed

section \<open>Runs of the agent's planner\<close>

text \<open>The planner asks the clock, the random source and the model as it goes: what it finds is a function of the call.\<close>

definition driven_by :: "runtime \<Rightarrow> agent_planner \<Rightarrow> (nat \<Rightarrow> id_source) \<Rightarrow> (nat \<Rightarrow> prompt list) \<Rightarrow> bool" where
  "driven_by rt a srcs sents \<longleftrightarrow> rn_planner rt = (\<lambda>n i. fst (run_state (agent_plan a (srcs n) i) (sents n)))"

text \<open>The tools that the plans returned by \<open>runbook.plan\<close> name first.\<close>

definition runbook_names :: "router \<Rightarrow> string set" where
  "runbook_names r =
     {t. \<exists>ex n input y. registry_executor (ro_registry r) ''runbook.plan'' = Inr ex \<and> snd (ex n input) = None \<and>
        fst (ex n input) = Some y \<and> next_runbook_tool y = Some t}"

lemma next_runbook_output: "tr_output x = tr_output y \<Longrightarrow> next_runbook_tool x = next_runbook_tool y"
  by (simp add: next_runbook_tool_def first_executable_step_def)

lemma answers_runbook:
  assumes "answers r ''runbook.plan'' (Some x)" "next_runbook_tool x = Some t"
  shows "t \<in> runbook_names r"
proof -
  have "map_of (nm (tr_output x)) ''plan'' \<noteq> None"
    using assms(2) by (auto simp: next_runbook_tool_def first_executable_step_def split: option.splits)
  with assms(1) obtain ex n input where ex: "registry_executor (ro_registry r) ''runbook.plan'' = Inr ex" "snd (ex n input) = None"
    "map_option tr_output (Some x) = map_option tr_output (fst (ex n input))"
    by (auto simp: answers_def)
  then obtain y where "fst (ex n input) = Some y" "tr_output x = tr_output y" by (cases "fst (ex n input)") auto
  with ex assms(2) next_runbook_output [of x y] show ?thesis unfolding runbook_names_def by auto
qed

text \<open>The result handed to the planner answers the run's proposal.\<close>

definition linked :: "router \<Rightarrow> tool_result option \<Rightarrow> run_world \<Rightarrow> bool" where
  "linked r prev w \<longleftrightarrow>
     (case prev of None \<Rightarrow> True | Some x \<Rightarrow> \<exists>q. rs_proposal (rw_cur w) = Some q \<and> answers r (tp_tool q) (Some x))"

definition planned_tools :: "agent_planner \<Rightarrow> router \<Rightarrow> string \<Rightarrow> bool" where
  "planned_tools a r t \<longleftrightarrow>
     catalog_tool (hp_catalog (planner_engine a)) t \<noteq> None \<or> t \<in> set follow_tools \<or> t \<in> runbook_names r"

definition allowance :: "tool_result option \<Rightarrow> run_world \<Rightarrow> nat" where
  "allowance prev w =
     (case prev of None \<Rightarrow> 6
      | Some _ \<Rightarrow> (case rs_proposal (rw_cur w) of None \<Rightarrow> 1 | Some q \<Rightarrow> Suc (tool_rank (tp_tool q))))"

lemma count_step_proposal [simp]:
  "rs_proposal (rw_cur (count_step w)) = rs_proposal (rw_cur w)" "allowance prev (count_step w) = allowance prev w"
  "linked r prev (count_step w) = linked r prev w"
  by (simp_all add: count_step_def allowance_def linked_def split: option.split)

text \<open>One pass: what was called, and how far the chain has come.\<close>

lemma driven_pass:
  assumes "driven_by rt a srcs sents" "linked (rn_router rt) prev w" "run_state (loop_pass rt resp prev) w = (z, w')"
  shows "rw_plans w' = Suc (rw_plans w)"
    "\<exists>cs. tw_calls w' = tw_calls w @ cs \<and> list_all (\<lambda>c. planned_tools a (rn_router rt) (fst c)) cs"
    "z = Inr (Again y x) \<Longrightarrow> linked (rn_router rt) x w'"
    "z = Inr (Again y x) \<Longrightarrow> x \<noteq> None \<Longrightarrow> ''runbook.plan'' \<notin> runbook_names (rn_router rt) \<Longrightarrow> Suc (allowance x w') \<le> allowance prev w"
    "z = Inr (Again y x) \<Longrightarrow> \<exists>t. answers (rn_router rt) t x"
    "''runbook.plan'' \<notin> runbook_names (rn_router rt) \<Longrightarrow>
       length (tw_calls w') \<le> length (tw_calls w) + 1 \<and> (tw_calls w' = tw_calls w \<or> 2 \<le> allowance prev w)"
proof -
  let ?i = "\<lparr>pi_conv = rs_conv (rw_cur w), pi_message = rs_message (rw_cur w), pi_index = rs_count (rw_cur w), pi_result = prev,
        pi_proposal = rs_proposal (rw_cur w)\<rparr>"
  have plan: "fst (run_state (agent_plan a (srcs (rw_plans w)) ?i) (sents (rw_plans w))) = Inr p" if "planner_answer rt prev w = Inr p" for p
    using that assms(1) by (simp add: planner_answer_def driven_by_def)
  note next_p = agent_plan_next [OF plan]
  have kinds: "\<forall>p. planner_answer rt prev w = Inr p \<longrightarrow> pl_decision p = ''stop'' \<or> pl_decision p = ''answer'' \<or> pl_decision p = ''tool''"
    using next_p by auto
  note pass = loop_pass_driven [OF assms(3) kinds]
  from pass show "rw_plans w' = Suc (rw_plans w)" by simp
  have tool: "planned_tools a (rn_router rt) (tp_tool q) \<and>
      (''runbook.plan'' \<notin> runbook_names (rn_router rt) \<longrightarrow> Suc (Suc (tool_rank (tp_tool q))) \<le> allowance prev w)"
    if p: "planner_answer rt prev w = Inr p" and q: "pl_proposal p = Some q" for p q
  proof (cases prev)
    case None
    then have "catalog_tool (hp_catalog (planner_engine a)) (tp_tool q) \<noteq> None" using next_p [OF p] q by auto
    with None tool_rank_le(1) [of "tp_tool q"] show ?thesis by (simp add: planned_tools_def allowance_def)
  next
    case (Some r)
    then obtain l where l: "rs_proposal (rw_cur w) = Some l" "may_follow (tp_tool l) r (tp_tool q)"
      using next_p [OF p] q by auto
    from assms(2) Some l(1) have ans: "answers (rn_router rt) (tp_tool l) (Some r)" by (simp add: linked_def)
    show ?thesis
    proof (cases "tp_tool l = ''runbook.plan''")
      case True
      then have "tp_tool q \<in> runbook_names (rn_router rt)"
        using l(2) ans answers_runbook by (simp add: may_follow_def)
      moreover have "Suc (Suc (tool_rank (tp_tool q))) \<le> allowance prev w" if "tp_tool q \<noteq> ''runbook.plan''"
        using Some l(1) True tool_rank_le(2) [OF that] by (simp add: allowance_def follow_ranks)
      ultimately show ?thesis unfolding planned_tools_def by metis
    next
      case False
      with l(2) have "tp_tool q \<in> set follow_tools" "tool_rank (tp_tool q) < tool_rank (tp_tool l)" by (simp_all add: may_follow_def)
      with Some l(1) show ?thesis by (simp add: planned_tools_def allowance_def)
    qed
  qed
  from pass show "\<exists>cs. tw_calls w' = tw_calls w @ cs \<and> list_all (\<lambda>c. planned_tools a (rn_router rt) (fst c)) cs"
  proof (elim conjE disjE exE)
    fix p q cs
    assume h: "planner_answer rt prev w = Inr p" "pl_proposal p = Some q" "tw_calls w' = tw_calls w @ cs"
      "list_all (\<lambda>c. fst c = tp_tool q) cs"
    then have "list_all (\<lambda>c. planned_tools a (rn_router rt) (fst c)) cs" using tool [OF h(1,2)] by (auto simp: list_all_iff)
    with h(3) show ?thesis by blast
  qed (auto intro: exI [of _ "[]"])
  show "''runbook.plan'' \<notin> runbook_names (rn_router rt) \<Longrightarrow>
      length (tw_calls w') \<le> length (tw_calls w) + 1 \<and> (tw_calls w' = tw_calls w \<or> 2 \<le> allowance prev w)"
    using pass tool spends_loop_pass [of rt resp prev] assms(3) unfolding spends_def by (fastforce dest: spec [of _ w])
  have again: "\<exists>p q q'. planner_answer rt prev w = Inr p \<and> pl_proposal p = Some q \<and> answers (rn_router rt) (tp_tool q) x \<and>
      rs_proposal (rw_cur w') = Some q' \<and> tp_tool q' = tp_tool q" if "z = Inr (Again y x)"
    using pass that by blast
  then show "z = Inr (Again y x) \<Longrightarrow> linked (rn_router rt) x w'" "z = Inr (Again y x) \<Longrightarrow> \<exists>t. answers (rn_router rt) t x"
    by (auto simp: linked_def split: option.split)
  show "z = Inr (Again y x) \<Longrightarrow> x \<noteq> None \<Longrightarrow> ''runbook.plan'' \<notin> runbook_names (rn_router rt) \<Longrightarrow> Suc (allowance x w') \<le> allowance prev w"
    using again tool by (fastforce simp: allowance_def split: option.splits)
qed

lemma driven_calls:
  "continue_workflow rt resp prev w = (r, w') \<Longrightarrow> driven_by rt a srcs sents \<Longrightarrow> linked (rn_router rt) prev w \<Longrightarrow>
     \<exists>cs. tw_calls w' = tw_calls w @ cs \<and> list_all (\<lambda>c. planned_tools a (rn_router rt) (fst c)) cs"
proof (induction rt resp prev w rule: continue_workflow.induct)
  case (1 rt resp prev w)
  show ?case
  proof (cases "rs_max (rw_cur w) \<le> rs_count (rw_cur w)")
    case True
    have "quiet w w'"
      using 1(2) True io_relD [OF quiet_fail_run, where w = w] by (auto simp: continue_workflow.simps [of rt resp prev w] Let_def)
    then show ?thesis by (intro exI [of _ "[]"]) (simp add: quiet_def)
  next
    case False
    obtain z v where z: "run_state (loop_pass rt resp prev) (count_step w) = (z, v)" by fastforce
    note pass = driven_pass [OF 1(3) _ z]
    from pass(2) 1(4) obtain cs where cs: "tw_calls v = tw_calls w @ cs" "list_all (\<lambda>c. planned_tools a (rn_router rt) (fst c)) cs"
      by auto
    show ?thesis
    proof (cases "\<exists>y x. z = Inr (Again y x)")
      case True
      then obtain y x where y: "z = Inr (Again y x)" by blast
      from pass(3) [OF _ y] 1(4) have "linked (rn_router rt) x v" by simp
      moreover have "continue_workflow rt y x v = (r, w')"
        using 1(2) False z y by (simp add: continue_workflow.simps [of rt resp prev w])
      ultimately obtain ds where "tw_calls w' = tw_calls v @ ds" "list_all (\<lambda>c. planned_tools a (rn_router rt) (fst c)) ds"
        using 1(1) [OF False z [symmetric] y refl] 1(3) by blast
      with cs show ?thesis by (intro exI [of _ "cs @ ds"]) simp
    next
      case ended: False
      with 1(2) False z have "w' = v"
        by (auto simp: continue_workflow.simps [of rt resp prev w] split: sum.splits pass.splits)
      with cs show ?thesis by blast
    qed
  qed
qed

definition always_answer :: "router \<Rightarrow> bool" where
  "always_answer r \<longleftrightarrow>
     (\<forall>t ex n input. registry_executor (ro_registry r) t = Inr ex \<longrightarrow> snd (ex n input) = None \<longrightarrow> fst (ex n input) \<noteq> None)"

lemma always_answers: "always_answer r \<Longrightarrow> answers r t x \<Longrightarrow> x \<noteq> None"
proof -
  assume a: "always_answer r" "answers r t x"
  show "x \<noteq> None"
  proof
    assume "x = None"
    with a(2) obtain ex n input where "registry_executor (ro_registry r) t = Inr ex" "snd (ex n input) = None" "fst (ex n input) = None"
      by (auto simp: answers_def)
    with a(1) show False unfolding always_answer_def by blast
  qed
qed

lemma allowance_pos: "1 \<le> allowance prev w"
  by (simp add: allowance_def split: option.split)

lemma driven_cost:
  "continue_workflow rt resp prev w = (r, w') \<Longrightarrow> driven_by rt a srcs sents \<Longrightarrow> linked (rn_router rt) prev w \<Longrightarrow>
     always_answer (rn_router rt) \<Longrightarrow> ''runbook.plan'' \<notin> runbook_names (rn_router rt) \<Longrightarrow>
     rw_plans w' \<le> rw_plans w + allowance prev w \<and> length (tw_calls w') + 1 \<le> length (tw_calls w) + allowance prev w"
proof (induction rt resp prev w rule: continue_workflow.induct)
  case (1 rt resp prev w)
  note pos = allowance_pos [of prev w]
  show ?case
  proof (cases "rs_max (rw_cur w) \<le> rs_count (rw_cur w)")
    case True
    have "quiet w w'"
      using 1(2) True io_relD [OF quiet_fail_run, where w = w] by (auto simp: continue_workflow.simps [of rt resp prev w] Let_def)
    then show ?thesis using pos by (simp add: quiet_def)
  next
    case False
    obtain z v where z: "run_state (loop_pass rt resp prev) (count_step w) = (z, v)" by fastforce
    note pass = driven_pass [OF 1(3) _ z, simplified, OF 1(4)]
    note v = pass(1) pass(6) [OF 1(6)]
    show ?thesis
    proof (cases "\<exists>y x. z = Inr (Again y x)")
      case True
      then obtain y x where y: "z = Inr (Again y x)" by blast
      from pass(5) [OF y] always_answers [OF 1(5)] have "x \<noteq> None" by blast
      with pass(4) [OF y] 1(6) have less: "Suc (allowance x v) \<le> allowance prev w" by simp
      have "continue_workflow rt y x v = (r, w')"
        using 1(2) False z y by (simp add: continue_workflow.simps [of rt resp prev w])
      from 1(1) [OF False z [symmetric] y refl this 1(3) pass(3) [OF y] 1(5,6)] v less show ?thesis by linarith
    next
      case ended: False
      with 1(2) False z have "w' = v"
        by (auto simp: continue_workflow.simps [of rt resp prev w] split: sum.splits pass.splits)
      with v pos show ?thesis by auto
    qed
  qed
qed

section \<open>Properties\<close>

lemma run_message_driven:
  obtains (ended) "tw_calls (snd (run_state (run_message rt conv content) w)) = tw_calls w"
      "rw_plans (snd (run_state (run_message rt conv content) w)) = rw_plans w"
    | (looped) resp u r where "continue_workflow rt resp None u = (r, snd (run_state (run_message rt conv content) w))"
      "tw_calls u = tw_calls w" "rw_plans u = rw_plans w"
proof -
  let ?v = "fresh_run rt conv content w"
  obtain b u where b: "run_state (begin_run rt conv content) ?v = (b, u)" by fastforce
  have q: "quiet ?v u" using quiet.run [OF quiet_begin_run b] .
  show ?thesis
  proof (cases b)
    case (Inl e)
    then have "snd (run_state (run_message rt conv content) w) = u"
      using b by (simp add: run_message_body run_body_def or_return_def)
    with q ended show ?thesis by (simp add: quiet_def)
  next
    case (Inr x)
    obtain r z where c: "continue_workflow rt (response0 (new_run_id w)) None u = (r, z)" by fastforce
    with b Inr have "snd (run_state (run_message rt conv content) w) = z"
      by (simp add: run_message_body run_body_def or_return_def continue_run_def)
    with c q looped show ?thesis by (simp add: quiet_def)
  qed
qed

text \<open>A runtime that the planner drives without a chat model, and with the two echoing tools of \<open>router0\<close>.\<close>

definition driven0 :: runtime where
  "driven0 = (runtime0 no_plan)\<lparr>rn_planner := (\<lambda>n i. fst (run_state (agent_plan (bare_planner []) (tw_source world0) i) []))\<rparr>"

lemma driven0: "driven_by driven0 (bare_planner []) (\<lambda>_. tw_source world0) (\<lambda>_. [])" "rn_router driven0 = router0 None"
  by (simp_all add: driven_by_def driven0_def runtime0_def)

text \<open>C27: with the agent's planner, a run started by a message only calls tools of the planner's catalog, the four tools that
  follow tests, patches and inspections, and tools that a runbook plan names, whatever the chat model replies.\<close>

theorem driven_run_tools:
  assumes "driven_by rt a srcs sents"
  shows "\<exists>cs. tw_calls (snd (run_state (run_message rt conv content) w)) = tw_calls w @ cs \<and>
    list_all (\<lambda>c. planned_tools a (rn_router rt) (fst c)) cs"
proof (cases rule: run_message_driven [of rt conv content w])
  case ended
  then show ?thesis by (intro exI [of _ "[]"]) simp
next
  case (looped resp u r)
  have "linked (rn_router rt) None u" by (simp add: linked_def)
  from driven_calls [OF looped(1) assms this] looped(2) show ?thesis by simp
qed

theorem driven_run_tools_witness:
  "\<exists>cs. tw_calls (snd (run_state (run_message driven0 [] ''hello'') (run_world0 [] (state0 [] Planned)))) = tw_calls (run_world0 [] (state0 [] Planned)) @ cs \<and>
     list_all (\<lambda>c. planned_tools (bare_planner []) (rn_router driven0) (fst c)) cs"
  by (rule driven_run_tools [OF driven0(1)])



section \<open>Runbook plans\<close>

lemma first_tool_step_in:
  "first_tool_step True (map runbook_step_val ss) = Some (t, m, u) \<Longrightarrow> \<exists>s \<in> set ss. bs_tool s = t \<and> t \<noteq> []"
  by (induction ss) (auto simp: runbook_step_val_def str_at_def omit_str_def omit_map_def Let_def split: if_splits)

text \<open>The plans that \<open>runbook.plan\<close> makes name operations tools only: the planner's chain ends after them.\<close>

lemma runbook_plan_tools:
  assumes "map_of (nm (tr_output y)) ''plan'' = Some (runbook_plan_val p)" "bp_steps p = plan_steps 1 host ts"
    "next_runbook_tool y = Some t"
  shows "t \<in> set runbook_tools"
proof -
  from assms(1,3) obtain m u where "first_tool_step True (map runbook_step_val (bp_steps p)) = Some (t, m, u)"
    by (auto simp: next_runbook_tool_def first_executable_step_def runbook_plan_val_def omit_str_def split: if_splits)
  from first_tool_step_in [OF this] obtain s where "s \<in> set (bp_steps p)" "bs_tool s = t" "t \<noteq> []" by blast
  with plan_steps_tools assms(2) show ?thesis by auto
qed

end
