(* ===== verification/Diff_Parse.thy ===== *)
theory Diff_Parse
  imports Go_Outcome Core_Values
begin

text \<open>
  The unified-diff parser of \<open>internal/tools/code/patch_validate.go\<close>. The nested loops of
  \<open>parseUnifiedDiff\<close> work on an index into the lines; the loop over a file's hunks need not end, so it is a
  partial function and None is the run that does not return.
\<close>

section \<open>Data\<close>

record unified_line =
  ul_kind :: char
  ul_text :: string

record unified_hunk =
  uh_old_start :: int
  uh_old_count :: int
  uh_new_start :: int
  uh_new_count :: int
  uh_section :: string
  uh_lines :: "unified_line list"

record file_patch =
  fp_old :: string
  fp_new :: string
  fp_path :: string
  fp_op :: string
  fp_hunks :: "unified_hunk list"

section \<open>Paths and headers\<close>

definition dev_null :: string where
  "dev_null = ''/dev/null''"

text \<open>\<open>filepath.ToSlash\<close> is the identity where the separator is the slash.\<close>

definition normalize_diff_path :: "string \<Rightarrow> string" where
  "normalize_diff_path p =
     (let q = takeWhile (\<lambda>c. c \<noteq> CHR 0x09 \<and> c \<noteq> CHR '' '') (trim_space p)
      in if q = dev_null then q else trim_prefix (trim_prefix q ''a/'') ''b/'')"

definition diff_operation :: "string \<Rightarrow> string \<Rightarrow> string" where
  "diff_operation old new =
     (if old = dev_null then ''create''
      else if new = dev_null then ''delete''
      else if old \<noteq> [] \<and> new \<noteq> [] \<and> old \<noteq> new then ''rename_or_modify''
      else ''modify'')"

text \<open>
  The groups of \<open>^@@ -(\d+)(?:,(\d+))? \+(\d+)(?:,(\d+))? @@(.*)$\<close>: what follows a run of digits is no
  digit, so the leftmost match takes each run whole.
\<close>

definition eat :: "string \<Rightarrow> string \<Rightarrow> string option" where
  "eat p s = (if has_prefix s p then Some (drop (length p) s) else None)"

definition eat_digits :: "string \<Rightarrow> (string \<times> string) option" where
  "eat_digits s = (if takeWhile is_digit s = [] then None else Some (takeWhile is_digit s, dropWhile is_digit s))"

definition eat_count :: "string \<Rightarrow> string \<times> string" where
  "eat_count s =
     (case eat '','' s of
        None \<Rightarrow> ([], s)
      | Some t \<Rightarrow> (case eat_digits t of None \<Rightarrow> ([], s) | Some r \<Rightarrow> r))"

definition hunk_groups :: "string \<Rightarrow> (string \<times> string \<times> string \<times> string \<times> string) option" where
  "hunk_groups s =
     do {
       s \<leftarrow> eat ''@@ -'' s;
       (g1, s) \<leftarrow> eat_digits s;
       let (g2, s) = eat_count s;
       s \<leftarrow> eat '' +'' s;
       (g3, s) \<leftarrow> eat_digits s;
       let (g4, s) = eat_count s;
       s \<leftarrow> eat '' @@'' s;
       Some (g1, g2, g3, g4, s)
     }"

definition parse_hunk_count :: "string \<Rightarrow> int" where
  "parse_hunk_count s = (if s = [] then 1 else atoi s)"

definition parse_hunk_header :: "string \<Rightarrow> unified_hunk res" where
  "parse_hunk_header l =
     (case hunk_groups l of
        None \<Rightarrow> Inl (Err (''invalid hunk header: '' @ l))
      | Some (g1, g2, g3, g4, g5) \<Rightarrow>
          Inr \<lparr>uh_old_start = atoi g1, uh_old_count = parse_hunk_count g2,
               uh_new_start = atoi g3, uh_new_count = parse_hunk_count g4,
               uh_section = trim_space g5, uh_lines = []\<rparr>)"

definition hunk_old_lines :: "unified_hunk \<Rightarrow> string list" where
  "hunk_old_lines h = map ul_text (filter (\<lambda>l. ul_kind l = CHR '' '' \<or> ul_kind l = CHR ''-'') (uh_lines h))"

definition hunk_new_lines :: "unified_hunk \<Rightarrow> string list" where
  "hunk_new_lines h = map ul_text (filter (\<lambda>l. ul_kind l = CHR '' '' \<or> ul_kind l = CHR ''+'') (uh_lines h))"

definition validate_hunk_counts :: "unified_hunk \<Rightarrow> go_error option" where
  "validate_hunk_counts h =
     (let old = int (length (hunk_old_lines h)); new = int (length (hunk_new_lines h)) in
      if old \<noteq> uh_old_count h
      then Some (Err (''hunk old line count mismatch at -'' @ show_int (uh_old_start h) @ '': header='' @
             show_int (uh_old_count h) @ '' actual='' @ show_int old))
      else if new \<noteq> uh_new_count h
      then Some (Err (''hunk new line count mismatch at +'' @ show_int (uh_new_start h) @ '': header='' @
             show_int (uh_new_count h) @ '' actual='' @ show_int new))
      else None)"

section \<open>The loops\<close>

definition no_newline :: string where
  "no_newline = CHR 0x5C # '' No newline at end of file''"

text \<open>The lines of one hunk from line \<open>i\<close> on; \<open>line[0]\<close> panics on an empty line that is not the last.\<close>

function hunk_body :: "string list \<Rightarrow> nat \<Rightarrow> unified_line list \<Rightarrow> (unified_line list \<times> nat) go" where
  "hunk_body lines i acc =
     (if length lines \<le> i \<or> has_prefix (lines ! i) ''@@'' \<or> has_prefix (lines ! i) ''--- '' then Ret (acc, i)
      else if lines ! i = [] \<and> i = length lines - 1 then Ret (acc, i)
      else if lines ! i = no_newline then hunk_body lines (i + 1) acc
      else
        (case lines ! i of
           [] \<Rightarrow> Panic
         | c # s \<Rightarrow>
             if c \<noteq> CHR '' '' \<and> c \<noteq> CHR ''+'' \<and> c \<noteq> CHR ''-''
             then Fail (Err (''invalid unified diff line prefix '' @ quote [c]))
             else hunk_body lines (i + 1) (acc @ [\<lparr>ul_kind = c, ul_text = s\<rparr>])))"
  by pat_completeness auto
termination
  by (relation "measure (\<lambda>(lines, i, acc). length lines - i)") auto

declare hunk_body.simps [simp del]

text \<open>One round of the loop over a file's hunks at line \<open>i\<close>.\<close>

datatype hunk_step = HunksEnd nat | HunksSkip nat | HunkFound unified_hunk nat

definition hunk_step_at :: "string list \<Rightarrow> nat \<Rightarrow> hunk_step go" where
  "hunk_step_at lines i =
     (if length lines \<le> i then Ret (HunksEnd i)
      else if has_prefix (lines ! i) ''--- '' then Ret (HunksEnd (i - 1))
      else if \<not> has_prefix (lines ! i) ''@@'' then Ret (HunksSkip (i + 1))
      else
        go_bind (go_of_res (parse_hunk_header (lines ! i))) (\<lambda>h.
          go_bind (hunk_body lines (i + 1) []) (\<lambda>(ls, j).
            let h = h\<lparr>uh_lines := ls\<rparr>
            in case validate_hunk_counts h of
                 Some e \<Rightarrow> Fail e
               | None \<Rightarrow> Ret (HunkFound h (j - 1)))))"

partial_function (option) parse_hunks ::
  "string list \<Rightarrow> nat \<Rightarrow> unified_hunk list \<Rightarrow> (unified_hunk list \<times> nat) go option" where
  [code]: "parse_hunks lines i hs =
     (case hunk_step_at lines i of
        Panic \<Rightarrow> Some Panic
      | Fail e \<Rightarrow> Some (Fail e)
      | Ret (HunksEnd j) \<Rightarrow> Some (Ret (hs, j))
      | Ret (HunksSkip j) \<Rightarrow> parse_hunks lines j hs
      | Ret (HunkFound h j) \<Rightarrow> parse_hunks lines j (hs @ [h]))"

definition patch_paths :: "string \<Rightarrow> string \<Rightarrow> file_patch res" where
  "patch_paths l m =
     (let old = normalize_diff_path (trim_space (trim_prefix l ''--- ''));
          new = normalize_diff_path (trim_space (trim_prefix m ''+++ ''));
          path = (if new = [] \<or> new = dev_null then old else new)
      in if path = [] \<or> path = dev_null then Inl (Err ''unified diff file path is required'')
         else Inr \<lparr>fp_old = old, fp_new = new, fp_path = path, fp_op = diff_operation old new, fp_hunks = []\<rparr>)"

partial_function (option) parse_files :: "string list \<Rightarrow> nat \<Rightarrow> file_patch list \<Rightarrow> file_patch list go option" where
  [code]: "parse_files lines i acc =
     (if length lines \<le> i then Some (Ret acc)
      else if \<not> has_prefix (lines ! i) ''--- '' then parse_files lines (i + 1) acc
      else if length lines \<le> i + 1 \<or> \<not> has_prefix (lines ! (i + 1)) ''+++ ''
      then Some (Fail (Err ''unified diff missing +++ header''))
      else
        (case patch_paths (lines ! i) (lines ! (i + 1)) of
           Inl e \<Rightarrow> Some (Fail e)
         | Inr p \<Rightarrow>
             Option.bind (parse_hunks lines (i + 2) []) (\<lambda>r.
               case r of
                 Panic \<Rightarrow> Some Panic
               | Fail e \<Rightarrow> Some (Fail e)
               | Ret (hs, j) \<Rightarrow>
                   if hs = []
                   then Some (Fail (Err (''unified diff for '' @ fp_path p @ '' has no hunks'')))
                   else parse_files lines (j + 1) (acc @ [p\<lparr>fp_hunks := hs\<rparr>]))))"

definition parse_unified_diff :: "string \<Rightarrow> file_patch list go option" where
  "parse_unified_diff diff =
     map_option
       (\<lambda>r. case r of Ret [] \<Rightarrow> Fail (Err ''no unified diff file headers found'') | _ \<Rightarrow> r)
       (parse_files (split_on (CHR 0x0A) diff) 0 [])"

definition file_stats :: "file_patch \<Rightarrow> nat \<times> nat" where
  "file_stats p =
     (let ls = concat (map uh_lines (fp_hunks p))
      in (length (filter (\<lambda>l. ul_kind l = CHR ''+'') ls), length (filter (\<lambda>l. ul_kind l = CHR ''-'') ls)))"

section \<open>Previews\<close>

definition nl :: string where
  "nl = [CHR 0x0A]"

definition split_lines :: "string \<Rightarrow> string list" where
  "split_lines s = (if s = [] then [] else split_on (CHR 0x0A) (trim_suffix s nl))"

definition unified_diff :: "string \<Rightarrow> string \<Rightarrow> string \<Rightarrow> string" where
  "unified_diff path old new =
     (if old = new then []
      else ''--- a/'' @ path @ nl @ ''+++ b/'' @ path @ nl @ ''@@ -1,'' @ show_nat (length (split_lines old)) @
        '' +1,'' @ show_nat (length (split_lines new)) @ '' @@'' @ nl
        @ concat (map (\<lambda>l. ''-'' @ l @ nl) (split_lines old))
        @ concat (map (\<lambda>l. ''+'' @ l @ nl) (split_lines new)))"

end
