(* ===== verification/Diff_Facts.thy ===== *)
theory Diff_Facts
  imports Diff_Parse
begin

text \<open>
  What the diff parser returns: when it ends, what it makes of the previews \<open>unifiedDiff\<close> prints, and the
  inputs on which it panics or never returns.
\<close>

section \<open>Lines\<close>

lemma split_on_append_sep: "c \<notin> set l \<Longrightarrow> split_on c (l @ c # s) = l # split_on c s"
  by (induction l) (auto split: list.split)

lemma split_on_lines:
  "list_all (\<lambda>l. c \<notin> set l) ls \<Longrightarrow> split_on c (concat (map (\<lambda>l. l @ [c]) ls) @ s) = ls @ split_on c s"
  by (induction ls) (simp_all add: split_on_append_sep)

definition unlines :: "string list \<Rightarrow> string" where
  "unlines ls = concat (map (\<lambda>l. l @ nl) ls)"

lemma split_unlines: "list_all (\<lambda>l. CHR 0x0A \<notin> set l) ls \<Longrightarrow> split_on (CHR 0x0A) (unlines ls @ s) = ls @ split_on (CHR 0x0A) s"
  using split_on_lines [of "CHR 0x0A" ls s] by (simp add: unlines_def nl_def)

lemma split_lines_no_nl: "list_all (\<lambda>l. CHR 0x0A \<notin> set l) (split_lines s)"
  using split_on_no_sep by (auto simp: split_lines_def list_all_iff)

lemma split_lines_Nil_iff [simp]: "split_lines s = [] \<longleftrightarrow> s = []"
  by (simp add: split_lines_def)

lemma nth_append_length_plus: "(xs @ ys) ! (length xs + n) = ys ! n"
  by simp

section \<open>Hunk bodies\<close>

definition body_line :: "string \<Rightarrow> bool" where
  "body_line l \<longleftrightarrow>
     l \<noteq> [] \<and> hd l \<in> {CHR '' '', CHR ''+'', CHR ''-''} \<and> \<not> has_prefix l ''--- ''"

definition to_line :: "string \<Rightarrow> unified_line" where
  "to_line l = \<lparr>ul_kind = hd l, ul_text = tl l\<rparr>"

lemma body_line_facts:
  assumes "body_line l"
  shows "\<not> has_prefix l ''@@''" "\<not> has_prefix l ''--- ''" "l \<noteq> no_newline" "l \<noteq> []"
  using assms by (cases l; auto simp: body_line_def no_newline_def)+

lemma hunk_body_lines:
  "list_all body_line bs \<Longrightarrow>
     hunk_body (pre @ bs @ post) (length pre) acc =
     hunk_body (pre @ bs @ post) (length pre + length bs) (acc @ map to_line bs)"
proof (induction bs arbitrary: pre acc)
  case Nil
  then show ?case by simp
next
  case (Cons b bs)
  obtain c s where b: "b = c # s" using Cons.prems by (cases b) (auto simp: body_line_def)
  have f: "body_line b" using Cons.prems by simp
  have "hunk_body (pre @ (b # bs) @ post) (length pre) acc =
      hunk_body (pre @ (b # bs) @ post) (length pre + 1) (acc @ [to_line b])"
    using f body_line_facts [OF f] b
    by (subst hunk_body.simps) (auto simp: to_line_def body_line_def)
  also have "\<dots> = hunk_body ((pre @ [b]) @ bs @ post) (length (pre @ [b])) (acc @ [to_line b])"
    by simp
  also have "\<dots> = hunk_body ((pre @ [b]) @ bs @ post) (length (pre @ [b]) + length bs) ((acc @ [to_line b]) @ map to_line bs)"
    using Cons.prems by (intro Cons.IH) simp
  finally show ?case by simp
qed

lemma hunk_body_last: "hunk_body (pre @ [[]]) (length pre) acc = Ret (acc, length pre)"
  by (subst hunk_body.simps) simp

lemma hunk_body_empty_line:
  "post \<noteq> [] \<Longrightarrow> hunk_body (pre @ [] # post) (length pre) acc = Panic"
  by (subst hunk_body.simps) (simp add: no_newline_def)

lemma hunk_body_progress: "hunk_body lines i acc = Ret (ls, j) \<Longrightarrow> i \<le> j"
proof (induction lines i acc rule: hunk_body.induct)
  case (1 lines i acc)
  note unfold = hunk_body.simps [of lines i acc]
  show ?case
  proof (cases "length lines \<le> i \<or> has_prefix (lines ! i) ''@@'' \<or> has_prefix (lines ! i) ''--- '' \<or>
      lines ! i = [] \<and> i = length lines - 1")
    case True
    with 1(3) show ?thesis by (auto simp: unfold split: if_splits)
  next
    case False
    note go = False
    show ?thesis
    proof (cases "lines ! i = no_newline")
      case True
      with 1(3) go have "hunk_body lines (i + 1) acc = Ret (ls, j)"
        by (simp add: unfold split: if_splits) (simp add: no_newline_def)?
      with 1(1) go True show ?thesis by simp
    next
      case False
      with 1(3) go obtain c s where cs: "lines ! i = c # s" "c = CHR '' '' \<or> c = CHR ''+'' \<or> c = CHR ''-''"
        "hunk_body lines (i + 1) (acc @ [\<lparr>ul_kind = c, ul_text = s\<rparr>]) = Ret (ls, j)"
        by (cases "lines ! i") (auto simp: unfold split: if_splits)
      have "i + 1 \<le> j"
        using go False cs by (intro 1(2) [OF _ _ _ cs(1)]) auto
      then show ?thesis by simp
    qed
  qed
qed

section \<open>The loop over hunks\<close>

lemma parse_hunks_step:
  "hunk_step_at l i = Ret (HunksEnd j) \<Longrightarrow> parse_hunks l i hs = Some (Ret (hs, j))"
  "hunk_step_at l i = Ret (HunksSkip j) \<Longrightarrow> parse_hunks l i hs = parse_hunks l j hs"
  "hunk_step_at l i = Ret (HunkFound h j) \<Longrightarrow> parse_hunks l i hs = parse_hunks l j (hs @ [h])"
  "hunk_step_at l i = Panic \<Longrightarrow> parse_hunks l i hs = Some Panic"
  by (simp_all add: parse_hunks.simps [of l i])

lemma parse_files_step:
  assumes "i + 1 < length l" "has_prefix (l ! i) ''--- ''" "has_prefix (l ! (i + 1)) ''+++ ''"
    "patch_paths (l ! i) (l ! (i + 1)) = Inr p"
  shows "parse_hunks l (i + 2) [] = Some (Ret (hs, j)) \<Longrightarrow> hs \<noteq> [] \<Longrightarrow>
      parse_files l i acc = parse_files l (j + 1) (acc @ [p\<lparr>fp_hunks := hs\<rparr>])"
    and "parse_hunks l (i + 2) [] = Some Panic \<Longrightarrow> parse_files l i acc = Some Panic"
    and "parse_hunks l (i + 2) [] = None \<Longrightarrow> parse_files l i acc = None"
  using assms by (simp_all add: parse_files.simps [of l i])

text \<open>Every hunk header is followed by a line of its hunk.\<close>

definition proper_hunks :: "string list \<Rightarrow> bool" where
  "proper_hunks lines \<longleftrightarrow>
     (\<forall>i < length lines. has_prefix (lines ! i) ''@@'' \<longrightarrow>
        i + 1 < length lines \<and> \<not> has_prefix (lines ! (i + 1)) ''@@'' \<and> \<not> has_prefix (lines ! (i + 1)) ''--- '' \<and>
        \<not> (lines ! (i + 1) = [] \<and> i + 1 = length lines - 1))"

lemma hunk_step_progress:
  assumes "proper_hunks lines"
  shows "hunk_step_at lines i = Ret (HunkFound h j) \<Longrightarrow> i < j \<and> i < length lines"
    and "hunk_step_at lines i = Ret (HunksSkip j) \<Longrightarrow> i < j \<and> i < length lines"
    and "hunk_step_at lines i = Ret (HunksEnd j) \<Longrightarrow> i - 1 \<le> j"
proof -
  show "i < j \<and> i < length lines" if "hunk_step_at lines i = Ret (HunkFound h j)"
  proof -
    from that obtain ls k where k: "hunk_body lines (i + 1) [] = Ret (ls, k)" "j = k - 1"
      and i: "i < length lines" "has_prefix (lines ! i) ''@@''"
      by (auto simp: hunk_step_at_def go_bind_Ret_iff Let_def split: if_splits option.splits)
    with assms have n: "i + 1 < length lines" "\<not> has_prefix (lines ! (i + 1)) ''@@''"
      "\<not> has_prefix (lines ! (i + 1)) ''--- ''" "\<not> (lines ! (i + 1) = [] \<and> i + 1 = length lines - 1)"
      by (auto simp: proper_hunks_def)
    have "i + 2 \<le> k"
      using k(1) n
      by (subst (asm) hunk_body.simps)
         (auto split: if_splits list.splits dest!: hunk_body_progress)
    with k(2) i show ?thesis by simp
  qed
  show "i < j \<and> i < length lines" if "hunk_step_at lines i = Ret (HunksSkip j)"
    using that by (auto simp: hunk_step_at_def go_bind_Ret_iff Let_def split: if_splits option.splits)
  show "i - 1 \<le> j" if "hunk_step_at lines i = Ret (HunksEnd j)"
    using that by (auto simp: hunk_step_at_def go_bind_Ret_iff Let_def split: if_splits option.splits)
qed

lemma parse_hunks_ends:
  assumes "proper_hunks lines"
  shows "\<exists>r. parse_hunks lines i hs = Some r \<and> (\<forall>hs' j. r = Ret (hs', j) \<longrightarrow> i \<le> j + 1)"
proof (induction "length lines - i" arbitrary: i hs rule: less_induct)
  case less
  note hp = hunk_step_progress [OF assms]
  show ?case
  proof (cases "hunk_step_at lines i")
    case (Ret s)
    show ?thesis
    proof (cases s)
      case (HunksEnd j)
      with Ret hp(3) [of i j] have "i - 1 \<le> j" by simp
      then have "i \<le> j + 1" by linarith
      with Ret HunksEnd show ?thesis by (simp add: parse_hunks.simps [of lines i])
    next
      case (HunksSkip j)
      then have j: "i < j" "i < length lines" using hp(2) Ret by auto
      from less [of j hs] j obtain r where "parse_hunks lines j hs = Some r"
        "\<forall>hs' k. r = Ret (hs', k) \<longrightarrow> j \<le> k + 1" by (auto intro: diff_less_mono2)
      with Ret HunksSkip j show ?thesis by (fastforce simp: parse_hunks.simps [of lines i])
    next
      case (HunkFound h j)
      then have j: "i < j" "i < length lines" using hp(1) Ret by auto
      from less [of j "hs @ [h]"] j obtain r where "parse_hunks lines j (hs @ [h]) = Some r"
        "\<forall>hs' k. r = Ret (hs', k) \<longrightarrow> j \<le> k + 1" by (auto intro: diff_less_mono2)
      with Ret HunkFound j show ?thesis by (fastforce simp: parse_hunks.simps [of lines i])
    qed
  qed (simp_all add: parse_hunks.simps [of lines i])
qed

lemma parse_files_ends:
  assumes "proper_hunks lines"
  shows "\<exists>r. parse_files lines i acc = Some r"
proof (induction "length lines - i" arbitrary: i acc rule: less_induct)
  case less
  show ?case
  proof (cases "i < length lines")
    case False
    then show ?thesis by (simp add: parse_files.simps [of lines i])
  next
    case True
    have step: "\<exists>r. parse_files lines j acc' = Some r" if "i < j" for j acc'
      using less [of j acc'] True that by (auto intro: diff_less_mono2)
    obtain r where r: "parse_hunks lines (i + 2) [] = Some r"
      "\<forall>hs' j. r = Ret (hs', j) \<longrightarrow> i + 2 \<le> j + 1"
      using parse_hunks_ends [OF assms] by blast
    show ?thesis
      using True step [of "i + 1"] r step
      by (auto simp: parse_files.simps [of lines i] split: sum.split go.split)
  qed
qed

text \<open>A hunk header that the loop comes back to is found for ever.\<close>

lemma parse_hunks_loops:
  assumes "hunk_step_at lines i = Ret (HunkFound h i)"
  shows "parse_hunks lines i hs = None"
proof -
  have "\<not> (\<exists>h. hunk_step_at lines i = Ret (HunkFound h i))" if "parse_hunks lines i hs = Some r" for r
    using that
    by (rule parse_hunks.raw_induct [rotated]) (auto split: go.splits hunk_step.splits)
  with assms show ?thesis by (cases "parse_hunks lines i hs") auto
qed

section \<open>Previews\<close>

text \<open>A path that survives \<open>normalizeDiffPath\<close> with either marker.\<close>

definition plain_path :: "string \<Rightarrow> bool" where
  "plain_path p \<longleftrightarrow> p \<noteq> [] \<and> list_all (\<lambda>c. \<not> is_space c) p \<and> \<not> has_prefix p ''b/'' \<and> p \<noteq> dev_null"

lemma takeWhile_all: "list_all P xs \<Longrightarrow> takeWhile P xs = xs"
  by (induction xs) simp_all

lemma dropWhile_none: "list_all (\<lambda>c. \<not> f c) s \<Longrightarrow> dropWhile f s = s"
  by (cases s) simp_all

lemma trim_space_none: "list_all (\<lambda>c. \<not> is_space c) s \<Longrightarrow> trim_space s = s"
  by (simp add: trim_space_def trim_chars_def dropWhile_none list_all_rev)

lemma normalize_marked:
  assumes "list_all (\<lambda>c. \<not> is_space c) (x # CHR ''/'' # p)"
  shows "normalize_diff_path (x # CHR ''/'' # p) =
    (if x = CHR ''a'' then trim_prefix p ''b/'' else if x = CHR ''b'' then p else normalize_diff_path (x # CHR ''/'' # p))"
proof -
  have "takeWhile (\<lambda>c. c \<noteq> CHR 0x09 \<and> c \<noteq> CHR '' '') (x # CHR ''/'' # p) = x # CHR ''/'' # p"
    using assms by (intro takeWhile_all) (auto simp: list_all_iff is_space_def)
  then show ?thesis
    using trim_space_none [OF assms]
    by (simp add: normalize_diff_path_def dev_null_def trim_prefix_def Let_def)
qed

lemma trim_marked: "trim_prefix (p @ s) p = s"
  by (simp add: trim_prefix_def)

lemma patch_paths_preview:
  assumes "plain_path p"
  shows "patch_paths (''--- a/'' @ p) (''+++ b/'' @ p) =
    Inr \<lparr>fp_old = p, fp_new = p, fp_path = p, fp_op = ''modify'', fp_hunks = []\<rparr>"
proof -
  have ns: "list_all (\<lambda>c. \<not> is_space c) (CHR ''a'' # CHR ''/'' # p)" "list_all (\<lambda>c. \<not> is_space c) (CHR ''b'' # CHR ''/'' # p)"
    using assms by (simp_all add: plain_path_def is_space_def)
  have "normalize_diff_path (trim_space (trim_prefix (''--- a/'' @ p) ''--- '')) = p"
    using normalize_marked [OF ns(1)] trim_space_none [OF ns(1)] assms trim_marked [of "''--- ''" "''a/'' @ p"]
    by (simp add: plain_path_def trim_prefix_def)
  moreover have "normalize_diff_path (trim_space (trim_prefix (''+++ b/'' @ p) ''+++ '')) = p"
    using normalize_marked [OF ns(2)] trim_space_none [OF ns(2)] trim_marked [of "''+++ ''" "''b/'' @ p"]
    by simp
  ultimately show ?thesis
    using assms by (simp add: patch_paths_def Let_def diff_operation_def plain_path_def)
qed

definition preview_header :: "nat \<Rightarrow> nat \<Rightarrow> string" where
  "preview_header m n = ''@@ -1,'' @ show_nat m @ '' +1,'' @ show_nat n @ '' @@''"

lemma eat_digits_number:
  assumes "t = [] \<or> \<not> is_digit (hd t)"
  shows "eat_digits (show_nat n @ t) = Some (show_nat n, t)"
proof -
  have "takeWhile is_digit (show_nat n @ t) = show_nat n" "dropWhile is_digit (show_nat n @ t) = t"
    using show_nat_digits [of n] assms
    by (cases t; simp add: takeWhile_append2 dropWhile_append2 list_all_iff)+
  then show ?thesis using show_nat_digits [of n] by (simp add: eat_digits_def)
qed

lemma eat_append [simp]: "eat p (p @ s) = Some s"
  by (simp add: eat_def)

lemma hunk_groups_preview: "hunk_groups (preview_header m n) = Some (''1'', show_nat m, ''1'', show_nat n, [])"
proof -
  have one: "show_nat 1 = ''1''" by code_simp
  have d: "eat_digits (''1'' @ t) = Some (''1'', t)" if "\<not> is_digit (hd t)" for t
    using eat_digits_number [of t 1] that one by simp
  have c: "eat_count ('','' @ show_nat k @ t) = (show_nat k, t)" if "\<not> is_digit (hd t)" for k t
    using eat_digits_number [of t k] that unfolding eat_count_def eat_append by simp
  have h: "preview_header m n =
      ''@@ -'' @ ''1'' @ '','' @ show_nat m @ '' +'' @ ''1'' @ '','' @ show_nat n @ '' @@'' @ []"
    by (simp add: preview_header_def)
  have s: "\<not> is_digit (hd ('','' @ t))" "\<not> is_digit (hd ('' +'' @ t))" "\<not> is_digit (hd ('' @@'' @ t))" for t
    by (simp_all add: is_digit_def)
  show ?thesis
    unfolding hunk_groups_def h
    by (simp only: d [OF s(1)] c [OF s(2)] c [OF s(3)] Option.bind.simps eat_append case_prod_conv Let_def)
qed

lemma preview_hunk:
  assumes "int m \<le> max_int" "int n \<le> max_int"
  shows "parse_hunk_header (preview_header m n) =
    Inr \<lparr>uh_old_start = 1, uh_old_count = int m, uh_new_start = 1, uh_new_count = int n, uh_section = [], uh_lines = []\<rparr>"
proof -
  have "atoi ''1'' = 1"
    by (simp add: atoi_def nat_of_digits_def digit_val_def max_int_def)
  then show ?thesis
    using show_nat_digits [of m] show_nat_digits [of n] atoi_show_nat assms
    by (simp add: parse_hunk_header_def hunk_groups_preview parse_hunk_count_def trim_space_def trim_chars_def)
qed

text \<open>The lines of a preview, and the patch the parser makes of them.\<close>

definition preview_body :: "string \<Rightarrow> string \<Rightarrow> string list" where
  "preview_body old new = map ((#) (CHR ''-'')) (split_lines old) @ map ((#) (CHR ''+'')) (split_lines new)"

definition preview_lines :: "string \<Rightarrow> string \<Rightarrow> string \<Rightarrow> string list" where
  "preview_lines p old new =
     [''--- a/'' @ p, ''+++ b/'' @ p, preview_header (length (split_lines old)) (length (split_lines new))]
     @ preview_body old new"

definition preview_patch :: "string \<Rightarrow> string \<Rightarrow> string \<Rightarrow> file_patch" where
  "preview_patch p old new =
     \<lparr>fp_old = p, fp_new = p, fp_path = p, fp_op = ''modify'',
      fp_hunks =
        [\<lparr>uh_old_start = 1, uh_old_count = int (length (split_lines old)),
          uh_new_start = 1, uh_new_count = int (length (split_lines new)), uh_section = [],
          uh_lines = map to_line (preview_body old new)\<rparr>]\<rparr>"

text \<open>A file the preview of whose replacement can be read back.\<close>

definition previewable :: "string \<Rightarrow> string \<Rightarrow> string \<Rightarrow> bool" where
  "previewable p old new \<longleftrightarrow>
     plain_path p \<and> old \<noteq> new \<and> list_all (\<lambda>l. \<not> has_prefix l ''-- '') (split_lines old) \<and>
     int (length (split_lines old)) \<le> max_int \<and> int (length (split_lines new)) \<le> max_int"

lemma unified_diff_lines: "old \<noteq> new \<Longrightarrow> unified_diff p old new = unlines (preview_lines p old new)"
  by (simp add: unified_diff_def unlines_def preview_lines_def preview_body_def preview_header_def comp_def)

lemma plain_path_no_nl: "plain_path p \<Longrightarrow> CHR 0x0A \<notin> set p"
  by (auto simp: plain_path_def list_all_iff is_space_def)

lemma digit_no_nl: "list_all is_digit s \<Longrightarrow> CHR 0x0A \<notin> set s"
  by (auto simp: list_all_iff is_digit_def)

lemma preview_lines_no_nl: "previewable p old new \<Longrightarrow> list_all (\<lambda>l. CHR 0x0A \<notin> set l) (preview_lines p old new)"
  using split_lines_no_nl [of old] split_lines_no_nl [of new] plain_path_no_nl [of p] show_nat_digits
    digit_no_nl [of "show_nat n" for n]
  by (auto simp: preview_lines_def preview_body_def preview_header_def list_all_iff previewable_def)

lemma preview_body_lines: "previewable p old new \<Longrightarrow> list_all body_line (preview_body old new)"
  by (auto simp: preview_body_def body_line_def previewable_def list_all_iff)

lemma preview_body_Nil_iff: "previewable p old new \<Longrightarrow> preview_body old new \<noteq> []"
  by (auto simp: preview_body_def previewable_def)

lemma filter_map_kind:
  "filter (\<lambda>l. ul_kind l = k) (map to_line (map ((#) c) ls)) = (if c = k then map to_line (map ((#) c) ls) else [])"
  by (induction ls) (simp_all add: to_line_def)

lemma preview_hunk_lines:
  "map ul_text (filter (\<lambda>l. ul_kind l = CHR '' '' \<or> ul_kind l = CHR ''-'') (map to_line (preview_body old new))) = split_lines old"
  "map ul_text (filter (\<lambda>l. ul_kind l = CHR '' '' \<or> ul_kind l = CHR ''+'') (map to_line (preview_body old new))) = split_lines new"
proof -
  have f: "filter (\<lambda>l. ul_kind l = CHR '' '' \<or> ul_kind l = k) (map to_line (map ((#) c) ls)) =
      (if c = k then map to_line (map ((#) c) ls) else [])" if "c \<noteq> CHR '' ''" for c k ls
    using that by (induction ls) (simp_all add: to_line_def)
  have t: "map ul_text (map to_line (map ((#) c) ls)) = ls" for c ls
    by (induction ls) (simp_all add: to_line_def)
  show "map ul_text (filter (\<lambda>l. ul_kind l = CHR '' '' \<or> ul_kind l = CHR ''-'') (map to_line (preview_body old new))) = split_lines old"
    "map ul_text (filter (\<lambda>l. ul_kind l = CHR '' '' \<or> ul_kind l = CHR ''+'') (map to_line (preview_body old new))) = split_lines new"
    unfolding preview_body_def map_append filter_append using f t by simp_all
qed

lemma preview_counts:
  "validate_hunk_counts (hd (fp_hunks (preview_patch p old new))) = None"
  using preview_hunk_lines [of old new]
  by (simp add: preview_patch_def validate_hunk_counts_def hunk_old_lines_def hunk_new_lines_def Let_def)

lemma preview_length: "length (preview_lines p old new) = 3 + length (preview_body old new)"
  by (simp add: preview_lines_def)

text \<open>The step at the header of a preview, wherever it stands, up to the end of its last line.\<close>

lemma preview_step:
  assumes p: "previewable p old new"
    and stop: "\<And>ls. hunk_body (pre @ preview_lines p old new @ post) (length pre + length (preview_lines p old new)) ls = r ls"
  shows "hunk_step_at (pre @ preview_lines p old new @ post) (length pre + 2) =
    go_bind (r (map to_line (preview_body old new))) (\<lambda>(ls, j).
      let h = (hd (fp_hunks (preview_patch p old new)))\<lparr>uh_lines := ls\<rparr>
      in case validate_hunk_counts h of Some e \<Rightarrow> Fail e | None \<Rightarrow> Ret (HunkFound h (j - 1)))"
proof -
  let ?h = "preview_header (length (split_lines old)) (length (split_lines new))"
  let ?pre = "pre @ [''--- a/'' @ p, ''+++ b/'' @ p, ?h]"
  let ?b = "preview_body old new"
  have lines: "pre @ preview_lines p old new @ post = ?pre @ ?b @ post"
    by (simp add: preview_lines_def)
  have at: "(?pre @ ?b @ post) ! (length pre + 2) = ?h" and len: "\<not> length (?pre @ ?b @ post) \<le> length pre + 2"
    by (simp_all add: nth_append)
  have "hunk_body (?pre @ ?b @ post) (length ?pre) [] = hunk_body (?pre @ ?b @ post) (length ?pre + length ?b) (map to_line ?b)"
    using hunk_body_lines [OF preview_body_lines [OF p], of ?pre post "[]"] by simp
  also have "\<dots> = r (map to_line ?b)"
    using stop [of "map to_line ?b"] unfolding lines by (simp add: preview_length numeral_3_eq_3)
  finally have body: "hunk_body (?pre @ ?b @ post) (length pre + 2 + 1) [] = r (map to_line ?b)"
    by simp
  have hdr: "has_prefix ?h ''@@''" "\<not> has_prefix ?h ''--- ''"
    by (simp_all add: preview_header_def)
  have h: "parse_hunk_header ?h = Inr ((hd (fp_hunks (preview_patch p old new)))\<lparr>uh_lines := []\<rparr>)"
    using p by (simp add: preview_hunk previewable_def preview_patch_def)
  show ?thesis
    unfolding lines hunk_step_at_def at
    using hdr len body by (simp add: h Let_def cong: option.case_cong)
qed

lemma preview_found:
  assumes p: "previewable p old new" and post: "post = [[]] \<or> has_prefix (hd (post @ [[]])) ''--- ''"
  shows "hunk_step_at (pre @ preview_lines p old new @ post) (length pre + 2) =
    Ret (HunkFound (hd (fp_hunks (preview_patch p old new))) (length pre + length (preview_lines p old new) - 1))"
proof -
  let ?l = "pre @ preview_lines p old new @ post" and ?n = "length pre + length (preview_lines p old new)"
  have "hunk_body ?l ?n ls = Ret (ls, ?n)" for ls
    using post
  proof
    assume "post = [[]]"
    with hunk_body_last [of "pre @ preview_lines p old new" ls] show ?thesis by simp
  next
    assume q: "has_prefix (hd (post @ [[]])) ''--- ''"
    then obtain c cs where c: "post = c # cs" "has_prefix c ''--- ''" by (cases post) auto
    have "?l ! ?n = c"
      using c(1) nth_append_length [of "pre @ preview_lines p old new" c cs] by simp
    with c(2) show ?thesis by (subst hunk_body.simps) simp
  qed
  note preview_step [OF p this]
  moreover have "(hd (fp_hunks (preview_patch p old new)))\<lparr>uh_lines := map to_line (preview_body old new)\<rparr> =
      hd (fp_hunks (preview_patch p old new))"
    by (simp add: preview_patch_def)
  ultimately show ?thesis
    using preview_counts [of p old new] by (simp add: Let_def)
qed

lemma preview_last_line:
  assumes p: "previewable p old new"
  shows "hunk_step_at (pre @ preview_lines p old new @ post) (length pre + length (preview_lines p old new) - 1) =
    Ret (HunksSkip (length pre + length (preview_lines p old new)))"
proof -
  let ?l = "pre @ preview_lines p old new @ post" and ?n = "length pre + length (preview_lines p old new)"
  obtain bs b where b: "preview_body old new = bs @ [b]"
    using preview_body_Nil_iff [OF p] by (cases "preview_body old new" rule: rev_cases) auto
  have "body_line b" using preview_body_lines [OF p] b by simp
  note f = body_line_facts [OF this]
  have "?l ! (?n - 1) = b"
    by (simp add: preview_lines_def b nth_append)
  moreover have "\<not> length ?l \<le> ?n - 1" "?n - 1 + 1 = ?n"
    by (simp_all add: preview_length)
  ultimately show ?thesis
    unfolding hunk_step_at_def using f by simp
qed

lemma parse_hunks_preview:
  assumes p: "previewable p old new" and post: "post = [[]] \<or> has_prefix (hd (post @ [[]])) ''--- ''"
  shows "\<exists>j. parse_hunks (pre @ preview_lines p old new @ post) (length pre + 2) [] =
      Some (Ret (fp_hunks (preview_patch p old new), j)) \<and>
    (if post = [[]] then length (pre @ preview_lines p old new @ post) \<le> j + 1
     else j + 1 = length pre + length (preview_lines p old new))"
proof -
  let ?l = "pre @ preview_lines p old new @ post" and ?n = "length pre + length (preview_lines p old new)"
  let ?h = "hd (fp_hunks (preview_patch p old new))"
  have hs: "fp_hunks (preview_patch p old new) = [?h]" by (simp add: preview_patch_def)
  have "parse_hunks ?l (length pre + 2) [] = parse_hunks ?l (?n - 1) [?h]"
    using parse_hunks_step(3) [OF preview_found [OF p post]] by simp
  also have "\<dots> = parse_hunks ?l ?n [?h]"
    by (rule parse_hunks_step(2) [OF preview_last_line [OF p]])
  finally have run: "parse_hunks ?l (length pre + 2) [] = parse_hunks ?l ?n [?h]" .
  show ?thesis
  proof (cases "post = [[]]")
    case True
    then have at: "?l ! ?n = []" "length ?l = ?n + 1"
      using nth_append_length [of "pre @ preview_lines p old new" "[]" "[]"] by simp_all
    then have "hunk_step_at ?l ?n = Ret (HunksSkip (?n + 1))" "hunk_step_at ?l (?n + 1) = Ret (HunksEnd (?n + 1))"
      by (simp_all add: hunk_step_at_def)
    then have "parse_hunks ?l ?n [?h] = Some (Ret ([?h], ?n + 1))"
      using parse_hunks_step(1,2) by metis
    with run hs True at show ?thesis by simp
  next
    case False
    with post obtain c cs where c: "post = c # cs" "has_prefix c ''--- ''" by (cases post) auto
    have "?l ! ?n = c"
      using c(1) nth_append_length [of "pre @ preview_lines p old new" c cs] by simp
    with c have "hunk_step_at ?l ?n = Ret (HunksEnd (?n - 1))"
      by (simp add: hunk_step_at_def)
    then have "parse_hunks ?l ?n [?h] = Some (Ret ([?h], ?n - 1))"
      by (rule parse_hunks_step(1))
    with run hs False show ?thesis by (simp add: preview_length)
  qed
qed

lemma parse_files_previews:
  assumes "list_all (\<lambda>(p, old, new). previewable p old new) fs"
  shows "parse_files (pre @ concat (map (\<lambda>(p, old, new). preview_lines p old new) fs) @ [[]]) (length pre) acc =
    Some (Ret (acc @ map (\<lambda>(p, old, new). preview_patch p old new) fs))"
  using assms
proof (induction fs arbitrary: pre acc)
  case Nil
  show ?case
    by (simp add: parse_files.simps [of _ "length pre"] parse_files.simps [of _ "Suc (length pre)"])
next
  case (Cons f fs)
  obtain p old new where f: "f = (p, old, new)" by (cases f)
  have p: "previewable p old new" using Cons.prems f by simp
  let ?rest = "concat (map (\<lambda>(p, old, new). preview_lines p old new) fs) @ [[]]"
  let ?l = "pre @ preview_lines p old new @ ?rest" and ?n = "length pre + length (preview_lines p old new)"
  have l: "pre @ concat (map (\<lambda>(p, old, new). preview_lines p old new) (f # fs)) @ [[]] = ?l"
    by (simp add: f)
  have post: "?rest = [[]] \<or> has_prefix (hd (?rest @ [[]])) ''--- ''"
    by (cases fs) (auto simp: preview_lines_def)
  have one: "?rest = [[]] \<longleftrightarrow> fs = []"
    by (cases fs) (auto simp: preview_lines_def)
  obtain j where j: "parse_hunks ?l (length pre + 2) [] = Some (Ret (fp_hunks (preview_patch p old new), j))"
    "if ?rest = [[]] then length ?l \<le> j + 1 else j + 1 = ?n"
    using parse_hunks_preview [OF p post, of pre] by blast
  have at: "?l ! length pre = ''--- a/'' @ p" "?l ! (length pre + 1) = ''+++ b/'' @ p"
    by (simp_all add: preview_lines_def nth_append)
  have pp: "patch_paths (''--- a/'' @ p) (''+++ b/'' @ p) = Inr ((preview_patch p old new)\<lparr>fp_hunks := []\<rparr>)"
    using patch_paths_preview p by (simp add: previewable_def preview_patch_def)
  have ne: "fp_hunks (preview_patch p old new) \<noteq> []" by (simp add: preview_patch_def)
  have up: "((preview_patch p old new)\<lparr>fp_hunks := []\<rparr>)\<lparr>fp_hunks := fp_hunks (preview_patch p old new)\<rparr> = preview_patch p old new"
    by simp
  have len: "length pre + 1 < length ?l" by (simp add: preview_lines_def)
  have step: "parse_files ?l (length pre) acc = parse_files ?l (j + 1) (acc @ [preview_patch p old new])"
    using parse_files_step(1) [OF len _ _ _ j(1) ne, of _ acc] pp unfolding at by (simp add: up)
  show ?case
  proof (cases "fs = []")
    case True
    with j(2) one have "length ?l \<le> j + 1" by simp
    then have "parse_files ?l (j + 1) (acc @ [preview_patch p old new]) = Some (Ret (acc @ [preview_patch p old new]))"
      unfolding parse_files.simps [of ?l "j + 1"] by (rule if_P)
    with step True show ?thesis by (simp add: l f)
  next
    case False
    with one have "?rest \<noteq> [[]]" by blast
    with j(2) have j: "j + 1 = length (pre @ preview_lines p old new)" by (simp only: if_False length_append)
    have "parse_files ((pre @ preview_lines p old new) @ ?rest) (length (pre @ preview_lines p old new))
        (acc @ [preview_patch p old new]) =
      Some (Ret ((acc @ [preview_patch p old new]) @ map (\<lambda>(p, old, new). preview_patch p old new) fs))"
      using Cons.prems by (intro Cons.IH) simp
    with step j show ?thesis by (simp add: l f)
  qed
qed

lemma parse_previews:
  assumes "fs \<noteq> []" "list_all (\<lambda>(p, old, new). previewable p old new) fs"
  shows "parse_unified_diff (concat (map (\<lambda>(p, old, new). unified_diff p old new) fs)) =
    Some (Ret (map (\<lambda>(p, old, new). preview_patch p old new) fs))"
proof -
  have "concat (map (\<lambda>(p, old, new). unified_diff p old new) fs) =
      unlines (concat (map (\<lambda>(p, old, new). preview_lines p old new) fs))"
    using assms(2) by (induction fs) (auto simp: unlines_def unified_diff_lines previewable_def)
  moreover have "list_all (\<lambda>l. CHR 0x0A \<notin> set l) (concat (map (\<lambda>(p, old, new). preview_lines p old new) fs))"
    using assms(2) preview_lines_no_nl by (fastforce simp: list_all_iff)
  ultimately have "split_on (CHR 0x0A) (concat (map (\<lambda>(p, old, new). unified_diff p old new) fs)) =
      concat (map (\<lambda>(p, old, new). preview_lines p old new) fs) @ [[]]"
    using split_unlines [of _ "[]"] by simp
  with parse_files_previews [OF assms(2), of "[]" "[]"] assms(1) show ?thesis
    by (cases fs) (auto simp: parse_unified_diff_def)
qed

section \<open>Inputs that crash the parser\<close>

text \<open>\<open>code.propose_patch\<close> joins the previews of several files with an empty line.\<close>

lemma joined_previews_panic:
  assumes p: "previewable p old new"
  shows "parse_unified_diff (unified_diff p old new @ nl @ s) = Some Panic"
proof -
  let ?post = "[] # split_on (CHR 0x0A) s"
  let ?l = "preview_lines p old new @ ?post"
  have "split_on (CHR 0x0A) (nl @ s) = ?post"
    by (simp add: nl_def split: list.split)
  with split_unlines [OF preview_lines_no_nl [OF p], of "nl @ s"] p
  have lines: "split_on (CHR 0x0A) (unified_diff p old new @ nl @ s) = ?l"
    by (simp add: unified_diff_lines previewable_def)
  have "hunk_body ([] @ ?l) (length [] + length (preview_lines p old new)) ls = Panic" for ls
    using hunk_body_empty_line [of "split_on (CHR 0x0A) s" "preview_lines p old new" ls] by simp
  from preview_step [OF p this] have "hunk_step_at ?l (0 + 2) = Panic" by simp
  then have h: "parse_hunks ?l (0 + 2) [] = Some Panic"
    by (rule parse_hunks_step(4))
  have at: "?l ! 0 = ''--- a/'' @ p" "?l ! (0 + 1) = ''+++ b/'' @ p" and len: "0 + 1 < length ?l"
    by (simp_all add: preview_lines_def)
  have "parse_files ?l 0 [] = Some Panic"
    using parse_files_step(2) [OF len _ _ _ h] patch_paths_preview p unfolding at by (simp add: previewable_def)
  then show ?thesis unfolding parse_unified_diff_def lines by simp
qed

lemma empty_hunk_loops:
  assumes p: "plain_path p"
  shows "parse_unified_diff (''--- a/'' @ p @ nl @ ''+++ b/'' @ p @ nl @ preview_header 0 0 @ nl) = None"
proof -
  let ?l = "[''--- a/'' @ p, ''+++ b/'' @ p, preview_header 0 0, []]"
  have no_nl: "list_all (\<lambda>l. CHR 0x0A \<notin> set l) (butlast ?l)"
    using plain_path_no_nl [OF p] digit_no_nl [of "show_nat 0"] show_nat_digits [of 0]
    by (auto simp: preview_header_def)
  have lines: "split_on (CHR 0x0A) (''--- a/'' @ p @ nl @ ''+++ b/'' @ p @ nl @ preview_header 0 0 @ nl) = ?l"
    using split_unlines [OF no_nl, of "[]"] by (simp add: unlines_def)
  let ?h = "\<lparr>uh_old_start = 1, uh_old_count = 0, uh_new_start = 1, uh_new_count = 0, uh_section = [], uh_lines = []\<rparr>"
  have hdr: "parse_hunk_header (preview_header 0 0) = Inr ?h"
    using preview_hunk [of 0 0] by (simp add: max_int_def)
  have pre: "has_prefix (preview_header 0 0) ''@@''" "\<not> has_prefix (preview_header 0 0) ''--- ''"
    by (simp_all add: preview_header_def)
  have "hunk_body ?l 3 [] = Ret ([], 3)"
    using hunk_body_last [of "butlast ?l" "[]"] by (simp add: numeral_3_eq_3)
  then have "hunk_step_at ?l 2 = Ret (HunkFound ?h 2)"
    using pre hdr
    by (simp add: hunk_step_at_def Let_def validate_hunk_counts_def hunk_old_lines_def hunk_new_lines_def)
  then have h: "parse_hunks ?l (0 + 2) [] = None"
    using parse_hunks_loops [of ?l 2 ?h "[]"] by (simp only: add_0)
  have at: "?l ! 0 = ''--- a/'' @ p" "?l ! (0 + 1) = ''+++ b/'' @ p" and len: "0 + 1 < length ?l"
    by simp_all
  have "parse_files ?l 0 [] = None"
    using parse_files_step(3) [OF len _ _ _ h] patch_paths_preview p unfolding at by simp
  then show ?thesis unfolding parse_unified_diff_def lines by simp
qed

section \<open>Properties\<close>



text \<open>A hunk that announces no lines and has none is found again and again: parsing a diff that ends in one
  never returns.\<close>

theorem empty_hunk_never_returns:
  assumes "plain_path p"
  shows "parse_unified_diff (''--- a/'' @ p @ nl @ ''+++ b/'' @ p @ nl @ preview_header 0 0 @ nl) = None"
  by (rule empty_hunk_loops) (rule assms)

theorem empty_hunk_never_returns_witness:
  "parse_unified_diff (''--- a/x'' @ nl @ ''+++ b/x'' @ nl @ preview_header 0 0 @ nl) = None"
proof -
  have "plain_path ''x''" by (simp add: plain_path_def is_space_def dev_null_def)
  from empty_hunk_never_returns [OF this] show ?thesis by simp
qed

text \<open>The preview \<open>code.propose_patch\<close> returns for several files joins the files' diffs with an empty line;
  parsing it back panics, whatever the files after the first are.\<close>

theorem joined_preview_panics:
  assumes "previewable p old new"
  shows "parse_unified_diff (join nl (unified_diff p old new # d # ds)) = Some Panic"
  using joined_previews_panic [OF assms, of "join nl (d # ds)"] by simp

theorem joined_preview_panics_witness:
  "parse_unified_diff (join nl [unified_diff ''x'' ''a'' ''b'', unified_diff ''y'' ''a'' ''b'']) = Some Panic"
proof -
  have "previewable ''x'' ''a'' ''b''"
    by (simp add: previewable_def plain_path_def is_space_def dev_null_def split_lines_def trim_suffix_def nl_def
        suffix_def max_int_def)
  then show ?thesis by (rule joined_preview_panics)
qed

lemma patch_paths_delete:
  assumes "p \<noteq> []" "p \<noteq> dev_null" "list_all (\<lambda>c. \<not> is_space c) p"
  shows "patch_paths (''--- a/b/'' @ p) (''+++ '' @ dev_null) =
    Inr \<lparr>fp_old = p, fp_new = dev_null, fp_path = p, fp_op = ''delete'', fp_hunks = []\<rparr>"
proof -
  have ns: "list_all (\<lambda>c. \<not> is_space c) (CHR ''a'' # CHR ''/'' # ''b/'' @ p)" "list_all (\<lambda>c. \<not> is_space c) dev_null"
    using assms by (simp_all add: is_space_def dev_null_def)
  have "normalize_diff_path (trim_space (trim_prefix (''--- a/b/'' @ p) ''--- '')) = p"
    using normalize_marked [OF ns(1)] trim_space_none [OF ns(1)] trim_marked [of "''--- ''" "''a/b/'' @ p"]
      trim_marked [of "''b/''" p]
    by simp
  moreover have "normalize_diff_path dev_null = dev_null"
    using trim_space_none [OF ns(2)] by (simp add: normalize_diff_path_def dev_null_def Let_def)
  moreover have "trim_space (trim_prefix (''+++ '' @ dev_null) ''+++ '') = dev_null"
    using trim_space_none [OF ns(2)] trim_marked by metis
  ultimately show ?thesis
    using assms by (simp add: patch_paths_def Let_def diff_operation_def)
qed

text \<open>Both path markers are stripped from one path, so a diff that deletes the file \<open>b/p\<close> is read as
  deleting the file \<open>p\<close>.\<close>

theorem deletion_under_b_names_another_file:
  assumes "p \<noteq> []" "p \<noteq> dev_null" "list_all (\<lambda>c. \<not> is_space c) p"
  shows "\<exists>q. patch_paths (''--- a/'' @ ''b/'' @ p) (''+++ '' @ dev_null) = Inr q \<and> fp_path q = p \<and> fp_op q = ''delete''"
  using patch_paths_delete [OF assms] by simp

theorem deletion_under_b_names_another_file_witness:
  "\<exists>q. patch_paths ''--- a/b/main.go'' ''+++ /dev/null'' = Inr q \<and> fp_path q = ''main.go'' \<and> fp_op q = ''delete''"
  using deletion_under_b_names_another_file [of "''main.go''"] by (simp add: dev_null_def is_space_def)

end
