(* ===== verification/Diff_Apply.thy ===== *)
theory Diff_Apply
  imports Diff_Facts
begin

text \<open>
  Applying a parsed patch to a file's content (\<open>applyUnifiedPatchToContentDetailed\<close> and its helpers in
  \<open>internal/tools/code/patch_validate.go\<close>). Positions are 64-bit integers with their wrap-around, an index
  out of range panics, and -1 is the position that was not found.
\<close>

section \<open>Finding a hunk\<close>

fun match_from :: "string list \<Rightarrow> string list \<Rightarrow> int \<Rightarrow> bool go" where
  "match_from lines [] i = Ret True"
| "match_from lines (s # seq) i =
     (if i < 0 \<or> int (length lines) \<le> i then Panic
      else if lines ! nat i \<noteq> s then Ret False
      else match_from lines seq (wrap64 (i + 1)))"

definition sequence_matches :: "string list \<Rightarrow> string list \<Rightarrow> int \<Rightarrow> bool go" where
  "sequence_matches lines seq pos =
     (if pos < 0 \<or> int (length lines) < wrap64 (pos + int (length seq)) then Ret False
      else match_from lines seq pos)"

function find_line_sequence :: "string list \<Rightarrow> string list \<Rightarrow> nat \<Rightarrow> int go" where
  "find_line_sequence lines seq i =
     (if seq = [] then Ret (int (min i (length lines)))
      else if length lines < i + length seq then Ret (- 1)
      else
        go_bind (sequence_matches lines seq (int i)) (\<lambda>b.
          if b then Ret (int i) else find_line_sequence lines seq (i + 1)))"
  by pat_completeness auto
termination
proof (relation "measure (\<lambda>(lines, seq, i). length lines - i)", goal_cases)
  case (2 lines seq i b)
  then show ?case by (cases seq) auto
qed simp

declare find_line_sequence.simps [simp del]

definition find_hunk_position :: "string list \<Rightarrow> string list \<Rightarrow> nat \<Rightarrow> int \<Rightarrow> int go" where
  "find_hunk_position lines seq cursor hint =
     (if seq = [] then
        (let h = max hint (int cursor)
         in Ret (if int (length lines) < h then int (length lines) else h))
      else
        go_bind (if int cursor \<le> hint then sequence_matches lines seq hint else Ret False) (\<lambda>b.
          if b then Ret hint else find_line_sequence lines seq cursor))"

section \<open>Applying the hunks\<close>

record hunk_match =
  hm_old_start :: int
  hm_new_start :: int
  hm_line :: int
  hm_offset :: int
  hm_partial :: bool

definition match_info :: "unified_hunk \<Rightarrow> int \<Rightarrow> hunk_match" where
  "match_info h pos =
     (let expected = (if uh_old_start h \<le> 0 then 1 else uh_old_start h); line = pos + 1
      in \<lparr>hm_old_start = uh_old_start h, hm_new_start = uh_new_start h, hm_line = line,
          hm_offset = line - expected, hm_partial = (line \<noteq> expected)\<rparr>)"

definition hunk_conflict :: "unified_hunk \<Rightarrow> go_error" where
  "hunk_conflict h =
     Err (''hunk at -'' @ show_int (uh_old_start h) @ '' +'' @ show_int (uh_new_start h) @
       '' context does not match current file'')"

text \<open>
  The loop over the hunks: the lines so far, the cursor, the accumulated offset. The matches found are
  returned with a conflict too.
\<close>

fun apply_hunks ::
  "unified_hunk list \<Rightarrow> string list \<Rightarrow> nat \<Rightarrow> int \<Rightarrow> hunk_match list \<Rightarrow> (string list res \<times> hunk_match list) go" where
  "apply_hunks [] lines cursor off info = Ret (Inr lines, info)"
| "apply_hunks (h # hs) lines cursor off info =
     (let old = hunk_old_lines h; new = hunk_new_lines h in
      go_bind (find_hunk_position lines old cursor (wrap64 (uh_old_start h - 1 + off))) (\<lambda>pos.
        if pos < 0 then Ret (Inl (hunk_conflict h), info)
        else
          apply_hunks hs (take (nat pos) lines @ new @ drop (nat pos + length old) lines)
            (nat pos + length new) (off + int (length new) - int (length old)) (info @ [match_info h pos])))"

definition lines_text :: "string list \<Rightarrow> string" where
  "lines_text lines = (if lines = [] then [] else join nl lines @ nl)"

definition apply_patch :: "string \<Rightarrow> file_patch \<Rightarrow> (string res \<times> hunk_match list) go" where
  "apply_patch current p =
     go_bind (apply_hunks (fp_hunks p) (split_lines current) 0 0 []) (\<lambda>(r, info).
       Ret (case r of Inl e \<Rightarrow> Inl e | Inr lines \<Rightarrow> Inr (lines_text lines), info))"

section \<open>Where a hunk is found\<close>

definition occurs_at :: "string list \<Rightarrow> string list \<Rightarrow> nat \<Rightarrow> bool" where
  "occurs_at lines seq n \<longleftrightarrow> n + length seq \<le> length lines \<and> take (length seq) (drop n lines) = seq"

text \<open>Positions and lengths that stay inside the range of \<open>int\<close>.\<close>

definition small :: "nat \<Rightarrow> bool" where
  "small n \<longleftrightarrow> int n \<le> max_int div 4"

lemma smallD: "small n \<Longrightarrow> int n \<le> 2305843009213693951"
  by (simp add: small_def max_int_def)

lemma match_from_iff:
  assumes "small (length lines)"
  shows "n + length seq \<le> length lines \<Longrightarrow> match_from lines seq (int n) = Ret (take (length seq) (drop n lines) = seq)"
proof (induction seq arbitrary: n)
  case Nil
  then show ?case by simp
next
  case (Cons s seq)
  then have n: "n < length lines" by simp
  then have "drop n lines = lines ! n # drop (n + 1) lines"
    by (simp add: Cons_nth_drop_Suc)
  moreover have "wrap64 (int n + 1) = int (n + 1)"
    using n smallD [OF assms] by (subst wrap64_id) (simp_all add: max_int_def)
  moreover have "match_from lines seq (int (n + 1)) = Ret (take (length seq) (drop (n + 1) lines) = seq)"
    by (rule Cons.IH) (use Cons.prems in simp)
  ultimately show ?case
    using n by (simp del: of_nat_add)
qed

lemma sequence_matches_iff:
  assumes "small (length lines)" "small n" "small (length seq)"
  shows "sequence_matches lines seq (int n) = Ret (occurs_at lines seq n)"
proof -
  have "wrap64 (int n + int (length seq)) = int (n + length seq)"
    using smallD [OF assms(2)] smallD [OF assms(3)] by (subst wrap64_id) (simp_all add: max_int_def)
  then show ?thesis
    using match_from_iff [OF assms(1)] by (auto simp: sequence_matches_def occurs_at_def)
qed

lemma find_line_sequence_spec:
  assumes "small (length lines)" "small (length seq)" "seq \<noteq> []" "i \<le> length lines"
  shows "find_line_sequence lines seq i =
    Ret (if \<exists>n\<ge>i. occurs_at lines seq n then int (LEAST n. i \<le> n \<and> occurs_at lines seq n) else - 1)"
  using assms(4)
proof (induction "length lines - i" arbitrary: i rule: less_induct)
  case less
  have si: "small i" using less.prems assms(1) by (simp add: small_def)
  show ?case
  proof (cases "length lines < i + length seq")
    case True
    then have "\<not> (\<exists>n\<ge>i. occurs_at lines seq n)" by (auto simp: occurs_at_def)
    with True assms(3) show ?thesis by (simp add: find_line_sequence.simps [of lines seq i])
  next
    case False
    show ?thesis
    proof (cases "occurs_at lines seq i")
      case True
      then have "(LEAST n. i \<le> n \<and> occurs_at lines seq n) = i"
        by (intro Least_equality) simp_all
      with True False assms si show ?thesis
        by (auto simp: find_line_sequence.simps [of lines seq i] sequence_matches_iff)
    next
      case miss: False
      from False assms(3) have lt: "i < length lines" by (cases seq) auto
      have eq: "i \<le> n \<and> occurs_at lines seq n \<longleftrightarrow> i + 1 \<le> n \<and> occurs_at lines seq n" for n
        using miss by (cases "n = i") auto
      then have "(\<exists>n\<ge>i. occurs_at lines seq n) \<longleftrightarrow> (\<exists>n\<ge>i + 1. occurs_at lines seq n)" by blast
      moreover have "(\<lambda>n. i \<le> n \<and> occurs_at lines seq n) = (\<lambda>n. i + 1 \<le> n \<and> occurs_at lines seq n)"
        using eq by (rule ext)
      moreover have "find_line_sequence lines seq i = find_line_sequence lines seq (i + 1)"
        using miss False assms si by (simp add: find_line_sequence.simps [of lines seq i] sequence_matches_iff)
      ultimately show ?thesis
        using less.hyps [of "i + 1"] lt by simp
    qed
  qed
qed

section \<open>A hunk that is found is there\<close>

lemma match_from_sound:
  assumes "int (length lines) < max_int"
  shows "match_from lines seq (int n) = Ret True \<Longrightarrow> n \<le> length lines \<Longrightarrow> occurs_at lines seq n"
proof (induction seq arbitrary: n)
  case Nil
  then show ?case by (simp add: occurs_at_def)
next
  case (Cons s seq)
  then have n: "n < length lines" "lines ! n = s" and m: "match_from lines seq (wrap64 (int n + 1)) = Ret True"
    by (auto split: if_splits)
  have "wrap64 (int n + 1) = int (n + 1)"
    using n assms by (subst wrap64_id) (simp_all add: max_int_def)
  with m n Cons.IH [of "n + 1"] have "occurs_at lines seq (n + 1)" by simp
  with n show ?case by (simp add: occurs_at_def Cons_nth_drop_Suc [symmetric])
qed

lemma sequence_matches_sound:
  assumes "int (length lines) < max_int" "sequence_matches lines seq pos = Ret True" "seq \<noteq> []"
  shows "0 \<le> pos \<and> occurs_at lines seq (nat pos)"
proof -
  have p: "0 \<le> pos" "match_from lines seq (int (nat pos)) = Ret True"
    using assms(2) by (auto simp: sequence_matches_def split: if_splits)
  moreover have "nat pos \<le> length lines"
    using p assms(3) by (cases seq) (auto split: if_splits)
  ultimately show ?thesis using match_from_sound [OF assms(1)] by blast
qed

lemma find_line_sequence_sound:
  "find_line_sequence lines seq i = Ret pos \<Longrightarrow> 0 \<le> pos \<Longrightarrow> seq \<noteq> [] \<Longrightarrow> int (length lines) < max_int \<Longrightarrow>
    i \<le> nat pos \<and> occurs_at lines seq (nat pos)"
proof (induction lines seq i rule: find_line_sequence.induct)
  case (1 lines seq i)
  note assms = 1(5)
  from 1(2-4) obtain b where b: "sequence_matches lines seq (int i) = Ret b" "\<not> length lines < i + length seq"
    "(if b then Ret (int i) else find_line_sequence lines seq (i + 1)) = Ret pos"
    by (auto simp: find_line_sequence.simps [of lines seq i] go_bind_Ret_iff split: if_splits)
  show ?case
  proof (cases b)
    case True
    with b(3) have "pos = int i" by simp
    with b(1) True sequence_matches_sound [OF assms, of seq "int i"] 1(4) show ?thesis by simp
  next
    case False
    with b(3) have "find_line_sequence lines seq (i + 1) = Ret pos" by simp
    from 1(1) [OF 1(4) b(2) False this 1(3,4) assms] show ?thesis by simp
  qed
qed

lemma find_hunk_position_sound:
  assumes "find_hunk_position lines seq cursor hint = Ret pos" "0 \<le> pos" "cursor \<le> length lines"
    and "int (length lines) < max_int"
  shows "cursor \<le> nat pos \<and> occurs_at lines seq (nat pos)"
proof (cases "seq = []")
  case True
  with assms show ?thesis
    by (auto simp: find_hunk_position_def Let_def occurs_at_def split: if_splits)
next
  case False
  with assms(1) obtain b where
    b: "(if int cursor \<le> hint then sequence_matches lines seq hint else Ret False) = Ret b"
    "(if b then Ret hint else find_line_sequence lines seq cursor) = Ret pos"
    by (auto simp: find_hunk_position_def go_bind_Ret_iff)
  show ?thesis
  proof (cases b)
    case True
    with b have "int cursor \<le> hint" "sequence_matches lines seq hint = Ret True" "pos = hint"
      by (simp_all split: if_splits)
    with sequence_matches_sound [OF assms(4) _ False] show ?thesis by auto
  next
    case False
    with b(2) find_line_sequence_sound [OF _ assms(2) \<open>seq \<noteq> []\<close> assms(4)] show ?thesis by simp
  qed
qed

text \<open>
  What it means to patch a list of lines: the old lines of the hunks are found one after the other, without
  overlap, and each is replaced by the hunk's new lines.
\<close>

inductive patched :: "unified_hunk list \<Rightarrow> string list \<Rightarrow> string list \<Rightarrow> bool" where
  patched_end: "patched [] rest rest"
| patched_hunk: "patched hs rest rest' \<Longrightarrow>
    patched (h # hs) (pre @ hunk_old_lines h @ rest) (pre @ hunk_new_lines h @ rest')"

lemma occurs_at_split: "occurs_at lines seq n \<Longrightarrow> lines = take n lines @ seq @ drop (n + length seq) lines"
  unfolding occurs_at_def by (metis add.commute append_take_drop_id drop_drop)

definition new_lines_total :: "unified_hunk list \<Rightarrow> nat" where
  "new_lines_total hs = sum_list (map (\<lambda>h. length (hunk_new_lines h)) hs)"

lemma apply_hunks_patched:
  "apply_hunks hs lines cursor off info = Ret (Inr out, info') \<Longrightarrow> cursor \<le> length lines \<Longrightarrow>
     int (length lines + new_lines_total hs) < max_int \<Longrightarrow>
     \<exists>rest. out = take cursor lines @ rest \<and> patched hs (drop cursor lines) rest"
proof (induction hs arbitrary: lines cursor off info)
  case Nil
  then show ?case by (intro exI [of _ "drop cursor lines"]) (simp add: patched_end)
next
  case (Cons h hs)
  let ?old = "hunk_old_lines h" and ?new = "hunk_new_lines h"
  obtain pos where pos: "find_hunk_position lines ?old cursor (wrap64 (uh_old_start h - 1 + off)) = Ret pos" "0 \<le> pos"
    and rest: "apply_hunks hs (take (nat pos) lines @ ?new @ drop (nat pos + length ?old) lines)
      (nat pos + length ?new) (off + int (length ?new) - int (length ?old)) (info @ [match_info h pos]) = Ret (Inr out, info')"
    using Cons.prems(1) by (auto simp: go_bind_Ret_iff Let_def split: if_splits)
  have f: "cursor \<le> nat pos" "occurs_at lines ?old (nat pos)"
    using find_hunk_position_sound [OF pos Cons.prems(2)] Cons.prems(3) by (auto simp: new_lines_total_def)
  let ?l = "take (nat pos) lines @ ?new @ drop (nat pos + length ?old) lines"
  have len: "nat pos + length ?old \<le> length lines" using f(2) by (simp add: occurs_at_def)
  then have "length ?l + new_lines_total hs \<le> length lines + new_lines_total (h # hs)" "nat pos + length ?new \<le> length ?l"
    by (simp_all add: new_lines_total_def)
  then obtain r where r: "out = take (nat pos + length ?new) ?l @ r" "patched hs (drop (nat pos + length ?new) ?l) r"
    using Cons.IH [OF rest] Cons.prems(3) by fastforce
  have tl: "take (nat pos + length ?new) ?l = take (nat pos) lines @ ?new"
    "drop (nat pos + length ?new) ?l = drop (nat pos + length ?old) lines"
    using len by simp_all
  have lines: "drop cursor lines = drop cursor (take (nat pos) lines) @ ?old @ drop (nat pos + length ?old) lines"
    using arg_cong [where f = "drop cursor", OF occurs_at_split [OF f(2)]] f(1) len by simp
  have out: "out = take cursor lines @ drop cursor (take (nat pos) lines) @ ?new @ r"
    using r(1) f(1) append_take_drop_id [of cursor "take (nat pos) lines"] unfolding tl by (simp add: min_def)
  show ?case
    using out r(2) patched_hunk [of hs _ r h "drop cursor (take (nat pos) lines)"] unfolding lines tl by blast
qed

section \<open>Hunks that are not found\<close>

lemma find_hunk_position_small:
  assumes "small (length lines)" "small (length seq)" "seq \<noteq> []" "hint \<le> max_int div 4" "cursor \<le> length lines"
  shows "\<exists>pos. find_hunk_position lines seq cursor hint = Ret pos \<and>
    (pos < 0 \<longleftrightarrow> \<not> (\<exists>n\<ge>cursor. occurs_at lines seq n))"
proof -
  let ?b = "int cursor \<le> hint \<and> occurs_at lines seq (nat hint)"
  have b: "(if int cursor \<le> hint then sequence_matches lines seq hint else Ret False) = Ret ?b"
  proof (cases "int cursor \<le> hint")
    case True
    then have "small (nat hint)" "hint = int (nat hint)" using assms(4) by (simp_all add: small_def)
    with sequence_matches_iff [OF assms(1) _ assms(2)] True show ?thesis by metis
  qed simp
  show ?thesis
  proof (cases ?b)
    case True
    then have "cursor \<le> nat hint" by linarith
    with True b assms(3) show ?thesis by (auto simp: find_hunk_position_def)
  next
    case False
    with b assms(3) show ?thesis
      by (simp add: find_hunk_position_def find_line_sequence_spec [OF assms(1,2,3,5)])
  qed
qed

lemma sublist_occurs_at: "sublist seq lines \<longleftrightarrow> (\<exists>n. occurs_at lines seq n)"
proof
  assume "sublist seq lines"
  then obtain a b where "lines = a @ seq @ b" by (auto simp: sublist_def)
  then have "occurs_at lines seq (length a)" by (simp add: occurs_at_def)
  then show "\<exists>n. occurs_at lines seq n" by blast
next
  assume "\<exists>n. occurs_at lines seq n"
  then show "sublist seq lines" using occurs_at_split unfolding sublist_def by blast
qed

section \<open>Previews\<close>

lemma has_suffix_nl [simp]: "has_suffix (t @ nl) nl"
  by (simp add: suffix_def)

lemma trim_suffix_nl [simp]: "trim_suffix (t @ nl) nl = t"
  by (simp add: trim_suffix_def)

lemma split_on_none: "c \<notin> set s \<Longrightarrow> split_on c s = [s]"
  by (induction s) auto

lemma split_lines_line: "CHR 0x0A \<notin> set t \<Longrightarrow> split_lines (t @ nl) = [t]"
  by (simp add: split_lines_def split_on_none) (simp add: nl_def)

lemma split_lines_letters [simp]:
  "split_lines (CHR ''a'' # nl) = [''a'']" "split_lines (CHR ''b'' # nl) = [''b'']" "split_lines ''c'' = [''c'']"
proof -
  show "split_lines (CHR ''a'' # nl) = [''a'']" "split_lines (CHR ''b'' # nl) = [''b'']"
    using split_lines_line [of "''a''"] split_lines_line [of "''b''"] by simp_all
  show "split_lines ''c'' = [''c'']"
    by (simp add: split_lines_def trim_suffix_def nl_def suffix_def Cons_eq_append_conv)
qed

lemma join_split_lines: "s \<noteq> [] \<Longrightarrow> has_suffix s nl \<Longrightarrow> lines_text (split_lines s) = s"
proof -
  assume s: "s \<noteq> []" "has_suffix s nl"
  then obtain t where t: "s = t @ nl" by (auto simp: suffix_def)
  with s show ?thesis
    using join_split_on [of "CHR 0x0A" t] by (simp add: lines_text_def split_lines_def nl_def [symmetric])
qed

lemma preview_hunk_sel [simp]:
  "hunk_old_lines (hd (fp_hunks (preview_patch p old new))) = split_lines old"
  "hunk_new_lines (hd (fp_hunks (preview_patch p old new))) = split_lines new"
  using preview_hunk_lines by (simp_all add: preview_patch_def hunk_old_lines_def hunk_new_lines_def)

lemma occurs_at_self: "occurs_at lines lines 0"
  by (simp add: occurs_at_def)

lemma preview_applies:
  assumes "previewable p old new" "new = [] \<or> has_suffix new nl"
    "small (length (split_lines old))"
  shows "\<exists>info. apply_patch old (preview_patch p old new) = Ret (Inr new, info)"
proof -
  obtain h where hs: "fp_hunks (preview_patch p old new) = [h]" "uh_old_start h = 1"
    "hunk_old_lines h = split_lines old" "hunk_new_lines h = split_lines new"
    using preview_hunk_sel [of p old new] by (simp add: preview_patch_def)
  have z: "wrap64 0 = 0" by (simp add: max_int_def)
  have "find_hunk_position (split_lines old) (split_lines old) 0 0 = Ret 0"
  proof (cases "split_lines old = []")
    case False
    have "sequence_matches (split_lines old) (split_lines old) (int 0) = Ret True"
      using sequence_matches_iff [of "split_lines old" 0 "split_lines old"] assms(3) occurs_at_self
      by (simp add: small_def max_int_def)
    with False show ?thesis by (simp add: find_hunk_position_def)
  qed (simp add: find_hunk_position_def)
  then have "\<exists>info. apply_patch old (preview_patch p old new) = Ret (Inr (lines_text (split_lines new)), info)"
    by (auto simp: apply_patch_def hs z Let_def)
  moreover have "lines_text (split_lines new) = new"
    using assms(2) join_split_lines by (cases "new = []") (auto simp: lines_text_def)
  ultimately show ?thesis by simp
qed

section \<open>Properties\<close>

text \<open>C9: what \<open>applyUnifiedPatchToContent\<close> returns is a patched file: the old lines of the hunks stand in the
  file one after the other, without overlap, and each has been replaced by the new lines of its hunk; nothing
  else changed.\<close>

theorem apply_patch_refines:
  assumes "apply_patch current p = Ret (Inr text, info)"
    and "int (length (split_lines current) + new_lines_total (fp_hunks p)) < max_int"
  shows "\<exists>out. patched (fp_hunks p) (split_lines current) out \<and> text = lines_text out"
proof -
  from assms(1) obtain r where r: "apply_hunks (fp_hunks p) (split_lines current) 0 0 [] = Ret (r, info)"
    "(case r of Inl e \<Rightarrow> Inl e | Inr lines \<Rightarrow> Inr (lines_text lines)) = Inr text"
    by (auto simp: apply_patch_def go_bind_Ret_iff)
  then obtain out where "r = Inr out" "text = lines_text out" by (cases r) simp_all
  with r(1) apply_hunks_patched [of "fp_hunks p" "split_lines current" 0 0 "[]" out info] assms(2)
  show ?thesis by auto
qed

definition patch0 :: file_patch where
  "patch0 = preview_patch ''x'' (''a'' @ nl) (''b'' @ nl)"

lemma previewable0: "previewable ''x'' (''a'' @ nl) (''b'' @ nl)"
  by (simp add: previewable_def plain_path_def is_space_def dev_null_def split_lines_line max_int_def)

lemma small0: "small (length (split_lines (''a'' @ nl)))"
  by (simp add: small_def split_lines_line max_int_def)

theorem apply_patch_refines_witness:
  "\<exists>out. patched (fp_hunks patch0) (split_lines (''a'' @ nl)) out \<and> ''b'' @ nl = lines_text out"
proof -
  have "has_suffix (''b'' @ nl) nl" by (simp add: suffix_def)
  then obtain info where "apply_patch (''a'' @ nl) patch0 = Ret (Inr (''b'' @ nl), info)"
    using preview_applies [OF previewable0 _ small0] by (auto simp: patch0_def)
  moreover have "int (length (split_lines (''a'' @ nl)) + new_lines_total (fp_hunks patch0)) < max_int"
    by (simp add: new_lines_total_def patch0_def preview_patch_def hunk_new_lines_def preview_body_def to_line_def
        split_lines_line max_int_def)
  ultimately show ?thesis by (rule apply_patch_refines)
qed





text \<open>A hunk without old lines (\<open>@@ -n,0 +m,k @@\<close>, which in a unified diff inserts after line \<open>n\<close>) is
  inserted before line \<open>n\<close>, one line too early.\<close>

theorem insertion_is_one_line_early:
  assumes "fp_hunks p = [h]" "hunk_old_lines h = []" "uh_old_start h = int n" "1 \<le> n"
    "n \<le> length (split_lines current)" "small n"
  shows "\<exists>info. apply_patch current p =
    Ret (Inr (lines_text (take (n - 1) (split_lines current) @ hunk_new_lines h @ drop (n - 1) (split_lines current))), info)"
proof -
  have "wrap64 (int n - 1) = int (n - 1)"
    using smallD [OF assms(6)] assms(4) by (subst wrap64_id) (simp_all add: max_int_def)
  moreover have "find_hunk_position (split_lines current) [] 0 (int (n - 1)) = Ret (int (n - 1))"
    using assms(5) by (simp add: find_hunk_position_def)
  ultimately show ?thesis
    using assms by (simp add: apply_patch_def Let_def of_nat_diff nat_diff_distrib)
qed

lemma mod_minus_wrap:
  assumes "a = m - 2" "2 \<le> (b :: int)" "b < m"
  shows "(a + b) mod m = b - 2"
proof -
  have "a + b = (b - 2) + m" using assms(1) by simp
  then have "(a + b) mod m = (b - 2) mod m" by (simp only: mod_add_self2)
  then show ?thesis using assms by simp
qed

definition insert0 :: unified_hunk where
  "insert0 = \<lparr>uh_old_start = 1, uh_old_count = 0, uh_new_start = 2, uh_new_count = 1, uh_section = [],
     uh_lines = [\<lparr>ul_kind = CHR ''+'', ul_text = ''b''\<rparr>]\<rparr>"

theorem insertion_is_one_line_early_witness:
  "\<exists>info. apply_patch (''a'' @ nl) (patch0\<lparr>fp_hunks := [insert0]\<rparr>) = Ret (Inr (''b'' @ nl @ ''a'' @ nl), info)"
proof -
  have "hunk_old_lines insert0 = []" "hunk_new_lines insert0 = [''b'']" "uh_old_start insert0 = int 1"
    by (simp_all add: insert0_def hunk_old_lines_def hunk_new_lines_def)
  with insertion_is_one_line_early [of "patch0\<lparr>fp_hunks := [insert0]\<rparr>" insert0 1 "''a'' @ nl"] show ?thesis
    by (simp add: small_def max_int_def lines_text_def)
qed

text \<open>A first hunk that starts at the largest \<open>int\<close> and has at least two old lines makes the position
  check overflow: applying it panics on every file.\<close>

theorem huge_hunk_start_panics:
  assumes "fp_hunks p = h # hs" "uh_old_start h = max_int" "hunk_old_lines h = s # t # seq"
    and "small (length (split_lines current))" "small (length (hunk_old_lines h))"
  shows "apply_patch current p = Panic"
proof -
  let ?old = "hunk_old_lines h" and ?lines = "split_lines current"
  have w: "wrap64 (max_int - 1) = max_int - 1" by (simp add: max_int_def)
  have "2 \<le> length ?old" by (simp add: assms(3))
  then have "(18446744073709551614 + int (length ?old)) mod 18446744073709551616 = int (length ?old) - 2"
    using smallD [OF assms(5)] by (intro mod_minus_wrap) simp_all
  then have "wrap64 (max_int - 1 + int (length ?old)) < 0"
    using smallD [OF assms(5)] by (simp add: wrap64_def max_int_def)
  then have "sequence_matches ?lines ?old (max_int - 1) = Panic"
    using smallD [OF assms(4)] by (simp add: sequence_matches_def assms(3)) (simp add: max_int_def)
  then show ?thesis
    using assms by (simp add: apply_patch_def Let_def w find_hunk_position_def) (simp add: max_int_def)
qed

theorem huge_hunk_start_panics_witness:
  "apply_patch (''a'' @ nl)
     (patch0\<lparr>fp_hunks := [insert0\<lparr>uh_old_start := max_int, uh_lines := replicate 2 \<lparr>ul_kind = CHR ''-'', ul_text = ''a''\<rparr>\<rparr>]\<rparr>) = Panic"
proof -
  let ?h = "insert0\<lparr>uh_old_start := max_int, uh_lines := replicate 2 \<lparr>ul_kind = CHR ''-'', ul_text = ''a''\<rparr>\<rparr>"
  have "hunk_old_lines ?h = ''a'' # ''a'' # []"
    by (simp add: hunk_old_lines_def numeral_2_eq_2)
  with huge_hunk_start_panics [of "patch0\<lparr>fp_hunks := [?h]\<rparr>" ?h "[]"] small0 show ?thesis
    by (simp add: small_def max_int_def)
qed

end
