(* ===== verification/File_System.thy ===== *)
theory File_System
  imports Workspace_Paths Go_Outcome "HOL-Library.State_Monad"
begin

text \<open>
  The file system the code tools write to, as the operations of Go's \<open>os\<close> package see it: a tree of files
  (content and permission bits) and directories, without links. Every system call can fail: a schedule gives
  the failure, if any, of the n-th call, and a call that fails this way changes nothing. Names of temporary
  files and the process's umask are given.
\<close>

section \<open>The state\<close>

datatype fnode = FFile string nat | FDir

type_synonym ftree = "(path \<times> fnode) list"

datatype os_error = NotExist string | OsFail string

record fs_world =
  fs_tree :: ftree
  fs_calls :: nat
  fs_faults :: "nat \<Rightarrow> string option"
  fs_temp :: "nat \<Rightarrow> string"
  fs_umask :: nat

fun os_text :: "os_error \<Rightarrow> string" where
  "os_text (NotExist s) = s"
| "os_text (OsFail s) = s"

definition os_err :: "os_error \<Rightarrow> go_error" where
  "os_err e = Err (os_text e)"

definition set_node :: "path \<Rightarrow> fnode \<Rightarrow> ftree \<Rightarrow> ftree" where
  "set_node p n t = (p, n) # filter (\<lambda>(q, _). q \<noteq> p) t"

definition del_node :: "path \<Rightarrow> ftree \<Rightarrow> ftree" where
  "del_node p t = filter (\<lambda>(q, _). q \<noteq> p) t"

lemma map_of_del_node [simp]: "map_of (del_node p t) = (map_of t)(p := None)"
  by (induction t) (auto simp: del_node_def fun_eq_iff)

lemma map_of_set_node [simp]: "map_of (set_node p n t) = (map_of t)(p \<mapsto> n)"
  using map_of_del_node [of p t] by (simp add: set_node_def del_node_def)

text \<open>Looking a path up: the first component that is no directory decides.\<close>

fun first_block :: "ftree \<Rightarrow> path \<Rightarrow> path \<Rightarrow> path option" where
  "first_block t done [] = None"
| "first_block t done (c # cs) = (if map_of t done = Some FDir then first_block t (done @ [c]) cs else Some done)"

definition os_lookup :: "ftree \<Rightarrow> path \<Rightarrow> os_error + fnode" where
  "os_lookup t p =
     (case first_block t [] p of
        Some q \<Rightarrow>
          (if map_of t q = None then Inl (NotExist (path_text p @ '': no such file or directory''))
           else Inl (OsFail (path_text p @ '': not a directory'')))
      | None \<Rightarrow>
          (case map_of t p of
             None \<Rightarrow> Inl (NotExist (path_text p @ '': no such file or directory''))
           | Some n \<Rightarrow> Inr n))"

section \<open>System calls\<close>

definition sys :: "(fs_world \<Rightarrow> os_error + 'a \<times> ftree) \<Rightarrow> (fs_world, os_error + 'a) state" where
  "sys f = State (\<lambda>w.
     let w' = w\<lparr>fs_calls := Suc (fs_calls w)\<rparr> in
     case fs_faults w (fs_calls w) of
       Some e \<Rightarrow> (Inl (OsFail e), w')
     | None \<Rightarrow> (case f w of Inl e \<Rightarrow> (Inl e, w') | Inr (a, t) \<Rightarrow> (Inr a, w'\<lparr>fs_tree := t\<rparr>)))"

definition os_stat :: "path \<Rightarrow> (fs_world, os_error + fnode) state" where
  "os_stat p = sys (\<lambda>w. case os_lookup (fs_tree w) p of Inl e \<Rightarrow> Inl e | Inr n \<Rightarrow> Inr (n, fs_tree w))"

definition os_read :: "path \<Rightarrow> (fs_world, os_error + string) state" where
  "os_read p = sys (\<lambda>w.
     case os_lookup (fs_tree w) p of
       Inl e \<Rightarrow> Inl e
     | Inr FDir \<Rightarrow> Inl (OsFail (path_text p @ '': is a directory''))
     | Inr (FFile c m) \<Rightarrow> Inr (c, fs_tree w))"

definition os_mkdir :: "path \<Rightarrow> (fs_world, os_error + unit) state" where
  "os_mkdir p = sys (\<lambda>w.
     case os_lookup (fs_tree w) (butlast p) of
       Inl e \<Rightarrow> Inl e
     | Inr (FFile _ _) \<Rightarrow> Inl (OsFail (path_text p @ '': not a directory''))
     | Inr FDir \<Rightarrow>
         if map_of (fs_tree w) p = None then Inr ((), set_node p FDir (fs_tree w))
         else Inl (OsFail (path_text p @ '': file exists'')))"

text \<open>\<open>os.MkdirAll\<close>: the missing directories of the path, from the top.\<close>

fun mkdir_from :: "path \<Rightarrow> path \<Rightarrow> (fs_world, os_error + unit) state" where
  "mkdir_from done [] = State_Monad.return (Inr ())"
| "mkdir_from done (c # cs) = do {
     r \<leftarrow> os_stat (done @ [c]);
     case r of
       Inr FDir \<Rightarrow> mkdir_from (done @ [c]) cs
     | Inr (FFile _ _) \<Rightarrow> State_Monad.return (Inl (OsFail (path_text (done @ [c]) @ '': not a directory'')))
     | Inl _ \<Rightarrow> do {
         m \<leftarrow> os_mkdir (done @ [c]);
         case m of
           Inr _ \<Rightarrow> mkdir_from (done @ [c]) cs
         | Inl e \<Rightarrow> do {
             again \<leftarrow> os_stat (done @ [c]);
             case again of
               Inr FDir \<Rightarrow> mkdir_from (done @ [c]) cs
             | _ \<Rightarrow> State_Monad.return (Inl e)
           }
       }
   }"

definition os_mkdir_all :: "path \<Rightarrow> (fs_world, os_error + unit) state" where
  "os_mkdir_all p = mkdir_from [] p"

text \<open>\<open>os.CreateTemp(dir, ".agent-patch-*")\<close> creates a file that did not exist.\<close>

definition os_create_temp :: "path \<Rightarrow> (fs_world, os_error + path) state" where
  "os_create_temp dir = sys (\<lambda>w.
     let p = dir @ [''.agent-patch-'' @ fs_temp w (fs_calls w)] in
     case os_lookup (fs_tree w) dir of
       Inl e \<Rightarrow> Inl e
     | Inr (FFile _ _) \<Rightarrow> Inl (OsFail (path_text p @ '': not a directory''))
     | Inr FDir \<Rightarrow>
         if map_of (fs_tree w) p = None then Inr (p, set_node p (FFile [] 384) (fs_tree w))
         else Inl (OsFail (path_text p @ '': file exists'')))"

text \<open>Writing to and closing an open file, and changing its permission bits.\<close>

definition os_write :: "path \<Rightarrow> string \<Rightarrow> (fs_world, os_error + unit) state" where
  "os_write p c = sys (\<lambda>w.
     case map_of (fs_tree w) p of
       Some (FFile _ m) \<Rightarrow> Inr ((), set_node p (FFile c m) (fs_tree w))
     | _ \<Rightarrow> Inr ((), fs_tree w))"

definition os_close :: "(fs_world, os_error + unit) state" where
  "os_close = sys (\<lambda>w. Inr ((), fs_tree w))"

definition os_chmod :: "path \<Rightarrow> nat \<Rightarrow> (fs_world, os_error + unit) state" where
  "os_chmod p mode = sys (\<lambda>w.
     case os_lookup (fs_tree w) p of
       Inl e \<Rightarrow> Inl e
     | Inr FDir \<Rightarrow> Inr ((), fs_tree w)
     | Inr (FFile c m) \<Rightarrow> Inr ((), set_node p (FFile c mode) (fs_tree w)))"

definition os_rename :: "path \<Rightarrow> path \<Rightarrow> (fs_world, os_error + unit) state" where
  "os_rename p q = sys (\<lambda>w.
     case (os_lookup (fs_tree w) p, os_lookup (fs_tree w) (butlast q)) of
       (Inr (FFile c m), Inr FDir) \<Rightarrow>
         if map_of (fs_tree w) q = Some FDir \<or> q = [] then Inl (OsFail (path_text q @ '': file exists''))
         else Inr ((), set_node q (FFile c m) (del_node p (fs_tree w)))
     | (Inl e, _) \<Rightarrow> Inl e
     | (_, Inl e) \<Rightarrow> Inl e
     | _ \<Rightarrow> Inl (OsFail (path_text q @ '': not a directory'')))"

definition os_remove :: "path \<Rightarrow> (fs_world, os_error + unit) state" where
  "os_remove p = sys (\<lambda>w.
     case os_lookup (fs_tree w) p of
       Inl e \<Rightarrow> Inl e
     | Inr (FFile _ _) \<Rightarrow> Inr ((), del_node p (fs_tree w))
     | Inr FDir \<Rightarrow>
         if p = [] \<or> list_ex (\<lambda>(q, _). q \<noteq> p \<and> prefix p q) (fs_tree w)
         then Inl (OsFail (path_text p @ '': directory not empty''))
         else Inr ((), del_node p (fs_tree w)))"

text \<open>\<open>os.WriteFile\<close>: open for writing, truncating or creating, then write.\<close>

definition os_open_trunc :: "path \<Rightarrow> nat \<Rightarrow> (fs_world, os_error + unit) state" where
  "os_open_trunc p mode = sys (\<lambda>w.
     case os_lookup (fs_tree w) (butlast p) of
       Inl e \<Rightarrow> Inl e
     | Inr (FFile _ _) \<Rightarrow> Inl (OsFail (path_text p @ '': not a directory''))
     | Inr FDir \<Rightarrow>
         (case map_of (fs_tree w) p of
            None \<Rightarrow> Inr ((), set_node p (FFile [] (mode - and mode (fs_umask w))) (fs_tree w))
          | Some FDir \<Rightarrow> Inl (OsFail (path_text p @ '': is a directory''))
          | Some (FFile _ m) \<Rightarrow> Inr ((), set_node p (FFile [] m) (fs_tree w))))"

definition os_write_file :: "path \<Rightarrow> string \<Rightarrow> nat \<Rightarrow> (fs_world, os_error + unit) state" where
  "os_write_file p c mode = do {
     r \<leftarrow> os_open_trunc p mode;
     case r of Inl e \<Rightarrow> State_Monad.return (Inl e) | Inr _ \<Rightarrow> os_write p c
   }"

section \<open>Trees and their contents\<close>

definition wf_tree :: "ftree \<Rightarrow> bool" where
  "wf_tree t \<longleftrightarrow> map_of t [] = Some FDir \<and> (\<forall>p c. map_of t (p @ [c]) \<noteq> None \<longrightarrow> map_of t p = Some FDir)"

definition contents :: "ftree \<Rightarrow> path \<Rightarrow> string option" where
  "contents t p = (case map_of t p of Some (FFile c _) \<Rightarrow> Some c | _ \<Rightarrow> None)"

text \<open>
  \<open>tree_from t0 t\<close>: a tree reached from \<open>t0\<close> by operations that neither remove a directory of \<open>t0\<close> nor put one
  where \<open>t0\<close> has a file.
\<close>

definition tree_from :: "ftree \<Rightarrow> ftree \<Rightarrow> bool" where
  "tree_from t0 t \<longleftrightarrow> wf_tree t \<and>
     (\<forall>p. map_of t0 p = Some FDir \<longrightarrow> map_of t p = Some FDir) \<and>
     (\<forall>p. map_of t p = Some FDir \<longrightarrow> contents t0 p = None)"

lemma contents_simps [simp]:
  "contents (set_node p (FFile c m) t) = (contents t)(p \<mapsto> c)"
  "contents (set_node p FDir t) = (contents t)(p := None)"
  "contents (del_node p t) = (contents t)(p := None)"
  by (auto simp: contents_def fun_eq_iff)

lemma contents_None [simp]:
  "map_of t p = None \<Longrightarrow> contents t p = None" "map_of t p = Some FDir \<Longrightarrow> contents t p = None"
  by (simp_all add: contents_def)

lemma wf_tree_below: "wf_tree t \<Longrightarrow> map_of t p \<noteq> Some FDir \<Longrightarrow> map_of t (p @ [c]) = None"
  unfolding wf_tree_def by blast

lemma wf_tree_root: "wf_tree t \<Longrightarrow> map_of t [] = Some FDir"
  by (simp add: wf_tree_def)

lemma wf_tree_put:
  assumes "wf_tree t" "p \<noteq> []" "map_of t (butlast p) = Some FDir" "map_of t p \<noteq> Some FDir"
  shows "wf_tree (set_node p n t)"
proof -
  have "map_of (set_node p n t) q = Some FDir" if "map_of (set_node p n t) (q @ [c]) \<noteq> None" for q c
  proof (cases "q @ [c] = p")
    case True
    then have "q = butlast p" "q \<noteq> p" by auto
    with assms(3) show ?thesis by simp
  next
    case False
    with that have "map_of t (q @ [c]) \<noteq> None" by simp
    with wf_tree_below [OF assms(1), of q c] assms(4) show ?thesis by (cases "q = p") auto
  qed
  moreover have "map_of (set_node p n t) [] = Some FDir"
    using assms(2) wf_tree_root [OF assms(1)] by simp
  ultimately show ?thesis unfolding wf_tree_def by blast
qed

lemma wf_tree_del:
  assumes "wf_tree t" "p \<noteq> []" "\<And>c. map_of t (p @ [c]) = None"
  shows "wf_tree (del_node p t)"
  using assms by (auto simp: wf_tree_def)

lemma tree_from_refl: "wf_tree t \<Longrightarrow> tree_from t t"
  by (simp add: tree_from_def)

lemma tree_fromD: "tree_from t0 t \<Longrightarrow> wf_tree t"
  by (simp add: tree_from_def)

lemma tree_from_put_file:
  "tree_from t0 t \<Longrightarrow> p \<noteq> [] \<Longrightarrow> map_of t (butlast p) = Some FDir \<Longrightarrow> map_of t p \<noteq> Some FDir \<Longrightarrow>
     tree_from t0 (set_node p (FFile c m) t)"
  by (auto simp: tree_from_def wf_tree_put)

lemma tree_from_put_dir:
  "tree_from t0 t \<Longrightarrow> p \<noteq> [] \<Longrightarrow> map_of t (butlast p) = Some FDir \<Longrightarrow> map_of t p = None \<Longrightarrow> contents t0 p = None \<Longrightarrow>
     tree_from t0 (set_node p FDir t)"
  by (auto simp: tree_from_def wf_tree_put)

lemma tree_from_del_file:
  assumes "tree_from t0 t" "map_of t p = Some (FFile c m)"
  shows "tree_from t0 (del_node p t)"
proof -
  have "map_of t (p @ [d]) = None" "p \<noteq> []" for d
    using assms wf_tree_below [of t p d] wf_tree_root [of t] tree_fromD [OF assms(1)] by auto
  then have "wf_tree (del_node p t)" using tree_fromD [OF assms(1)] by (intro wf_tree_del)
  then show ?thesis using assms by (auto simp: tree_from_def)
qed

lemma tree_from_del_dir:
  assumes "tree_from t0 t" "p \<noteq> []" "map_of t0 p \<noteq> Some FDir" "\<And>c. map_of t (p @ [c]) = None"
  shows "tree_from t0 (del_node p t)"
  using assms by (auto simp: tree_from_def wf_tree_del)

section \<open>Lookup in a well-formed tree\<close>

lemma first_block_SomeD:
  "first_block t done cs = Some q \<Longrightarrow>
     \<exists>k < length cs. q = done @ take k cs \<and> map_of t q \<noteq> Some FDir \<and> (\<forall>j < k. map_of t (done @ take j cs) = Some FDir)"
proof (induction t "done" cs rule: first_block.induct)
  case (2 t "done" c cs)
  show ?case
  proof (cases "map_of t done = Some FDir")
    case True
    with 2 obtain k where k: "k < length cs" "q = (done @ [c]) @ take k cs" "map_of t q \<noteq> Some FDir"
      "\<forall>j < k. map_of t ((done @ [c]) @ take j cs) = Some FDir" by fastforce
    have "map_of t (done @ take j (c # cs)) = Some FDir" if "j < Suc k" for j
      using that True k(4) by (cases j) simp_all
    with k show ?thesis by (intro exI [of _ "Suc k"]) simp
  next
    case False
    with 2 show ?thesis by (intro exI [of _ 0]) simp
  qed
qed simp

lemma first_block_NoneD:
  "first_block t done cs = None \<Longrightarrow> k < length cs \<Longrightarrow> map_of t (done @ take k cs) = Some FDir"
proof (induction t "done" cs arbitrary: k rule: first_block.induct)
  case (2 t "done" c cs)
  then show ?case by (cases k) (auto split: if_splits)
qed simp

lemma wf_tree_above: "wf_tree t \<Longrightarrow> map_of t (p @ q) \<noteq> None \<Longrightarrow> q \<noteq> [] \<Longrightarrow> map_of t p = Some FDir"
proof (induction q rule: rev_induct)
  case (snoc c q)
  then have "map_of t (p @ q) = Some FDir" by (auto simp: wf_tree_def simp flip: append_assoc)
  with snoc show ?case by (cases "q = []") simp_all
qed simp

lemma os_lookup_Some:
  assumes "wf_tree t" "map_of t p = Some n"
  shows "os_lookup t p = Inr n"
proof -
  have "first_block t [] p = None"
  proof (rule ccontr)
    assume "first_block t [] p \<noteq> None"
    then obtain k where k: "k < length p" "map_of t (take k p) \<noteq> Some FDir"
      using first_block_SomeD [of t "[]" p] by fastforce
    with wf_tree_above [OF assms(1), of "take k p" "drop k p"] assms(2) show False by simp
  qed
  with assms(2) show ?thesis by (simp add: os_lookup_def)
qed

lemma os_lookup_iff:
  assumes "wf_tree t"
  shows "os_lookup t p = Inr n \<longleftrightarrow> map_of t p = Some n"
proof
  assume "os_lookup t p = Inr n"
  then show "map_of t p = Some n" by (auto simp: os_lookup_def split: option.splits if_splits)
qed (rule os_lookup_Some [OF assms])

lemma os_lookup_Inl:
  assumes "wf_tree t" "os_lookup t p = Inl e"
  shows "map_of t p = None"
  using assms os_lookup_Some by (cases "map_of t p") fastforce+

text \<open>A path that does not exist has no file above it.\<close>

lemma os_lookup_NotExist:
  assumes wf: "wf_tree t" and none: "os_lookup t p = Inl (NotExist e)" "prefix q p"
  shows "contents t q = None"
proof -
  obtain j where j: "q = take j p" "j \<le> length p"
    using none(2) by (auto simp: prefix_def intro: that [of "length q"])
  show ?thesis
  proof (cases "first_block t [] p")
    case None
    with first_block_NoneD [OF None, of j] os_lookup_Inl [OF wf none(1)] j show ?thesis
      by (cases "j = length p") simp_all
  next
    case (Some b)
    with none(1) have b: "map_of t b = None" by (auto simp: os_lookup_def split: if_splits)
    from first_block_SomeD [OF Some] obtain k where
      k: "k < length p" "b = take k p" "\<forall>j < k. map_of t (take j p) = Some FDir" by auto
    show ?thesis
    proof (cases "j \<le> k")
      case True
      with k j b show ?thesis by (cases "j = k") simp_all
    next
      case False
      then have "q = b @ drop k (take j p)"
        using j k append_take_drop_id [of k "take j p"] by (simp add: min_def)
      moreover have "drop k (take j p) \<noteq> []" using False j by simp
      ultimately have "map_of t q = None"
        using wf_tree_above [OF wf, of b "drop k (take j p)"] b by (cases "map_of t q") auto
      then show ?thesis by simp
    qed
  qed
qed

end
