(* ===== verification/File_Effects.thy ===== *)
theory File_Effects
  imports File_System
begin

text \<open>
  What each operation of the file system does to the contents of the files, for the trees a patch works on.
\<close>

section \<open>Calls and faults\<close>

text \<open>No fault is scheduled from now on.\<close>

definition quiet :: "fs_world \<Rightarrow> bool" where
  "quiet w \<longleftrightarrow> (\<forall>i \<ge> fs_calls w. fs_faults w i = None)"

definition same_env :: "fs_world \<Rightarrow> fs_world \<Rightarrow> bool" where
  "same_env w w' \<longleftrightarrow> fs_calls w \<le> fs_calls w' \<and> fs_faults w' = fs_faults w \<and> fs_temp w' = fs_temp w \<and> fs_umask w' = fs_umask w"

lemma same_env_refl [simp]: "same_env w w"
  by (simp add: same_env_def)

lemma same_env_trans: "same_env u v \<Longrightarrow> same_env v w \<Longrightarrow> same_env u w"
  by (auto simp: same_env_def)

lemma quiet_mono: "quiet w \<Longrightarrow> same_env w w' \<Longrightarrow> quiet w'"
  by (auto simp: quiet_def same_env_def)

lemma sys_run:
  "run_state (sys f) w =
     (let w' = w\<lparr>fs_calls := Suc (fs_calls w)\<rparr> in
      case fs_faults w (fs_calls w) of
        Some e \<Rightarrow> (Inl (OsFail e), w')
      | None \<Rightarrow> (case f w of Inl e \<Rightarrow> (Inl e, w') | Inr (a, t) \<Rightarrow> (Inr a, w'\<lparr>fs_tree := t\<rparr>)))"
  by (simp add: sys_def)

lemma sys_env: "run_state (sys f) w = (r, w') \<Longrightarrow> same_env w w'"
  by (auto simp: sys_run Let_def same_env_def split: option.splits sum.splits)

lemma sys_Inl: "run_state (sys f) w = (Inl e, w') \<Longrightarrow> fs_tree w' = fs_tree w"
  by (auto simp: sys_run Let_def split: option.splits sum.splits)

lemma sys_Inr: "run_state (sys f) w = (Inr a, w') \<Longrightarrow> f w = Inr (a, fs_tree w')"
  by (auto simp: sys_run Let_def split: option.splits sum.splits)

lemma sys_NotExist: "run_state (sys f) w = (Inl (NotExist e), w') \<Longrightarrow> f w = Inl (NotExist e)"
  by (auto simp: sys_run Let_def split: option.splits sum.splits)

lemma sys_quiet:
  "run_state (sys f) w = (r, w') \<Longrightarrow> quiet w \<Longrightarrow>
     (case f w of Inl e \<Rightarrow> r = Inl e \<and> fs_tree w' = fs_tree w | Inr (a, t) \<Rightarrow> r = Inr a \<and> fs_tree w' = t)"
  by (auto simp: sys_run Let_def quiet_def split: option.splits sum.splits)

lemmas op_defs = os_stat_def os_read_def os_mkdir_def os_create_temp_def os_write_def os_close_def os_chmod_def
  os_rename_def os_remove_def os_open_trunc_def

lemma op_env:
  "run_state (os_stat p) w = (r1, w') \<Longrightarrow> same_env w w'"
  "run_state (os_read p) w = (r2, w') \<Longrightarrow> same_env w w'"
  "run_state (os_mkdir p) w = (r3, w') \<Longrightarrow> same_env w w'"
  "run_state (os_create_temp p) w = (r4, w') \<Longrightarrow> same_env w w'"
  "run_state (os_write p c) w = (r3, w') \<Longrightarrow> same_env w w'"
  "run_state os_close w = (r3, w') \<Longrightarrow> same_env w w'"
  "run_state (os_chmod p m) w = (r3, w') \<Longrightarrow> same_env w w'"
  "run_state (os_rename p q) w = (r3, w') \<Longrightarrow> same_env w w'"
  "run_state (os_remove p) w = (r3, w') \<Longrightarrow> same_env w w'"
  "run_state (os_open_trunc p m) w = (r3, w') \<Longrightarrow> same_env w w'"
  unfolding op_defs by (blast dest: sys_env)+

lemma op_failed:
  "run_state (os_create_temp p) w = (Inl e, w') \<Longrightarrow> fs_tree w' = fs_tree w"
  "run_state (os_write p c) w = (Inl e, w') \<Longrightarrow> fs_tree w' = fs_tree w"
  "run_state (os_mkdir p) w = (Inl e, w') \<Longrightarrow> fs_tree w' = fs_tree w"
  "run_state (os_chmod p m) w = (Inl e, w') \<Longrightarrow> fs_tree w' = fs_tree w"
  "run_state (os_rename p q) w = (Inl e, w') \<Longrightarrow> fs_tree w' = fs_tree w"
  "run_state (os_remove p) w = (Inl e, w') \<Longrightarrow> fs_tree w' = fs_tree w"
  unfolding op_defs by (blast dest: sys_Inl)+

section \<open>Reading\<close>

lemma os_stat_tree: "run_state (os_stat p) w = (r, w') \<Longrightarrow> fs_tree w' = fs_tree w"
  unfolding os_stat_def by (cases r) (auto dest: sys_Inl sys_Inr split: sum.splits)

lemma os_stat_Inr: "run_state (os_stat p) w = (Inr n, w') \<Longrightarrow> os_lookup (fs_tree w) p = Inr n"
  unfolding os_stat_def by (auto dest!: sys_Inr split: sum.splits)

lemma os_stat_NotExist: "run_state (os_stat p) w = (Inl (NotExist e), w') \<Longrightarrow> os_lookup (fs_tree w) p = Inl (NotExist e)"
  unfolding os_stat_def by (auto dest!: sys_NotExist split: sum.splits)

lemma os_read_tree: "run_state (os_read p) w = (r, w') \<Longrightarrow> fs_tree w' = fs_tree w"
  unfolding os_read_def by (cases r) (auto dest: sys_Inl sys_Inr split: sum.splits fnode.splits)

lemma os_read_Inr: "run_state (os_read p) w = (Inr c, w') \<Longrightarrow> \<exists>m. os_lookup (fs_tree w) p = Inr (FFile c m)"
  unfolding os_read_def by (auto dest!: sys_Inr split: sum.splits fnode.splits)

lemma os_close_tree: "run_state os_close w = (r, w') \<Longrightarrow> fs_tree w' = fs_tree w"
  unfolding os_close_def by (cases r) (auto dest: sys_Inl sys_Inr)

section \<open>Writing\<close>

lemma file_node: "contents t p = Some c \<Longrightarrow> \<exists>m. map_of t p = Some (FFile c m)"
  by (auto simp: contents_def split: option.splits fnode.splits)


lemma wf_now: "tree_from t0 (fs_tree w) \<Longrightarrow> wf_tree (fs_tree w)"
  by (rule tree_fromD)

lemma os_mkdir_effect:
  assumes from_t0: "tree_from t0 (fs_tree w)" and "run_state (os_mkdir p) w = (r, w')" "p \<noteq> []" "contents t0 p = None"
  shows "tree_from t0 (fs_tree w') \<and> contents (fs_tree w') = contents (fs_tree w)"
proof (cases r)
  case (Inr u)
  with sys_Inr assms(2) have "map_of (fs_tree w) (butlast p) = Some FDir" "map_of (fs_tree w) p = None"
    "fs_tree w' = set_node p FDir (fs_tree w)"
    unfolding os_mkdir_def by (fastforce simp: os_lookup_iff [OF wf_now [OF from_t0]] split: sum.splits fnode.splits if_splits)+
  with assms(3,4) show ?thesis
    by (simp add: tree_from_put_dir [OF from_t0] fun_upd_idem)
qed (use assms(2) op_failed(3) from_t0 in auto)

lemma os_create_temp_effect:
  assumes from_t0: "tree_from t0 (fs_tree w)" and "run_state (os_create_temp d) w = (Inr p, w')"
  shows "butlast p = d" "p \<noteq> []" "map_of (fs_tree w) p = None" "map_of (fs_tree w) d = Some FDir"
    "tree_from t0 (fs_tree w')" "contents (fs_tree w') = (contents (fs_tree w))(p \<mapsto> [])"
    "contents (fs_tree w') p \<noteq> None"
proof -
  have r: "butlast p = d \<and> p \<noteq> [] \<and> map_of (fs_tree w) p = None \<and> map_of (fs_tree w) d = Some FDir \<and>
    fs_tree w' = set_node p (FFile [] 384) (fs_tree w)"
    using sys_Inr [OF assms(2) [unfolded os_create_temp_def]]
    by (auto simp: Let_def os_lookup_iff [OF wf_now [OF from_t0]] split: sum.splits fnode.splits if_splits)
  then show "butlast p = d" "p \<noteq> []" "map_of (fs_tree w) p = None" "map_of (fs_tree w) d = Some FDir" by simp_all
  with r show "tree_from t0 (fs_tree w')" by (simp add: tree_from_put_file [OF from_t0])
  from r show "contents (fs_tree w') = (contents (fs_tree w))(p \<mapsto> [])" "contents (fs_tree w') p \<noteq> None" by simp_all
qed

lemma file_above:
  assumes from_t0: "tree_from t0 (fs_tree w)" and "contents (fs_tree w) p = Some c"
  shows "p \<noteq> []" "map_of (fs_tree w) (butlast p) = Some FDir"
proof -
  obtain m where m: "map_of (fs_tree w) p = Some (FFile c m)" using file_node [OF assms(2)] by blast
  then show p: "p \<noteq> []" using wf_tree_root [OF wf_now [OF from_t0]] by auto
  show "map_of (fs_tree w) (butlast p) = Some FDir"
    using wf_tree_above [OF wf_now [OF from_t0], of "butlast p" "[last p]"] m p by simp
qed

lemma rewrite_file:
  assumes from_t0: "tree_from t0 (fs_tree w)" and "contents (fs_tree w) p = Some c"
  shows "tree_from t0 (set_node p (FFile d m) (fs_tree w))"
  using file_node [OF assms(2)] file_above [OF assms] by (auto intro: tree_from_put_file [OF from_t0])

lemma os_write_effect:
  assumes from_t0: "tree_from t0 (fs_tree w)" and "run_state (os_write p c) w = (Inr u, w')" "contents (fs_tree w) p = Some d"
  shows "tree_from t0 (fs_tree w')" "contents (fs_tree w') = (contents (fs_tree w))(p \<mapsto> c)"
proof -
  from file_node [OF assms(3)] sys_Inr [OF assms(2) [unfolded os_write_def]]
  obtain m where "set_node p (FFile c m) (fs_tree w) = fs_tree w'" by auto
  then have "fs_tree w' = set_node p (FFile c m) (fs_tree w)" by (rule sym)
  then show "tree_from t0 (fs_tree w')" "contents (fs_tree w') = (contents (fs_tree w))(p \<mapsto> c)"
    using rewrite_file [OF from_t0 assms(3)] by simp_all
qed

lemma os_chmod_effect:
  assumes from_t0: "tree_from t0 (fs_tree w)" and "run_state (os_chmod p m) w = (Inr u, w')"
  shows "tree_from t0 (fs_tree w')" "contents (fs_tree w') = contents (fs_tree w)"
proof -
  have "fs_tree w' = fs_tree w \<or> (\<exists>c k. map_of (fs_tree w) p = Some (FFile c k) \<and> fs_tree w' = set_node p (FFile c m) (fs_tree w))"
    using sys_Inr [OF assms(2) [unfolded os_chmod_def]] by (auto simp: os_lookup_iff [OF wf_now [OF from_t0]] split: sum.splits fnode.splits)
  then show "tree_from t0 (fs_tree w')" "contents (fs_tree w') = contents (fs_tree w)"
    using from_t0 rewrite_file [OF from_t0] by (auto simp: contents_def fun_eq_iff)
qed

lemma os_rename_effect:
  assumes from_t0: "tree_from t0 (fs_tree w)" and "run_state (os_rename p q) w = (Inr u, w')" "contents (fs_tree w) p = Some c"
  shows "tree_from t0 (fs_tree w')" "contents (fs_tree w') = (contents (fs_tree w))(p := None, q \<mapsto> c)"
proof -
  obtain m where m: "map_of (fs_tree w) p = Some (FFile c m)" using file_node [OF assms(3)] by blast
  with sys_Inr [OF assms(2) [unfolded os_rename_def]]
  have r: "map_of (fs_tree w) (butlast q) = Some FDir" "map_of (fs_tree w) q \<noteq> Some FDir" "q \<noteq> []"
    "fs_tree w' = set_node q (FFile c m) (del_node p (fs_tree w))"
    by (auto simp: os_lookup_Some [OF wf_now [OF from_t0]] os_lookup_iff [OF wf_now [OF from_t0]] split: sum.splits fnode.splits if_splits)
  have "tree_from t0 (del_node p (fs_tree w))" by (rule tree_from_del_file [OF from_t0 m])
  moreover have "butlast q \<noteq> p" using r(1) m by auto
  ultimately show "tree_from t0 (fs_tree w')" using r by (auto intro!: tree_from_put_file split: if_splits)
  from r(4) show "contents (fs_tree w') = (contents (fs_tree w))(p := None, q \<mapsto> c)" by simp
qed

lemma os_remove_effect:
  assumes from_t0: "tree_from t0 (fs_tree w)" and "run_state (os_remove p) w = (Inr u, w')" "map_of t0 p \<noteq> Some FDir"
  shows "tree_from t0 (fs_tree w')" "contents (fs_tree w') = (contents (fs_tree w))(p := None)"
proof -
  let ?t = "fs_tree w"
  have r: "(\<exists>c m. map_of ?t p = Some (FFile c m)) \<or> p \<noteq> [] \<and> \<not> list_ex (\<lambda>(q, _). q \<noteq> p \<and> prefix p q) ?t"
    "fs_tree w' = del_node p ?t"
    using sys_Inr [OF assms(2) [unfolded os_remove_def]]
    by (auto simp: os_lookup_iff [OF wf_now [OF from_t0]] eq_commute [of "del_node _ _"] split: sum.splits fnode.splits if_splits)
  then show "contents (fs_tree w') = (contents ?t)(p := None)" by simp
  from r(1) show "tree_from t0 (fs_tree w')"
  proof
    assume "\<exists>c m. map_of ?t p = Some (FFile c m)"
    then show ?thesis using r(2) tree_from_del_file [OF from_t0] by auto
  next
    assume e: "p \<noteq> [] \<and> \<not> list_ex (\<lambda>(q, _). q \<noteq> p \<and> prefix p q) ?t"
    have "map_of ?t (p @ [c]) = None" for c
    proof -
      have "q = p \<or> \<not> prefix p q" if "(q, n) \<in> set ?t" for q n
        using e that by (auto simp: list_ex_iff)
      then have "(p @ [c], n) \<notin> set ?t" for n by (metis append_self_conv list.distinct(1) prefixI)
      then show ?thesis using map_of_SomeD [of ?t "p @ [c]"] by (cases "map_of ?t (p @ [c])") auto
    qed
    with e assms(3) show ?thesis unfolding r(2) by (intro tree_from_del_dir [OF from_t0]) auto
  qed
qed

lemma os_remove_quiet:
  assumes from_t0: "tree_from t0 (fs_tree w)" and "run_state (os_remove p) w = (r, w')" "map_of t0 p \<noteq> Some FDir" "quiet w"
  shows "tree_from t0 (fs_tree w') \<and> contents (fs_tree w') = (contents (fs_tree w))(p := None)"
proof (cases r)
  case (Inr u)
  with os_remove_effect assms show ?thesis by blast
next
  case (Inl e)
  then have same: "fs_tree w' = fs_tree w" using assms(2) op_failed(6) by blast
  have "contents (fs_tree w) p = None"
  proof (rule ccontr)
    assume "contents (fs_tree w) p \<noteq> None"
    then obtain c where "contents (fs_tree w) p = Some c" by blast
    then obtain m where "map_of (fs_tree w) p = Some (FFile c m)" using file_node by blast
    then have "os_lookup (fs_tree w) p = Inr (FFile c m)" by (rule os_lookup_Some [OF wf_now [OF from_t0]])
    then show False
      using sys_quiet [OF assms(2) [unfolded os_remove_def] assms(4)] Inl by simp
  qed
  with same from_t0 show ?thesis by (simp add: fun_upd_idem)
qed

section \<open>Composite operations\<close>

lemma run_bind: "run_state (State_Monad.bind m f) w = (let (a, w') = run_state m w in run_state (f a) w')"
  by (simp add: split_beta)

lemma bind_runE:
  assumes "run_state (State_Monad.bind m f) w = (r, w')"
  obtains a v where "run_state m w = (a, v)" "run_state (f a) v = (r, w')"
  using assms by (auto split: prod.splits)

lemma mkdir_from_effect:
  assumes "run_state (mkdir_from done cs) w = (r, w')" "tree_from t0 (fs_tree w)"
    "\<And>q. prefix q (done @ cs) \<Longrightarrow> contents t0 q = None"
  shows "tree_from t0 (fs_tree w') \<and> contents (fs_tree w') = contents (fs_tree w) \<and> same_env w w'"
  using assms
proof (induction cs arbitrary: "done" w)
  case (Cons c cs)
  obtain x v where x: "run_state (os_stat (done @ [c])) w = (x, v)" by fastforce
  have v: "fs_tree v = fs_tree w" "same_env w v" using os_stat_tree [OF x] op_env(1) [OF x] by blast+
  have pre: "prefix q ((done @ [c]) @ cs) \<Longrightarrow> contents t0 q = None" for q
    using Cons.prems(3) by simp
  have step: "run_state (mkdir_from (done @ [c]) cs) u = (r, w') \<Longrightarrow> tree_from t0 (fs_tree u) \<Longrightarrow>
      contents (fs_tree u) = contents (fs_tree w) \<Longrightarrow> same_env w u \<Longrightarrow> ?case" for u
    using Cons.IH [of "done @ [c]" u, OF _ _ pre] same_env_trans [of w u w'] by simp
  show ?case
  proof (cases "\<exists>e. x = Inl e")
    case True
    then obtain m u where m: "run_state (os_mkdir (done @ [c])) v = (m, u)" by fastforce
    have "contents t0 (done @ [c]) = None" using Cons.prems(3) [of "done @ [c]"] by simp
    from os_mkdir_effect [OF _ m, of t0] this v Cons.prems(2)
    have u: "tree_from t0 (fs_tree u)" "contents (fs_tree u) = contents (fs_tree w)" by simp_all
    have env: "same_env w u" using same_env_trans [OF v(2) op_env(3) [OF m]] .
    show ?thesis
    proof (cases m)
      case (Inr y)
      then have "run_state (mkdir_from (done @ [c]) cs) u = (r, w')"
        using Cons.prems(1) x True m by auto
      then show ?thesis using step u env by blast
    next
      case (Inl e)
      obtain y z where y: "run_state (os_stat (done @ [c])) u = (y, z)" by fastforce
      have z: "fs_tree z = fs_tree u" "same_env u z" using os_stat_tree [OF y] op_env(1) [OF y] by blast+
      have w_z: "same_env w z" using same_env_trans [OF env z(2)] .
      from True obtain e0 where "x = Inl e0" ..
      with Cons.prems(1) x m Inl y
      have "(case y of Inr FDir \<Rightarrow> run_state (mkdir_from (done @ [c]) cs) z | _ \<Rightarrow> (Inl e, z)) = (r, w')"
        by (cases y) (simp_all split: fnode.splits)
      then consider "run_state (mkdir_from (done @ [c]) cs) z = (r, w')" | "w' = z"
        by (cases y) (auto split: fnode.splits)
      then show ?thesis
      proof cases
        case 1
        then show ?thesis using step [OF 1] u z(1) w_z by simp
      next
        case 2
        then show ?thesis using u z(1) w_z by simp
      qed
    qed
  next
    case False
    then obtain n where "x = Inr n" by (cases x) auto
    with Cons.prems(1) x consider "run_state (mkdir_from (done @ [c]) cs) v = (r, w')" | "w' = v"
      by (cases n) auto
    then show ?thesis using step [of v] v Cons.prems(2) by cases auto
  qed
qed simp

lemma os_write_file_quiet:
  assumes "run_state (os_write_file p c m) w = (r, w')" "tree_from t0 (fs_tree w)" "quiet w"
    "p \<noteq> []" "map_of (fs_tree w) (butlast p) = Some FDir" "map_of (fs_tree w) p \<noteq> Some FDir"
  shows "tree_from t0 (fs_tree w') \<and> contents (fs_tree w') = (contents (fs_tree w))(p \<mapsto> c) \<and> quiet w'"
proof -
  obtain x v where x: "run_state (os_open_trunc p m) w = (x, v)" by fastforce
  have wf: "wf_tree (fs_tree w)" using assms(2) by (rule tree_fromD)
  have q: "quiet v" using assms(3) op_env(10) [OF x] by (rule quiet_mono)
  have "\<exists>k. x = Inr () \<and> fs_tree v = set_node p (FFile [] k) (fs_tree w)"
    using sys_quiet [OF x [unfolded os_open_trunc_def] assms(3)] assms(5,6)
    by (auto simp: os_lookup_Some [OF wf] split: option.splits fnode.splits)
  then obtain k where v: "x = Inr ()" "fs_tree v = set_node p (FFile [] k) (fs_tree w)" by blast
  then have y: "run_state (os_write p c) v = (r, w')" using assms(1) x by (simp add: os_write_file_def)
  have "fs_tree w' = set_node p (FFile c k) (fs_tree v)"
    using sys_quiet [OF y [unfolded os_write_def] q] v(2) by simp
  moreover have "tree_from t0 (set_node p (FFile c k) (fs_tree v))"
    unfolding v(2) using assms by (intro tree_from_put_file) auto
  moreover have "quiet w'" using q op_env(5) [OF y] by (rule quiet_mono)
  ultimately show ?thesis by (simp add: v(2))
qed

end
