(* ===== verification/Patch_Files.thy ===== *)
theory Patch_Files
  imports Diff_Apply File_Effects Sha256 Core_Values
begin

text \<open>
  Writing patches (\<open>internal/tools/code/patcher.go\<close> and the preparation in \<open>patch_validate.go\<close>): the files
  named by the input, the check of their base hashes, the replacement of each file through a temporary one,
  and the undoing of the files already written when one fails. A Go call is a state transformer of the file
  system that returns, fails or panics.
\<close>

section \<open>Calls that return, fail or panic\<close>

type_synonym 'a io = "(fs_world, 'a go) state"

definition io_bind :: "'a io \<Rightarrow> ('a \<Rightarrow> 'b io) \<Rightarrow> 'b io" where
  "io_bind m f = State_Monad.bind m (\<lambda>r.
     case r of Ret a \<Rightarrow> f a | Fail e \<Rightarrow> State_Monad.return (Fail e) | Panic \<Rightarrow> State_Monad.return Panic)"

abbreviation io_go :: "'a go \<Rightarrow> 'a io" where
  "io_go r \<equiv> State_Monad.return r"

definition io_os :: "(fs_world, os_error + 'a) state \<Rightarrow> 'a io" where
  "io_os m = State_Monad.bind m (\<lambda>r. State_Monad.return (case r of Inl e \<Rightarrow> Fail (os_err e) | Inr a \<Rightarrow> Ret a))"

definition sha256_hex :: "string \<Rightarrow> string" where
  "sha256_hex data = hex_bytes (sha256 data)"

section \<open>The input\<close>

record patch_file =
  pt_path :: string
  pt_content :: string
  pt_expected :: string

fun parse_patch_items :: "gval list \<Rightarrow> patch_file list res" where
  "parse_patch_items [] = Inr []"
| "parse_patch_items (GMap m # items) =
     (case str_opt m ''content'' of
        None \<Rightarrow> Inl (Err ''patch file content is required'')
      | Some content \<Rightarrow>
          if str_at m ''path'' = [] then Inl (Err ''patch file path is required'')
          else
            (case parse_patch_items items of
               Inl e \<Rightarrow> Inl e
             | Inr files \<Rightarrow>
                 Inr (\<lparr>pt_path = str_at m ''path'', pt_content = content,
                       pt_expected = str_at m ''expected_sha256''\<rparr> # files)))"
| "parse_patch_items (_ # items) = Inl (Err ''files entries must be objects'')"

definition parse_patch_file_list :: "gval \<Rightarrow> patch_file list res" where
  "parse_patch_file_list raw =
     (case raw of
        GList items \<Rightarrow> parse_patch_items items
      | GMaps ms \<Rightarrow> parse_patch_items (map GMap ms)
      | _ \<Rightarrow> Inl (Err ''files must be an array''))"

definition parse_single_file :: "gmap \<Rightarrow> patch_file list res" where
  "parse_single_file input =
     (case get_string input ''path'' of
        Inl e \<Rightarrow> Inl e
      | Inr p \<Rightarrow>
          (case get_string input ''content'' of
             Inl e \<Rightarrow> Inl e
           | Inr content \<Rightarrow>
               Inr [\<lparr>pt_path = p, pt_content = content, pt_expected = str_at input ''expected_sha256''\<rparr>]))"

definition parse_patch_files :: "gmap \<Rightarrow> patch_file list res" where
  "parse_patch_files input =
     (case map_of input ''files'' of
        None \<Rightarrow> parse_single_file input
      | Some raw \<Rightarrow>
          (case parse_patch_file_list raw of
             Inl e \<Rightarrow> Inl e
           | Inr [] \<Rightarrow> parse_single_file input
           | Inr files \<Rightarrow> Inr files))"

text \<open>The hash the caller expects a file to have; empty when it names none.\<close>

definition expected_hash :: "gmap \<Rightarrow> string \<Rightarrow> nat \<Rightarrow> nat \<Rightarrow> string" where
  "expected_hash input rel index count =
     (let by_path = (case map_of input ''expected_sha256_by_path'' of Some (GMap m) \<Rightarrow> str_at m rel | _ \<Rightarrow> [])
      in if by_path \<noteq> [] then by_path
         else if count = 1 then str_at input ''expected_sha256''
         else if 1 < count then
           (case map_of input ''expected_sha256'' of
              Some (GList vs) \<Rightarrow> (if index < length vs then (case vs ! index of GStr s \<Rightarrow> s | _ \<Rightarrow> []) else [])
            | Some (GStrs ss) \<Rightarrow> (if index < length ss then ss ! index else [])
            | _ \<Rightarrow> [])
         else [])"

section \<open>Reading the targets\<close>

text \<open>The content, whether the file exists, and its permission bits.\<close>

definition read_patch_target :: "path \<Rightarrow> (string \<times> bool \<times> nat) io" where
  "read_patch_target p = do {
     s \<leftarrow> os_stat p;
     case s of
       Inl (NotExist _) \<Rightarrow> io_go (Ret ([], False, 420))
     | Inl e \<Rightarrow> io_go (Fail (os_err e))
     | Inr FDir \<Rightarrow> io_go (Fail (Err (''patch target is a directory: '' @ path_text p)))
     | Inr (FFile _ mode) \<Rightarrow> io_bind (io_os (os_read p)) (\<lambda>data. io_go (Ret (data, True, mode)))
   }"

record prepared_file =
  pf_path :: string
  pf_target :: path
  pf_old :: string
  pf_new :: string
  pf_mode :: nat
  pf_existed :: bool
  pf_delete :: bool

definition mismatch :: "string \<Rightarrow> string \<Rightarrow> bool" where
  "mismatch expected content \<longleftrightarrow> expected \<noteq> [] \<and> expected \<noteq> sha256_hex content"

text \<open>One turn of the loop of \<open>prepareUnifiedDiffPatch\<close>.\<close>

definition prepare_patch :: "path \<Rightarrow> workspace \<Rightarrow> gmap \<Rightarrow> nat \<Rightarrow> nat \<Rightarrow> file_patch \<Rightarrow> prepared_file io" where
  "prepare_patch cwd ws input idx count p =
     (case resolve cwd ws (fp_path p) of
        Inl e \<Rightarrow> io_go (Fail e)
      | Inr (target, rel) \<Rightarrow>
          io_bind (read_patch_target target) (\<lambda>(current, existed, mode).
            if mismatch (expected_hash input rel idx count) current
            then io_go (Fail (Err (''patch base hash mismatch for '' @ rel)))
            else
              (case apply_patch current p of
                 Panic \<Rightarrow> io_go Panic
               | Fail e \<Rightarrow> io_go (Fail e)
               | Ret (Inl e, _) \<Rightarrow> io_go (Fail (Err (''patch conflict for '' @ rel @ '': '' @ error_text e)))
               | Ret (Inr new, _) \<Rightarrow>
                   io_bind (if existed then io_go (Ret ()) else io_os (os_mkdir_all (butlast target))) (\<lambda>_.
                     io_go (Ret \<lparr>pf_path = rel, pf_target = target, pf_old = current, pf_new = new,
                       pf_mode = mode, pf_existed = existed, pf_delete = (fp_op p = ''delete'')\<rparr>)))))"

fun prepare_patches :: "path \<Rightarrow> workspace \<Rightarrow> gmap \<Rightarrow> nat \<Rightarrow> nat \<Rightarrow> file_patch list \<Rightarrow> prepared_file list io" where
  "prepare_patches cwd ws input idx count [] = io_go (Ret [])"
| "prepare_patches cwd ws input idx count (p # ps) =
     io_bind (prepare_patch cwd ws input idx count p) (\<lambda>f.
       io_bind (prepare_patches cwd ws input (idx + 1) count ps) (\<lambda>fs. io_go (Ret (f # fs))))"

text \<open>The loop over whole-file replacements.\<close>

definition prepare_file :: "path \<Rightarrow> workspace \<Rightarrow> gmap \<Rightarrow> patch_file \<Rightarrow> prepared_file io" where
  "prepare_file cwd ws input f =
     (case resolve cwd ws (pt_path f) of
        Inl e \<Rightarrow> io_go (Fail e)
      | Inr (target, rel) \<Rightarrow>
          io_bind (read_patch_target target) (\<lambda>(current, existed, mode).
            if mismatch (if pt_expected f = [] then str_at input ''old_sha256'' else pt_expected f) current
            then io_go (Fail (Err (''patch base hash mismatch for '' @ rel)))
            else io_go (Ret \<lparr>pf_path = rel, pf_target = target, pf_old = current, pf_new = pt_content f,
              pf_mode = mode, pf_existed = existed, pf_delete = False\<rparr>)))"

fun prepare_files :: "path \<Rightarrow> workspace \<Rightarrow> gmap \<Rightarrow> patch_file list \<Rightarrow> prepared_file list io" where
  "prepare_files cwd ws input [] = io_go (Ret [])"
| "prepare_files cwd ws input (f # fs) =
     io_bind (prepare_file cwd ws input f) (\<lambda>x.
       io_bind (prepare_files cwd ws input fs) (\<lambda>xs. io_go (Ret (x # xs))))"

section \<open>Writing the files\<close>

text \<open>
  One turn of the loop of \<open>applyPreparedPatch\<close> up to its failure, if it fails: the error and the temporary
  file that is then left over.
\<close>

type_synonym failure = "(go_error \<times> path option) option"

definition stage :: "(fs_world, os_error + 'a) state \<Rightarrow> path option \<Rightarrow> ('a \<Rightarrow> (fs_world, failure) state) \<Rightarrow> (fs_world, failure) state" where
  "stage m tmp k = State_Monad.bind m (\<lambda>r.
     case r of Inl e \<Rightarrow> State_Monad.return (Some (os_err e, tmp)) | Inr a \<Rightarrow> k a)"

definition install_file :: "prepared_file \<Rightarrow> (fs_world, failure) state" where
  "install_file f =
     (if pf_delete f then do {
        r \<leftarrow> os_remove (pf_target f);
        State_Monad.return (case r of Inl (OsFail e) \<Rightarrow> Some (Err e, None) | _ \<Rightarrow> None)
      }
      else
        stage (os_mkdir_all (butlast (pf_target f))) None (\<lambda>_.
        stage (os_create_temp (butlast (pf_target f))) None (\<lambda>tmp.
        stage (os_write tmp (pf_new f)) (Some tmp) (\<lambda>_.
        stage os_close (Some tmp) (\<lambda>_.
        stage (os_chmod tmp (pf_mode f)) (Some tmp) (\<lambda>_.
        stage (os_rename tmp (pf_target f)) (Some tmp) (\<lambda>_.
        State_Monad.return None)))))))"

text \<open>The loop: the files written, and the failure that stopped it.\<close>

fun install_files :: "prepared_file list \<Rightarrow> prepared_file list \<Rightarrow> (fs_world, prepared_file list \<times> failure) state" where
  "install_files done [] = State_Monad.return (done, None)"
| "install_files done (f # fs) = do {
     r \<leftarrow> install_file f;
     case r of
       None \<Rightarrow> install_files (done @ [f]) fs
     | Some e \<Rightarrow> State_Monad.return (done, Some e)
   }"

definition undo_file :: "prepared_file \<Rightarrow> (fs_world, unit) state" where
  "undo_file f = do {
     _ \<leftarrow> (if pf_existed f then os_write_file (pf_target f) (pf_old f) (pf_mode f) else os_remove (pf_target f));
     State_Monad.return ()
   }"

fun undo_each :: "prepared_file list \<Rightarrow> (fs_world, unit) state" where
  "undo_each [] = State_Monad.return ()"
| "undo_each (f # fs) = do { undo_file f; undo_each fs }"

definition rollback_patch :: "prepared_file list \<Rightarrow> (fs_world, unit) state" where
  "rollback_patch files = undo_each (rev files)"

definition discard_temp :: "path option \<Rightarrow> (fs_world, unit) state" where
  "discard_temp tmp =
     (case tmp of
        None \<Rightarrow> State_Monad.return ()
      | Some p \<Rightarrow> do { _ \<leftarrow> os_remove p; State_Monad.return () })"

definition apply_prepared :: "prepared_file list \<Rightarrow> unit io" where
  "apply_prepared files = do {
     r \<leftarrow> install_files [] files;
     case r of
       (_, None) \<Rightarrow> io_go (Ret ())
     | (applied, Some (e, tmp)) \<Rightarrow> do {
         discard_temp tmp;
         rollback_patch applied;
         io_go (Fail e)
       }
   }"

section \<open>The tool\<close>

text \<open>\<open>fmt.Sprintf("%#o", mode.Perm())\<close>: octal with a leading zero.\<close>

fun show_octal :: "nat \<Rightarrow> string" where
  "show_octal n = (if n < 8 then [digit_char n] else show_octal (n div 8) @ [digit_char (n mod 8)])"

declare show_octal.simps [simp del]

definition snapshot_for_file :: "string \<Rightarrow> string \<Rightarrow> string option \<Rightarrow> bool \<Rightarrow> nat \<Rightarrow> gmap" where
  "snapshot_for_file p old new existed mode =
     [(''path'', GStr p), (''old_sha256'', GStr (sha256_hex old)), (''old_size'', GInt (int (length old))),
      (''existed_before'', GBool existed)] @
     (case new of
        None \<Rightarrow> []
      | Some n \<Rightarrow> [(''new_sha256'', GStr (sha256_hex n)), (''new_size'', GInt (int (length n)))]) @
     (if mode = 0 then [] else [(''mode'', GStr (''0'' @ show_octal mode))])"

definition snapshot_seed :: "prepared_file \<Rightarrow> string" where
  "snapshot_seed f = pf_path f @ '':'' @ sha256_hex (pf_old f) @ '':'' @ sha256_hex (pf_new f) @ nl"

definition rollback_snapshot :: "prepared_file list \<Rightarrow> gmap" where
  "rollback_snapshot files =
     [(''snapshot_id'', GStr (sha256_hex (concat (map snapshot_seed files)))),
      (''files'', GMaps (map (\<lambda>f. snapshot_for_file (pf_path f) (pf_old f) (Some (pf_new f)) (pf_existed f) (pf_mode f)) files))]"

definition patch_applied_result :: "prepared_file list \<Rightarrow> gmap" where
  "patch_applied_result files =
     [(''changed_files'', GMaps (map (\<lambda>f.
         [(''path'', GStr (pf_path f)), (''old_sha256'', GStr (sha256_hex (pf_old f))),
          (''new_sha256'', GStr (sha256_hex (pf_new f))), (''old_size'', GInt (int (length (pf_old f)))),
          (''new_size'', GInt (int (length (pf_new f))))]) files)),
      (''rollback_snapshot'', GMap (rollback_snapshot files)),
      (''status'', GStr ''applied'')]"

text \<open>\<open>ApplyPatchExecutor.Execute\<close>; None when the parser of the diff does not return.\<close>

definition prepare_input :: "path \<Rightarrow> workspace \<Rightarrow> gmap \<Rightarrow> prepared_file list io option" where
  "prepare_input cwd ws input =
     (if trim_space (str_at input ''diff'') \<noteq> [] then
        map_option (\<lambda>r. case r of
            Ret patches \<Rightarrow> prepare_patches cwd ws input 0 (length patches) patches
          | Fail e \<Rightarrow> io_go (Fail e)
          | Panic \<Rightarrow> io_go Panic) (parse_unified_diff (str_at input ''diff''))
      else
        Some (case parse_patch_files input of
            Inl e \<Rightarrow> io_go (Fail e)
          | Inr files \<Rightarrow> prepare_files cwd ws input files))"

definition apply_patch_tool :: "path \<Rightarrow> workspace \<Rightarrow> gmap \<Rightarrow> gmap io option" where
  "apply_patch_tool cwd ws input =
     map_option (\<lambda>m. io_bind m (\<lambda>files.
         io_bind (apply_prepared files) (\<lambda>_. io_go (Ret (patch_applied_result files)))))
       (prepare_input cwd ws input)"

end
