(* ===== verification/Patch_Atomic.thy ===== *)
theory Patch_Atomic
  imports Patch_Files
begin

text \<open>
  Applying a patch is all or nothing: every file named by it gets its new content, or, when a system call
  fails and the undoing of what was done meets no further failure, every file has the content it had.
\<close>

section \<open>Undoing\<close>

text \<open>
  A log of steps, each of which gives one key of the state its old value back: running it gives every key of
  the log its old value and leaves the others alone.
\<close>

locale undo_log =
  fixes view :: "'w \<Rightarrow> 'k \<Rightarrow> 'v"
    and good :: "'w \<Rightarrow> bool"
    and step :: "'f \<Rightarrow> 'w \<Rightarrow> 'w"
    and key :: "'f \<Rightarrow> 'k"
    and old :: "'k \<Rightarrow> 'v"
    and ok :: "'f \<Rightarrow> bool"
  assumes good_step: "good w \<Longrightarrow> ok f \<Longrightarrow> good (step f w)"
    and view_step: "good w \<Longrightarrow> ok f \<Longrightarrow> view (step f w) = (view w)(key f := old (key f))"
begin

lemma undo_all:
  assumes "good w" "\<forall>f\<in>set fs. ok f"
  shows "good (foldl (\<lambda>w f. step f w) w fs) \<and>
    view (foldl (\<lambda>w f. step f w) w fs) = (\<lambda>k. if k \<in> key ` set fs then old k else view w k)"
  using assms
proof (induction fs arbitrary: w)
  case (Cons f fs)
  then have "good (step f w)" "view (step f w) = (view w)(key f := old (key f))"
    using good_step view_step by auto
  with Cons show ?case by (auto simp: fun_eq_iff)
qed simp

lemma undo_restores:
  assumes "good w" "\<forall>f\<in>set fs. ok f" "\<And>k. k \<notin> key ` set fs \<Longrightarrow> view w k = old k"
  shows "view (foldl (\<lambda>w f. step f w) w fs) = old"
  using undo_all [OF assms(1,2)] assms(3) by (auto simp: fun_eq_iff)

end

text \<open>A prepared file that agrees with the tree the preparation read.\<close>

definition target_ok :: "ftree \<Rightarrow> prepared_file \<Rightarrow> bool" where
  "target_ok t0 f \<longleftrightarrow> map_of t0 (pf_target f) \<noteq> Some FDir \<and>
     (if pf_existed f then contents t0 (pf_target f) = Some (pf_old f)
      else (\<forall>q. prefix q (pf_target f) \<longrightarrow> contents t0 q = None))"

definition undoing :: "ftree \<Rightarrow> fs_world \<Rightarrow> bool" where
  "undoing t0 w \<longleftrightarrow> wf_tree t0 \<and> tree_from t0 (fs_tree w) \<and> quiet w"

definition undo_step :: "prepared_file \<Rightarrow> fs_world \<Rightarrow> fs_world" where
  "undo_step f w = snd (run_state (undo_file f) w)"

lemma wf_file_above:
  assumes "wf_tree t" "contents t p = Some c"
  shows "p \<noteq> []" "map_of t (butlast p) = Some FDir"
  using file_above [of t "undefined\<lparr>fs_tree := t\<rparr>" p c] tree_from_refl [OF assms(1)] assms(2) by simp_all

lemma undo_step_effect:
  assumes "undoing t0 w" "target_ok t0 f"
  shows "undoing t0 (undo_step f w) \<and>
    contents (fs_tree (undo_step f w)) = (contents (fs_tree w))(pf_target f := contents t0 (pf_target f))"
proof (cases "pf_existed f")
  case True
  obtain r w' where r: "run_state (os_write_file (pf_target f) (pf_old f) (pf_mode f)) w = (r, w')" by fastforce
  then have s: "undo_step f w = w'" by (simp add: undo_step_def undo_file_def True)
  have c: "contents t0 (pf_target f) = Some (pf_old f)" using assms(2) True by (simp add: target_ok_def)
  note t = assms(1) [unfolded undoing_def]
  have "map_of (fs_tree w) (butlast (pf_target f)) = Some FDir" "map_of (fs_tree w) (pf_target f) \<noteq> Some FDir"
    using wf_file_above(2) [OF _ c] t c by (auto simp: tree_from_def)
  then show ?thesis
    using os_write_file_quiet [OF r, of t0] wf_file_above(1) [OF _ c] t c by (simp add: s undoing_def)
next
  case False
  obtain r w' where r: "run_state (os_remove (pf_target f)) w = (r, w')" by fastforce
  then have s: "undo_step f w = w'" by (simp add: undo_step_def undo_file_def False)
  show ?thesis
    using os_remove_quiet [OF _ r, of t0] assms quiet_mono [OF _ op_env(9) [OF r]] False
    by (simp add: s undoing_def target_ok_def)
qed

interpretation undo: undo_log "\<lambda>w. contents (fs_tree w)" "undoing t0" undo_step pf_target "contents t0" "target_ok t0"
  for t0
  by unfold_locales (use undo_step_effect in blast)+

lemma run_undo_each: "run_state (undo_each fs) w = ((), foldl (\<lambda>w f. undo_step f w) w fs)"
  by (induction fs arbitrary: w) (simp_all add: undo_step_def split_beta)

section \<open>Writing one file\<close>

definition installed :: "prepared_file \<Rightarrow> string option" where
  "installed f = (if pf_delete f then None else Some (pf_new f))"

lemma stageE:
  assumes "run_state (stage m tmp k) w = (r, w')"
  obtains (failed) e where "run_state m w = (Inl e, w')" "r = Some (os_err e, tmp)"
  | (passed) a v where "run_state m w = (Inr a, v)" "run_state (k a) v = (r, w')"
proof -
  obtain x v where x: "run_state m w = (x, v)" by fastforce
  show thesis
  proof (cases x)
    case (Inl e)
    with x assms that(1) show ?thesis by (simp add: stage_def)
  next
    case (Inr a)
    with x assms that(2) show ?thesis by (simp add: stage_def)
  qed
qed

definition stopped_at :: "ftree \<Rightarrow> (path \<Rightarrow> string option) \<Rightarrow> path option \<Rightarrow> ftree \<Rightarrow> bool" where
  "stopped_at t0 before tmp t \<longleftrightarrow>
     (case tmp of
        None \<Rightarrow> contents t = before
      | Some p \<Rightarrow> (contents t)(p := None) = before \<and> map_of t0 p \<noteq> Some FDir)"

lemma target_above:
  assumes "wf_tree t0" "target_ok t0 f" "prefix q (butlast (pf_target f))"
  shows "contents t0 q = None"
proof (cases "pf_existed f")
  case True
  then have c: "contents t0 (pf_target f) = Some (pf_old f)" using assms(2) by (simp add: target_ok_def)
  then obtain m where m: "map_of t0 (pf_target f) = Some (FFile (pf_old f) m)" using file_node by blast
  have "pf_target f \<noteq> []" using wf_file_above(1) [OF assms(1) c] .
  moreover from assms(3) obtain s where "butlast (pf_target f) = q @ s" by (auto simp: prefix_def)
  ultimately have "pf_target f = q @ (s @ [last (pf_target f)])" by (metis append_assoc append_butlast_last_id)
  with wf_tree_above [OF assms(1), of q "s @ [last (pf_target f)]"] m show ?thesis by simp
next
  case False
  have "prefix q (pf_target f)" using assms(3) by (meson prefixeq_butlast prefix_order.trans)
  with assms(2) False show ?thesis by (simp add: target_ok_def)
qed

text \<open>The temporary file holds \<open>d\<close>, and nothing else has changed since \<open>w\<close>.\<close>

definition temp_holds :: "ftree \<Rightarrow> fs_world \<Rightarrow> path \<Rightarrow> string \<Rightarrow> fs_world \<Rightarrow> bool" where
  "temp_holds t0 w tmp d u \<longleftrightarrow> tree_from t0 (fs_tree u) \<and> same_env w u \<and>
     contents (fs_tree u) = (contents (fs_tree w))(tmp \<mapsto> d) \<and>
     contents (fs_tree w) tmp = None \<and> map_of t0 tmp \<noteq> Some FDir"

definition installs :: "ftree \<Rightarrow> fs_world \<Rightarrow> prepared_file \<Rightarrow> failure \<Rightarrow> fs_world \<Rightarrow> bool" where
  "installs t0 w f r w' \<longleftrightarrow> tree_from t0 (fs_tree w') \<and> same_env w w' \<and>
    (case r of
       None \<Rightarrow> contents (fs_tree w') = (contents (fs_tree w))(pf_target f := installed f)
     | Some (e, tmp) \<Rightarrow> stopped_at t0 (contents (fs_tree w)) tmp (fs_tree w'))"

text \<open>A stage that works on the temporary file: when it fails, the file is left over as it was.\<close>

lemma stage_temp:
  assumes run: "run_state (stage m (Some tmp) k) u = (r, w')" and "temp_holds t0 w tmp d u"
    and "\<And>e. run_state m u = (Inl e, w') \<Longrightarrow> fs_tree w' = fs_tree u \<and> same_env u w'"
    and "\<And>a v. run_state m u = (Inr a, v) \<Longrightarrow> run_state (k a) v = (r, w') \<Longrightarrow> installs t0 w f r w'"
  shows "installs t0 w f r w'"
  using run
proof (cases rule: stageE)
  case (failed e)
  with assms(2,3) have "temp_holds t0 w tmp d w'"
    using same_env_trans by (auto simp: temp_holds_def)
  with failed(2) show ?thesis
    by (simp add: installs_def temp_holds_def stopped_at_def fun_upd_idem)
qed (rule assms(4))

lemma fill_temp:
  assumes run: "run_state
      (stage (os_write tmp (pf_new f)) (Some tmp) (\<lambda>_.
       stage os_close (Some tmp) (\<lambda>_.
       stage (os_chmod tmp (pf_mode f)) (Some tmp) (\<lambda>_.
       stage (os_rename tmp (pf_target f)) (Some tmp) (\<lambda>_.
       State_Monad.return None))))) u = (r, w')"
    and holds: "temp_holds t0 w tmp [] u" and del: "\<not> pf_delete f"
  shows "installs t0 w f r w'"
proof (rule stage_temp [OF run holds])
  fix x v1
  assume wr: "run_state (os_write tmp (pf_new f)) u = (Inr x, v1)" and run: "run_state (stage os_close (Some tmp) (\<lambda>_.
       stage (os_chmod tmp (pf_mode f)) (Some tmp) (\<lambda>_.
       stage (os_rename tmp (pf_target f)) (Some tmp) (\<lambda>_. State_Monad.return None)))) v1 = (r, w')"
  have h1: "temp_holds t0 w tmp (pf_new f) v1"
    using os_write_effect [of t0 u, OF _ wr] holds op_env(5) [OF wr] same_env_trans by (auto simp: temp_holds_def)
  show "installs t0 w f r w'"
  proof (rule stage_temp [OF run h1])
    fix y v2
    assume cl: "run_state os_close v1 = (Inr y, v2)" and run: "run_state (stage (os_chmod tmp (pf_mode f)) (Some tmp) (\<lambda>_.
         stage (os_rename tmp (pf_target f)) (Some tmp) (\<lambda>_. State_Monad.return None))) v2 = (r, w')"
    have h2: "temp_holds t0 w tmp (pf_new f) v2"
      using h1 os_close_tree [OF cl] op_env(6) [OF cl] same_env_trans by (auto simp: temp_holds_def)
    show "installs t0 w f r w'"
    proof (rule stage_temp [OF run h2])
      fix z v3
      assume ch: "run_state (os_chmod tmp (pf_mode f)) v2 = (Inr z, v3)"
        and run: "run_state (stage (os_rename tmp (pf_target f)) (Some tmp) (\<lambda>_. State_Monad.return None)) v3 = (r, w')"
      have h3: "temp_holds t0 w tmp (pf_new f) v3"
        using os_chmod_effect [of t0 v2, OF _ ch] h2 op_env(7) [OF ch] same_env_trans by (auto simp: temp_holds_def)
      show "installs t0 w f r w'"
      proof (rule stage_temp [OF run h3])
        fix q v4
        assume rn: "run_state (os_rename tmp (pf_target f)) v3 = (Inr q, v4)" and "run_state (State_Monad.return None) v4 = (r, w')"
        then show "installs t0 w f r w'"
          using os_rename_effect [of t0 v3, OF _ rn] h3 op_env(8) [OF rn] same_env_trans del
          by (auto simp: temp_holds_def installs_def installed_def fun_upd_idem)
      qed (use op_failed(5) op_env(8) in blast)
    qed (use op_failed(4) op_env(7) in blast)
  qed (use os_close_tree op_env(6) in blast)
qed (use op_failed(2) op_env(5) in blast)

lemma remove_target_effect:
  assumes run: "run_state (os_remove p) w = (x, w')" and t: "tree_from t0 (fs_tree w)" "map_of t0 p \<noteq> Some FDir"
  shows "tree_from t0 (fs_tree w') \<and> same_env w w' \<and>
    (case x of
       Inl (OsFail e) \<Rightarrow> contents (fs_tree w') = contents (fs_tree w)
     | _ \<Rightarrow> contents (fs_tree w') = (contents (fs_tree w))(p := None))"
proof (cases x)
  case (Inr u)
  then show ?thesis using os_remove_effect [OF t(1) run [unfolded Inr] t(2)] op_env(9) [OF run] by simp
next
  case (Inl e)
  have same: "fs_tree w' = fs_tree w" using op_failed(6) run Inl by blast
  have "contents (fs_tree w) p = None" if "e = NotExist s" for s
  proof -
    have "os_lookup (fs_tree w) p = Inl (NotExist s)"
      using sys_NotExist [OF run [unfolded os_remove_def Inl that]] by (auto split: sum.splits fnode.splits if_splits)
    then show ?thesis using os_lookup_Inl [OF tree_fromD [OF t(1)]] by simp
  qed
  then show ?thesis using same t(1) op_env(9) [OF run] Inl by (cases e) (simp_all add: fun_upd_idem)
qed

lemma install_file_effect:
  assumes run: "run_state (install_file f) w = (r, w')"
    and t: "wf_tree t0" "tree_from t0 (fs_tree w)" "target_ok t0 f"
  shows "installs t0 w f r w'"
proof (cases "pf_delete f")
  case True
  obtain x v where x: "run_state (os_remove (pf_target f)) w = (x, v)" by fastforce
  with run True have v: "v = w'" "r = (case x of Inl (OsFail e) \<Rightarrow> Some (Err e, None) | _ \<Rightarrow> None)"
    by (simp_all add: install_file_def)
  have "map_of t0 (pf_target f) \<noteq> Some FDir" using t(3) by (simp add: target_ok_def)
  from remove_target_effect [OF x t(2) this] v True show ?thesis
    by (auto simp: installs_def installed_def stopped_at_def split: sum.splits os_error.splits)
next
  case False
  from run [unfolded install_file_def if_not_P [OF False]] show ?thesis
  proof (cases rule: stageE)
    case (failed e)
    with mkdir_from_effect [OF failed(1) [unfolded os_mkdir_all_def] t(2)] target_above [OF t(1,3)]
    show ?thesis by (simp add: stopped_at_def installs_def)
  next
    case mk: (passed u v1)
    have v1: "tree_from t0 (fs_tree v1)" "contents (fs_tree v1) = contents (fs_tree w)" "same_env w v1"
      using mkdir_from_effect [OF mk(1) [unfolded os_mkdir_all_def] t(2)] target_above [OF t(1,3)] by simp_all
    from mk(2) show ?thesis
    proof (cases rule: stageE)
      case (failed e)
      with v1 op_failed(1) [OF failed(1)] op_env(4) [OF failed(1)] same_env_trans show ?thesis
        by (fastforce simp: stopped_at_def installs_def)
    next
      case cr: (passed tmp v2)
      note eff = os_create_temp_effect [OF v1(1) cr(1)]
      have "map_of t0 tmp \<noteq> Some FDir" using eff(3) v1(1) by (auto simp: tree_from_def)
      moreover have "contents (fs_tree w) tmp = None" using contents_None(1) [OF eff(3)] v1(2) by simp
      ultimately have "temp_holds t0 w tmp [] v2"
        using eff(5,6) v1 op_env(4) [OF cr(1)] same_env_trans by (auto simp: temp_holds_def)
      with cr(2) False show ?thesis by (intro fill_temp)
    qed
  qed
qed

section \<open>Writing them all\<close>

definition install_all :: "prepared_file list \<Rightarrow> (path \<Rightarrow> string option) \<Rightarrow> path \<Rightarrow> string option" where
  "install_all files c = foldl (\<lambda>c f. c(pf_target f := installed f)) c files"

lemma install_all_other: "p \<notin> pf_target ` set files \<Longrightarrow> install_all files c p = c p"
  by (induction files arbitrary: c) (auto simp: install_all_def)

text \<open>What the loop leaves when it stops: the contents outside the files it wrote are the old ones.\<close>

definition interrupted :: "ftree \<Rightarrow> prepared_file list \<Rightarrow> path option \<Rightarrow> ftree \<Rightarrow> bool" where
  "interrupted t0 applied tmp t \<longleftrightarrow>
     (\<exists>before. stopped_at t0 before tmp t \<and> (\<forall>p. p \<notin> pf_target ` set applied \<longrightarrow> before p = contents t0 p))"

lemma install_files_effect:
  assumes "run_state (install_files done fs) w = ((applied, fl), w')"
    and "wf_tree t0" "tree_from t0 (fs_tree w)" "\<forall>f \<in> set done \<union> set fs. target_ok t0 f"
    and "\<And>p. p \<notin> pf_target ` set done \<Longrightarrow> contents (fs_tree w) p = contents t0 p"
  shows "tree_from t0 (fs_tree w') \<and> same_env w w' \<and> set applied \<subseteq> set done \<union> set fs \<and>
    (case fl of
       None \<Rightarrow> contents (fs_tree w') = install_all fs (contents (fs_tree w))
     | Some (e, tmp) \<Rightarrow> interrupted t0 applied tmp (fs_tree w'))"
  using assms
proof (induction fs arbitrary: "done" w)
  case Nil
  then show ?case by (auto simp: install_all_def)
next
  case (Cons f fs)
  obtain r v where r: "run_state (install_file f) w = (r, v)" by fastforce
  then have i: "installs t0 w f r v" using Cons.prems by (intro install_file_effect) simp_all
  show ?case
  proof (cases r)
    case None
    with Cons.prems(1) r have run: "run_state (install_files (done @ [f]) fs) v = ((applied, fl), w')" by simp
    have v: "tree_from t0 (fs_tree v)" "same_env w v"
      "contents (fs_tree v) = (contents (fs_tree w))(pf_target f := installed f)"
      using i None by (simp_all add: installs_def)
    then have "p \<notin> pf_target ` set (done @ [f]) \<Longrightarrow> contents (fs_tree v) p = contents t0 p" for p
      using Cons.prems(5) by auto
    note ih = Cons.IH [OF run Cons.prems(2) v(1) _ this]
    have "\<forall>g \<in> set (done @ [f]) \<union> set fs. target_ok t0 g" using Cons.prems(4) by simp
    note ih = ih [OF this]
    then have "same_env w w'" using v(2) same_env_trans by blast
    with ih v(3) show ?thesis by (auto simp: install_all_def split: option.splits)
  next
    case (Some x)
    obtain e tmp where x: "x = (e, tmp)" by fastforce
    with Cons.prems(1) r Some have end_of_loop: "applied = done" "fl = Some (e, tmp)" "w' = v" by auto
    with i Some x Cons.prems(5) show ?thesis by (auto simp: installs_def interrupted_def)
  qed
qed

lemma discard_temp_effect:
  assumes "run_state (discard_temp tmp) w = (u, w')" "undoing t0 w" "stopped_at t0 before tmp (fs_tree w)"
  shows "undoing t0 w' \<and> contents (fs_tree w') = before"
proof (cases tmp)
  case None
  with assms show ?thesis by (simp add: discard_temp_def stopped_at_def)
next
  case (Some p)
  obtain r v where r: "run_state (os_remove p) w = (r, v)" by fastforce
  with assms(1) Some have "w' = v" by (simp add: discard_temp_def)
  moreover have "quiet v" using assms(2) op_env(9) [OF r] quiet_mono unfolding undoing_def by blast
  ultimately show ?thesis
    using os_remove_quiet [OF _ r, of t0] assms(2,3) Some by (simp add: undoing_def stopped_at_def)
qed

lemma apply_prepared_effect:
  assumes "wf_tree t0" "tree_from t0 (fs_tree w)" "\<forall>f \<in> set files. target_ok t0 f" "contents (fs_tree w) = contents t0"
    and stop: "run_state (install_files [] files) w = ((applied, Some (e, tmp)), v)" and "quiet v"
  shows "\<exists>w'. run_state (apply_prepared files) w = (Fail e, w') \<and> contents (fs_tree w') = contents t0"
proof -
  from install_files_effect [OF stop assms(1,2)] assms(3,4)
  have v: "tree_from t0 (fs_tree v)" "set applied \<subseteq> set files" "interrupted t0 applied tmp (fs_tree v)" by simp_all
  then obtain before where b: "stopped_at t0 before tmp (fs_tree v)"
    "\<And>p. p \<notin> pf_target ` set applied \<Longrightarrow> before p = contents t0 p" by (auto simp: interrupted_def)
  obtain u where u: "run_state (discard_temp tmp) v = ((), u)" by (metis surj_pair old.unit.exhaust)
  have "undoing t0 v" using assms(1,6) v(1) by (simp add: undoing_def)
  from discard_temp_effect [OF u this b(1)] have "undoing t0 u" "contents (fs_tree u) = before" by simp_all
  with b(2) v(2) assms(3) have "contents (fs_tree (foldl (\<lambda>w f. undo_step f w) u (rev applied))) = contents t0"
    by (intro undo.undo_restores) auto
  moreover have "run_state (apply_prepared files) w = (Fail e, foldl (\<lambda>w f. undo_step f w) u (rev applied))"
    using stop u by (simp add: apply_prepared_def rollback_patch_def run_undo_each)
  ultimately show ?thesis by blast
qed

section \<open>Preparing changes no file\<close>

lemma io_bindE:
  assumes "run_state (io_bind m f) w = (r, w')"
  obtains (ret) a v where "run_state m w = (Ret a, v)" "run_state (f a) v = (r, w')"
  | (failed) e where "run_state m w = (Fail e, w')" "r = Fail e"
  | (panic) "run_state m w = (Panic, w')" "r = Panic"
proof -
  obtain x v where x: "run_state m w = (x, v)" by fastforce
  show thesis
    using assms x that by (cases x) (auto simp: io_bind_def)
qed

lemma run_io_os: "run_state (io_os m) w = (r, w') \<longleftrightarrow>
    (\<exists>x. run_state m w = (x, w') \<and> r = (case x of Inl e \<Rightarrow> Fail (os_err e) | Inr a \<Rightarrow> Ret a))"
  by (cases "run_state m w") (auto simp: io_os_def)

text \<open>Worlds a preparation passes through: directories may have been added, no file has changed.\<close>

definition read_only_from :: "ftree \<Rightarrow> fs_world \<Rightarrow> bool" where
  "read_only_from t0 w \<longleftrightarrow> wf_tree t0 \<and> tree_from t0 (fs_tree w) \<and> contents (fs_tree w) = contents t0"

definition target_read :: "ftree \<Rightarrow> path \<Rightarrow> string \<times> bool \<times> nat \<Rightarrow> bool" where
  "target_read t0 p = (\<lambda>(current, existed, mode).
     map_of t0 p \<noteq> Some FDir \<and>
     (if existed then contents t0 p = Some current else current = [] \<and> (\<forall>q. prefix q p \<longrightarrow> contents t0 q = None)))"

lemma read_patch_target_effect:
  assumes run: "run_state (read_patch_target p) w = (r, w')" and "read_only_from t0 w"
  shows "fs_tree w' = fs_tree w \<and> same_env w w' \<and> (\<forall>x. r = Ret x \<longrightarrow> target_read t0 p x)"
proof -
  obtain s v where s: "run_state (os_stat p) w = (s, v)" by fastforce
  have v: "fs_tree v = fs_tree w" "same_env w v" using os_stat_tree [OF s] op_env(1) [OF s] .
  have t: "wf_tree (fs_tree w)" "tree_from t0 (fs_tree w)" "contents (fs_tree w) = contents t0"
    using assms(2) tree_fromD by (auto simp: read_only_from_def)
  have dir: "map_of (fs_tree w) p = Some n \<Longrightarrow> n \<noteq> FDir \<Longrightarrow> map_of t0 p \<noteq> Some FDir" for n
    using t(2) by (auto simp: tree_from_def)
  have none: "map_of (fs_tree w) p = None \<Longrightarrow> map_of t0 p \<noteq> Some FDir"
    using t(2) by (auto simp: tree_from_def)
  consider (missing) e where "s = Inl (NotExist e)" | (err) e where "s = Inl (OsFail e)"
    | (isdir) "s = Inr FDir" | (isfile) c m where "s = Inr (FFile c m)"
    by (metis sum.exhaust os_error.exhaust fnode.exhaust)
  then show ?thesis
  proof cases
    case missing
    from os_stat_NotExist [OF s [unfolded missing]] have l: "os_lookup (fs_tree w) p = Inl (NotExist e)" .
    have "target_read t0 p ([], False, 420)"
      using none os_lookup_Inl [OF t(1) l] os_lookup_NotExist [OF t(1) l] t(3) by (simp add: target_read_def)
    with run s missing v show ?thesis by (auto simp: read_patch_target_def)
  next
    case isfile
    with run s have "run_state (io_bind (io_os (os_read p)) (\<lambda>data. io_go (Ret (data, True, m)))) v = (r, w')"
      by (simp add: read_patch_target_def)
    then show ?thesis
    proof (cases rule: io_bindE)
      case (ret d u)
      then obtain x where x: "run_state (os_read p) v = (x, u)" "Ret d = (case x of Inl e \<Rightarrow> Fail (os_err e) | Inr a \<Rightarrow> Ret a)"
        by (auto simp: run_io_os)
      with ret(2) have d: "run_state (os_read p) v = (Inr d, w')" "r = Ret (d, True, m)"
        by (cases x; simp)+
      from os_read_Inr [OF d(1)] v obtain k where "map_of (fs_tree w) p = Some (FFile d k)"
        by (auto simp: os_lookup_iff [OF t(1)])
      moreover from this have "contents t0 p = Some d" by (simp add: contents_def flip: t(3))
      ultimately show ?thesis
        using d dir os_read_tree [OF d(1)] v op_env(2) [OF d(1)] same_env_trans by (auto simp: target_read_def)
    qed (use v os_read_tree op_env(2) same_env_trans in \<open>auto simp: run_io_os\<close>)
  qed (use run s v in \<open>auto simp: read_patch_target_def\<close>)
qed

definition prepares :: "ftree \<Rightarrow> ('a \<Rightarrow> prepared_file list) \<Rightarrow> 'a io \<Rightarrow> bool" where
  "prepares t0 files m \<longleftrightarrow>
     (\<forall>w r w'. run_state m w = (r, w') \<longrightarrow> read_only_from t0 w \<longrightarrow>
        read_only_from t0 w' \<and> same_env w w' \<and> (\<forall>x. r = Ret x \<longrightarrow> (\<forall>f \<in> set (files x). target_ok t0 f)))"

lemma prepares_go: "(\<And>x f. r = Ret x \<Longrightarrow> f \<in> set (files x) \<Longrightarrow> target_ok t0 f) \<Longrightarrow> prepares t0 files (io_go r)"
  by (simp add: prepares_def)

lemma prepares_bind:
  assumes "prepares t0 g m" "\<And>a. \<forall>f \<in> set (g a). target_ok t0 f \<Longrightarrow> prepares t0 files (k a)"
  shows "prepares t0 files (io_bind m k)"
  unfolding prepares_def
proof (intro allI impI)
  fix w r w'
  assume run: "run_state (io_bind m k) w = (r, w')" and ro: "read_only_from t0 w"
  from run show "read_only_from t0 w' \<and> same_env w w' \<and> (\<forall>x. r = Ret x \<longrightarrow> (\<forall>f \<in> set (files x). target_ok t0 f))"
  proof (cases rule: io_bindE)
    case (ret a v)
    with assms(1) ro have v: "read_only_from t0 v" "same_env w v" "\<forall>f \<in> set (g a). target_ok t0 f"
      unfolding prepares_def by blast+
    with ret(2) assms(2) [of a] show ?thesis unfolding prepares_def using same_env_trans [OF v(2)] by blast
  next
    case (failed e)
    with assms(1) ro show ?thesis unfolding prepares_def by blast
  next
    case panic
    with assms(1) ro show ?thesis unfolding prepares_def by blast
  qed
qed

lemma read_then:
  assumes "\<And>x. target_read t0 p x \<Longrightarrow> prepares t0 files (k x)"
  shows "prepares t0 files (io_bind (read_patch_target p) k)"
  unfolding prepares_def
proof (intro allI impI)
  fix w r w'
  assume run: "run_state (io_bind (read_patch_target p) k) w = (r, w')" and ro: "read_only_from t0 w"
  have "read_only_from t0 v" if "fs_tree v = fs_tree w" for v
    using ro that by (simp add: read_only_from_def)
  note keep = this
  from run show "read_only_from t0 w' \<and> same_env w w' \<and> (\<forall>x. r = Ret x \<longrightarrow> (\<forall>f \<in> set (files x). target_ok t0 f))"
  proof (cases rule: io_bindE)
    case (ret a v)
    have v: "read_only_from t0 v" "same_env w v" "target_read t0 p a"
      using read_patch_target_effect [OF ret(1) ro] keep by simp_all
    with ret(2) assms [of a] show ?thesis unfolding prepares_def using same_env_trans [OF v(2)] by blast
  next
    case (failed e)
    with read_patch_target_effect [OF failed(1) ro] keep show ?thesis by simp
  next
    case panic
    with read_patch_target_effect [OF panic(1) ro] keep show ?thesis by simp
  qed
qed

lemma prepares_mkdir:
  assumes "\<And>q. prefix q p \<Longrightarrow> contents t0 q = None"
  shows "prepares t0 (\<lambda>_. []) (io_os (os_mkdir_all p))"
  using mkdir_from_effect [of "[]" p] assms
  by (fastforce simp: prepares_def read_only_from_def os_mkdir_all_def run_io_os)

lemma prepares_patch: "prepares t0 (\<lambda>f. [f]) (prepare_patch cwd ws input idx count p)"
proof (cases "resolve cwd ws (fp_path p)")
  case (Inl e)
  then show ?thesis by (auto simp: prepare_patch_def intro!: prepares_go)
next
  case (Inr tr)
  obtain target rel where tr: "tr = (target, rel)" by fastforce
  show ?thesis
    unfolding prepare_patch_def Inr tr sum.case prod.case
  proof (rule read_then)
    fix x
    assume x: "target_read t0 target x"
    obtain current existed mode where xs: "x = (current, existed, mode)" using prod_cases3 by blast
    have above: "prefix q (butlast target) \<Longrightarrow> contents t0 q = None" if "\<not> existed" for q
      using x that prefixeq_butlast [of target] by (auto simp: xs target_read_def dest: prefix_order.trans)
    have "prepares t0 (\<lambda>_. []) (if existed then io_go (Ret ()) else io_os (os_mkdir_all (butlast target)))"
      using above by (auto intro: prepares_go prepares_mkdir)
    moreover have "target_ok t0 \<lparr>pf_path = rel, pf_target = target, pf_old = current, pf_new = new, pf_mode = mode,
        pf_existed = existed, pf_delete = d\<rparr>" for new d
      using x by (simp add: xs target_read_def target_ok_def split: if_splits)
    ultimately show "prepares t0 (\<lambda>f. [f]) (case x of (current, existed, mode) \<Rightarrow>
        if mismatch (expected_hash input rel idx count) current
        then io_go (Fail (Err (''patch base hash mismatch for '' @ rel)))
        else (case apply_patch current p of
            Panic \<Rightarrow> io_go Panic
          | Fail e \<Rightarrow> io_go (Fail e)
          | Ret (Inl e, _) \<Rightarrow> io_go (Fail (Err (''patch conflict for '' @ rel @ '': '' @ error_text e)))
          | Ret (Inr new, _) \<Rightarrow>
              io_bind (if existed then io_go (Ret ()) else io_os (os_mkdir_all (butlast target))) (\<lambda>_.
                io_go (Ret \<lparr>pf_path = rel, pf_target = target, pf_old = current, pf_new = new,
                  pf_mode = mode, pf_existed = existed, pf_delete = (fp_op p = ''delete'')\<rparr>))))"
      by (auto simp: xs split: go.splits sum.splits prod.splits intro!: prepares_go prepares_bind)
  qed
qed

lemma prepares_patches: "prepares t0 (\<lambda>fs. fs) (prepare_patches cwd ws input idx count ps)"
proof (induction ps arbitrary: idx)
  case (Cons p ps)
  then show ?case
    by (auto intro!: prepares_bind [OF prepares_patch] prepares_bind [where g = "\<lambda>fs. fs"] prepares_go)
qed (auto intro!: prepares_go)

lemma prepares_file: "prepares t0 (\<lambda>f. [f]) (prepare_file cwd ws input f)"
proof (cases "resolve cwd ws (pt_path f)")
  case (Inl e)
  then show ?thesis by (auto simp: prepare_file_def intro!: prepares_go)
next
  case (Inr tr)
  then show ?thesis
    by (cases tr) (auto simp: prepare_file_def target_read_def target_ok_def intro!: read_then prepares_go)
qed

lemma prepares_files: "prepares t0 (\<lambda>fs. fs) (prepare_files cwd ws input fs)"
proof (induction fs)
  case (Cons f fs)
  then show ?case
    by (auto intro!: prepares_bind [OF prepares_file] prepares_bind [where g = "\<lambda>fs. fs"] prepares_go)
qed (auto intro!: prepares_go)

lemma prepares_input:
  assumes "prepare_input cwd ws input = Some m"
  shows "prepares t0 (\<lambda>fs. fs) m"
proof (cases "trim_space (str_at input ''diff'') = []")
  case True
  with assms show ?thesis
    by (auto simp: prepare_input_def prepares_files intro!: prepares_go split: sum.splits)
next
  case False
  with assms obtain z where "m = (case z of Ret patches \<Rightarrow> prepare_patches cwd ws input 0 (length patches) patches
      | Fail e \<Rightarrow> io_go (Fail e) | Panic \<Rightarrow> io_go Panic)"
    by (auto simp: prepare_input_def)
  then show ?thesis by (cases z) (auto simp: prepares_patches intro!: prepares_go)
qed

lemma prepared_input:
  assumes "wf_tree (fs_tree w)" "prepare_input cwd ws input = Some m" "run_state m w = (r, w')"
  shows "tree_from (fs_tree w) (fs_tree w')" "contents (fs_tree w') = contents (fs_tree w)" "same_env w w'"
    "r = Ret files \<Longrightarrow> \<forall>f \<in> set files. target_ok (fs_tree w) f"
  using prepares_input [OF assms(2), of "fs_tree w"] assms(1,3) tree_from_refl [OF assms(1)]
  by (auto simp: prepares_def read_only_from_def)

section \<open>All or nothing\<close>

text \<open>C6: when writing the files of a prepared patch stops at a failing system call, and no later call is hit by a
  fault, the tool returns that error with every file of the system exactly as it was before the tool ran:
  replaced and deleted files have their content back, new ones are gone, no temporary file is left.\<close>

theorem failed_patch_restores_every_file:
  assumes "wf_tree (fs_tree w)" "prepare_input cwd ws input = Some m" "run_state m w = (Ret files, w1)"
    and "run_state (install_files [] files) w1 = ((applied, Some (e, tmp)), w2)"
    and "\<forall>i \<ge> fs_calls w2. fs_faults w i = None"
  shows "\<exists>w3. run_state (io_bind m apply_prepared) w = (Fail e, w3) \<and> contents (fs_tree w3) = contents (fs_tree w)"
proof -
  note p = prepared_input [OF assms(1-3)]
  have "same_env w1 w2"
    using install_files_effect [OF assms(4,1) p(1)] p(2) p(4) [OF refl] by simp
  then have "quiet w2" using p(3) assms(5) by (simp add: quiet_def same_env_def)
  with apply_prepared_effect [OF assms(1) p(1) p(4) [OF refl] p(2) assms(4)] assms(3)
  show ?thesis by (auto simp: io_bind_def)
qed

definition fs0 :: "(nat \<Rightarrow> string option) \<Rightarrow> fs_world" where
  "fs0 faults = \<lparr>fs_tree = [([], FDir), ([''a''], FFile ''x'' 420)], fs_calls = 0, fs_faults = faults,
     fs_temp = (\<lambda>_. ''t''), fs_umask = 18\<rparr>"

definition ws0 :: workspace where
  "ws0 = \<lparr>ws_root = ''/'', ws_sensitive = []\<rparr>"

definition input0 :: gmap where
  "input0 = [(''files'', GList [GMap [(''path'', GStr ''a''), (''content'', GStr ''y'')],
                                 GMap [(''path'', GStr ''b''), (''content'', GStr ''z'')]])]"

definition files0 :: "prepared_file list" where
  "files0 =
     [\<lparr>pf_path = ''a'', pf_target = [''a''], pf_old = ''x'', pf_new = ''y'', pf_mode = 420, pf_existed = True, pf_delete = False\<rparr>,
      \<lparr>pf_path = ''b'', pf_target = [''b''], pf_old = [], pf_new = ''z'', pf_mode = 420, pf_existed = False, pf_delete = False\<rparr>]"

lemma wf_fs0: "wf_tree (fs_tree (fs0 faults))"
  by (auto simp: wf_tree_def fs0_def)

lemma parse_input0: "prepare_input [] ws0 input0 =
    Some (prepare_files [] ws0 input0 [\<lparr>pt_path = ''a'', pt_content = ''y'', pt_expected = []\<rparr>, \<lparr>pt_path = ''b'', pt_content = ''z'', pt_expected = []\<rparr>])"
  by (simp add: prepare_input_def input0_def str_at_def str_opt_def parse_patch_files_def parse_patch_file_list_def trim_space_def trim_chars_def)

definition faults0 :: "nat \<Rightarrow> string option" where
  "faults0 i = (if i = 12 then Some ''io'' else None)"

lemma prepare0: "map_prod id fs_calls (run_state (the (prepare_input [] ws0 input0)) (fs0 faults0)) = (Ret files0, 3)"
  by code_simp

theorem failed_patch_restores_every_file_witness:
  "\<exists>w. run_state (io_bind (the (prepare_input [] ws0 input0)) apply_prepared) (fs0 faults0) = (Fail (Err ''io''), w) \<and>
    contents (fs_tree w) = contents (fs_tree (fs0 faults0))"
proof -
  let ?m = "the (prepare_input [] ws0 input0)"
  obtain w1 where w1: "run_state ?m (fs0 faults0) = (Ret files0, w1)"
    using prepare0 by (cases "run_state ?m (fs0 faults0)") simp
  have "(case run_state (State_Monad.bind ?m (\<lambda>_. install_files [] files0)) (fs0 faults0) of
      ((_, r), w) \<Rightarrow> (r, fs_calls w)) = (Some (Err ''io'', Some [''.agent-patch-t'']), 13)"
    by code_simp
  then obtain applied w2 where w2: "run_state (install_files [] files0) w1 = ((applied, Some (Err ''io'', Some [''.agent-patch-t''])), w2)"
    "fs_calls w2 = 13"
    by (cases "run_state (install_files [] files0) w1") (auto simp: w1 split: prod.splits)
  have "prepare_input [] ws0 input0 = Some ?m" by (simp add: parse_input0)
  from failed_patch_restores_every_file [OF wf_fs0 this w1 w2(1)] w2(2) show ?thesis
    by (simp add: fs0_def faults0_def)
qed

end
