(* ===== verification/Patch_Validate.thy ===== *)
theory Patch_Validate
  imports Patch_Atomic
begin

text \<open>
  The previews of a patch (\<open>code.validate_patch\<close> and \<open>code.dry_run_patch\<close> of
  \<open>internal/tools/code/patch_validate.go\<close>, \<open>code.propose_patch\<close> of \<open>patcher.go\<close>): the same reading, hash check
  and application as the patch tool, reported instead of written. A slice of structs in an output is the
  list of their JSON objects.
\<close>

section \<open>Reports\<close>

record patch_report =
  pr_changed :: "string list"
  pr_conflicts :: "string list"
  pr_sensitive :: "string list"
  pr_files :: "gmap list"
  pr_dry :: "gmap list"
  pr_adds :: nat
  pr_dels :: nat

definition empty_report :: patch_report where
  "empty_report = \<lparr>pr_changed = [], pr_conflicts = [], pr_sensitive = [], pr_files = [], pr_dry = [], pr_adds = 0, pr_dels = 0\<rparr>"

definition uniq_strings :: "string list \<Rightarrow> string list" where
  "uniq_strings xs = uniq_from [] xs"

definition int_val :: "nat \<Rightarrow> gval" where
  "int_val n = GInt (int n)"

definition stats_val :: "patch_report \<Rightarrow> gval" where
  "stats_val r = GMap [(''file_count'', int_val (length (uniq_strings (pr_changed r)))), (''additions'', int_val (pr_adds r)),
     (''deletions'', int_val (pr_dels r))]"

definition match_val :: "hunk_match \<Rightarrow> gval" where
  "match_val m = GStruct [(''old_start'', GInt (hm_old_start m)), (''new_start'', GInt (hm_new_start m)),
     (''matched_line'', GInt (hm_line m)), (''offset'', GInt (hm_offset m)), (''partial_match'', GBool (hm_partial m))]"

definition patch_summary :: "patch_report \<Rightarrow> string" where
  "patch_summary r =
     (if pr_conflicts r \<noteq> [] then ''patch has '' @ show_nat (length (pr_conflicts r)) @ '' conflict(s)''
      else
        ''patch is valid for '' @ show_nat (length (uniq_strings (pr_changed r))) @ '' file(s), +'' @
        show_nat (pr_adds r) @ ''/-'' @ show_nat (pr_dels r) @
        (if pr_sensitive r = [] then []
         else '' and touches '' @ show_nat (length (uniq_strings (pr_sensitive r))) @ '' sensitive file(s)''))"

definition validation_output :: "patch_report \<Rightarrow> bool \<Rightarrow> gmap" where
  "validation_output r dry =
     [(''valid'', GBool (pr_conflicts r = [])), (''changed_files'', GStrs (uniq_strings (pr_changed r))),
      (''conflicts'', GStrs (pr_conflicts r)), (''sensitive_files'', GStrs (uniq_strings (pr_sensitive r))),
      (''requires_approval'', GBool True), (''summary'', GStr (patch_summary r)), (''file_summaries'', GMaps (pr_files r)),
      (''statistics'', stats_val r)] @
     (if dry then [(''dry_run'', GBool True), (''files'', GMaps (pr_dry r))] else [])"

section \<open>Validating\<close>

definition add_conflicts :: "string \<Rightarrow> bool \<Rightarrow> go_error option \<Rightarrow> string list" where
  "add_conflicts rel bad_hash failed =
     (if bad_hash then [rel @ '': expected_sha256 mismatch''] else []) @
     (case failed of None \<Rightarrow> [] | Some e \<Rightarrow> [rel @ '': '' @ error_text e])"

fun res_error :: "'a res \<Rightarrow> go_error option" where
  "res_error (Inl e) = Some e"
| "res_error (Inr _) = None"

definition dry_entry :: "string \<Rightarrow> string \<Rightarrow> string \<Rightarrow> bool \<Rightarrow> gmap" where
  "dry_entry rel current new existed =
     [(''path'', GStr rel), (''old_sha256'', GStr (sha256_hex current)), (''new_sha256'', GStr (sha256_hex new)),
      (''old_size'', int_val (length current)), (''new_size'', int_val (length new)),
      (''rollback_snapshot'', GMap (snapshot_for_file rel current None existed 0))]"

text \<open>What one file section adds to the report.\<close>

definition report_patch :: "workspace \<Rightarrow> bool \<Rightarrow> string \<Rightarrow> string \<Rightarrow> string \<Rightarrow> bool \<Rightarrow> file_patch \<Rightarrow> string res \<times> hunk_match list \<Rightarrow> patch_report \<Rightarrow> patch_report" where
  "report_patch ws dry rel expected current existed p = (\<lambda>(new, info) r.
     let (adds, dels) = file_stats p in
     r\<lparr>pr_conflicts := pr_conflicts r @ add_conflicts rel (mismatch expected current) (res_error new),
       pr_changed := pr_changed r @ [rel],
       pr_sensitive := pr_sensitive r @ (if ws_is_sensitive ws rel then [rel] else []),
       pr_adds := pr_adds r + adds, pr_dels := pr_dels r + dels,
       pr_files := pr_files r @
         [[(''path'', GStr rel), (''old_path'', GStr (fp_old p)), (''new_path'', GStr (fp_new p)), (''operation'', GStr (fp_op p)),
           (''hunks'', int_val (length (fp_hunks p))), (''additions'', int_val adds), (''deletions'', int_val dels),
           (''existed_before'', GBool existed)] @
          (if info = [] then [] else [(''hunk_matches'', GList (map match_val info))])],
       pr_dry := pr_dry r @
         (case new of
            Inl _ \<Rightarrow> []
          | Inr content \<Rightarrow> if dry \<and> \<not> mismatch expected current then [dry_entry rel current content existed] else [])\<rparr>)"

definition validate_patch :: "path \<Rightarrow> workspace \<Rightarrow> gmap \<Rightarrow> bool \<Rightarrow> nat \<Rightarrow> nat \<Rightarrow> file_patch \<Rightarrow> patch_report \<Rightarrow> patch_report io" where
  "validate_patch cwd ws input dry idx count p r =
     (case resolve cwd ws (fp_path p) of
        Inl e \<Rightarrow> io_go (Fail e)
      | Inr (target, rel) \<Rightarrow>
          io_bind (read_patch_target target) (\<lambda>(current, existed, _).
            io_bind (io_go (apply_patch current p)) (\<lambda>x.
              io_go (Ret (report_patch ws dry rel (expected_hash input rel idx count) current existed p x r)))))"

fun validate_patches :: "path \<Rightarrow> workspace \<Rightarrow> gmap \<Rightarrow> bool \<Rightarrow> nat \<Rightarrow> nat \<Rightarrow> file_patch list \<Rightarrow> patch_report \<Rightarrow> patch_report io" where
  "validate_patches cwd ws input dry idx count [] r = io_go (Ret r)"
| "validate_patches cwd ws input dry idx count (p # ps) r =
     io_bind (validate_patch cwd ws input dry idx count p r) (validate_patches cwd ws input dry (idx + 1) count ps)"

definition report_file :: "workspace \<Rightarrow> bool \<Rightarrow> string \<Rightarrow> string \<Rightarrow> string \<Rightarrow> bool \<Rightarrow> string \<Rightarrow> patch_report \<Rightarrow> patch_report" where
  "report_file ws dry rel expected current existed content r =
     (let adds = length (split_lines content); dels = length (split_lines current) in
      r\<lparr>pr_conflicts := pr_conflicts r @ add_conflicts rel (mismatch expected current) None,
        pr_changed := pr_changed r @ [rel],
        pr_sensitive := pr_sensitive r @ (if ws_is_sensitive ws rel then [rel] else []),
        pr_adds := pr_adds r + adds, pr_dels := pr_dels r + dels,
        pr_files := pr_files r @
          [[(''path'', GStr rel), (''operation'', GStr ''replace''), (''additions'', int_val adds), (''deletions'', int_val dels),
            (''existed_before'', GBool existed)]],
        pr_dry := pr_dry r @ (if dry then [dry_entry rel current content existed] else [])\<rparr>)"

definition validate_file :: "path \<Rightarrow> workspace \<Rightarrow> gmap \<Rightarrow> bool \<Rightarrow> nat \<Rightarrow> nat \<Rightarrow> patch_file \<Rightarrow> patch_report \<Rightarrow> patch_report io" where
  "validate_file cwd ws input dry idx count f r =
     (case resolve cwd ws (pt_path f) of
        Inl e \<Rightarrow> io_go (Fail e)
      | Inr (target, rel) \<Rightarrow>
          io_bind (read_patch_target target) (\<lambda>(current, existed, _).
            io_go (Ret (report_file ws dry rel
              (if pt_expected f = [] then expected_hash input rel idx count else pt_expected f)
              current existed (pt_content f) r))))"

fun validate_files :: "path \<Rightarrow> workspace \<Rightarrow> gmap \<Rightarrow> bool \<Rightarrow> nat \<Rightarrow> nat \<Rightarrow> patch_file list \<Rightarrow> patch_report \<Rightarrow> patch_report io" where
  "validate_files cwd ws input dry idx count [] r = io_go (Ret r)"
| "validate_files cwd ws input dry idx count (f # fs) r =
     io_bind (validate_file cwd ws input dry idx count f r) (validate_files cwd ws input dry (idx + 1) count fs)"

definition validate_report :: "path \<Rightarrow> workspace \<Rightarrow> gmap \<Rightarrow> bool \<Rightarrow> patch_report io option" where
  "validate_report cwd ws input dry =
     (if trim_space (str_at input ''diff'') \<noteq> [] then
        map_option (\<lambda>r. case r of
            Ret patches \<Rightarrow> validate_patches cwd ws input dry 0 (length patches) patches empty_report
          | Fail e \<Rightarrow> io_go (Fail e)
          | Panic \<Rightarrow> io_go Panic) (parse_unified_diff (str_at input ''diff''))
      else
        Some (case parse_patch_files input of
            Inl e \<Rightarrow> io_go (Fail e)
          | Inr files \<Rightarrow> validate_files cwd ws input dry 0 (length files) files empty_report))"

definition validate_tool :: "path \<Rightarrow> workspace \<Rightarrow> gmap \<Rightarrow> bool \<Rightarrow> gmap io option" where
  "validate_tool cwd ws input dry =
     map_option (\<lambda>m. io_bind m (\<lambda>r. io_go (Ret (validation_output r dry)))) (validate_report cwd ws input dry)"

section \<open>Proposing\<close>

definition line_kind :: "char \<Rightarrow> string" where
  "line_kind c = (if c = CHR ''+'' then ''add'' else if c = CHR ''-'' then ''delete'' else ''context'')"

definition hunk_val :: "unified_hunk \<Rightarrow> gval" where
  "hunk_val h = GStruct
     ([(''old_start'', GInt (uh_old_start h)), (''old_count'', GInt (uh_old_count h)), (''new_start'', GInt (uh_new_start h)),
       (''new_count'', GInt (uh_new_count h))] @
      (if uh_section h = [] then [] else [(''section'', GStr (uh_section h))]) @
      [(''lines'', GList (map (\<lambda>l. GStruct [(''kind'', GStr (line_kind (ul_kind l))), (''text'', GStr (ul_text l))]) (uh_lines h)))])"

definition diff_val :: "file_patch list \<Rightarrow> gval" where
  "diff_val ps = GStruct [(''files'', GList (map (\<lambda>p. GStruct
     [(''old_path'', GStr (fp_old p)), (''new_path'', GStr (fp_new p)), (''path'', GStr (fp_path p)),
      (''operation'', GStr (fp_op p)), (''hunks'', GList (map hunk_val (fp_hunks p)))]) ps))]"

definition first_non_empty :: "string \<Rightarrow> string \<Rightarrow> string" where
  "first_non_empty a b = (if a \<noteq> [] then a else b)"

definition propose_entry :: "string \<Rightarrow> string \<Rightarrow> string \<Rightarrow> bool \<Rightarrow> file_patch \<Rightarrow> string res \<times> hunk_match list \<Rightarrow> gmap" where
  "propose_entry rel expected current existed p = (\<lambda>(new, info).
     let (adds, dels) = file_stats p in
     [(''path'', GStr rel), (''old_path'', GStr (fp_old p)), (''new_path'', GStr (fp_new p)), (''operation'', GStr (fp_op p)),
      (''hunks'', int_val (length (fp_hunks p))), (''additions'', int_val adds), (''deletions'', int_val dels),
      (''old_sha256'', GStr (sha256_hex current)), (''old_size'', int_val (length current)),
      (''expected_sha256'', GStr (first_non_empty expected (sha256_hex current))), (''existed_before'', GBool existed)] @
     (case new of
        Inr content \<Rightarrow>
          [(''new_sha256'', GStr (sha256_hex content)), (''new_size'', int_val (length content)),
           (''hunk_matches'', GList (map match_val info))]
      | Inl e \<Rightarrow> [(''conflict'', GStr (error_text e))]))"

definition propose_patch :: "path \<Rightarrow> workspace \<Rightarrow> gmap \<Rightarrow> nat \<Rightarrow> nat \<Rightarrow> file_patch \<Rightarrow> patch_report \<Rightarrow> patch_report io" where
  "propose_patch cwd ws input idx count p r =
     (case resolve cwd ws (fp_path p) of
        Inl e \<Rightarrow> io_go (Fail e)
      | Inr (target, rel) \<Rightarrow>
          io_bind (read_patch_target target) (\<lambda>(current, existed, _).
            io_bind (io_go (apply_patch current p)) (\<lambda>x.
              let expected = expected_hash input rel idx count in
              io_go (Ret (report_patch ws False rel expected current existed p x
                (r\<lparr>pr_dry := pr_dry r @ [propose_entry rel expected current existed p x]\<rparr>))))))"

fun propose_patches :: "path \<Rightarrow> workspace \<Rightarrow> gmap \<Rightarrow> nat \<Rightarrow> nat \<Rightarrow> file_patch list \<Rightarrow> patch_report \<Rightarrow> patch_report io" where
  "propose_patches cwd ws input idx count [] r = io_go (Ret r)"
| "propose_patches cwd ws input idx count (p # ps) r =
     io_bind (propose_patch cwd ws input idx count p r) (propose_patches cwd ws input (idx + 1) count ps)"

definition propose_unified_diff :: "path \<Rightarrow> workspace \<Rightarrow> gmap \<Rightarrow> string \<Rightarrow> gmap io option" where
  "propose_unified_diff cwd ws input diff =
     map_option (\<lambda>parsed. case parsed of
         Fail e \<Rightarrow> io_go (Fail e)
       | Panic \<Rightarrow> io_go Panic
       | Ret patches \<Rightarrow>
           io_bind (propose_patches cwd ws input 0 (length patches) patches empty_report) (\<lambda>r.
             io_go (Ret
               [(''changed_files'', GStrs (uniq_strings (pr_changed r))), (''files'', GMaps (pr_dry r)), (''diff'', GStr diff),
                (''parsed_diff'', diff_val patches), (''valid'', GBool (pr_conflicts r = [])),
                (''conflicts'', GStrs (pr_conflicts r)), (''sensitive_files'', GStrs (uniq_strings (pr_sensitive r))),
                (''statistics'', stats_val r), (''summary'', GStr (patch_summary r)),
                (''requires_approval_before_apply'', GBool True)])))
       (parse_unified_diff diff)"

text \<open>Replacements given as whole files: the old content is empty when the file does not exist.\<close>

definition propose_file :: "path \<Rightarrow> workspace \<Rightarrow> patch_file \<Rightarrow> (string \<times> gmap) io" where
  "propose_file cwd ws f =
     (case resolve cwd ws (pt_path f) of
        Inl e \<Rightarrow> io_go (Fail e)
      | Inr (target, rel) \<Rightarrow> do {
          d \<leftarrow> os_read target;
          case d of
            Inl (OsFail e) \<Rightarrow> io_go (Fail (Err e))
          | _ \<Rightarrow>
              let old = (case d of Inr c \<Rightarrow> c | Inl _ \<Rightarrow> []) in
              io_go (Ret (unified_diff rel old (pt_content f),
                [(''path'', GStr rel), (''old_sha256'', GStr (sha256_hex old)), (''new_sha256'', GStr (sha256_hex (pt_content f))),
                 (''old_size'', int_val (length old)), (''new_size'', int_val (length (pt_content f))),
                 (''diff'', GStr (unified_diff rel old (pt_content f))), (''content'', GStr (pt_content f)),
                 (''expected_sha256'', GStr (first_non_empty (pt_expected f) (sha256_hex old)))]))
        })"

fun propose_files :: "path \<Rightarrow> workspace \<Rightarrow> patch_file list \<Rightarrow> (string \<times> gmap) list io" where
  "propose_files cwd ws [] = io_go (Ret [])"
| "propose_files cwd ws (f # fs) =
     io_bind (propose_file cwd ws f) (\<lambda>x. io_bind (propose_files cwd ws fs) (\<lambda>xs. io_go (Ret (x # xs))))"

definition propose_tool :: "path \<Rightarrow> workspace \<Rightarrow> gmap \<Rightarrow> gmap io option" where
  "propose_tool cwd ws input =
     (if trim_space (str_at input ''diff'') \<noteq> [] then propose_unified_diff cwd ws input (str_at input ''diff'')
      else
        Some (case parse_patch_files input of
            Inl e \<Rightarrow> io_go (Fail e)
          | Inr files \<Rightarrow>
              io_bind (propose_files cwd ws files) (\<lambda>outs.
                io_go (Ret
                  [(''changed_files'', GStrs (map (\<lambda>(_, m). str_at m ''path'') outs)), (''files'', GMaps (map snd outs)),
                   (''diff'', GStr (join nl (map fst outs)))]))))"

end
