(* ===== verification/Patch_Agreement.thy ===== *)
theory Patch_Agreement
  imports Patch_Validate
begin

text \<open>
  What the previews promise about the patch tool, and what the tool writes: a prepared section is the section
  applied to the content the file had before the tool ran, a patch the tool accepts is one that validation
  reports as valid, and the files end up with the prepared contents.
\<close>

section \<open>Prepared sections\<close>

text \<open>File \<open>f\<close> was prepared from section \<open>p\<close> on the tree \<open>t0\<close>.\<close>

definition prepared_from :: "ftree \<Rightarrow> path \<Rightarrow> workspace \<Rightarrow> string \<Rightarrow> file_patch \<Rightarrow> prepared_file \<Rightarrow> bool" where
  "prepared_from t0 cwd ws expected p f \<longleftrightarrow>
     resolve cwd ws (fp_path p) = Inr (pf_target f, pf_path f) \<and>
     target_read t0 (pf_target f) (pf_old f, pf_existed f, pf_mode f) \<and>
     \<not> mismatch expected (pf_old f) \<and>
     (\<exists>info. apply_patch (pf_old f) p = Ret (Inr (pf_new f), info)) \<and>
     pf_delete f = (fp_op p = ''delete'')"

lemma run_go_bind: "run_state (io_bind (io_go r) k) w =
    (case r of Ret a \<Rightarrow> run_state (k a) w | Fail e \<Rightarrow> (Fail e, w) | Panic \<Rightarrow> (Panic, w))"
  by (cases r) (simp_all add: io_bind_def)

lemma prepare_patch_result:
  assumes run: "run_state (prepare_patch cwd ws input idx count p) w = (Ret f, w')" and ro: "read_only_from t0 w"
  shows "prepared_from t0 cwd ws (expected_hash input (pf_path f) idx count) p f"
proof -
  obtain target rel where tr: "resolve cwd ws (fp_path p) = Inr (target, rel)"
    using run by (cases "resolve cwd ws (fp_path p)") (auto simp: prepare_patch_def)
  from run [unfolded prepare_patch_def tr sum.case prod.case] show ?thesis
  proof (cases rule: io_bindE)
    case (ret x v)
    obtain current existed mode where x: "x = (current, existed, mode)" using prod_cases3 by blast
    from read_patch_target_effect [OF ret(1) ro] have read: "target_read t0 target (current, existed, mode)"
      by (simp add: x)
    from ret(2) obtain new info where a: "\<not> mismatch (expected_hash input rel idx count) current"
      "apply_patch current p = Ret (Inr new, info)"
      by (auto simp: x split: if_splits go.splits sum.splits prod.splits)
    let ?f = "\<lparr>pf_path = rel, pf_target = target, pf_old = current, pf_new = new, pf_mode = mode,
        pf_existed = existed, pf_delete = (fp_op p = ''delete'')\<rparr>"
    from ret(2) a have "run_state (io_bind (if existed then io_go (Ret ()) else io_os (os_mkdir_all (butlast target)))
        (\<lambda>_. io_go (Ret ?f))) v = (Ret f, w')" by (simp add: x)
    then have "f = ?f" by (cases rule: io_bindE) simp_all
    with a read tr show ?thesis by (auto simp: prepared_from_def)
  qed simp_all
qed

lemma prepare_patch_keeps:
  assumes "run_state (prepare_patch cwd ws input idx count p) w = (r, w')" "read_only_from t0 w"
  shows "read_only_from t0 w'"
  using prepares_patch assms unfolding prepares_def by blast

fun sections_from :: "ftree \<Rightarrow> path \<Rightarrow> workspace \<Rightarrow> gmap \<Rightarrow> nat \<Rightarrow> nat \<Rightarrow> file_patch list \<Rightarrow> prepared_file list \<Rightarrow> bool" where
  "sections_from t0 cwd ws input idx count [] fs \<longleftrightarrow> fs = []"
| "sections_from t0 cwd ws input idx count (p # ps) fs \<longleftrightarrow>
     (\<exists>f fs'. fs = f # fs' \<and> prepared_from t0 cwd ws (expected_hash input (pf_path f) idx count) p f \<and>
       sections_from t0 cwd ws input (idx + 1) count ps fs')"

lemma prepare_patches_result:
  "run_state (prepare_patches cwd ws input idx count ps) w = (Ret fs, w') \<Longrightarrow> read_only_from t0 w \<Longrightarrow>
     sections_from t0 cwd ws input idx count ps fs"
proof (induction ps arbitrary: idx w fs)
  case (Cons p ps)
  note run = Cons.prems(1) [unfolded prepare_patches.simps]
  from run show ?case
  proof (cases rule: io_bindE)
    case (ret f v)
    from ret(2) show ?thesis
    proof (cases rule: io_bindE)
      case rest: (ret fs' u)
      then show ?thesis
        using prepare_patch_result [OF ret(1) Cons.prems(2)] prepare_patch_keeps [OF ret(1) Cons.prems(2)] Cons.IH by auto
    qed simp_all
  qed simp_all
qed simp

lemma read_only_refl: "wf_tree (fs_tree w) \<Longrightarrow> read_only_from (fs_tree w) w"
  by (simp add: read_only_from_def tree_from_refl)

section \<open>Validation sees the same\<close>

lemma os_lookup_missing:
  assumes "map_of t p \<noteq> Some FDir" "\<And>q. prefix q p \<Longrightarrow> contents t q = None"
  shows "\<exists>e. os_lookup t p = Inl (NotExist e)"
proof (cases "first_block t [] p")
  case None
  have "map_of t p = None"
    using assms(1) assms(2) [of p] by (cases "map_of t p") (auto simp: contents_def split: fnode.splits)
  with None show ?thesis by (simp add: os_lookup_def)
next
  case (Some q)
  then have q: "prefix q p" "map_of t q \<noteq> Some FDir" using first_block_SomeD [OF Some] take_is_prefix by auto
  then have "map_of t q = None"
    using assms(2) [of q] by (cases "map_of t q") (auto simp: contents_def split: fnode.splits)
  with Some show ?thesis by (simp add: os_lookup_def)
qed

definition undisturbed :: "ftree \<Rightarrow> fs_world \<Rightarrow> bool" where
  "undisturbed t0 u \<longleftrightarrow> wf_tree t0 \<and> fs_tree u = t0 \<and> fs_faults u = (\<lambda>_. None)"

lemma read_again:
  assumes "target_read t0 p (current, existed, mode)" "undisturbed t0 u"
  shows "\<exists>m u'. run_state (read_patch_target p) u = (Ret (current, existed, m), u') \<and> undisturbed t0 u'"
proof (cases existed)
  case True
  then obtain m where "map_of t0 p = Some (FFile current m)"
    using assms(1) file_node by (fastforce simp: target_read_def)
  with assms(2) True show ?thesis
    by (auto simp: read_patch_target_def os_stat_def os_read_def sys_def undisturbed_def os_lookup_Some io_bind_def io_os_def)
next
  case False
  with assms(1) os_lookup_missing [of t0 p] obtain e where "os_lookup t0 p = Inl (NotExist e)" "current = []"
    by (auto simp: target_read_def)
  with assms(2) False show ?thesis
    by (auto simp: read_patch_target_def os_stat_def sys_def undisturbed_def)
qed

lemma validate_prepared:
  assumes "prepared_from t0 cwd ws (expected_hash input (pf_path f) idx count) p f" "undisturbed t0 u"
  shows "\<exists>r' u'. run_state (validate_patch cwd ws input dry idx count p r) u = (Ret r', u') \<and> undisturbed t0 u' \<and>
    pr_conflicts r' = pr_conflicts r \<and> pr_changed r' = pr_changed r @ [pf_path f]"
proof -
  from assms(1) obtain info where p: "resolve cwd ws (fp_path p) = Inr (pf_target f, pf_path f)"
    "target_read t0 (pf_target f) (pf_old f, pf_existed f, pf_mode f)"
    "\<not> mismatch (expected_hash input (pf_path f) idx count) (pf_old f)"
    "apply_patch (pf_old f) p = Ret (Inr (pf_new f), info)" by (auto simp: prepared_from_def)
  from read_again [OF p(2) assms(2)] obtain m u' where
    u': "run_state (read_patch_target (pf_target f)) u = (Ret (pf_old f, pf_existed f, m), u')" "undisturbed t0 u'" by blast
  from p u' show ?thesis
    by (cases "file_stats p") (simp add: validate_patch_def io_bind_def report_patch_def add_conflicts_def)
qed

lemma validate_sections:
  "sections_from t0 cwd ws input idx count ps fs \<Longrightarrow> undisturbed t0 u \<Longrightarrow>
     \<exists>r' u'. run_state (validate_patches cwd ws input dry idx count ps r) u = (Ret r', u') \<and>
       pr_conflicts r' = pr_conflicts r \<and> pr_changed r' = pr_changed r @ map pf_path fs"
proof (induction ps arbitrary: idx fs r u)
  case (Cons p ps)
  then obtain f fs' where f: "fs = f # fs'" "prepared_from t0 cwd ws (expected_hash input (pf_path f) idx count) p f"
    "sections_from t0 cwd ws input (idx + 1) count ps fs'" by auto
  from validate_prepared [OF f(2) Cons.prems(2), of dry r] obtain r1 u1 where
    1: "run_state (validate_patch cwd ws input dry idx count p r) u = (Ret r1, u1)" "undisturbed t0 u1"
      "pr_conflicts r1 = pr_conflicts r" "pr_changed r1 = pr_changed r @ [pf_path f]" by blast
  from Cons.IH [OF f(3) 1(2), of r1] 1 f(1) show ?case by (auto simp: io_bind_def)
qed simp

text \<open>C8: a diff the patch tool accepts (every section read, matched against its expected hash and applied) is one
  that validation, run without faults on the same files, reports as valid, naming exactly the files the tool
  will write. In particular no patch is applied that validation would have called in conflict.\<close>

theorem accepted_diff_was_valid:
  assumes "wf_tree (fs_tree w)" "trim_space (str_at input ''diff'') \<noteq> []"
    and "prepare_input cwd ws input = Some m" "run_state m w = (Ret files, w1)"
  shows "\<exists>v r u. validate_report cwd ws input dry = Some v \<and>
    run_state v (w\<lparr>fs_faults := \<lambda>_. None\<rparr>) = (Ret r, u) \<and> pr_conflicts r = [] \<and> pr_changed r = map pf_path files"
proof -
  from assms(2,3) obtain z where z: "parse_unified_diff (str_at input ''diff'') = Some z"
    "m = (case z of Ret patches \<Rightarrow> prepare_patches cwd ws input 0 (length patches) patches
      | Fail e \<Rightarrow> io_go (Fail e) | Panic \<Rightarrow> io_go Panic)"
    by (auto simp: prepare_input_def)
  with assms(4) obtain ps where ps: "z = Ret ps" by (cases z) auto
  with z assms(4) have "run_state (prepare_patches cwd ws input 0 (length ps) ps) w = (Ret files, w1)" by simp
  from prepare_patches_result [OF this read_only_refl [OF assms(1)]]
  have sec: "sections_from (fs_tree w) cwd ws input 0 (length ps) ps files" .
  have "undisturbed (fs_tree w) (w\<lparr>fs_faults := \<lambda>_. None\<rparr>)" using assms(1) by (simp add: undisturbed_def)
  from validate_sections [OF sec this, of dry empty_report]
  obtain r u where "run_state (validate_patches cwd ws input dry 0 (length ps) ps empty_report) (w\<lparr>fs_faults := \<lambda>_. None\<rparr>) = (Ret r, u)"
    "pr_conflicts r = []" "pr_changed r = map pf_path files"
    by (auto simp: empty_report_def)
  with z(1) ps assms(2) show ?thesis by (auto simp: validate_report_def)
qed

definition diff0 :: gmap where
  "diff0 = [(''diff'', GStr (concat (map (\<lambda>(p, old, new). unified_diff p old new)
     [(''x'', ''a'' @ nl, ''b'' @ nl), (''x'', ''a'' @ nl, ''c'' @ nl)])))]"

definition sections0 :: "file_patch list" where
  "sections0 = [preview_patch ''x'' (''a'' @ nl) (''b'' @ nl), preview_patch ''x'' (''a'' @ nl) (''c'' @ nl)]"

definition fs1 :: fs_world where
  "fs1 = \<lparr>fs_tree = [([], FDir), ([''x''], FFile (''a'' @ nl) 420)], fs_calls = 0, fs_faults = (\<lambda>_. None),
     fs_temp = (\<lambda>_. ''t''), fs_umask = 18\<rparr>"

lemma wf_fs1: "wf_tree (fs_tree fs1)"
  by (auto simp: wf_tree_def fs1_def)

lemma parse_diff0: "parse_unified_diff (str_at diff0 ''diff'') = Some (Ret sections0)"
proof -
  have "list_all (\<lambda>(p, old, new). previewable p old new) [(''x'', ''a'' @ nl, ''b'' @ nl), (''x'', ''a'' @ nl, ''c'' @ nl)]"
    by (simp add: previewable_def plain_path_def is_space_def dev_null_def split_lines_line split_lines_line [of "''c''", simplified] max_int_def)
  from parse_previews [OF _ this] show ?thesis
    by (simp add: diff0_def sections0_def str_at_def)
qed

lemma diff0_not_blank: "trim_space (str_at diff0 ''diff'') \<noteq> []"
  by (simp add: diff0_def str_at_def unified_diff_def trim_space_def trim_chars_def is_space_def)

lemma prepare_diff0: "prepare_input [] ws0 diff0 = Some (prepare_patches [] ws0 diff0 0 2 sections0)"
proof -
  have "length sections0 = 2" by (simp add: sections0_def)
  then show ?thesis using diff0_not_blank by (simp add: prepare_input_def parse_diff0)
qed

lemma run_diff0:
  "\<exists>files w1 w2. run_state (prepare_patches [] ws0 diff0 0 2 sections0) fs1 = (Ret files, w1) \<and>
     run_state (apply_prepared files) w1 = (Ret (), w2)"
proof -
  let ?m = "prepare_patches [] ws0 diff0 0 2 sections0"
  have "fst (run_state (io_bind ?m apply_prepared) fs1) = Ret ()" by code_simp
  then have "run_state (io_bind ?m apply_prepared) fs1 = (Ret (), snd (run_state (io_bind ?m apply_prepared) fs1))"
    by (simp add: prod_eq_iff)
  then show ?thesis by (cases rule: io_bindE) auto
qed

theorem accepted_diff_was_valid_witness:
  "\<exists>v r u. validate_report [] ws0 diff0 True = Some v \<and>
    run_state v (fs1\<lparr>fs_faults := \<lambda>_. None\<rparr>) = (Ret r, u) \<and> pr_conflicts r = []"
proof -
  obtain files w1 where "run_state (prepare_patches [] ws0 diff0 0 2 sections0) fs1 = (Ret files, w1)"
    using run_diff0 by blast
  from accepted_diff_was_valid [OF wf_fs1 diff0_not_blank prepare_diff0 this] show ?thesis by blast
qed

section \<open>What the tool writes\<close>

lemma install_all_append: "install_all (fs @ gs) c = install_all gs (install_all fs c)"
  by (simp add: install_all_def)

lemma install_all_last: "pf_target f \<notin> pf_target ` set gs \<Longrightarrow> install_all (fs @ f # gs) c (pf_target f) = installed f"
  using install_all_append [of fs "f # gs" c] install_all_other [of "pf_target f" gs]
  by (simp add: install_all_def)

lemma applied_contents:
  assumes "wf_tree (fs_tree w)" "prepare_input cwd ws input = Some m" "run_state m w = (Ret files, w1)"
    "run_state (apply_prepared files) w1 = (Ret (), w2)"
  shows "contents (fs_tree w2) = install_all files (contents (fs_tree w))"
proof -
  note p = prepared_input [OF assms(1-3)]
  obtain applied fl v where r: "run_state (install_files [] files) w1 = ((applied, fl), v)" by (metis surj_pair)
  with assms(4) have "fl = None" "v = w2"
    by (auto simp: apply_prepared_def split: option.splits prod.splits)
  with install_files_effect [OF r assms(1) p(1)] p(2) p(4) [OF refl] show ?thesis by simp
qed

lemma sections_from_append:
  "sections_from t0 cwd ws input idx count (ps @ q # qs) fs \<Longrightarrow>
     \<exists>gs f hs e. fs = gs @ f # hs \<and> prepared_from t0 cwd ws e q f \<and> length gs = length ps \<and>
       list_all2 (\<lambda>p h. \<exists>e. prepared_from t0 cwd ws e p h) qs hs"
proof (induction ps arbitrary: idx fs)
  case Nil
  have "sections_from t0 cwd ws input idx count qs fs \<Longrightarrow> list_all2 (\<lambda>p h. \<exists>e. prepared_from t0 cwd ws e p h) qs fs" for idx fs
    by (induction qs arbitrary: idx fs) auto
  with Nil show ?case by fastforce
next
  case (Cons p ps)
  then obtain f fs' where f: "fs = f # fs'" "sections_from t0 cwd ws input (idx + 1) count (ps @ q # qs) fs'" by auto
  from Cons.IH [OF f(2)] obtain gs g hs e where "fs' = gs @ g # hs" "prepared_from t0 cwd ws e q g" "length gs = length ps"
    "list_all2 (\<lambda>p h. \<exists>e. prepared_from t0 cwd ws e p h) qs hs" by blast
  with f(1) show ?case by (intro exI [of _ "f # gs"]) auto
qed

definition old_content :: "fs_world \<Rightarrow> path \<Rightarrow> string" where
  "old_content w p = (case contents (fs_tree w) p of Some c \<Rightarrow> c | None \<Rightarrow> [])"

lemma prepared_old: "prepared_from (fs_tree w) cwd ws e p f \<Longrightarrow> pf_old f = old_content w (pf_target f)"
  by (auto simp: prepared_from_def target_read_def old_content_def split: if_splits)

text \<open>When the patch tool succeeds on a diff, the last section that names a file decides what the file holds:
  nothing if it is a deletion, whatever lines its hunks remove, and else that section applied to the content
  the file had before the tool ran. Earlier sections of the same file are lost.\<close>

theorem last_section_of_a_file_wins:
  assumes "wf_tree (fs_tree w)" "trim_space (str_at input ''diff'') \<noteq> []"
    and "parse_unified_diff (str_at input ''diff'') = Some (Ret (ps @ q # qs))"
    and "prepare_input cwd ws input = Some m" "run_state m w = (Ret files, w1)" "run_state (apply_prepared files) w1 = (Ret (), w2)"
    and "resolve cwd ws (fp_path q) = Inr (target, rel)" "\<forall>p \<in> set qs. \<forall>r. resolve cwd ws (fp_path p) \<noteq> Inr (target, r)"
  shows "\<exists>new info. apply_patch (old_content w target) q = Ret (Inr new, info) \<and>
    contents (fs_tree w2) target = (if fp_op q = ''delete'' then None else Some new)"
proof -
  let ?ps = "ps @ q # qs"
  have "m = prepare_patches cwd ws input 0 (length ?ps) ?ps"
    using assms(2-4) by (simp add: prepare_input_def)
  with assms(5) have "sections_from (fs_tree w) cwd ws input 0 (length ?ps) ?ps files"
    using prepare_patches_result read_only_refl [OF assms(1)] by blast
  then obtain gs f hs e where f: "files = gs @ f # hs" "prepared_from (fs_tree w) cwd ws e q f"
    "list_all2 (\<lambda>p h. \<exists>e. prepared_from (fs_tree w) cwd ws e p h) qs hs"
    using sections_from_append by blast
  have t: "pf_target f = target" using f(2) assms(7) by (simp add: prepared_from_def)
  have "target \<notin> pf_target ` set hs"
  proof
    assume "target \<in> pf_target ` set hs"
    then obtain i where i: "i < length hs" "pf_target (hs ! i) = target" by (auto simp: in_set_conv_nth)
    with f(3) obtain e' where "prepared_from (fs_tree w) cwd ws e' (qs ! i) (hs ! i)" "i < length qs"
      by (auto simp: list_all2_conv_all_nth)
    with i assms(8) show False by (auto simp: prepared_from_def)
  qed
  then have "contents (fs_tree w2) target = installed f"
    using applied_contents [OF assms(1,4-6)] install_all_last [of f hs gs] by (simp add: f(1) t)
  moreover obtain info where "apply_patch (old_content w target) q = Ret (Inr (pf_new f), info)"
    using f(2) prepared_old [OF f(2)] by (auto simp: prepared_from_def t)
  ultimately show ?thesis using f(2) by (auto simp: prepared_from_def installed_def)
qed

theorem last_section_of_a_file_wins_witness:
  "\<exists>files w1 w2. run_state (prepare_patches [] ws0 diff0 0 2 sections0) fs1 = (Ret files, w1) \<and>
     run_state (apply_prepared files) w1 = (Ret (), w2) \<and> contents (fs_tree w2) [''x''] = Some (''c'' @ nl)"
proof -
  obtain files w1 w2 where run: "run_state (prepare_patches [] ws0 diff0 0 2 sections0) fs1 = (Ret files, w1)"
    "run_state (apply_prepared files) w1 = (Ret (), w2)" using run_diff0 by blast
  let ?q = "preview_patch ''x'' (''a'' @ nl) (''c'' @ nl)"
  have parse: "parse_unified_diff (str_at diff0 ''diff'') = Some (Ret ([preview_patch ''x'' (''a'' @ nl) (''b'' @ nl)] @ ?q # []))"
    by (simp add: parse_diff0 sections0_def)
  have res: "resolve [] ws0 (fp_path ?q) = Inr ([''x''], ''x'')" by code_simp
  have old: "old_content fs1 [''x''] = ''a'' @ nl" by (simp add: old_content_def contents_def fs1_def)
  have "\<exists>info. apply_patch (''a'' @ nl) ?q = Ret (Inr (''c'' @ nl), info)"
    by (rule preview_applies) (simp_all add: previewable_def plain_path_def is_space_def dev_null_def split_lines_line
        split_lines_line [of "''c''", simplified] max_int_def small_def suffix_def)
  with last_section_of_a_file_wins [OF wf_fs1 diff0_not_blank parse prepare_diff0 run res] old run
  show ?thesis by (auto simp: preview_patch_def)
qed

text \<open>C7: the patch tool writes nothing but the files its input names: after a success every other file has the
  content it had, and the named ones have the prepared content.\<close>

theorem patch_touches_only_its_files:
  assumes "wf_tree (fs_tree w)" "prepare_input cwd ws input = Some m" "run_state m w = (Ret files, w1)"
    "run_state (apply_prepared files) w1 = (Ret (), w2)"
  shows "contents (fs_tree w2) p =
    (if p \<in> pf_target ` set files then installed (last (filter (\<lambda>f. pf_target f = p) files)) else contents (fs_tree w) p)"
proof (cases "p \<in> pf_target ` set files")
  case True
  then obtain f where "f \<in> set files" "pf_target f = p" by blast
  then obtain gs g hs where g: "files = gs @ g # hs" "pf_target g = p" "\<forall>h \<in> set hs. pf_target h \<noteq> p"
    using split_list_last_prop [of files "\<lambda>f. pf_target f = p"] by blast
  then have "filter (\<lambda>f. pf_target f = p) hs = []" by (auto simp: filter_empty_conv)
  moreover have "pf_target g \<notin> pf_target ` set hs" using g by auto
  ultimately show ?thesis
    using True g applied_contents [OF assms] install_all_last [of g hs gs] by simp
next
  case False
  then show ?thesis using applied_contents [OF assms] install_all_other by simp
qed

theorem patch_touches_only_its_files_witness:
  "\<exists>files w1 w2. run_state (prepare_patches [] ws0 diff0 0 2 sections0) fs1 = (Ret files, w1) \<and>
     run_state (apply_prepared files) w1 = (Ret (), w2) \<and> contents (fs_tree w2) [''y''] = None"
proof -
  obtain files w1 w2 where run: "run_state (prepare_patches [] ws0 diff0 0 2 sections0) fs1 = (Ret files, w1)"
    "run_state (apply_prepared files) w1 = (Ret (), w2)" using run_diff0 by blast
  have "sections_from (fs_tree fs1) [] ws0 diff0 0 2 sections0 files"
    using prepare_patches_result [OF run(1) read_only_refl [OF wf_fs1]] .
  moreover have "resolve [] ws0 ''x'' = Inr ([''x''], ''x'')" by code_simp
  then have "pf_target f = [''x'']" if "prepared_from t [] ws0 e (preview_patch ''x'' old new) f" for t e old new f
    using that by (auto simp: prepared_from_def preview_patch_def)
  ultimately have "[''y''] \<notin> pf_target ` set files"
    by (fastforce simp: sections0_def)
  with patch_touches_only_its_files [OF wf_fs1 prepare_diff0 run, of "[''y'']"] run show ?thesis
    by (auto simp: contents_def fs1_def)
qed

end
