(* ===== verification/Network_Policy.thy ===== *)
theory Network_Policy
  imports Policy_Config Go_Outcome
begin

text \<open>
  \<open>ValidateNetworkURL\<close> of \<open>internal/security/network_policy.go\<close>: what outbound requests the configuration
  allows. The URL is given as \<open>url.Parse\<close> leaves it, its scheme, host name and text, or none when it does not
  parse; literal addresses are read as \<open>net.ParseIP\<close> reads them.
\<close>

section \<open>Literal addresses\<close>

text \<open>One field of a dotted quad: digits, no leading zero, at most 255.\<close>

definition ipv4_field :: "string \<Rightarrow> nat option" where
  "ipv4_field s =
     (if s = [] \<or> \<not> list_all is_digit s \<or> 1 < length s \<and> hd s = CHR ''0'' \<or> 255 < nat_of_digits s then None
      else Some (nat_of_digits s))"

definition parse_ipv4 :: "string \<Rightarrow> nat list option" where
  "parse_ipv4 s =
     (let fs = split_on (CHR ''.'') s in
      if length fs \<noteq> 4 then None else those (map ipv4_field fs))"

definition hex_val :: "char \<Rightarrow> nat option" where
  "hex_val c =
     (if is_digit c then Some (digit_val c)
      else if CHR ''a'' \<le> c \<and> c \<le> CHR ''f'' then Some (of_char c - 87)
      else if CHR ''A'' \<le> c \<and> c \<le> CHR ''F'' then Some (of_char c - 55)
      else None)"

definition is_hex :: "char \<Rightarrow> bool" where
  "is_hex c \<longleftrightarrow> hex_val c \<noteq> None"

definition hex_number :: "string \<Rightarrow> nat" where
  "hex_number s = foldl (\<lambda>n c. 16 * n + the (hex_val c)) 0 s"

text \<open>
  The fields of an IPv6 address after an optional leading \<open>::\<close>: the bytes read so far, where the \<open>::\<close> stands in
  them, the text left. None when it is no address.
\<close>

function ipv6_fields :: "nat list \<Rightarrow> nat option \<Rightarrow> string \<Rightarrow> (nat list \<times> nat option \<times> string) option" where
  "ipv6_fields ip gap s =
     (if 16 \<le> length ip then Some (ip, gap, s)
      else
        let h = takeWhile is_hex s; rest = dropWhile is_hex s in
        if h = [] \<or> 4 < length h then None
        else if has_prefix rest ''.'' then
          (if gap = None \<and> length ip \<noteq> 12 \<or> 16 < length ip + 4 then None
           else map_option (\<lambda>q. (ip @ q, gap, [])) (parse_ipv4 s))
        else
          let ip' = ip @ [hex_number h div 256, hex_number h mod 256] in
          if rest = [] then Some (ip', gap, [])
          else if hd rest \<noteq> CHR '':'' \<or> length rest = 1 then None
          else if has_prefix (tl rest) '':'' then
            (if gap \<noteq> None then None
             else if drop 2 rest = [] then Some (ip', Some (length ip'), [])
             else ipv6_fields ip' (Some (length ip')) (drop 2 rest))
          else ipv6_fields ip' gap (tl rest))"
  by pat_completeness auto
termination
  by (relation "measure (\<lambda>(ip, gap, s). 16 - length ip)") auto

declare ipv6_fields.simps [simp del]

definition parse_ipv6 :: "string \<Rightarrow> nat list option" where
  "parse_ipv6 s =
     (let start = (if has_prefix s ''::'' then (if s = ''::'' then Some ([], Some 0, []) else ipv6_fields [] (Some 0) (drop 2 s))
                   else ipv6_fields [] None s)
      in case start of
           None \<Rightarrow> None
         | Some (ip, gap, left) \<Rightarrow>
             if left \<noteq> [] then None
             else
               (case gap of
                  None \<Rightarrow> if length ip < 16 then None else Some ip
                | Some g \<Rightarrow>
                    if length ip < 16 then Some (take g ip @ replicate (16 - length ip) 0 @ drop g ip) else None))"

text \<open>An address is four bytes or sixteen; the first \<open>.\<close> or \<open>:\<close> decides how it is read.\<close>

definition parse_ip :: "string \<Rightarrow> nat list option" where
  "parse_ip s =
     (case dropWhile (\<lambda>c. c \<noteq> CHR ''.'' \<and> c \<noteq> CHR '':'' \<and> c \<noteq> CHR ''%'') s of
        c # _ \<Rightarrow> if c = CHR ''.'' then parse_ipv4 s else if c = CHR '':'' then parse_ipv6 s else None
      | [] \<Rightarrow> None)"

text \<open>\<open>To4\<close>: the four bytes of an address written as IPv4, or mapped into IPv6.\<close>

definition ip_to4 :: "nat list \<Rightarrow> nat list option" where
  "ip_to4 ip =
     (if length ip = 4 then Some ip
      else if take 12 ip = replicate 10 0 @ [255, 255] then Some (drop 12 ip)
      else None)"

definition ip_loopback :: "nat list \<Rightarrow> bool" where
  "ip_loopback ip \<longleftrightarrow>
     (case ip_to4 ip of Some q \<Rightarrow> q ! 0 = 127 | None \<Rightarrow> ip = replicate 15 0 @ [1])"

definition ip_private :: "nat list \<Rightarrow> bool" where
  "ip_private ip \<longleftrightarrow>
     (case ip_to4 ip of
        Some q \<Rightarrow> q ! 0 = 10 \<or> q ! 0 = 172 \<and> q ! 1 div 16 = 1 \<or> q ! 0 = 192 \<and> q ! 1 = 168
      | None \<Rightarrow> ip ! 0 div 2 = 126)"

definition ip_link_local :: "nat list \<Rightarrow> bool" where
  "ip_link_local ip \<longleftrightarrow>
     (case ip_to4 ip of
        Some q \<Rightarrow> q ! 0 = 169 \<and> q ! 1 = 254 \<or> q ! 0 = 224 \<and> q ! 1 = 0 \<and> q ! 2 = 0
      | None \<Rightarrow> ip ! 0 = 254 \<and> ip ! 1 div 64 = 2 \<or> ip ! 0 = 255 \<and> ip ! 1 mod 16 = 2)"

section \<open>Hosts and domains\<close>

definition is_metadata_host :: "string \<Rightarrow> bool" where
  "is_metadata_host host =
     (let h = trim_chars (\<lambda>c. c = CHR ''['' \<or> c = CHR '']'') (to_lower host) in
      h = ''169.254.169.254'' \<or> h = ''metadata.google.internal'' \<or> has_sub h ''metadata'' \<and> has_sub h ''internal'')"

definition is_private_host :: "string \<Rightarrow> bool" where
  "is_private_host host =
     (case parse_ip (trim_chars (\<lambda>c. c = CHR ''['' \<or> c = CHR '']'') host) of
        None \<Rightarrow> False
      | Some ip \<Rightarrow> ip_loopback ip \<or> ip_private ip \<or> ip_link_local ip)"

definition domain_matches :: "string \<Rightarrow> string \<Rightarrow> bool" where
  "domain_matches host pattern =
     (let h = to_lower (trim_space host); p = to_lower (trim_space pattern) in
      if h = [] \<or> p = [] then False
      else if p = ''*'' then True
      else if has_prefix p ''*.'' then has_suffix h (tl p)
      else h = p \<or> has_suffix h (''.'' @ p))"

definition domain_listed :: "string \<Rightarrow> string list \<Rightarrow> bool" where
  "domain_listed host patterns = list_ex (domain_matches host) patterns"

definition write_methods :: "string list" where
  "write_methods = [''POST'', ''PUT'', ''PATCH'', ''DELETE'']"

definition method_requires_approval :: "string \<Rightarrow> string list \<Rightarrow> bool" where
  "method_requires_approval m configured =
     list_ex (\<lambda>x. to_lower (trim_space x) = to_lower m) (if configured = [] then write_methods else configured)"

section \<open>Decisions\<close>

record network_decision =
  nd_allowed :: bool
  nd_approval :: bool
  nd_reason :: string
  nd_url :: string
  nd_method :: string
  nd_host :: string
  nd_risk :: string

record url_parts =
  ur_scheme :: string
  ur_host :: string
  ur_hostname :: string
  ur_text :: string

definition network_denied :: "string \<Rightarrow> string \<Rightarrow> string \<Rightarrow> network_decision" where
  "network_denied m host reason =
     \<lparr>nd_allowed = False, nd_approval = False, nd_reason = reason, nd_url = [], nd_method = m, nd_host = host,
      nd_risk = ''danger''\<rparr>"

definition validate_url :: "network_policy \<Rightarrow> url_parts option \<Rightarrow> string \<Rightarrow> int \<Rightarrow> network_decision" where
  "validate_url pol parsed meth max_bytes =
     (let m = to_upper (trim_space meth); m = (if m = [] then ''GET'' else m) in
      case parsed of
        None \<Rightarrow> network_denied m [] ''valid absolute URL is required''
      | Some u \<Rightarrow>
          if ur_scheme u = [] \<or> ur_host u = [] then network_denied m [] ''valid absolute URL is required''
          else if ur_scheme u \<noteq> ''http'' \<and> ur_scheme u \<noteq> ''https''
          then network_denied m (ur_hostname u) ''only http and https URLs are allowed''
          else
            let host = to_lower (ur_hostname u) in
            if np_deny_metadata pol \<and> is_metadata_host host then network_denied m host ''metadata endpoints are denied''
            else if np_deny_private pol \<and> is_private_host host
            then network_denied m host ''private and loopback IP ranges are denied''
            else if domain_listed host (np_denied pol) then network_denied m host ''domain is denied by network policy''
            else if np_allowed pol \<noteq> [] \<and> \<not> domain_listed host (np_allowed pol)
            then network_denied m host ''domain is not in the allowlist''
            else if 0 < np_max_bytes pol \<and> np_max_bytes pol < max_bytes
            then network_denied m host (''requested download limit exceeds '' @ show_int (np_max_bytes pol) @ '' bytes'')
            else if method_requires_approval m (np_methods pol)
            then \<lparr>nd_allowed = True, nd_approval = True, nd_reason = ''network write method requires approval'',
                  nd_url = ur_text u, nd_method = m, nd_host = host, nd_risk = ''write''\<rparr>
            else \<lparr>nd_allowed = True, nd_approval = False, nd_reason = ''network URL is allowed'',
                  nd_url = ur_text u, nd_method = m, nd_host = host, nd_risk = ''read''\<rparr>)"

section \<open>Dotted quads\<close>

definition dotted :: "nat \<Rightarrow> nat \<Rightarrow> nat \<Rightarrow> nat \<Rightarrow> string" where
  "dotted a b c d = join ''.'' (map show_nat [a, b, c, d])"

lemma show_nat_head: "1 < length (show_nat n) \<Longrightarrow> hd (show_nat n) \<noteq> CHR ''0''"
proof (induction n rule: show_nat.induct)
  case (1 n)
  have zero: "hd (show_nat m) \<noteq> CHR ''0''" if "0 < m" "m < 10" for m
  proof
    assume "hd (show_nat m) = CHR ''0''"
    then have "digit_char m = CHR ''0''" using that by (simp add: show_nat.simps [of m])
    moreover have "of_char (digit_char m) = 48 + m" using that(2) by (rule of_char_digit)
    ultimately show False using that(1) by simp
  qed
  show ?case
  proof (cases "n < 10")
    case True
    with "1.prems" show ?thesis by (simp add: show_nat.simps [of n])
  next
    case False
    have "hd (show_nat (n div 10)) \<noteq> CHR ''0''"
    proof (cases "n div 10 < 10")
      case True
      with False zero [of "n div 10"] show ?thesis by simp
    next
      case deep: False
      then have "1 < length (show_nat (n div 10))"
        using show_nat_digits [of "n div 10 div 10"] by (simp add: show_nat.simps [of "n div 10"])
      with "1.IH" [OF False] show ?thesis by simp
    qed
    with False show_nat_digits [of "n div 10"] show ?thesis by (simp add: show_nat.simps [of n])
  qed
qed

lemma ipv4_field_show: "n \<le> 255 \<Longrightarrow> ipv4_field (show_nat n) = Some n"
  using show_nat_digits [of n] show_nat_head [of n] by (auto simp: ipv4_field_def)

lemma digits_no_dot: "list_all is_digit s \<Longrightarrow> CHR ''.'' \<notin> set s"
  by (auto simp: list_all_iff is_digit_def less_eq_char_def)

lemma split_on_join_digits:
  "xs \<noteq> [] \<Longrightarrow> list_all (list_all is_digit) xs \<Longrightarrow> split_on (CHR ''.'') (join ''.'' xs) = xs"
proof (induction xs)
  case (Cons x xs)
  have none: "c \<notin> set y \<Longrightarrow> split_on c y = [y]" for c y by (induction y) auto
  have app: "c \<notin> set y \<Longrightarrow> split_on c (y @ c # z) = y # split_on c z" for c y z
    by (induction y) (auto split: list.splits)
  from Cons show ?case by (cases xs) (simp_all add: none app digits_no_dot)
qed simp

lemma parse_dotted:
  assumes "a \<le> 255" "b \<le> 255" "c \<le> 255" "d \<le> 255"
  shows "parse_ip (dotted a b c d) = Some [a, b, c, d]"
proof -
  have "split_on (CHR ''.'') (dotted a b c d) = map show_nat [a, b, c, d]"
    unfolding dotted_def by (rule split_on_join_digits) (simp_all add: show_nat_digits)
  then have "parse_ipv4 (dotted a b c d) = Some [a, b, c, d]"
    using assms by (simp add: parse_ipv4_def ipv4_field_show)
  moreover have "x \<noteq> CHR ''.'' \<and> x \<noteq> CHR '':'' \<and> x \<noteq> CHR ''%''" if "x \<in> set (show_nat a)" for x
    using show_nat_digits [of a] that by (auto simp: list_all_iff is_digit_def less_eq_char_def)
  then have "dropWhile (\<lambda>x. x \<noteq> CHR ''.'' \<and> x \<noteq> CHR '':'' \<and> x \<noteq> CHR ''%'') (show_nat a @ CHR ''.'' # s) = CHR ''.'' # s" for s
    by (subst dropWhile_append2) auto
  ultimately show ?thesis by (simp add: parse_ip_def dotted_def)
qed

lemma trim_digits:
  assumes "a \<le> 255" "d \<le> 255"
  shows "trim_chars (\<lambda>c. c = CHR ''['' \<or> c = CHR '']'') (to_lower (dotted a b c d)) = dotted a b c d"
proof -
  have digit: "x \<noteq> CHR ''['' \<and> x \<noteq> CHR '']'' \<and> lower_char x = x" if "is_digit x" for x
    using that by (auto simp: is_digit_def less_eq_char_def lower_char_def)
  have all: "x \<noteq> CHR ''['' \<and> x \<noteq> CHR '']'' \<and> lower_char x = x" if "x \<in> set (dotted a b c d)" for x
  proof -
    have "is_digit y" if "y \<in> set (show_nat n)" for y n
      using that show_nat_digits [of n] by (simp add: list_all_iff)
    then have "is_digit x \<or> x = CHR ''.''" using that by (auto simp: dotted_def)
    moreover have "lower_char (CHR ''.'') = CHR ''.''" by code_simp
    ultimately show ?thesis using digit by auto
  qed
  then have "to_lower (dotted a b c d) = dotted a b c d"
    by (simp add: to_lower_def map_idI)
  moreover have nd: "dropWhile f s = s" if "\<forall>x\<in>set s. \<not> f x" for f :: "char \<Rightarrow> bool" and s
    using that by (cases s) auto
  have "dropWhile (\<lambda>c. c = CHR ''['' \<or> c = CHR '']'') s = s" if "set s = set (dotted a b c d)" for s
    using all that by (intro nd) auto
  ultimately show ?thesis by (simp add: trim_chars_def)
qed

section \<open>Properties\<close>

text \<open>The addresses whose first two fields are loopback, private or link-local, and the local multicast block.\<close>

definition local_quad :: "nat \<Rightarrow> nat \<Rightarrow> nat \<Rightarrow> bool" where
  "local_quad a b c \<longleftrightarrow> a = 127 \<or> a = 10 \<or> a = 172 \<and> 16 \<le> b \<and> b < 32 \<or> a = 192 \<and> b = 168 \<or> a = 169 \<and> b = 254 \<or>
     a = 224 \<and> b = 0 \<and> c = 0"

lemma private_dotted:
  assumes "a \<le> 255" "b \<le> 255" "c \<le> 255" "d \<le> 255"
  shows "is_private_host (to_lower (dotted a b c d)) \<longleftrightarrow> local_quad a b c"
proof -
  have "b div 16 = Suc 0 \<longleftrightarrow> 16 \<le> b \<and> b < 32" by (auto simp: div_nat_eqI)
  then have *: "ip_private [a, b, c, d] \<or> ip_loopback [a, b, c, d] \<or> ip_link_local [a, b, c, d] \<longleftrightarrow> local_quad a b c"
    by (simp add: ip_loopback_def ip_private_def ip_link_local_def ip_to4_def local_quad_def) argo
  show ?thesis using * by (auto simp: is_private_host_def trim_digits [OF assms(1,4)] parse_dotted [OF assms])
qed

text \<open>With private addresses denied, a URL whose host is a dotted quad is refused when the quad is a loopback,
  private, link-local or local multicast address, whatever the lists, the method and the download limit.\<close>

theorem local_addresses_are_denied:
  assumes "np_deny_private pol" "ur_hostname u = dotted a b c d" "local_quad a b c"
    and "a \<le> 255" "b \<le> 255" "c \<le> 255" "d \<le> 255"
  shows "\<not> nd_allowed (validate_url pol (Some u) meth max_bytes)"
  using assms private_dotted [OF assms(4-7)] by (simp add: validate_url_def network_denied_def Let_def)

theorem local_addresses_are_denied_witness:
  "\<not> nd_allowed (validate_url (default_network\<lparr>np_allowed := [''127.0.0.1'']\<rparr>)
     (Some \<lparr>ur_scheme = ''http'', ur_host = ''127.0.0.1:80'', ur_hostname = ''127.0.0.1'', ur_text = ''http://127.0.0.1:80''\<rparr>) ''GET'' 1)"
proof -
  have "''127.0.0.1'' = dotted 127 0 0 1" by code_simp
  then show ?thesis
    by (intro local_addresses_are_denied [where a = 127 and b = 0 and c = 0 and d = 1])
      (simp_all add: default_network_def local_quad_def)
qed

text \<open>What is allowed: an http or https URL with a host that is no metadata endpoint and no local address where
  these are denied, is on no deny list, is on the allow list if there is one, and within the download limit; it
  needs approval exactly when its method, upper case and \<open>GET\<close> by default, is a configured write method.\<close>

theorem validate_url_iff:
  "nd_allowed (validate_url pol parsed meth max_bytes) \<and> nd_approval (validate_url pol parsed meth max_bytes) = approval \<longleftrightarrow>
     (\<exists>u. parsed = Some u \<and> (ur_scheme u = ''http'' \<or> ur_scheme u = ''https'') \<and> ur_host u \<noteq> [] \<and>
        \<not> (np_deny_metadata pol \<and> is_metadata_host (to_lower (ur_hostname u))) \<and>
        \<not> (np_deny_private pol \<and> is_private_host (to_lower (ur_hostname u))) \<and>
        \<not> domain_listed (to_lower (ur_hostname u)) (np_denied pol) \<and>
        (np_allowed pol = [] \<or> domain_listed (to_lower (ur_hostname u)) (np_allowed pol)) \<and>
        (np_max_bytes pol \<le> 0 \<or> max_bytes \<le> np_max_bytes pol) \<and>
        approval = method_requires_approval
          (if to_upper (trim_space meth) = [] then ''GET'' else to_upper (trim_space meth)) (np_methods pol))"
  by (cases parsed) (auto simp: validate_url_def network_denied_def Let_def)

text \<open>The unspecified address reaches the local host too, and is let through.\<close>

lemma unspecified_address_is_allowed:
  "nd_allowed (validate_url default_network
     (Some \<lparr>ur_scheme = ''http'', ur_host = ''0.0.0.0'', ur_hostname = ''0.0.0.0'', ur_text = ''http://0.0.0.0''\<rparr>) ''GET'' 0)"
proof -
  have h: "''0.0.0.0'' = dotted 0 0 0 0" by code_simp
  have "\<not> is_private_host (to_lower ''0.0.0.0'')"
    unfolding h by (subst private_dotted) (simp_all add: local_quad_def)
  moreover have "\<not> is_metadata_host (to_lower ''0.0.0.0'')" "\<not> domain_listed (to_lower ''0.0.0.0'') [''*.internal'']"
    by code_simp+
  ultimately show ?thesis
    by (simp add: validate_url_def network_denied_def default_network_def Let_def)
qed

end
