(* ===== verification/Git_Tools.thy ===== *)
theory Git_Tools
  imports Tool_World Workspace_Paths Go_Outcome
begin

text \<open>
  The git tools (\<open>internal/tools/gittools/executor.go\<close>): the command each operation builds from its input, the
  checks before a commit, and what is reported. Git itself is a function of the number of commands run
  before, of the directory and of the arguments; the commands run are logged. Timeouts belong to git's run.
\<close>

section \<open>Running git\<close>

record command_run =
  gr_stdout :: string
  gr_stderr :: string
  gr_error :: "(string \<times> int) option"
  gr_deadline :: bool

type_synonym git = "nat \<Rightarrow> path \<Rightarrow> string list \<Rightarrow> command_run"

type_synonym 'a git_io = "((path \<times> string list) list, 'a) state"

record git_tool =
  gt_root :: string
  gt_operation :: string
  gt_max_bytes :: int

definition call_git :: "git \<Rightarrow> path \<Rightarrow> string list \<Rightarrow> command_run git_io" where
  "call_git git ws args = State (\<lambda>log. (git (length log) ws args, log @ [(ws, args)]))"

definition max_output_bytes :: "git_tool \<Rightarrow> int" where
  "max_output_bytes t = (if 0 < gt_max_bytes t then gt_max_bytes t else 20000)"

definition truncate_bytes :: "string \<Rightarrow> int \<Rightarrow> string \<times> bool" where
  "truncate_bytes v limit =
     (if limit \<le> 0 \<or> int (length v) \<le> limit then (v, False) else (take (nat limit) v, True))"

record git_capture =
  gc_stdout :: string
  gc_stderr :: string
  gc_exit :: int
  gc_truncated :: bool

definition capture_run :: "git_tool \<Rightarrow> command_run \<Rightarrow> git_capture" where
  "capture_run t r =
     (let (out, cut1) = truncate_bytes (redact_string (gr_stdout r)) (max_output_bytes t);
          (err, cut2) = truncate_bytes (redact_string (gr_stderr r)) (max_output_bytes t)
      in \<lparr>gc_stdout = out, gc_stderr = err,
          gc_exit = (if gr_deadline r then - 1 else case gr_error r of None \<Rightarrow> 0 | Some (_, code) \<Rightarrow> code),
          gc_truncated = (cut1 \<or> cut2)\<rparr>)"

definition first_non_blank :: "string \<Rightarrow> string \<Rightarrow> string" where
  "first_non_blank a b = (if trim_space a \<noteq> [] then a else if trim_space b \<noteq> [] then b else [])"

definition run_git :: "git_tool \<Rightarrow> git \<Rightarrow> path \<Rightarrow> string list \<Rightarrow> git_capture res git_io" where
  "run_git t git ws args = do {
     r \<leftarrow> call_git git ws args;
     let c = capture_run t r;
     State_Monad.return (case gr_error r of
         None \<Rightarrow> Inr c
       | Some (e, _) \<Rightarrow> Inl (Err (''git '' @ join '' '' args @ '' failed: '' @ first_non_blank (gc_stderr c) e)))
   }"

definition and_then :: "'a res git_io \<Rightarrow> ('a \<Rightarrow> 'b res git_io) \<Rightarrow> 'b res git_io" where
  "and_then m f = State_Monad.bind m (\<lambda>r. case r of Inl e \<Rightarrow> State_Monad.return (Inl e) | Inr a \<Rightarrow> f a)"

definition escapes :: "string \<Rightarrow> bool" where
  "escapes rel \<longleftrightarrow> rel = ''..'' \<or> has_prefix rel ''../'' \<or> is_abs rel"

definition git_workspace :: "path \<Rightarrow> git_tool \<Rightarrow> gmap \<Rightarrow> path res" where
  "git_workspace cwd t input =
     (let p = str_at input ''workspace''; p = (if trim_space p = [] then ''.'' else p);
          root = abs_path cwd (default_root (gt_root t));
          ws = (if is_abs p then clean_from [] p else clean_from root p)
      in if escapes (rel_text root ws) then Inl (Err ''workspace escapes configured root'') else Inr ws)"

fun git_paths :: "path \<Rightarrow> string list \<Rightarrow> string list res" where
  "git_paths ws [] = Inr []"
| "git_paths ws (p # ps) =
     (if trim_space p = [] then git_paths ws ps
      else
        let rel = rel_text ws (if is_abs p then clean_from [] p else clean_from ws p) in
        if escapes rel then Inl (Err (''path escapes workspace: '' @ p))
        else case git_paths ws ps of Inl e \<Rightarrow> Inl e | Inr rels \<Rightarrow> Inr (rel # rels))"

definition git_args :: "string \<Rightarrow> gmap \<Rightarrow> string list \<Rightarrow> string list res" where
  "git_args operation input paths =
     (if operation = ''status'' then Inr (append_pathspec [''status'', ''--short'', ''--branch''] paths)
      else if operation = ''diff'' then Inr (append_pathspec [''diff''] paths)
      else if operation = ''log'' then
        (let limit = get_int input ''limit'' 20; limit = (if limit \<le> 0 \<or> 100 < limit then 20 else limit)
         in Inr [''log'', ''--oneline'', ''-n'', show_int limit])
      else if operation = ''branch'' then Inr [''branch'', ''--show-current'']
      else if operation = ''diff_summary'' then Inr (append_pathspec [''diff'', ''--stat''] paths)
      else if operation = ''commit_message_proposal'' then Inr [''status'', ''--short'']
      else if operation = ''add'' then
        (if paths = [] then Inl (Err ''git.add requires at least one path'') else Inr (append_pathspec [''add''] paths))
      else if operation = ''commit'' then
        (if trim_space (str_at input ''message'') = [] then Inl (Err ''git.commit requires message'')
         else Inr [''commit'', ''-m'', str_at input ''message''])
      else if operation = ''restore'' then
        (if paths = [] then Inl (Err ''git.restore requires at least one path'')
         else Inr (append_pathspec [''restore''] paths))
      else if operation = ''clean'' then Inr (append_pathspec [''clean'', ''-fd''] paths)
      else Inl (Err (''unsupported git operation: '' @ operation)))"

section \<open>Reading git's output\<close>

text \<open>\<open>strconv.Atoi\<close> of a field; None where it fails.\<close>

definition atoi_field :: "string \<Rightarrow> int option" where
  "atoi_field s =
     (let (neg, d) = (case s of c # r \<Rightarrow> (if c = CHR ''-'' then (True, r) else if c = CHR ''+'' then (False, r) else (False, s)) | [] \<Rightarrow> (False, s))
      in if d = [] \<or> \<not> list_all is_digit d then None
         else
           let n = int (nat_of_digits d); n = (if neg then - n else n) in
           if n < - max_int - 1 \<or> max_int < n then None else Some n)"

definition count_field :: "string \<Rightarrow> int" where
  "count_field s = (if s = ''-'' then 0 else case atoi_field s of None \<Rightarrow> 0 | Some n \<Rightarrow> n)"

definition numstat_rows :: "string \<Rightarrow> string list list" where
  "numstat_rows output = filter (\<lambda>f. 3 \<le> length f) (map str_fields (split_on (CHR 0x0A) output))"

definition parse_numstat :: "string \<Rightarrow> string list \<times> int \<times> int" where
  "parse_numstat output =
     (let rows = numstat_rows output
      in (map (\<lambda>f. join '' '' (drop 2 f)) rows,
          foldl (\<lambda>n f. wrap64 (n + count_field (f ! 0))) 0 rows,
          foldl (\<lambda>n f. wrap64 (n + count_field (f ! 1))) 0 rows))"

definition parse_name_status :: "string \<Rightarrow> gmap list" where
  "parse_name_status output =
     map (\<lambda>f. [(''status'', GStr (f ! 0)), (''path'', GStr (join '' '' (drop 1 f)))])
       (filter (\<lambda>f. 2 \<le> length f) (map str_fields (split_on (CHR 0x0A) output)))"

definition propose_commit_message :: "string list \<Rightarrow> int \<Rightarrow> int \<Rightarrow> string" where
  "propose_commit_message files adds dels =
     (if files = [] then ''chore: no staged changes''
      else
        let verb = (if 0 < adds \<and> dels = 0 then ''add'' else ''update'');
            verb = (if adds < dels \<and> adds = 0 then ''remove'' else verb);
            scope = (if length files = 1 then file_base (files ! 0) else ''workspace'')
        in ''chore: '' @ verb @ '' '' @ scope)"

definition nonempty_lines :: "string \<Rightarrow> string list" where
  "nonempty_lines v = filter (\<lambda>l. l \<noteq> []) (map trim_space (split_on (CHR 0x0A) v))"

definition outside_files :: "string list \<Rightarrow> string list \<Rightarrow> string list" where
  "outside_files all scoped = filter (\<lambda>f. f \<notin> set scoped) all"

definition shell_quote_display :: "string \<Rightarrow> string" where
  "shell_quote_display v =
     [CHR 0x27] @ concat (map (\<lambda>c. if c = CHR 0x27 then [CHR 0x27, CHR 0x22, CHR 0x27, CHR 0x22, CHR 0x27] else [c]) v) @ [CHR 0x27]"

section \<open>The tools\<close>

text \<open>Reports leave out the durations.\<close>

definition diff_summary :: "git_tool \<Rightarrow> git \<Rightarrow> path \<Rightarrow> string list \<Rightarrow> bool \<Rightarrow> gmap res git_io" where
  "diff_summary t git ws paths staged =
     (let base = [''diff''] @ (if staged then [''--cached''] else []) in
      and_then (run_git t git ws (append_pathspec (base @ [''--stat'']) paths)) (\<lambda>stat.
      and_then (run_git t git ws (append_pathspec (base @ [''--numstat'']) paths)) (\<lambda>numstat.
      and_then (run_git t git ws (append_pathspec (base @ [''--name-status'']) paths)) (\<lambda>names.
        let (files, adds, dels) = parse_numstat (gc_stdout numstat) in
        State_Monad.return (Inr
          [(''workspace'', GStr (path_text ws)), (''operation'', GStr (gt_operation t)), (''staged'', GBool staged),
           (''paths'', GStrs paths), (''file_count'', GInt (int (length files))), (''changed_files'', GStrs files),
           (''additions'', GInt adds), (''deletions'', GInt dels), (''stat'', GStr (gc_stdout stat)),
           (''name_status'', GMaps (parse_name_status (gc_stdout names))),
           (''summary'', GStr (show_nat (length files) @ '' file(s) changed, +'' @ show_int adds @ ''/-'' @ show_int dels)),
           (''truncated'', GBool (gc_truncated stat \<or> gc_truncated numstat \<or> gc_truncated names)),
           (''read_only'', GBool True), (''commit_scoped'', GBool staged)])))))"

definition commit_message_proposal :: "git_tool \<Rightarrow> git \<Rightarrow> path \<Rightarrow> string list \<Rightarrow> gmap res git_io" where
  "commit_message_proposal t git ws paths =
     and_then (run_git t git ws [''status'', ''--short'']) (\<lambda>status.
     and_then (run_git t git ws (append_pathspec [''diff'', ''--cached'', ''--numstat''] paths)) (\<lambda>staged.
       let (files, adds, dels) = parse_numstat (gc_stdout staged); msg = propose_commit_message files adds dels in
       State_Monad.return (Inr
         [(''workspace'', GStr (path_text ws)), (''operation'', GStr (gt_operation t)), (''paths'', GStrs paths),
          (''status'', GStr (gc_stdout status)), (''staged_file_count'', GInt (int (length files))),
          (''staged_files'', GStrs files), (''additions'', GInt adds), (''deletions'', GInt dels), (''message'', GStr msg),
          (''summary'', GStr ''commit message proposal only; no commit was created''),
          (''pre_commit_checks'', GMap [(''git_status_checked'', GBool True), (''staged_diff_checked'', GBool True),
             (''commit_message_nonempty'', GBool (trim_space msg \<noteq> []))]),
          (''warnings'', strs_nil (if files = [] then [''no staged diff detected; stage files with git.add before git.commit''] else [])),
          (''read_only'', GBool True), (''truncated'', GBool (gc_truncated status \<or> gc_truncated staged))])))"

text \<open>The report of a command run outside \<open>runGit\<close>: a failure is reported, not returned.\<close>

definition run_fields :: "git_tool \<Rightarrow> command_run \<Rightarrow> gmap" where
  "run_fields t r =
     (let c = capture_run t r
      in [(''stdout'', GStr (gc_stdout c)), (''stderr'', GStr (gc_stderr c)), (''exit_code'', GInt (gc_exit c))])"

definition error_field :: "command_run \<Rightarrow> gmap" where
  "error_field r = (case gr_error r of None \<Rightarrow> [] | Some (e, _) \<Rightarrow> [(''error'', GStr (redact_string e))])"

definition commit_checks :: "bool \<Rightarrow> bool \<Rightarrow> gval" where
  "commit_checks has_changes scoped =
     GMap [(''git_status_checked'', GBool True), (''staged_diff_checked'', GBool True), (''commit_message_nonempty'', GBool True),
       (''has_staged_changes'', GBool has_changes), (''staged_changes_pathscoped'', GBool scoped)]"

definition commit_header :: "git_tool \<Rightarrow> path \<Rightarrow> string list \<Rightarrow> string \<Rightarrow> git_capture \<Rightarrow> gmap" where
  "commit_header t ws paths msg status =
     [(''workspace'', GStr (path_text ws)), (''operation'', GStr (gt_operation t)),
      (''command'', GStr (''git commit -m '' @ shell_quote_display msg)), (''paths'', GStrs paths),
      (''message'', GStr (redact_string msg)), (''status'', GStr (gc_stdout status))]"

definition do_commit :: "git_tool \<Rightarrow> git \<Rightarrow> path \<Rightarrow> string list \<Rightarrow> string \<Rightarrow> git_capture \<Rightarrow> git_capture \<Rightarrow> gmap res git_io" where
  "do_commit t git ws paths msg status staged = do {
     let args = [''commit'', ''-m'', msg];
     r \<leftarrow> call_git git ws args;
     State_Monad.return (Inr
       ([(''workspace'', GStr (path_text ws)), (''operation'', GStr (gt_operation t)),
         (''command'', GStr (''git '' @ join '' '' args)), (''args'', GStrs args), (''paths'', GStrs paths),
         (''message'', GStr (redact_string msg)), (''status'', GStr (gc_stdout status)),
         (''staged_files'', GStrs (nonempty_lines (gc_stdout staged)))] @
        run_fields t r @
        [(''truncated'', GBool (gc_truncated status \<or> gc_truncated staged \<or> gc_truncated (capture_run t r))),
         (''pre_commit_checks'', commit_checks True True)] @
        error_field r))
   }"

definition execute_commit :: "git_tool \<Rightarrow> git \<Rightarrow> path \<Rightarrow> string list \<Rightarrow> gmap \<Rightarrow> gmap res git_io" where
  "execute_commit t git ws paths input =
     (let msg = trim_space (str_at input ''message'') in
      if msg = [] then State_Monad.return (Inl (Err ''git.commit requires message''))
      else
        and_then (run_git t git ws [''status'', ''--short'']) (\<lambda>status.
        and_then (run_git t git ws (append_pathspec [''diff'', ''--cached'', ''--name-only''] paths)) (\<lambda>staged.
        and_then
          (if paths = [] then State_Monad.return (Inr None)
           else and_then (run_git t git ws [''diff'', ''--cached'', ''--name-only'']) (\<lambda>all. State_Monad.return (Inr (Some all))))
          (\<lambda>all.
             let files = nonempty_lines (gc_stdout staged);
                 outside = (case all of None \<Rightarrow> [] | Some a \<Rightarrow> outside_files (nonempty_lines (gc_stdout a)) files)
             in
             if outside \<noteq> [] then
               State_Monad.return (Inr (commit_header t ws paths msg status @
                 [(''staged_files'', GStrs files), (''outside_scoped_files'', GStrs outside),
                  (''pre_commit_checks'', commit_checks (files \<noteq> []) False), (''exit_code'', GInt 1),
                  (''error'', GStr ''git.commit paths do not cover all staged changes''),
                  (''truncated'', GBool (gc_truncated status \<or> gc_truncated staged \<or>
                     (case all of None \<Rightarrow> False | Some a \<Rightarrow> gc_truncated a)))]))
             else if files = [] then
               State_Monad.return (Inr (commit_header t ws paths msg status @
                 [(''pre_commit_checks'', commit_checks False (paths = [])), (''exit_code'', GInt 1),
                  (''error'', GStr ''git.commit requires staged changes''),
                  (''truncated'', GBool (gc_truncated status \<or> gc_truncated staged))]))
             else do_commit t git ws paths msg status staged))))"

definition execute_git :: "path \<Rightarrow> git_tool \<Rightarrow> git \<Rightarrow> gmap \<Rightarrow> gmap res git_io" where
  "execute_git cwd t git input =
     (case git_workspace cwd t input of
        Inl e \<Rightarrow> State_Monad.return (Inl e)
      | Inr ws \<Rightarrow>
          (case git_paths ws (approval_string_slice (map_of input ''paths'')) of
             Inl e \<Rightarrow> State_Monad.return (Inl e)
           | Inr paths \<Rightarrow>
               if gt_operation t = ''diff_summary'' then diff_summary t git ws paths (bool_at input ''staged'')
               else if gt_operation t = ''commit_message_proposal'' then commit_message_proposal t git ws paths
               else if gt_operation t = ''commit'' then execute_commit t git ws paths input
               else
                 (case git_args (gt_operation t) input paths of
                    Inl e \<Rightarrow> State_Monad.return (Inl e)
                  | Inr args \<Rightarrow> do {
                      r \<leftarrow> call_git git ws args;
                      State_Monad.return (Inr
                        ([(''workspace'', GStr (path_text ws)), (''operation'', GStr (gt_operation t)),
                          (''command'', GStr (''git '' @ join '' '' args)), (''args'', GStrs args), (''paths'', GStrs paths)] @
                         run_fields t r @ [(''truncated'', GBool (gc_truncated (capture_run t r)))] @
                         (if str_at input ''message'' = [] then [] else [(''message'', GStr (redact_string (str_at input ''message'')))]) @
                         error_field r))
                    })))"

end
