(* ===== verification/Git_Safety.thy ===== *)
theory Git_Safety
  imports Git_Tools
begin

text \<open>
  What the git tools run: only fixed commands with the paths after the separator, the command the user was
  shown, and a commit only of what the listing of staged files shows to be in scope.
\<close>

section \<open>The shape of every command\<close>

definition fixed_commands :: "string list list" where
  "fixed_commands =
     [[''status'', ''--short'', ''--branch''], [''status'', ''--short''], [''diff''], [''diff'', ''--stat''],
      [''diff'', ''--numstat''], [''diff'', ''--name-status''], [''diff'', ''--cached'', ''--stat''],
      [''diff'', ''--cached'', ''--numstat''], [''diff'', ''--cached'', ''--name-status''],
      [''diff'', ''--cached'', ''--name-only''], [''branch'', ''--show-current''], [''add''], [''restore''], [''clean'', ''-fd'']]"

definition safe_args :: "gmap \<Rightarrow> string list \<Rightarrow> bool" where
  "safe_args input args \<longleftrightarrow>
     (\<exists>pre \<in> set fixed_commands. args = pre \<or> (\<exists>ps. args = pre @ ''--'' # ps \<and> list_all (\<lambda>p. \<not> escapes p) ps)) \<or>
     (\<exists>k. args = [''log'', ''--oneline'', ''-n'', show_int k] \<and> 1 \<le> k \<and> k \<le> 100) \<or>
     args = [''commit'', ''-m'', trim_space (str_at input ''message'')] \<and> trim_space (str_at input ''message'') \<noteq> []"

definition safe_log :: "path \<Rightarrow> gmap \<Rightarrow> nat \<Rightarrow> (path \<times> string list) list \<Rightarrow> bool" where
  "safe_log ws input n cmds \<longleftrightarrow> n \<le> length cmds \<and> (\<forall>(d, args) \<in> set (drop n cmds). d = ws \<and> safe_args input args)"

lemma safe_fixed: "pre \<in> set fixed_commands \<Longrightarrow> safe_args input pre"
  unfolding safe_args_def by blast

lemma all_fixed_safe: "list_all (safe_args input) fixed_commands"
  by (simp add: list_all_iff safe_fixed)

lemmas fixed_safe = all_fixed_safe [unfolded fixed_commands_def list.pred_inject]

lemma safe_pathspec:
  "pre \<in> set fixed_commands \<Longrightarrow> list_all (\<lambda>p. \<not> escapes p) ps \<Longrightarrow> safe_args input (append_pathspec pre ps)"
  by (auto simp: safe_args_def append_pathspec_def)

lemma git_paths_inside: "git_paths ws ps = Inr rels \<Longrightarrow> list_all (\<lambda>p. \<not> escapes p) rels"
  by (induction ps arbitrary: rels) (auto simp: Let_def split: if_splits sum.splits)

lemma keeping_call_git: "safe_args input args \<Longrightarrow> keeping (safe_log ws input n) (call_git git ws args)"
  by (auto simp: keeping_def safe_log_def call_git_def)

lemma keeping_run_git: "safe_args input args \<Longrightarrow> keeping (safe_log ws input n) (run_git t git ws args)"
  unfolding run_git_def by (intro keeping_intros keeping_call_git)

lemma keeping_and_then:
  "keeping I m \<Longrightarrow> (\<And>a. keeping I (f a)) \<Longrightarrow> keeping I (and_then m f)"
  unfolding and_then_def by (intro keeping_intros)

lemma keeping_execute_commit:
  assumes "list_all (\<lambda>p. \<not> escapes p) paths"
  shows "keeping (safe_log ws input n) (execute_commit t git ws paths input)"
proof -
  have commit: "safe_args input [''commit'', ''-m'', trim_space (str_at input ''message'')]"
    if "trim_space (str_at input ''message'') \<noteq> []"
    using that by (simp add: safe_args_def)
  then show ?thesis
    using assms unfolding execute_commit_def do_commit_def Let_def
    by (auto intro!: keeping_intros keeping_and_then keeping_run_git keeping_call_git safe_pathspec
        simp: fixed_commands_def fixed_safe)
qed

lemma safe_git_args:
  assumes "git_args op input paths = Inr args" "list_all (\<lambda>p. \<not> escapes p) paths" "op \<noteq> ''commit''"
  shows "safe_args input args"
proof (cases "op = ''log''")
  case True
  with assms(1) show ?thesis by (auto simp: git_args_def safe_args_def Let_def)
next
  case False
  with assms show ?thesis
    by (auto simp: git_args_def Let_def fixed_safe fixed_commands_def split: if_splits intro!: safe_pathspec)
qed

text \<open>C21: whatever its input, a git tool runs git only in the workspace it resolved and only with arguments of three
  forms: a fixed command, alone or followed by the separator and paths that stay inside the workspace; a log of
  at most a hundred entries; a commit with a message that is not blank. No input becomes an option.\<close>

theorem git_commands_are_fixed:
  assumes "git_workspace cwd t input = Inr ws" "(d, args) \<in> set (drop (length cmds) (snd (run_state (execute_git cwd t git input) cmds)))"
  shows "d = ws \<and> safe_args input args"
proof -
  have "keeping (safe_log ws input (length cmds)) (execute_git cwd t git input)"
  proof (cases "git_paths ws (approval_string_slice (map_of input ''paths''))")
    case (Inl e)
    then show ?thesis by (auto simp: execute_git_def assms(1))
  next
    case (Inr paths)
    note inside = git_paths_inside [OF Inr]
    show ?thesis
      unfolding execute_git_def assms(1) Inr sum.case diff_summary_def commit_message_proposal_def Let_def
      using safe_git_args [OF _ inside] inside keeping_execute_commit [OF inside]
      by (auto intro!: keeping_intros keeping_and_then keeping_run_git keeping_call_git safe_pathspec
          simp: fixed_commands_def fixed_safe)
  qed
  moreover have "safe_log ws input (length cmds) cmds" by (simp add: safe_log_def)
  ultimately show ?thesis using assms(2) by (auto simp: keeping_def safe_log_def)
qed

lemma run_execute_git:
  assumes "git_workspace cwd t input = Inr ws" "git_paths ws (approval_string_slice (map_of input ''paths'')) = Inr paths"
    "gt_operation t \<notin> {''diff_summary'', ''commit_message_proposal'', ''commit''}" "git_args (gt_operation t) input paths = Inr args"
  shows "snd (run_state (execute_git cwd t git input) cmds) = cmds @ [(ws, args)]"
  using assms by (simp add: execute_git_def call_git_def)

definition quiet_git :: git where
  "quiet_git n ws args = \<lparr>gr_stdout = [], gr_stderr = [], gr_error = None, gr_deadline = False\<rparr>"

theorem git_commands_are_fixed_witness:
  "safe_args [(''paths'', GList [GStr ''-x''])] [''clean'', ''-fd'', ''--'', ''-x'']"
proof -
  let ?t = "\<lparr>gt_root = ''/w'', gt_operation = ''clean'', gt_max_bytes = 0\<rparr>"
  let ?i = "[(''paths'', GList [GStr ''-x''])]"
  have ws: "git_workspace [] ?t ?i = Inr [''w'']" by code_simp
  have ps: "git_paths [''w''] (approval_string_slice (map_of ?i ''paths'')) = Inr [''-x'']" by code_simp
  have args: "git_args (gt_operation ?t) ?i [''-x''] = Inr [''clean'', ''-fd'', ''--'', ''-x'']" by code_simp
  have "snd (run_state (execute_git [] ?t quiet_git ?i) []) = [] @ [([''w''], [''clean'', ''-fd'', ''--'', ''-x''])]"
    by (rule run_execute_git [OF ws ps _ args]) simp
  then show ?thesis
    using git_commands_are_fixed [OF ws, of "[''w'']" "[''clean'', ''-fd'', ''--'', ''-x'']" "[]" quiet_git] by simp
qed

section \<open>What was approved and what is run\<close>

lemma git_args_approved:
  assumes "op \<in> {''status'', ''diff'', ''branch'', ''add'', ''restore'', ''clean''}"
    "op \<in> {''add'', ''restore''} \<Longrightarrow> approval_string_slice (map_of input ''paths'') \<noteq> []"
  shows "git_args op input (approval_string_slice (map_of input ''paths'')) = Inr (git_approval_args op input)"
proof -
  define ps where "ps = approval_string_slice (map_of input ''paths'')"
  have ne: "ps \<noteq> []" if "op = ''add'' \<or> op = ''restore''"
    using that assms(2) by (auto simp: ps_def)
  show ?thesis
    using assms(1)
    unfolding git_args_def git_approval_args_def ps_def [symmetric] Let_def
    by (elim insertE emptyE) (use ne in simp_all)
qed



text \<open>A blank path is shown to the user and dropped by the tool. If all paths are blank, what remains of an
  approved \<open>git clean\<close> of these paths is a clean of the whole workspace.\<close>

lemma git_paths_blank: "list_all (\<lambda>p. trim_space p = []) ps \<Longrightarrow> git_paths ws ps = Inr []"
  by (induction ps) auto

theorem blank_path_cleans_everything:
  assumes "gt_operation t = ''clean''" "git_workspace cwd t input = Inr ws"
    "map_of input ''paths'' = Some (GStrs ps)" "ps \<noteq> []" "list_all (\<lambda>p. trim_space p = []) ps"
  shows "snd (run_state (execute_git cwd t git input) cmds) = cmds @ [(ws, [''clean'', ''-fd''])]"
    "git_approval_args ''clean'' input = [''clean'', ''-fd'', ''--''] @ ps"
  using assms
  by (simp_all add: execute_git_def call_git_def git_paths_blank approval_string_slice_def git_args_def git_approval_args_def
      append_pathspec_def Let_def)

section \<open>Commits\<close>

definition staged_args :: "string list \<Rightarrow> string list" where
  "staged_args paths = append_pathspec [''diff'', ''--cached'', ''--name-only''] paths"

definition listed :: "git_tool \<Rightarrow> git \<Rightarrow> nat \<Rightarrow> path \<Rightarrow> string list \<Rightarrow> string list" where
  "listed t git k ws args = nonempty_lines (gc_stdout (capture_run t (git k ws args)))"

definition commits_of :: "(path \<times> string list) list \<Rightarrow> nat \<Rightarrow> (path \<times> string list) list" where
  "commits_of cmds n = filter (\<lambda>(d, args). hd args = ''commit'') (drop n cmds)"

lemma commit_runs:
  "commits_of (snd (run_state (execute_commit t git ws paths input) cmds)) (length cmds) =
     (let k = length cmds; msg = trim_space (str_at input ''message''); scoped = listed t git (k + 1) ws (staged_args paths) in
      if msg \<noteq> [] \<and> gr_error (git k ws [''status'', ''--short'']) = None \<and>
         gr_error (git (k + 1) ws (staged_args paths)) = None \<and> scoped \<noteq> [] \<and>
         (if paths = [] then True
          else gr_error (git (k + 2) ws (staged_args [])) = None \<and> set (listed t git (k + 2) ws (staged_args [])) \<subseteq> set scoped)
      then [(ws, [''commit'', ''-m'', msg])] else [])"
proof -
  let ?k = "length cmds" and ?msg = "trim_space (str_at input ''message'')"
  note run = execute_commit_def do_commit_def and_then_def run_git_def call_git_def commits_of_def
  show ?thesis
  proof (cases "?msg = []")
    case True
    then show ?thesis by (simp add: run Let_def)
  next
    case msg: False
    show ?thesis
    proof (cases "gr_error (git ?k ws [''status'', ''--short''])")
      case (Some e)
      with msg show ?thesis by (simp add: run Let_def split: prod.split)
    next
      case status: None
      show ?thesis
      proof (cases "gr_error (git (?k + 1) ws (staged_args paths))")
        case (Some e)
        with msg status show ?thesis by (simp add: run Let_def staged_args_def append_pathspec_def split: prod.split)
      next
        case scoped: None
        show ?thesis
        proof (cases "paths = []")
          case True
          with msg status scoped show ?thesis
            by (simp add: run Let_def staged_args_def listed_def append_pathspec_def)
        next
          case paths: False
          then show ?thesis
            using msg status scoped
            by (cases "gr_error (git (?k + 2) ws (staged_args []))")
              (auto simp: run Let_def staged_args_def listed_def append_pathspec_def outside_files_def filter_empty_conv)
        qed
      qed
    qed
  qed
qed

text \<open>C23: a commit is made, exactly once and with the trimmed message, if and only if the message is not blank, the
  listing commands succeed, something in scope is listed as staged, and, when paths were given, every
  staged file that the unscoped listing shows is in scope.\<close>

theorem commit_runs_iff:
  "commits_of (snd (run_state (execute_commit t git ws paths input) cmds)) (length cmds) =
     (let k = length cmds; msg = trim_space (str_at input ''message''); scoped = listed t git (k + 1) ws (staged_args paths) in
      if msg \<noteq> [] \<and> gr_error (git k ws [''status'', ''--short'']) = None \<and>
         gr_error (git (k + 1) ws (staged_args paths)) = None \<and> scoped \<noteq> [] \<and>
         (if paths = [] then True
          else gr_error (git (k + 2) ws (staged_args [])) = None \<and> set (listed t git (k + 2) ws (staged_args [])) \<subseteq> set scoped)
      then [(ws, [''commit'', ''-m'', msg])] else [])"
  by (rule commit_runs)

text \<open>The listings are cut at the output limit before they are compared. When both are longer than the limit and
  agree up to it, the commit is made, whatever else is staged outside the given paths.\<close>

theorem cut_listings_commit_out_of_scope:
  assumes "trim_space (str_at input ''message'') \<noteq> []" "paths \<noteq> []"
    "gr_error (git 0 ws [''status'', ''--short'']) = None"
    "gr_error (git 1 ws (staged_args paths)) = None" "gr_error (git 2 ws (staged_args [])) = None"
    "0 < gt_max_bytes t"
    "int (length (redact_string (gr_stdout (git 1 ws (staged_args paths))))) > gt_max_bytes t"
    "int (length (redact_string (gr_stdout (git 2 ws (staged_args []))))) > gt_max_bytes t"
    "take (nat (gt_max_bytes t)) (redact_string (gr_stdout (git 2 ws (staged_args [])))) =
     take (nat (gt_max_bytes t)) (redact_string (gr_stdout (git 1 ws (staged_args paths))))"
    "nonempty_lines (take (nat (gt_max_bytes t)) (redact_string (gr_stdout (git 1 ws (staged_args paths))))) \<noteq> []"
  shows "commits_of (snd (run_state (execute_commit t git ws paths input) [])) 0 =
     [(ws, [''commit'', ''-m'', trim_space (str_at input ''message'')])]"
proof -
  have cut: "listed t git k ws args = nonempty_lines (take (nat (gt_max_bytes t)) (redact_string (gr_stdout (git k ws args))))"
    if "int (length (redact_string (gr_stdout (git k ws args)))) > gt_max_bytes t" for k args
    using that assms(6) by (simp add: listed_def capture_run_def truncate_bytes_def max_output_bytes_def case_prod_unfold)
  have "listed t git 2 ws (staged_args []) = listed t git 1 ws (staged_args paths)" "listed t git 1 ws (staged_args paths) \<noteq> []"
    using assms by (simp_all add: cut)
  then show ?thesis
    using assms commit_runs [of t git ws paths input "[]"] by (simp add: Let_def numeral_2_eq_2)
qed

end
