(* ===== verification/Test_Runner.thy ===== *)
theory Test_Runner
  imports Patch_Validate Go_Text Git_Tools
begin

text \<open>
  Running tests, \<open>internal/tools/code/test_runner.go\<close>, with the detection of test commands of \<open>project.go\<close>. A test
  command is a process: a function of the number of processes started before, of the directory, the program with its
  arguments and the timeout. What decoding a \<open>package.json\<close> gives, the names of its scripts, is given too. The
  reports are maps; durations are left out.
\<close>

section \<open>The world of the test tools\<close>

type_synonym process = "nat \<Rightarrow> path \<Rightarrow> string list \<Rightarrow> int \<Rightarrow> command_run"

type_synonym run_log = "(path \<times> string list \<times> int) list"

type_synonym 'a test_io = "(fs_world \<times> run_log, 'a) state"

definition on_files :: "(fs_world, 'a) state \<Rightarrow> 'a test_io" where
  "on_files m = State (\<lambda>(f, l). let (a, f') = run_state m f in (a, f', l))"

definition start_process :: "process \<Rightarrow> path \<Rightarrow> string list \<Rightarrow> int \<Rightarrow> command_run test_io" where
  "start_process proc dir argv secs = State (\<lambda>(f, l). (proc (length l) dir argv secs, f, l @ [(dir, argv, secs)]))"

record test_tool =
  tt_workspace :: workspace
  tt_timeout :: int
  tt_max_bytes :: int

definition default_timeout :: "test_tool \<Rightarrow> int" where
  "default_timeout t = (if 0 < tt_timeout t then tt_timeout t else 300)"

definition default_max_output :: "test_tool \<Rightarrow> int" where
  "default_max_output t = (if 0 < tt_max_bytes t then tt_max_bytes t else 200000)"

section \<open>Detecting test commands\<close>

definition file_exists :: "path \<Rightarrow> string \<Rightarrow> (fs_world, bool) state" where
  "file_exists base name = do { r \<leftarrow> os_stat (base @ [name]); State_Monad.return (case r of Inl _ \<Rightarrow> False | Inr _ \<Rightarrow> True) }"

text \<open>The names of the scripts, or None when the text does not decode.\<close>

type_synonym script_decoder = "string \<Rightarrow> string list option"

definition has_package_script :: "script_decoder \<Rightarrow> path \<Rightarrow> string \<Rightarrow> (fs_world, bool) state" where
  "has_package_script dec base script = do {
     r \<leftarrow> os_read (base @ [''package.json'']);
     State_Monad.return (case r of
         Inl _ \<Rightarrow> False
       | Inr raw \<Rightarrow> (case dec raw of None \<Rightarrow> False | Some names \<Rightarrow> script \<in> set names))
   }"

text \<open>\<open>a || b\<close> and \<open>a && b\<close> of conditions that ask the file system.\<close>

definition or_else_ask :: "('w, bool) state \<Rightarrow> ('w, bool) state \<Rightarrow> ('w, bool) state" where
  "or_else_ask a b = do { x \<leftarrow> a; if x then State_Monad.return True else b }"

definition and_then_ask :: "('w, bool) state \<Rightarrow> ('w, bool) state \<Rightarrow> ('w, bool) state" where
  "and_then_ask a b = do { x \<leftarrow> a; if x then b else State_Monad.return False }"

definition listed_if :: "string \<Rightarrow> ('w, bool) state \<Rightarrow> ('w, string list) state" where
  "listed_if s m = do { b \<leftarrow> m; State_Monad.return (if b then [s] else []) }"

fun gather :: "('w, string list) state list \<Rightarrow> ('w, string list) state" where
  "gather [] = State_Monad.return []"
| "gather (m # ms) = do { xs \<leftarrow> m; ys \<leftarrow> gather ms; State_Monad.return (xs @ ys) }"

definition unique_values :: "string list \<Rightarrow> string list" where
  "unique_values xs = uniq_from [] xs"

definition detect_test_commands :: "script_decoder \<Rightarrow> path \<Rightarrow> (fs_world, string list) state" where
  "detect_test_commands dec base = do {
     cs \<leftarrow> gather
       [listed_if ''go test ./...'' (file_exists base ''go.mod''),
        listed_if ''npm test'' (and_then_ask (file_exists base ''package.json'') (has_package_script dec base ''test'')),
        listed_if ''pytest'' (or_else_ask (file_exists base ''pyproject.toml'')
          (or_else_ask (file_exists base ''pytest.ini'') (file_exists base ''requirements.txt''))),
        listed_if ''cargo test'' (file_exists base ''Cargo.toml''),
        listed_if ''make test'' (file_exists base ''Makefile'')];
     State_Monad.return (unique_values cs)
   }"

section \<open>The command line\<close>

text \<open>The loop of \<open>splitCommandLine\<close>, over bytes: the characters it looks for are ASCII.\<close>

record split_state =
  sl_parts :: "string list"
  sl_cur :: string
  sl_quote :: "char option"
  sl_esc :: bool

definition split_char :: "split_state \<Rightarrow> char \<Rightarrow> split_state" where
  "split_char s c =
     (if sl_esc s then s\<lparr>sl_cur := sl_cur s @ [c], sl_esc := False\<rparr>
      else if c = CHR 0x5C then s\<lparr>sl_esc := True\<rparr>
      else case sl_quote s of
        Some q \<Rightarrow> if c = q then s\<lparr>sl_quote := None\<rparr> else s\<lparr>sl_cur := sl_cur s @ [c]\<rparr>
      | None \<Rightarrow>
          if c = CHR 0x27 \<or> c = CHR 0x22 then s\<lparr>sl_quote := Some c\<rparr>
          else if c = CHR '' '' \<or> c = CHR 0x09 \<or> c = CHR 0x0A then
            (if sl_cur s \<noteq> [] then s\<lparr>sl_parts := sl_parts s @ [sl_cur s], sl_cur := []\<rparr> else s)
          else s\<lparr>sl_cur := sl_cur s @ [c]\<rparr>)"

definition split_command_line :: "string \<Rightarrow> string list res" where
  "split_command_line input =
     (let s = foldl split_char \<lparr>sl_parts = [], sl_cur = [], sl_quote = None, sl_esc = False\<rparr> input;
          cur = (if sl_esc s then sl_cur s @ [CHR 0x5C] else sl_cur s)
      in if sl_quote s \<noteq> None then Inl (Err ''unterminated quote in command'')
         else Inr (if cur \<noteq> [] then sl_parts s @ [cur] else sl_parts s))"

record test_command =
  tc_name :: string
  tc_args :: "string list"
  tc_detected :: bool

definition command_string :: "test_command \<Rightarrow> string" where
  "command_string c = (if tc_args c = [] then tc_name c else tc_name c @ '' '' @ join '' '' (tc_args c))"

definition parse_command :: "string \<Rightarrow> string list \<Rightarrow> bool \<Rightarrow> test_command res" where
  "parse_command command args detected =
     (if trim_space command = [] then Inl (Err ''command is required unless use_detected=true'')
      else case split_command_line command of
        Inl e \<Rightarrow> Inl e
      | Inr [] \<Rightarrow> Inl (Err ''command is empty'')
      | Inr (p # ps) \<Rightarrow> Inr \<lparr>tc_name = p, tc_args = ps @ args, tc_detected = detected\<rparr>)"

definition test_command_of :: "script_decoder \<Rightarrow> path \<Rightarrow> gmap \<Rightarrow> (fs_world, test_command res) state" where
  "test_command_of dec base input =
     (let command = str_at input ''command''; args = approval_string_slice (map_of input ''args'') in
      if trim_space command = [] \<and> bool_at input ''use_detected'' then do {
        cs \<leftarrow> detect_test_commands dec base;
        State_Monad.return (case cs of
          [] \<Rightarrow> Inl (Err ''no test command detected'')
        | c # _ \<Rightarrow> parse_command c args True)
      }
      else State_Monad.return (parse_command command args False))"

definition require_first_arg :: "string list \<Rightarrow> string \<Rightarrow> unit res" where
  "require_first_arg args want =
     (if args = [] \<or> hd args \<noteq> want then Inl (Err (''expected first argument '' @ quote want)) else Inr ())"

definition validate_test_command :: "string \<Rightarrow> string list \<Rightarrow> unit res" where
  "validate_test_command name args =
     (let unsupported = Inl (Err (''unsupported test command: '' @ name @ '' '' @ join '' '' args)) in
      if list_ex (\<lambda>c. c \<in> set ''|;&<>'') name
      then Inl (Err ''test command must be a structured executable, not shell syntax'')
      else if list_ex (\<lambda>a. a \<in> {''&&'', '';'', ''|''} \<or> CHR ''>'' \<in> set a) args
      then Inl (Err ''test command arguments cannot contain shell control operators'')
      else if name = ''go'' then require_first_arg args ''test''
      else if name \<in> {''npm'', ''pnpm'', ''yarn''} then
        (if args \<noteq> [] \<and> args ! 0 = ''test'' then Inr ()
         else if 1 < length args \<and> args ! 0 = ''run'' \<and> args ! 1 = ''test'' then Inr ()
         else unsupported)
      else if name = ''pytest'' then Inr ()
      else if name \<in> {''python'', ''python3''} then
        (if 2 \<le> length args \<and> args ! 0 = ''-m'' \<and> args ! 1 = ''pytest'' then Inr () else unsupported)
      else if name = ''cargo'' then require_first_arg args ''test''
      else if name = ''make'' then require_first_arg args ''test''
      else unsupported)"

definition append_test_pattern :: "string \<Rightarrow> string list \<Rightarrow> string \<Rightarrow> string list" where
  "append_test_pattern name args pattern =
     (if name = ''go'' then args @ [''-run'', pattern]
      else if name \<in> {''pytest'', ''python'', ''python3''} then args @ [''-k'', pattern]
      else if name = ''cargo'' then args @ [''--'', pattern]
      else args)"

section \<open>Running tests\<close>

definition positive_or :: "int \<Rightarrow> int \<Rightarrow> int" where
  "positive_or x d = (if x \<le> 0 then d else x)"

definition test_report :: "string \<Rightarrow> test_command \<Rightarrow> int \<Rightarrow> command_run \<Rightarrow> gmap" where
  "test_report rel c limit r =
     (let (out, cut1) = truncate_bytes (redact_string (gr_stdout r)) limit;
          (err, cut2) = truncate_bytes (redact_string (gr_stderr r)) limit
      in [(''workspace'', GStr rel), (''command'', GStr (command_string c)), (''args'', GStrs (tc_args c)),
          (''exit_code'', GInt (if gr_deadline r then - 1 else case gr_error r of None \<Rightarrow> 0 | Some (_, code) \<Rightarrow> code)),
          (''passed'', GBool (gr_error r = None \<and> \<not> gr_deadline r)), (''stdout'', GStr out), (''stderr'', GStr err),
          (''truncated'', GBool (cut1 \<or> cut2)), (''detected_command'', GBool (tc_detected c)),
          (''timed_out'', GBool (gr_deadline r))] @
         (case gr_error r of None \<Rightarrow> [] | Some (e, _) \<Rightarrow> [(''error'', GStr (redact_string e))]))"

definition run_tests :: "path \<Rightarrow> script_decoder \<Rightarrow> process \<Rightarrow> test_tool \<Rightarrow> gmap \<Rightarrow> gmap res test_io" where
  "run_tests cwd dec proc t input =
     (case resolve cwd (tt_workspace t) (str_at input ''workspace'') of
        Inl e \<Rightarrow> State_Monad.return (Inl e)
      | Inr (base, rel) \<Rightarrow> do {
          spec \<leftarrow> on_files (test_command_of dec base input);
          case spec of
            Inl e \<Rightarrow> State_Monad.return (Inl e)
          | Inr c \<Rightarrow>
              (case validate_test_command (tc_name c) (tc_args c) of
                 Inl e \<Rightarrow> State_Monad.return (Inl e)
               | Inr _ \<Rightarrow>
                   let pattern = str_at input ''test_name_pattern'';
                       c = (if pattern \<noteq> [] then c\<lparr>tc_args := append_test_pattern (tc_name c) (tc_args c) pattern\<rparr> else c);
                       secs = positive_or (get_int input ''timeout_seconds'' (default_timeout t)) (default_timeout t);
                       limit = positive_or (get_int input ''max_output_bytes'' (default_max_output t)) (default_max_output t)
                   in do {
                     r \<leftarrow> start_process proc base (tc_name c # tc_args c) secs;
                     State_Monad.return (Inr (test_report rel c limit r))
                   })
        })"

section \<open>Reading failures\<close>

definition language_from_command :: "string \<Rightarrow> string" where
  "language_from_command command =
     (case split_command_line command of
        Inr (p # _) \<Rightarrow>
          (if p = ''go'' then ''go''
           else if p \<in> {''pytest'', ''python'', ''python3''} then ''python''
           else if p \<in> {''npm'', ''pnpm'', ''yarn'', ''node'', ''npx''} then ''javascript''
           else if p = ''cargo'' then ''rust''
           else ''unknown'')
      | _ \<Rightarrow> ''unknown'')"

definition truncate_for_parse :: "string \<Rightarrow> string" where
  "truncate_for_parse v = take 8000 v"

definition filepath_slash :: "string \<Rightarrow> string" where
  "filepath_slash = map (\<lambda>c. if c = CHR 0x5C then CHR ''/'' else c)"

definition is_error_line :: "string \<Rightarrow> bool" where
  "is_error_line l \<longleftrightarrow>
     l \<noteq> [] \<and> (has_sub (to_lower l) ''error'' \<or> has_sub (to_lower l) ''fail'' \<or> has_prefix l ''E '' \<or> has_prefix l ''AssertionError'')"

definition first_error_line :: "string \<Rightarrow> string" where
  "first_error_line output =
     (let ls = map trim_space (split_on CHR 0x0A output) in
      case find is_error_line ls of
        Some l \<Rightarrow> l
      | None \<Rightarrow> (case find (\<lambda>l. l \<noteq> []) ls of Some l \<Rightarrow> l | None \<Rightarrow> []))"

text \<open>The patterns. A line feed is the only character that the dot leaves out.\<close>

abbreviation (input) any_char :: regex where
  "any_char \<equiv> none_of [(CHR 0x0A, CHR 0x0A)]"

abbreviation (input) digit_range :: "char \<times> char" where
  "digit_range \<equiv> (CHR ''0'', CHR ''9'')"

definition re_digits :: regex where
  "re_digits = re_plus (one_of [digit_range])"

definition path_chars :: "(char \<times> char) list" where
  "path_chars = [(CHR ''A'', CHR ''Z''), (CHR ''a'', CHR ''z''), digit_range, (CHR ''_'', CHR ''_''), (CHR ''.'', CHR ''.''),
     (CHR ''/'', CHR ''/''), (CHR 0x5C, CHR 0x5C), (CHR ''-'', CHR ''-'')]"

definition go_fail_re :: regex where
  "go_fail_re = re_seq [RLineB, lit ''--- FAIL: '', RGroup 1 (re_plus (none_of ((CHR ''('', CHR ''('') # re_space)))]"

definition go_file_re :: regex where
  "go_file_re = re_seq [RLineB, re_plus (one_of re_space),
     RGroup 1 (RSeq (re_plus (none_of ((CHR '':'', CHR '':'') # re_space))) (lit ''.go'')), lit '':'', RGroup 2 re_digits, lit '':'',
     re_many (one_of re_space), RGroup 3 (re_many any_char), RLineE]"

definition go_pkg_re :: regex where
  "go_pkg_re = re_seq [RLineB, lit ''FAIL'', re_plus (one_of re_space), RGroup 1 (re_plus (none_of re_space))]"

definition python_file_re :: regex where
  "python_file_re = re_seq [RGroup 1 (RSeq (re_plus (one_of path_chars)) (lit ''.py'')), lit '':'', RGroup 2 re_digits,
     re_opt (lit '':''), re_many (one_of re_space), RGroup 3 (re_many any_char)]"

definition python_test_re :: regex where
  "python_test_re = re_seq [RLineB, re_plus (lit ''_''), lit '' '',
     RGroup 1 (re_plus (none_of [(CHR ''_'', CHR ''_''), (CHR 0x0A, CHR 0x0A)])), lit '' '', re_plus (lit ''_''), RLineE]"

definition script_ext :: regex where
  "script_ext = re_seq [lit ''.'', one_of [(CHR ''j'', CHR ''j''), (CHR ''t'', CHR ''t'')], lit ''s'', re_opt (lit ''x'')]"

definition node_fail_re :: regex where
  "node_fail_re = re_seq [RLineB, lit ''FAIL'', re_plus (one_of re_space),
     RGroup 1 (re_seq [re_plus any_char, lit ''.'', RAlt (lit ''test'') (lit ''spec''), script_ext])]"

definition node_test_re :: regex where
  "node_test_re = re_seq [RLineB, re_many (one_of re_space), re_opt (one_of [(CHR ''-'', CHR ''-''), (CHR ''*'', CHR ''*'')]),
     re_many (one_of re_space), re_alts [one_of [(CHR ''x'', CHR ''x''), (CHR ''X'', CHR ''X'')], lit ''FAIL'', lit ''Error''],
     re_plus (one_of re_space), RGroup 1 (re_plus any_char), RLineE]"

definition node_loc_re :: regex where
  "node_loc_re = re_seq [RGroup 1 (RSeq (re_plus (one_of path_chars)) script_ext), lit '':'', RGroup 2 re_digits, lit '':'',
     RGroup 3 re_digits]"

definition rust_re :: regex where
  "rust_re = re_seq [RLineB, lit (''thread '' @ [CHR 0x27]), RGroup 1 (re_plus (none_of [(CHR 0x27, CHR 0x27)])),
     lit ([CHR 0x27] @ '' panicked at ''), RGroup 2 (re_plus (none_of [(CHR '':'', CHR '':''), (CHR 0x0A, CHR 0x0A)])), lit '':'',
     RGroup 3 re_digits, lit '':'', RGroup 4 re_digits, re_opt (lit '':''), re_many (one_of re_space),
     RGroup 5 (re_many any_char), RLineE]"

text \<open>The first group of the first match, trimmed; empty when there is none.\<close>

definition first_group :: "regex \<Rightarrow> string \<Rightarrow> string" where
  "first_group r s = (case re_submatch r s of None \<Rightarrow> [] | Some gs \<Rightarrow> trim_space (group_text s gs 1))"

definition atoi_val :: "string \<Rightarrow> gval" where
  "atoi_val s = GInt (atoi s)"

text \<open>
  One line of Go's output: the failures so far, of which the last is the current one.
\<close>

definition go_line :: "string \<Rightarrow> gmap list \<Rightarrow> string \<Rightarrow> gmap list" where
  "go_line output fs line =
     (case re_submatch go_fail_re line of
        Some gs \<Rightarrow> fs @ [[(''test_name'', GStr (group_text line gs 1)), (''message'', GStr (trim_space line))]]
      | None \<Rightarrow>
          if fs = [] then []
          else
            let cur = last fs; put = (\<lambda>m. butlast fs @ [m]) in
            (case re_submatch go_file_re line of
               Some gs \<Rightarrow>
                 let text3 = trim_space (group_text line gs 3);
                     m = AList.update ''line'' (atoi_val (group_text line gs 2)) (AList.update ''file'' (GStr (group_text line gs 1)) cur);
                     m = (if text3 \<noteq> [] then AList.update ''message'' (GStr text3) m else m)
                 in put (AList.update ''stack_trace'' (GStr (truncate_for_parse output)) m)
             | None \<Rightarrow>
                 (case re_submatch go_pkg_re line of
                    Some gs \<Rightarrow> put (AList.update ''package'' (GStr (group_text line gs 1)) cur)
                  | None \<Rightarrow> fs)))"

definition parse_go_failures :: "string \<Rightarrow> gmap list" where
  "parse_go_failures output = foldl (go_line output) [] (split_on CHR 0x0A output)"

definition parse_python_failures :: "string \<Rightarrow> gmap list" where
  "parse_python_failures output =
     (let test = first_group python_test_re output in
      map (\<lambda>gs. [(''file'', GStr (filepath_slash (group_text output gs 1))), (''line'', atoi_val (group_text output gs 2)),
                (''test_name'', GStr test),
                (''message'', GStr (first_non_empty (trim_space (group_text output gs 3)) (first_error_line output))),
                (''stack_trace'', GStr (truncate_for_parse output))])
        (take 8 (re_submatches python_file_re output)))"

definition parse_node_failures :: "string \<Rightarrow> gmap list" where
  "parse_node_failures output =
     (let test = first_group node_test_re output; loc = re_submatch node_loc_re output;
          tail = [(''test_name'', GStr test), (''message'', GStr (first_error_line output)),
                  (''stack_trace'', GStr (truncate_for_parse output))];
          at_loc = (\<lambda>l. (''file'', GStr (filepath_slash (group_text output l 1))) #
                        (''line'', atoi_val (group_text output l 2)) # tail);
          items = map (\<lambda>gs. case loc of
                      Some l \<Rightarrow> at_loc l
                    | None \<Rightarrow> (''file'', GStr (filepath_slash (trim_space (group_text output gs 1)))) # tail)
                    (take 8 (re_submatches node_fail_re output))
      in if items \<noteq> [] then items else case loc of None \<Rightarrow> [] | Some l \<Rightarrow> [at_loc l])"

definition parse_rust_failures :: "string \<Rightarrow> gmap list" where
  "parse_rust_failures output =
     map (\<lambda>gs. [(''file'', GStr (filepath_slash (group_text output gs 2))), (''line'', atoi_val (group_text output gs 3)),
               (''test_name'', GStr (group_text output gs 1)),
               (''message'', GStr (first_non_empty (trim_space (group_text output gs 5)) ''rust test panicked'')),
               (''stack_trace'', GStr (truncate_for_parse output))])
       (take 8 (re_submatches rust_re output))"

definition parse_generic_failures :: "string \<Rightarrow> gmap list" where
  "parse_generic_failures output =
     (let msg = first_error_line output in
      if msg = [] then []
      else [[(''message'', GStr msg), (''stack_trace'', GStr (truncate_for_parse output)),
             (''hint'', GStr ''inspect the referenced files and rerun a narrower test when possible'')]])"

definition summarize_failures :: "bool \<Rightarrow> gmap list \<Rightarrow> string \<Rightarrow> string" where
  "summarize_failures passed fs output =
     (if passed then ''tests passed''
      else case fs of
        [] \<Rightarrow> first_non_empty (first_error_line output) ''tests failed but no structured failure could be parsed''
      | f # _ \<Rightarrow>
          (let n = show_nat (length fs) in
           if str_at f ''file'' \<noteq> [] then
             (case map_of f ''line'' of
                Some (GInt i) \<Rightarrow>
                  (if 0 < i then n @ '' failure(s), first at '' @ str_at f ''file'' @ '':'' @ show_int i
                   else n @ '' failure(s), first in '' @ str_at f ''file'')
              | _ \<Rightarrow> n @ '' failure(s), first in '' @ str_at f ''file'')
           else n @ '' failure(s): '' @ print_at f ''message''))"

text \<open>Failures, the parser that found them and its confidence, for the language of the command.\<close>

definition failures_of :: "string \<Rightarrow> string \<Rightarrow> gmap list \<times> string \<times> rat" where
  "failures_of language output =
     (let (fs, parser, conf) =
        (if language = ''go'' then (parse_go_failures output, ''go'', 4/5)
         else if language = ''python'' then (parse_python_failures output, ''python'', 7/10)
         else if language \<in> {''javascript'', ''typescript'', ''node''} then (parse_node_failures output, ''node'', 13/20)
         else if language = ''rust'' then (parse_rust_failures output, ''rust'', 7/10)
         else ([], ''generic'', 7/20))
      in if fs \<noteq> [] then (fs, parser, conf)
         else
           let gs = parse_generic_failures output in
           if gs \<noteq> [] then (gs, ''generic'', 9/20) else ([], parser, conf))"

definition parse_test_failure :: "gmap \<Rightarrow> gmap" where
  "parse_test_failure input =
     (let command = str_at input ''command'';
          language = (if str_at input ''language'' = [] then language_from_command command else str_at input ''language'');
          out = redact_string (str_at input ''stdout''); err = redact_string (str_at input ''stderr'');
          output = (if err \<noteq> [] then out @ [CHR 0x0A] @ err else out);
          passed = (get_int input ''exit_code'' 0 = 0);
          (fs, parser, conf) = failures_of language output;
          conf = (if fs = [] \<and> \<not> passed then 1/4 else conf)
      in [(''passed'', GBool passed), (''failures'', GMaps fs), (''summary'', GStr (summarize_failures passed fs output)),
          (''language'', GStr language), (''parser_used'', GStr parser), (''confidence'', GFloat conf)])"

section \<open>The repair loop\<close>

text \<open>One turn of the loop: the caller carries its history from turn to turn in the input.\<close>

fun map_slice_value :: "gmap \<Rightarrow> string list \<Rightarrow> gmap list" where
  "map_slice_value input [] = []"
| "map_slice_value input (k # ks) =
     (case map_of input k of
        Some (GMaps ms) \<Rightarrow> map (\<lambda>m. clone_map (Some m)) ms
      | Some (GList vs) \<Rightarrow> List.map_filter (\<lambda>v. case v of GMap m \<Rightarrow> Some (clone_map (Some m)) | _ \<Rightarrow> None) vs
      | _ \<Rightarrow> map_slice_value input ks)"

definition bool_value :: "gmap \<Rightarrow> string \<Rightarrow> bool \<Rightarrow> bool" where
  "bool_value input k d = (case map_of input k of Some (GBool b) \<Rightarrow> b | _ \<Rightarrow> d)"

record fix_tool =
  fx_tool :: test_tool
  fx_max_iterations :: int

definition default_max_iterations :: "fix_tool \<Rightarrow> int" where
  "default_max_iterations e = (if 0 < fx_max_iterations e then fx_max_iterations e else 3)"

record fix_turn =
  ft_max :: int
  ft_iteration :: int
  ft_runs :: "gmap list"
  ft_history :: "gmap list"
  ft_proposed :: "gmap list"
  ft_applied :: "gmap list"

definition fix_turn_of :: "fix_tool \<Rightarrow> gmap \<Rightarrow> fix_turn" where
  "fix_turn_of e input =
     (let top = default_max_iterations e;
          runs = map_slice_value input [''test_runs'', ''previous_test_runs'']; succ = int (length runs) + 1
      in \<lparr>ft_max = min (positive_or (get_int input ''max_iterations'' top) top) top,
          ft_iteration = positive_or (get_int input ''iteration'' succ) succ, ft_runs = runs,
          ft_history = map_slice_value input [''failures'', ''failure_history''],
          ft_proposed = map_slice_value input [''proposed_patches''], ft_applied = map_slice_value input [''applied_patches'']\<rparr>)"

definition fix_header :: "fix_turn \<Rightarrow> int \<Rightarrow> bool \<Rightarrow> gmap list \<Rightarrow> string \<Rightarrow> string \<Rightarrow> gmap" where
  "fix_header f n passed runs reason summary =
     [(''iterations'', GInt n), (''iteration'', GInt n), (''final_passed'', GBool passed), (''test_runs'', GMaps runs),
      (''proposed_patches'', GMaps (ft_proposed f)), (''applied_patches'', GMaps (ft_applied f)),
      (''stopped_reason'', GStr reason), (''summary'', GStr summary), (''max_iterations'', GInt (ft_max f))]"

definition rejected_report :: "fix_turn \<Rightarrow> gmap" where
  "rejected_report f =
     (let n = int (length (ft_runs f)) in
      fix_header f n False (ft_runs f) ''approval_rejected''
        (''repair loop stopped after '' @ show_int n @ '' iteration(s) because the patch approval was rejected'') @
      [(''failures'', GMaps (ft_history f))])"

definition exhausted_report :: "fix_turn \<Rightarrow> gmap" where
  "exhausted_report f =
     (let n = int (length (ft_runs f)) in
      fix_header f n False (ft_runs f) ''max_iterations_reached''
        (''repair loop stopped after '' @ show_int n @ ''/'' @ show_int (ft_max f) @ '' iteration(s); max_iterations reached'') @
      [(''failures'', GMaps (ft_history f)), (''remaining_iterations'', GInt 0)])"

definition passed_report :: "fix_turn \<Rightarrow> gmap \<Rightarrow> gmap" where
  "passed_report f run =
     fix_header f (ft_iteration f) True (ft_runs f @ [clone_map (Some run)]) ''tests_passed''
       (''tests passed after '' @ show_int (ft_iteration f) @ '' iteration(s); no repair patch needed'') @
     [(''failures'', GMaps []), (''failure_history'', GMaps (ft_history f))]"

text \<open>The report of a failed run: the last one allowed, or one that asks for a patch.\<close>

definition failed_report :: "fix_turn \<Rightarrow> gmap \<Rightarrow> gmap \<Rightarrow> gmap \<Rightarrow> gmap" where
  "failed_report f input run parsed =
     (let limit = positive_or (get_int input ''failure_context_max'' 3) 3;
          failures = take (nat limit) (case map_of parsed ''failures'' of Some (GMaps ms) \<Rightarrow> ms | _ \<Rightarrow> []);
          i = ft_iteration f; n = ft_max f; stop = n \<le> i; of_n = show_int i @ ''/'' @ show_int n
      in
      fix_header f i False (ft_runs f @ [clone_map (Some run)]) (if stop then ''max_iterations_reached'' else ''waiting_for_patch_proposal'')
        (if stop then ''tests still failed after '' @ of_n @ '' iteration(s); max_iterations reached''
         else ''tests failed after '' @ of_n @ '' iteration(s); generate a code.propose_patch proposal, request approval for '' @
              ''code.apply_patch, then rerun tests'') @
      [(''failures'', GMaps failures), (''failure_history'', GMaps (ft_history f @ [clone_map (Some parsed)])),
       (''remaining_failures'', GMaps failures), (''remaining_iterations'', GInt (if stop then 0 else n - i)),
       (''last_test_result'', GMap run), (''last_parse_result'', GMap parsed)] @
      (if stop then []
       else [(''next_tool'', GStr ''code.propose_patch''),
             (''next_proposal'', GMap
               [(''tool'', GStr ''code.propose_patch''),
                (''input'', GMap [(''summary'', GStr (''Repair failing tests from '' @ print_at run ''command''))]),
                (''requires_approval_before_apply'', GBool True)]),
             (''stop_on_approval'', GBool (bool_value input ''stop_on_approval'' True)),
             (''auto_rerun_tests'', GBool (bool_value input ''auto_rerun_tests'' True))]))"

definition loop_tests_input :: "gmap \<Rightarrow> int \<Rightarrow> int \<Rightarrow> gmap" where
  "loop_tests_input input secs limit =
     [(''workspace'', GStr (str_at input ''workspace'')), (''command'', GStr (str_at input ''test_command'')),
      (''use_detected'', GBool (str_at input ''test_command'' = [])), (''timeout_seconds'', GInt secs),
      (''max_output_bytes'', GInt limit), (''test_name_pattern'', GStr (str_at input ''test_name_pattern''))]"

definition loop_parse_input :: "gmap \<Rightarrow> gmap \<Rightarrow> gmap" where
  "loop_parse_input input run =
     [(''workspace'', GStr (str_at input ''workspace'')), (''command'', GStr (print_at run ''command'')),
      (''stdout'', GStr (print_at run ''stdout'')), (''stderr'', GStr (print_at run ''stderr'')),
      (''exit_code'', case map_of run ''exit_code'' of None \<Rightarrow> GNil | Some v \<Rightarrow> v)]"

definition fix_test_failure_loop :: "path \<Rightarrow> script_decoder \<Rightarrow> process \<Rightarrow> fix_tool \<Rightarrow> gmap \<Rightarrow> gmap res test_io" where
  "fix_test_failure_loop cwd dec proc e input =
     (let f = fix_turn_of e input; t = fx_tool e in
      if bool_value input ''approval_rejected'' False \<or> bool_value input ''patch_rejected'' False
      then State_Monad.return (Inr (rejected_report f))
      else if ft_max f < ft_iteration f then State_Monad.return (Inr (exhausted_report f))
      else
        let secs = positive_or (get_int input ''timeout_seconds'' (default_timeout t)) (default_timeout t);
            limit = positive_or (get_int input ''max_output_bytes'' (default_max_output t)) (default_max_output t)
        in do {
          ran \<leftarrow> run_tests cwd dec proc (t\<lparr>tt_timeout := secs, tt_max_bytes := limit\<rparr>) (loop_tests_input input secs limit);
          State_Monad.return (case ran of
            Inl err \<Rightarrow> Inl err
          | Inr run \<Rightarrow>
              if bool_at run ''passed'' then Inr (passed_report f run)
              else Inr (failed_report f input run (parse_test_failure (loop_parse_input input run))))
        })"

end
