(* ===== verification/Test_Safety.thy ===== *)
theory Test_Safety
  imports Test_Runner Effect_Inference
begin

text \<open>
  What the test tools start: test commands only, the ones the inference's own allowlist names, in the workspace; how the
  repair loop ends; and what inference does not look at.
\<close>

section \<open>The two allowlists\<close>

definition shell_free :: "string list \<Rightarrow> bool" where
  "shell_free args \<longleftrightarrow> list_all (\<lambda>a. a \<noteq> ''&&'' \<and> a \<noteq> '';'' \<and> a \<noteq> ''|'' \<and> CHR ''>'' \<notin> set a) args"

lemma shell_free_iff: "list_ex (\<lambda>a. a \<in> {''&&'', '';'', ''|''} \<or> CHR ''>'' \<in> set a) args \<longleftrightarrow> \<not> shell_free args"
  by (auto simp: shell_free_def list_ex_iff list_all_iff)

lemma require_first_arg_ok: "require_first_arg args want = Inr () \<longleftrightarrow> args \<noteq> [] \<and> args ! 0 = want"
  by (cases args) (simp_all add: require_first_arg_def)

definition test_programs :: "string list" where
  "test_programs = [''go'', ''npm'', ''pnpm'', ''yarn'', ''pytest'', ''python'', ''python3'', ''cargo'', ''make'']"

lemma recognized_program: "is_recognized_test name args \<Longrightarrow> name \<in> set test_programs"
proof (rule ccontr)
  assume "is_recognized_test name args" "name \<notin> set test_programs"
  then show False by (simp add: is_recognized_test_def test_programs_def)
qed

lemma plain_programs: "list_all (\<lambda>n. \<not> list_ex (\<lambda>c. c \<in> set ''|;&<>'') n) test_programs"
  by code_simp

lemma recognized_plain: "is_recognized_test name args \<Longrightarrow> \<not> list_ex (\<lambda>c. c \<in> set ''|;&<>'') name"
  using recognized_program plain_programs unfolding list_all_iff by blast

lemmas validate_test_unfold = validate_test_command_def [unfolded Let_def shell_free_iff]

lemma validate_refuses:
  "\<not> shell_free args \<Longrightarrow> validate_test_command name args \<noteq> Inr ()"
  "name \<notin> set test_programs \<Longrightarrow> validate_test_command name args \<noteq> Inr ()"
  by (simp only: validate_test_unfold if_True not_False_eq_True; simp)
    (simp add: validate_test_unfold test_programs_def)

lemma validate_known:
  assumes "name \<in> set test_programs" "shell_free args"
  shows "validate_test_command name args = Inr () \<longleftrightarrow> is_recognized_test name args"
proof -
  have "\<not> list_ex (\<lambda>c. c \<in> set ''|;&<>'') name" using assms(1) plain_programs unfolding list_all_iff by blast
  note v = validate_test_unfold [of name args, simplified this assms(2) if_False not_True_eq_False]
  from assms(1) show ?thesis
    unfolding v is_recognized_test_def test_programs_def
    by (simp only: list.set insert_iff empty_iff; elim disjE) (auto simp: require_first_arg_ok)
qed

lemma test_allowlists_agree':
  "validate_test_command name args = Inr () \<longleftrightarrow> is_recognized_test name args \<and> shell_free args"
  using validate_refuses validate_known recognized_program by blast

text \<open>C31: the executor of \<open>code.run_tests\<close> accepts exactly the programs with arguments that the effect inference recognises
  as tests, as long as no argument is a shell operator or contains a redirection.\<close>

theorem test_allowlists_agree:
  "validate_test_command name args = Inr () \<longleftrightarrow> is_recognized_test name args \<and> shell_free args"
  by (rule test_allowlists_agree')

section \<open>What is started\<close>

text \<open>\<open>starts P n m\<close>: the action starts at most \<open>n\<close> processes, all of which satisfy \<open>P\<close>.\<close>

definition starts :: "(path \<times> string list \<times> int \<Rightarrow> bool) \<Rightarrow> nat \<Rightarrow> 'a test_io \<Rightarrow> bool" where
  "starts P n m \<longleftrightarrow>
     (\<forall>f l. \<exists>cs. snd (snd (run_state m (f, l))) = l @ cs \<and> length cs \<le> n \<and> list_all P cs)"

lemma starts_return [simp]: "starts P n (State_Monad.return a)"
  by (simp add: starts_def)

lemma starts_on_files [simp]: "starts P n (on_files m)"
  by (simp add: starts_def on_files_def split: prod.split)

lemma starts_process: "P (dir, argv, secs) \<Longrightarrow> starts P (Suc n) (start_process proc dir argv secs)"
  by (simp add: starts_def start_process_def)

lemma starts_bind:
  assumes "starts P 0 m" "\<And>a. starts P n (g a)"
  shows "starts P n (State_Monad.bind m g)"
  unfolding starts_def
proof (intro allI)
  fix f l
  obtain a f' l' where m: "run_state m (f, l) = (a, f', l')" by (metis prod_cases3)
  with assms(1) have "l' = l" unfolding starts_def by (metis append_Nil2 le_zero_eq length_0_conv snd_conv)
  with m assms(2) [of a]
  show "\<exists>cs. snd (snd (run_state (State_Monad.bind m g) (f, l))) = l @ cs \<and> length cs \<le> n \<and> list_all P cs"
    by (auto simp: starts_def)
qed

lemma starts_then_return:
  assumes "starts P n m"
  shows "starts P n (State_Monad.bind m (\<lambda>a. State_Monad.return (h a)))"
  using assms by (simp add: starts_def split_beta)

lemma recognized_append:
  assumes "is_recognized_test name args"
  shows "is_recognized_test name (args @ xs)"
proof -
  have nth: "i < length args \<Longrightarrow> (args @ xs) ! i = args ! i" for i by (simp add: nth_append)
  have "name \<in> set test_programs" using assms by (rule recognized_program)
  with assms show ?thesis
    unfolding test_programs_def
    by (simp only: list.set insert_iff empty_iff; elim disjE)
      (auto simp: is_recognized_test_def nth_append)
qed

lemma recognized_pattern:
  "is_recognized_test name args \<Longrightarrow> is_recognized_test name (append_test_pattern name args p)"
  unfolding append_test_pattern_def by (simp only: recognized_append split: if_split) blast

text \<open>A process that is a test: in the workspace, a recognised command, with a timeout.\<close>

definition test_process :: "path \<Rightarrow> path \<times> string list \<times> int \<Rightarrow> bool" where
  "test_process base = (\<lambda>(dir, argv, secs).
     prefix base dir \<and> argv \<noteq> [] \<and> is_recognized_test (hd argv) (tl argv) \<and> 0 < secs)"

lemma positive_or_pos: "0 < d \<Longrightarrow> 0 < positive_or x d"
  by (simp add: positive_or_def)

lemma default_pos [simp]: "0 < default_timeout t" "0 < default_max_output t" "0 < default_max_iterations e"
  by (simp_all add: default_timeout_def default_max_output_def default_max_iterations_def)

lemma resolve_below:
  assumes "clean_path cwd" "resolve cwd ws p = Inr (full, rel)"
  shows "prefix (root_path cwd ws) full"
  using assms by (auto simp: resolve_spec split: if_splits)

lemma run_tests_starts:
  assumes "clean_path cwd"
  shows "starts (test_process (root_path cwd (tt_workspace t))) 1 (run_tests cwd dec proc t input)"
proof (cases "resolve cwd (tt_workspace t) (str_at input ''workspace'')")
  case (Inl e)
  then show ?thesis by (simp add: run_tests_def)
next
  case (Inr x)
  then obtain base rel where x: "resolve cwd (tt_workspace t) (str_at input ''workspace'') = Inr (base, rel)" by (cases x) simp
  let ?P = "test_process (root_path cwd (tt_workspace t))"
  have one: "starts ?P (Suc 0) (State_Monad.bind (start_process proc base (name # args) (positive_or k (default_timeout t)))
      (\<lambda>r. State_Monad.return (h r)))" if "is_recognized_test name args" for name args k and h :: "command_run \<Rightarrow> gmap res"
    using resolve_below [OF assms x] that positive_or_pos [OF default_pos(1)]
    by (intro starts_then_return) (simp add: starts_process test_process_def)
  have ok: "validate_test_command name args = Inr u \<Longrightarrow> is_recognized_test name args" for name args u
    using test_allowlists_agree' by auto
  show ?thesis
    unfolding run_tests_def x sum.case prod.case
    by (rule starts_bind [OF starts_on_files]) (auto intro!: one simp: Let_def recognized_pattern dest: ok split: sum.split)
qed

text \<open>C32: whatever its input, \<open>code.run_tests\<close> starts at most one process: a command that the inference's allowlist recognises
  as a test, inside the workspace, with a positive timeout. It changes no file itself.\<close>

theorem only_tests_are_started:
  assumes "clean_path cwd"
  shows "\<exists>cs. snd (snd (run_state (run_tests cwd dec proc t input) (f, l))) = l @ cs \<and> length cs \<le> 1 \<and>
    list_all (test_process (root_path cwd (tt_workspace t))) cs"
  using run_tests_starts [OF assms, of t dec proc input] unfolding starts_def by blast

definition test_tool0 :: test_tool where
  "test_tool0 = \<lparr>tt_workspace = \<lparr>ws_root = ''/w'', ws_sensitive = []\<rparr>, tt_timeout = 0, tt_max_bytes = 0\<rparr>"

definition bare_files :: fs_world where
  "bare_files = \<lparr>fs_tree = [([], FDir)], fs_calls = 0, fs_faults = (\<lambda>_. None), fs_temp = (\<lambda>_. []), fs_umask = 18\<rparr>"

text \<open>A process that always succeeds without output.\<close>

definition silent :: process where
  "silent = (\<lambda>n dir argv secs. \<lparr>gr_stdout = [], gr_stderr = [], gr_error = None, gr_deadline = False\<rparr>)"

theorem only_tests_are_started_witness:
  "\<exists>cs. snd (snd (run_state (run_tests [''w''] (\<lambda>_. None) silent test_tool0 []) (bare_files, []))) = cs \<and> length cs \<le> 1"
  using only_tests_are_started [of "[''w'']" "\<lambda>_. None" silent test_tool0 "[]" bare_files "[]"] by (auto simp: good_comp_def)

section \<open>The repair loop\<close>

lemma fix_loop_starts:
  assumes "clean_path cwd"
  shows "starts (test_process (root_path cwd (tt_workspace (fx_tool e)))) 1 (fix_test_failure_loop cwd dec proc e input)"
proof -
  have "starts (test_process (root_path cwd (tt_workspace (fx_tool e)))) 1 (State_Monad.bind
      (run_tests cwd dec proc ((fx_tool e)\<lparr>tt_timeout := a, tt_max_bytes := b\<rparr>) inp) (\<lambda>r. State_Monad.return (h r)))"
    for a b inp and h :: "gmap res \<Rightarrow> gmap res"
    using run_tests_starts [OF assms, of "(fx_tool e)\<lparr>tt_timeout := a, tt_max_bytes := b\<rparr>" dec proc inp]
    by (intro starts_then_return) simp
  then show ?thesis unfolding fix_test_failure_loop_def Let_def by simp
qed

lemma report_reasons:
  "str_at (rejected_report f) ''stopped_reason'' = ''approval_rejected''"
  "str_at (exhausted_report f) ''stopped_reason'' = ''max_iterations_reached''"
  "str_at (passed_report f run) ''stopped_reason'' = ''tests_passed''"
  "str_at (failed_report f input run parsed) ''stopped_reason'' =
     (if ft_max f \<le> ft_iteration f then ''max_iterations_reached'' else ''waiting_for_patch_proposal'')"
  by (simp_all add: rejected_report_def exhausted_report_def passed_report_def failed_report_def fix_header_def str_at_def Let_def)

lemma failed_report_runs:
  "map_of (failed_report f input run parsed) ''test_runs'' = Some (GMaps (ft_runs f @ [clone_map (Some run)]))"
  by (simp add: failed_report_def fix_header_def Let_def)



section \<open>Arguments that inference does not see\<close>

text \<open>Inference reads the command, whether a detected one is asked for, and nothing else of the input; the executor
  appends the input's \<open>args\<close> to the command, so that an approved or an unasked test run can carry any further options.\<close>

theorem args_are_not_inspected:
  "infer_code_test (p\<lparr>tp_input := Some (AList.update ''args'' v m)\<rparr>) = infer_code_test (p\<lparr>tp_input := Some m\<rparr>)"
  "\<not> if_approval (infer_code_test (p\<lparr>tp_input := Some [(''command'', GStr ''go test ./...''), (''args'', GStrs [''-exec'', ''./x''])]\<rparr>))"
  "fst (run_state (test_command_of dec base [(''command'', GStr ''go test ./...''), (''args'', GStrs [''-exec'', ''./x''])]) f) =
     Inr \<lparr>tc_name = ''go'', tc_args = [''test'', ''./...'', ''-exec'', ''./x''], tc_detected = False\<rparr>"
proof -
  show one: "infer_code_test (p\<lparr>tp_input := Some (AList.update ''args'' v m)\<rparr>) = infer_code_test (p\<lparr>tp_input := Some m\<rparr>)" for v m
    by (simp add: infer_code_test_def str_at_def input_bool_def bool_at_def update_conv')
  let ?q = "p\<lparr>tp_input := Some [(''command'', GStr ''go test ./...'')]\<rparr>"
  have "\<not> if_approval (infer_test_command ''go test ./...'')" by code_simp
  then have "\<not> if_approval (infer_code_test ?q)" by (simp add: infer_code_test_def str_at_def)
  then show "\<not> if_approval (infer_code_test (p\<lparr>tp_input := Some [(''command'', GStr ''go test ./...''), (''args'', GStrs [''-exec'', ''./x''])]\<rparr>))"
    using one [of "GStrs [''-exec'', ''./x'']" "[(''command'', GStr ''go test ./...'')]"] by simp
  have "parse_command ''go test ./...'' [''-exec'', ''./x''] False =
      Inr \<lparr>tc_name = ''go'', tc_args = [''test'', ''./...'', ''-exec'', ''./x''], tc_detected = False\<rparr>" by code_simp
  then show "fst (run_state (test_command_of dec base [(''command'', GStr ''go test ./...''), (''args'', GStrs [''-exec'', ''./x''])]) f) =
     Inr \<lparr>tc_name = ''go'', tc_args = [''test'', ''./...'', ''-exec'', ''./x''], tc_detected = False\<rparr>"
    by (simp add: test_command_of_def str_at_def approval_string_slice_def trim_space_def trim_chars_def is_space_def)
qed

section \<open>Commands read back\<close>

text \<open>A command of words without blanks, quotes or backslashes is read back from the text that reports it.\<close>

definition plain_arg :: "string \<Rightarrow> bool" where
  "plain_arg w \<longleftrightarrow> w \<noteq> [] \<and> list_all (\<lambda>c. c \<notin> {CHR '' '', CHR 0x09, CHR 0x0A, CHR 0x5C, CHR 0x27, CHR 0x22}) w"

lemma split_word:
  "list_all (\<lambda>c. c \<notin> {CHR '' '', CHR 0x09, CHR 0x0A, CHR 0x5C, CHR 0x27, CHR 0x22}) w \<Longrightarrow>
   foldl split_char \<lparr>sl_parts = ps, sl_cur = c, sl_quote = None, sl_esc = False\<rparr> w =
     \<lparr>sl_parts = ps, sl_cur = c @ w, sl_quote = None, sl_esc = False\<rparr>"
  by (induction w arbitrary: c) (simp_all add: split_char_def)

lemma split_words:
  "list_all plain_arg ws \<Longrightarrow> plain_arg w \<Longrightarrow>
   foldl split_char \<lparr>sl_parts = ps, sl_cur = [], sl_quote = None, sl_esc = False\<rparr> (join '' '' (ws @ [w])) =
     \<lparr>sl_parts = ps @ ws, sl_cur = w, sl_quote = None, sl_esc = False\<rparr>"
proof (induction ws arbitrary: ps)
  case Nil
  then show ?case by (simp add: split_word plain_arg_def)
next
  case (Cons v vs)
  then have v: "list_all (\<lambda>c. c \<notin> {CHR '' '', CHR 0x09, CHR 0x0A, CHR 0x5C, CHR 0x27, CHR 0x22}) v" "v \<noteq> []"
    by (simp_all add: plain_arg_def)
  obtain x xs where x: "vs @ [w] = x # xs" by (cases "vs @ [w]") auto
  have "join '' '' ((v # vs) @ [w]) = v @ '' '' @ join '' '' (vs @ [w])" by (simp add: x)
  moreover have "foldl split_char \<lparr>sl_parts = ps, sl_cur = [], sl_quote = None, sl_esc = False\<rparr> (v @ '' '') =
      \<lparr>sl_parts = ps @ [v], sl_cur = [], sl_quote = None, sl_esc = False\<rparr>"
    using v(2) by (simp add: split_word [OF v(1)]) (simp add: split_char_def)
  ultimately show ?case using Cons.IH [of "ps @ [v]"] Cons.prems by (simp del: join.simps)
qed

theorem command_read_back:
  assumes "list_all plain_arg (tc_name c # tc_args c)"
  shows "split_command_line (command_string c) = Inr (tc_name c # tc_args c)"
proof -
  obtain ws w where ws: "tc_name c # tc_args c = ws @ [w]" by (metis list.distinct(1) rev_exhaust)
  with assms have "list_all plain_arg ws" "plain_arg w" by (metis list_all_append list.pred_inject(2))+
  moreover have "command_string c = join '' '' (ws @ [w])"
    unfolding ws [symmetric] by (cases "tc_args c") (simp_all add: command_string_def)
  ultimately show ?thesis
    using split_words [of ws w "[]"] by (simp add: split_command_line_def Let_def ws plain_arg_def)
qed

end
