(* ===== verification/Workspace_Walk.thy ===== *)
theory Workspace_Walk
  imports Test_Runner
begin

text \<open>
  Reading, listing and searching the workspace, \<open>internal/tools/code/workspace.go\<close>: \<open>filepath.WalkDir\<close> over the file
  system, and the callbacks of the tools. A directory's size is what the system says, a given function. Letters are
  those of ASCII and Han characters.
\<close>

section \<open>Walking a directory\<close>

text \<open>\<open>os.ReadDir\<close>: names and whether they are directories, in the order of the names.\<close>

definition dir_entries :: "ftree \<Rightarrow> path \<Rightarrow> (string \<times> bool) list" where
  "dir_entries t p =
     sort_key fst (List.map_filter
       (\<lambda>(q, n). if q \<noteq> [] \<and> butlast q = p then Some (last q, n = FDir) else None) (AList.clearjunk t))"

definition os_read_dir :: "path \<Rightarrow> (fs_world, os_error + (string \<times> bool) list) state" where
  "os_read_dir p = sys (\<lambda>w.
     case os_lookup (fs_tree w) p of
       Inl e \<Rightarrow> Inl e
     | Inr (FFile _ _) \<Rightarrow> Inl (OsFail (path_text p @ '': not a directory''))
     | Inr FDir \<Rightarrow> Inr (dir_entries (fs_tree w) p, fs_tree w))"

text \<open>What a callback returns: nil, \<open>SkipDir\<close>, \<open>SkipAll\<close> or another error.\<close>

datatype verdict = Go_on | Skip_dir | Skip_all | Stop go_error

type_synonym 's walker = "path \<Rightarrow> bool \<Rightarrow> os_error option \<Rightarrow> (fs_world \<times> 's, verdict) state"

definition in_files :: "(fs_world, 'a) state \<Rightarrow> (fs_world \<times> 's, 'a) state" where
  "in_files m = State (\<lambda>(f, s). let (a, f') = run_state m f in (a, f', s))"

definition at_end :: "bool \<Rightarrow> verdict \<Rightarrow> verdict" where
  "at_end is_dir v = (if v = Skip_dir \<and> is_dir then Go_on else v)"

text \<open>
  \<open>walkDir\<close>, and the loop over a directory's entries. The first argument bounds the depth; None is a walk that
  reached the bound.
\<close>

fun walk_dir :: "nat \<Rightarrow> 's walker \<Rightarrow> path \<Rightarrow> bool \<Rightarrow> (fs_world \<times> 's, verdict option) state"
  and walk_entries :: "nat \<Rightarrow> 's walker \<Rightarrow> path \<Rightarrow> (string \<times> bool) list \<Rightarrow> (fs_world \<times> 's, verdict option) state" where
  "walk_dir 0 f p d = State_Monad.return None"
| "walk_dir (Suc n) f p d =
     do {
       v \<leftarrow> f p d None;
       if v \<noteq> Go_on \<or> \<not> d then State_Monad.return (Some (at_end d v))
       else do {
         r \<leftarrow> in_files (os_read_dir p);
         (case r of
            Inl e \<Rightarrow> do {
              v \<leftarrow> f p d (Some e);
              State_Monad.return (Some (if v \<noteq> Go_on then at_end d v else Go_on))
            }
          | Inr es \<Rightarrow> walk_entries n f p es)
       }
     }"
| "walk_entries n f p [] = State_Monad.return (Some Go_on)"
| "walk_entries n f p ((c, d) # es) =
     do {
       v \<leftarrow> walk_dir n f (p @ [c]) d;
       (case v of
          None \<Rightarrow> State_Monad.return None
        | Some Go_on \<Rightarrow> walk_entries n f p es
        | Some Skip_dir \<Rightarrow> State_Monad.return (Some Go_on)
        | Some v \<Rightarrow> State_Monad.return (Some v))
     }"

definition tree_depth :: "ftree \<Rightarrow> nat" where
  "tree_depth t = Max (insert 0 (set (map (length \<circ> fst) t)))"

text \<open>\<open>filepath.WalkDir\<close>: the error it returns, if any. No path of the tree is longer than the bound.\<close>

definition walk_tree :: "'s walker \<Rightarrow> path \<Rightarrow> (fs_world \<times> 's, go_error option option) state" where
  "walk_tree f base =
     do {
       (w, s) \<leftarrow> State_Monad.get;
       r \<leftarrow> in_files (os_stat base);
       v \<leftarrow> (case r of
               Inl e \<Rightarrow> do { v \<leftarrow> f base False (Some e); State_Monad.return (Some v) }
             | Inr n \<Rightarrow> walk_dir (Suc (Suc (tree_depth (fs_tree w)))) f base (n = FDir));
       State_Monad.return (case v of None \<Rightarrow> None | Some (Stop e) \<Rightarrow> Some (Some e) | Some _ \<Rightarrow> Some None)
     }"

section \<open>Reading a file\<close>

definition read_file_limit :: "path \<Rightarrow> int \<Rightarrow> (fs_world, (string \<times> bool) res) state" where
  "read_file_limit p limit = do {
     r \<leftarrow> os_read p;
     State_Monad.return (case r of
         Inl e \<Rightarrow> Inl (os_err e)
       | Inr c \<Rightarrow>
           let data = take (nat (wrap64 (limit + 1))) c
           in Inr (if limit < int (length data) then (take (nat limit) data, True) else (data, False)))
   }"

text \<open>The reader is limited to one byte more than asked for, which for the largest integer wraps around: a file of any size
  then reads as empty, and not as truncated.\<close>

lemma largest_limit_reads_nothing:
  assumes "run_state (read_file_limit p max_int) f = (Inr x, f')"
  shows "x = ([], False)"
proof -
  have "wrap64 (max_int + 1) = - max_int - 1" by (simp add: wrap64_def max_int_def)
  with assms show ?thesis by (auto simp: read_file_limit_def max_int_def Let_def split: sum.splits prod.splits)
qed

definition read_file_tool :: "path \<Rightarrow> workspace \<Rightarrow> gmap \<Rightarrow> (fs_world, gmap res) state" where
  "read_file_tool cwd ws input =
     (case get_string input ''path'' of
        Inl e \<Rightarrow> State_Monad.return (Inl e)
      | Inr p \<Rightarrow>
          (case resolve cwd ws p of
             Inl e \<Rightarrow> State_Monad.return (Inl e)
           | Inr (full, rel) \<Rightarrow> do {
               st \<leftarrow> os_stat full;
               case st of
                 Inl e \<Rightarrow> State_Monad.return (Inl (os_err e))
               | Inr FDir \<Rightarrow> State_Monad.return (Inl (Err (''path is a directory: '' @ p)))
               | Inr (FFile c m) \<Rightarrow>
                   do {
                     r \<leftarrow> read_file_limit full (positive_or (get_int input ''max_bytes'' 1048576) 1048576);
                     State_Monad.return (case r of
                         Inl e \<Rightarrow> Inl e
                       | Inr (data, cut_off) \<Rightarrow>
                           Inr [(''path'', GStr rel), (''content'', GStr data), (''size'', int_val (length c)),
                                (''truncated'', GBool cut_off), (''sha256'', GStr (sha256_hex data))])
                   }
             }))"

section \<open>Listing\<close>

definition should_skip_dir :: "string \<Rightarrow> bool" where
  "should_skip_dir c \<longleftrightarrow> c \<in> {''.git'', ''node_modules'', ''vendor'', ''dist'', ''build'', ''.next'', ''.cache''}"

definition path_depth :: "string \<Rightarrow> string \<Rightarrow> int" where
  "path_depth base rel =
     (let slashes = (\<lambda>s. int (length (filter (\<lambda>c. c = CHR ''/'') s))) in
      if base = ''.'' then (if rel = ''.'' then 0 else slashes rel + 1)
      else
        let trimmed = trim_prefix rel (trim_suffix base ''/'' @ ''/'')
        in if trimmed = rel then 0 else slashes trimmed + 1)"

record list_entry =
  le_path :: string
  le_dir :: bool
  le_size :: int

record list_state =
  ls_entries :: "list_entry list"
  ls_skipped :: nat

record list_query =
  lq_base :: path
  lq_rel :: string
  lq_limit :: int
  lq_depth :: int
  lq_sensitive :: bool

definition list_visit :: "path \<Rightarrow> workspace \<Rightarrow> (path \<Rightarrow> int) \<Rightarrow> list_query \<Rightarrow> list_state walker" where
  "list_visit cwd ws dir_size q p d e =
     (case e of
        Some err \<Rightarrow> State_Monad.return (Stop (os_err err))
      | None \<Rightarrow>
          let rel = ws_rel cwd ws p; skip = (if d then Skip_dir else Go_on) in
          if p = lq_base q then State_Monad.return Go_on
          else if lq_depth q < path_depth (lq_rel q) rel then State_Monad.return skip
          else if d \<and> should_skip_dir (last p) then State_Monad.return Skip_dir
          else if ws_is_sensitive ws rel \<and> \<not> lq_sensitive q then
            State (\<lambda>(f, s). (skip, f, s\<lparr>ls_skipped := Suc (ls_skipped s)\<rparr>))
          else do {
            (f, s) \<leftarrow> State_Monad.get;
            if lq_limit q \<le> int (length (ls_entries s)) then State_Monad.return Skip_all
            else do {
              i \<leftarrow> in_files (os_stat p);
              (case i of
                 Inl _ \<Rightarrow> State_Monad.return Go_on
               | Inr n \<Rightarrow>
                   let size = (case n of FDir \<Rightarrow> dir_size p | FFile c _ \<Rightarrow> int (length c)) in
                   State (\<lambda>(f, s). (Go_on, f, s\<lparr>ls_entries := ls_entries s @ [\<lparr>le_path = rel, le_dir = d, le_size = size\<rparr>]\<rparr>)))
            }
          })"

definition base_path_of :: "gmap \<Rightarrow> string" where
  "base_path_of input = (if str_at input ''path'' = [] then ''.'' else str_at input ''path'')"

definition list_query_of :: "path \<Rightarrow> string \<Rightarrow> gmap \<Rightarrow> list_query" where
  "list_query_of base rel input =
     (let depth = get_int input ''max_depth'' 8 in
      \<lparr>lq_base = base, lq_rel = rel, lq_limit = positive_or (get_int input ''limit'' 500) 500,
       lq_depth = (if depth < 0 then 8 else depth), lq_sensitive = bool_at input ''include_sensitive''\<rparr>)"

record listing =
  lg_path :: string
  lg_entries :: "list_entry list"
  lg_skipped :: nat
  lg_truncated :: bool

text \<open>The outcome of a tool; None is a walk that would not end.\<close>

definition list_files :: "path \<Rightarrow> workspace \<Rightarrow> (path \<Rightarrow> int) \<Rightarrow> gmap \<Rightarrow> (fs_world, listing res option) state" where
  "list_files cwd ws dir_size input =
     (case resolve cwd ws (base_path_of input) of
        Inl e \<Rightarrow> State_Monad.return (Some (Inl e))
      | Inr (base, rel) \<Rightarrow>
          let q = list_query_of base rel input in State (\<lambda>f.
            let (r, f', s) = run_state (walk_tree (list_visit cwd ws dir_size q) base) (f, \<lparr>ls_entries = [], ls_skipped = 0\<rparr>)
            in (case r of
                  None \<Rightarrow> None
                | Some (Some e) \<Rightarrow> Some (Inl e)
                | Some None \<Rightarrow> Some (Inr \<lparr>lg_path = rel, lg_entries = sort_key le_path (ls_entries s), lg_skipped = ls_skipped s,
                                       lg_truncated = (lq_limit q \<le> int (length (ls_entries s)))\<rparr>), f')))"

section \<open>Searching\<close>

text \<open>\<open>utf8.Valid\<close>.\<close>

fun valid_bytes :: "nat list \<Rightarrow> bool" where
  "valid_bytes [] = True"
| "valid_bytes (a # s) =
     (if a < 128 then valid_bytes s
      else case s of
        [] \<Rightarrow> False
      | b # t \<Rightarrow>
          if 194 \<le> a \<and> a < 224 \<and> cont_byte b then valid_bytes t
          else (case t of
            [] \<Rightarrow> False
          | c # u \<Rightarrow>
              if 224 \<le> a \<and> a < 240 \<and> cont_byte b \<and> cont_byte c \<and> (a = 224 \<longrightarrow> 160 \<le> b) \<and> (a = 237 \<longrightarrow> b < 160) then valid_bytes u
              else (case u of
                [] \<Rightarrow> False
              | d # v \<Rightarrow>
                  if 240 \<le> a \<and> a < 245 \<and> cont_byte b \<and> cont_byte c \<and> cont_byte d \<and> (a = 240 \<longrightarrow> 144 \<le> b) \<and> (a = 244 \<longrightarrow> b < 144)
                  then valid_bytes v else False)))"

definition utf8_valid :: "string \<Rightarrow> bool" where
  "utf8_valid s = valid_bytes (map of_char s)"

definition looks_binary :: "string \<Rightarrow> bool" where
  "looks_binary data \<longleftrightarrow> CHR 0x00 \<in> set data \<or> \<not> utf8_valid data"

definition trim_line :: "string \<Rightarrow> string" where
  "trim_line l = (if length l \<le> 500 then l else take 500 l @ ''...'')"

definition is_symbol_char :: "nat \<Rightarrow> bool" where
  "is_symbol_char r \<longleftrightarrow> r = 95 \<or> is_letter r \<or> is_han r \<or> 48 \<le> r \<and> r \<le> 57"

text \<open>The text before the position, and the text from it on.\<close>

function symbol_from :: "string \<Rightarrow> string \<Rightarrow> string \<Rightarrow> bool" where
  "symbol_from token before rest =
     (if token = [] then False
      else case str_index rest token of
        None \<Rightarrow> False
      | Some i \<Rightarrow>
          let pre = before @ take i rest; post = drop (i + length token) rest in
          if (pre = [] \<or> \<not> is_symbol_char (last (runes pre))) \<and> (post = [] \<or> \<not> is_symbol_char (hd (runes post))) then True
          else symbol_from token (pre @ token) post)"
  by pat_completeness auto

termination
proof (relation "measure (\<lambda>(token, before, rest). length rest)", simp)
  fix token before rest :: string and i pre post
  assume "token \<noteq> []" "str_index rest token = Some i" "post = drop (i + length token) rest"
  moreover from this(2) have "rest \<noteq> [] \<or> token = []" by (cases rest) (auto split: if_splits)
  ultimately show "((token, pre @ token, post), token, before, rest) \<in> measure (\<lambda>(token, before, rest). length rest)"
    by (auto simp: Suc_le_eq)
qed

declare symbol_from.simps [simp del]

definition contains_symbol :: "string \<Rightarrow> string \<Rightarrow> bool" where
  "contains_symbol line token = symbol_from token [] line"

definition line_matches :: "bool \<Rightarrow> string \<Rightarrow> string \<Rightarrow> bool" where
  "line_matches symbol query line = (if symbol then contains_symbol line query else has_sub line query)"

text \<open>The lines a \<open>bufio.Scanner\<close> with a buffer of a mebibyte gives; None is the line that does not fit.\<close>

definition scanned :: "string \<Rightarrow> string option" where
  "scanned l = (if 1048576 \<le> length l then None else Some (trim_suffix l [CHR 0x0D]))"

definition scan_lines :: "string \<Rightarrow> string option list" where
  "scan_lines c = (let ls = split_on CHR 0x0A c in map scanned (if last ls = [] then butlast ls else ls))"

type_synonym line_match = "nat \<times> string"

text \<open>The matches of a file, at most \<open>limit\<close>; None when a line before the last match does not fit.\<close>

fun search_lines :: "bool \<Rightarrow> string \<Rightarrow> nat \<Rightarrow> nat \<Rightarrow> string option list \<Rightarrow> line_match list option" where
  "search_lines symbol query limit n [] = Some []"
| "search_lines symbol query limit n (None # ls) = None"
| "search_lines symbol query limit n (Some l # ls) =
     (if \<not> line_matches symbol query l then search_lines symbol query limit (Suc n) ls
      else if limit \<le> 1 then Some [(Suc n, trim_line l)]
      else map_option (\<lambda>ms. (Suc n, trim_line l) # ms) (search_lines symbol query (limit - 1) (Suc n) ls))"

definition search_file :: "path \<Rightarrow> bool \<Rightarrow> string \<Rightarrow> nat \<Rightarrow> (fs_world, line_match list option) state" where
  "search_file p symbol query limit = do {
     opened \<leftarrow> os_stat p;
     case opened of
       Inl _ \<Rightarrow> State_Monad.return None
     | Inr _ \<Rightarrow> do {
         h \<leftarrow> os_read p;
         let head = (case h of Inl _ \<Rightarrow> [] | Inr c \<Rightarrow> take 512 c);
         if looks_binary head then State_Monad.return (Some [])
         else do {
           r \<leftarrow> os_read p;
           State_Monad.return (case r of Inl _ \<Rightarrow> None | Inr c \<Rightarrow> search_lines symbol query limit 0 (scan_lines c))
         }
       }
   }"

record search_state =
  sv_matches :: "(string \<times> line_match) list"
  sv_skipped :: nat

record search_query =
  sq_base :: path
  sq_text :: string
  sq_symbol :: bool
  sq_limit :: int
  sq_sensitive :: bool

definition search_visit :: "path \<Rightarrow> workspace \<Rightarrow> search_query \<Rightarrow> search_state walker" where
  "search_visit cwd ws q p d e =
     (case e of
        Some err \<Rightarrow> State_Monad.return (Stop (os_err err))
      | None \<Rightarrow>
          if d then State_Monad.return (if p \<noteq> sq_base q \<and> should_skip_dir (last p) then Skip_dir else Go_on)
          else do {
            (f, s) \<leftarrow> State_Monad.get;
            let rel = ws_rel cwd ws p;
            if sq_limit q \<le> int (length (sv_matches s)) then State_Monad.return Skip_all
            else if ws_is_sensitive ws rel \<and> \<not> sq_sensitive q then
              State (\<lambda>(f, s). (Go_on, f, s\<lparr>sv_skipped := Suc (sv_skipped s)\<rparr>))
            else do {
              ms \<leftarrow> in_files (search_file p (sq_symbol q) (sq_text q) (nat (sq_limit q - int (length (sv_matches s)))));
              (case ms of
                 None \<Rightarrow> State_Monad.return Go_on
               | Some xs \<Rightarrow> State (\<lambda>(f, s). (Go_on, f, s\<lparr>sv_matches := sv_matches s @ map (Pair rel) xs\<rparr>)))
            }
          })"

definition search_query_of :: "path \<Rightarrow> bool \<Rightarrow> string \<Rightarrow> gmap \<Rightarrow> search_query" where
  "search_query_of base symbol query input =
     \<lparr>sq_base = base, sq_text = query, sq_symbol = symbol, sq_limit = positive_or (get_int input ''limit'' 100) 100,
      sq_sensitive = bool_at input ''include_sensitive''\<rparr>"

record search_result =
  se_path :: string
  se_query :: string
  se_matches :: "(string \<times> line_match) list"
  se_skipped :: nat

definition search_from :: "path \<Rightarrow> workspace \<Rightarrow> bool \<Rightarrow> string \<Rightarrow> gmap \<Rightarrow> (fs_world, search_result res option) state" where
  "search_from cwd ws symbol query input =
     (case resolve cwd ws (base_path_of input) of
        Inl e \<Rightarrow> State_Monad.return (Some (Inl e))
      | Inr (base, rel) \<Rightarrow>
          let q = search_query_of base symbol query input in State (\<lambda>f.
            let (r, f', s) = run_state (walk_tree (search_visit cwd ws q) base) (f, \<lparr>sv_matches = [], sv_skipped = 0\<rparr>)
            in (case r of
                  None \<Rightarrow> None
                | Some (Some e) \<Rightarrow> Some (Inl e)
                | Some None \<Rightarrow> Some (Inr \<lparr>se_path = rel, se_query = query, se_matches = sv_matches s, se_skipped = sv_skipped s\<rparr>), f')))"

definition search_text :: "path \<Rightarrow> workspace \<Rightarrow> gmap \<Rightarrow> (fs_world, search_result res option) state" where
  "search_text cwd ws input =
     (case get_string input ''query'' of
        Inl e \<Rightarrow> State_Monad.return (Some (Inl e))
      | Inr q \<Rightarrow> if q = [] then State_Monad.return (Some (Inl (Err ''query is required''))) else search_from cwd ws False q input)"

definition search_symbol :: "path \<Rightarrow> workspace \<Rightarrow> gmap \<Rightarrow> (fs_world, search_result res option) state" where
  "search_symbol cwd ws input =
     (let token = (if str_at input ''symbol'' = [] then str_at input ''query'' else str_at input ''symbol'') in
      if token = [] then State_Monad.return (Some (Inl (Err ''symbol is required''))) else search_from cwd ws True token input)"

end
