(* ===== verification/Workspace_Facts.thy ===== *)
theory Workspace_Facts
  imports Workspace_Walk
begin

text \<open>
  What a walk of the workspace guarantees: it ends, and what listings and searches report lies below the directory they
  were asked for, outside the skipped directories, within the limits and away from sensitive paths.
\<close>

section \<open>Nodes of a tree\<close>

definition node_at :: "ftree \<Rightarrow> path \<Rightarrow> bool \<Rightarrow> bool" where
  "node_at t p d \<longleftrightarrow> (\<exists>n. map_of t p = Some n \<and> d = (n = FDir))"

lemma dir_entries_node: "(c, d) \<in> set (dir_entries t p) \<Longrightarrow> node_at t (p @ [c]) d"
proof -
  assume "(c, d) \<in> set (dir_entries t p)"
  then obtain q n where q: "(q, n) \<in> set (AList.clearjunk t)" "q \<noteq> []" "butlast q = p" "c = last q" "d = (n = FDir)"
    by (auto simp: dir_entries_def List.map_filter_def split: if_splits)
  then have "q = p @ [c]" by (metis append_butlast_last_id)
  with q have "map_of (AList.clearjunk t) (p @ [c]) = Some n"
    by (metis distinct_clearjunk map_of_is_SomeI)
  with q(5) show ?thesis by (auto simp: node_at_def map_of_clearjunk)
qed

lemma lookup_node: "os_lookup t p = Inr n \<Longrightarrow> node_at t p (n = FDir)"
  by (auto simp: os_lookup_def node_at_def split: option.splits if_splits)

lemma node_depth: "node_at t p d \<Longrightarrow> length p \<le> tree_depth t"
proof -
  assume "node_at t p d"
  then obtain n where "(p, n) \<in> set t" by (auto simp: node_at_def dest: map_of_SomeD)
  then have "length p \<in> insert 0 (set (map (length \<circ> fst) t))" by force
  then show ?thesis unfolding tree_depth_def by (rule Max_ge [rotated]) simp
qed

section \<open>The contract of a walker\<close>

text \<open>
  A walker visits nodes of the tree at paths that satisfy \<open>V\<close>, leaves the files alone, keeps \<open>I\<close> of its state, lets the walk
  into a directory only where the entries satisfy \<open>V\<close> too, and gives up on errors.
\<close>

locale walk_contract =
  fixes visit :: "'s walker" and V :: "path \<Rightarrow> bool" and I :: "ftree \<Rightarrow> 's \<Rightarrow> bool"
  assumes visit_tree: "run_state (visit p d e) (f, s) = (v, f', s') \<Longrightarrow> fs_tree f' = fs_tree f"
    and visit_keeps: "run_state (visit p d None) (f, s) = (v, f', s') \<Longrightarrow> node_at (fs_tree f) p d \<Longrightarrow> V p \<Longrightarrow> I (fs_tree f) s \<Longrightarrow>
      I (fs_tree f) s'"
    and visit_enters: "run_state (visit p True None) (f, s) = (Go_on, f', s') \<Longrightarrow> V p \<Longrightarrow> V (p @ [c])"
    and visit_error: "run_state (visit p d (Some err)) (f, s) = (v, f', s') \<Longrightarrow> s' = s"
begin

lemma read_dir_result:
  "run_state (in_files (os_read_dir p) :: (fs_world \<times> 's, _) state) (f, s) = (r, f', s') \<Longrightarrow>
   fs_tree f' = fs_tree f \<and> s' = s \<and> (\<forall>es. r = Inr es \<longrightarrow> es = dir_entries (fs_tree f) p)"
  by (auto simp: in_files_def os_read_dir_def sys_def Let_def split: option.splits sum.splits fnode.splits prod.splits)

text \<open>What a walk that starts in a state with \<open>I\<close> leaves behind.\<close>

definition kept :: "fs_world \<Rightarrow> fs_world \<Rightarrow> 's \<Rightarrow> bool" where
  "kept f f' s' \<longleftrightarrow> fs_tree f' = fs_tree f \<and> I (fs_tree f) s'"

lemma walk_entries_spec:
  assumes dir: "\<And>p d f s r f' s'. run_state (walk_dir n visit p d) (f, s) = (r, f', s') \<Longrightarrow> node_at (fs_tree f) p d \<Longrightarrow> V p \<Longrightarrow>
      I (fs_tree f) s \<Longrightarrow> kept f f' s' \<and> (tree_depth (fs_tree f) < length p + n \<longrightarrow> r \<noteq> None)"
  shows "run_state (walk_entries n visit p es) (f, s) = (r, f', s') \<Longrightarrow>
    \<forall>c d. (c, d) \<in> set es \<longrightarrow> node_at (fs_tree f) (p @ [c]) d \<and> V (p @ [c]) \<Longrightarrow> I (fs_tree f) s \<Longrightarrow>
    kept f f' s' \<and> (tree_depth (fs_tree f) \<le> length p + n \<longrightarrow> r \<noteq> None)"
proof (induction es arbitrary: f s)
  case Nil
  then show ?case by (auto simp: kept_def)
next
  case (Cons x es)
  obtain c d where x: "x = (c, d)" by fastforce
  obtain v g s1 where v: "run_state (walk_dir n visit (p @ [c]) d) (f, s) = (v, g, s1)" by (metis prod_cases3)
  from dir [OF v] Cons.prems(2,3) x have k: "kept f g s1" and n: "tree_depth (fs_tree f) \<le> length p + n \<longrightarrow> v \<noteq> None"
    by auto
  show ?case
  proof (cases "v = Some Go_on")
    case True
    with Cons.prems(1) x v have rest: "run_state (walk_entries n visit p es) (g, s1) = (r, f', s')" by simp
    from k have "\<forall>c d. (c, d) \<in> set es \<longrightarrow> node_at (fs_tree g) (p @ [c]) d \<and> V (p @ [c])" "I (fs_tree g) s1"
      using Cons.prems(2) by (auto simp: kept_def)
    from Cons.IH [OF rest this] k show ?thesis by (simp add: kept_def)
  next
    case False
    with Cons.prems(1) x v k n show ?thesis by (auto simp: kept_def split: option.splits verdict.splits)
  qed
qed

lemma walk_dir_spec:
  "run_state (walk_dir n visit p d) (f, s) = (r, f', s') \<Longrightarrow> node_at (fs_tree f) p d \<Longrightarrow> V p \<Longrightarrow> I (fs_tree f) s \<Longrightarrow>
   kept f f' s' \<and> (tree_depth (fs_tree f) < length p + n \<longrightarrow> r \<noteq> None)"
proof (induction n arbitrary: p d f s r f' s')
  case 0
  with node_depth [of "fs_tree f" p d] show ?case by (auto simp: kept_def)
next
  case (Suc n)
  obtain v g s1 where v: "run_state (visit p d None) (f, s) = (v, g, s1)" by (metis prod_cases3)
  with Suc.prems visit_tree visit_keeps have k: "fs_tree g = fs_tree f" "I (fs_tree f) s1" by metis+
  show ?case
  proof (cases "v = Go_on \<and> d")
    case False
    with Suc.prems(1) v k show ?thesis by (auto simp: kept_def split: if_splits)
  next
    case True
    obtain es h s2 where e: "run_state (in_files (os_read_dir p)) (g, s1) = (es, h, s2)" by (metis prod_cases3)
    from read_dir_result [OF e] k have h: "fs_tree h = fs_tree f" "s2 = s1" "\<forall>xs. es = Inr xs \<longrightarrow> xs = dir_entries (fs_tree f) p"
      by simp_all
    show ?thesis
    proof (cases es)
      case (Inl err)
      obtain v' i s3 where i: "run_state (visit p d (Some err)) (h, s2) = (v', i, s3)" by (metis prod_cases3)
      with visit_tree visit_error have "fs_tree i = fs_tree h" "s3 = s2" by metis+
      with Suc.prems(1) v e Inl i True h k show ?thesis by (auto simp: kept_def split: if_splits)
    next
      case (Inr xs)
      with Suc.prems(1) v e True have w: "run_state (walk_entries n visit p xs) (h, s2) = (r, f', s')" by simp
      have "V (p @ [c])" for c using visit_enters v True Suc.prems(3) by metis
      then have "\<forall>c d. (c, d) \<in> set xs \<longrightarrow> node_at (fs_tree h) (p @ [c]) d \<and> V (p @ [c])"
        using h(1,3) Inr dir_entries_node by auto
      from walk_entries_spec [OF Suc.IH w this] h k show ?thesis by (simp add: kept_def)
    qed
  qed
qed

text \<open>A walk ends, and leaves the files alone and its state with \<open>I\<close>.\<close>

theorem walk_tree_spec:
  assumes "run_state (walk_tree visit base) (f, s) = (r, f', s')" "V base" "I (fs_tree f) s"
  shows "r \<noteq> None \<and> fs_tree f' = fs_tree f \<and> I (fs_tree f) s'"
proof -
  obtain st g s1 where st: "run_state (in_files (os_stat base)) (f, s) = (st, g, s1)" by (metis prod_cases3)
  then have g: "fs_tree g = fs_tree f" "s1 = s" "\<forall>n. st = Inr n \<longrightarrow> node_at (fs_tree f) base (n = FDir)"
    by (auto simp: in_files_def os_stat_def sys_def Let_def lookup_node split: option.splits sum.splits prod.splits)
  show ?thesis
  proof (cases st)
    case (Inl e)
    obtain v h s2 where v: "run_state (visit base False (Some e)) (g, s1) = (v, h, s2)" by (metis prod_cases3)
    with visit_tree visit_error have "fs_tree h = fs_tree g" "s2 = s1" by metis+
    with assms st Inl v g show ?thesis by (auto simp: walk_tree_def split: verdict.splits)
  next
    case (Inr n)
    let ?d = "Suc (Suc (tree_depth (fs_tree f)))"
    obtain v h s2 where v: "run_state (walk_dir ?d visit base (n = FDir)) (g, s1) = (v, h, s2)" by (metis prod_cases3)
    have "node_at (fs_tree g) base (n = FDir)" "I (fs_tree g) s1" using g Inr assms(3) by simp_all
    from walk_dir_spec [OF v this(1) assms(2) this(2)] g have "kept g h s2" "v \<noteq> None" by simp_all
    with assms(1) st Inr v g show ?thesis by (auto simp: walk_tree_def kept_def split: verdict.splits option.splits)
  qed
qed

end

section \<open>Listings\<close>

text \<open>A path the walk from \<open>base\<close> can reach: no directory it goes through is skipped.\<close>

definition reachable_path :: "path \<Rightarrow> path \<Rightarrow> bool" where
  "reachable_path base p \<longleftrightarrow> (\<exists>u. p = base @ u \<and> list_all (\<lambda>c. \<not> should_skip_dir c) (butlast u))"

lemma reachable_base [simp]: "reachable_path base base"
  by (simp add: reachable_path_def)

lemma reachable_snoc:
  assumes "reachable_path base p" "p \<noteq> base \<Longrightarrow> \<not> should_skip_dir (last p)"
  shows "reachable_path base (p @ [c])"
proof -
  from assms(1) obtain u where u: "p = base @ u" "list_all (\<lambda>c. \<not> should_skip_dir c) (butlast u)"
    by (auto simp: reachable_path_def)
  have "list_all (\<lambda>c. \<not> should_skip_dir c) u"
    using u assms(2) by (cases u rule: rev_cases) simp_all
  with u(1) show ?thesis unfolding reachable_path_def by (intro exI [of _ "u @ [c]"]) simp
qed

definition entry_ok :: "ftree \<Rightarrow> path \<Rightarrow> workspace \<Rightarrow> list_query \<Rightarrow> list_entry \<Rightarrow> bool" where
  "entry_ok t cwd ws q e \<longleftrightarrow>
     (\<exists>p. reachable_path (lq_base q) p \<and> p \<noteq> lq_base q \<and> node_at t p (le_dir e) \<and> le_path e = ws_rel cwd ws p \<and>
        \<not> (le_dir e \<and> should_skip_dir (last p))) \<and>
     path_depth (lq_rel q) (le_path e) \<le> lq_depth q \<and> (lq_sensitive q \<or> \<not> ws_is_sensitive ws (le_path e))"

definition list_inv :: "path \<Rightarrow> workspace \<Rightarrow> list_query \<Rightarrow> ftree \<Rightarrow> list_state \<Rightarrow> bool" where
  "list_inv cwd ws q t s \<longleftrightarrow> list_all (entry_ok t cwd ws q) (ls_entries s) \<and> int (length (ls_entries s)) \<le> max 0 (lq_limit q)"

lemma stat_result:
  "run_state (in_files (os_stat p) :: (fs_world \<times> 's, _) state) (f, s) = (r, f', s') \<Longrightarrow> fs_tree f' = fs_tree f \<and> s' = s"
  by (auto simp: in_files_def os_stat_def sys_def Let_def split: option.splits sum.splits prod.splits)

text \<open>The cases of a visit.\<close>

lemma list_visit_cases:
  assumes "run_state (list_visit cwd ws ds q p d e) (f, s) = (v, f', s')"
  obtains (error) err where "e = Some err" "v \<noteq> Go_on" "f' = f" "s' = s"
    | (quiet) "e = None" "f' = f" "ls_entries s' = ls_entries s" "v = Go_on \<and> d \<longrightarrow> p = lq_base q"
    | (failed) "e = None" "fs_tree f' = fs_tree f" "s' = s" "\<not> (d \<and> should_skip_dir (last p))"
    | (added) n where "e = None" "fs_tree f' = fs_tree f" "\<not> (d \<and> should_skip_dir (last p))" "p \<noteq> lq_base q"
        "path_depth (lq_rel q) (ws_rel cwd ws p) \<le> lq_depth q" "lq_sensitive q \<or> \<not> ws_is_sensitive ws (ws_rel cwd ws p)"
        "int (length (ls_entries s)) < lq_limit q"
        "ls_entries s' = ls_entries s @ [\<lparr>le_path = ws_rel cwd ws p, le_dir = d, le_size = n\<rparr>]"
proof -
  obtain st g s1 where st: "run_state (in_files (os_stat p)) (f, s) = (st, g, s1)" by (metis prod_cases3)
  from stat_result [OF this] have g: "fs_tree g = fs_tree f" "s1 = s" by simp_all
  show thesis
  proof (cases e)
    case (Some err)
    with assms error show thesis by (auto simp: list_visit_def)
  next
    case None
    show thesis
    proof (cases "p = lq_base q \<or> lq_depth q < path_depth (lq_rel q) (ws_rel cwd ws p) \<or> d \<and> should_skip_dir (last p) \<or>
        ws_is_sensitive ws (ws_rel cwd ws p) \<and> \<not> lq_sensitive q \<or> lq_limit q \<le> int (length (ls_entries s))")
      case True
      with None assms show thesis by (intro quiet) (auto simp: list_visit_def Let_def split: if_splits)
    next
      case go: False
      show thesis
      proof (cases st)
        case (Inl x)
        with None go st g assms show thesis by (intro failed) (auto simp: list_visit_def Let_def split: if_splits)
      next
        case (Inr x)
        with None go st g assms show thesis by (intro added) (auto simp: list_visit_def Let_def split: if_splits)
      qed
    qed
  qed
qed

interpretation listing: walk_contract "list_visit cwd ws ds q" "reachable_path (lq_base q)" "list_inv cwd ws q"
  for cwd ws ds q
proof
  fix p d e f s v f' s'
  assume v: "run_state (list_visit cwd ws ds q p d e) (f, s) = (v, f', s')"
  then show "fs_tree f' = fs_tree f" by (cases rule: list_visit_cases) simp_all
next
  fix p d f s v f' s'
  assume v: "run_state (list_visit cwd ws ds q p d None) (f, s) = (v, f', s')"
    and p: "node_at (fs_tree f) p d" "reachable_path (lq_base q) p" "list_inv cwd ws q (fs_tree f) s"
  from v show "list_inv cwd ws q (fs_tree f) s'"
  proof (cases rule: list_visit_cases)
    case (added n)
    then have "entry_ok (fs_tree f) cwd ws q \<lparr>le_path = ws_rel cwd ws p, le_dir = d, le_size = n\<rparr>"
      unfolding entry_ok_def using p by auto
    with added p(3) show ?thesis by (simp add: list_inv_def)
  qed (use p(3) in \<open>simp_all add: list_inv_def\<close>)
next
  fix p f s f' s' c
  assume v: "run_state (list_visit cwd ws ds q p True None) (f, s) = (Go_on, f', s')" and p: "reachable_path (lq_base q) p"
  from v show "reachable_path (lq_base q) (p @ [c])" by (cases rule: list_visit_cases) (auto intro: reachable_snoc [OF p] reachable_snoc [OF reachable_base])
next
  fix p d err f s v f' s'
  assume "run_state (list_visit cwd ws ds q p d (Some err)) (f, s) = (v, f', s')"
  then show "s' = s" by (cases rule: list_visit_cases) simp_all
qed

text \<open>C34: \<open>code.list_files\<close> always returns, and what it lists are nodes of the tree below the directory it resolved, at most
  as many as the limit and no deeper than the depth asked for, sorted by path, none of them in or named as a skipped
  directory and, unless the input includes them, none of them sensitive. No file changes.\<close>

theorem listing_is_bounded:
  "case run_state (list_files cwd ws ds input) f of
     (None, _) \<Rightarrow> False
   | (Some (Inl _), f') \<Rightarrow> fs_tree f' = fs_tree f
   | (Some (Inr g), f') \<Rightarrow> fs_tree f' = fs_tree f \<and>
       (\<exists>base. resolve cwd ws (base_path_of input) = Inr (base, lg_path g) \<and>
         (let q = list_query_of base (lg_path g) input in
          list_all (entry_ok (fs_tree f) cwd ws q) (lg_entries g) \<and> int (length (lg_entries g)) \<le> lq_limit q \<and>
          sorted (map le_path (lg_entries g))))"
proof (cases "resolve cwd ws (base_path_of input)")
  case (Inl e)
  then show ?thesis by (simp add: list_files_def)
next
  case (Inr x)
  then obtain base rel where x: "resolve cwd ws (base_path_of input) = Inr (base, rel)" by (cases x) simp
  define q where "q = list_query_of base rel input"
  let ?s = "\<lparr>ls_entries = [], ls_skipped = 0\<rparr>"
  obtain r f' s where w: "run_state (walk_tree (list_visit cwd ws ds q) base) (f, ?s) = (r, f', s)" by (metis prod_cases3)
  have q: "lq_base q = base" "0 < lq_limit q" by (simp_all add: q_def list_query_of_def Let_def positive_or_def)
  then have "list_inv cwd ws q (fs_tree f) ?s" by (simp add: list_inv_def)
  with listing.walk_tree_spec [OF w] q have k: "r \<noteq> None" "fs_tree f' = fs_tree f" "list_inv cwd ws q (fs_tree f) s" by auto
  from k(3) q(2) have "list_all (entry_ok (fs_tree f) cwd ws q) (sort_key le_path (ls_entries s))" "int (length (ls_entries s)) \<le> lq_limit q"
    by (auto simp: list_inv_def list_all_iff)
  with x w k show ?thesis by (auto simp: list_files_def q_def [symmetric] Let_def split: option.splits)
qed

section \<open>Searches\<close>

text \<open>Line \<open>k\<close> of a content, counted from one, holds what is searched for, and \<open>l\<close> is the line as reported.\<close>

definition line_found :: "bool \<Rightarrow> string \<Rightarrow> string \<Rightarrow> line_match \<Rightarrow> bool" where
  "line_found symbol query c m \<longleftrightarrow>
     (\<exists>i < length (scan_lines c). fst m = Suc i \<and>
        (\<exists>l. scan_lines c ! i = Some l \<and> line_matches symbol query l \<and> snd m = trim_line l))"

lemma search_lines_found:
  "search_lines symbol query limit n ls = Some ms \<Longrightarrow> 0 < limit \<Longrightarrow> length ms \<le> limit \<and>
   (\<forall>m \<in> set ms. \<exists>i < length ls. fst m = Suc (n + i) \<and> (\<exists>l. ls ! i = Some l \<and> line_matches symbol query l \<and> snd m = trim_line l))"
proof (induction symbol query limit n ls arbitrary: ms rule: search_lines.induct)
  case (3 symbol query limit n l ls)
  have shift: "\<exists>i < length (Some l # ls). fst m = Suc (n + i) \<and> (\<exists>x. (Some l # ls) ! i = Some x \<and> line_matches symbol query x \<and> snd m = trim_line x)"
    if "\<exists>i < length ls. fst m = Suc (Suc n + i) \<and> (\<exists>x. ls ! i = Some x \<and> line_matches symbol query x \<and> snd m = trim_line x)" for m
  proof -
    from that obtain i where "i < length ls" "fst m = Suc (Suc n + i) \<and> (\<exists>x. ls ! i = Some x \<and> line_matches symbol query x \<and> snd m = trim_line x)"
      by blast
    then show ?thesis by (intro exI [of _ "Suc i"]) simp
  qed
  show ?case
  proof (cases "line_matches symbol query l")
    case False
    with 3 shift show ?thesis by auto
  next
    case match: True
    have first: "\<exists>i < length (Some l # ls). Suc n = Suc (n + i) \<and> (\<exists>x. (Some l # ls) ! i = Some x \<and> line_matches symbol query x \<and> trim_line l = trim_line x)"
      using match by (intro exI [of _ 0]) simp
    show ?thesis
    proof (cases "limit \<le> 1")
      case True
      with 3(3,4) match first show ?thesis by auto
    next
      case False
      with 3(3) match obtain xs where xs: "search_lines symbol query (limit - 1) (Suc n) ls = Some xs" "ms = (Suc n, trim_line l) # xs"
        by auto
      from 3(2) [of xs] match False xs(1) have IH: "length xs \<le> limit - 1"
        "\<forall>m \<in> set xs. \<exists>i < length ls. fst m = Suc (Suc n + i) \<and> (\<exists>x. ls ! i = Some x \<and> line_matches symbol query x \<and> snd m = trim_line x)"
        by auto
      with xs(2) False first shift show ?thesis by auto
    qed
  qed
qed simp_all

lemma search_file_found:
  assumes "run_state (search_file p symbol query limit) f = (r, f')" "0 < limit"
  shows "fs_tree f' = fs_tree f \<and>
    (\<forall>xs. r = Some xs \<longrightarrow> length xs \<le> limit \<and>
       (xs = [] \<or> (\<exists>c m. map_of (fs_tree f) p = Some (FFile c m) \<and> list_all (line_found symbol query c) xs)))"
proof -
  have stat: "run_state (os_stat p) f = (st, g) \<Longrightarrow> fs_tree g = fs_tree f" for st f g
    by (auto simp: os_stat_def sys_def Let_def split: option.splits sum.splits prod.splits)
  have read: "run_state (os_read p) f = (st, g) \<Longrightarrow> fs_tree g = fs_tree f \<and> (\<forall>c. st = Inr c \<longrightarrow> (\<exists>m. map_of (fs_tree f) p = Some (FFile c m)))"
    for st f g
    by (auto simp: os_read_def sys_def Let_def os_lookup_def split: option.splits sum.splits prod.splits fnode.splits if_splits)
  obtain st g where st: "run_state (os_stat p) f = (st, g)" by fastforce
  obtain h g1 where h: "run_state (os_read p) g = (h, g1)" by fastforce
  obtain c g2 where c: "run_state (os_read p) g1 = (c, g2)" by fastforce
  from stat [OF st] read [OF h] read [OF c] have t: "fs_tree g = fs_tree f" "fs_tree g1 = fs_tree f" "fs_tree g2 = fs_tree f"
    and found: "\<And>x. c = Inr x \<Longrightarrow> \<exists>m. map_of (fs_tree f) p = Some (FFile x m)" by simp_all
  have ok: "length xs \<le> limit \<and> list_all (line_found symbol query x) xs" if "search_lines symbol query limit 0 (scan_lines x) = Some xs" for x xs
    using search_lines_found [OF that assms(2)] by (auto simp: list_all_iff line_found_def)
  from assms(1) st h c t found ok show ?thesis
    by (auto simp: search_file_def Let_def split: sum.splits if_splits)
qed

definition match_ok :: "ftree \<Rightarrow> path \<Rightarrow> workspace \<Rightarrow> search_query \<Rightarrow> string \<times> line_match \<Rightarrow> bool" where
  "match_ok t cwd ws q x \<longleftrightarrow>
     (\<exists>p c m. reachable_path (sq_base q) p \<and> map_of t p = Some (FFile c m) \<and> fst x = ws_rel cwd ws p \<and>
        line_found (sq_symbol q) (sq_text q) c (snd x)) \<and>
     (sq_sensitive q \<or> \<not> ws_is_sensitive ws (fst x))"

definition search_inv :: "path \<Rightarrow> workspace \<Rightarrow> search_query \<Rightarrow> ftree \<Rightarrow> search_state \<Rightarrow> bool" where
  "search_inv cwd ws q t s \<longleftrightarrow> list_all (match_ok t cwd ws q) (sv_matches s) \<and> int (length (sv_matches s)) \<le> max 0 (sq_limit q)"

lemma search_visit_cases:
  assumes "run_state (search_visit cwd ws q p d e) (f, s) = (v, f', s')"
  obtains (error) err where "e = Some err" "v \<noteq> Go_on" "f' = f" "s' = s"
    | (dir) "e = None" "d" "f' = f" "s' = s" "v = Go_on \<longrightarrow> p = sq_base q \<or> \<not> should_skip_dir (last p)"
    | (quiet) "e = None" "\<not> d" "fs_tree f' = fs_tree f" "sv_matches s' = sv_matches s"
    | (added) xs c m where "e = None" "\<not> d" "fs_tree f' = fs_tree f" "sq_sensitive q \<or> \<not> ws_is_sensitive ws (ws_rel cwd ws p)"
        "map_of (fs_tree f) p = Some (FFile c m)" "list_all (line_found (sq_symbol q) (sq_text q) c) xs"
        "int (length (sv_matches s) + length xs) \<le> sq_limit q" "sv_matches s' = sv_matches s @ map (Pair (ws_rel cwd ws p)) xs"
proof (cases e)
  case (Some err)
  with assms error show thesis by (auto simp: search_visit_def)
next
  case None
  show thesis
  proof (cases d)
    case True
    with None assms show thesis by (intro dir) (auto simp: search_visit_def split: if_splits)
  next
    case reg: False
    show thesis
    proof (cases "sq_limit q \<le> int (length (sv_matches s)) \<or> ws_is_sensitive ws (ws_rel cwd ws p) \<and> \<not> sq_sensitive q")
      case True
      with None reg assms show thesis by (intro quiet) (auto simp: search_visit_def Let_def split: if_splits)
    next
      case go: False
      let ?k = "nat (sq_limit q - int (length (sv_matches s)))"
      obtain r g where r: "run_state (search_file p (sq_symbol q) (sq_text q) ?k) f = (r, g)" by fastforce
      from go have k: "0 < ?k" by simp
      note found = search_file_found [OF r k]
      have run: "run_state (in_files (search_file p (sq_symbol q) (sq_text q) ?k)) (f, s) = (r, g, s)"
        using r by (simp add: in_files_def)
      show thesis
      proof (cases "\<exists>xs. r = Some xs \<and> xs \<noteq> []")
        case False
        with None reg go assms run found show thesis
          by (intro quiet) (auto simp: search_visit_def Let_def split: if_splits option.splits)
      next
        case True
        then obtain xs where xs: "r = Some xs" "xs \<noteq> []" by blast
        with found obtain c m where "map_of (fs_tree f) p = Some (FFile c m)" "list_all (line_found (sq_symbol q) (sq_text q) c) xs"
          "length xs \<le> ?k" by blast
        with None reg go assms run found xs show thesis
          by (intro added [of c m xs]) (auto simp: search_visit_def Let_def split: if_splits option.splits)
      qed
    qed
  qed
qed

interpretation searching: walk_contract "search_visit cwd ws q" "reachable_path (sq_base q)" "search_inv cwd ws q"
  for cwd ws q
proof
  fix p d e f s v f' s'
  assume "run_state (search_visit cwd ws q p d e) (f, s) = (v, f', s')"
  then show "fs_tree f' = fs_tree f" by (cases rule: search_visit_cases) simp_all
next
  fix p d f s v f' s'
  assume v: "run_state (search_visit cwd ws q p d None) (f, s) = (v, f', s')"
    and p: "node_at (fs_tree f) p d" "reachable_path (sq_base q) p" "search_inv cwd ws q (fs_tree f) s"
  from v show "search_inv cwd ws q (fs_tree f) s'"
  proof (cases rule: search_visit_cases)
    case (added xs c m)
    then have "list_all (match_ok (fs_tree f) cwd ws q) (map (Pair (ws_rel cwd ws p)) xs)"
      unfolding match_ok_def list_all_iff using p(2) by auto
    with added p(3) show ?thesis by (simp add: search_inv_def)
  qed (use p(3) in \<open>simp_all add: search_inv_def\<close>)
next
  fix p f s f' s' c
  assume v: "run_state (search_visit cwd ws q p True None) (f, s) = (Go_on, f', s')" and p: "reachable_path (sq_base q) p"
  from v show "reachable_path (sq_base q) (p @ [c])"
    by (cases rule: search_visit_cases) (auto intro: reachable_snoc [OF p] reachable_snoc [OF reachable_base])
next
  fix p d err f s v f' s'
  assume "run_state (search_visit cwd ws q p d (Some err)) (f, s) = (v, f', s')"
  then show "s' = s" by (cases rule: search_visit_cases) simp_all
qed

text \<open>C35: \<open>code.search\<close> and \<open>code.search_symbol\<close> always return, and every match they report is a line of a file below the
  directory they resolved, reached through no skipped directory, that contains what was searched for; there are at most
  as many as the limit, and none from a sensitive path unless the input includes them. No file changes.\<close>

theorem search_reports_lines:
  "case run_state (search_from cwd ws symbol query input) f of
     (None, _) \<Rightarrow> False
   | (Some (Inl _), f') \<Rightarrow> fs_tree f' = fs_tree f
   | (Some (Inr g), f') \<Rightarrow> fs_tree f' = fs_tree f \<and>
       (\<exists>base. resolve cwd ws (base_path_of input) = Inr (base, se_path g) \<and>
         (let q = search_query_of base symbol query input in
          list_all (match_ok (fs_tree f) cwd ws q) (se_matches g) \<and> int (length (se_matches g)) \<le> sq_limit q))"
proof (cases "resolve cwd ws (base_path_of input)")
  case (Inl e)
  then show ?thesis by (simp add: search_from_def)
next
  case (Inr x)
  then obtain base rel where x: "resolve cwd ws (base_path_of input) = Inr (base, rel)" by (cases x) simp
  define q where "q = search_query_of base symbol query input"
  let ?s = "\<lparr>sv_matches = [], sv_skipped = 0\<rparr>"
  obtain r f' s where w: "run_state (walk_tree (search_visit cwd ws q) base) (f, ?s) = (r, f', s)" by (metis prod_cases3)
  have q: "sq_base q = base" "0 < sq_limit q" by (simp_all add: q_def search_query_of_def positive_or_def)
  then have "search_inv cwd ws q (fs_tree f) ?s" by (simp add: search_inv_def)
  with searching.walk_tree_spec [OF w] q have k: "r \<noteq> None" "fs_tree f' = fs_tree f" "search_inv cwd ws q (fs_tree f) s" by auto
  with x w q(2) show ?thesis by (auto simp: search_from_def search_inv_def q_def [symmetric] Let_def split: option.splits)
qed

section \<open>Files that a search overlooks\<close>

text \<open>The first 512 bytes decide whether a file is binary; when they end inside a character of several bytes they are no valid
  text, and the file is not searched.\<close>

theorem split_character_hides_file:
  "looks_binary (take 512 (replicate 511 CHR ''a'' @ [CHR 0xC3, CHR 0xA9] @ rest))"
  "utf8_valid (replicate 511 CHR ''a'' @ [CHR 0xC3, CHR 0xA9])"
proof -
  have a: "valid_bytes (replicate n 97 @ xs) = valid_bytes xs" for n xs by (induction n) simp_all
  have "map of_char (replicate 511 CHR ''a'' @ xs) = replicate 511 97 @ map of_char xs" for xs by simp
  then show "looks_binary (take 512 (replicate 511 CHR ''a'' @ [CHR 0xC3, CHR 0xA9] @ rest))"
    "utf8_valid (replicate 511 CHR ''a'' @ [CHR 0xC3, CHR 0xA9])"
    by (simp_all add: looks_binary_def utf8_valid_def a cont_byte_def)
qed

end
