(* ===== verification/Project_Tools.thy ===== *)
theory Project_Tools
  imports Workspace_Facts
begin

text \<open>
  Project metadata and diff summaries, \<open>internal/tools/code/project.go\<close>: languages counted by a walk, configuration files,
  build and test commands, and what a diff changes. Reports are records or maps.
\<close>

section \<open>Languages\<close>

definition file_ext :: "string \<Rightarrow> string" where
  "file_ext name = (case last_index CHR ''.'' name of None \<Rightarrow> [] | Some i \<Rightarrow> drop i name)"

definition language_table :: "(string list \<times> string) list" where
  "language_table =
     [([''.go''], ''go''), ([''.js'', ''.jsx'', ''.mjs'', ''.cjs''], ''javascript''), ([''.ts'', ''.tsx''], ''typescript''),
      ([''.py''], ''python''), ([''.rs''], ''rust''), ([''.java''], ''java''), ([''.rb''], ''ruby''), ([''.php''], ''php''),
      ([''.cs''], ''csharp''), ([''.cpp'', ''.cc'', ''.cxx'', ''.hpp'', ''.h''], ''cpp''), ([''.c''], ''c''),
      ([''.sh'', ''.bash'', ''.zsh''], ''shell'')]"

definition language_for_path :: "string \<Rightarrow> string" where
  "language_for_path name =
     (case find (\<lambda>(exts, _). to_lower (file_ext name) \<in> set exts) language_table of None \<Rightarrow> [] | Some (_, l) \<Rightarrow> l)"

type_synonym language_counts = "(string \<times> nat) list"

definition count_language :: "language_counts \<Rightarrow> string \<Rightarrow> language_counts" where
  "count_language counts l = AList.update l (Suc (case map_of counts l of None \<Rightarrow> 0 | Some n \<Rightarrow> n)) counts"

record language_state =
  lc_counts :: language_counts
  lc_seen :: nat

definition language_visit :: "path \<Rightarrow> language_state walker" where
  "language_visit base p d e =
     (case e of
        Some err \<Rightarrow> State_Monad.return (Stop (os_err err))
      | None \<Rightarrow>
          if d then State_Monad.return (if p \<noteq> base \<and> should_skip_dir (last p) then Skip_dir else Go_on)
          else
            State (\<lambda>(f, s).
              let s = s\<lparr>lc_seen := Suc (lc_seen s)\<rparr>; l = language_for_path (if p = [] then [] else last p) in
              if 5000 < lc_seen s then (Skip_all, f, s)
              else if l = [] then (Go_on, f, s)
              else (Go_on, f, s\<lparr>lc_counts := count_language (lc_counts s) l\<rparr>)))"

text \<open>None is a walk that would not end.\<close>

definition detect_languages :: "path \<Rightarrow> (fs_world, language_counts res option) state" where
  "detect_languages base = State (\<lambda>f.
     let (r, f', s) = run_state (walk_tree (language_visit base) base) (f, \<lparr>lc_counts = [], lc_seen = 0\<rparr>)
     in (case r of None \<Rightarrow> None | Some (Some e) \<Rightarrow> Some (Inl e) | Some None \<Rightarrow> Some (Inr (lc_counts s)), f'))"

text \<open>The most frequent language; among equally frequent ones the first in alphabetical order.\<close>

definition dominant_language :: "language_counts \<Rightarrow> string" where
  "dominant_language counts =
     (case sort_key (\<lambda>x. - int (snd x)) (sort_key fst counts) of [] \<Rightarrow> ''unknown'' | x # _ \<Rightarrow> fst x)"

section \<open>The project\<close>

definition config_candidates :: "string list" where
  "config_candidates = [''go.mod'', ''go.work'', ''package.json'', ''pnpm-lock.yaml'', ''yarn.lock'', ''package-lock.json'',
     ''pyproject.toml'', ''requirements.txt'', ''Cargo.toml'', ''Makefile'', ''Dockerfile'', ''docker-compose.yml'']"

definition detect_config_files :: "path \<Rightarrow> (fs_world, string list) state" where
  "detect_config_files base = gather (map (\<lambda>c. listed_if c (file_exists base c)) config_candidates)"

definition detect_build_commands :: "script_decoder \<Rightarrow> path \<Rightarrow> (fs_world, string list) state" where
  "detect_build_commands dec base = do {
     cs \<leftarrow> gather
       [listed_if ''go build ./...'' (file_exists base ''go.mod''),
        listed_if ''npm run build'' (and_then_ask (file_exists base ''package.json'') (has_package_script dec base ''build'')),
        listed_if ''cargo build'' (file_exists base ''Cargo.toml''),
        listed_if ''make'' (file_exists base ''Makefile'')];
     State_Monad.return (unique_values cs)
   }"

record project_info =
  pr_path :: string
  pr_language :: string
  pr_counts :: language_counts
  pr_config :: "string list"
  pr_tests :: "string list"
  pr_builds :: "string list"
  pr_root :: string

definition inspect_project :: "path \<Rightarrow> workspace \<Rightarrow> script_decoder \<Rightarrow> gmap \<Rightarrow> (fs_world, project_info res option) state" where
  "inspect_project cwd ws dec input =
     (case resolve cwd ws (str_at input ''path'') of
        Inl e \<Rightarrow> State_Monad.return (Some (Inl e))
      | Inr (base, rel) \<Rightarrow> do {
          ls \<leftarrow> detect_languages base;
          case ls of
            None \<Rightarrow> State_Monad.return None
          | Some (Inl e) \<Rightarrow> State_Monad.return (Some (Inl e))
          | Some (Inr counts) \<Rightarrow> do {
              config \<leftarrow> detect_config_files base;
              tests \<leftarrow> detect_test_commands dec base;
              builds \<leftarrow> detect_build_commands dec base;
              State_Monad.return (Some (Inr
                \<lparr>pr_path = rel, pr_language = dominant_language counts, pr_counts = counts, pr_config = config, pr_tests = tests,
                 pr_builds = builds, pr_root = default_root (ws_root ws)\<rparr>))
            }
        })"

definition detect_language_tool :: "path \<Rightarrow> workspace \<Rightarrow> gmap \<Rightarrow> (fs_world, (string \<times> string \<times> language_counts) res option) state" where
  "detect_language_tool cwd ws input =
     (case resolve cwd ws (str_at input ''path'') of
        Inl e \<Rightarrow> State_Monad.return (Some (Inl e))
      | Inr (base, rel) \<Rightarrow> do {
          ls \<leftarrow> detect_languages base;
          State_Monad.return (case ls of
            None \<Rightarrow> None
          | Some (Inl e) \<Rightarrow> Some (Inl e)
          | Some (Inr counts) \<Rightarrow> Some (Inr (rel, dominant_language counts, counts)))
        })"

definition detect_test_command_tool :: "path \<Rightarrow> workspace \<Rightarrow> script_decoder \<Rightarrow> gmap \<Rightarrow> (fs_world, (string \<times> string list) res) state" where
  "detect_test_command_tool cwd ws dec input =
     (case resolve cwd ws (str_at input ''path'') of
        Inl e \<Rightarrow> State_Monad.return (Inl e)
      | Inr (base, rel) \<Rightarrow> do { cs \<leftarrow> detect_test_commands dec base; State_Monad.return (Inr (rel, cs)) })"

section \<open>Diffs\<close>

definition diff_stats :: "string \<Rightarrow> nat \<times> nat" where
  "diff_stats diff =
     (let ls = filter (\<lambda>l. \<not> has_prefix l ''+++'' \<and> \<not> has_prefix l ''---'') (split_on CHR 0x0A diff)
      in (length (filter (\<lambda>l. has_prefix l ''+'') ls), length (filter (\<lambda>l. has_prefix l ''-'') ls)))"

text \<open>\<open>strings.Count\<close> of a text that is not empty: occurrences that do not overlap.\<close>

function str_count :: "string \<Rightarrow> string \<Rightarrow> nat" where
  "str_count s x =
     (if x = [] then 0 else case str_index s x of None \<Rightarrow> 0 | Some i \<Rightarrow> Suc (str_count (drop (i + length x) s) x))"
  by pat_completeness auto

termination
proof (relation "measure (\<lambda>(s, x). length s)", simp)
  fix s x :: string and i
  assume "x \<noteq> []" "str_index s x = Some i"
  moreover from this(2) have "s \<noteq> [] \<or> x = []" by (cases s) (auto split: if_splits)
  ultimately show "((drop (i + length x) s, x), s, x) \<in> measure (\<lambda>(s, x). length s)" by (auto simp: Suc_le_eq)
qed

declare str_count.simps [simp del]

definition file_summary :: "file_patch \<Rightarrow> gmap" where
  "file_summary p =
     [(''path'', GStr (fp_path p)), (''old_path'', GStr (fp_old p)), (''new_path'', GStr (fp_new p)),
      (''operation'', GStr (fp_op p)), (''hunks'', int_val (length (fp_hunks p)))]"

text \<open>None when the parser does not return.\<close>

definition explain_diff :: "gmap \<Rightarrow> gmap go option" where
  "explain_diff input =
     (let files = (case parse_patch_files input of Inl _ \<Rightarrow> [] | Inr fs \<Rightarrow> fs); diff = str_at input ''diff'';
          (added, removed) = diff_stats diff; stats = [(''added_lines'', int_val added), (''removed_lines'', int_val removed)]
      in
      if diff = [] \<and> files \<noteq> [] then
        Some (Ret [(''changed_files'', GStrs (sort (map pt_path files))), (''file_count'', int_val (length files))])
      else
        map_option
          (\<lambda>r. case r of
              Panic \<Rightarrow> Panic
            | Fail _ \<Rightarrow> Ret (stats @ [(''file_count'', int_val (str_count diff ([CHR 0x0A] @ ''--- '')))])
            | Ret ps \<Rightarrow>
                Ret ([(''changed_files'', GStrs (sort (map fp_path ps))), (''file_count'', int_val (length ps))] @ stats @
                     [(''file_summaries'', GMaps (map file_summary ps))]))
          (parse_unified_diff diff))"

section \<open>The dominant language\<close>

lemma dominant_first:
  fixes counts :: language_counts
  assumes "counts \<noteq> []"
  obtains l n where "dominant_language counts = l" "(l, n) \<in> set counts"
    "\<And>l' n'. (l', n') \<in> set counts \<Longrightarrow> n' < n \<or> n' = n \<and> l \<le> l'"
proof -
  let ?key = "\<lambda>x :: string \<times> nat. - int (snd x)"
  let ?by_name = "sort_key fst counts"
  obtain x rest where xs: "sort_key ?key ?by_name = x # rest"
    using assms by (cases "sort_key ?key ?by_name") (metis set_empty set_sort, blast)
  have x: "x \<in> set counts" by (metis list.set_intros(1) set_sort xs)
  have least: "?key x \<le> ?key y" if "y \<in> set counts" for y
  proof -
    have "y \<in> set (x # rest)" using that by (metis set_sort xs)
    moreover have "sorted (map ?key (x # rest))" by (metis sorted_sort_key xs)
    ultimately show ?thesis by auto
  qed
  have "filter (\<lambda>y. ?key y = ?key x) ?by_name = x # filter (\<lambda>y. ?key y = ?key x) rest"
    using sort_key_stable [of ?key "?key x" ?by_name] xs by simp
  moreover have "sorted (map fst (filter (\<lambda>y. ?key y = ?key x) ?by_name))" by (simp add: sorted_filter)
  ultimately have named: "sorted (map fst (x # filter (\<lambda>y. ?key y = ?key x) rest))" by metis
  have first: "fst x \<le> fst y" if "y \<in> set counts" "?key y = ?key x" for y
  proof -
    have "y \<in> set (x # rest)" using that(1) by (metis set_sort xs)
    then have "y = x \<or> y \<in> set (filter (\<lambda>y. ?key y = ?key x) rest)" using that(2) by simp
    then show ?thesis
    proof
      assume "y \<in> set (filter (\<lambda>y. ?key y = ?key x) rest)"
      then have "fst y \<in> set (map fst (filter (\<lambda>y. ?key y = ?key x) rest))" by (metis image_eqI set_map)
      with named show ?thesis unfolding list.map sorted_simps by blast
    qed simp
  qed
  show thesis
  proof (rule that)
    show "dominant_language counts = fst x" by (simp add: dominant_language_def xs)
    show "(fst x, snd x) \<in> set counts" using x by simp
    show "n' < snd x \<or> n' = snd x \<and> fst x \<le> l'" if "(l', n') \<in> set counts" for l' n'
      using least [OF that] first [OF that] by auto
  qed
qed

lemma dominant_language_wins:
  "counts = [] \<and> dominant_language counts = ''unknown'' \<or>
   (\<exists>n. (dominant_language counts, n) \<in> set counts \<and>
      list_all (\<lambda>(l', n'). n' < n \<or> n' = n \<and> dominant_language counts \<le> l') counts)"
proof (cases "counts = []")
  case True
  then show ?thesis by (simp add: dominant_language_def)
next
  case False
  then obtain l n where "dominant_language counts = l" "(l, n) \<in> set counts"
    and "\<And>l' n'. (l', n') \<in> set counts \<Longrightarrow> n' < n \<or> n' = n \<and> l \<le> l'"
    by (rule dominant_first) blast
  then show ?thesis by (force simp: list_all_iff)
qed

section \<open>Counting\<close>

text \<open>The counts name languages of the table once each, and no more files than were looked at.\<close>

definition count_inv :: "language_state \<Rightarrow> bool" where
  "count_inv s \<longleftrightarrow> distinct (map fst (lc_counts s)) \<and> list_all (\<lambda>x. fst x \<in> set (map snd language_table)) (lc_counts s) \<and>
     sum_list (map snd (lc_counts s)) \<le> min 5000 (lc_seen s)"

lemma count_language_sum: "sum_list (map snd (count_language counts l)) = Suc (sum_list (map snd counts))"
  by (induction counts) (auto simp: count_language_def)

lemma count_language_keys: "fst ` set (count_language counts l) = insert l (fst ` set counts)"
  by (simp add: count_language_def dom_update)

lemma language_known: "language_for_path name = [] \<or> language_for_path name \<in> set (map snd language_table)"
proof (cases "find (\<lambda>(exts, _). to_lower (file_ext name) \<in> set exts) language_table")
  case (Some x)
  then have "x \<in> set language_table" using find_Some_iff by (metis nth_mem)
  with Some show ?thesis by (cases x) (force simp: language_for_path_def)
qed (simp add: language_for_path_def)

lemma count_inv_step:
  assumes "count_inv s" "lc_seen s < 5000" "l \<in> set (map snd language_table)"
  shows "count_inv (s\<lparr>lc_seen := Suc (lc_seen s), lc_counts := count_language (lc_counts s) l\<rparr>)"
proof -
  have "list_all (\<lambda>x. fst x \<in> set (map snd language_table)) (count_language (lc_counts s) l)"
    unfolding list_all_iff
  proof
    fix x
    assume "x \<in> set (count_language (lc_counts s) l)"
    then have "fst x \<in> insert l (fst ` set (lc_counts s))" unfolding count_language_keys [symmetric] by (rule imageI)
    then consider "fst x = l" | y where "y \<in> set (lc_counts s)" "fst x = fst y" by (metis imageE insertE)
    then show "fst x \<in> set (map snd language_table)"
      by cases (use assms(1,3) in \<open>simp_all add: count_inv_def list_all_iff\<close>)
  qed
  moreover have "distinct (map fst (count_language (lc_counts s) l))"
    using assms by (simp add: count_language_def distinct_update count_inv_def)
  moreover have "sum_list (map snd (count_language (lc_counts s) l)) \<le> min 5000 (Suc (lc_seen s))"
    using assms unfolding count_inv_def count_language_sum by linarith
  ultimately show ?thesis by (simp add: count_inv_def)
qed

lemma language_visit_cases:
  assumes "run_state (language_visit base p d e) (f, s) = (v, f', s')"
  shows "f' = f" "e \<noteq> None \<Longrightarrow> s' = s" "count_inv s \<Longrightarrow> count_inv s'"
proof -
  show "f' = f" "e \<noteq> None \<Longrightarrow> s' = s" using assms by (auto simp: language_visit_def Let_def split: option.splits if_splits)
  let ?l = "language_for_path (if p = [] then [] else last p)"
  assume s: "count_inv s"
  show "count_inv s'"
  proof (cases "e = None \<and> \<not> d \<and> lc_seen s < 5000 \<and> ?l \<noteq> []")
    case True
    with language_known [of "if p = [] then [] else last p"] have "?l \<in> set (map snd language_table)" by blast
    with count_inv_step [OF s, of ?l] True assms show ?thesis by (auto simp: language_visit_def Let_def split: if_splits)
  next
    case False
    have "count_inv (s\<lparr>lc_seen := Suc (lc_seen s)\<rparr>)"
      using s unfolding count_inv_def by (simp del: min_Suc2) linarith
    with False s assms show ?thesis by (auto simp: language_visit_def Let_def split: option.splits if_splits)
  qed
qed

interpretation counting: walk_contract "language_visit base" "\<lambda>_. True" "\<lambda>_. count_inv" for base
  by unfold_locales (auto dest: language_visit_cases)

text \<open>\<open>code.detect_language\<close> always returns and changes no file. It counts at most five thousand files, each for a language it
  knows; the language it reports is one of the counted ones, no language has more files, and among those with as many it is the
  first in alphabetical order. With nothing counted it reports \<open>unknown\<close>.\<close>

theorem detected_language_wins:
  "case run_state (detect_language_tool cwd ws input) f of
     (None, _) \<Rightarrow> False
   | (Some (Inl _), f') \<Rightarrow> fs_tree f' = fs_tree f
   | (Some (Inr (rel, l, counts)), f') \<Rightarrow> fs_tree f' = fs_tree f \<and>
       list_all (\<lambda>x. fst x \<in> set (map snd language_table)) counts \<and> sum_list (map snd counts) \<le> 5000 \<and>
       (counts = [] \<and> l = ''unknown'' \<or> (\<exists>n. (l, n) \<in> set counts \<and> list_all (\<lambda>(l', n'). n' < n \<or> n' = n \<and> l \<le> l') counts))"
proof (cases "resolve cwd ws (str_at input ''path'')")
  case (Inl e)
  then show ?thesis by (simp add: detect_language_tool_def)
next
  case (Inr x)
  then obtain base rel where x: "resolve cwd ws (str_at input ''path'') = Inr (base, rel)" by (cases x) simp
  let ?s = "\<lparr>lc_counts = [], lc_seen = 0\<rparr>"
  obtain r f' s where w: "run_state (walk_tree (language_visit base) base) (f, ?s) = (r, f', s)" by (metis prod_cases3)
  have "count_inv ?s" by (simp add: count_inv_def)
  with counting.walk_tree_spec [OF w] have k: "r \<noteq> None" "fs_tree f' = fs_tree f" "count_inv s" by auto
  with x w dominant_language_wins [of "lc_counts s"] show ?thesis
    by (auto simp: detect_language_tool_def detect_languages_def count_inv_def split: option.splits)
qed

end
