(* ===== verification/Skill_Manifest.thy ===== *)
theory Skill_Manifest
  imports Go_Text Regex
begin

text \<open>
  The manifest of a local skill, \<open>internal/tools/skills/manifest.go\<close>: its fields, the defaults \<open>Normalize\<close> fills in and the
  checks of \<open>ValidateManifest\<close>; and the subset of JSON Schema in which it describes its input, \<open>schemas.go\<close>. What YAML
  makes of the file is given: a manifest is the record it decodes to. A nil schema is the empty one.
\<close>

section \<open>Manifests\<close>

record skill_runtime =
  rt_type :: string
  rt_command :: string
  rt_entry :: string
  rt_args :: "string list"
  rt_cwd :: string
  rt_input :: string
  rt_output :: string
  rt_timeout :: int

record skill_perms =
  sk_read :: "string list"
  sk_write :: "string list"
  sk_shell :: bool
  sk_net :: bool
  sk_hosts :: "string list"
  sk_env :: "string list"
  sk_allow_shell :: bool
  sk_allow_mcp :: bool
  sk_max_runtime :: int
  sk_max_output :: int

record manifest =
  mf_id :: string
  mf_name :: string
  mf_version :: string
  mf_desc :: string
  mf_runtime :: skill_runtime
  mf_input :: gmap
  mf_output :: gmap
  mf_effects :: "string list"
  mf_approval :: string
  mf_perms :: skill_perms
  mf_profile :: string

definition process_max_output :: int where
  "process_max_output = 1048576"

section \<open>Defaults\<close>

definition normalize_string_list :: "string list \<Rightarrow> bool \<Rightarrow> string list" where
  "normalize_string_list items upper =
     uniq_from [] (map (\<lambda>x. if upper then to_upper x else x) (filter (\<lambda>x. x \<noteq> []) (map trim_space items)))"

definition normalize_path_list :: "string list \<Rightarrow> string list" where
  "normalize_path_list items = normalize_string_list items False"

definition or_str :: "string \<Rightarrow> string \<Rightarrow> string" where
  "or_str s d = (if s = [] then d else s)"

definition positive_int :: "int \<Rightarrow> int \<Rightarrow> int" where
  "positive_int n d = (if n \<le> 0 then d else n)"

definition normalize_runtime :: "skill_runtime \<Rightarrow> skill_runtime" where
  "normalize_runtime r =
     \<lparr>rt_type = to_lower (trim_space (rt_type r)),
      rt_command = or_str (trim_space (rt_command r)) (trim_space (rt_entry r)),
      rt_entry = trim_space (rt_entry r),
      rt_args = map trim_space (rt_args r),
      rt_cwd = or_str (trim_space (rt_cwd r)) ''.'',
      rt_input = or_str (to_lower (trim_space (rt_input r))) ''json_stdin'',
      rt_output = or_str (to_lower (trim_space (rt_output r))) ''json_stdout'',
      rt_timeout = positive_int (rt_timeout r) 30\<rparr>"

definition normalize_perms :: "int \<Rightarrow> skill_perms \<Rightarrow> skill_perms" where
  "normalize_perms timeout p =
     (let reads = normalize_path_list (sk_read p) in
      \<lparr>sk_read = (if reads = [] then [''.''] else reads),
       sk_write = normalize_path_list (sk_write p),
       sk_shell = sk_shell p,
       sk_net = sk_net p,
       sk_hosts = normalize_string_list (sk_hosts p) False,
       sk_env = normalize_string_list (sk_env p) True,
       sk_allow_shell = (sk_shell p \<or> sk_allow_shell p),
       sk_allow_mcp = sk_allow_mcp p,
       sk_max_runtime = positive_int (sk_max_runtime p) timeout,
       sk_max_output = positive_int (sk_max_output p) process_max_output\<rparr>)"

definition fill_manifest :: "manifest \<Rightarrow> manifest" where
  "fill_manifest m =
     (let rt = normalize_runtime (mf_runtime m); effects = normalize_string_list (mf_effects m) False in
      \<lparr>mf_id = trim_space (mf_id m), mf_name = trim_space (mf_name m), mf_version = trim_space (mf_version m),
       mf_desc = trim_space (mf_desc m), mf_runtime = rt, mf_input = mf_input m, mf_output = mf_output m,
       mf_effects = (if effects = [] then [''unknown.effect''] else effects),
       mf_approval = or_str (to_lower (trim_space (mf_approval m))) ''auto'',
       mf_perms = normalize_perms (rt_timeout rt) (mf_perms m),
       mf_profile = or_str (to_lower (trim_space (mf_profile m))) ''restricted''\<rparr>)"

definition effective_effects :: "manifest \<Rightarrow> string list" where
  "effective_effects m = (if mf_effects m = [] then [''unknown.effect''] else mf_effects m)"

section \<open>Schemas\<close>

definition need :: "bool \<Rightarrow> string \<Rightarrow> unit res" where
  "need b text' = (if b then Inr () else Inl (Err text'))"

text \<open>A sequence of checks stops at the first that fails.\<close>

fun all_ok :: "unit res list \<Rightarrow> unit res" where
  "all_ok [] = Inr ()"
| "all_ok (Inl e # cs) = Inl e"
| "all_ok (Inr _ # cs) = all_ok cs"

definition under_label :: "string \<Rightarrow> 'a res \<Rightarrow> 'a res" where
  "under_label label r = (case r of Inl e \<Rightarrow> Inl (Err (label @ '': '' @ error_text e)) | Inr x \<Rightarrow> Inr x)"

definition map_values :: "gval \<Rightarrow> gmap res" where
  "map_values raw = (case raw of GNil \<Rightarrow> Inr [] | GMap kvs \<Rightarrow> Inr kvs | _ \<Rightarrow> Inl (Err ''must be an object''))"

text \<open>\<open>schema[key]\<close>: nil when the key is missing.\<close>

definition val_at :: "gmap \<Rightarrow> string \<Rightarrow> gval" where
  "val_at m k = (case map_of m k of None \<Rightarrow> GNil | Some v \<Rightarrow> v)"

definition string_slice :: "gval \<Rightarrow> string list res" where
  "string_slice raw =
     (case raw of
        GNil \<Rightarrow> Inr []
      | GStrs xs \<Rightarrow> Inr xs
      | GList vs \<Rightarrow>
          (if list_all (\<lambda>v. case v of GStr _ \<Rightarrow> True | _ \<Rightarrow> False) vs
           then Inr (map (\<lambda>v. case v of GStr s \<Rightarrow> s | _ \<Rightarrow> []) vs)
           else Inl (Err ''must contain only strings''))
      | _ \<Rightarrow> Inl (Err ''must be an array of strings''))"

text \<open>Every schema inside a schema is smaller.\<close>

lemma in_map_size: "(k, v) \<in> set m \<Longrightarrow> Suc (size v) < size (GMap m)"
  by (induction m) fastforce+

lemma map_values_size: "map_values v = Inr m \<Longrightarrow> size (GMap m) \<le> Suc (size v)"
  by (cases v) (auto simp: map_values_def)

lemma child_size: "(k, v) \<in> set m \<Longrightarrow> map_values v = Inr child \<Longrightarrow> size (GMap child) < size (GMap m)"
  using in_map_size map_values_size by (meson le_less_trans)

lemma item_size: "map_of m k = Some v \<Longrightarrow> map_values v = Inr child \<Longrightarrow> size (GMap child) < size (GMap m)"
  using child_size map_of_SomeD by metis

lemma prop_size:
  "map_of m k = Some raw \<Longrightarrow> map_values raw = Inr props \<Longrightarrow> (c, v) \<in> set (key_sorted props) \<Longrightarrow> map_values v = Inr child \<Longrightarrow>
   size (GMap child) < size (GMap m)"
  using item_size child_size set_key_sorted_subset by (meson less_trans subsetD)

function validate_schema_node :: "gmap \<Rightarrow> string \<Rightarrow> unit res" where
  "validate_schema_node schema p =
     (let t = str_at schema ''type'' in
      if t = [] then Inl (Err (p @ ''.type is required''))
      else if t = ''object'' then
        all_ok
          [(case map_of schema ''properties'' of
              None \<Rightarrow> Inr ()
            | Some raw \<Rightarrow>
                (case map_values raw of
                   Inl e \<Rightarrow> Inl (Err (p @ ''.properties: '' @ error_text e))
                 | Inr props \<Rightarrow>
                     all_ok (map (\<lambda>(k, v). case map_values v of
                         Inl e \<Rightarrow> Inl (Err (p @ ''.properties.'' @ k @ '': '' @ error_text e))
                       | Inr child \<Rightarrow> validate_schema_node child (p @ ''.properties.'' @ k)) (key_sorted props)))),
           (case map_of schema ''required'' of
              None \<Rightarrow> Inr ()
            | Some raw \<Rightarrow> under_label (p @ ''.required'') (map_sum id (\<lambda>_. ()) (string_slice raw)))]
      else if t = ''array'' then
        (case map_of schema ''items'' of
           None \<Rightarrow> Inr ()
         | Some raw \<Rightarrow>
             (case map_values raw of
                Inl e \<Rightarrow> Inl (Err (p @ ''.items: '' @ error_text e))
              | Inr child \<Rightarrow> validate_schema_node child (p @ ''.items'')))
      else need (t \<in> {''string'', ''integer'', ''number'', ''boolean''}) (p @ ''.type '' @ quote t @ '' is unsupported''))"
  by pat_completeness auto

termination
  by (relation "measure (\<lambda>(schema, p). size (GMap schema))", simp_all only: in_measure split wf_measure)
    (metis prop_size, metis item_size)

declare validate_schema_node.simps [simp del]

definition validate_schema_document :: "gmap \<Rightarrow> unit res" where
  "validate_schema_document schema = (if schema = [] then Inr () else validate_schema_node schema ''$'')"

definition is_integer :: "gval \<Rightarrow> bool" where
  "is_integer v = (case v of GInt _ \<Rightarrow> True | GFloat r \<Rightarrow> of_int \<lfloor>r\<rfloor> = r | _ \<Rightarrow> False)"

definition is_number :: "gval \<Rightarrow> bool" where
  "is_number v = (case v of GInt _ \<Rightarrow> True | GFloat _ \<Rightarrow> True | _ \<Rightarrow> False)"

definition is_slice :: "gval \<Rightarrow> bool" where
  "is_slice v = (case v of GList _ \<Rightarrow> True | GStrs _ \<Rightarrow> True | GMaps _ \<Rightarrow> True | _ \<Rightarrow> False)"

text \<open>The properties of an object are checked in the order of their names.\<close>

lemma schema_size:
  "map_values (val_at schema k) = Inr props \<Longrightarrow> map_of props c = Some v \<Longrightarrow> map_values v = Inr child \<Longrightarrow>
   size (GMap child) < size (GMap schema)"
  using item_size [of schema k _ props] item_size [of props c v child]
  by (cases "map_of schema k") (fastforce simp: val_at_def map_values_def, simp add: val_at_def)

function validate_value :: "gmap \<Rightarrow> gval \<Rightarrow> string \<Rightarrow> unit res" where
  "validate_value schema v p =
     (let t = str_at schema ''type'' in
      if t = ''object'' then
        (case v of
           GMap obj \<Rightarrow>
             (case string_slice (val_at schema ''required'') of
                Inl e \<Rightarrow> Inl (Err (p @ ''.required: '' @ error_text e))
              | Inr keys \<Rightarrow>
                  all_ok
                    (map (\<lambda>k. need (map_of obj k \<noteq> None) (p @ ''.'' @ k @ '' is required'')) keys @
                     [case map_values (val_at schema ''properties'') of
                        Inl e \<Rightarrow> Inl (Err (p @ ''.properties: '' @ error_text e))
                      | Inr props \<Rightarrow>
                          all_ok (map (\<lambda>(k, item). case map_of props k of
                              None \<Rightarrow> Inr ()
                            | Some child_schema \<Rightarrow>
                                (case map_values child_schema of
                                   Inl e \<Rightarrow> Inl (Err (p @ ''.'' @ k @ '': '' @ error_text e))
                                 | Inr child \<Rightarrow> validate_value child item (p @ ''.'' @ k))) (key_sorted obj))]))
         | _ \<Rightarrow> Inl (Err (p @ '' must be an object'')))
      else if t = ''array'' then need (is_slice v) (p @ '' must be an array'')
      else if t = ''string'' then need (case v of GStr _ \<Rightarrow> True | _ \<Rightarrow> False) (p @ '' must be a string'')
      else if t = ''integer'' then need (is_integer v) (p @ '' must be an integer'')
      else if t = ''number'' then need (is_number v) (p @ '' must be a number'')
      else if t = ''boolean'' then need (case v of GBool _ \<Rightarrow> True | _ \<Rightarrow> False) (p @ '' must be a boolean'')
      else Inl (Err (p @ ''.type '' @ quote t @ '' is unsupported'')))"
  by pat_completeness auto

termination
  by (relation "measure (\<lambda>(schema, v, p). size (GMap schema))", simp_all only: in_measure split wf_measure) (metis schema_size)

declare validate_value.simps [simp del]

definition validate_input :: "gmap \<Rightarrow> gmap \<Rightarrow> unit res" where
  "validate_input schema input = (if schema = [] then Inr () else validate_value schema (GMap input) ''$'')"

section \<open>Checks\<close>

text \<open>\<open>^(\*\.)?([a-zA-Z0-9-]+\.)*[a-zA-Z0-9-]+(:[0-9]{1,5})?$\<close>: a match of the whole text.\<close>

definition label_re :: regex where
  "label_re = re_plus (one_of [(CHR ''a'', CHR ''z''), (CHR ''A'', CHR ''Z''), (CHR ''0'', CHR ''9''), (CHR ''-'', CHR ''-'')])"

definition host_re :: regex where
  "host_re = re_seq
     [re_opt (RGroup 1 (lit ''*.'')),
      re_many (RGroup 2 (RSeq label_re (lit ''.''))),
      label_re,
      re_opt (RGroup 3 (RSeq (lit '':'')
        (RAlt (re_exactly 5 (one_of [(CHR ''0'', CHR ''9'')])) (RAlt (re_exactly 4 (one_of [(CHR ''0'', CHR ''9'')]))
          (RAlt (re_exactly 3 (one_of [(CHR ''0'', CHR ''9'')])) (RAlt (re_exactly 2 (one_of [(CHR ''0'', CHR ''9'')]))
            (one_of [(CHR ''0'', CHR ''9'')])))))))]"

definition whole_match :: "regex \<Rightarrow> string \<Rightarrow> bool" where
  "whole_match r s \<longleftrightarrow> list_ex (\<lambda>(b, rest, gs). rest = []) (rmatch r ([], s, []))"

definition is_valid_host_pattern :: "string \<Rightarrow> bool" where
  "is_valid_host_pattern h =
     (let host = trim_space h in
      if host = [] \<or> has_sub host ''://'' \<or> has_sub host ''/'' \<or> has_sub host '' '' then False
      else host = ''localhost'' \<or> whole_match host_re host)"

definition is_valid_env_name :: "string \<Rightarrow> bool" where
  "is_valid_env_name name \<longleftrightarrow>
     name \<noteq> [] \<and> \<not> is_digit (hd name) \<and>
     list_all (\<lambda>c. c = CHR ''_'' \<or> (CHR ''A'' \<le> c \<and> c \<le> CHR ''Z'') \<or> is_digit c) name"

definition has_effect_prefix :: "string list \<Rightarrow> string \<Rightarrow> bool" where
  "has_effect_prefix effects p \<longleftrightarrow> list_ex (\<lambda>e. has_prefix e p) effects"

definition has_any_effect :: "string list \<Rightarrow> string list \<Rightarrow> bool" where
  "has_any_effect effects allowed \<longleftrightarrow> list_ex (\<lambda>e. e \<in> set allowed) effects"

definition path_escapes_root :: "string \<Rightarrow> bool" where
  "path_escapes_root item \<longleftrightarrow> go_clean item = ''..'' \<or> has_prefix (go_clean item) ''../''"

definition validate_path_list :: "string \<Rightarrow> string list \<Rightarrow> unit res" where
  "validate_path_list field items =
     all_ok (map (\<lambda>item. all_ok
       [need (item \<noteq> []) (field @ '' contains an empty path''),
        need (CHR 0x00 \<notin> set item) (field @ '' contains an invalid path''),
        need (\<not> path_escapes_root item) (field @ '' path '' @ quote item @ '' escapes the skill root'')]) items)"

definition runtime_checks :: "manifest \<Rightarrow> unit res list" where
  "runtime_checks m =
     (let rt = mf_runtime m in
      [need (mf_id m \<noteq> []) ''skill id is required'',
       need (mf_version m \<noteq> []) ''skill version is required'',
       need (rt_type rt \<noteq> []) ''skill runtime.type is required'',
       need (rt_command rt \<noteq> []) ''skill runtime.command is required'',
       need (rt_type rt \<in> {''executable'', ''script'', ''go''}) (''unsupported skill runtime.type: '' @ rt_type rt),
       need (rt_input rt \<in> {''json_stdin'', ''args'', ''env''}) (''unsupported skill runtime.input_mode: '' @ rt_input rt),
       need (rt_output rt \<in> {''json_stdout'', ''text''}) (''unsupported skill runtime.output_mode: '' @ rt_output rt),
       need (mf_approval m \<in> {''auto'', ''require''}) (''unsupported skill approval.default: '' @ mf_approval m),
       need (mf_profile m \<in> {''restricted'', ''trusted_local'', ''best_effort_local'', ''linux_isolated''})
         (''unsupported skill sandbox.profile: '' @ mf_profile m),
       need (0 < rt_timeout rt) ''skill runtime.timeout_seconds must be > 0''])"

definition permission_checks :: "manifest \<Rightarrow> unit res list" where
  "permission_checks m =
     (let p = mf_perms m in
      [need (0 < sk_max_runtime p) ''skill permissions.process.max_runtime_seconds must be > 0'',
       need (0 < sk_max_output p) ''skill permissions.process.max_output_bytes must be > 0'',
       validate_path_list ''permissions.filesystem.read'' (sk_read p),
       validate_path_list ''permissions.filesystem.write'' (sk_write p),
       need (sk_net p \<or> sk_hosts p = []) ''permissions.network.allow_hosts requires permissions.network.enabled=true''] @
      map (\<lambda>h. need (is_valid_host_pattern h) (''permissions.network.allow_hosts contains invalid host '' @ quote h)) (sk_hosts p) @
      map (\<lambda>e. need (is_valid_env_name e) (''permissions.env.allow contains invalid env name '' @ quote e)) (sk_env p) @
      [under_label ''invalid input_schema'' (validate_schema_document (mf_input m)),
       under_label ''invalid output_schema'' (validate_schema_document (mf_output m))])"

definition effect_checks :: "manifest \<Rightarrow> unit res list" where
  "effect_checks m =
     (let p = mf_perms m; es = mf_effects m in
      [need (\<not> sk_net p \<or> has_effect_prefix es ''network.'') ''permissions.network.enabled requires a network.* effect declaration'',
       need (sk_write p = [] \<or> has_any_effect es [''fs.write'', ''code.modify'', ''config.modify'', ''memory.modify''])
         ''permissions.filesystem.write requires a write-related effect declaration'',
       need (\<not> sk_allow_shell p \<or> has_effect_prefix es ''shell.'' \<or> has_effect_prefix es ''process.'')
         ''permissions.tools.allow_shell requires a shell/process effect declaration'',
       need (\<not> sk_allow_mcp p \<or> has_effect_prefix es ''mcp.'') ''permissions.tools.allow_mcp requires an mcp.* effect declaration''])"

definition validate_manifest :: "manifest \<Rightarrow> unit res" where
  "validate_manifest m = all_ok (runtime_checks m @ permission_checks m @ effect_checks m)"

definition normalize_manifest :: "manifest \<Rightarrow> manifest res" where
  "normalize_manifest m =
     (case validate_manifest (fill_manifest m) of Inl e \<Rightarrow> Inl e | Inr _ \<Rightarrow> Inr (fill_manifest m))"

end
