(* ===== verification/Skill_Plan.thy ===== *)
theory Skill_Plan
  imports Skill_Manifest File_System
begin

text \<open>
  How a skill will be run, \<open>internal/tools/skills/execution_plan.go\<close>: the sandbox that is chosen for a manifest, the limits and
  the scope of files it gets, and the request that is handed to the sandbox. The program is the one for Linux
  (\<open>sandbox_linux.go\<close>); what the kernel offers, the environment and the working directory are those of a host that is
  given. Files are looked at through the file system of \<open>File_System\<close>.
\<close>

section \<open>Calls that return a value or an error\<close>

definition try_bind :: "('s, 'a res) state \<Rightarrow> ('a \<Rightarrow> ('s, 'b res) state) \<Rightarrow> ('s, 'b res) state" where
  "try_bind m f = State_Monad.bind m (\<lambda>r. case r of Inl e \<Rightarrow> State_Monad.return (Inl e) | Inr x \<Rightarrow> f x)"

abbreviation of_res :: "'a res \<Rightarrow> ('s, 'a res) state" where
  "of_res r \<equiv> State_Monad.return r"

definition of_os :: "(fs_world, os_error + 'a) state \<Rightarrow> (fs_world, 'a res) state" where
  "of_os m = State_Monad.bind m (\<lambda>r. State_Monad.return (case r of Inl e \<Rightarrow> Inl (os_err e) | Inr x \<Rightarrow> Inr x))"

lemma try_bindE:
  assumes "run_state (try_bind m f) w = (Inr y, w')"
  obtains x w1 where "run_state m w = (Inr x, w1)" "run_state (f x) w1 = (Inr y, w')"
proof -
  obtain r w1 where "run_state m w = (r, w1)" by fastforce
  with assms that show thesis by (cases r) (auto simp: try_bind_def)
qed

lemma try_bind_run:
  "run_state (try_bind m f) w = (case run_state m w of (Inl e, w1) \<Rightarrow> (Inl e, w1) | (Inr x, w1) \<Rightarrow> run_state (f x) w1)"
  by (auto simp: try_bind_def split: prod.splits sum.splits)

lemma of_osE:
  assumes "run_state (of_os m) w = (Inr y, w')"
  shows "run_state m w = (Inr y, w')"
proof -
  obtain r w1 where "run_state m w = (r, w1)" by fastforce
  with assms show ?thesis by (cases r) (auto simp: of_os_def)
qed

section \<open>The host and its sandboxes\<close>

record host =
  ho_cwd :: path
  ho_env :: "string \<Rightarrow> string option"
  ho_userns :: bool
  ho_superuser :: bool
  ho_clone :: "string option"
  ho_max_ns :: "string option"

record sandbox =
  sb_name :: string
  sb_supports :: "string \<Rightarrow> bool"

definition local_restricted :: sandbox where
  "local_restricted = \<lparr>sb_name = ''local_restricted'', sb_supports = (\<lambda>p. p \<in> {''best_effort_local'', ''trusted_local''})\<rparr>"

definition linux_isolated :: sandbox where
  "linux_isolated = \<lparr>sb_name = ''linux_isolated'', sb_supports = (\<lambda>p. p \<in> {''restricted'', ''linux_isolated''})\<rparr>"

text \<open>\<open>strconv.ParseInt\<close> gives zero: digits zero after at most one sign.\<close>

definition reads_zero :: "string \<Rightarrow> bool" where
  "reads_zero s =
     (let t = trim_space s; u = (case t of c # r \<Rightarrow> (if c = CHR ''-'' \<or> c = CHR ''+'' then r else t) | [] \<Rightarrow> [])
      in u \<noteq> [] \<and> list_all (\<lambda>c. c = CHR ''0'') u)"

text \<open>None when user namespaces can be had.\<close>

definition isolation_error :: "host \<Rightarrow> string option" where
  "isolation_error h =
     (if \<not> ho_userns h then Some ''linux user namespaces are unavailable''
      else if \<not> ho_superuser h \<and> (case ho_clone h of Some c \<Rightarrow> trim_space c = ''0'' | None \<Rightarrow> False)
        then Some ''unprivileged user namespaces are disabled''
      else if (case ho_max_ns h of Some c \<Rightarrow> reads_zero c | None \<Rightarrow> False)
        then Some ''user namespaces are disabled by /proc/sys/user/max_user_namespaces''
      else None)"

definition default_sandboxes :: "sandbox list" where
  "default_sandboxes = [linux_isolated, local_restricted]"

definition clone_sandboxes :: "sandbox list \<Rightarrow> sandbox list" where
  "clone_sandboxes items = (if items = [] then default_sandboxes else items)"

definition first_sandbox :: "sandbox list \<Rightarrow> string \<Rightarrow> sandbox option" where
  "first_sandbox items profile = find (\<lambda>s. sb_supports s profile) items"

section \<open>Paths\<close>

definition path_within_base :: "string \<Rightarrow> string \<Rightarrow> bool" where
  "path_within_base p base =
     (let p = go_clean p; base = go_clean base in p = base \<or> has_prefix p (base @ ''/''))"

definition path_within_any :: "string \<Rightarrow> string list \<Rightarrow> bool" where
  "path_within_any p allowed = list_ex (path_within_base p) allowed"

definition resolve_runtime_path :: "path \<Rightarrow> string \<Rightarrow> path res" where
  "resolve_runtime_path root_dir value =
     (let v = trim_space value in
      if v = [] then Inl (Err ''path is required'')
      else if has_prefix v ''~'' then Inl (Err (''home-relative paths are not supported: '' @ v))
      else Inr (clean_from (if is_abs v then [] else root_dir) v))"

fun resolve_permission_paths :: "path \<Rightarrow> string list \<Rightarrow> string list res" where
  "resolve_permission_paths root_dir [] = Inr []"
| "resolve_permission_paths root_dir (item # items) =
     (case resolve_runtime_path root_dir item of
        Inl e \<Rightarrow> Inl e
      | Inr p \<Rightarrow> map_sum id (\<lambda>ps. path_text p # ps) (resolve_permission_paths root_dir items))"

definition sort_and_uniq_paths :: "string list \<Rightarrow> string list" where
  "sort_and_uniq_paths ps = sort (uniq_from [] (filter (\<lambda>x. x \<noteq> []) ps))"

definition sandbox_path :: "path \<Rightarrow> path \<Rightarrow> string res" where
  "sandbox_path p root_dir =
     (if \<not> path_within_base (path_text p) (path_text root_dir)
      then Inl (Err (quote (path_text p) @ '' is outside the sandbox root '' @ quote (path_text root_dir)))
      else
        let rel = rel_text root_dir p
        in Inr (if rel = ''.'' then ''/'' else ''/'' @ rel))"

section \<open>Entries of the registry\<close>

record registration =
  rg_id :: string
  rg_name :: string
  rg_version :: string
  rg_desc :: string
  rg_archive :: string
  rg_runtime_type :: string
  rg_effects :: "string list"
  rg_approval :: string
  rg_source :: string
  rg_checksum :: string
  rg_installed :: int
  rg_profile :: string
  rg_enabled :: bool
  rg_created :: int

record package_info =
  pk_id :: string
  pk_version :: string
  pk_source :: string
  pk_path :: string
  pk_checksum :: string
  pk_installed :: int

record registered_skill =
  rs_reg :: registration
  rs_manifest :: manifest
  rs_root :: path
  rs_package :: package_info

section \<open>Choosing a sandbox\<close>

record selection =
  se_runner :: sandbox
  se_effective :: string
  se_platform :: bool
  se_fallback :: bool
  se_approval :: bool
  se_strong :: bool
  se_fs :: bool
  se_network :: bool
  se_rootfs :: "path option"
  se_warnings :: "string list"

definition linux_scope_error :: "host \<Rightarrow> path \<Rightarrow> string list \<Rightarrow> string list \<Rightarrow> string option" where
  "linux_scope_error h root_dir reads writes =
     (case isolation_error h of
        Some e \<Rightarrow> Some e
      | None \<Rightarrow>
          (if list_all (\<lambda>p. path_within_base p (path_text root_dir)) (reads @ writes) then None
           else Some ''linux isolated sandbox only supports filesystem paths under the skill root''))"

definition local_selection :: "manifest \<Rightarrow> sandbox option \<Rightarrow> string \<Rightarrow> string \<Rightarrow> bool \<Rightarrow> bool \<Rightarrow> string list \<Rightarrow> selection res" where
  "local_selection m runner requested effective supported approve warnings =
     (case runner of
        None \<Rightarrow> Inl (Err (''no local sandbox runner is configured for '' @ effective))
      | Some r \<Rightarrow>
          let net = sk_net (mf_perms m); hosts = sk_hosts (mf_perms m) in
          Inr \<lparr>se_runner = r, se_effective = effective,
            se_platform = (supported \<or> requested = ''best_effort_local'' \<or> requested = ''trusted_local''),
            se_fallback = (requested \<noteq> effective), se_approval = approve, se_strong = False, se_fs = False, se_network = False,
            se_rootfs = None,
            se_warnings = warnings @
              (if requested = ''restricted'' \<or> requested = ''linux_isolated'' then
                 [''local skill sandbox is best-effort; filesystem and network restrictions rely on preflight validation, not OS-level isolation'']
               else []) @
              (if \<not> net then [''network disable is best-effort only in the local runner'']
               else if hosts \<noteq> [] then [''network allow_hosts is declarative in the local runner''] else [])\<rparr>)"

definition linux_selection :: "host \<Rightarrow> manifest \<Rightarrow> path \<Rightarrow> sandbox \<Rightarrow> string \<Rightarrow> string \<Rightarrow> selection res" where
  "linux_selection h m root_dir runner requested effective =
     (case isolation_error h of
        Some e \<Rightarrow> Inl (Err e)
      | None \<Rightarrow>
          let net = sk_net (mf_perms m); ask = (net \<and> sk_hosts (mf_perms m) \<noteq> []) in
          Inr \<lparr>se_runner = runner, se_effective = effective, se_platform = True, se_fallback = False, se_approval = ask,
            se_strong = True, se_fs = True, se_network = (\<not> net), se_rootfs = Some root_dir,
            se_warnings = (if ask then [''network allow_hosts is not enforced by the current linux isolated runner; approval is required'']
              else [])\<rparr>)"

definition select_sandbox :: "host \<Rightarrow> manifest \<Rightarrow> path \<Rightarrow> string list \<Rightarrow> string list \<Rightarrow> sandbox list \<Rightarrow> selection res" where
  "select_sandbox h m root_dir reads writes boxes =
     (let boxes = clone_sandboxes boxes;
          requested = or_str (mf_profile m) ''restricted'';
          local_box = first_sandbox boxes ''best_effort_local'';
          trusted = (case first_sandbox boxes ''trusted_local'' of None \<Rightarrow> local_box | Some s \<Rightarrow> Some s);
          linux = (case first_sandbox boxes ''linux_isolated'' of None \<Rightarrow> first_sandbox boxes ''restricted'' | Some s \<Rightarrow> Some s);
          scope = linux_scope_error h root_dir reads writes
      in
      if requested = ''best_effort_local'' then local_selection m local_box requested ''best_effort_local'' False False []
      else if requested = ''trusted_local'' then
        local_selection m trusted requested ''trusted_local'' False False
          [''trusted_local executes on the host after preflight validation and does not provide OS-level isolation'']
      else if requested = ''restricted'' then
        (case linux of
           None \<Rightarrow>
             local_selection m local_box requested ''best_effort_local'' False True
               [''linux isolated sandbox is unavailable; falling back to best_effort_local and requiring approval'']
         | Some r \<Rightarrow>
             (case scope of
                None \<Rightarrow> linux_selection h m root_dir r requested ''restricted''
              | Some e \<Rightarrow>
                  (if local_box = None then Inl (Err e)
                   else local_selection m local_box requested ''best_effort_local'' True True
                     [e, ''falling back to best_effort_local; approval is required before execution''])))
      else if requested = ''linux_isolated'' then
        (case linux of
           None \<Rightarrow> Inl (Err (''sandbox.profile='' @ requested @ '' is not supported by the configured skill runners''))
         | Some r \<Rightarrow>
             (case scope of
                Some e \<Rightarrow> Inl (Err e)
              | None \<Rightarrow>
                  (if sk_hosts (mf_perms m) \<noteq> [] then
                     Inl (Err (''sandbox.profile='' @ requested @ '' does not support permissions.network.allow_hosts enforcement''))
                   else linux_selection h m root_dir r requested ''linux_isolated'')))
      else Inl (Err (''unsupported skill sandbox.profile: '' @ requested)))"

section \<open>The execution profile\<close>

record execution_profile =
  ep_requested :: string
  ep_profile :: string
  ep_runner :: string
  ep_supported :: bool
  ep_fallback :: bool
  ep_approval :: bool
  ep_strong :: bool
  ep_fs :: bool
  ep_net_enforced :: bool
  ep_reads :: "string list"
  ep_writes :: "string list"
  ep_net :: bool
  ep_hosts :: "string list"
  ep_env :: "string list"
  ep_timeout :: int
  ep_max_output :: int
  ep_rootfs :: "path option"
  ep_warnings :: "string list"

definition default_env_allow_list :: "string list" where
  "default_env_allow_list = [''PATH'', ''LANG'', ''LC_ALL'', ''HOME'', ''TMPDIR'', ''TEMP'', ''TMP'']"

definition effective_timeout :: "manifest \<Rightarrow> int" where
  "effective_timeout m =
     (let t = rt_timeout (mf_runtime m); limit = sk_max_runtime (mf_perms m);
          t = (if t \<le> 0 \<or> limit < t then limit else t)
      in if t \<le> 0 then 30 else t)"

definition effective_output :: "manifest \<Rightarrow> int \<Rightarrow> int" where
  "effective_output m limit =
     (let n = positive_int (sk_max_output (mf_perms m)) process_max_output in if 0 < limit \<and> limit < n then limit else n)"

text \<open>Whether a command can run below \<open>root_dir\<close>: a script's interpreter has to lie there too. The text says why not.\<close>

definition shebang_problem :: "path \<Rightarrow> path \<Rightarrow> string \<Rightarrow> string option" where
  "shebang_problem command root_dir data =
     (let line = takeWhile (\<lambda>c. c \<noteq> CHR 0x0A) data in
      if \<not> has_prefix line ''#!'' then None
      else
        (case str_fields (trim_space (drop 2 line)) of
           [] \<Rightarrow> Some ''runtime.command has an invalid shebang''
         | interpreter # _ \<Rightarrow>
             (if path_within_base interpreter (path_text root_dir) then None
              else Some (''runtime.command '' @ quote (path_text command) @ '' depends on interpreter '' @ quote interpreter @
                '' outside the skill root''))))"

text \<open>Inside a chroot the command has to be able to run; where the profile can do without one, it is given up.\<close>

definition fit_chroot :: "string \<Rightarrow> path \<Rightarrow> manifest \<Rightarrow> selection \<Rightarrow> (fs_world, selection res) state" where
  "fit_chroot requested root_dir m sel =
     (case (se_strong sel, se_rootfs sel) of
        (True, Some jail) \<Rightarrow>
          (case resolve_runtime_path root_dir (rt_command (mf_runtime m)) of
             Inl e \<Rightarrow> State_Monad.return (Inl (Err (''resolve runtime.command: '' @ error_text e)))
           | Inr command \<Rightarrow> do {
               r \<leftarrow> os_read command;
               State_Monad.return (case r of
                   Inl e \<Rightarrow> Inl (Err (''read runtime.command '' @ quote (path_text command) @ '': '' @ os_text e))
                 | Inr data \<Rightarrow>
                     (case shebang_problem command jail data of
                        None \<Rightarrow> Inr sel
                      | Some reason \<Rightarrow>
                          (if requested = ''linux_isolated'' then
                             Inl (Err (''sandbox.profile='' @ requested @ '' requires a rootfs-compatible runtime.command: '' @ reason))
                           else
                             Inr (sel\<lparr>se_fs := False, se_rootfs := None, se_fallback := True, se_approval := True,
                               se_warnings := se_warnings sel @
                                 [reason, ''filesystem isolation is unavailable for this runtime.command; approval is required'']\<rparr>))))
             })
      | _ \<Rightarrow> State_Monad.return (Inr sel))"

definition profile_of :: "manifest \<Rightarrow> string \<Rightarrow> string list \<Rightarrow> string list \<Rightarrow> int \<Rightarrow> selection \<Rightarrow> execution_profile" where
  "profile_of m requested reads writes max_output sel =
     \<lparr>ep_requested = requested, ep_profile = se_effective sel, ep_runner = sb_name (se_runner sel),
      ep_supported = se_platform sel, ep_fallback = se_fallback sel, ep_approval = se_approval sel, ep_strong = se_strong sel,
      ep_fs = se_fs sel, ep_net_enforced = se_network sel, ep_reads = sort_and_uniq_paths reads, ep_writes = sort_and_uniq_paths writes,
      ep_net = sk_net (mf_perms m), ep_hosts = sk_hosts (mf_perms m),
      ep_env = normalize_string_list (default_env_allow_list @ sk_env (mf_perms m)) True,
      ep_timeout = effective_timeout m, ep_max_output = effective_output m max_output, ep_rootfs = se_rootfs sel,
      ep_warnings = se_warnings sel\<rparr>"

definition build_execution_profile ::
    "host \<Rightarrow> registered_skill \<Rightarrow> int \<Rightarrow> sandbox list \<Rightarrow> (fs_world, (execution_profile \<times> sandbox) res) state" where
  "build_execution_profile h entry max_output boxes =
     (let m = rs_manifest entry; p = mf_perms m; base = rs_root entry; requested = or_str (mf_profile m) ''restricted'' in
      try_bind (of_res (all_ok
        [need (\<not> sk_allow_shell p) ''permissions.tools.allow_shell is not supported by the current skill runners'',
         need (\<not> sk_allow_mcp p) ''permissions.tools.allow_mcp is not supported by the current skill runners''])) (\<lambda>_.
      try_bind (of_res (under_label ''resolve permissions.filesystem.read'' (resolve_permission_paths base (sk_read p)))) (\<lambda>declared.
      try_bind (of_res (under_label ''resolve permissions.filesystem.write'' (resolve_permission_paths base (sk_write p)))) (\<lambda>writes.
      let reads = (if path_within_any (path_text base) declared then declared else declared @ [path_text base]) in
      try_bind (of_res (select_sandbox h m base reads writes boxes)) (\<lambda>sel.
      try_bind (fit_chroot requested base m sel) (\<lambda>fit.
      of_res (Inr (profile_of m requested reads writes max_output fit, se_runner fit))))))))"

end
