(* ===== verification/Skill_Facts.thy ===== *)
theory Skill_Facts
  imports Skill_Plan
begin

text \<open>
  What the reading of a manifest guarantees: filling in the defaults is idempotent, a schema check looks at every value that
  object properties reach, and what the checks on paths mean for cleaned paths.
\<close>

section \<open>Filling in twice\<close>

lemma is_space_lower [simp]: "is_space (lower_char c) = is_space c"
proof (cases "CHR ''A'' \<le> c \<and> c \<le> CHR ''Z''")
  case True
  let ?n = "of_char c :: nat"
  from True have n: "65 \<le> ?n" "?n \<le> 90" by (simp_all add: less_eq_char_def)
  then have "of_char (lower_char c) = ?n + 32" using True by (simp add: lower_char_def)
  moreover have "\<not> is_space d" if "33 \<le> (of_char d :: nat)" for d using that by (auto simp: is_space_def)
  ultimately show ?thesis using n by simp
next
  case False
  then have "lower_char c = c" unfolding lower_char_def by (rule if_not_P)
  then show ?thesis by simp
qed

lemma is_space_upper [simp]: "is_space (upper_char c) = is_space c"
proof (cases "CHR ''a'' \<le> c \<and> c \<le> CHR ''z''")
  case True
  let ?n = "of_char c :: nat"
  from True have n: "97 \<le> ?n" "?n \<le> 122" by (simp_all add: less_eq_char_def)
  then have "of_char (upper_char c) = ?n - 32" using True by (simp add: upper_char_def)
  moreover have "\<not> is_space d" if "33 \<le> (of_char d :: nat)" for d using that by (auto simp: is_space_def)
  ultimately show ?thesis using n by simp
next
  case False
  then have "upper_char c = c" unfolding upper_char_def by (rule if_not_P)
  then show ?thesis by simp
qed

lemma upper_char_idem [simp]: "upper_char (upper_char c) = upper_char c"
proof (cases "CHR ''a'' \<le> c \<and> c \<le> CHR ''z''")
  case True
  let ?n = "of_char c :: nat"
  from True have n: "97 \<le> ?n" "?n \<le> 122" by (simp_all add: less_eq_char_def)
  then have "\<not> CHR ''a'' \<le> upper_char c" using True by (simp add: upper_char_def less_eq_char_def)
  then show ?thesis by (simp add: upper_char_def)
next
  case False
  then have "upper_char c = c" unfolding upper_char_def by (rule if_not_P)
  then show ?thesis by simp
qed

lemma dropWhile_idem: "dropWhile f (dropWhile f s) = dropWhile f s"
  by (induction s) auto

lemma trim_idem [simp]: "trim_space (trim_space s) = trim_space s"
proof -
  have drop_end: "dropWhile f (rev (dropWhile f (rev t))) = rev (dropWhile f (rev t))" if t: "dropWhile f t = t" for f :: "char \<Rightarrow> bool" and t
  proof (cases "rev (dropWhile f (rev t))")
    case (Cons a u)
    have "prefix (rev (dropWhile f (rev t))) t" by (metis rev_rev_ident suffix_dropWhile suffix_to_prefix)
    with Cons obtain r where r: "t = a # r" by (auto simp: prefix_def)
    then have "\<not> f a" using t hd_dropWhile [of f t] by auto
    with Cons show ?thesis by simp
  next
    case Nil
    then show ?thesis by (simp only: dropWhile.simps)
  qed
  show ?thesis
    by (simp add: trim_space_def trim_chars_def drop_end dropWhile_idem)
qed

lemma trim_map: "(\<And>c. is_space (f c) = is_space c) \<Longrightarrow> trim_space (map f s) = map f (trim_space s)"
  by (simp add: trim_space_def trim_chars_def dropWhile_map rev_map comp_def)

lemma trim_lower [simp]: "trim_space (to_lower s) = to_lower (trim_space s)"
  unfolding to_lower_def by (rule trim_map) simp

lemma trim_upper [simp]: "trim_space (to_upper s) = to_upper (trim_space s)"
  unfolding to_upper_def by (rule trim_map) simp

lemma uniq_from_idem [simp]: "uniq_from [] (uniq_from [] xs) = uniq_from [] xs"
  by (rule uniq_from_distinct_id) (simp_all add: distinct_uniq_from)

lemma to_upper_idem [simp]: "to_upper (to_upper s) = to_upper s"
  by (simp add: to_upper_def)

lemma to_upper_Nil [simp]: "to_upper s = [] \<longleftrightarrow> s = []" "to_lower s = [] \<longleftrightarrow> s = []"
  by (simp_all add: to_upper_def to_lower_def)

lemma normalize_list_idem [simp]:
  "normalize_string_list (normalize_string_list xs b) b = normalize_string_list xs b"
proof -
  let ?f = "\<lambda>x :: string. if b then to_upper x else x"
  have "trim_space x = x \<and> x \<noteq> [] \<and> ?f x = x" if "x \<in> set (normalize_string_list xs b)" for x
    using that by (cases b) (auto simp: normalize_string_list_def set_uniq_from to_upper_idem)
  then have "map ?f (filter (\<lambda>x. x \<noteq> []) (map trim_space (normalize_string_list xs b))) = normalize_string_list xs b"
    by (simp add: map_idI filter_id_conv)
  then show ?thesis by (simp add: normalize_string_list_def)
qed

lemma or_str_trim [simp]: "or_str (or_str s d) d = or_str s d"
  by (simp add: or_str_def)

lemma positive_idem [simp]: "positive_int (positive_int n d) d = positive_int n d"
  by (simp add: positive_int_def)

lemma plain_words:
  "trim_space ''.'' = ''.''" "trim_space ''json_stdin'' = ''json_stdin''" "trim_space ''json_stdout'' = ''json_stdout''"
  "trim_space ''auto'' = ''auto''" "trim_space ''restricted'' = ''restricted''" "trim_space ''unknown.effect'' = ''unknown.effect''"
  "to_lower ''json_stdin'' = ''json_stdin''" "to_lower ''json_stdout'' = ''json_stdout''"
  "to_lower ''auto'' = ''auto''" "to_lower ''restricted'' = ''restricted''"
  by code_simp+

lemma normalize_runtime_idem [simp]: "normalize_runtime (normalize_runtime r) = normalize_runtime r"
  by (simp add: normalize_runtime_def or_str_def comp_def positive_int_def plain_words)

lemma normalize_path_list_idem [simp]:
  "normalize_path_list (normalize_path_list xs) = normalize_path_list xs" "normalize_path_list [''.''] = [''.'']"
  by (simp_all add: normalize_path_list_def) (simp add: normalize_string_list_def plain_words)

lemma normalize_perms_idem: "0 < timeout \<Longrightarrow> normalize_perms timeout (normalize_perms timeout p) = normalize_perms timeout p"
  by (simp add: normalize_perms_def Let_def positive_int_def process_max_output_def)

lemma fill_manifest_idem: "fill_manifest (fill_manifest m) = fill_manifest m"
proof -
  have "0 < rt_timeout (normalize_runtime (mf_runtime m))" by (simp add: normalize_runtime_def positive_int_def)
  note normalize_perms_idem [OF this]
  moreover have "normalize_string_list [''unknown.effect''] False = [''unknown.effect'']"
    by (simp add: normalize_string_list_def plain_words)
  ultimately show ?thesis by (simp add: fill_manifest_def Let_def or_str_def plain_words)
qed

section \<open>Sequences of checks\<close>

lemma all_ok_iff: "all_ok cs = Inr () \<longleftrightarrow> (\<forall>c \<in> set cs. c = Inr ())"
  by (induction cs rule: all_ok.induct) auto

lemma need_iff [simp]: "need b t = Inr u \<longleftrightarrow> b" "need b t = Inl e \<longleftrightarrow> \<not> b \<and> e = Err t"
  by (auto simp: need_def)

lemma under_label_Inr [simp]: "under_label l r = Inr x \<longleftrightarrow> r = Inr x"
  by (cases r) (simp_all add: under_label_def)

text \<open>Reading a manifest is stable: a manifest that was accepted is accepted as it is when it is read again, with nothing
  filled in or changed, and its id, version and command are there, its limits are positive, its profile, modes and default
  are among the known ones, and relative permissions stay below the skill's directory.\<close>

theorem accepted_manifest_is_stable:
  assumes "normalize_manifest m = Inr m'"
  shows "normalize_manifest m' = Inr m' \<and>
    mf_id m' \<noteq> [] \<and> mf_version m' \<noteq> [] \<and> rt_command (mf_runtime m') \<noteq> [] \<and>
    0 < rt_timeout (mf_runtime m') \<and> 0 < sk_max_runtime (mf_perms m') \<and> 0 < sk_max_output (mf_perms m') \<and>
    mf_profile m' \<in> {''restricted'', ''trusted_local'', ''best_effort_local'', ''linux_isolated''} \<and>
    mf_approval m' \<in> {''auto'', ''require''} \<and> mf_effects m' \<noteq> [] \<and>
    list_all (\<lambda>p. p \<noteq> [] \<and> \<not> path_escapes_root p) (sk_read (mf_perms m') @ sk_write (mf_perms m'))"
proof -
  have m': "m' = fill_manifest m" and ok: "validate_manifest m' = Inr ()"
    using assms by (auto simp: normalize_manifest_def split: sum.splits)
  then have again: "fill_manifest m' = m'" by (simp add: fill_manifest_idem)
  have paths: "validate_path_list field ps = Inr () \<longleftrightarrow> list_all (\<lambda>p. p \<noteq> [] \<and> CHR 0x00 \<notin> set p \<and> \<not> path_escapes_root p) ps"
    for field ps by (auto simp: validate_path_list_def all_ok_iff list_all_iff)
  have "mf_effects m' \<noteq> []" by (simp add: m' fill_manifest_def Let_def)
  moreover have "normalize_manifest m' = Inr m'" by (simp add: normalize_manifest_def again ok)
  moreover note ok [unfolded validate_manifest_def all_ok_iff]
  ultimately show ?thesis
    by (simp add: runtime_checks_def permission_checks_def Let_def paths list_all_iff ball_Un)
qed

text \<open>A manifest for examples.\<close>

definition manifest0 :: manifest where
  "manifest0 =
     \<lparr>mf_id = ''s'', mf_name = ''S'', mf_version = ''1'', mf_desc = [],
      mf_runtime = \<lparr>rt_type = ''script'', rt_command = ''run'', rt_entry = [], rt_args = [], rt_cwd = ''.'', rt_input = ''env'',
        rt_output = ''text'', rt_timeout = 5\<rparr>,
      mf_input = [(''type'', GStr ''object''), (''required'', GList [GStr ''path''])], mf_output = [], mf_effects = [''read''],
      mf_approval = ''auto'',
      mf_perms = \<lparr>sk_read = [''.''], sk_write = [], sk_shell = False, sk_net = False, sk_hosts = [], sk_env = [], sk_allow_shell = False,
        sk_allow_mcp = False, sk_max_runtime = 5, sk_max_output = 100\<rparr>,
      mf_profile = ''restricted''\<rparr>"

theorem accepted_manifest_is_stable_witness: "mf_approval manifest0 \<in> {''auto'', ''require''} \<and> normalize_manifest manifest0 = Inr manifest0"
proof -
  have "normalize_manifest manifest0 = Inr manifest0" by code_simp
  from accepted_manifest_is_stable [OF this] show ?thesis by blast
qed

section \<open>What a schema check looks at\<close>

text \<open>A property that the schema declares and the object has, and the pairs of a schema and a value that such properties lead to.\<close>

definition declares :: "gmap \<Rightarrow> gmap \<Rightarrow> string \<Rightarrow> gmap \<Rightarrow> gval \<Rightarrow> bool" where
  "declares schema obj k child item \<longleftrightarrow>
     (\<exists>props raw. map_values (val_at schema ''properties'') = Inr props \<and> map_of props k = Some raw \<and>
        map_values raw = Inr child \<and> map_of obj k = Some item)"

inductive reaches :: "gmap \<Rightarrow> gval \<Rightarrow> gmap \<Rightarrow> gval \<Rightarrow> bool" where
  here: "reaches schema v schema v"
| there: "\<lbrakk>str_at schema ''type'' = ''object''; declares schema obj k child item; reaches child item schema' v'\<rbrakk> \<Longrightarrow>
   reaches schema (GMap obj) schema' v'"

inductive_cases reachesE: "reaches schema v schema' v'"

definition leaf_conforms :: "string \<Rightarrow> gval \<Rightarrow> bool" where
  "leaf_conforms t v \<longleftrightarrow>
     t = ''array'' \<and> is_slice v \<or> t = ''string'' \<and> (\<exists>s. v = GStr s) \<or> t = ''integer'' \<and> is_integer v \<or>
     t = ''number'' \<and> is_number v \<or> t = ''boolean'' \<and> (\<exists>b. v = GBool b)"

definition object_conforms :: "gmap \<Rightarrow> gmap \<Rightarrow> bool" where
  "object_conforms schema obj \<longleftrightarrow>
     (\<exists>keys props. string_slice (val_at schema ''required'') = Inr keys \<and> list_all (\<lambda>k. map_of obj k \<noteq> None) keys \<and>
        map_values (val_at schema ''properties'') = Inr props \<and>
        (\<forall>k raw. map_of props k = Some raw \<and> map_of obj k \<noteq> None \<longrightarrow> (\<exists>child. map_values raw = Inr child)))"

definition node_conforms :: "gmap \<Rightarrow> gval \<Rightarrow> bool" where
  "node_conforms schema v \<longleftrightarrow>
     (if str_at schema ''type'' = ''object'' then (\<exists>obj. v = GMap obj \<and> object_conforms schema obj)
      else leaf_conforms (str_at schema ''type'') v)"

lemma leaf_checked:
  "str_at schema ''type'' \<noteq> ''object'' \<Longrightarrow> validate_value schema v p = Inr () \<longleftrightarrow> leaf_conforms (str_at schema ''type'') v"
  by (subst validate_value.simps) (auto simp: Let_def leaf_conforms_def split: gval.splits)

lemma reaches_leaf: "str_at schema ''type'' \<noteq> ''object'' \<Longrightarrow> reaches schema v s w \<longleftrightarrow> s = schema \<and> w = v"
  by (auto elim: reaches.cases intro: here)

lemma object_checked:
  assumes "str_at schema ''type'' = ''object''"
  shows "validate_value schema (GMap obj) p = Inr () \<longleftrightarrow> object_conforms schema obj \<and>
    (\<forall>k child item. declares schema obj k child item \<longrightarrow> validate_value child item (p @ ''.'' @ k) = Inr ())"
proof (cases "string_slice (val_at schema ''required'')")
  case (Inl e)
  with assms show ?thesis by (subst validate_value.simps) (simp add: object_conforms_def)
next
  case keys: (Inr keys)
  show ?thesis
  proof (cases "map_values (val_at schema ''properties'')")
    case (Inl e)
    with assms keys show ?thesis by (subst validate_value.simps) (simp add: object_conforms_def all_ok_iff)
  next
    case props: (Inr props)
    have item: "(k, x) \<in> set (key_sorted obj) \<longleftrightarrow> map_of obj k = Some x" for k x
      by (metis distinct_key_sorted map_of_eq_Some_iff map_of_key_sorted)
    let ?check = "\<lambda>(k, x). case map_of props k of None \<Rightarrow> Inr () | Some raw \<Rightarrow>
        (case map_values raw of Inl e \<Rightarrow> Inl (Err (p @ ''.'' @ k @ '': '' @ error_text e))
         | Inr child \<Rightarrow> validate_value child x (p @ ''.'' @ k))"
    have run: "validate_value schema (GMap obj) p =
      all_ok (map (\<lambda>k. need (map_of obj k \<noteq> None) (p @ ''.'' @ k @ '' is required'')) keys @ [all_ok (map ?check (key_sorted obj))])"
      using assms keys props by (subst validate_value.simps) (simp add: Let_def)
    have "(\<forall>c \<in> set (key_sorted obj). ?check c = Inr ()) \<longleftrightarrow>
      (\<forall>k x. map_of obj k = Some x \<longrightarrow> ?check (k, x) = Inr ())"
      by (metis (no_types, lifting) item surj_pair)
    also have "\<dots> \<longleftrightarrow>
      (\<forall>k raw x. map_of props k = Some raw \<and> map_of obj k = Some x \<longrightarrow>
         (\<exists>child. map_values raw = Inr child \<and> validate_value child x (p @ ''.'' @ k) = Inr ()))"
      by (fastforce split: option.splits sum.splits)
    finally have each: "(\<forall>c \<in> set (key_sorted obj). ?check c = Inr ()) \<longleftrightarrow>
      (\<forall>k raw x. map_of props k = Some raw \<and> map_of obj k = Some x \<longrightarrow>
         (\<exists>child. map_values raw = Inr child \<and> validate_value child x (p @ ''.'' @ k) = Inr ()))" .
    have "validate_value schema (GMap obj) p = Inr () \<longleftrightarrow>
      list_all (\<lambda>k. map_of obj k \<noteq> None) keys \<and> (\<forall>c \<in> set (key_sorted obj). ?check c = Inr ())"
      unfolding run all_ok_iff list_all_iff set_append set_map ball_Un list.set by simp (simp add: all_ok_iff)
    also note each
    also have "(\<forall>k raw x. map_of props k = Some raw \<and> map_of obj k = Some x \<longrightarrow>
         (\<exists>child. map_values raw = Inr child \<and> validate_value child x (p @ ''.'' @ k) = Inr ())) \<longleftrightarrow>
      (\<forall>k raw. map_of props k = Some raw \<and> map_of obj k \<noteq> None \<longrightarrow> (\<exists>child. map_values raw = Inr child)) \<and>
      (\<forall>k raw child item. map_of props k = Some raw \<and> map_values raw = Inr child \<and> map_of obj k = Some item \<longrightarrow>
         validate_value child item (p @ ''.'' @ k) = Inr ())" (is "?l \<longleftrightarrow> ?a \<and> ?b")
    proof (intro iffI conjI allI impI; (elim conjE)?)
      fix k raw child item
      assume ?l and c: "map_of props k = Some raw" "map_values raw = Inr child" "map_of obj k = Some item"
      from \<open>?l\<close> [rule_format, OF conjI, OF c(1,3)] c(2) show "validate_value child item (p @ ''.'' @ k) = Inr ()" by auto
    qed blast+
    finally show ?thesis using keys props by (auto simp: object_conforms_def declares_def)
  qed
qed

lemma checked_iff_conforms:
  "validate_value schema v p = Inr () \<longleftrightarrow> (\<forall>s w. reaches schema v s w \<longrightarrow> node_conforms s w)"
proof (induction schema v p rule: validate_value.induct)
  case (1 schema v p)
  show ?case
  proof (cases "str_at schema ''type'' = ''object''")
    case False
    then show ?thesis by (simp add: leaf_checked reaches_leaf node_conforms_def)
  next
    case object: True
    show ?thesis
    proof (cases "\<exists>obj. v = GMap obj")
      case False
      then have "validate_value schema v p \<noteq> Inr ()"
        using object by (subst validate_value.simps, cases v) (simp_all add: Let_def)
      moreover have "\<not> node_conforms schema v" using False object by (simp add: node_conforms_def)
      ultimately show ?thesis using here by blast
    next
      case True
      then obtain obj where v: "v = GMap obj" by blast
      have IH: "validate_value child item (p @ ''.'' @ k) = Inr () \<longleftrightarrow> (\<forall>s w. reaches child item s w \<longrightarrow> node_conforms s w)"
        if "object_conforms schema obj" "declares schema obj k child item" for k child item
      proof -
        from that(2) obtain props raw where d: "map_values (val_at schema ''properties'') = Inr props" "map_of props k = Some raw"
          "map_values raw = Inr child" "map_of obj k = Some item" by (auto simp: declares_def)
        then have "(k, item) \<in> set (key_sorted obj)" by (metis map_of_SomeD map_of_key_sorted)
        with that(1) d show ?thesis unfolding object_conforms_def
          using "1.IH" [OF refl object v _ d(1) _ refl d(2,3)] by blast
      qed
      have step: "reaches schema v s w \<longleftrightarrow> s = schema \<and> w = v \<or> (\<exists>k child item. declares schema obj k child item \<and> reaches child item s w)"
        for s w using object v by (auto elim: reachesE intro: here there)
      have root: "node_conforms schema v \<longleftrightarrow> object_conforms schema obj" using object v by (simp add: node_conforms_def)
      note checked = object_checked [OF object, of obj p, folded v]
      show ?thesis
      proof (cases "object_conforms schema obj")
        case False
        with checked root here show ?thesis by blast
      next
        case ok: True
        have "validate_value schema v p = Inr () \<longleftrightarrow>
          (\<forall>k child item. declares schema obj k child item \<longrightarrow> validate_value child item (p @ ''.'' @ k) = Inr ())"
          unfolding checked using ok by blast
        also have "\<dots> \<longleftrightarrow>
          (\<forall>k child item. declares schema obj k child item \<longrightarrow> (\<forall>s w. reaches child item s w \<longrightarrow> node_conforms s w))"
          using IH [OF ok] by blast
        also have "\<dots> \<longleftrightarrow> (\<forall>s w. reaches schema v s w \<longrightarrow> node_conforms s w)"
        proof (intro iffI allI impI)
          fix s w
          assume below: "\<forall>k child item. declares schema obj k child item \<longrightarrow> (\<forall>s w. reaches child item s w \<longrightarrow> node_conforms s w)"
            and "reaches schema v s w"
          then consider "s = schema" "w = v" | k child item where "declares schema obj k child item" "reaches child item s w"
            using step by blast
          then show "node_conforms s w" using root ok below by cases blast+
        next
          fix k child item s w
          assume all: "\<forall>s w. reaches schema v s w \<longrightarrow> node_conforms s w" and "declares schema obj k child item" "reaches child item s w"
          then have "reaches schema v s w" using step by blast
          with all show "node_conforms s w" by blast
        qed
        finally show ?thesis .
      qed
    qed
  qed
qed


text \<open>An array of the wrong things is accepted although its schema says what its items are.\<close>

theorem items_are_not_checked:
  "validate_value [(''type'', GStr ''array''), (''items'', GMap [(''type'', GStr ''string'')])] (GList [GInt 1]) p = Inr ()"
  by (simp add: leaf_checked str_at_def leaf_conforms_def is_slice_def)

section \<open>Paths as texts\<close>

lemma split_app: "split_on c (x @ c # y) = split_on c x @ split_on c y"
  by (induction x) (auto split: list.splits)

lemma split_none: "c \<notin> set x \<Longrightarrow> split_on c x = [x]"
  by (induction x) auto

lemma split_path_text:
  assumes "clean_path p"
  shows "split_on (CHR ''/'') (path_text p) = [] # (if p = [] then [[]] else p)"
proof -
  have "p \<noteq> [] \<Longrightarrow> split_on (CHR ''/'') (join ''/'' p) = p"
    using assms by (intro split_on_join) (auto simp: clean_path_def list_all_iff good_comp_def)
  then show ?thesis using split_app [of "CHR ''/''" "[]" "join ''/'' p"] by (simp add: path_text_def)
qed

lemma clean_steps: "clean_path p \<Longrightarrow> foldl (clean_step b) base p = base @ p"
  by (induction p arbitrary: base) (auto simp: clean_step_def good_comp_def)

lemma go_clean_path_text [simp]: "clean_path p \<Longrightarrow> go_clean (path_text p) = path_text p"
  by (simp add: go_clean_def split_path_text is_abs_def clean_steps clean_step_def) (simp add: path_text_def)

lemma path_text_inject:
  assumes pq: "clean_path p" "clean_path q"
  shows "path_text p = path_text q \<longleftrightarrow> p = q"
proof
  assume "path_text p = path_text q"
  then have "(if p = [] then [[]] else p) = (if q = [] then [[]] else q)"
    using split_path_text [OF pq(1)] split_path_text [OF pq(2)] by simp
  with pq show "p = q" by (auto simp: good_comp_def split: if_splits)
qed simp

text \<open>For cleaned paths, being within a base is being at or below it, but nothing is below the root directory.\<close>

lemma within_clean:
  assumes "clean_path p" "clean_path b"
  shows "path_within_base (path_text p) (path_text b) \<longleftrightarrow> p = b \<or> b \<noteq> [] \<and> prefix b p"
proof -
  have up: "has_prefix (path_text p) (path_text b @ ''/'') \<Longrightarrow> b \<noteq> [] \<and> prefix b p"
  proof -
    assume "has_prefix (path_text p) (path_text b @ ''/'')"
    then obtain r where r: "path_text p = path_text b @ CHR ''/'' # r" by (auto simp: prefix_def)
    then have split: "split_on (CHR ''/'') (path_text p) = split_on (CHR ''/'') (path_text b) @ split_on (CHR ''/'') r"
      by (simp only: split_app)
    show "b \<noteq> [] \<and> prefix b p"
    proof (cases "b = []")
      case True
      have "split_on (CHR ''/'') r \<noteq> []" by (cases r) (auto split: list.splits)
      moreover have "p \<noteq> []" using r True by (auto simp: path_text_def)
      ultimately have "p \<noteq> [] \<and> [] \<in> set p" using True split assms by (cases "split_on (CHR ''/'') r") (auto simp: split_path_text)
      with assms(1) show ?thesis by (auto simp: clean_path_def list_all_iff good_comp_def)
    next
      case False
      with split assms have "(if p = [] then [[]] else p) = b @ split_on (CHR ''/'') r" by (simp add: split_path_text)
      moreover have "split_on (CHR ''/'') r \<noteq> []" by (cases r) (auto split: list.splits)
      ultimately have "p = b @ split_on (CHR ''/'') r" using False by (cases b) (auto split: if_splits)
      with False show ?thesis by (simp add: prefix_def)
    qed
  qed
  have down: "has_prefix (path_text p) (path_text b @ ''/'')" if "b \<noteq> []" "prefix b p" "p \<noteq> b"
  proof -
    from that obtain c t where t: "p = b @ c # t" by (metis append_Nil2 list.exhaust prefixE)
    have "join ''/'' (b @ c # t) = join ''/'' b @ ''/'' @ join ''/'' (c # t)" if "b \<noteq> []" for b
      using that by (induction b rule: induct_list012) simp_all
    with t that(1) show ?thesis by (simp add: path_text_def)
  qed
  from up down assms show ?thesis by (auto simp: path_within_base_def path_text_inject)
qed

text \<open>A permission for the root directory covers nothing in it.\<close>

theorem root_covers_nothing: "clean_path p \<Longrightarrow> path_within_base (path_text p) ''/'' \<longleftrightarrow> p = []"
  using within_clean [of p "[]"] by (simp add: path_text_def)

theorem root_covers_nothing_witness: "\<not> path_within_base ''/etc/passwd'' ''/''"
  using root_covers_nothing [of "[''etc'', ''passwd'']"] by (simp add: path_text_def good_comp_def)

lemma resolve_runtime_clean: "clean_path base \<Longrightarrow> resolve_runtime_path base v = Inr p \<Longrightarrow> clean_path p"
  by (auto simp: resolve_runtime_path_def Let_def clean_clean_from split: if_splits)

lemma permission_paths:
  "resolve_permission_paths base items = Inr ps \<Longrightarrow>
   \<exists>qs. ps = map path_text qs \<and> list_all2 (\<lambda>item q. resolve_runtime_path base item = Inr q) items qs"
proof (induction items arbitrary: ps)
  case (Cons item items)
  then obtain q rest where q: "resolve_runtime_path base item = Inr q" "resolve_permission_paths base items = Inr rest" "ps = path_text q # rest"
    by (cases "resolve_runtime_path base item"; cases "resolve_permission_paths base items") auto
  from Cons.IH [OF q(2)] obtain qs where "rest = map path_text qs" "list_all2 (\<lambda>item q. resolve_runtime_path base item = Inr q) items qs"
    by blast
  with q(1,3) show ?case by (intro exI [of _ "q # qs"]) simp
qed simp

lemma set_sort_paths: "set (sort_and_uniq_paths ps) = set ps - {[]}"
  by (auto simp: sort_and_uniq_paths_def set_uniq_from)

end
