(* ===== verification/Skill_Request.thy ===== *)
theory Skill_Request
  imports Skill_Plan Redaction
begin

text \<open>
  Preparing and running one call of a skill: the checks of its paths and of the paths in its input, its arguments and its
  environment (\<open>prepareExecution\<close>, \<open>validateExecution\<close> of \<open>internal/tools/skills/execution_plan.go\<close>), and the call
  itself (\<open>runner.go\<close>). The sandboxes' processes and the decoding of JSON output are given functions; times are left
  out of the reports.
\<close>

section \<open>Paths in the input\<close>

text \<open>The strings of a value with the key under which each stands, in the order in which they are visited.\<close>

fun input_strings :: "gval \<Rightarrow> string \<Rightarrow> (string \<times> string) list" where
  "input_strings (GMap kvs) =
     (\<lambda>p. concat (map (\<lambda>(k, f). f (if p = [] then k else p @ ''.'' @ k)) (key_sorted (map (\<lambda>(k, v). (k, input_strings v)) kvs))))"
| "input_strings (GList vs) =
     (\<lambda>p. concat (map (\<lambda>(i, f). f (p @ ''['' @ show_nat i @ '']'')) (enumerate 0 (map input_strings vs))))"
| "input_strings (GStr s) = (\<lambda>p. [(if p = [] then ''$'' else p, s)])"
| "input_strings _ = (\<lambda>p. [])"

datatype access = Write_access | Read_access | No_access

definition classify_path_access :: "string \<Rightarrow> access" where
  "classify_path_access key_path =
     (let k = to_lower key_path in
      if list_ex (has_sub k) [''output'', ''dest'', ''destination'', ''target'', ''write'', ''save''] then Write_access
      else if list_ex (has_sub k) [''path'', ''file'', ''dir'', ''cwd'', ''input'', ''source'', ''read''] then Read_access
      else No_access)"

definition looks_like_local_path :: "string \<Rightarrow> bool" where
  "looks_like_local_path value =
     (let v = trim_space value in
      if v = [] \<or> has_sub v ''://'' then False
      else has_prefix v ''.'' \<or> has_prefix v ''/'' \<or> has_prefix v ''~'' \<or> has_sub v ''/'')"

definition check_input_path :: "path \<Rightarrow> execution_profile \<Rightarrow> string \<times> string \<Rightarrow> unit res" where
  "check_input_path base ep x =
     (case x of (key, item) \<Rightarrow>
        if \<not> looks_like_local_path item then Inr ()
        else
          (case resolve_runtime_path base item of
             Inl e \<Rightarrow> Inl (Err (key @ '': '' @ error_text e))
           | Inr p \<Rightarrow>
               (case classify_path_access key of
                  Write_access \<Rightarrow>
                    need (ep_writes ep \<noteq> [] \<and> path_within_any (path_text p) (ep_writes ep))
                      (key @ '' '' @ quote item @ '' is outside allowed write paths'')
                | Read_access \<Rightarrow>
                    need (path_within_any (path_text p) (ep_reads ep @ ep_writes ep))
                      (key @ '' '' @ quote item @ '' is outside allowed read paths'')
                | No_access \<Rightarrow> Inr ())))"

definition validate_input_paths :: "path \<Rightarrow> gmap \<Rightarrow> execution_profile \<Rightarrow> unit res" where
  "validate_input_paths base args ep = all_ok (map (check_input_path base ep) (input_strings (GMap args) []))"

section \<open>Arguments and environment\<close>

definition scalar_string :: "gval \<Rightarrow> string" where
  "scalar_string v =
     (case v of
        GStr s \<Rightarrow> s
      | GNil \<Rightarrow> []
      | _ \<Rightarrow> (case json_marshal v of None \<Rightarrow> go_print v | Some raw \<Rightarrow> raw))"

definition args_to_flags :: "gmap \<Rightarrow> string list" where
  "args_to_flags args = concat (map (\<lambda>(k, v). [''--'' @ k, scalar_string v]) (key_sorted args))"

definition env_arg_key :: "string \<Rightarrow> string" where
  "env_arg_key k = ''SKILL_ARG_'' @ to_upper (map (\<lambda>c. if c = CHR ''-'' then CHR ''_'' else c) k)"

definition build_env_args :: "string \<Rightarrow> gmap \<Rightarrow> string list" where
  "build_env_args payload args =
     (''SKILL_INPUT_JSON='' @ payload) # map (\<lambda>(k, v). env_arg_key k @ ''='' @ scalar_string v) (key_sorted args)"

text \<open>\<open>strings.SplitN(item, "=", 2)\<close>, both parts.\<close>

definition split_equals :: "string \<Rightarrow> (string \<times> string) option" where
  "split_equals item =
     (let a = takeWhile (\<lambda>c. c \<noteq> CHR ''='') item in if a = item then None else Some (a, drop (Suc (length a)) item))"

type_synonym env_map = "(string \<times> string) list"

definition set_env :: "env_map \<Rightarrow> string \<Rightarrow> env_map" where
  "set_env env item = (case split_equals item of None \<Rightarrow> env | Some (k, v) \<Rightarrow> AList.update k v env)"

definition build_sandbox_env :: "host \<Rightarrow> string list \<Rightarrow> string \<Rightarrow> gmap \<Rightarrow> string \<Rightarrow> env_map" where
  "build_sandbox_env h allowed payload args mode =
     (let env = foldl (\<lambda>env k. case ho_env h k of None \<Rightarrow> env | Some v \<Rightarrow> AList.update k v env) [] allowed;
          env = AList.update ''SKILL_INPUT_JSON'' payload env
      in if mode = ''env'' then foldl set_env env (build_env_args payload args) else env)"

section \<open>Requests\<close>

record sandbox_request =
  rq_command :: string
  rq_args :: "string list"
  rq_cwd :: string
  rq_env :: env_map
  rq_stdin :: "string option"
  rq_profile :: execution_profile

record prepared =
  pe_request :: sandbox_request
  pe_profile :: execution_profile
  pe_runner :: sandbox

definition validate_runtime_path :: "string \<Rightarrow> path \<Rightarrow> string list \<Rightarrow> unit res" where
  "validate_runtime_path label p allowed =
     need (path_within_any (path_text p) allowed) (label @ '' '' @ quote (path_text p) @ '' is outside the allowed filesystem scope'')"

definition exec_bits :: nat where
  "exec_bits = 0x49"

definition validate_command_path :: "path \<Rightarrow> (fs_world, unit res) state" where
  "validate_command_path p = do {
     st \<leftarrow> os_stat p;
     State_Monad.return (case st of
         Inl e \<Rightarrow> Inl (Err (''runtime.command '' @ quote (path_text p) @ '' is unavailable: '' @ os_text e))
       | Inr FDir \<Rightarrow> Inl (Err (''runtime.command '' @ quote (path_text p) @ '' must be a file''))
       | Inr (FFile c m) \<Rightarrow> need (and m exec_bits \<noteq> 0) (''runtime.command '' @ quote (path_text p) @ '' is not executable''))
   }"

definition validate_dir_path :: "path \<Rightarrow> (fs_world, unit res) state" where
  "validate_dir_path p = do {
     st \<leftarrow> os_stat p;
     State_Monad.return (case st of
         Inl e \<Rightarrow> Inl (Err (''runtime.cwd '' @ quote (path_text p) @ '' is unavailable: '' @ os_text e))
       | Inr n \<Rightarrow> need (n = FDir) (''runtime.cwd '' @ quote (path_text p) @ '' must be a directory''))
   }"

text \<open>What is left once every check has passed.\<close>

definition request_for ::
    "host \<Rightarrow> registered_skill \<Rightarrow> gmap \<Rightarrow> string \<Rightarrow> path \<Rightarrow> path \<Rightarrow> execution_profile \<times> sandbox \<Rightarrow> prepared res" where
  "request_for h entry args payload command cwd_path x =
     (case x of (ep, runner) \<Rightarrow>
        let rt = mf_runtime (rs_manifest entry);
            shown = (\<lambda>label p. case ep_rootfs ep of None \<Rightarrow> Inr (path_text p) | Some jail \<Rightarrow> under_label label (sandbox_path p jail))
        in
        (case shown ''normalize runtime.command for sandbox'' command of
           Inl e \<Rightarrow> Inl e
         | Inr c \<Rightarrow>
             (case shown ''normalize runtime.cwd for sandbox'' cwd_path of
                Inl e \<Rightarrow> Inl e
              | Inr d \<Rightarrow>
                  Inr \<lparr>pe_request =
                         \<lparr>rq_command = c, rq_args = rt_args rt @ (if rt_input rt = ''args'' then args_to_flags args else []),
                          rq_cwd = d, rq_env = build_sandbox_env h (ep_env ep) payload args (rt_input rt),
                          rq_stdin = (if rt_input rt = ''json_stdin'' then Some payload else None), rq_profile = ep\<rparr>,
                       pe_profile = ep, pe_runner = runner\<rparr>)))"

definition marshal_args :: "gmap \<Rightarrow> string res" where
  "marshal_args args =
     (case json_marshal (GMap args) of None \<Rightarrow> Inl (Err ''marshal skill args: json: unsupported type'') | Some payload \<Rightarrow> Inr payload)"

definition prepare_execution ::
    "host \<Rightarrow> registered_skill \<Rightarrow> gmap \<Rightarrow> int \<Rightarrow> sandbox list \<Rightarrow> (fs_world, prepared res) state" where
  "prepare_execution h entry args max_output boxes =
     (let rt = mf_runtime (rs_manifest entry); base = rs_root entry in
      try_bind (build_execution_profile h entry max_output boxes) (\<lambda>(ep, runner).
      try_bind (of_res (marshal_args args)) (\<lambda>payload.
      try_bind (of_res (under_label ''resolve runtime.command'' (resolve_runtime_path base (rt_command rt)))) (\<lambda>command.
      try_bind (of_res (under_label ''resolve runtime.cwd'' (resolve_runtime_path base (rt_cwd rt)))) (\<lambda>cwd_path.
      try_bind (of_res (validate_runtime_path ''runtime.command'' command (ep_reads ep @ ep_writes ep))) (\<lambda>_.
      try_bind (of_res (validate_runtime_path ''runtime.cwd'' cwd_path (ep_reads ep @ ep_writes ep))) (\<lambda>_.
      try_bind (validate_command_path command) (\<lambda>_.
      try_bind (validate_dir_path cwd_path) (\<lambda>_.
      try_bind (of_res (validate_input_paths base args ep)) (\<lambda>_.
      of_res (request_for h entry args payload command cwd_path (ep, runner))))))))))))"

record validation_result =
  vr_skill :: string
  vr_version :: string
  vr_status :: string
  vr_profile :: execution_profile

definition validate_execution ::
    "host \<Rightarrow> registered_skill \<Rightarrow> gmap \<Rightarrow> int \<Rightarrow> sandbox list \<Rightarrow> (fs_world, validation_result res) state" where
  "validate_execution h entry args max_output boxes =
     try_bind (of_res (under_label ''skill input validation failed'' (validate_input (mf_input (rs_manifest entry)) args))) (\<lambda>_.
     try_bind (prepare_execution h entry args max_output boxes) (\<lambda>pe.
     let ep = pe_profile pe in
     of_res (Inr \<lparr>vr_skill = rg_id (rs_reg entry), vr_version = rg_version (rs_reg entry),
       vr_status = (if ep_fallback ep \<or> ep_approval ep \<or> ep_warnings ep \<noteq> [] then ''warning'' else ''ok''), vr_profile = ep\<rparr>)))"

end
