(* ===== verification/Skill_Registry.thy ===== *)
theory Skill_Registry
  imports Skill_Request Workspace_Walk
begin

text \<open>
  The registry of skills, \<open>internal/tools/skills/manager.go\<close>: registration of a directory, installation of a zip package,
  lookup, enabling, removal, and the policy profile the effect inference asks for. Reading YAML, JSON and zip archives is
  given. The registry's lock makes each change one step.
\<close>

section \<open>More of the file system\<close>

text \<open>\<open>os.RemoveAll\<close>, and \<open>os.Rename\<close> of a file or a directory to a name that is free. Either happens as a whole or not at all.\<close>

definition os_remove_all :: "path \<Rightarrow> (fs_world, os_error + unit) state" where
  "os_remove_all p = sys (\<lambda>w. Inr ((), filter (\<lambda>(q, _). \<not> prefix p q) (fs_tree w)))"

definition move_tree :: "path \<Rightarrow> path \<Rightarrow> ftree \<Rightarrow> ftree" where
  "move_tree p q t = map (\<lambda>(r, n). (if prefix p r then q @ drop (length p) r else r, n)) t"

definition os_move :: "path \<Rightarrow> path \<Rightarrow> (fs_world, os_error + unit) state" where
  "os_move p q = sys (\<lambda>w.
     case (os_lookup (fs_tree w) p, os_lookup (fs_tree w) (butlast q)) of
       (Inr _, Inr FDir) \<Rightarrow>
         if map_of (fs_tree w) q \<noteq> None \<or> q = [] then Inl (OsFail (path_text q @ '': file exists''))
         else if prefix p q then Inl (OsFail (path_text q @ '': invalid argument''))
         else Inr ((), move_tree p q (fs_tree w))
     | (Inl e, _) \<Rightarrow> Inl e
     | (_, Inl e) \<Rightarrow> Inl e
     | _ \<Rightarrow> Inl (OsFail (path_text q @ '': not a directory'')))"

text \<open>\<open>os.MkdirTemp(dir, "skillzip-*")\<close>.\<close>

definition os_mkdir_temp :: "path \<Rightarrow> (fs_world, os_error + path) state" where
  "os_mkdir_temp dir = sys (\<lambda>w.
     let p = dir @ [''skillzip-'' @ fs_temp w (fs_calls w)] in
     case os_lookup (fs_tree w) dir of
       Inl e \<Rightarrow> Inl e
     | Inr (FFile _ _) \<Rightarrow> Inl (OsFail (path_text p @ '': not a directory''))
     | Inr FDir \<Rightarrow>
         if map_of (fs_tree w) p = None then Inr (p, set_node p FDir (fs_tree w))
         else Inl (OsFail (path_text p @ '': file exists'')))"

section \<open>The registry\<close>

text \<open>An entry of an archive: what opening it gives is an error, or its bytes and the error met after them.\<close>

record zip_entry =
  ze_name :: string
  ze_dir :: bool
  ze_size :: nat
  ze_link :: bool
  ze_mode :: nat
  ze_data :: "(string \<times> go_error option) res"

text \<open>What is given of the formats: YAML manifests, the JSON text of package records, and zip archives.\<close>

record skill_codec =
  sc_manifest :: "string \<Rightarrow> manifest res"
  sc_info :: "string \<Rightarrow> package_info res"
  sc_info_text :: "package_info \<Rightarrow> string"
  sc_zip :: "string \<Rightarrow> zip_entry list res"

record skill_manager =
  mg_packages :: path
  mg_temp :: path
  mg_boxes :: "sandbox list"
  mg_skills :: "(string \<times> registered_skill) list"

definition not_found :: "string \<Rightarrow> go_error" where
  "not_found id' = Err (''skill not found: '' @ id')"

definition skill_resolve :: "skill_manager \<Rightarrow> string \<Rightarrow> registered_skill res" where
  "skill_resolve mg id' = (case map_of (mg_skills mg) id' of None \<Rightarrow> Inl (not_found id') | Some e \<Rightarrow> Inr e)"

definition skill_get :: "skill_manager \<Rightarrow> string \<Rightarrow> registration res" where
  "skill_get mg id' = map_sum id rs_reg (skill_resolve mg id')"

definition skill_package :: "skill_manager \<Rightarrow> string \<Rightarrow> package_info res" where
  "skill_package mg id' = map_sum id rs_package (skill_resolve mg id')"

definition skill_list :: "skill_manager \<Rightarrow> registration list" where
  "skill_list mg = sort_key rg_id (map (rs_reg \<circ> snd) (AList.clearjunk (mg_skills mg)))"

definition skill_set_enabled :: "string \<Rightarrow> bool \<Rightarrow> skill_manager \<Rightarrow> registration res \<times> skill_manager" where
  "skill_set_enabled id' b mg =
     (case map_of (mg_skills mg) id' of
        None \<Rightarrow> (Inl (not_found id'), mg)
      | Some e \<Rightarrow>
          let e = e\<lparr>rs_reg := (rs_reg e)\<lparr>rg_enabled := b\<rparr>\<rparr>
          in (Inr (rs_reg e), mg\<lparr>mg_skills := AList.update id' e (mg_skills mg)\<rparr>))"

definition skill_store :: "registered_skill \<Rightarrow> skill_manager \<Rightarrow> skill_manager" where
  "skill_store e mg =
     (let k = rg_id (rs_reg e);
          e = (case map_of (mg_skills mg) k of
                 None \<Rightarrow> e
               | Some old \<Rightarrow> e\<lparr>rs_reg := (rs_reg e)\<lparr>rg_enabled := rg_enabled (rs_reg old), rg_created := rg_created (rs_reg old)\<rparr>\<rparr>)
      in mg\<lparr>mg_skills := AList.update k e (mg_skills mg)\<rparr>)"

definition set_sandboxes :: "sandbox list \<Rightarrow> skill_manager \<Rightarrow> skill_manager" where
  "set_sandboxes boxes mg = mg\<lparr>mg_boxes := clone_sandboxes boxes\<rparr>"

definition available_sandboxes :: "skill_manager \<Rightarrow> sandbox list" where
  "available_sandboxes mg = clone_sandboxes (mg_boxes mg)"

definition skill_validate :: "host \<Rightarrow> skill_manager \<Rightarrow> string \<Rightarrow> gmap \<Rightarrow> int \<Rightarrow> (fs_world, validation_result res) state" where
  "skill_validate h mg id' args max_output =
     try_bind (of_res (skill_resolve mg id')) (\<lambda>e. validate_execution h e args max_output (available_sandboxes mg))"

definition skill_policy_profile :: "host \<Rightarrow> skill_manager \<Rightarrow> string \<Rightarrow> (fs_world, skill_policy res) state" where
  "skill_policy_profile h mg id' =
     try_bind (of_res (skill_resolve mg id')) (\<lambda>e.
     try_bind (build_execution_profile h e 0 (available_sandboxes mg)) (\<lambda>(ep, _).
     of_res (Inr \<lparr>sp_effects = effective_effects (rs_manifest e), sp_approval_default = mf_approval (rs_manifest e),
       sp_enabled = rg_enabled (rs_reg e), sp_will_fallback = ep_fallback ep, sp_requires = ep_approval ep\<rparr>)))"

section \<open>Loading a skill\<close>

definition manifest_file :: string where
  "manifest_file = ''skill.yaml''"

definition package_file :: string where
  "package_file = ''.skill-package.json''"

definition load_manifest :: "skill_codec \<Rightarrow> path \<Rightarrow> (fs_world, manifest res) state" where
  "load_manifest codec base =
     try_bind (of_os (os_read (base @ [manifest_file]))) (\<lambda>data.
     try_bind (of_res (sc_manifest codec data)) (\<lambda>m.
     of_res (normalize_manifest m)))"

definition fill_info :: "int \<Rightarrow> manifest \<Rightarrow> path \<Rightarrow> package_info \<Rightarrow> package_info" where
  "fill_info now' m base info =
     \<lparr>pk_id = or_str (pk_id info) (mf_id m), pk_version = or_str (pk_version info) (mf_version m),
      pk_source = or_str (pk_source info) ''path'', pk_path = or_str (pk_path info) (path_text base),
      pk_checksum = pk_checksum info, pk_installed = (if pk_installed info = 0 then now' else pk_installed info)\<rparr>"

definition entry_for :: "int \<Rightarrow> manifest \<Rightarrow> path \<Rightarrow> package_info \<Rightarrow> string \<Rightarrow> string \<Rightarrow> registered_skill" where
  "entry_for now' m base info name desc =
     \<lparr>rs_reg =
        \<lparr>rg_id = mf_id m, rg_name = or_str (or_str name (mf_name m)) (mf_id m), rg_version = mf_version m,
         rg_desc = or_str desc (mf_desc m), rg_archive = path_text base, rg_runtime_type = rt_type (mf_runtime m),
         rg_effects = effective_effects m, rg_approval = mf_approval m, rg_source = pk_source info, rg_checksum = pk_checksum info,
         rg_installed = pk_installed info, rg_profile = mf_profile m, rg_enabled = True, rg_created = now'\<rparr>,
      rs_manifest = m, rs_root = base, rs_package = info\<rparr>"

definition load_entry ::
    "host \<Rightarrow> skill_codec \<Rightarrow> int \<Rightarrow> skill_manager \<Rightarrow> path \<Rightarrow> package_info \<Rightarrow> string \<Rightarrow> string \<Rightarrow> (fs_world, registered_skill res) state" where
  "load_entry h codec now' mg base info name desc =
     try_bind (load_manifest codec base) (\<lambda>m.
     let e = entry_for now' m base (fill_info now' m base info) name desc in
     try_bind (prepare_execution h e [] 0 (available_sandboxes mg)) (\<lambda>_. of_res (Inr e)))"

definition local_package_info :: "int \<Rightarrow> path \<Rightarrow> package_info" where
  "local_package_info now' base =
     \<lparr>pk_id = [], pk_version = [], pk_source = ''path'', pk_path = path_text base, pk_checksum = [], pk_installed = now'\<rparr>"

definition resolve_root :: "path \<Rightarrow> (fs_world, path res) state" where
  "resolve_root p =
     try_bind (of_os (os_stat p)) (\<lambda>n.
     of_res (if n = FDir then Inr p
       else if p \<noteq> [] \<and> last p = manifest_file then Inr (butlast p)
       else Inl (Err ''skill path must be a directory or skill.yaml'')))"

text \<open>Operations on the registry: what they return, the files, and the registry.\<close>

type_synonym 'a registry_op = "skill_manager \<Rightarrow> (fs_world, 'a res \<times> skill_manager) state"

definition storing :: "(fs_world, registered_skill res) state \<Rightarrow> (registered_skill \<Rightarrow> 'a) \<Rightarrow> 'a registry_op" where
  "storing m f mg = State_Monad.bind m (\<lambda>r. State_Monad.return
     (case r of Inl e \<Rightarrow> (Inl e, mg) | Inr e \<Rightarrow> (Inr (f e), skill_store e mg)))"

definition skill_upload ::
    "host \<Rightarrow> skill_codec \<Rightarrow> int \<Rightarrow> string \<Rightarrow> string \<Rightarrow> string \<Rightarrow> registration registry_op" where
  "skill_upload h codec now' p name desc mg =
     storing
       (if p = [] then of_res (Inl (Err ''skill path is required''))
        else try_bind (resolve_root (abs_path (ho_cwd h) p)) (\<lambda>base. load_entry h codec now' mg base (local_package_info now' base) name desc))
       rs_reg mg"

end
