(* ===== verification/Skill_Packages.thy ===== *)
theory Skill_Packages
  imports Skill_Registry
begin

text \<open>
  Packages of skills (\<open>InstallZip\<close>, \<open>Remove\<close> and \<open>loadManagedPackages\<close> of \<open>internal/tools/skills/manager.go\<close>): a zip
  archive is unpacked into a temporary directory, its one manifest is read, and the directory is moved to the place the
  manifest's id and version name.
\<close>

section \<open>Unpacking\<close>

definition max_zip_files :: nat where
  "max_zip_files = 128"

definition max_zip_total :: int where
  "max_zip_total = 33554432"

definition max_zip_file :: int where
  "max_zip_file = 8388608"

definition safe_zip_target :: "path \<Rightarrow> string \<Rightarrow> path res" where
  "safe_zip_target base name =
     (let cleaned = go_clean (trim_prefix name ''/'') in
      if cleaned = ''.'' \<or> cleaned = [] then Inl (Err (''zip entry '' @ quote name @ '' is invalid''))
      else if cleaned = ''..'' \<or> has_prefix cleaned ''../'' \<or> is_abs cleaned then
        Inl (Err (''zip entry '' @ quote name @ '' escapes the target directory''))
      else
        let targ = clean_from base cleaned in
        if \<not> path_within_base (path_text targ) (path_text base) then
          Inl (Err (''zip entry '' @ quote name @ '' escapes the target directory''))
        else Inr targ)"

text \<open>\<open>io.LimitReader\<close>. The second form is for evaluation.\<close>

definition read_limited :: "int \<Rightarrow> string \<Rightarrow> string" where
  "read_limited limit data = take (nat limit) data"

lemma read_limited_code [code]: "read_limited limit data = (if int (length data) \<le> limit then data else take (nat limit) data)"
  by (simp add: read_limited_def)

text \<open>One entry: its size is checked before, its length after it was written. No more than the limit and a byte is read.\<close>

definition extract_entry :: "path \<Rightarrow> nat \<Rightarrow> int \<Rightarrow> zip_entry \<Rightarrow> (fs_world, unit res) state" where
  "extract_entry base count sized z =
     try_bind (of_res (all_ok
       [need (count \<le> max_zip_files) ''zip contains too many files'',
        need (wrap64 (int (ze_size z)) \<le> max_zip_file) (''zip file '' @ quote (ze_name z) @ '' exceeds per-file size limit''),
        need (sized \<le> max_zip_total) ''zip exceeds total extracted size limit''])) (\<lambda>_.
     try_bind (of_res (safe_zip_target base (ze_name z))) (\<lambda>targ.
     try_bind (of_res (need (\<not> ze_link z) (''zip entry '' @ quote (ze_name z) @ '' uses unsupported symlink metadata''))) (\<lambda>_.
     try_bind (of_os (os_mkdir_all (butlast targ))) (\<lambda>_.
     try_bind (of_res (ze_data z)) (\<lambda>(data, read_error).
     let written = read_limited (max_zip_file + 1) data;
         broken = (if int (length data) \<le> max_zip_file then read_error else None)
     in try_bind (of_os (os_open_trunc targ (ze_mode z))) (\<lambda>_. do {
          w \<leftarrow> of_os (os_write targ written);
          c \<leftarrow> of_os os_close;
          of_res (all_ok
            [w, case broken of None \<Rightarrow> Inr () | Some e \<Rightarrow> Inl e, c,
             need (int (length written) \<le> max_zip_file) (''zip file '' @ quote (ze_name z) @ '' exceeds per-file size limit'')])
        }))))))"

fun extract_entries :: "path \<Rightarrow> nat \<Rightarrow> int \<Rightarrow> zip_entry list \<Rightarrow> (fs_world, unit res) state" where
  "extract_entries base count sized [] = of_res (Inr ())"
| "extract_entries base count sized (z # zs) =
     (if ze_dir z then extract_entries base count sized zs
      else
        let sized = wrap64 (sized + wrap64 (int (ze_size z))) in
        try_bind (extract_entry base (Suc count) sized z) (\<lambda>_. extract_entries base (Suc count) sized zs))"

text \<open>The directories that hold a manifest. Errors of the walk are passed over.\<close>

definition roots_visit :: "path list walker" where
  "roots_visit p d e =
     State (\<lambda>(f, roots). (Go_on, f, if e = None \<and> \<not> d \<and> p \<noteq> [] \<and> last p = manifest_file then roots @ [butlast p] else roots))"

definition find_skill_roots :: "path \<Rightarrow> (fs_world, path list res option) state" where
  "find_skill_roots base = State (\<lambda>f.
     let (r, f', roots) = run_state (walk_tree roots_visit base) (f, [])
     in (case r of None \<Rightarrow> None | Some (Some e) \<Rightarrow> Some (Inl e) | Some None \<Rightarrow> Some (Inr (sort_key path_text roots)), f'))"

text \<open>The walk always ends, so the case None does not occur.\<close>

definition one_root :: "path list res option \<Rightarrow> path res" where
  "one_root r =
     (case r of
        Some (Inr [base]) \<Rightarrow> Inr base
      | Some (Inr []) \<Rightarrow> Inl (Err ''zip does not contain skill.yaml'')
      | Some (Inr _) \<Rightarrow> Inl (Err ''zip contains multiple skill.yaml manifests'')
      | Some (Inl e) \<Rightarrow> Inl e
      | None \<Rightarrow> Inl (Err ''walk does not end''))"

definition extract_zip_skill :: "skill_codec \<Rightarrow> path \<Rightarrow> path \<Rightarrow> (fs_world, (path \<times> manifest) res) state" where
  "extract_zip_skill codec zip_file workdir =
     (let unpack = workdir @ [''unpacked''] in
      try_bind (of_os (os_mkdir_all unpack)) (\<lambda>_.
      try_bind (of_os (os_read zip_file)) (\<lambda>data.
      try_bind (of_res (sc_zip codec data)) (\<lambda>entries.
      try_bind (extract_entries unpack 0 0 entries) (\<lambda>_.
      try_bind (State_Monad.bind (find_skill_roots unpack) (\<lambda>r. State_Monad.return (one_root r))) (\<lambda>base.
      try_bind (load_manifest codec base) (\<lambda>m. of_res (Inr (base, m)))))))))"

section \<open>Installing\<close>

definition package_root :: "skill_manager \<Rightarrow> manifest \<Rightarrow> path" where
  "package_root mg m = clean_from (clean_from (mg_packages mg) (mf_id m)) (mf_version m)"

definition free_target :: "bool \<Rightarrow> manifest \<Rightarrow> path \<Rightarrow> (fs_world, unit res) state" where
  "free_target force m targ = State_Monad.bind (os_stat targ) (\<lambda>st.
     case st of
       Inl _ \<Rightarrow> of_res (Inr ())
     | Inr _ \<Rightarrow>
         (if \<not> force then of_res (Inl (Err (''skill '' @ mf_id m @ '' version '' @ mf_version m @ '' is already installed'')))
          else of_os (os_remove_all targ)))"

definition zip_info :: "int \<Rightarrow> manifest \<Rightarrow> path \<Rightarrow> string \<Rightarrow> package_info" where
  "zip_info now' m targ checksum =
     \<lparr>pk_id = mf_id m, pk_version = mf_version m, pk_source = ''zip'', pk_path = path_text targ, pk_checksum = checksum,
      pk_installed = now'\<rparr>"

text \<open>A call that fails after the package was moved removes the package.\<close>

definition or_remove :: "path \<Rightarrow> (fs_world, 'a res) state \<Rightarrow> (fs_world, 'a res) state" where
  "or_remove targ m = State_Monad.bind m (\<lambda>r.
     case r of Inl e \<Rightarrow> State_Monad.bind (os_remove_all targ) (\<lambda>_. of_res (Inl e)) | Inr x \<Rightarrow> of_res (Inr x))"

definition place_package ::
    "host \<Rightarrow> skill_codec \<Rightarrow> int \<Rightarrow> skill_manager \<Rightarrow> bool \<Rightarrow> string \<Rightarrow> path \<Rightarrow> manifest \<Rightarrow> (fs_world, registered_skill res) state" where
  "place_package h codec now' mg force checksum base m =
     (let targ = package_root mg m; info = zip_info now' m targ checksum in
      try_bind (free_target force m targ) (\<lambda>_.
      try_bind (of_os (os_mkdir_all (butlast targ))) (\<lambda>_.
      try_bind (of_os (os_move base targ)) (\<lambda>_.
      try_bind (or_remove targ (of_os (os_write_file (targ @ [package_file]) (sc_info_text codec info @ [CHR 0x0A]) 0x1A4))) (\<lambda>_.
      or_remove targ (load_entry h codec now' mg targ info [] []))))))"

definition install_from ::
    "host \<Rightarrow> skill_codec \<Rightarrow> int \<Rightarrow> skill_manager \<Rightarrow> bool \<Rightarrow> path \<Rightarrow> (fs_world, registered_skill res) state" where
  "install_from h codec now' mg force zip_file =
     try_bind (of_os (os_read zip_file)) (\<lambda>data.
     let checksum = ''sha256:'' @ hex_bytes (sha256 data) in
     try_bind (of_os (os_mkdir_temp (mg_temp mg))) (\<lambda>workdir.
     State_Monad.bind
       (try_bind (extract_zip_skill codec zip_file workdir) (\<lambda>(base, m). place_package h codec now' mg force checksum base m))
       (\<lambda>r. State_Monad.bind (os_remove_all workdir) (\<lambda>_. of_res r))))"

definition install_zip :: "host \<Rightarrow> skill_codec \<Rightarrow> int \<Rightarrow> string \<Rightarrow> bool \<Rightarrow> registered_skill registry_op" where
  "install_zip h codec now' p force mg =
     storing
       (if trim_space p = [] then of_res (Inl (Err ''zip path is required''))
        else install_from h codec now' mg force (abs_path (ho_cwd h) p))
       (\<lambda>e. e) mg"

section \<open>Removing\<close>

record removal =
  rv_id :: string
  rv_version :: string
  rv_deleted :: bool
  rv_package :: package_info

definition skill_remove :: "string \<Rightarrow> removal registry_op" where
  "skill_remove id' mg =
     (case map_of (mg_skills mg) id' of
        None \<Rightarrow> State_Monad.return (Inl (not_found id'), mg)
      | Some e \<Rightarrow>
          let mg = mg\<lparr>mg_skills := AList.delete id' (mg_skills mg)\<rparr>; info = rs_package e;
              result = (\<lambda>b. \<lparr>rv_id = rg_id (rs_reg e), rv_version = rg_version (rs_reg e), rv_deleted = b, rv_package = info\<rparr>)
          in
          if pk_source info = ''zip'' \<and> pk_path info \<noteq> [] \<and> path_within_base (pk_path info) (path_text (mg_packages mg)) then
            State_Monad.bind (os_remove_all (clean_from [] (pk_path info))) (\<lambda>r. State_Monad.return
              (case r of Inl e \<Rightarrow> (Inl (os_err e), mg) | Inr _ \<Rightarrow> (Inr (result True), mg)))
          else State_Monad.return (Inr (result False), mg))"

section \<open>Starting with the packages on disk\<close>

text \<open>Of several versions of a skill the one installed last is registered.\<close>

definition newer_entry :: "(string \<times> registered_skill) list \<Rightarrow> registered_skill \<Rightarrow> (string \<times> registered_skill) list" where
  "newer_entry found e =
     (let k = rg_id (rs_reg e) in
      case map_of found k of
        None \<Rightarrow> AList.update k e found
      | Some old \<Rightarrow>
          (if pk_installed (rs_package old) < pk_installed (rs_package e) then AList.update k e found else found))"

definition packages_visit ::
    "host \<Rightarrow> skill_codec \<Rightarrow> int \<Rightarrow> skill_manager \<Rightarrow> (string \<times> registered_skill) list walker" where
  "packages_visit h codec now' mg p d e =
     (if e \<noteq> None \<or> d \<or> p = [] \<or> last p \<noteq> package_file then State_Monad.return Go_on
      else State_Monad.bind
        (in_files (try_bind (of_os (os_read p)) (\<lambda>data.
           try_bind (of_res (sc_info codec data)) (\<lambda>info. load_entry h codec now' mg (butlast p) info [] []))))
        (\<lambda>r. State (\<lambda>(f, found). (Go_on, f, case r of Inl _ \<Rightarrow> found | Inr e \<Rightarrow> newer_entry found e))))"

definition load_managed_packages :: "host \<Rightarrow> skill_codec \<Rightarrow> int \<Rightarrow> skill_manager \<Rightarrow> (fs_world, skill_manager) state" where
  "load_managed_packages h codec now' mg = State (\<lambda>f.
     let (_, f', found) = run_state (walk_tree (packages_visit h codec now' mg) (mg_packages mg)) (f, [])
     in (mg\<lparr>mg_skills := foldl (\<lambda>m (k, e). AList.update k e m) (mg_skills mg) found\<rparr>, f'))"

definition new_manager :: "host \<Rightarrow> skill_codec \<Rightarrow> int \<Rightarrow> string \<Rightarrow> (fs_world, skill_manager) state" where
  "new_manager h codec now' root_name =
     (let base = abs_path (ho_cwd h) root_name;
          mg = \<lparr>mg_packages = base @ [''packages''], mg_temp = base @ [''.tmp''], mg_boxes = default_sandboxes, mg_skills = []\<rparr>
      in State_Monad.bind (os_mkdir_all base) (\<lambda>_.
         State_Monad.bind (os_mkdir_all (mg_packages mg)) (\<lambda>_.
         State_Monad.bind (os_mkdir_all (mg_temp mg)) (\<lambda>_.
         load_managed_packages h codec now' mg))))"

end
