(* ===== verification/Skill_Runner.thy ===== *)
theory Skill_Runner
  imports Skill_Packages
begin

text \<open>
  Running a skill, \<open>internal/tools/skills/runner.go\<close>. A sandbox is a given function from the request and the files to a
  result, an error and the files it leaves; every start is recorded. A report's times and its copy of the execution
  profile are left out.
\<close>

record sandbox_result =
  sx_stdout :: string
  sx_stderr :: string
  sx_exit :: int
  sx_warnings :: "string list"
  sx_metadata :: gmap

type_synonym box_outcome = "sandbox_result option \<times> string option"

type_synonym boxes_run = "sandbox \<Rightarrow> sandbox_request \<Rightarrow> fs_world \<Rightarrow> box_outcome \<times> fs_world"

type_synonym start_log = "(string \<times> sandbox_request) list"

definition start_sandbox :: "boxes_run \<Rightarrow> sandbox \<Rightarrow> sandbox_request \<Rightarrow> (fs_world \<times> start_log, box_outcome) state" where
  "start_sandbox run box req = State (\<lambda>(f, started). let (r, f') = run box req f in (r, f', started @ [(sb_name box, req)]))"

definition truncate_to :: "string \<Rightarrow> int \<Rightarrow> string" where
  "truncate_to s limit = (if limit \<le> 0 \<or> int (length s) \<le> limit then s else take (nat limit) s)"

type_synonym json_decoder = "string \<Rightarrow> gval option"

definition parse_output :: "json_decoder \<Rightarrow> string \<Rightarrow> string \<Rightarrow> gmap res" where
  "parse_output dec mode out =
     (if mode = ''text'' then Inr [(''text'', GStr (trim_space out))]
      else if trim_space out = [] then Inr []
      else
        (case dec out of
           None \<Rightarrow> Inl (Err ''parse skill json stdout'')
         | Some (GMap kvs) \<Rightarrow> Inr kvs
         | Some v \<Rightarrow> Inr [(''value'', v)]))"

definition failed_skill_report :: "string \<Rightarrow> gmap" where
  "failed_skill_report id' =
     [(''skill_id'', GStr id'), (''status'', GStr ''error''), (''output'', GMap []), (''stdout'', GStr []), (''stderr'', GStr []),
      (''exit_code'', GInt (- 1))]"

text \<open>A report, and the error the call returns with it.\<close>

type_synonym run_report = "gmap \<times> string option"

definition skill_failed :: "string \<Rightarrow> string \<Rightarrow> run_report" where
  "skill_failed id' e = (failed_skill_report id', Some e)"

definition skill_status :: "string option \<Rightarrow> string" where
  "skill_status e = (case e of None \<Rightarrow> ''ok'' | Some t \<Rightarrow> if has_sub t ''timed out'' then ''timeout'' else ''error'')"

definition report_of :: "json_decoder \<Rightarrow> registered_skill \<Rightarrow> int \<Rightarrow> sandbox_result \<Rightarrow> string option \<Rightarrow> run_report" where
  "report_of dec entry max_chars r run_error =
     (let mode = rt_output (mf_runtime (rs_manifest entry));
          parsed = parse_output dec mode (sx_stdout r);
          output = redact_map (case parsed of Inl _ \<Rightarrow> None | Inr m \<Rightarrow> Some m);
          e = (case parsed of Inl x \<Rightarrow> Some (error_text x) | Inr _ \<Rightarrow> run_error);
          shown = (case (parsed, mode = ''json_stdout'', json_marshal (GMap output)) of
                     (Inr _, True, Some raw) \<Rightarrow> truncate_to raw max_chars
                   | _ \<Rightarrow> truncate_to (redact_string (sx_stdout r)) max_chars)
      in ([(''skill_id'', GStr (rg_id (rs_reg entry))), (''status'', GStr (skill_status e)), (''output'', GMap output),
           (''stdout'', GStr shown), (''stderr'', GStr (truncate_to (redact_string (sx_stderr r)) max_chars)),
           (''exit_code'', GInt (sx_exit r)), (''warnings'', GStrs (sx_warnings r)), (''metadata'', GMap (sx_metadata r))], e))"

definition run_entry ::
    "host \<Rightarrow> boxes_run \<Rightarrow> json_decoder \<Rightarrow> sandbox list \<Rightarrow> int \<Rightarrow> registered_skill \<Rightarrow> gmap \<Rightarrow> (fs_world \<times> start_log, run_report) state" where
  "run_entry h run dec boxes max_chars entry args =
     State_Monad.bind (in_files (prepare_execution h entry args max_chars boxes)) (\<lambda>r.
     case r of
       Inl e \<Rightarrow> State_Monad.return (skill_failed (rg_id (rs_reg entry)) (error_text e))
     | Inr pe \<Rightarrow> State_Monad.bind (start_sandbox run (pe_runner pe) (pe_request pe)) (\<lambda>(result, e).
         State_Monad.return (case result of
             None \<Rightarrow> (failed_skill_report (rg_id (rs_reg entry)), e)
           | Some x \<Rightarrow> report_of dec entry max_chars x e)))"

record skill_runner =
  sn_manager :: skill_manager
  sn_boxes :: "sandbox list"
  sn_box :: "sandbox option"
  sn_max_chars :: int

definition runner_sandboxes :: "skill_runner \<Rightarrow> sandbox list" where
  "runner_sandboxes rn =
     (if sn_boxes rn \<noteq> [] then clone_sandboxes (sn_boxes rn)
      else case sn_box rn of Some b \<Rightarrow> [b] | None \<Rightarrow> available_sandboxes (sn_manager rn))"

text \<open>\<open>GetMap\<close>: no arguments when the entry is missing or no map.\<close>

definition get_map :: "gmap \<Rightarrow> string \<Rightarrow> gmap" where
  "get_map input key = (case map_of input key of Some (GMap kvs) \<Rightarrow> kvs | _ \<Rightarrow> [])"

definition execute_skill ::
    "host \<Rightarrow> boxes_run \<Rightarrow> json_decoder \<Rightarrow> skill_runner \<Rightarrow> gmap \<Rightarrow> (fs_world \<times> start_log, run_report) state" where
  "execute_skill h run dec rn input =
     (case get_string input ''skill_id'' of
        Inl e \<Rightarrow> State_Monad.return (skill_failed [] (error_text e))
      | Inr id' \<Rightarrow>
          let args = get_map input ''args'' in
          (case skill_resolve (sn_manager rn) id' of
             Inl e \<Rightarrow> State_Monad.return (skill_failed id' (error_text e))
           | Inr entry \<Rightarrow>
               if \<not> rg_enabled (rs_reg entry) then State_Monad.return (skill_failed id' (''skill '' @ id' @ '' is disabled''))
               else
                 (case validate_input (mf_input (rs_manifest entry)) args of
                    Inl e \<Rightarrow> State_Monad.return (skill_failed id' (''skill input validation failed: '' @ error_text e))
                  | Inr _ \<Rightarrow> run_entry h run dec (runner_sandboxes rn) (sn_max_chars rn) entry args)))"

end
