(* ===== verification/Skill_Safety.thy ===== *)
theory Skill_Safety
  imports Skill_Facts Skill_Runner Policy_Engine
begin

text \<open>
  What holds of every run of a skill: its command, its directory and the paths of its input lie in the scope its manifest
  declares, and without the isolation it asks for somebody is asked.
\<close>

section \<open>Calls that only read\<close>

definition reads_only :: "(fs_world, 'a) state \<Rightarrow> bool" where
  "reads_only m \<longleftrightarrow> (\<forall>f r f'. run_state m f = (r, f') \<longrightarrow> fs_tree f' = fs_tree f)"

named_theorems reading \<open>calls that only read\<close>

lemma reads_onlyD: "reads_only m \<Longrightarrow> run_state m f = (r, f') \<Longrightarrow> fs_tree f' = fs_tree f"
  by (simp add: reads_only_def)

lemma reads_only_return [reading]: "reads_only (State_Monad.return x)"
  by (simp add: reads_only_def)

lemma reads_only_bind [reading]: "reads_only m \<Longrightarrow> (\<And>x. reads_only (k x)) \<Longrightarrow> reads_only (State_Monad.bind m k)"
  by (fastforce simp: reads_only_def split: prod.splits)

lemma reads_only_try [reading]: "reads_only m \<Longrightarrow> (\<And>x. reads_only (k x)) \<Longrightarrow> reads_only (try_bind m k)"
  unfolding try_bind_def by (rule reads_only_bind) (auto split: sum.splits intro: reads_only_return)

lemma reads_only_of_os [reading]: "reads_only m \<Longrightarrow> reads_only (of_os m)"
  unfolding of_os_def by (rule reads_only_bind [OF _ reads_only_return])

lemma reads_only_stat [reading]: "reads_only (os_stat p)" "reads_only (os_read p)"
  by (simp_all add: reads_only_def os_stat_tree os_read_tree)

lemma reads_only_fit [reading]: "reads_only (fit_chroot requested base m sel)"
  by (cases "se_strong sel"; cases "se_rootfs sel") (auto simp: fit_chroot_def split: sum.splits intro!: reading)

lemma reads_only_build [reading]: "reads_only (build_execution_profile h e limit boxes)"
  unfolding build_execution_profile_def Let_def by (intro reading)

lemma reads_only_prepare [reading]: "reads_only (prepare_execution h e args limit boxes)"
  unfolding prepare_execution_def Let_def validate_command_path_def validate_dir_path_def
  by (intro reading; simp add: split_beta; intro reading)

section \<open>Which sandbox is chosen\<close>

definition isolating :: "host \<Rightarrow> manifest \<Rightarrow> path \<Rightarrow> string list \<Rightarrow> selection \<Rightarrow> bool" where
  "isolating h m base scope sel \<longleftrightarrow>
     se_strong sel \<and> se_fs sel \<and> se_rootfs sel = Some base \<and> isolation_error h = None \<and>
     list_all (\<lambda>p. path_within_base p (path_text base)) scope \<and> se_network sel = (\<not> sk_net (mf_perms m)) \<and> \<not> se_fallback sel"

lemma local_selectionD:
  "local_selection m box requested effective supported ask warnings = Inr sel \<Longrightarrow>
   \<not> se_strong sel \<and> \<not> se_fs sel \<and> se_rootfs sel = None \<and> se_approval sel = ask \<and> box = Some (se_runner sel)"
  by (auto simp: local_selection_def Let_def split: option.splits)

lemma linux_selectionD:
  "linux_selection h m base box requested effective = Inr sel \<Longrightarrow>
   se_strong sel \<and> se_fs sel \<and> se_rootfs sel = Some base \<and> isolation_error h = None \<and> se_network sel = (\<not> sk_net (mf_perms m)) \<and>
   \<not> se_fallback sel \<and> se_approval sel = (sk_net (mf_perms m) \<and> sk_hosts (mf_perms m) \<noteq> []) \<and> se_runner sel = box"
  by (auto simp: linux_selection_def Let_def split: option.splits)

lemma scopeD: "linux_scope_error h base reads writes = None \<Longrightarrow> list_all (\<lambda>p. path_within_base p (path_text base)) (reads @ writes)"
  by (auto simp: linux_scope_error_def split: option.splits if_splits)

lemma select_cases:
  assumes "select_sandbox h m base reads writes boxes = Inr sel" "requested = or_str (mf_profile m) ''restricted''"
  obtains (isolated) "requested = ''restricted'' \<or> requested = ''linux_isolated'' \<and> sk_hosts (mf_perms m) = []"
      "isolating h m base (reads @ writes) sel" "se_approval sel = (sk_net (mf_perms m) \<and> sk_hosts (mf_perms m) \<noteq> [])"
    | (fallback) "requested = ''restricted''" "\<not> se_strong sel" "\<not> se_fs sel" "se_rootfs sel = None" "se_approval sel"
    | (trusted) "requested = ''best_effort_local'' \<or> requested = ''trusted_local''" "\<not> se_strong sel" "\<not> se_fs sel" "se_rootfs sel = None"
proof -
  note chosen = assms(1) [unfolded select_sandbox_def Let_def, folded assms(2)]
  have known: "requested \<in> {''best_effort_local'', ''trusted_local'', ''restricted'', ''linux_isolated''}"
    using chosen by (rule_tac ccontr) simp
  then consider "requested = ''best_effort_local'' \<or> requested = ''trusted_local''" | "requested = ''restricted''" | "requested = ''linux_isolated''"
    by blast
  then show thesis
  proof cases
    case 1
    then have "\<exists>box supported ask ws. local_selection m box requested requested supported ask ws = Inr sel"
    proof
      assume "requested = ''best_effort_local''"
      with chosen show ?thesis by auto
    next
      assume "requested = ''trusted_local''"
      with chosen show ?thesis by auto
    qed
    with 1 show thesis by (intro trusted) (auto dest: local_selectionD)
  next
    case 2
    let ?linux = "case first_sandbox (clone_sandboxes boxes) ''linux_isolated'' of
        None \<Rightarrow> first_sandbox (clone_sandboxes boxes) ''restricted'' | Some s \<Rightarrow> Some s"
    show thesis
    proof (cases "?linux = None \<or> linux_scope_error h base reads writes \<noteq> None")
      case True
      with 2 chosen have "\<exists>box supported ws. local_selection m box requested ''best_effort_local'' supported True ws = Inr sel"
        by (auto split: option.splits if_splits)
      with 2 show thesis by (intro fallback) (auto dest: local_selectionD)
    next
      case False
      with 2 chosen have "\<exists>box. linux_selection h m base box requested ''restricted'' = Inr sel"
        by (auto split: option.splits)
      with 2 False show thesis by (intro isolated) (auto simp: isolating_def dest: linux_selectionD scopeD)
    qed
  next
    case 3
    with chosen have "\<exists>box. linux_selection h m base box requested ''linux_isolated'' = Inr sel"
      and scope: "linux_scope_error h base reads writes = None" "sk_hosts (mf_perms m) = []"
      by (auto split: option.splits if_splits)
    with 3 show thesis by (intro isolated) (auto simp: isolating_def dest: linux_selectionD scopeD)
  qed
qed

lemma fit_cases:
  assumes "run_state (fit_chroot requested base m sel) f = (Inr fit, f')"
  obtains (same) "fit = sel"
    | (given_up) "requested \<noteq> ''linux_isolated''" "se_approval fit" "\<not> se_fs fit" "se_rootfs fit = None" "se_runner fit = se_runner sel"
  using assms
  by (cases "se_strong sel"; cases "se_rootfs sel")
    (auto simp: fit_chroot_def split: sum.splits option.splits if_splits prod.splits)

lemma build_inv:
  assumes "run_state (build_execution_profile h e limit boxes) f = (Inr (ep, box), f')"
  obtains declared writes reads sel fit where
    "resolve_permission_paths (rs_root e) (sk_read (mf_perms (rs_manifest e))) = Inr declared"
    "resolve_permission_paths (rs_root e) (sk_write (mf_perms (rs_manifest e))) = Inr writes"
    "reads = (if path_within_any (path_text (rs_root e)) declared then declared else declared @ [path_text (rs_root e)])"
    "select_sandbox h (rs_manifest e) (rs_root e) reads writes boxes = Inr sel"
    "run_state (fit_chroot (or_str (mf_profile (rs_manifest e)) ''restricted'') (rs_root e) (rs_manifest e) sel) f = (Inr fit, f')"
    "ep = profile_of (rs_manifest e) (or_str (mf_profile (rs_manifest e)) ''restricted'') reads writes limit fit"
    "box = se_runner fit"
  using assms unfolding build_execution_profile_def Let_def
  by (auto elim!: try_bindE)

definition isolated_profile :: "host \<Rightarrow> path \<Rightarrow> execution_profile \<Rightarrow> bool" where
  "isolated_profile h base ep \<longleftrightarrow>
     ep_strong ep \<and> ep_fs ep \<and> ep_rootfs ep = Some base \<and> isolation_error h = None \<and>
     list_all (\<lambda>p. path_within_base p (path_text base)) (ep_reads ep @ ep_writes ep) \<and> ep_net_enforced ep = (\<not> ep_net ep)"

lemma unisolated_asks:
  assumes "run_state (build_execution_profile h e limit boxes) f = (Inr (ep, box), f')"
  shows "ep_requested ep = ''linux_isolated'' \<and> isolated_profile h (rs_root e) ep \<and> ep_hosts ep = [] \<or>
    ep_requested ep = ''restricted'' \<and>
      (ep_approval ep \<or> isolated_profile h (rs_root e) ep \<and> (ep_net ep = False \<or> ep_hosts ep = [])) \<or>
    ep_requested ep \<in> {''best_effort_local'', ''trusted_local''}"
proof -
  let ?m = "rs_manifest e" and ?base = "rs_root e"
  let ?req = "or_str (mf_profile ?m) ''restricted''"
  from assms obtain declared writes reads sel fit where
    sel: "select_sandbox h ?m ?base reads writes boxes = Inr sel"
    and fit: "run_state (fit_chroot ?req ?base ?m sel) f = (Inr fit, f')"
    and ep: "ep = profile_of ?m ?req reads writes limit fit" by (rule build_inv) blast
  have shown: "ep_requested ep = ?req" "ep_approval ep = se_approval fit" "ep_net ep = sk_net (mf_perms ?m)" "ep_hosts ep = sk_hosts (mf_perms ?m)"
    by (simp_all add: ep profile_of_def)
  have isolated: "isolated_profile h ?base ep" if "isolating h ?m ?base (reads @ writes) sel" "fit = sel"
    using that by (auto simp: isolated_profile_def isolating_def ep profile_of_def list_all_iff set_sort_paths)
  from sel refl show ?thesis
  proof (cases rule: select_cases)
    case isolated
    from fit show ?thesis
    proof (cases rule: fit_cases)
      case same
      with isolated \<open>isolating h ?m ?base (reads @ writes) sel \<Longrightarrow> fit = sel \<Longrightarrow> isolated_profile h ?base ep\<close> shown
      show ?thesis by auto
    next
      case given_up
      with isolated shown show ?thesis by auto
    qed
  next
    case fallback
    from fit show ?thesis by (cases rule: fit_cases) (use fallback shown in auto)
  next
    case trusted
    with shown show ?thesis by auto
  qed
qed

text \<open>A skill whose manifest asks for isolation gets it or somebody is asked: with the profile \<open>linux_isolated\<close> it runs in
  namespaces of its own, rooted at its directory, which holds every path it may use, with no network unless the manifest
  enables it; with \<open>restricted\<close> the same holds, and no list of hosts is left unenforced, unless approval is required. Only the
  profiles \<open>best_effort_local\<close> and \<open>trusted_local\<close> run on the host unasked.\<close>

theorem unisolated_skill_asks:
  assumes "run_state (build_execution_profile h e limit boxes) f = (Inr (ep, box), f')"
  shows "ep_requested ep = ''linux_isolated'' \<and> isolated_profile h (rs_root e) ep \<and> ep_hosts ep = [] \<or>
    ep_requested ep = ''restricted'' \<and>
      (ep_approval ep \<or> isolated_profile h (rs_root e) ep \<and> (ep_net ep = False \<or> ep_hosts ep = [])) \<or>
    ep_requested ep \<in> {''best_effort_local'', ''trusted_local''}"
  using assms by (rule unisolated_asks)

section \<open>What is handed to the sandbox\<close>

lemma stat_node: "run_state (os_stat p) f = (Inr n, f') \<Longrightarrow> map_of (fs_tree f) p = Some n"
  by (drule os_stat_Inr) (auto simp: os_lookup_def split: option.splits if_splits)

lemma command_checked:
  assumes "run_state (validate_command_path p) f = (Inr (), f')"
  shows "\<exists>c m. map_of (fs_tree f) p = Some (FFile c m) \<and> and m exec_bits \<noteq> 0"
proof -
  obtain st g where st: "run_state (os_stat p) f = (st, g)" by fastforce
  with assms show ?thesis
    by (cases st) (auto simp: validate_command_path_def dest: stat_node split: fnode.splits)
qed

lemma dir_checked:
  assumes "run_state (validate_dir_path p) f = (Inr (), f')"
  shows "map_of (fs_tree f) p = Some FDir"
proof -
  obtain st g where st: "run_state (os_stat p) f = (st, g)" by fastforce
  with assms show ?thesis by (cases st) (auto simp: validate_dir_path_def dest: stat_node)
qed

lemma reads_only_checks [reading]: "reads_only (validate_command_path p)" "reads_only (validate_dir_path p)"
  unfolding validate_command_path_def validate_dir_path_def by (intro reading)+

lemma prepare_inv:
  assumes "run_state (prepare_execution h e args limit boxes) f = (Inr pe, f')"
  obtains ep box f1 payload command dir where
    "run_state (build_execution_profile h e limit boxes) f = (Inr (ep, box), f1)"
    "resolve_runtime_path (rs_root e) (rt_command (mf_runtime (rs_manifest e))) = Inr command"
    "resolve_runtime_path (rs_root e) (rt_cwd (mf_runtime (rs_manifest e))) = Inr dir"
    "path_within_any (path_text command) (ep_reads ep @ ep_writes ep)" "path_within_any (path_text dir) (ep_reads ep @ ep_writes ep)"
    "\<exists>c m. map_of (fs_tree f) command = Some (FFile c m) \<and> and m exec_bits \<noteq> 0" "map_of (fs_tree f) dir = Some FDir"
    "validate_input_paths (rs_root e) args ep = Inr ()" "request_for h e args payload command dir (ep, box) = Inr pe"
proof -
  let ?rt = "mf_runtime (rs_manifest e)"
  from assms obtain ep box f1 where b: "run_state (build_execution_profile h e limit boxes) f = (Inr (ep, box), f1)"
    and r1: "run_state (try_bind (of_res (marshal_args args)) (\<lambda>payload.
      try_bind (of_res (under_label ''resolve runtime.command'' (resolve_runtime_path (rs_root e) (rt_command ?rt)))) (\<lambda>command.
      try_bind (of_res (under_label ''resolve runtime.cwd'' (resolve_runtime_path (rs_root e) (rt_cwd ?rt)))) (\<lambda>cwd_path.
      try_bind (of_res (validate_runtime_path ''runtime.command'' command (ep_reads ep @ ep_writes ep))) (\<lambda>_.
      try_bind (of_res (validate_runtime_path ''runtime.cwd'' cwd_path (ep_reads ep @ ep_writes ep))) (\<lambda>_.
      try_bind (validate_command_path command) (\<lambda>_.
      try_bind (validate_dir_path cwd_path) (\<lambda>_.
      try_bind (of_res (validate_input_paths (rs_root e) args ep)) (\<lambda>_.
      of_res (request_for h e args payload command cwd_path (ep, box))))))))))) f1 = (Inr pe, f')"
    unfolding prepare_execution_def Let_def by (elim try_bindE) (auto split: prod.splits)
  from r1 obtain payload command dir f2 where
    res: "resolve_runtime_path (rs_root e) (rt_command ?rt) = Inr command" "resolve_runtime_path (rs_root e) (rt_cwd ?rt) = Inr dir"
    "path_within_any (path_text command) (ep_reads ep @ ep_writes ep)" "path_within_any (path_text dir) (ep_reads ep @ ep_writes ep)"
    and c: "run_state (validate_command_path command) f1 = (Inr (), f2)"
    and d: "run_state (validate_dir_path dir) f2 = (Inr (), f')"
    and rest: "validate_input_paths (rs_root e) args ep = Inr ()" "request_for h e args payload command dir (ep, box) = Inr pe"
    by (elim try_bindE) (auto simp: validate_runtime_path_def)
  have t1: "fs_tree f1 = fs_tree f" by (rule reads_onlyD [OF reads_only_build b])
  have t2: "fs_tree f2 = fs_tree f" using reads_onlyD [OF reads_only_checks(1) c] t1 by simp
  from that [OF b res _ _ rest] command_checked [OF c] dir_checked [OF d] t1 t2 show thesis by simp
qed

text \<open>Where a jail is set it is the skill's directory.\<close>

lemma rootfs_is_root:
  assumes "run_state (build_execution_profile h e limit boxes) f = (Inr (ep, box), f')" "ep_rootfs ep = Some jail"
  shows "jail = rs_root e"
proof -
  from assms(1) obtain declared writes reads sel fit where
    sel: "select_sandbox h (rs_manifest e) (rs_root e) reads writes boxes = Inr sel"
    and fit: "run_state (fit_chroot (or_str (mf_profile (rs_manifest e)) ''restricted'') (rs_root e) (rs_manifest e) sel) f = (Inr fit, f')"
    and ep: "ep = profile_of (rs_manifest e) (or_str (mf_profile (rs_manifest e)) ''restricted'') reads writes limit fit"
    by (rule build_inv) blast
  from fit assms(2) have "se_rootfs sel = Some jail" by (cases rule: fit_cases) (simp_all add: ep profile_of_def)
  with sel show ?thesis by (auto elim: select_cases [OF _ refl] simp: isolating_def)
qed

definition declared_by :: "path \<Rightarrow> string list \<Rightarrow> string \<Rightarrow> bool" where
  "declared_by base items p \<longleftrightarrow> (\<exists>item \<in> set items. \<exists>q. resolve_runtime_path base item = Inr q \<and> p = path_text q)"

lemma declared_paths: "resolve_permission_paths base items = Inr ps \<Longrightarrow> p \<in> set ps \<Longrightarrow> declared_by base items p"
  by (drule permission_paths) (fastforce simp: declared_by_def list_all2_conv_all_nth in_set_conv_nth)

lemma scope_is_declared:
  assumes "run_state (build_execution_profile h e limit boxes) f = (Inr (ep, box), f')"
  shows "list_all (\<lambda>p. p = path_text (rs_root e) \<or> declared_by (rs_root e) (sk_read (mf_perms (rs_manifest e))) p) (ep_reads ep)"
    "list_all (declared_by (rs_root e) (sk_write (mf_perms (rs_manifest e)))) (ep_writes ep)"
    "ep_timeout ep = effective_timeout (rs_manifest e)" "ep_max_output ep = effective_output (rs_manifest e) limit"
    "ep_env ep = normalize_string_list (default_env_allow_list @ sk_env (mf_perms (rs_manifest e))) True"
  using assms by (rule build_inv; auto simp: profile_of_def list_all_iff set_sort_paths declared_paths split: if_splits)+

lemma effective_limits:
  "0 < effective_timeout m" "0 < sk_max_runtime (mf_perms m) \<Longrightarrow> effective_timeout m \<le> sk_max_runtime (mf_perms m)"
  "0 < effective_output m limit" "0 < limit \<Longrightarrow> effective_output m limit \<le> limit"
  "0 < sk_max_output (mf_perms m) \<Longrightarrow> effective_output m limit \<le> sk_max_output (mf_perms m)"
  by (auto simp: effective_timeout_def effective_output_def Let_def positive_int_def process_max_output_def)

section \<open>The environment\<close>

definition env_key_ok :: "string list \<Rightarrow> string \<Rightarrow> bool" where
  "env_key_ok allowed k \<longleftrightarrow> k \<in> set allowed \<or> k = ''SKILL_INPUT_JSON'' \<or> has_prefix k ''SKILL_ARG_''"

lemma keys_update: "dom (map_of (AList.update k v env)) = insert k (dom (map_of env))"
  by (simp add: update_conv')

lemma env_keys_fold:
  "dom (map_of (foldl (\<lambda>env k. case f k of None \<Rightarrow> env | Some v \<Rightarrow> AList.update k v env) env ks)) \<subseteq> dom (map_of env) \<union> set ks"
proof (induction ks arbitrary: env)
  case (Cons k ks)
  show ?case
  proof (cases "f k")
    case None
    with Cons [of env] show ?thesis by auto
  next
    case (Some v)
    with Cons [of "AList.update k v env"] show ?thesis by (auto simp: keys_update)
  qed
qed simp

lemma set_env_keys:
  "(\<And>item k v. item \<in> set items \<Longrightarrow> split_equals item = Some (k, v) \<Longrightarrow> k \<in> S) \<Longrightarrow> dom (map_of env) \<subseteq> S \<Longrightarrow>
   dom (map_of (foldl set_env env items)) \<subseteq> S"
proof (induction items arbitrary: env)
  case (Cons item items)
  have "dom (map_of (set_env env item)) \<subseteq> S"
    using Cons.prems by (auto simp: set_env_def keys_update split: option.splits)
  then have "dom (map_of (foldl set_env (set_env env item) items)) \<subseteq> S"
    by (rule Cons.IH [rotated]) (rule Cons.prems(1), simp_all)
  then show ?case by simp
qed simp

lemma env_arg_name:
  assumes "item \<in> set (build_env_args payload args)" "split_equals item = Some (k, v)"
  shows "k = ''SKILL_INPUT_JSON'' \<or> has_prefix k ''SKILL_ARG_''"
proof -
  have before: "takeWhile (\<lambda>c. c \<noteq> CHR ''='') (x @ y) = x @ takeWhile (\<lambda>c. c \<noteq> CHR ''='') y" if "CHR ''='' \<notin> set x" for x y
    using that by (induction x) auto
  have k: "k = takeWhile (\<lambda>c. c \<noteq> CHR ''='') item" using assms(2) by (auto simp: split_equals_def Let_def split: if_splits)
  from assms(1) consider "item = ''SKILL_INPUT_JSON'' @ (''='' @ payload)" | y where "item = ''SKILL_ARG_'' @ y"
    by (auto simp: build_env_args_def env_arg_key_def)
  then show ?thesis
  proof cases
    case 1
    then show ?thesis using before [of "''SKILL_INPUT_JSON''" "''='' @ payload"] by (simp add: k)
  next
    case 2
    then show ?thesis using before [of "''SKILL_ARG_''" y] by (simp add: k)
  qed
qed

lemma sandbox_env_keys: "dom (map_of (build_sandbox_env h allowed payload args mode)) \<subseteq> Collect (env_key_ok allowed)"
proof -
  let ?env = "foldl (\<lambda>env k. case ho_env h k of None \<Rightarrow> env | Some v \<Rightarrow> AList.update k v env) [] allowed"
  let ?with = "AList.update ''SKILL_INPUT_JSON'' payload ?env"
  have base: "dom (map_of ?with) \<subseteq> Collect (env_key_ok allowed)"
    using env_keys_fold [of "ho_env h" "[]" allowed] unfolding keys_update by (auto simp: env_key_ok_def)
  moreover have "dom (map_of (foldl set_env ?with (build_env_args payload args))) \<subseteq> Collect (env_key_ok allowed)"
    by (rule set_env_keys [OF _ base]) (auto simp: env_key_ok_def dest: env_arg_name)
  ultimately show ?thesis by (simp add: build_sandbox_env_def Let_def)
qed

section \<open>Confinement\<close>

definition input_in_scope :: "path \<Rightarrow> execution_profile \<Rightarrow> string \<times> string \<Rightarrow> bool" where
  "input_in_scope base ep x \<longleftrightarrow>
     looks_like_local_path (snd x) \<longrightarrow>
     (\<exists>p. resolve_runtime_path base (snd x) = Inr p \<and>
        (case classify_path_access (fst x) of
           Write_access \<Rightarrow> path_within_any (path_text p) (ep_writes ep)
         | Read_access \<Rightarrow> path_within_any (path_text p) (ep_reads ep @ ep_writes ep)
         | No_access \<Rightarrow> True))"

lemma input_checked: "check_input_path base ep x = Inr () \<Longrightarrow> input_in_scope base ep x"
  by (cases x) (auto simp: check_input_path_def input_in_scope_def split: if_splits sum.splits access.splits)

text \<open>How a path is named to the sandbox: by itself, or from the jail.\<close>

definition names_path :: "path option \<Rightarrow> path \<Rightarrow> string \<Rightarrow> bool" where
  "names_path jail p t \<longleftrightarrow> (case jail of None \<Rightarrow> t = path_text p | Some j \<Rightarrow> \<exists>rest. p = j @ rest \<and> t = path_text rest)"

lemma sandbox_path_names:
  assumes "clean_path p" "clean_path j" "sandbox_path p j = Inr t"
  shows "names_path (Some j) p t"
proof -
  from assms have "path_within_base (path_text p) (path_text j)" by (auto simp: sandbox_path_def split: if_splits)
  then have "prefix j p" using within_clean [OF assms(1,2)] by auto
  then obtain rest where rest: "p = j @ rest" by (auto simp: prefix_def)
  have "join ''/'' rest \<noteq> ''.''" if "rest \<noteq> []"
  proof -
    from that obtain c cs where c: "rest = c # cs" by (cases rest) auto
    with assms(1) rest have "good_comp c" by simp
    then show ?thesis using takeWhile_join [of c cs] c by (auto simp: good_comp_def)
  qed
  with assms(3) rest show ?thesis
    by (auto simp: sandbox_path_def names_path_def rel_text_inside path_text_def Let_def split: if_splits)
qed


section \<open>A skill for examples\<close>

definition skill0 :: registered_skill where
  "skill0 =
     \<lparr>rs_reg = \<lparr>rg_id = ''s'', rg_name = ''S'', rg_version = ''1'', rg_desc = [], rg_archive = ''/s'', rg_runtime_type = ''script'',
        rg_effects = [''read''], rg_approval = ''auto'', rg_source = ''path'', rg_checksum = [], rg_installed = 1,
        rg_profile = ''restricted'', rg_enabled = True, rg_created = 1\<rparr>,
      rs_manifest = manifest0, rs_root = [''s''],
      rs_package = \<lparr>pk_id = ''s'', pk_version = ''1'', pk_source = ''path'', pk_path = ''/s'', pk_checksum = [], pk_installed = 1\<rparr>\<rparr>"

definition host0 :: host where
  "host0 = \<lparr>ho_cwd = [], ho_env = (\<lambda>_. None), ho_userns = True, ho_superuser = True, ho_clone = None, ho_max_ns = None\<rparr>"

definition skill_files0 :: fs_world where
  "skill_files0 =
     \<lparr>fs_tree = [([], FDir), ([''s''], FDir), ([''s'', ''run''], FFile ''x'' 0x1ED)], fs_calls = 0, fs_faults = (\<lambda>_. None),
      fs_temp = (\<lambda>_. []), fs_umask = 0\<rparr>"

lemma prepared0: "\<exists>pe f'. run_state (prepare_execution host0 skill0 [(''path'', GStr ''./run'')] 0 []) skill_files0 = (Inr pe, f')"
proof -
  have "\<not> isl (fst (run_state (prepare_execution host0 skill0 [(''path'', GStr ''./run'')] 0 []) skill_files0))"
    by code_simp
  then show ?thesis by (metis isl_def prod.collapse sum.collapse(2))
qed


theorem unisolated_skill_asks_witness:
  "\<exists>ep. fst (run_state (build_execution_profile host0 skill0 0 []) skill_files0) = Inr ep \<and>
     (ep_approval (fst ep) \<or> isolated_profile host0 [''s''] (fst ep))"
proof -
  obtain pe f' where "run_state (prepare_execution host0 skill0 [(''path'', GStr ''./run'')] 0 []) skill_files0 = (Inr pe, f')"
    using prepared0 by blast
  then obtain ep box g where b: "run_state (build_execution_profile host0 skill0 0 []) skill_files0 = (Inr (ep, box), g)"
    by (rule prepare_inv)
  have "ep_requested ep = ''restricted''"
    using b by (rule build_inv) (simp add: profile_of_def skill0_def manifest0_def or_str_def)
  moreover have "rs_root skill0 = [''s'']" by (simp add: skill0_def)
  ultimately show ?thesis using unisolated_skill_asks [OF b] b by auto
qed

end
