(* ===== verification/Skill_Archives.thy ===== *)
theory Skill_Archives
  imports Skill_Safety Workspace_Facts
begin

text \<open>
  What unpacking an archive can do to the files: whatever the entries are called, and whichever system call fails, only
  nodes strictly below the directory the archive is unpacked to are made or written, no directory is replaced, and no file
  grows beyond the limit. The directory that is then taken for the skill lies there too.
\<close>

section \<open>Making directories\<close>

definition grows :: "path \<Rightarrow> ftree \<Rightarrow> ftree \<Rightarrow> bool" where
  "grows p t t' \<longleftrightarrow> (\<forall>q. map_of t' q = map_of t q \<or> prefix q p \<and> map_of t q = None \<and> map_of t' q = Some FDir)"

lemma grows_refl [simp]: "grows p t t"
  by (simp add: grows_def)

lemma grows_trans: "grows p t u \<Longrightarrow> grows p u v \<Longrightarrow> grows p t v"
  unfolding grows_def by (metis option.distinct(1))

lemma grows_dir: "grows p t u \<Longrightarrow> map_of t q = Some FDir \<Longrightarrow> map_of u q = Some FDir"
  unfolding grows_def by metis

lemma os_mkdir_grows:
  "run_state (os_mkdir q) f = (r, f') \<Longrightarrow> prefix q p \<Longrightarrow> grows p (fs_tree f) (fs_tree f') \<and> (r = Inr () \<longrightarrow> map_of (fs_tree f') q = Some FDir)"
  by (auto simp: os_mkdir_def sys_run Let_def grows_def split: option.splits sum.splits fnode.splits if_splits)

lemma mkdir_from_grows:
  "run_state (mkdir_from d cs) f = (r, f') \<Longrightarrow>
   grows (d @ cs) (fs_tree f) (fs_tree f') \<and>
   (r = Inr () \<longrightarrow> (\<forall>q. strict_prefix d q \<and> prefix q (d @ cs) \<longrightarrow> map_of (fs_tree f') q = Some FDir))"
proof (induction cs arbitrary: d f)
  case Nil
  then show ?case by (auto simp: strict_prefix_def)
next
  case (Cons c cs)
  let ?p = "d @ [c]"
  have rest: ?case if run: "run_state (mkdir_from ?p cs) u = (r, f')" and u: "grows (d @ c # cs) (fs_tree f) (fs_tree u)"
    and dir: "map_of (fs_tree u) ?p = Some FDir" for u
  proof -
    from Cons.IH [OF run] have g: "grows (d @ c # cs) (fs_tree u) (fs_tree f')"
      and dirs: "r = Inr () \<longrightarrow> (\<forall>q. strict_prefix ?p q \<and> prefix q (d @ c # cs) \<longrightarrow> map_of (fs_tree f') q = Some FDir)" by simp_all
    have "q = ?p \<or> strict_prefix ?p q" if "strict_prefix d q" "prefix q (d @ c # cs)" for q
      using that by (auto simp: strict_prefix_def prefix_def append_eq_append_conv2 Cons_eq_append_conv)
    with dirs grows_dir [OF g dir] show ?thesis using grows_trans [OF u g] by blast
  qed
  obtain x v where x: "run_state (os_stat ?p) f = (x, v)" by fastforce
  have v: "fs_tree v = fs_tree f" by (rule os_stat_tree [OF x])
  show ?case
  proof (cases x)
    case (Inr n)
    with stat_node x v have "map_of (fs_tree v) ?p = Some n" by auto
    with Inr x v Cons.prems rest [of v] show ?thesis by (cases n) auto
  next
    case (Inl err)
    obtain m u where m: "run_state (os_mkdir ?p) v = (m, u)" by fastforce
    from os_mkdir_grows [OF this, of "d @ c # cs"] v
    have u: "grows (d @ c # cs) (fs_tree f) (fs_tree u)" "m = Inr () \<longrightarrow> map_of (fs_tree u) ?p = Some FDir" by simp_all
    show ?thesis
    proof (cases m)
      case (Inr y)
      with Inl x m Cons.prems u rest [of u] show ?thesis by auto
    next
      case failed: (Inl e)
      obtain y z where y: "run_state (os_stat ?p) u = (y, z)" by fastforce
      have z: "fs_tree z = fs_tree u" by (rule os_stat_tree [OF y])
      have "y = Inr FDir \<Longrightarrow> map_of (fs_tree z) ?p = Some FDir" using stat_node y z by auto
      with Inl failed x m y z u Cons.prems rest [of z] show ?thesis by (auto split: sum.splits fnode.splits)
    qed
  qed
qed

lemma mkdir_all_grows:
  "run_state (os_mkdir_all p) f = (r, f') \<Longrightarrow>
   grows p (fs_tree f) (fs_tree f') \<and> (r = Inr () \<longrightarrow> (\<forall>q. q \<noteq> [] \<and> prefix q p \<longrightarrow> map_of (fs_tree f') q = Some FDir))"
  using mkdir_from_grows [of "[]" p f r f'] by (auto simp: os_mkdir_all_def strict_prefix_def)

section \<open>Calls that only unpack\<close>

definition dirs_to :: "path \<Rightarrow> ftree \<Rightarrow> bool" where
  "dirs_to base t \<longleftrightarrow> (\<forall>q. prefix q base \<longrightarrow> map_of t q = Some FDir)"

definition unpacked_node :: "path \<Rightarrow> path \<Rightarrow> fnode option \<Rightarrow> fnode option \<Rightarrow> bool" where
  "unpacked_node base q old new \<longleftrightarrow>
     new = old \<or>
     strict_prefix base q \<and> old \<noteq> Some FDir \<and>
     (case new of None \<Rightarrow> False | Some FDir \<Rightarrow> old = None | Some (FFile c _) \<Rightarrow> int (length c) \<le> max_zip_file + 1)"

definition unpacks :: "path \<Rightarrow> ftree \<Rightarrow> ftree \<Rightarrow> bool" where
  "unpacks base t t' \<longleftrightarrow> (\<forall>q. unpacked_node base q (map_of t q) (map_of t' q))"

definition unpacking :: "path \<Rightarrow> (fs_world, 'a) state \<Rightarrow> bool" where
  "unpacking base m \<longleftrightarrow>
     (\<forall>f r f'. run_state m f = (r, f') \<longrightarrow> dirs_to base (fs_tree f) \<longrightarrow> unpacks base (fs_tree f) (fs_tree f'))"

lemma unpacks_refl [simp]: "unpacks base t t"
  by (simp add: unpacks_def unpacked_node_def)

lemma unpacked_node_trans: "unpacked_node base q a b \<Longrightarrow> unpacked_node base q b c \<Longrightarrow> unpacked_node base q a c"
  by (auto simp: unpacked_node_def split: option.splits fnode.splits)

lemma unpacks_trans: "unpacks base t u \<Longrightarrow> unpacks base u v \<Longrightarrow> unpacks base t v"
  unfolding unpacks_def by (blast intro: unpacked_node_trans)

lemma unpacks_dirs: "unpacks base t u \<Longrightarrow> dirs_to base t \<Longrightarrow> dirs_to base u"
  unfolding unpacks_def unpacked_node_def dirs_to_def by (metis prefix_order.leD)

lemma unpackingD: "unpacking base m \<Longrightarrow> run_state m f = (r, f') \<Longrightarrow> dirs_to base (fs_tree f) \<Longrightarrow> unpacks base (fs_tree f) (fs_tree f')"
  by (simp add: unpacking_def)

named_theorems unpack \<open>calls that only unpack\<close>

lemma unpacking_reads: "reads_only m \<Longrightarrow> unpacking base m"
  by (simp add: unpacking_def reads_only_def)

lemma unpacking_return [unpack]: "unpacking base (State_Monad.return x)"
  by (rule unpacking_reads) (rule reading)

lemma unpacking_bind [unpack]: "unpacking base m \<Longrightarrow> (\<And>x. unpacking base (k x)) \<Longrightarrow> unpacking base (State_Monad.bind m k)"
  unfolding unpacking_def by (fastforce elim!: bind_runE intro: unpacks_trans unpacks_dirs)

lemma unpacking_of_os [unpack]: "unpacking base m \<Longrightarrow> unpacking base (of_os m)"
  unfolding of_os_def by (rule unpacking_bind [OF _ unpacking_return])

lemma unpacking_try [unpack]: "unpacking base m \<Longrightarrow> (\<And>x. unpacking base (k x)) \<Longrightarrow> unpacking base (try_bind m k)"
  unfolding try_bind_def by (rule unpacking_bind) (auto split: sum.splits intro: unpacking_return)

lemma unpacking_given: "(\<And>x. r = Inr x \<Longrightarrow> unpacking base (k x)) \<Longrightarrow> unpacking base (try_bind (of_res r) k)"
  by (cases r) (simp_all add: try_bind_def unpacking_return)

lemma unpacking_mkdir:
  assumes "prefix base p \<or> prefix p base"
  shows "unpacking base (os_mkdir_all p)"
  unfolding unpacking_def unpacks_def
proof (intro allI impI)
  fix f r f' q
  assume run: "run_state (os_mkdir_all p) f = (r, f')" and dirs: "dirs_to base (fs_tree f)"
  from mkdir_all_grows [OF run] have "map_of (fs_tree f') q = map_of (fs_tree f) q \<or>
      prefix q p \<and> map_of (fs_tree f) q = None \<and> map_of (fs_tree f') q = Some FDir" by (simp add: grows_def)
  moreover have "strict_prefix base q" if "prefix q p" "map_of (fs_tree f) q = None"
  proof -
    have "\<not> prefix q base" using that(2) dirs by (auto simp: dirs_to_def)
    with assms that(1) show ?thesis
      by (metis prefix_order.dual_order.strict_iff_order prefix_order.order_trans prefix_same_cases)
  qed
  ultimately show "unpacked_node base q (map_of (fs_tree f) q) (map_of (fs_tree f') q)"
    by (auto simp: unpacked_node_def)
qed

lemma unpacking_open: "prefix base p \<Longrightarrow> unpacking base (os_open_trunc p mode)"
  by (auto simp: unpacking_def unpacks_def unpacked_node_def os_open_trunc_def sys_run Let_def dirs_to_def strict_prefix_def
      max_zip_file_def split: option.splits sum.splits fnode.splits if_splits)

lemma unpacking_write: "prefix base p \<Longrightarrow> int (length c) \<le> max_zip_file + 1 \<Longrightarrow> unpacking base (os_write p c)"
  by (auto simp: unpacking_def unpacks_def unpacked_node_def os_write_def sys_run Let_def dirs_to_def strict_prefix_def
      split: option.splits sum.splits fnode.splits if_splits)

lemma unpacking_close [unpack]: "unpacking base os_close"
  by (rule unpacking_reads) (simp add: reads_only_def os_close_tree)

section \<open>Unpacking entries\<close>

lemma zip_target_below: "clean_path base \<Longrightarrow> safe_zip_target base name = Inr targ \<Longrightarrow> prefix base targ"
  by (auto simp: safe_zip_target_def Let_def clean_clean_from within_clean split: if_splits)

lemma unpacking_entry:
  assumes "clean_path base"
  shows "unpacking base (extract_entry base count sized z)"
  unfolding extract_entry_def Let_def
proof (intro unpacking_given)
  fix targ
  assume "safe_zip_target base (ze_name z) = Inr targ"
  with assms have targ: "prefix base targ" by (rule zip_target_below)
  have "prefix base (butlast targ) \<or> prefix (butlast targ) base"
    using targ prefixeq_butlast prefix_same_cases by blast
  then show "unpacking base (try_bind (of_os (os_mkdir_all (butlast targ))) (\<lambda>_.
      try_bind (of_res (ze_data z)) (\<lambda>(data, read_error).
      try_bind (of_os (os_open_trunc targ (ze_mode z))) (\<lambda>_. do {
          w \<leftarrow> of_os (os_write targ (read_limited (max_zip_file + 1) data));
          c \<leftarrow> of_os os_close;
          of_res (all_ok
            [w, case if int (length data) \<le> max_zip_file then read_error else None of None \<Rightarrow> Inr () | Some e \<Rightarrow> Inl e, c,
             need (int (length (read_limited (max_zip_file + 1) data)) \<le> max_zip_file)
               (''zip file '' @ quote (ze_name z) @ '' exceeds per-file size limit'')])
        }))))"
    by (intro unpack unpacking_mkdir; auto intro!: unpack unpacking_open unpacking_write targ simp: max_zip_file_def read_limited_def split: prod.splits)
qed

lemma unpacking_entries: "clean_path base \<Longrightarrow> unpacking base (extract_entries base count sized zs)"
  by (induction base count sized zs rule: extract_entries.induct) (simp_all add: Let_def unpack unpacking_entry)

lemma unpacked_entries:
  "run_state (extract_entries base count sized zs) f = (Inr (), f') \<Longrightarrow>
   list_all (\<lambda>z. ze_dir z \<or> \<not> ze_link z) zs \<and> (count \<le> max_zip_files \<longrightarrow> count + length (filter (Not \<circ> ze_dir) zs) \<le> max_zip_files)"
proof (induction base count sized zs arbitrary: f rule: extract_entries.induct)
  case (2 base count sized z zs)
  show ?case
  proof (cases "ze_dir z")
    case True
    with 2 show ?thesis by simp
  next
    case False
    let ?sized = "wrap64 (sized + wrap64 (int (ze_size z)))"
    from 2 False obtain u where e: "run_state (extract_entry base (Suc count) ?sized z) f = (Inr (), u)"
      and rest: "run_state (extract_entries base (Suc count) ?sized zs) u = (Inr (), f')"
      by (auto simp: Let_def elim!: try_bindE)
    from e have "Suc count \<le> max_zip_files" "\<not> ze_link z"
      unfolding extract_entry_def by (auto simp: all_ok_iff need_def elim!: try_bindE split: if_splits)
    with 2(2) [OF False refl rest] False show ?thesis by simp
  qed
qed simp

section \<open>The skill that was unpacked\<close>

definition roots_inv :: "path \<Rightarrow> ftree \<Rightarrow> path list \<Rightarrow> bool" where
  "roots_inv base t roots \<longleftrightarrow> list_all (\<lambda>p. node_at t (p @ [manifest_file]) False \<and> prefix base (p @ [manifest_file])) roots"

interpretation skill_roots: walk_contract roots_visit "prefix base" "roots_inv base" for base
proof
  fix p d f and s :: "path list" and v f' s'
  assume "run_state (roots_visit p d None) (f, s) = (v, f', s')" "node_at (fs_tree f) p d" "prefix base p" "roots_inv base (fs_tree f) s"
  then show "roots_inv base (fs_tree f) s'"
    by (cases p rule: rev_cases) (auto simp: roots_visit_def roots_inv_def split: if_splits)
qed (auto simp: roots_visit_def)

lemma skill_roots_found:
  assumes "run_state (find_skill_roots base) f = (r, f')"
  shows "fs_tree f' = fs_tree f \<and> (\<forall>roots. r = Some (Inr roots) \<longrightarrow> roots_inv base (fs_tree f) roots)"
proof -
  obtain w g s where walk: "run_state (walk_tree roots_visit base) (f, []) = (w, g, s)" by (metis prod_cases3)
  with skill_roots.walk_tree_spec [OF this, of base] have "fs_tree g = fs_tree f" "roots_inv base (fs_tree f) s"
    by (simp_all add: roots_inv_def)
  with assms walk show ?thesis
    by (auto simp: find_skill_roots_def roots_inv_def list_all_iff split: option.splits)
qed

lemma one_root_found: "one_root r = Inr p \<Longrightarrow> \<exists>roots. r = Some (Inr roots) \<and> p \<in> set roots"
  by (auto simp: one_root_def split: option.splits sum.splits list.splits)

lemma reads_only_load [reading]: "reads_only (load_manifest codec base)"
  unfolding load_manifest_def by (intro reading)

lemma reads_only_roots [reading]: "reads_only (find_skill_roots base)"
  by (auto simp: reads_only_def dest: skill_roots_found)

lemma extract_inv:
  assumes "run_state (extract_zip_skill codec zip_file workdir) f = (Inr (base, m), f')"
  obtains data entries f1 f2 roots where
    "sc_zip codec data = Inr entries" "run_state (extract_entries (workdir @ [''unpacked'']) 0 0 entries) f1 = (Inr (), f2)"
    "roots_inv (workdir @ [''unpacked'']) (fs_tree f2) roots" "base \<in> set roots" "fs_tree f' = fs_tree f2" "\<exists>m0. normalize_manifest m0 = Inr m"
proof -
  let ?dir = "workdir @ [''unpacked'']"
  from assms obtain data entries f0 f1 f2 f3 f4 where zip: "sc_zip codec data = Inr entries"
    and run: "run_state (extract_entries ?dir 0 0 entries) f1 = (Inr (), f2)"
    and roots: "run_state (State_Monad.bind (find_skill_roots ?dir) (\<lambda>r. State_Monad.return (one_root r))) f2 = (Inr base, f3)"
    and load: "run_state (load_manifest codec base) f3 = (Inr m, f4)" and end_: "f' = f4"
    unfolding extract_zip_skill_def Let_def by (auto elim!: try_bindE)
  from roots obtain r where r: "run_state (find_skill_roots ?dir) f2 = (r, f3)" "one_root r = Inr base"
    by (auto split: prod.splits)
  with one_root_found obtain rs where "r = Some (Inr rs)" "base \<in> set rs" by blast
  with skill_roots_found [OF r(1)] have "roots_inv ?dir (fs_tree f2) rs" "base \<in> set rs" "fs_tree f3 = fs_tree f2" by simp_all
  moreover have "fs_tree f4 = fs_tree f3" by (rule reads_onlyD [OF reads_only_load load])
  moreover from load have "\<exists>m0. normalize_manifest m0 = Inr m" by (auto simp: load_manifest_def elim!: try_bindE)
  ultimately show thesis using that zip run end_ by metis
qed

lemma extract_unpacks:
  assumes "clean_path workdir" "dirs_to workdir (fs_tree f)" "run_state (extract_zip_skill codec zip_file workdir) f = (r, f')"
  shows "\<exists>t. grows (workdir @ [''unpacked'']) (fs_tree f) t \<and> unpacks (workdir @ [''unpacked'']) t (fs_tree f')"
proof -
  let ?dir = "workdir @ [''unpacked'']"
  let ?rest = "try_bind (of_os (os_read zip_file)) (\<lambda>data.
      try_bind (of_res (sc_zip codec data)) (\<lambda>entries.
      try_bind (extract_entries ?dir 0 0 entries) (\<lambda>_.
      try_bind (State_Monad.bind (find_skill_roots ?dir) (\<lambda>r. State_Monad.return (one_root r))) (\<lambda>base.
      try_bind (load_manifest codec base) (\<lambda>m. of_res (Inr (base, m)))))))"
  obtain d u where d: "run_state (os_mkdir_all ?dir) f = (d, u)" by fastforce
  from mkdir_all_grows [OF d] have g: "grows ?dir (fs_tree f) (fs_tree u)"
    and made: "d = Inr () \<longrightarrow> (\<forall>q. q \<noteq> [] \<and> prefix q ?dir \<longrightarrow> map_of (fs_tree u) q = Some FDir)" by simp_all
  show ?thesis
  proof (cases d)
    case (Inl e)
    with assms(3) d have "f' = u" by (simp add: extract_zip_skill_def Let_def try_bind_def of_os_def)
    with g show ?thesis by (intro exI [of _ "fs_tree u"]) simp
  next
    case (Inr y)
    with assms(3) d have run: "run_state ?rest u = (r, f')" by (simp add: extract_zip_skill_def Let_def try_bind_def of_os_def)
    have "map_of (fs_tree u) [] = Some FDir" using assms(2) g grows_dir by (auto simp: dirs_to_def)
    moreover have "\<forall>q. q \<noteq> [] \<and> prefix q ?dir \<longrightarrow> map_of (fs_tree u) q = Some FDir" using made Inr by simp
    ultimately have "map_of (fs_tree u) q = Some FDir" if "prefix q ?dir" for q
      using that by (cases "q = []") simp_all
    then have "dirs_to ?dir (fs_tree u)" unfolding dirs_to_def by simp
    moreover have clean: "clean_path ?dir" using assms(1) by (simp add: good_comp_def)
    have "unpacking ?dir ?rest" by (intro unpack unpacking_entries clean; rule unpacking_reads; intro reading)
    ultimately show ?thesis using unpackingD [OF _ run] g by blast
  qed
qed


text \<open>An archive with a manifest and a command in a directory of its own.\<close>

definition codec0 :: skill_codec where
  "codec0 =
     \<lparr>sc_manifest = (\<lambda>_. Inr manifest0), sc_info = (\<lambda>_. Inl (Err ''none'')), sc_info_text = (\<lambda>_. []),
      sc_zip = (\<lambda>_. Inr
        [\<lparr>ze_name = ''s/skill.yaml'', ze_dir = False, ze_size = 1, ze_link = False, ze_mode = 0x1A4, ze_data = Inr (''m'', None)\<rparr>,
         \<lparr>ze_name = ''s/run'', ze_dir = False, ze_size = 1, ze_link = False, ze_mode = 0x1ED, ze_data = Inr (''x'', None)\<rparr>])\<rparr>"

definition archive_files0 :: fs_world where
  "archive_files0 =
     \<lparr>fs_tree = [([], FDir), ([''t''], FDir), ([''z''], FFile ''zip'' 0x1A4)], fs_calls = 0, fs_faults = (\<lambda>_. None),
      fs_temp = (\<lambda>_. []), fs_umask = 0\<rparr>"


text \<open>The place a package is then moved to is only as safe as its manifest's id and version, which are not checked: here it is
  \<open>/etc\<close>, outside the packages.\<close>

theorem package_leaves_packages:
  "\<exists>m. normalize_manifest m = Inr m \<and>
     package_root \<lparr>mg_packages = [''skills'', ''packages''], mg_temp = [''t''], mg_boxes = [], mg_skills = []\<rparr> m = [''etc'']"
proof (intro exI conjI)
  show "normalize_manifest (manifest0\<lparr>mf_id := ''../..'', mf_version := ''etc''\<rparr>) = Inr (manifest0\<lparr>mf_id := ''../..'', mf_version := ''etc''\<rparr>)"
    by code_simp
  show "package_root \<lparr>mg_packages = [''skills'', ''packages''], mg_temp = [''t''], mg_boxes = [], mg_skills = []\<rparr>
      (manifest0\<lparr>mf_id := ''../..'', mf_version := ''etc''\<rparr>) = [''etc'']"
    by code_simp
qed

end
