(* ===== verification/Skill_Runs.thy ===== *)
theory Skill_Runs
  imports Skill_Archives
begin

text \<open>
  From the proposal to the start of a skill: the runner starts at most one process, of an enabled skill whose input was
  checked, and a call of \<open>skill.run\<close> that inference and policy let through unasked starts it in the isolation its manifest
  asks for.
\<close>

section \<open>What the runner starts\<close>

text \<open>The start of a prepared request in the files \<open>f\<close>, as the log and the files show it.\<close>

definition starts_entry ::
    "host \<Rightarrow> boxes_run \<Rightarrow> sandbox list \<Rightarrow> int \<Rightarrow> registered_skill \<Rightarrow> gmap \<Rightarrow> fs_world \<Rightarrow> prepared \<Rightarrow> fs_world \<Rightarrow> start_log \<Rightarrow> bool" where
  "starts_entry h run boxes limit e args f pe f' new \<longleftrightarrow>
     (\<exists>g. run_state (prepare_execution h e args limit boxes) f = (Inr pe, g) \<and> fs_tree g = fs_tree f \<and>
        new = [(sb_name (pe_runner pe), pe_request pe)] \<and> f' = snd (run (pe_runner pe) (pe_request pe) g))"

lemma run_entry_cases:
  assumes "run_state (run_entry h run dec boxes limit e args) (f, started) = (rep, f', started')"
  obtains (refused) "started' = started" "fs_tree f' = fs_tree f" "snd rep \<noteq> None"
    | (begun) pe new where "started' = started @ new" "starts_entry h run boxes limit e args f pe f' new"
proof -
  obtain r g where p: "run_state (prepare_execution h e args limit boxes) f = (r, g)" by fastforce
  have g: "fs_tree g = fs_tree f" by (rule reads_onlyD [OF reads_only_prepare p])
  show thesis
  proof (cases r)
    case (Inl x)
    with assms p g show thesis by (intro refused) (auto simp: run_entry_def in_files_def skill_failed_def)
  next
    case (Inr pe)
    with assms p have "started' = started @ [(sb_name (pe_runner pe), pe_request pe)]" "f' = snd (run (pe_runner pe) (pe_request pe) g)"
      by (auto simp: run_entry_def in_files_def start_sandbox_def split: prod.splits)
    with begun p Inr g show thesis by (auto simp: starts_entry_def)
  qed
qed

lemma execute_cases:
  assumes "run_state (execute_skill h run dec rn input) (f, started) = (rep, f', started')"
  obtains (refused) "started' = started" "fs_tree f' = fs_tree f" "snd rep \<noteq> None"
    | (begun) k e pe new where "get_string input ''skill_id'' = Inr k" "map_of (mg_skills (sn_manager rn)) k = Some e"
        "rg_enabled (rs_reg e)" "validate_input (mf_input (rs_manifest e)) (get_map input ''args'') = Inr ()"
        "started' = started @ new" "starts_entry h run (runner_sandboxes rn) (sn_max_chars rn) e (get_map input ''args'') f pe f' new"
proof (cases "get_string input ''skill_id''")
  case (Inl x)
  with assms show thesis by (intro refused) (auto simp: execute_skill_def skill_failed_def)
next
  case k: (Inr k)
  show thesis
  proof (cases "map_of (mg_skills (sn_manager rn)) k")
    case None
    with assms k show thesis by (intro refused) (auto simp: execute_skill_def skill_failed_def skill_resolve_def Let_def)
  next
    case e: (Some e)
    show thesis
    proof (cases "rg_enabled (rs_reg e) \<and> validate_input (mf_input (rs_manifest e)) (get_map input ''args'') = Inr ()")
      case True
      with assms k e have "run_state (run_entry h run dec (runner_sandboxes rn) (sn_max_chars rn) e (get_map input ''args'')) (f, started) = (rep, f', started')"
        by (simp add: execute_skill_def skill_resolve_def Let_def)
      then show thesis
        using refused begun [OF k e] True by (cases rule: run_entry_cases) auto
    next
      case False
      with assms k e show thesis
        by (intro refused) (auto simp: execute_skill_def skill_failed_def skill_resolve_def Let_def split: if_splits sum.splits)
    qed
  qed
qed

text \<open>C38: a call of \<open>skill.run\<close> starts at most one process. It starts none unless the input names a registered skill that is
  enabled, its arguments conform to the skill's schema and the request for the sandbox could be prepared, and then the
  request is the one prepared, on the files as they were; otherwise it returns an error and changes no file.\<close>

theorem only_enabled_skills_start:
  assumes "run_state (execute_skill h run dec rn input) (f, started) = (rep, f', started')"
  shows "started' = started \<and> fs_tree f' = fs_tree f \<and> snd rep \<noteq> None \<or>
    (\<exists>k e pe new. get_string input ''skill_id'' = Inr k \<and> map_of (mg_skills (sn_manager rn)) k = Some e \<and> rg_enabled (rs_reg e) \<and>
       validate_input (mf_input (rs_manifest e)) (get_map input ''args'') = Inr () \<and> started' = started @ new \<and>
       starts_entry h run (runner_sandboxes rn) (sn_max_chars rn) e (get_map input ''args'') f pe f' new)"
  using assms by (cases rule: execute_cases) blast+

section \<open>What is started unasked\<close>

lemma infer_skill_run: "tp_tool p = ''skill.run'' \<Longrightarrow> infer ei p = Inr (infer_skill ei p)"
  by (simp add: infer_def infer_code_def infer_memory_def infer_git_def or_else_def)

lemma quiet_skill:
  assumes "\<not> if_approval (infer_skill ei p)" "ei_skills ei = Some lookup"
  obtains sp where "lookup (str_at (nm (tp_input p)) ''skill_id'') = Inr sp" "sp_approval_default sp \<noteq> ''require''" "\<not> sp_requires sp"
    "if_effects (infer_skill ei p) = (if sp_effects sp = [] then [''unknown.effect''] else sp_effects sp)"
proof -
  let ?k = "str_at (nm (tp_input p)) ''skill_id''"
  show thesis
  proof (cases "lookup ?k")
    case (Inl x)
    with assms show thesis by (auto simp: infer_skill_def Let_def split: if_splits)
  next
    case (Inr sp)
    let ?es = "if sp_effects sp = [] then [''unknown.effect''] else sp_effects sp"
    let ?r = "foldl skill_effect_step (mk_inf ?es ''read'' False False (95/100) skill_read_only) ?es"
    have "?k \<noteq> []" using assms(1) by (auto simp: infer_skill_def Let_def)
    with assms(2) Inr have i: "infer_skill ei p = skill_sandbox_step sp (skill_default_step sp ?r)"
      by (simp add: infer_skill_def Let_def del: foldl_Cons)
    have "if_effects ?r = ?es" by (simp only: skill_fold.fold_effects mk_inf_sel)
    with that Inr assms(1) i show thesis
      by (auto simp: skill_sandbox_step_def skill_default_step_def simp del: foldl_Cons split: if_splits)
  qed
qed

lemma policy_profile_inv:
  assumes "run_state (skill_policy_profile h mg k) f = (Inr sp, f')"
  obtains e ep box where "map_of (mg_skills mg) k = Some e"
    "run_state (build_execution_profile h e 0 (available_sandboxes mg)) f = (Inr (ep, box), f')"
    "sp_effects sp = effective_effects (rs_manifest e)" "sp_approval_default sp = mf_approval (rs_manifest e)" "sp_requires sp = ep_approval ep"
  using assms unfolding skill_policy_profile_def
  by (auto simp: skill_resolve_def elim!: try_bindE split: option.splits prod.splits)

text \<open>The limit of the output changes nothing else of a profile.\<close>

lemma profile_approval_limit:
  assumes "run_state (build_execution_profile h e limit boxes) f = (Inr (ep, box), f1)"
    "run_state (build_execution_profile h e limit' boxes) f = (Inr (ep', box'), f2)"
  shows "ep_approval ep' = ep_approval ep"
proof -
  let ?m = "rs_manifest e" and ?req = "or_str (mf_profile (rs_manifest e)) ''restricted''"
  from assms(1) obtain declared writes reads sel fit where
    a: "resolve_permission_paths (rs_root e) (sk_read (mf_perms ?m)) = Inr declared"
    "resolve_permission_paths (rs_root e) (sk_write (mf_perms ?m)) = Inr writes"
    "reads = (if path_within_any (path_text (rs_root e)) declared then declared else declared @ [path_text (rs_root e)])"
    "select_sandbox h ?m (rs_root e) reads writes boxes = Inr sel" "run_state (fit_chroot ?req (rs_root e) ?m sel) f = (Inr fit, f1)"
    "ep = profile_of ?m ?req reads writes limit fit" by (rule build_inv) blast
  from assms(2) obtain declared' writes' reads' sel' fit' where
    b: "resolve_permission_paths (rs_root e) (sk_read (mf_perms ?m)) = Inr declared'"
    "resolve_permission_paths (rs_root e) (sk_write (mf_perms ?m)) = Inr writes'"
    "reads' = (if path_within_any (path_text (rs_root e)) declared' then declared' else declared' @ [path_text (rs_root e)])"
    "select_sandbox h ?m (rs_root e) reads' writes' boxes = Inr sel'" "run_state (fit_chroot ?req (rs_root e) ?m sel') f = (Inr fit', f2)"
    "ep' = profile_of ?m ?req reads' writes' limit' fit'" by (rule build_inv) blast
  from a(1,2) b(1,2) have "declared' = declared" "writes' = writes" by simp_all
  moreover from this a(3) b(3) have "reads' = reads" by simp
  ultimately have "sel' = sel" using a(4) b(4) by simp
  with a(5) b(5) have "fit' = fit" by simp
  with a(6) b(6) show ?thesis by (simp add: profile_of_def)
qed

lemma prepared_profile:
  assumes "run_state (prepare_execution h e args limit boxes) f = (Inr pe, g)"
  obtains box f1 where "run_state (build_execution_profile h e limit boxes) f = (Inr (rq_profile (pe_request pe), box), f1)"
  using assms by (rule prepare_inv) (auto simp: request_for_def Let_def split: sum.splits)

text \<open>C37: a call of \<open>skill.run\<close> that is inferred from the registry's profile and decided to run unasked starts nothing but a
  registered, enabled skill whose manifest declares only effects that need no approval and no approval by default. The request
  it is started with needs no approval, and is confined to namespaces and the skill's directory, with the network off or
  no list of hosts left unenforced, unless the manifest itself asks for a profile that runs on the host.\<close>

theorem unasked_skill_is_isolated:
  assumes "tp_tool p = ''skill.run''" "infer ei p = Inr i" "auto (decide cfg p i)"
    "ei_skills ei = Some (\<lambda>k. fst (run_state (skill_policy_profile h (sn_manager rn) k) f))"
    "runner_sandboxes rn = available_sandboxes (sn_manager rn)"
    "run_state (execute_skill h run dec rn (nm (tp_input p))) (f, started) = (rep, f', started')"
  shows "started' = started \<or>
    (\<exists>e box rq. map_of (mg_skills (sn_manager rn)) (str_at (nm (tp_input p)) ''skill_id'') = Some e \<and> started' = started @ [(box, rq)] \<and>
       rg_enabled (rs_reg e) \<and> mf_approval (rs_manifest e) \<noteq> ''require'' \<and>
       list_all (\<lambda>x. x \<noteq> ''unknown.effect'' \<and> \<not> effect_needs_approval x) (effective_effects (rs_manifest e)) \<and>
       (let ep = rq_profile rq in
        \<not> ep_approval ep \<and>
        (isolated_profile h (rs_root e) ep \<and> (ep_net ep = False \<or> ep_hosts ep = []) \<or>
         ep_requested ep \<in> {''best_effort_local'', ''trusted_local''})))"
  using assms(6)
proof (cases rule: execute_cases)
  case (begun k e pe new)
  let ?ep = "rq_profile (pe_request pe)"
  have i: "i = infer_skill ei p" using infer_skill_run [OF assms(1)] assms(2) by simp
  have k: "str_at (nm (tp_input p)) ''skill_id'' = k"
    using begun(1) by (auto simp: get_string_def str_at_def split: option.splits gval.splits)
  have quiet: "\<not> if_approval i" "list_all (\<lambda>x. x \<noteq> ''unknown.effect'' \<and> \<not> effect_needs_approval x) (if_effects i)"
    using assms(3) by (auto simp: decide_auto Let_def list_all_iff)
  from quiet(1) [unfolded i] assms(4) obtain sp where
    sp: "fst (run_state (skill_policy_profile h (sn_manager rn) k) f) = Inr sp" "sp_approval_default sp \<noteq> ''require''" "\<not> sp_requires sp"
    "if_effects i = (if sp_effects sp = [] then [''unknown.effect''] else sp_effects sp)"
    unfolding i k [symmetric] by (rule quiet_skill)
  then obtain f0 where "run_state (skill_policy_profile h (sn_manager rn) k) f = (Inr sp, f0)" by (metis prod.collapse)
  then obtain e' ep0 box0 where e': "map_of (mg_skills (sn_manager rn)) k = Some e'"
    and b0: "run_state (build_execution_profile h e' 0 (available_sandboxes (sn_manager rn))) f = (Inr (ep0, box0), f0)"
    and shown: "sp_effects sp = effective_effects (rs_manifest e')" "sp_approval_default sp = mf_approval (rs_manifest e')" "sp_requires sp = ep_approval ep0"
    by (rule policy_profile_inv)
  from e' begun(2) have e: "e' = e" by simp
  from begun(6) obtain g where "run_state (prepare_execution h e (get_map (nm (tp_input p)) ''args'') (sn_max_chars rn) (runner_sandboxes rn)) f = (Inr pe, g)"
    by (auto simp: starts_entry_def)
  then obtain box f1 where b: "run_state (build_execution_profile h e (sn_max_chars rn) (runner_sandboxes rn)) f = (Inr (?ep, box), f1)"
    by (rule prepared_profile)
  have no_ask: "\<not> ep_approval ?ep"
    using profile_approval_limit [OF b0 [unfolded e] b [unfolded assms(5)]] shown(3) sp(3) by simp
  have effects: "list_all (\<lambda>x. x \<noteq> ''unknown.effect'' \<and> \<not> effect_needs_approval x) (effective_effects (rs_manifest e))"
    using quiet(2) sp(4) shown(1) e by (simp split: if_splits)
  have box: "isolated_profile h (rs_root e) ?ep \<and> (ep_net ?ep = False \<or> ep_hosts ?ep = []) \<or>
      ep_requested ?ep \<in> {''best_effort_local'', ''trusted_local''}"
    using unisolated_asks [OF b] no_ask by blast
  have start: "started' = started @ [(sb_name (pe_runner pe), pe_request pe)]"
    using begun(5,6) by (auto simp: starts_entry_def)
  have approval: "mf_approval (rs_manifest e) \<noteq> ''require''" using shown(2) sp(2) e by simp
  show ?thesis unfolding k Let_def
    by (rule disjI2, intro exI [of _ e] exI [of _ "sb_name (pe_runner pe)"] exI [of _ "pe_request pe"] conjI)
      (fact begun(2,3) start approval effects no_ask box)+
qed simp

section \<open>A run for examples\<close>

definition manager0 :: skill_manager where
  "manager0 = \<lparr>mg_packages = [''p''], mg_temp = [''t''], mg_boxes = [], mg_skills = [(''s'', skill0)]\<rparr>"

definition runner0 :: skill_runner where
  "runner0 = \<lparr>sn_manager = manager0, sn_boxes = [], sn_box = None, sn_max_chars = 0\<rparr>"

definition box_run0 :: boxes_run where
  "box_run0 box rq f = ((None, None), f)"

definition skill_input0 :: gmap where
  "skill_input0 = [(''skill_id'', GStr ''s''), (''args'', GMap [(''path'', GStr ''./run'')])]"

definition skill_inferrer0 :: inferrer where
  "skill_inferrer0 =
     \<lparr>ei_cfg = default_policy, ei_skills = Some (\<lambda>k. fst (run_state (skill_policy_profile host0 manager0 k) skill_files0)), ei_mcp = None\<rparr>"

lemma started0: "snd (snd (run_state (execute_skill host0 box_run0 (\<lambda>_. None) runner0 skill_input0) (skill_files0, []))) \<noteq> []"
  by code_simp

theorem only_enabled_skills_start_witness:
  "\<exists>pe f' new. starts_entry host0 box_run0 (runner_sandboxes runner0) 0 skill0 [(''path'', GStr ''./run'')] skill_files0 pe f' new"
proof -
  obtain rep f' log' where run: "run_state (execute_skill host0 box_run0 (\<lambda>_. None) runner0 skill_input0) (skill_files0, []) = (rep, f', log')"
    by (metis prod_cases3)
  have "log' \<noteq> []" using started0 run by simp
  with only_enabled_skills_start [OF run] show ?thesis
    by (auto simp: runner0_def manager0_def get_map_def get_string_def skill_input0_def split: if_splits)
qed

lemma profile0: "fst (run_state (skill_policy_profile host0 manager0 ''s'') skill_files0) =
    Inr \<lparr>sp_effects = [''read''], sp_approval_default = ''auto'', sp_enabled = True, sp_will_fallback = False, sp_requires = False\<rparr>"
  by code_simp

lemma inferred0: "infer_skill skill_inferrer0 (prop0 ''skill.run'' skill_input0) = mk_inf [''read''] ''read'' False False (95/100) skill_read_only"
proof -
  have "\<not> effect_requires_approval ''read''" by (rule effect_requires_approval_benign)
  moreover have "ei_skills skill_inferrer0 = Some (\<lambda>k. fst (run_state (skill_policy_profile host0 manager0 k) skill_files0))"
    by (simp add: skill_inferrer0_def)
  moreover have "str_at skill_input0 ''skill_id'' = ''s''" by (simp add: skill_input0_def str_at_def)
  ultimately show ?thesis
    by (simp add: infer_skill_def Let_def profile0 skill_effect_step_def skill_default_step_def skill_sandbox_step_def)
qed

theorem unasked_skill_is_isolated_witness:
  "\<exists>box rq. snd (snd (run_state (execute_skill host0 box_run0 (\<lambda>_. None) runner0 skill_input0) (skill_files0, []))) = [(box, rq)] \<and>
     \<not> ep_approval (rq_profile rq)"
proof -
  let ?p = "prop0 ''skill.run'' skill_input0"
  obtain rep f' log' where run: "run_state (execute_skill host0 box_run0 (\<lambda>_. None) runner0 skill_input0) (skill_files0, []) = (rep, f', log')"
    by (metis prod_cases3)
  have inf: "infer skill_inferrer0 ?p = Inr (mk_inf [''read''] ''read'' False False (95/100) skill_read_only)"
    by (simp add: infer_skill_run inferred0)
  have "resolve_profile default_policy ?p = the (map_of default_policy_profiles ''default'')"
    by (simp add: resolve_profile_def Let_def str_at_def trim_space_def trim_chars_def is_space_def default_policy_def default_profile
        skill_input0_def)
  moreover have "\<not> effect_needs_approval ''read''" using effect_requires_approval_benign by (auto simp: effect_requires_iff)
  ultimately have "auto (decide default_policy ?p (mk_inf [''read''] ''read'' False False (95/100) skill_read_only))"
    unfolding decide_auto
    by (simp add: default_profile Let_def threshold_def denied_def profile_denies_effect_def profile_requires_approval_def
        effect_pattern_matches_def trim_space_def trim_chars_def is_space_def suffix_def)
  from unasked_skill_is_isolated [OF _ inf this, of host0 runner0 skill_files0 box_run0 "\<lambda>_. None" "[]" rep f' log'] run started0
  show ?thesis by (auto simp: skill_inferrer0_def runner0_def manager0_def runner_sandboxes_def Let_def)
qed

end
