(* ===== verification/Spec2Isabelle.thy ===== *)
theory Spec2Isabelle
  imports Run_Planning Patch_Agreement Network_Policy Git_Safety Test_Safety Project_Tools Skill_Runs
begin

text \<open>
  \<^bold>\<open>A verification development for the local agent.\<close>

  The repository is an agent that answers chat messages on a user's machine: a planner turns a message into a tool
  proposal, the effects of the proposal are inferred, a policy decides whether the tool runs, is refused or waits for
  the user's approval, and a runtime carries the run from the message to its end. This development models that
  pipeline and the tools that act on files, git and the network, as functions that compute, and proves what each part promises.

  \<^bold>\<open>The parts and how they interact.\<close>

  \<^item> A message reaches \<open>WorkflowRuntime\<close> (\<open>internal/agent/runtime.go\<close>; theories \<open>Runtime\<close>, \<open>Run_Handlers\<close>). It asks the
    planner (\<open>internal/agent/hybrid_planner.go\<close>, \<open>planner.go\<close>; theory \<open>Planner_Heuristic\<close>), which for a new message runs the
    hybrid planner (\<open>internal/agent/planner/\<close>; theories \<open>Planner_Normalize\<close>, \<open>Planner_Catalog\<close>, \<open>Planner_Candidates\<close>,
    \<open>Planner_Router\<close>, \<open>Planner_Validate\<close>, \<open>Planner_Engine\<close>) and after a tool goes on by fixed rules.
  \<^item> A proposal goes to the tool router (\<open>internal/tools/router.go\<close>, \<open>registry.go\<close>; theory \<open>Tool_Router\<close> over the state of
    \<open>Tool_World\<close>). The router infers effects (\<open>internal/agent/effect_inference.go\<close>; theory \<open>Effect_Inference\<close>, with
    \<open>Shell_Parser\<close> and \<open>Sensitive_Paths\<close>), asks the policy engine (\<open>internal/agent/policy.go\<close>; theories \<open>Policy_Engine\<close>,
    \<open>Policy_Config\<close>), and runs the executor or opens a request in the approval centre (\<open>internal/agent/approval.go\<close>;
    theory \<open>Approval\<close>, with the texts of \<open>Messages\<close> and \<open>Ops_Rollback\<close>). A request keeps the proposal's input and a SHA-256
    digest of its JSON form (theories \<open>Core_Values\<close>, \<open>Sha256\<close>), which is checked before the approved call.
  \<^item> Runs are stored as snapshots and steps (\<open>internal/agent/workflow_state.go\<close>; theory \<open>Run_State\<close>), redacted where they
    leave the runtime (\<open>internal/security/redaction.go\<close>, \<open>secret_guard.go\<close>; theories \<open>Redaction\<close>, \<open>Regex\<close>).
  \<^item> The tools modelled: the code tools on a workspace (\<open>internal/tools/code\<close>; theories \<open>Workspace_Paths\<close>, \<open>File_System\<close>,
    \<open>Diff_Parse\<close>, \<open>Diff_Apply\<close>, \<open>Patch_Files\<close>, \<open>Patch_Validate\<close>, \<open>Test_Runner\<close>, \<open>Workspace_Walk\<close>, \<open>Project_Tools\<close>), git
    (\<open>internal/tools/gittools\<close>; \<open>Git_Tools\<close>), runbooks (\<open>internal/tools/ops/runbook.go\<close>; \<open>Ops_Runbook\<close>), and the check of
    outbound requests (\<open>internal/security/network_policy.go\<close>; \<open>Network_Policy\<close>).
  \<^item> Skills (\<open>internal/tools/skills\<close>): the manifest and its schemas (theory \<open>Skill_Manifest\<close>), the scope and the sandbox a
    manifest asks for (\<open>Skill_Plan\<close>), the request prepared for the sandbox (\<open>Skill_Request\<close>), the registry (\<open>Skill_Registry\<close>),
    packages and their installation (\<open>Skill_Packages\<close>) and runs (\<open>Skill_Runner\<close>). The registry is what the effect inference
    asks about a call of \<open>skill.run\<close>.

  The names of definitions follow the code in lower case with underscores; \<open>PROJECT.json\<close> maps each to its lines.

  \<^bold>\<open>How state and operations correspond.\<close> A struct is a record, its methods are functions of it. State that the
  code mutates is passed through the state monad: \<open>tool_world\<close> (sources of ids and times, approvals, events, executor calls
  made), which \<open>run_world\<close> extends by the stores, messages and counters of the runtime; \<open>fs_world\<close> for the file system, with a
  schedule that says which system call fails; logs of the commands given to git and of the processes started. A
  Go \<open>error\<close> is the left side of a sum; a function that can panic returns a value of \<open>go\<close>. A Go string is a list of
  bytes. A dynamic value (\<open>any\<close>, \<open>map[string]any\<close>) is a \<open>gval\<close>, whose constructors keep the dynamic types apart. A
  mutex makes an operation one step.

  \<^bold>\<open>What is given.\<close> Code outside the repository, and interfaces with several implementations, are arguments: the
  chat model, the decoding of its replies and of YAML and JSON files, executors, git, processes, what the operating system
  says of directories, the sandboxes that run a skill's request, and, to the effect inference, the registries of skills and
  MCP servers. Nothing is assumed of them but what a theorem says in its statement.

  \<^bold>\<open>What the theorems show.\<close>

  \<^item> Deciding (\<open>Policy_Engine\<close>): exactly when a proposal runs unasked, and that what does has no dangerous effect.
  \<^item> Approving (\<open>Approval\<close>, \<open>Tool_Router\<close>, \<open>Run_Safety\<close>): a request keeps its snapshot and digest for ever, is resolved once,
    and only the approved snapshot is executed. The laws of the centre are a locale, interpreted on the model.
  \<^item> Running (\<open>Run_Outcome\<close>, \<open>Run_Lifecycle\<close>, \<open>Run_Safety\<close>, \<open>Run_Planning\<close>): every run comes to rest in a stored snapshot,
    within its budget of steps, and calls only executors it may call; with the agent's planner it is short.
  \<^item> Planning (\<open>Planner_Safety\<close>, \<open>Validate_Facts\<close>, \<open>Candidate_Facts\<close>): whatever the model replies, a proposed tool is in the
    catalog and its input was validated; how often the model is asked; what the catalog lets through.
  \<^item> Patching (\<open>Diff_Facts\<close>, \<open>Diff_Apply\<close>, \<open>File_Effects\<close>, \<open>Patch_Atomic\<close>, \<open>Patch_Agreement\<close>): the parser's round trip and
    termination, application as replacement of the old lines, all-or-nothing writing under failing system calls, agreement of
    validation and application.
  \<^item> Tools (\<open>Workspace_Paths\<close>, \<open>Git_Safety\<close>, \<open>Network_Policy\<close>, \<open>Ops_Runbook\<close>, \<open>Test_Safety\<close>, \<open>Workspace_Facts\<close>): paths stay in the
    workspace, the commands that can be started, what listings and searches can return, when a commit is made, which
    requests are allowed, where a runbook stops.
  \<^item> Skills (\<open>Skill_Facts\<close>, \<open>Skill_Safety\<close>, \<open>Skill_Archives\<close>, \<open>Skill_Runs\<close>): what the check of an input against a schema looks at,
    what a prepared skill may run, read and write, where an archive can write, which processes a call starts, and that a skill
    which asks for isolation gets it or somebody is asked, from the inference of the call to the start of the process.

  \<^bold>\<open>Bounds and fuel.\<close> The diff parser's loop over hunks need not end and is a partial function; its termination is a
  theorem. Matching of regular expressions is bounded by the length of the text, since an iteration has to consume
  (\<open>replace_from_fuel\<close> shows that more fuel changes nothing). The walk of a directory is bounded by the longest path of
  the tree; that it never reaches the bound is a theorem. A run is bounded by its step budget, as in the code.

  \<^bold>\<open>Simplifications.\<close> White space and letter case are those of ASCII; text that is not valid UTF-8 is kept as bytes. Scores of
  candidates are exact numbers instead of \<open>float64\<close>. Go maps are association lists, and where the code iterates over a
  map the order is the list's. There are no symbolic links. Durations are left out of reports. Concurrency is left
  out beyond the atomic steps of the approval centre, and so are contexts that are cancelled from outside.

  \<^bold>\<open>Not modelled.\<close> The knowledge base (\<open>internal/tools/kb\<close>), MCP servers (\<open>internal/tools/mcp\<close>), memory
  (\<open>internal/tools/memory\<close>), the starting of processes by the skills' sandboxes, remote and local operations and the shell
  executor, whose work is the network, processes and stores; the repositories (\<open>internal/db\<close>), the HTTP and websocket layer (\<open>internal/api\<close>), the
  start of the program (\<open>internal/app\<close>, \<open>cmd\<close>), the terminal interface (\<open>ui/tui\<close>), the evaluation harness (\<open>internal/evals\<close>)
  and generated documentation (\<open>docs/docs.go\<close>). They call what is modelled here, or are called through the tool router as
  executors, which are arguments of the model.
\<close>

end
